(* ===== verification/Leo_Prelude.thy ===== *)
theory Leo_Prelude
  imports Main "HOL-Library.Word"
begin

text \<open>
  Shared vocabulary of the development.  The C types of the kernel sources are words of their own
  width, the kernel's arithmetic macros are total functions on words, and the collection
  \<open>wnat\<close> moves statements about words to statements about natural numbers, where the component
  proofs are done.
\<close>

unbundle bit_operations_syntax

section \<open>Types\<close>

type_synonym u8 = "8 word"
type_synonym u16 = "16 word"
type_synonym u32 = "32 word"
type_synonym u64 = "64 word"

text \<open>A C \<open>int\<close> is kept as the 32 bits it occupies; where the source reads it as a signed value the
  model writes \<open>sint\<close>, \<open><s\<close>, \<open>\<le>s\<close> or \<open>scast\<close>.\<close>

type_synonym s32 = "32 word"

text \<open>A four bit field, such as \<open>rcv_wscale\<close>.\<close>

type_synonym u4 = "4 word"

named_theorems wnat \<open>rules that read word operations as operations on nat\<close>
named_theorems leo_defs \<open>definitions of the receive window controller\<close>
named_theorems leo_frame \<open>fields that an operation leaves alone\<close>

section \<open>The kernel's arithmetic helpers\<close>

definition clamp_t :: "'a::linorder \<Rightarrow> 'a \<Rightarrow> 'a \<Rightarrow> 'a" where
  "clamp_t v lo hi = min (max v lo) hi"

definition ALIGN :: "'a::len word \<Rightarrow> 'a word \<Rightarrow> 'a word" where
  "ALIGN x a = (x + (a - 1)) AND NOT (a - 1)"

definition round_down :: "'a::len word \<Rightarrow> 'a word \<Rightarrow> 'a word" where
  "round_down x a = x AND NOT (a - 1)"

definition swap_if :: "bool \<Rightarrow> 'a \<times> 'a \<Rightarrow> 'a \<times> 'a" where
  "swap_if b p = (if b then (snd p, fst p) else p)"

definition ntohs :: "u16 \<Rightarrow> u16" where
  "ntohs x = push_bit 8 x OR drop_bit 8 x"

definition u64_of_u32 :: "u32 \<Rightarrow> u64" where
  "u64_of_u32 x = ucast x"

definition u64_of_int :: "s32 \<Rightarrow> u64" where
  "u64_of_int x = scast x"

definition u32_of_u64 :: "u64 \<Rightarrow> u32" where
  "u32_of_u64 x = ucast x"

section \<open>Reading words as natural numbers\<close>

lemma unat_min [wnat]: "unat (min a b) = min (unat a) (unat b)"
  by (simp add: min_def word_le_nat_alt)

lemma unat_max [wnat]: "unat (max a b) = max (unat a) (unat b)"
  by (simp add: max_def word_le_nat_alt)

lemma unat_div_word [wnat]: "unat (a div b) = unat a div unat b"
  for a b :: "'a::len word"
  by (rule unat_div)

lemma unat_mod_word [wnat]: "unat (a mod b) = unat a mod unat b"
  for a b :: "'a::len word"
  by (rule unat_mod)

lemma unat_drop_bit [wnat]: "unat (drop_bit n a) = unat a div 2 ^ n"
  for a :: "'a::len word"
  by (simp add: unat_drop_bit_eq flip: drop_bit_eq_div)

lemma unat_lt32 [simp]: "unat (x :: u32) < 4294967296"
  using unsigned_less [of x, where ?'a = nat] by simp

lemma unat_le32 [simp]: "unat (x :: u32) \<le> 4294967295"
  using unat_lt32 [of x] by linarith

lemma unat_lt64 [simp]: "unat (x :: u64) < 18446744073709551616"
  using unsigned_less [of x, where ?'a = nat] by simp

lemma unat_u64_of_u32 [wnat, simp]: "unat (u64_of_u32 x) = unat x"
proof -
  have "unat x < 2 ^ 64" by (rule less_trans [OF unat_lt32]) simp
  then show ?thesis by (simp add: u64_of_u32_def unsigned_ucast_eq take_bit_nat_eq_self)
qed

lemma unat_lt16 [simp]: "unat (x :: u16) < 65536"
  using unsigned_less [of x, where ?'a = nat] by simp

lemma unat_ucast16: "unat (ucast (x :: u16) :: u32) = unat x"
proof -
  have "unat x < 2 ^ 32" by (rule less_trans [OF unat_lt16]) simp
  then show ?thesis by (simp add: unsigned_ucast_eq take_bit_nat_eq_self)
qed

lemma unat_u32_of_u64 [wnat]: "unat (u32_of_u64 x) = unat x mod 2 ^ 32"
  by (simp add: u32_of_u64_def unsigned_ucast_eq take_bit_eq_mod)

lemma unat_minus_le: "b \<le> a \<Longrightarrow> unat (a - b) = unat a - unat b"
  for a b :: "'a::len word"
  by (rule unat_sub)

lemma unat_plus_small: "unat a + unat b < 2 ^ LENGTH('a) \<Longrightarrow> unat (a + b) = unat a + unat b"
  for a b :: "'a::len word"
  by (simp add: unat_word_ariths)

lemma unat_mult_small: "unat a * unat b < 2 ^ LENGTH('a) \<Longrightarrow> unat (a * b) = unat a * unat b"
  for a b :: "'a::len word"
  by (simp add: unat_word_ariths)

lemmas word_nat_ord [wnat] = word_le_nat_alt word_less_nat_alt

lemma u64_of_u32_eq_0 [simp]: "u64_of_u32 x = 0 \<longleftrightarrow> x = 0"
  by (metis unat_0 unat_eq_zero unat_u64_of_u32)

lemma u32_u64_roundtrip [simp]: "u32_of_u64 (u64_of_u32 x) = x"
  by (simp add: word_unat_eq_iff unat_u32_of_u64)

text \<open>The product of a u32 and a value below \<open>2^32\<close> never leaves 64 bits.\<close>

lemma unat_mult_u32_u64:
  assumes "unat b \<le> 4294967295"
  shows "unat (u64_of_u32 a * b) = unat a * unat b"
proof -
  have "unat a * unat b \<le> 4294967295 * 4294967295"
    using assms by (intro mult_le_mono) simp_all
  then show ?thesis by (simp add: unat_mult_small)
qed

lemma unat_ms_to_us: "unat (u64_of_u32 x * 1000) = unat x * 1000"
  using unat_mult_u32_u64 [of "1000 :: u64" x] by simp

text \<open>A non-negative C \<open>int\<close> widened to u64 keeps its value.\<close>

lemma unat_u64_of_int: "0 \<le>s x \<Longrightarrow> unat (u64_of_int x) = unat x"
proof -
  assume "0 \<le>s x"
  then have pos: "0 \<le> sint x" by (simp add: word_sle_eq)
  have small: "sint x < 2147483648" using sint_lt [of x] by simp
  have "uint x = sint x"
    using pos small by (simp add: uint_sint take_bit_int_eq_self)
  moreover have "uint (u64_of_int x) = take_bit LENGTH(64) (sint x)"
    unfolding u64_of_int_def scast_eq by (rule uint_word_of_int_eq)
  then have "uint (u64_of_int x) = sint x"
    using pos small by (simp add: take_bit_int_eq_self)
  ultimately show ?thesis by (simp add: unat_eq_nat_uint)
qed

section \<open>Clamping\<close>

lemma clamp_t_bounds: "lo \<le> hi \<Longrightarrow> lo \<le> clamp_t v lo hi \<and> clamp_t v lo hi \<le> hi"
  by (auto simp: clamp_t_def)

lemma clamp_t_id: "lo \<le> v \<Longrightarrow> v \<le> hi \<Longrightarrow> clamp_t v lo hi = v"
  by (simp add: clamp_t_def)

lemma unat_clamp_t [wnat]: "unat (clamp_t v lo hi) = clamp_t (unat v) (unat lo) (unat hi)"
  by (simp add: clamp_t_def wnat)

lemma swap_if_sorted: "swap_if (a > b) (a, b) = (min a b, max a b)"
  for a b :: "'a::linorder"
  by (auto simp: swap_if_def min_def max_def)


section \<open>Alignment\<close>

lemma unat_and_not_mask:
  fixes x :: "'a::len word"
  assumes "k < LENGTH('a)"
  shows "unat (x AND NOT (mask k)) = unat x - unat x mod 2 ^ k"
proof -
  have "x AND NOT (mask k) = x AND NOT (take_bit k x)"
    by (rule bit_word_eqI) (auto simp: bit_simps)
  also have "\<dots> = x - take_bit k x"
    by (rule disjunctive_diff_eq_and_not [symmetric]) (rule bit_word_eqI, auto simp: bit_simps)
  finally have eq: "x AND NOT (mask k) = x - take_bit k x" .
  have tb: "unat (take_bit k x) = unat x mod 2 ^ k"
    by (simp add: unsigned_take_bit_eq flip: take_bit_eq_mod)
  then have "take_bit k x \<le> x" by (simp add: word_le_nat_alt)
  then show ?thesis by (simp add: eq unat_minus_le tb)
qed

lemma pow2_minus_1: "2 ^ k - 1 = (mask k :: 'a::len word)"
  by (simp add: mask_eq_exp_minus_1)

lemma unat_round_down_pow2:
  fixes x :: "'a::len word"
  assumes "k < LENGTH('a)"
  shows "unat (round_down x (2 ^ k)) = unat x div 2 ^ k * 2 ^ k"
  unfolding round_down_def pow2_minus_1 unat_and_not_mask [OF assms]
  by (simp add: minus_mod_eq_div_mult)

lemma unat_mask:
  assumes "k < LENGTH('a)"
  shows "unat (mask k :: 'a::len word) = 2 ^ k - 1"
proof -
  have "unat (mask k :: 'a word) = unat (of_nat (mask k) :: 'a word)"
    by (simp only: of_nat_mask_eq)
  also have "\<dots> = mask k"
    using assms by (simp add: unsigned_of_nat take_bit_of_mask min_def)
  finally show ?thesis by (simp add: mask_eq_exp_minus_1)
qed

lemma unat_pow2:
  assumes "k < LENGTH('a)"
  shows "unat (2 ^ k :: 'a::len word) = 2 ^ k"
proof -
  have "unat (2 ^ k :: 'a word) = unat (of_nat (2 ^ k) :: 'a word)" by simp
  also have "\<dots> = 2 ^ k"
    using assms by (simp only: unsigned_of_nat) (simp add: take_bit_nat_eq_self)
  finally show ?thesis .
qed

text \<open>Aligning up gives the least multiple of the scale above the value, unless that leaves the word.\<close>

lemma unat_ALIGN_pow2:
  fixes x :: "'a::len word"
  assumes "k < LENGTH('a)" and "unat x + (2 ^ k - 1) < 2 ^ LENGTH('a)"
  shows "unat (ALIGN x (2 ^ k)) = (unat x + (2 ^ k - 1)) div 2 ^ k * 2 ^ k"
proof -
  have "unat (x + mask k) = unat x + (2 ^ k - 1)"
    using assms by (simp add: unat_plus_small unat_mask)
  then show ?thesis
    unfolding ALIGN_def pow2_minus_1 unat_and_not_mask [OF assms(1)]
    by (simp add: minus_mod_eq_div_mult)
qed

lemma ALIGN_pow2_ge:
  fixes x :: "'a::len word"
  assumes "k < LENGTH('a)" and "unat x + (2 ^ k - 1) < 2 ^ LENGTH('a)"
  shows "x \<le> ALIGN x (2 ^ k)"
proof -
  let ?n = "unat x + (2 ^ k - 1)"
  have "?n mod 2 ^ k < 2 ^ k" by simp
  moreover have "?n div 2 ^ k * 2 ^ k = ?n - ?n mod 2 ^ k" by (simp add: minus_mod_eq_div_mult)
  ultimately have "unat x \<le> ?n div 2 ^ k * 2 ^ k" by linarith
  then show ?thesis by (simp add: word_le_nat_alt unat_ALIGN_pow2 [OF assms])
qed

lemma ALIGN_1 [simp]: "ALIGN x 1 = x"
  by (simp add: ALIGN_def)

lemma unat4_less [simp]: "unat (w :: u4) < 16"
  using unsigned_less [of w, where ?'a = nat] by simp

lemma unat4_less32 [simp]: "unat (w :: u4) < 32"
  by (rule less_trans [OF unat4_less]) simp

end
