(* ===== verification/Leo_State.thy ===== *)
theory Leo_State
  imports Leo_Prelude
begin

text \<open>
  The data the receive window controller works on: the phases and the per-socket controller state
  of \<open>tcp_redhat.h\<close>, the sysctls of a network namespace (\<open>ipv4.h\<close>) with the values
  \<open>tcp_sk_init\<close> gives them, and the fields of a TCP socket (\<open>tcp.h\<close>) that the controller and the
  window selection read or write.
\<close>

section \<open>Controller state\<close>

datatype tcp_leo_phase =
    TCP_LEO_NORMAL
  | TCP_LEO_PRE_HANDOVER
  | TCP_LEO_DRAIN
  | TCP_LEO_OUTAGE
  | TCP_LEO_RECOVERY

text \<open>The flags of the C struct are \<open>u8\<close> fields that hold 0 or 1; here they are truth values.
  \<open>current_phase\<close> is a \<open>u8\<close> that holds an enumerator.\<close>

record tcp_leo_dynamic_state =
  last_sample_us :: u64
  last_bytes_received :: u64
  recv_rate_Bps_ewma :: u64
  rtt_us :: u32
  rtt_baseline_us :: u32
  normal_rwnd_ewma :: u32
  frozen_period_id :: u64
  frozen_rtt_us :: u32
  frozen_rtt_half_us :: u32
  frozen_recv_rate_Bps :: u64
  frozen_start_rwnd :: u32
  frozen_min_rwnd :: u32
  frozen_pre_us :: u32
  frozen_outage_us :: u32
  frozen_drain_us :: u32
  frozen_recovery_us :: u32
  frozen_prediction_guard_us :: u32
  frozen_pre_start_wnd :: u32
  frozen_pre_start_rcv_nxt :: u32
  pre_started :: bool
  recovery_started :: bool
  recovery_start_real_us :: u64
  initialized :: bool
  frozen :: bool
  current_phase :: tcp_leo_phase

text \<open>\<open>memset(st, 0, sizeof( *st))\<close>: every number is 0, every flag is clear, and phase 0 is
  \<open>TCP_LEO_NORMAL\<close>.\<close>

definition leo_state_zero :: tcp_leo_dynamic_state where
  "leo_state_zero =
     \<lparr>last_sample_us = 0, last_bytes_received = 0, recv_rate_Bps_ewma = 0, rtt_us = 0,
      rtt_baseline_us = 0, normal_rwnd_ewma = 0, frozen_period_id = 0, frozen_rtt_us = 0,
      frozen_rtt_half_us = 0, frozen_recv_rate_Bps = 0, frozen_start_rwnd = 0,
      frozen_min_rwnd = 0, frozen_pre_us = 0, frozen_outage_us = 0, frozen_drain_us = 0,
      frozen_recovery_us = 0, frozen_prediction_guard_us = 0, frozen_pre_start_wnd = 0,
      frozen_pre_start_rcv_nxt = 0, pre_started = False, recovery_started = False,
      recovery_start_real_us = 0, initialized = False, frozen = False,
      current_phase = TCP_LEO_NORMAL\<rparr>"

section \<open>Sysctls of a network namespace\<close>

record netns_leo =
  sysctl_tcp_leo_rwnd_enable :: u32
  sysctl_tcp_leo_rwnd_period_ms :: u32
  sysctl_tcp_leo_rwnd_offset_ms :: u32
  sysctl_tcp_leo_rwnd_pre_ms :: u32
  sysctl_tcp_leo_rwnd_outage_ms :: u32
  sysctl_tcp_leo_rwnd_min_segs :: u32
  sysctl_tcp_leo_rwnd_debug :: u32
  sysctl_tcp_leo_rwnd_recovery_ms :: u32
  sysctl_tcp_leo_rwnd_fast_recovery :: u32
  sysctl_tcp_leo_dynamic_enable :: s32
  sysctl_tcp_leo_dynamic_sample_ms :: s32
  sysctl_tcp_leo_dynamic_freeze_guard_ms :: s32
  sysctl_tcp_leo_dynamic_pre_min_ms :: s32
  sysctl_tcp_leo_dynamic_pre_max_ms :: s32
  sysctl_tcp_leo_dynamic_outage_min_ms :: s32
  sysctl_tcp_leo_dynamic_outage_max_ms :: s32
  sysctl_tcp_leo_dynamic_outage_guard_ms :: s32
  sysctl_tcp_leo_dynamic_drain_min_ms :: s32
  sysctl_tcp_leo_dynamic_drain_max_ms :: s32
  sysctl_tcp_leo_dynamic_fallback_rtt_ms :: s32
  sysctl_tcp_leo_dynamic_fallback_rate_mbps :: s32
  sysctl_tcp_leo_dynamic_ewma_shift :: s32
  sysctl_tcp_leo_dynamic_allow_ports :: "u32 list"
  sysctl_tcp_leo_dynamic_prediction_guard_ms :: s32
  sysctl_tcp_leo_dynamic_pred_guard_to_outage :: s32
  sysctl_tcp_leo_dynamic_recovery_enable :: s32
  sysctl_tcp_leo_dynamic_recovery_min_ms :: s32
  sysctl_tcp_leo_dynamic_recovery_max_ms :: s32

text \<open>The sysctls of ordinary TCP that the window selection reads.\<close>

record netns_ipv4 = netns_leo +
  sysctl_tcp_shrink_window :: u8
  sysctl_tcp_workaround_signed_windows :: u8
  sysctl_tcp_rmem2 :: s32

text \<open>The part of \<open>tcp_sk_init\<close> that sets up the controller.\<close>

definition tcp_sk_init_leo :: "'a netns_leo_scheme \<Rightarrow> 'a netns_leo_scheme" where
  "tcp_sk_init_leo net = net\<lparr>
     sysctl_tcp_leo_rwnd_enable := 1,
     sysctl_tcp_leo_rwnd_period_ms := 15000,
     sysctl_tcp_leo_rwnd_offset_ms := 12000,
     sysctl_tcp_leo_rwnd_pre_ms := 150,
     sysctl_tcp_leo_rwnd_outage_ms := 100,
     sysctl_tcp_leo_rwnd_min_segs := 4,
     sysctl_tcp_leo_rwnd_debug := 1,
     sysctl_tcp_leo_rwnd_recovery_ms := 0,
     sysctl_tcp_leo_rwnd_fast_recovery := 1,
     sysctl_tcp_leo_dynamic_enable := 1,
     sysctl_tcp_leo_dynamic_sample_ms := 50,
     sysctl_tcp_leo_dynamic_freeze_guard_ms := 50,
     sysctl_tcp_leo_dynamic_pre_min_ms := 20,
     sysctl_tcp_leo_dynamic_pre_max_ms := 300,
     sysctl_tcp_leo_dynamic_outage_min_ms := 10,
     sysctl_tcp_leo_dynamic_outage_max_ms := 80,
     sysctl_tcp_leo_dynamic_outage_guard_ms := 5,
     sysctl_tcp_leo_dynamic_drain_min_ms := 10,
     sysctl_tcp_leo_dynamic_drain_max_ms := 80,
     sysctl_tcp_leo_dynamic_fallback_rtt_ms := 70,
     sysctl_tcp_leo_dynamic_fallback_rate_mbps := 250,
     sysctl_tcp_leo_dynamic_ewma_shift := 3,
     sysctl_tcp_leo_dynamic_allow_ports := [20075, 20076, 0, 0],
     sysctl_tcp_leo_dynamic_prediction_guard_ms := 30,
     sysctl_tcp_leo_dynamic_pred_guard_to_outage := 1,
     sysctl_tcp_leo_dynamic_recovery_min_ms := 20,
     sysctl_tcp_leo_dynamic_recovery_max_ms := 80,
     sysctl_tcp_leo_dynamic_recovery_enable := 1\<rparr>"

section \<open>Socket\<close>

text \<open>\<open>struct tcp_sock\<close> embeds \<open>inet_connection_sock\<close>, which embeds \<open>inet_sock\<close>: one record.
  \<open>inet_sport\<close> and \<open>inet_dport\<close> are in network byte order.  \<open>rcv_wscale\<close> is a four bit field.\<close>

record sock =
  inet_sport :: u16
  inet_dport :: u16
  icsk_ack_rcv_mss :: u16
  icsk_ack_nomem :: bool
  icsk_ack_quick :: u8
  advmss :: u16
  rcv_wscale :: u4
  rcv_rtt_est_rtt_us :: u32
  bytes_received :: u64
  rcv_nxt :: u32
  rcv_wnd :: u32
  rcv_wup :: u32
  rcv_ssthresh :: u32
  window_clamp :: u32
  pred_flags :: u32
  leo_state :: tcp_leo_dynamic_state

abbreviation upd_leo :: "(tcp_leo_dynamic_state \<Rightarrow> tcp_leo_dynamic_state) \<Rightarrow> sock \<Rightarrow> sock" where
  "upd_leo f sk \<equiv> sk\<lparr>leo_state := f (leo_state sk)\<rparr>"

text \<open>The phases in which the controller holds the window down, against an anchor taken at the
  start of the handover.\<close>

definition controlled :: "tcp_leo_phase \<Rightarrow> bool" where
  "controlled p \<longleftrightarrow> p = TCP_LEO_PRE_HANDOVER \<or> p = TCP_LEO_DRAIN \<or> p = TCP_LEO_OUTAGE"

lemma controlled_simps [simp]:
  "controlled TCP_LEO_PRE_HANDOVER" "controlled TCP_LEO_DRAIN" "controlled TCP_LEO_OUTAGE"
  "\<not> controlled TCP_LEO_NORMAL" "\<not> controlled TCP_LEO_RECOVERY"
  by (simp_all add: controlled_def)

text \<open>A namespace as it is after boot, for evaluation at concrete inputs.\<close>

definition boot_netns :: netns_ipv4 where
  "boot_netns = tcp_sk_init_leo
     \<lparr>sysctl_tcp_leo_rwnd_enable = 0, sysctl_tcp_leo_rwnd_period_ms = 0,
      sysctl_tcp_leo_rwnd_offset_ms = 0, sysctl_tcp_leo_rwnd_pre_ms = 0,
      sysctl_tcp_leo_rwnd_outage_ms = 0, sysctl_tcp_leo_rwnd_min_segs = 0,
      sysctl_tcp_leo_rwnd_debug = 0, sysctl_tcp_leo_rwnd_recovery_ms = 0,
      sysctl_tcp_leo_rwnd_fast_recovery = 0, sysctl_tcp_leo_dynamic_enable = 0,
      sysctl_tcp_leo_dynamic_sample_ms = 0, sysctl_tcp_leo_dynamic_freeze_guard_ms = 0,
      sysctl_tcp_leo_dynamic_pre_min_ms = 0, sysctl_tcp_leo_dynamic_pre_max_ms = 0,
      sysctl_tcp_leo_dynamic_outage_min_ms = 0, sysctl_tcp_leo_dynamic_outage_max_ms = 0,
      sysctl_tcp_leo_dynamic_outage_guard_ms = 0, sysctl_tcp_leo_dynamic_drain_min_ms = 0,
      sysctl_tcp_leo_dynamic_drain_max_ms = 0, sysctl_tcp_leo_dynamic_fallback_rtt_ms = 0,
      sysctl_tcp_leo_dynamic_fallback_rate_mbps = 0, sysctl_tcp_leo_dynamic_ewma_shift = 0,
      sysctl_tcp_leo_dynamic_allow_ports = [0, 0, 0, 0],
      sysctl_tcp_leo_dynamic_prediction_guard_ms = 0,
      sysctl_tcp_leo_dynamic_pred_guard_to_outage = 0,
      sysctl_tcp_leo_dynamic_recovery_enable = 0, sysctl_tcp_leo_dynamic_recovery_min_ms = 0,
      sysctl_tcp_leo_dynamic_recovery_max_ms = 0, sysctl_tcp_shrink_window = 1,
      sysctl_tcp_workaround_signed_windows = 0, sysctl_tcp_rmem2 = 6291456\<rparr>"

end
