(* ===== verification/Leo_Measure.thy ===== *)
theory Leo_Measure
  imports Leo_State
begin

text \<open>
  First half of \<open>tcp_redhat.c\<close>: clocks, averages, the port filter, the position in the handover
  period, the measurements, and the durations derived from them.
\<close>

section \<open>Definitions\<close>

definition leo_now_real_us :: "u64 \<Rightarrow> u64" where
  "leo_now_real_us real_ns = real_ns div 1000"

definition leo_now_mono_us :: "u64 \<Rightarrow> u64" where
  "leo_now_mono_us mono_ns = mono_ns div 1000"

definition leo_ewma_u32 :: "u32 \<Rightarrow> u32 \<Rightarrow> u32 \<Rightarrow> u32" where
  "leo_ewma_u32 old sample shift =
     (if old = 0 then sample
      else let shift = clamp_t shift 1 8
           in old - drop_bit (unat shift) old + drop_bit (unat shift) sample)"

definition leo_ewma_u64 :: "u64 \<Rightarrow> u64 \<Rightarrow> u32 \<Rightarrow> u64" where
  "leo_ewma_u64 old sample shift =
     (if old = 0 then sample
      else let shift = clamp_t shift 1 8
           in old - drop_bit (unat shift) old + drop_bit (unat shift) sample)"

text \<open>The loop over the four slots; 0 is an unused slot.\<close>

fun leo_port_loop :: "u16 \<Rightarrow> u16 \<Rightarrow> u32 list \<Rightarrow> bool" where
  "leo_port_loop sport dport [] = False"
| "leo_port_loop sport dport (port # ports) =
     (if port = 0 then leo_port_loop sport dport ports
      else if ucast sport = port \<or> ucast dport = port then True
      else leo_port_loop sport dport ports)"

definition tcp_leo_port_matches :: "'a netns_leo_scheme \<Rightarrow> sock \<Rightarrow> bool" where
  "tcp_leo_port_matches net sk =
     leo_port_loop (ntohs (inet_sport sk)) (ntohs (inet_dport sk))
       (take 4 (sysctl_tcp_leo_dynamic_allow_ports net))"

definition leo_period_position_us :: "'a netns_leo_scheme \<Rightarrow> u64 \<Rightarrow> u64" where
  "leo_period_position_us net now_us =
     (let period_us = u64_of_u32 (sysctl_tcp_leo_rwnd_period_ms net) * 1000;
          offset_us = u64_of_u32 (sysctl_tcp_leo_rwnd_offset_ms net) * 1000
      in if period_us = 0 then 0
         else (now_us + period_us - (offset_us mod period_us)) mod period_us)"

definition leo_period_id :: "'a netns_leo_scheme \<Rightarrow> u64 \<Rightarrow> u64" where
  "leo_period_id net now_us =
     (let period_us = u64_of_u32 (sysctl_tcp_leo_rwnd_period_ms net) * 1000;
          offset_us = u64_of_u32 (sysctl_tcp_leo_rwnd_offset_ms net) * 1000
      in if period_us = 0 then 0
         else (now_us + period_us - (offset_us mod period_us)) div period_us)"

definition TCP_MSS_DEFAULT :: u32 where
  "TCP_MSS_DEFAULT = 536"

definition leo_min_rwnd :: "'a netns_leo_scheme \<Rightarrow> sock \<Rightarrow> u32" where
  "leo_min_rwnd net sk =
     (let min_segs = max 1 (sysctl_tcp_leo_rwnd_min_segs net);
          mss = (ucast (icsk_ack_rcv_mss sk) :: u32);
          mss = (if mss = 0 then ucast (advmss sk) else mss);
          mss = (if mss = 0 then TCP_MSS_DEFAULT else mss);
          scale = push_bit (unat (rcv_wscale sk)) 1
      in ALIGN (min_segs * mss) scale)"

definition leo_read_receiver_rtt_us :: "'a netns_leo_scheme \<Rightarrow> sock \<Rightarrow> u32" where
  "leo_read_receiver_rtt_us net sk =
     (let rtt_us = drop_bit 3 (rcv_rtt_est_rtt_us sk)
      in if rtt_us = 0 then max 1 (sysctl_tcp_leo_dynamic_fallback_rtt_ms net) * 1000
         else rtt_us)"

definition leo_fallback_rate_Bps :: "'a netns_leo_scheme \<Rightarrow> u64" where
  "leo_fallback_rate_Bps net =
     (let mbps = u64_of_u32 (max 1 (sysctl_tcp_leo_dynamic_fallback_rate_mbps net))
      in (mbps * 1000000) div 8)"

definition leo_update_measurements ::
  "'a netns_leo_scheme \<Rightarrow> sock \<Rightarrow> u32 \<Rightarrow> u64 \<Rightarrow> tcp_leo_phase \<Rightarrow> sock" where
  "leo_update_measurements net sk normal_win now_us phase =
     (let st = leo_state sk;
          sample_ms = max 1 (sysctl_tcp_leo_dynamic_sample_ms net);
          shift = sysctl_tcp_leo_dynamic_ewma_shift net
      in if \<not> initialized st then
           sk\<lparr>leo_state := leo_state_zero\<lparr>
             last_sample_us := now_us,
             last_bytes_received := bytes_received sk,
             normal_rwnd_ewma := normal_win,
             rtt_us := leo_read_receiver_rtt_us net sk,
             rtt_baseline_us := leo_read_receiver_rtt_us net sk,
             recv_rate_Bps_ewma := leo_fallback_rate_Bps net,
             current_phase := TCP_LEO_NORMAL,
             initialized := True\<rparr>\<rparr>
         else
           let delta_us = now_us - last_sample_us st
           in if delta_us < u64_of_u32 sample_ms * 1000 then sk
              else
                let bytes_now = bytes_received sk;
                    delta_bytes = bytes_now - last_bytes_received st;
                    st = (if phase = TCP_LEO_NORMAL
                          then st\<lparr>recv_rate_Bps_ewma :=
                                 leo_ewma_u64 (recv_rate_Bps_ewma st)
                                   (if delta_bytes \<noteq> 0 then (delta_bytes * 1000000) div delta_us
                                    else 0) shift\<rparr>
                          else st);
                    rtt_sample_us = leo_read_receiver_rtt_us net sk;
                    st = st\<lparr>rtt_us := rtt_sample_us\<rparr>;
                    st = (if phase = TCP_LEO_NORMAL
                          then st\<lparr>rtt_baseline_us :=
                                 leo_ewma_u32 (rtt_baseline_us st) rtt_sample_us shift\<rparr>
                          else st);
                    st = (if phase = TCP_LEO_NORMAL
                          then st\<lparr>normal_rwnd_ewma :=
                                 leo_ewma_u32 (normal_rwnd_ewma st) normal_win shift\<rparr>
                          else st);
                    st = st\<lparr>last_bytes_received := bytes_now, last_sample_us := now_us\<rparr>
                in sk\<lparr>leo_state := st\<rparr>)"

definition leo_calc_pre_us :: "'a netns_leo_scheme \<Rightarrow> u32 \<Rightarrow> u32 \<Rightarrow> u64 \<Rightarrow> u32" where
  "leo_calc_pre_us net start_rwnd min_rwnd rate_Bps =
     (let min_us = u64_of_u32 (max 1 (sysctl_tcp_leo_dynamic_pre_min_ms net)) * 1000;
          max_us = u64_of_u32 (max 1 (sysctl_tcp_leo_dynamic_pre_max_ms net)) * 1000
      in if start_rwnd \<le> min_rwnd \<or> rate_Bps = 0 then u32_of_u64 min_us
         else
           let delta_bytes = u64_of_u32 (start_rwnd - min_rwnd);
               pre_us = (delta_bytes * 1000000) div rate_Bps;
               (min_us, max_us) = swap_if (min_us > max_us) (min_us, max_us)
           in u32_of_u64 (clamp_t pre_us min_us max_us))"

definition leo_prediction_guard_us :: "'a netns_leo_scheme \<Rightarrow> u32" where
  "leo_prediction_guard_us net =
     u32_of_u64 (u64_of_int (sysctl_tcp_leo_dynamic_prediction_guard_ms net) * 1000)"

definition leo_calc_drain_us :: "'a netns_leo_scheme \<Rightarrow> u32 \<Rightarrow> u32" where
  "leo_calc_drain_us net rtt =
     (let min_us = u64_of_int (sysctl_tcp_leo_dynamic_drain_min_ms net) * 1000;
          max_us = u64_of_int (sysctl_tcp_leo_dynamic_drain_max_ms net) * 1000;
          (min_us, max_us) = swap_if (min_us > max_us) (min_us, max_us);
          drain_us = u64_of_u32 (rtt div 2)
      in u32_of_u64 (clamp_t drain_us min_us max_us))"

definition leo_calc_recovery_us :: "'a netns_leo_scheme \<Rightarrow> u32 \<Rightarrow> u32" where
  "leo_calc_recovery_us net rtt =
     (if sysctl_tcp_leo_dynamic_recovery_enable net = 0 then 0
      else
        let min_us = u64_of_int (sysctl_tcp_leo_dynamic_recovery_min_ms net) * 1000;
            max_us = u64_of_int (sysctl_tcp_leo_dynamic_recovery_max_ms net) * 1000;
            (min_us, max_us) = swap_if (min_us > max_us) (min_us, max_us);
            recovery_us = u64_of_u32 (rtt div 2)
        in u32_of_u64 (clamp_t recovery_us min_us max_us))"

definition leo_calc_outage_us :: "'a netns_leo_scheme \<Rightarrow> u32 \<Rightarrow> u32 \<Rightarrow> u32" where
  "leo_calc_outage_us net rtt rtt_min =
     (let min_us = u64_of_int (sysctl_tcp_leo_dynamic_outage_min_ms net) * 1000;
          max_us = u64_of_int (sysctl_tcp_leo_dynamic_outage_max_ms net) * 1000;
          guard_us = u64_of_int (sysctl_tcp_leo_dynamic_outage_guard_ms net) * 1000;
          prediction_guard_us = u64_of_u32 (leo_prediction_guard_us net);
          (min_us, max_us) = swap_if (min_us > max_us) (min_us, max_us);
          theoretical_min = (if rtt > rtt_min then u64_of_u32 ((rtt - rtt_min) div 2) else 0);
          outage_us = (if sysctl_tcp_leo_dynamic_pred_guard_to_outage net \<noteq> 0
                       then theoretical_min + guard_us + prediction_guard_us
                       else theoretical_min + guard_us);
          outage_us = clamp_t outage_us min_us (max_us + prediction_guard_us);
          outage_us = min outage_us (u64_of_u32 (rtt div 2))
      in u32_of_u64 outage_us)"

lemmas leo_calc_defs [leo_defs] =
  leo_calc_pre_us_def leo_calc_drain_us_def leo_calc_recovery_us_def leo_calc_outage_us_def
  leo_prediction_guard_us_def


section \<open>Averages\<close>

text \<open>What the controller relies on of a moving average: it starts at the first sample, a constant
  input is a fixed point, and it never leaves the interval of its two inputs.\<close>

locale leo_average =
  fixes avg :: "'w::{linorder,zero} \<Rightarrow> 'w \<Rightarrow> u32 \<Rightarrow> 'w"
  assumes avg_start: "avg 0 x k = x"
    and avg_fixpoint: "avg x x k = x"
    and avg_lower: "old \<noteq> 0 \<Longrightarrow> min old x \<le> avg old x k"
    and avg_upper: "old \<noteq> 0 \<Longrightarrow> avg old x k \<le> max old x"
begin

lemma avg_interval:
  assumes "old = 0 \<or> lo \<le> old" and "old \<le> hi" and "lo \<le> x" and "x \<le> hi"
  shows "lo \<le> avg old x k \<and> avg old x k \<le> hi"
proof (cases "old = 0")
  case True
  with assms show ?thesis by (simp add: avg_start)
next
  case False
  from avg_lower [OF False, of x k] avg_upper [OF False, of x k] assms False
  show ?thesis by (auto simp: min_def max_def split: if_splits)
qed

lemma avg_run_interval:
  assumes "\<And>x. x \<in> set xs \<Longrightarrow> lo \<le> x \<and> x \<le> hi" and "lo \<le> old" and "old \<le> hi"
  shows "lo \<le> foldl (\<lambda>a x. avg a x k) old xs \<and> foldl (\<lambda>a x. avg a x k) old xs \<le> hi"
  using assms
proof (induction xs arbitrary: old)
  case Nil
  then show ?case by simp
next
  case (Cons y ys)
  then have "lo \<le> avg old y k \<and> avg old y k \<le> hi"
    by (intro avg_interval) simp_all
  with Cons show ?case by simp
qed

end

lemma div_pow2_mono_diff: "x \<le> y \<Longrightarrow> y div 2 ^ k - x div 2 ^ k \<le> y - (x::nat)"
proof -
  assume "x \<le> y"
  then obtain d where y: "y = x + d" by (auto simp: le_iff_add)
  have "(x + d) div 2 ^ k \<le> x div 2 ^ k + d"
  proof (cases "(2::nat) ^ k = 1")
    case True
    then show ?thesis by simp
  next
    case False
    have "(x + d) div 2 ^ k \<le> (x + 2 ^ k * d) div 2 ^ k"
      by (intro div_le_mono) simp
    then show ?thesis by simp
  qed
  with y show ?thesis by simp
qed

lemma ewma_nat_bounds:
  fixes x y :: nat
  shows "min x y \<le> x - x div 2 ^ k + y div 2 ^ k" and "x - x div 2 ^ k + y div 2 ^ k \<le> max x y"
proof -
  have x: "x div 2 ^ k \<le> x" by simp
  have le: "x \<le> y \<Longrightarrow> x div 2 ^ k \<le> y div 2 ^ k" and ge: "y \<le> x \<Longrightarrow> y div 2 ^ k \<le> x div 2 ^ k"
    by (simp_all add: div_le_mono)
  show "min x y \<le> x - x div 2 ^ k + y div 2 ^ k"
    using x le ge div_pow2_mono_diff [of y x k] by (cases "x \<le> y") auto
  show "x - x div 2 ^ k + y div 2 ^ k \<le> max x y"
    using x le ge div_pow2_mono_diff [of x y k] by (cases "x \<le> y") auto
qed

lemma ewma_word:
  fixes x y :: "'a::len word"
  shows "unat (x - drop_bit k x + drop_bit k y) = unat x - unat x div 2 ^ k + unat y div 2 ^ k"
proof -
  have le: "drop_bit k x \<le> x" by (simp add: wnat)
  have "unat x - unat x div 2 ^ k + unat y div 2 ^ k \<le> max (unat x) (unat y)"
    by (rule ewma_nat_bounds)
  also have "\<dots> < 2 ^ LENGTH('a)" by simp
  finally show ?thesis by (simp add: unat_plus_small unat_minus_le [OF le] unat_drop_bit)
qed

lemma ewma_word_between:
  fixes x y :: "'a::len word"
  shows "min x y \<le> x - drop_bit k x + drop_bit k y" and "x - drop_bit k x + drop_bit k y \<le> max x y"
  using ewma_nat_bounds(1) [of "unat x" "unat y" k] ewma_nat_bounds(2) [of "unat x" k "unat y"]
  by (simp_all add: wnat ewma_word)

interpretation ewma32: leo_average leo_ewma_u32
  by unfold_locales (auto simp: leo_ewma_u32_def Let_def ewma_word_between)

interpretation ewma64: leo_average leo_ewma_u64
  by unfold_locales (auto simp: leo_ewma_u64_def Let_def ewma_word_between)

section \<open>The port filter\<close>

lemma leo_port_loop_iff:
  "leo_port_loop sport dport ports \<longleftrightarrow>
     (\<exists>port \<in> set ports. port \<noteq> 0 \<and> (ucast sport = port \<or> ucast dport = port))"
  by (induction ports) auto

section \<open>The position in the handover period\<close>

abbreviation period_us_of :: "'a netns_leo_scheme \<Rightarrow> nat" where
  "period_us_of net \<equiv> unat (sysctl_tcp_leo_rwnd_period_ms net) * 1000"

abbreviation offset_us_of :: "'a netns_leo_scheme \<Rightarrow> nat" where
  "offset_us_of net \<equiv> unat (sysctl_tcp_leo_rwnd_offset_ms net) * 1000"

lemma period_us_eq_0: "u64_of_u32 p * 1000 = 0 \<longleftrightarrow> p = 0"
  using unat_ms_to_us [of p] by (metis mult_eq_0_iff unat_0 unat_eq_zero zero_neq_numeral)

text \<open>As long as the clock is at least one period away from wrapping, the shifted time is the exact
  number.\<close>

lemma unat_shifted_time:
  assumes "unat now + period_us_of net < 2 ^ 64" and "sysctl_tcp_leo_rwnd_period_ms net \<noteq> 0"
  shows "unat (now + u64_of_u32 (sysctl_tcp_leo_rwnd_period_ms net) * 1000 -
           (u64_of_u32 (sysctl_tcp_leo_rwnd_offset_ms net) * 1000) mod
           (u64_of_u32 (sysctl_tcp_leo_rwnd_period_ms net) * 1000))
         = unat now + period_us_of net - offset_us_of net mod period_us_of net"
    (is "unat (now + ?p - ?o mod ?p) = _")
proof -
  have p: "unat ?p = period_us_of net" and ou: "unat ?o = offset_us_of net"
    by (simp_all add: unat_ms_to_us)
  have sum: "unat (now + ?p) = unat now + period_us_of net"
    using assms by (simp add: unat_plus_small p)
  have pos: "0 < period_us_of net" using assms(2) by (simp add: unat_gt_0)
  have "offset_us_of net mod period_us_of net < period_us_of net" using pos by (rule mod_less_divisor)
  then have "?o mod ?p \<le> now + ?p"
    by (simp add: word_le_nat_alt sum unat_mod_word p ou)
  then show ?thesis
    by (simp add: unat_minus_le sum unat_mod_word p ou)
qed

lemma unat_leo_period_position_us:
  assumes "unat now + period_us_of net < 2 ^ 64" and "sysctl_tcp_leo_rwnd_period_ms net \<noteq> 0"
  shows "unat (leo_period_position_us net now) =
           (unat now + period_us_of net - offset_us_of net mod period_us_of net) mod period_us_of net"
  using unat_shifted_time [OF assms] assms(2)
  by (simp add: leo_period_position_us_def Let_def period_us_eq_0 unat_mod_word unat_ms_to_us)

lemma unat_leo_period_id:
  assumes "unat now + period_us_of net < 2 ^ 64" and "sysctl_tcp_leo_rwnd_period_ms net \<noteq> 0"
  shows "unat (leo_period_id net now) =
           (unat now + period_us_of net - offset_us_of net mod period_us_of net) div period_us_of net"
  using unat_shifted_time [OF assms] assms(2)
  by (simp add: leo_period_id_def Let_def period_us_eq_0 unat_div_word unat_ms_to_us)

lemma mod_mono_same_div:
  fixes x y p :: nat
  assumes "x \<le> y" and "x div p = y div p"
  shows "x mod p \<le> y mod p"
  unfolding modulo_nat_def assms(2) using assms(1) by (rule diff_le_mono)

lemma leo_period_position_less:
  assumes "sysctl_tcp_leo_rwnd_period_ms net \<noteq> 0"
  shows "unat (leo_period_position_us net now) < period_us_of net"
  using assms
  by (simp add: leo_period_position_us_def Let_def period_us_eq_0 unat_mod_word unat_ms_to_us unat_gt_0)


section \<open>Durations\<close>

text \<open>A millisecond setting is sane when it is not negative and its microseconds fit 32 bits (about
  71 minutes).\<close>

definition ms_ok :: "s32 \<Rightarrow> bool" where
  "ms_ok x \<longleftrightarrow> 0 \<le>s x \<and> unat x \<le> 4294967"

lemma ms_ok_us: "ms_ok x \<Longrightarrow> unat (u64_of_int x * 1000) = unat x * 1000"
proof -
  assume "ms_ok x"
  then have "unat (u64_of_int x) = unat x" and "unat x \<le> 4294967"
    by (simp_all add: ms_ok_def unat_u64_of_int)
  then show ?thesis by (simp add: unat_mult_small)
qed

lemma ms_ok_us_lt: "ms_ok x \<Longrightarrow> unat x * 1000 < 4294967296"
  by (simp add: ms_ok_def)

text \<open>Clamping to a sorted interval that fits 32 bits loses nothing in the conversion.\<close>

lemma unat_clamp_u32:
  assumes "unat hi < 4294967296"
  shows "unat (u32_of_u64 (clamp_t v lo hi)) = clamp_t (unat v) (unat lo) (unat hi)"
  using assms by (simp add: wnat clamp_t_def min_def)

lemma unat_u32_min: "unat (u32_of_u64 (min x (u64_of_u32 y))) = min (unat x) (unat y)"
proof -
  have "min (unat x) (unat y) < 4294967296" using unat_lt32 [of y] by linarith
  then show ?thesis by (simp add: wnat)
qed

lemma leo_calc_outage_le_half: "unat (leo_calc_outage_us net rtt base) \<le> unat rtt div 2"
  by (auto simp: leo_calc_outage_us_def Let_def unat_u32_min unat_div_word split: prod.split)

lemma leo_calc_drain_exact:
  assumes "ms_ok (sysctl_tcp_leo_dynamic_drain_min_ms net)"
    and "ms_ok (sysctl_tcp_leo_dynamic_drain_max_ms net)"
  shows "unat (leo_calc_drain_us net rtt) =
    clamp_t (unat rtt div 2)
      (min (unat (sysctl_tcp_leo_dynamic_drain_min_ms net))
           (unat (sysctl_tcp_leo_dynamic_drain_max_ms net)) * 1000)
      (max (unat (sysctl_tcp_leo_dynamic_drain_min_ms net))
           (unat (sysctl_tcp_leo_dynamic_drain_max_ms net)) * 1000)"
  using assms ms_ok_us_lt [OF assms(1)] ms_ok_us_lt [OF assms(2)]
  by (simp add: leo_calc_drain_us_def Let_def swap_if_sorted unat_clamp_u32 unat_max unat_min
      ms_ok_us unat_div_word nat_mult_min_left nat_mult_max_left)

lemma leo_calc_recovery_exact:
  assumes "ms_ok (sysctl_tcp_leo_dynamic_recovery_min_ms net)"
    and "ms_ok (sysctl_tcp_leo_dynamic_recovery_max_ms net)"
    and "sysctl_tcp_leo_dynamic_recovery_enable net \<noteq> 0"
  shows "unat (leo_calc_recovery_us net rtt) =
    clamp_t (unat rtt div 2)
      (min (unat (sysctl_tcp_leo_dynamic_recovery_min_ms net))
           (unat (sysctl_tcp_leo_dynamic_recovery_max_ms net)) * 1000)
      (max (unat (sysctl_tcp_leo_dynamic_recovery_min_ms net))
           (unat (sysctl_tcp_leo_dynamic_recovery_max_ms net)) * 1000)"
  using assms ms_ok_us_lt [OF assms(1)] ms_ok_us_lt [OF assms(2)]
  by (simp add: leo_calc_recovery_us_def Let_def swap_if_sorted unat_clamp_u32 unat_max unat_min
      ms_ok_us unat_div_word nat_mult_min_left nat_mult_max_left)

lemma leo_calc_pre_exact:
  fixes net :: "'a netns_leo_scheme" and mn mx :: u32
  defines "mn \<equiv> max 1 (sysctl_tcp_leo_dynamic_pre_min_ms net)"
    and "mx \<equiv> max 1 (sysctl_tcp_leo_dynamic_pre_max_ms net)"
  assumes mn: "unat mn \<le> 4294967" and mx: "unat mx \<le> 4294967"
    and less: "min_rwnd < start_rwnd" and rate: "rate \<noteq> 0"
  shows "unat (leo_calc_pre_us net start_rwnd min_rwnd rate) =
    clamp_t ((unat start_rwnd - unat min_rwnd) * 1000000 div unat rate)
      (min (unat mn) (unat mx) * 1000) (max (unat mn) (unat mx) * 1000)"
proof -
  have d: "unat (u64_of_u32 (start_rwnd - min_rwnd) * 1000000) = (unat start_rwnd - unat min_rwnd) * 1000000"
    using less by (simp add: unat_mult_u32_u64 unat_minus_le less_imp_le)
  have u: "unat (u64_of_u32 mn * 1000) = unat mn * 1000" "unat (u64_of_u32 mx * 1000) = unat mx * 1000"
    by (rule unat_ms_to_us)+
  have "unat (max (u64_of_u32 mn * 1000) (u64_of_u32 mx * 1000)) < 4294967296"
    using mn mx unfolding unat_max u by linarith
  then show ?thesis
    using less [THEN not_le [THEN iffD2]] rate
    by (simp add: leo_calc_pre_us_def mn_def [symmetric] mx_def [symmetric] Let_def swap_if_sorted unat_clamp_u32 unat_div_word d u
        unat_max [of "_ * _" "_ * _"] unat_min [of "_ * _" "_ * _"]
        nat_mult_min_left nat_mult_max_left)
qed

section \<open>Measurements\<close>

text \<open>An initialised controller keeps its frozen parameters, and learns nothing about the ordinary
  window, the rate or the baseline while a phase other than normal is on.\<close>

lemma leo_update_measurements_frame [leo_frame]:
  assumes "initialized (leo_state sk)"
  shows "frozen (leo_state (leo_update_measurements net sk w t p)) = frozen (leo_state sk)"
    and "pre_started (leo_state (leo_update_measurements net sk w t p)) = pre_started (leo_state sk)"
    and "recovery_started (leo_state (leo_update_measurements net sk w t p)) =
           recovery_started (leo_state sk)"
    and "current_phase (leo_state (leo_update_measurements net sk w t p)) = current_phase (leo_state sk)"
    and "frozen_start_rwnd (leo_state (leo_update_measurements net sk w t p)) =
           frozen_start_rwnd (leo_state sk)"
    and "frozen_min_rwnd (leo_state (leo_update_measurements net sk w t p)) =
           frozen_min_rwnd (leo_state sk)"
    and "frozen_pre_start_wnd (leo_state (leo_update_measurements net sk w t p)) =
           frozen_pre_start_wnd (leo_state sk)"
    and "frozen_pre_start_rcv_nxt (leo_state (leo_update_measurements net sk w t p)) =
           frozen_pre_start_rcv_nxt (leo_state sk)"
    and "frozen_outage_us (leo_state (leo_update_measurements net sk w t p)) =
           frozen_outage_us (leo_state sk)"
    and "frozen_rtt_us (leo_state (leo_update_measurements net sk w t p)) = frozen_rtt_us (leo_state sk)"
    and "frozen_rtt_half_us (leo_state (leo_update_measurements net sk w t p)) =
           frozen_rtt_half_us (leo_state sk)"
    and "frozen_recovery_us (leo_state (leo_update_measurements net sk w t p)) =
           frozen_recovery_us (leo_state sk)"
    and "frozen_pre_us (leo_state (leo_update_measurements net sk w t p)) = frozen_pre_us (leo_state sk)"
    and "recovery_start_real_us (leo_state (leo_update_measurements net sk w t p)) =
           recovery_start_real_us (leo_state sk)"
    and "frozen_period_id (leo_state (leo_update_measurements net sk w t p)) =
           frozen_period_id (leo_state sk)"
    and "initialized (leo_state (leo_update_measurements net sk w t p))"
  using assms by (simp_all add: leo_update_measurements_def Let_def)

lemma leo_update_measurements_rcv_nxt [leo_frame]:
  "rcv_nxt (leo_update_measurements net sk w t p) = rcv_nxt sk"
  by (simp add: leo_update_measurements_def Let_def)

lemma leo_update_measurements_init:
  "\<not> initialized (leo_state sk) \<Longrightarrow>
     initialized (leo_state (leo_update_measurements net sk w t p)) \<and>
     \<not> frozen (leo_state (leo_update_measurements net sk w t p)) \<and>
     current_phase (leo_state (leo_update_measurements net sk w t p)) = TCP_LEO_NORMAL"
  by (simp add: leo_update_measurements_def Let_def leo_state_zero_def)

end
