(* ===== verification/Leo_Control.thy ===== *)
theory Leo_Control
  imports Leo_Measure
begin

text \<open>
  Second half of \<open>tcp_redhat.c\<close>: the parameters frozen for one predicted handover, the phase of the
  handover timeline, the window each phase aims at, and \<open>tcp_leo_dynamic_target\<close>, the entry point
  that \<open>tcp_select_window\<close> calls.  Log messages are not modelled.
\<close>

section \<open>Freezing the parameters of a handover\<close>

text \<open>The window, the round trip time and the rate that \<open>leo_required_freeze_ahead_us\<close> and
  \<open>leo_freeze_parameters\<close> both derive from the measurements.\<close>

definition leo_pick_start_rwnd :: "tcp_leo_dynamic_state \<Rightarrow> u32 \<Rightarrow> u32 \<Rightarrow> u32" where
  "leo_pick_start_rwnd st normal_win min_rwnd =
     (let start_rwnd = (if normal_rwnd_ewma st \<noteq> 0 then normal_rwnd_ewma st else normal_win);
          start_rwnd = min start_rwnd normal_win
      in max start_rwnd min_rwnd)"

definition leo_pick_rtt_us :: "'a netns_leo_scheme \<Rightarrow> sock \<Rightarrow> u32" where
  "leo_pick_rtt_us net sk =
     (if rtt_us (leo_state sk) \<noteq> 0 then rtt_us (leo_state sk) else leo_read_receiver_rtt_us net sk)"

definition leo_pick_rate_Bps :: "'a netns_leo_scheme \<Rightarrow> sock \<Rightarrow> u64" where
  "leo_pick_rate_Bps net sk =
     (if recv_rate_Bps_ewma (leo_state sk) \<noteq> 0 then recv_rate_Bps_ewma (leo_state sk)
      else leo_fallback_rate_Bps net)"

definition leo_required_freeze_ahead_us :: "'a netns_leo_scheme \<Rightarrow> sock \<Rightarrow> u32 \<Rightarrow> u64" where
  "leo_required_freeze_ahead_us net sk normal_win =
     (let min_rwnd = leo_min_rwnd net sk;
          prediction_guard_us = u64_of_u32 (leo_prediction_guard_us net);
          start_rwnd = leo_pick_start_rwnd (leo_state sk) normal_win min_rwnd;
          rtt = leo_pick_rtt_us net sk;
          rate_Bps = leo_pick_rate_Bps net sk;
          pre_us = leo_calc_pre_us net start_rwnd min_rwnd rate_Bps;
          drain_us = u64_of_u32 (leo_calc_drain_us net rtt);
          guard_us = u64_of_int (sysctl_tcp_leo_dynamic_freeze_guard_ms net) * 1000
      in u64_of_u32 pre_us + u64_of_u32 (rtt div 2) + drain_us + guard_us + prediction_guard_us)"

definition leo_freeze_parameters :: "'a netns_leo_scheme \<Rightarrow> sock \<Rightarrow> u32 \<Rightarrow> u64 \<Rightarrow> sock" where
  "leo_freeze_parameters net sk normal_win now_us =
     (let st = leo_state sk;
          min_rwnd = leo_min_rwnd net sk;
          start_rwnd = leo_pick_start_rwnd st normal_win min_rwnd;
          rtt = leo_pick_rtt_us net sk;
          rate_Bps = leo_pick_rate_Bps net sk
      in sk\<lparr>leo_state := st\<lparr>
           frozen_period_id := leo_period_id net now_us,
           frozen_rtt_us := rtt,
           frozen_rtt_half_us := rtt div 2,
           frozen_recv_rate_Bps := rate_Bps,
           frozen_start_rwnd := start_rwnd,
           frozen_min_rwnd := min_rwnd,
           frozen_pre_us := leo_calc_pre_us net start_rwnd min_rwnd rate_Bps,
           frozen_outage_us := leo_calc_outage_us net rtt (rtt_baseline_us st),
           frozen_drain_us := leo_calc_drain_us net rtt,
           frozen_recovery_us := leo_calc_recovery_us net rtt,
           frozen_prediction_guard_us := leo_prediction_guard_us net,
           pre_started := False,
           recovery_started := False,
           recovery_start_real_us := 0,
           frozen_pre_start_wnd := 0,
           frozen_pre_start_rcv_nxt := 0,
           frozen := True\<rparr>\<rparr>)"

text \<open>The two releases of the snapshot: after a visible recovery ramp, and, with recovery disabled,
  once the period boundary has passed.\<close>

definition leo_release_after_recovery :: "u64 \<Rightarrow> tcp_leo_dynamic_state \<Rightarrow> tcp_leo_dynamic_state" where
  "leo_release_after_recovery now_us st =
     (if frozen st \<and> recovery_started st then
        (if now_us - recovery_start_real_us st \<ge> u64_of_u32 (frozen_recovery_us st)
         then st\<lparr>frozen := False\<rparr> else st)
      else st)"

definition leo_release_no_recovery ::
  "'a netns_leo_scheme \<Rightarrow> u64 \<Rightarrow> tcp_leo_dynamic_state \<Rightarrow> tcp_leo_dynamic_state" where
  "leo_release_no_recovery net now_us st =
     (if frozen st \<and> frozen_recovery_us st = 0 \<and> leo_period_id net now_us \<noteq> frozen_period_id st
      then st\<lparr>frozen := False\<rparr> else st)"

definition leo_maybe_freeze :: "'a netns_leo_scheme \<Rightarrow> sock \<Rightarrow> u32 \<Rightarrow> u64 \<Rightarrow> sock" where
  "leo_maybe_freeze net sk normal_win now_us =
     (let period_us = u64_of_u32 (sysctl_tcp_leo_rwnd_period_ms net) * 1000
      in if period_us = 0 then sk
         else
           let pos_us = leo_period_position_us net now_us;
               until_handover_us = period_us - pos_us;
               freeze_ahead_us = leo_required_freeze_ahead_us net sk normal_win;
               sk = upd_leo (leo_release_after_recovery now_us) sk;
               sk = upd_leo (leo_release_no_recovery net now_us) sk
           in if \<not> frozen (leo_state sk) \<and> until_handover_us \<le> freeze_ahead_us
              then leo_freeze_parameters net sk normal_win now_us
              else sk)"

section \<open>The phase of the handover\<close>

definition leo_outage_start_us :: "u64 \<Rightarrow> tcp_leo_dynamic_state \<Rightarrow> u64" where
  "leo_outage_start_us period_us st =
     (if period_us > u64_of_u32 (frozen_rtt_half_us st)
      then period_us - u64_of_u32 (frozen_rtt_half_us st) else 0)"

definition leo_drain_start_us :: "u64 \<Rightarrow> tcp_leo_dynamic_state \<Rightarrow> u64" where
  "leo_drain_start_us period_us st =
     (let outage_start_us = leo_outage_start_us period_us st;
          prediction_guard_us = u64_of_u32 (frozen_prediction_guard_us st)
      in if outage_start_us > u64_of_u32 (frozen_drain_us st) + prediction_guard_us
         then outage_start_us - u64_of_u32 (frozen_drain_us st) - prediction_guard_us else 0)"

definition leo_pre_start_us :: "u64 \<Rightarrow> tcp_leo_dynamic_state \<Rightarrow> u64" where
  "leo_pre_start_us period_us st =
     (if leo_drain_start_us period_us st > u64_of_u32 (frozen_pre_us st)
      then leo_drain_start_us period_us st - u64_of_u32 (frozen_pre_us st) else 0)"

text \<open>Before the predicted handover boundary: the scheduled timeline.\<close>

definition leo_scheduled_phase ::
  "u64 \<Rightarrow> tcp_leo_dynamic_state \<Rightarrow> u64 \<Rightarrow> tcp_leo_phase \<times> u64" where
  "leo_scheduled_phase period_us st pos_us =
     (let outage_start_us = leo_outage_start_us period_us st;
          drain_start_us = leo_drain_start_us period_us st;
          pre_start_us = leo_pre_start_us period_us st;
          outage_end_us = outage_start_us + u64_of_u32 (frozen_outage_us st)
      in if pos_us \<ge> pre_start_us \<and> pos_us < drain_start_us
         then (TCP_LEO_PRE_HANDOVER, pos_us - pre_start_us)
         else if pos_us \<ge> drain_start_us \<and> pos_us < outage_start_us
         then (TCP_LEO_DRAIN, pos_us - drain_start_us)
         else if pos_us \<ge> outage_start_us \<and> pos_us < min outage_end_us period_us
         then (TCP_LEO_OUTAGE, pos_us - outage_start_us)
         else (TCP_LEO_NORMAL, 0))"

text \<open>\<open>leo_phase\<close> returns the phase, the time elapsed in it (\<open>*elapsed_us\<close>), and the socket with the
  start of a recovery recorded.\<close>

definition leo_phase ::
  "'a netns_leo_scheme \<Rightarrow> sock \<Rightarrow> u64 \<Rightarrow> tcp_leo_phase \<times> u64 \<times> sock" where
  "leo_phase net sk now_us =
     (let st = leo_state sk;
          period_us = u64_of_u32 (sysctl_tcp_leo_rwnd_period_ms net) * 1000
      in if \<not> frozen st then (TCP_LEO_NORMAL, 0, sk)
         else if period_us = 0 then (TCP_LEO_NORMAL, 0, sk)
         else
           let pos_us = leo_period_position_us net now_us;
               current_period_id = leo_period_id net now_us
           in if current_period_id = frozen_period_id st
              then case leo_scheduled_phase period_us st pos_us of
                     (phase, elapsed_us) \<Rightarrow> (phase, elapsed_us, sk)
              else if current_period_id > frozen_period_id st \<and> frozen_recovery_us st \<noteq> 0
              then
                if \<not> recovery_started st
                then (TCP_LEO_RECOVERY, 0,
                      upd_leo (\<lambda>st. st\<lparr>recovery_started := True,
                                       recovery_start_real_us := now_us\<rparr>) sk)
                else
                  let elapsed_us = now_us - recovery_start_real_us st
                  in if elapsed_us < u64_of_u32 (frozen_recovery_us st)
                     then (TCP_LEO_RECOVERY, elapsed_us, sk)
                     else (TCP_LEO_NORMAL, elapsed_us, sk)
              else (TCP_LEO_NORMAL, 0, sk))"

section \<open>The window each phase aims at\<close>

definition leo_pre_target :: "u32 \<Rightarrow> tcp_leo_dynamic_state \<Rightarrow> u64 \<Rightarrow> u32" where
  "leo_pre_target rcv_nxt_now st elapsed_us =
     (if \<not> pre_started st then frozen_start_rwnd st
      else if frozen_pre_start_wnd st \<le> frozen_min_rwnd st then frozen_min_rwnd st
      else if frozen_pre_us st = 0 then frozen_pre_start_wnd st
      else
        let delta_wnd = frozen_pre_start_wnd st - frozen_min_rwnd st;
            planned = (u64_of_u32 delta_wnd * min elapsed_us (u64_of_u32 (frozen_pre_us st)))
                        div u64_of_u32 (frozen_pre_us st);
            received = u64_of_u32 (rcv_nxt_now - frozen_pre_start_rcv_nxt st);
            reduction = min planned received;
            reduction = min reduction (u64_of_u32 delta_wnd)
        in frozen_pre_start_wnd st - u32_of_u64 reduction)"

definition leo_recovery_target :: "tcp_leo_dynamic_state \<Rightarrow> u32 \<Rightarrow> u64 \<Rightarrow> u32" where
  "leo_recovery_target st normal_win elapsed_us =
     (let end_wnd = min normal_win (frozen_start_rwnd st);
          end_wnd = max end_wnd (frozen_min_rwnd st)
      in if frozen_recovery_us st = 0 \<or> end_wnd \<le> frozen_min_rwnd st then end_wnd
         else
           let delta_wnd = end_wnd - frozen_min_rwnd st;
               increase = (u64_of_u32 delta_wnd *
                             min elapsed_us (u64_of_u32 (frozen_recovery_us st)))
                            div u64_of_u32 (frozen_recovery_us st)
           in frozen_min_rwnd st + u32_of_u64 increase)"

definition leo_safe_target :: "u32 \<Rightarrow> tcp_leo_dynamic_state \<Rightarrow> u32 \<Rightarrow> u32" where
  "leo_safe_target rcv_nxt_now st desired =
     (let received = rcv_nxt_now - frozen_pre_start_rcv_nxt st;
          max_reduction = min received (frozen_pre_start_wnd st - frozen_min_rwnd st);
          safe_target = frozen_pre_start_wnd st - max_reduction
      in max desired safe_target)"

section \<open>Entry points\<close>

definition tcp_leo_dynamic_init :: "sock \<Rightarrow> sock" where
  "tcp_leo_dynamic_init sk =
     sk\<lparr>leo_state := leo_state_zero\<lparr>current_phase := TCP_LEO_NORMAL\<rparr>\<rparr>"

text \<open>Taking the anchor of a handover: the window at its start and the sequence number it was
  measured at.\<close>

definition leo_take_anchor :: "u32 \<Rightarrow> u32 \<Rightarrow> tcp_leo_dynamic_state \<Rightarrow> tcp_leo_dynamic_state" where
  "leo_take_anchor normal_win rcv_nxt_now st =
     st\<lparr>frozen_pre_start_wnd := max (min normal_win (frozen_start_rwnd st)) (frozen_min_rwnd st),
        frozen_pre_start_rcv_nxt := rcv_nxt_now,
        pre_started := True\<rparr>"

definition leo_phase_target ::
  "u32 \<Rightarrow> tcp_leo_dynamic_state \<Rightarrow> u32 \<Rightarrow> tcp_leo_phase \<Rightarrow> u64 \<Rightarrow> u32" where
  "leo_phase_target rcv_nxt_now st normal_win phase elapsed_us =
     (case phase of
        TCP_LEO_PRE_HANDOVER \<Rightarrow> leo_pre_target rcv_nxt_now st elapsed_us
      | TCP_LEO_DRAIN \<Rightarrow> leo_safe_target rcv_nxt_now st (frozen_min_rwnd st)
      | TCP_LEO_OUTAGE \<Rightarrow> leo_safe_target rcv_nxt_now st (frozen_min_rwnd st)
      | TCP_LEO_RECOVERY \<Rightarrow> leo_recovery_target st normal_win elapsed_us
      | TCP_LEO_NORMAL \<Rightarrow> normal_win)"

text \<open>The two anchor blocks of \<open>tcp_leo_dynamic_target\<close>: on entry to the pre-handover phase, and in
  any controlled phase that was entered without one.\<close>

definition leo_anchor_step ::
  "u32 \<Rightarrow> tcp_leo_phase \<Rightarrow> tcp_leo_phase \<Rightarrow> sock \<Rightarrow> sock" where
  "leo_anchor_step normal_win old_phase phase sk =
     (let sk = (if phase = TCP_LEO_PRE_HANDOVER \<and> old_phase \<noteq> TCP_LEO_PRE_HANDOVER
                then upd_leo (leo_take_anchor normal_win (rcv_nxt sk)) sk else sk)
      in if (phase = TCP_LEO_PRE_HANDOVER \<or> phase = TCP_LEO_OUTAGE \<or> phase = TCP_LEO_DRAIN) \<and>
            \<not> pre_started (leo_state sk)
         then upd_leo (leo_take_anchor normal_win (rcv_nxt sk)) sk else sk)"

definition tcp_leo_dynamic_target ::
  "'a netns_leo_scheme \<Rightarrow> u64 \<Rightarrow> u64 \<Rightarrow> sock \<Rightarrow> u32 \<Rightarrow> u32 \<times> sock" where
  "tcp_leo_dynamic_target net real_ns mono_ns sk normal_win =
     (if sysctl_tcp_leo_rwnd_enable net = 0 then (normal_win, sk)
      else if sysctl_tcp_leo_dynamic_enable net = 0 then (normal_win, sk)
      else if \<not> tcp_leo_port_matches net sk then (normal_win, sk)
      else
        let old_phase = current_phase (leo_state sk);
            now_real_us = leo_now_real_us real_ns;
            now_mono_us = leo_now_mono_us mono_ns;
            sk = (if \<not> initialized (leo_state sk)
                  then leo_update_measurements net sk normal_win now_mono_us TCP_LEO_NORMAL
                  else sk);
            sk = leo_maybe_freeze net sk normal_win now_real_us;
            (phase, elapsed_us, sk) = leo_phase net sk now_real_us;
            sk = leo_update_measurements net sk normal_win now_mono_us phase;
            sk = leo_anchor_step normal_win old_phase phase sk;
            sk = upd_leo (\<lambda>st. st\<lparr>current_phase := phase\<rparr>) sk;
            target = leo_phase_target (rcv_nxt sk) (leo_state sk) normal_win phase elapsed_us
        in (min target normal_win, sk))"


section \<open>The windows under the anchor\<close>

text \<open>A state is anchored when the handover's start window has been taken and is no smaller than the
  floor.\<close>

definition anchored :: "tcp_leo_dynamic_state \<Rightarrow> bool" where
  "anchored st \<longleftrightarrow> pre_started st \<and> frozen_min_rwnd st \<le> frozen_pre_start_wnd st"

text \<open>What the entry point relies on of a controlled phase's window: it is between the floor and the
  anchor's window, and it gives back no more of the anchor's window than the bytes received since.\<close>

locale anchored_window =
  fixes target :: "u32 \<Rightarrow> tcp_leo_dynamic_state \<Rightarrow> u64 \<Rightarrow> u32"
  assumes target_floor: "anchored st \<Longrightarrow> frozen_min_rwnd st \<le> target rn st e"
    and target_ceiling: "anchored st \<Longrightarrow> target rn st e \<le> frozen_pre_start_wnd st"
    and target_edge: "anchored st \<Longrightarrow>
      unat (frozen_pre_start_wnd st) \<le> unat (target rn st e) + unat (rn - frozen_pre_start_rcv_nxt st)"
begin

text \<open>The same three laws after the final bound by the ordinary window.\<close>

lemma bounded_floor:
  "anchored st \<Longrightarrow> min (frozen_min_rwnd st) w \<le> min (target rn st e) w"
  using target_floor [of st rn e] by (auto simp: min_def)

lemma bounded_edge:
  assumes "anchored st" and "min (target rn st e) w < w"
  shows "unat (frozen_pre_start_wnd st) \<le>
           unat (min (target rn st e) w) + unat (rn - frozen_pre_start_rcv_nxt st)"
  using target_edge [OF assms(1), of rn e] assms(2) by (auto simp: min_def)

text \<open>Nothing received since the anchor: the window is still the anchor's window.\<close>

lemma target_at_anchor:
  assumes "anchored st"
  shows "target (frozen_pre_start_rcv_nxt st) st e = frozen_pre_start_wnd st"
  using target_edge [OF assms, of "frozen_pre_start_rcv_nxt st" e]
    target_ceiling [OF assms, of "frozen_pre_start_rcv_nxt st" e]
  by (simp add: word_le_nat_alt word_unat_eq_iff)

end

lemma unat_minus_u32_of_min:
  fixes a d :: u32
  assumes "d \<le> a"
  shows "unat (a - u32_of_u64 (min x (u64_of_u32 d))) = unat a - min (unat x) (unat d)"
proof -
  have "u32_of_u64 (min x (u64_of_u32 d)) \<le> a"
    using assms by (simp add: word_le_nat_alt unat_u32_min)
  then show ?thesis by (simp add: unat_minus_le unat_u32_min)
qed

lemma ramp_le: "p \<noteq> 0 \<Longrightarrow> d * min e p div p \<le> (d::nat)"
  by (metis div_le_mono div_mult_self_is_m min.cobounded2 mult_le_mono2 not_gr0)

lemma unat_ramp:
  "unat ((u64_of_u32 d * min e (u64_of_u32 p)) div u64_of_u32 p) =
     unat d * min (unat e) (unat p) div unat p"
  by (subst unat_div_word, subst unat_mult_u32_u64) (simp_all add: unat_min min.coboundedI2)

text \<open>The pre-handover window over natural numbers.\<close>

lemma unat_leo_pre_target:
  assumes "pre_started st" and "frozen_min_rwnd st < frozen_pre_start_wnd st" and "frozen_pre_us st \<noteq> 0"
  shows "unat (leo_pre_target rn st e) =
    unat (frozen_pre_start_wnd st) -
      min (min ((unat (frozen_pre_start_wnd st) - unat (frozen_min_rwnd st)) *
                  min (unat e) (unat (frozen_pre_us st)) div unat (frozen_pre_us st))
                (unat (rn - frozen_pre_start_rcv_nxt st)))
          (unat (frozen_pre_start_wnd st) - unat (frozen_min_rwnd st))"
proof -
  let ?d = "frozen_pre_start_wnd st - frozen_min_rwnd st"
  have ud: "unat ?d = unat (frozen_pre_start_wnd st) - unat (frozen_min_rwnd st)"
    using assms(2) by (simp add: unat_minus_le less_imp_le)
  then have "?d \<le> frozen_pre_start_wnd st" by (simp add: word_le_nat_alt)
  then show ?thesis
    using assms(1,3) assms(2) [THEN not_le [THEN iffD2]]
    by (simp add: leo_pre_target_def Let_def unat_minus_u32_of_min unat_min unat_ramp ud)
qed

interpretation pre_window: anchored_window leo_pre_target
proof unfold_locales
  fix st :: tcp_leo_dynamic_state and rn e
  assume a: "anchored st"
  then have ps: "pre_started st" and le: "unat (frozen_min_rwnd st) \<le> unat (frozen_pre_start_wnd st)"
    by (simp_all add: anchored_def word_le_nat_alt)
  consider (floor) "frozen_pre_start_wnd st \<le> frozen_min_rwnd st"
    | (zero) "\<not> frozen_pre_start_wnd st \<le> frozen_min_rwnd st" "frozen_pre_us st = 0"
    | (ramp) "frozen_min_rwnd st < frozen_pre_start_wnd st" "frozen_pre_us st \<noteq> 0"
    by (cases "frozen_pre_start_wnd st \<le> frozen_min_rwnd st"; cases "frozen_pre_us st = 0")
      (auto simp: not_le)
  then have "frozen_min_rwnd st \<le> leo_pre_target rn st e \<and>
    leo_pre_target rn st e \<le> frozen_pre_start_wnd st \<and>
    unat (frozen_pre_start_wnd st) \<le>
      unat (leo_pre_target rn st e) + unat (rn - frozen_pre_start_rcv_nxt st)"
  proof cases
    case ramp
    obtain planned where "unat (leo_pre_target rn st e) = unat (frozen_pre_start_wnd st) -
        min (min planned (unat (rn - frozen_pre_start_rcv_nxt st)))
          (unat (frozen_pre_start_wnd st) - unat (frozen_min_rwnd st))"
      using unat_leo_pre_target [OF ps ramp, of rn e] by blast
    then show ?thesis unfolding word_le_nat_alt using le by linarith
  qed (use ps le in \<open>simp_all add: leo_pre_target_def word_le_nat_alt\<close>)
  then show "frozen_min_rwnd st \<le> leo_pre_target rn st e"
    and "leo_pre_target rn st e \<le> frozen_pre_start_wnd st"
    and "unat (frozen_pre_start_wnd st) \<le>
      unat (leo_pre_target rn st e) + unat (rn - frozen_pre_start_rcv_nxt st)"
    by blast+
qed

text \<open>The drain and outage window over natural numbers.\<close>

lemma unat_leo_safe_target:
  assumes "anchored st"
  shows "unat (leo_safe_target rn st (frozen_min_rwnd st)) =
    max (unat (frozen_min_rwnd st))
        (unat (frozen_pre_start_wnd st) - unat (rn - frozen_pre_start_rcv_nxt st))"
proof -
  let ?m = "min (rn - frozen_pre_start_rcv_nxt st) (frozen_pre_start_wnd st - frozen_min_rwnd st)"
  have le: "frozen_min_rwnd st \<le> frozen_pre_start_wnd st" using assms by (simp add: anchored_def)
  have m: "unat ?m = min (unat (rn - frozen_pre_start_rcv_nxt st))
    (unat (frozen_pre_start_wnd st) - unat (frozen_min_rwnd st))"
    using le by (simp add: unat_min unat_minus_le)
  then have "?m \<le> frozen_pre_start_wnd st" by (simp add: word_le_nat_alt)
  then show ?thesis
    using le by (simp add: leo_safe_target_def Let_def unat_max unat_minus_le m word_le_nat_alt)
qed

interpretation safe_window: anchored_window "\<lambda>rn st _. leo_safe_target rn st (frozen_min_rwnd st)"
  by unfold_locales
    (auto simp: word_le_nat_alt unat_leo_safe_target, auto simp: anchored_def word_le_nat_alt)

section \<open>The recovery ramp\<close>

abbreviation recovery_end :: "tcp_leo_dynamic_state \<Rightarrow> u32 \<Rightarrow> u32" where
  "recovery_end st w \<equiv> max (min w (frozen_start_rwnd st)) (frozen_min_rwnd st)"

lemma unat_leo_recovery_target:
  assumes "frozen_recovery_us st \<noteq> 0"
  shows "unat (leo_recovery_target st w e) =
    unat (frozen_min_rwnd st) +
      (unat (recovery_end st w) - unat (frozen_min_rwnd st)) *
        min (unat e) (unat (frozen_recovery_us st)) div unat (frozen_recovery_us st)"
proof (cases "recovery_end st w \<le> frozen_min_rwnd st")
  case True
  then have "min w (frozen_start_rwnd st) \<le> frozen_min_rwnd st" by simp
  then show ?thesis by (simp add: leo_recovery_target_def Let_def max_absorb2)
next
  case False
  let ?d = "recovery_end st w - frozen_min_rwnd st"
  let ?inc = "unat ?d * min (unat e) (unat (frozen_recovery_us st)) div unat (frozen_recovery_us st)"
  have ud: "unat ?d = unat (recovery_end st w) - unat (frozen_min_rwnd st)"
    by (rule unat_minus_le) simp
  have "?inc \<le> unat ?d" using assms by (intro ramp_le) (simp add: unat_eq_zero)
  moreover have "unat (frozen_min_rwnd st) + unat ?d < 4294967296"
    using False unat_lt32 [of "recovery_end st w"] unfolding ud word_le_nat_alt by linarith
  ultimately have small: "unat (frozen_min_rwnd st) + ?inc < 4294967296" and "?inc < 4294967296"
    by linarith+
  then have "unat (u32_of_u64 ((u64_of_u32 ?d * min e (u64_of_u32 (frozen_recovery_us st)))
      div u64_of_u32 (frozen_recovery_us st))) = ?inc"
    by (simp add: unat_u32_of_u64 unat_ramp)
  with small assms False show ?thesis
    by (simp add: leo_recovery_target_def Let_def unat_plus_small ud)
qed

lemma leo_recovery_target_floor: "frozen_min_rwnd st \<le> leo_recovery_target st w e"
proof (cases "frozen_recovery_us st = 0")
  case True
  then show ?thesis by (simp add: leo_recovery_target_def Let_def)
next
  case False
  then show ?thesis by (simp add: word_le_nat_alt unat_leo_recovery_target)
qed

end
