(* ===== verification/Leo_Schedule.thy ===== *)
theory Leo_Schedule
  imports Leo_Control
begin

text \<open>
  The handover timeline: an abstract schedule over natural numbers, and that the 64 bit computation
  of \<open>leo_phase\<close> implements it for every setting of the sysctls, so no intermediate sum or difference
  wraps around.
\<close>

section \<open>The abstract schedule\<close>

text \<open>Durations of one frozen handover, in microseconds.\<close>

record schedule =
  s_half :: nat
  s_lead :: nat
  s_pre :: nat
  s_outage :: nat

definition schedule_of :: "tcp_leo_dynamic_state \<Rightarrow> schedule" where
  "schedule_of st = \<lparr>s_half = unat (frozen_rtt_half_us st),
     s_lead = unat (frozen_drain_us st) + unat (frozen_prediction_guard_us st),
     s_pre = unat (frozen_pre_us st), s_outage = unat (frozen_outage_us st)\<rparr>"

definition outage_start :: "nat \<Rightarrow> schedule \<Rightarrow> nat" where
  "outage_start period s = period - s_half s"

definition drain_start :: "nat \<Rightarrow> schedule \<Rightarrow> nat" where
  "drain_start period s = outage_start period s - s_lead s"

definition pre_start :: "nat \<Rightarrow> schedule \<Rightarrow> nat" where
  "pre_start period s = drain_start period s - s_pre s"

definition scheduled :: "nat \<Rightarrow> schedule \<Rightarrow> nat \<Rightarrow> tcp_leo_phase \<times> nat" where
  "scheduled period s pos =
     (if pre_start period s \<le> pos \<and> pos < drain_start period s
      then (TCP_LEO_PRE_HANDOVER, pos - pre_start period s)
      else if drain_start period s \<le> pos \<and> pos < outage_start period s
      then (TCP_LEO_DRAIN, pos - drain_start period s)
      else if outage_start period s \<le> pos \<and> pos < min (outage_start period s + s_outage s) period
      then (TCP_LEO_OUTAGE, pos - outage_start period s)
      else (TCP_LEO_NORMAL, 0))"

lemmas schedule_defs = outage_start_def drain_start_def pre_start_def schedule_of_def

section \<open>Refinement\<close>

lemma unat_monus: "unat (if b < a then a - b else 0) = unat a - unat b"
  for a b :: "'a::len word"
  by (simp add: unat_minus_le less_imp_le word_less_nat_alt)

lemma unat_leo_outage_start_us [wnat]:
  "unat (leo_outage_start_us p st) = outage_start (unat p) (schedule_of st)"
  by (simp add: leo_outage_start_us_def outage_start_def schedule_of_def unat_monus)

lemma unat_lead:
  "unat (u64_of_u32 a + u64_of_u32 b) = unat a + unat b"
proof -
  have "unat a + unat b < 18446744073709551616"
    using unat_lt32 [of a] unat_lt32 [of b] by linarith
  then show ?thesis by (simp add: unat_plus_small)
qed

lemma unat_leo_drain_start_us [wnat]:
  "unat (leo_drain_start_us p st) = drain_start (unat p) (schedule_of st)"
proof -
  have "leo_drain_start_us p st =
    (if u64_of_u32 (frozen_drain_us st) + u64_of_u32 (frozen_prediction_guard_us st)
        < leo_outage_start_us p st
     then leo_outage_start_us p st -
       (u64_of_u32 (frozen_drain_us st) + u64_of_u32 (frozen_prediction_guard_us st)) else 0)"
    by (simp add: leo_drain_start_us_def Let_def diff_diff_eq)
  then show ?thesis
    by (simp only: unat_monus unat_lead unat_leo_outage_start_us)
      (simp add: drain_start_def schedule_of_def)
qed

lemma unat_leo_pre_start_us [wnat]:
  "unat (leo_pre_start_us p st) = pre_start (unat p) (schedule_of st)"
  by (simp add: leo_pre_start_us_def unat_monus unat_leo_drain_start_us)
    (simp add: pre_start_def schedule_of_def)

text \<open>The scheduled phase of the code is the abstract schedule, for every period a sysctl can hold.\<close>

lemma leo_scheduled_phase_refines:
  assumes "unat p < 2 ^ 63"
  shows "map_prod id unat (leo_scheduled_phase p st pos) = scheduled (unat p) (schedule_of st) (unat pos)"
proof -
  have "unat p < 9223372036854775808" using assms by simp
  then have "unat (leo_outage_start_us p st) + unat (frozen_outage_us st) < 18446744073709551616"
    using unat_lt32 [of "frozen_outage_us st"]
    unfolding unat_leo_outage_start_us outage_start_def by linarith
  then have e: "unat (leo_outage_start_us p st + u64_of_u32 (frozen_outage_us st)) =
    outage_start (unat p) (schedule_of st) + s_outage (schedule_of st)"
    by (simp add: unat_plus_small unat_leo_outage_start_us) (simp add: schedule_of_def)
  show ?thesis
    by (auto simp: leo_scheduled_phase_def scheduled_def Let_def word_nat_ord unat_min e
        unat_leo_outage_start_us unat_leo_drain_start_us unat_leo_pre_start_us unat_minus_le)
qed

lemma period_lt: "unat (u64_of_u32 x * 1000) < 2 ^ 63"
proof -
  have "unat x * 1000 < 9223372036854775808" using unat_lt32 [of x] by linarith
  then show ?thesis by (simp only: unat_ms_to_us) simp
qed

section \<open>Shape of the schedule\<close>

text \<open>Rank of the controlled phases along the timeline.\<close>

fun phase_rank :: "tcp_leo_phase \<Rightarrow> nat" where
  "phase_rank TCP_LEO_NORMAL = 0"
| "phase_rank TCP_LEO_PRE_HANDOVER = 1"
| "phase_rank TCP_LEO_DRAIN = 2"
| "phase_rank TCP_LEO_OUTAGE = 3"
| "phase_rank TCP_LEO_RECOVERY = 4"

lemma starts_ordered:
  "pre_start p s \<le> drain_start p s" "drain_start p s \<le> outage_start p s" "outage_start p s \<le> p"
  by (simp_all add: schedule_defs)

lemma scheduled_forward:
  assumes "pos \<le> pos'" and "controlled (fst (scheduled p s pos))"
    and "controlled (fst (scheduled p s pos'))"
  shows "phase_rank (fst (scheduled p s pos)) \<le> phase_rank (fst (scheduled p s pos'))"
  using assms starts_ordered [where p = p and s = s]
  by (auto simp: scheduled_def split: if_splits)

text \<open>The outage is over when the period is, if it is no longer than half a round trip.\<close>

lemma scheduled_controlled_iff:
  assumes "s_outage s \<le> s_half s" and "s_half s \<le> p"
  shows "controlled (fst (scheduled p s pos)) \<longleftrightarrow>
           pre_start p s \<le> pos \<and> pos < outage_start p s + s_outage s"
  using assms starts_ordered [where p = p and s = s]
  by (auto simp: scheduled_def outage_start_def)

lemma scheduled_lengths:
  assumes "s_half s + s_lead s + s_pre s \<le> p"
  shows "drain_start p s = pre_start p s + s_pre s"
    and "outage_start p s = drain_start p s + s_lead s"
    and "p = outage_start p s + s_half s"
  using assms by (simp_all add: schedule_defs)

lemma scheduled_elapsed:
  assumes "s_half s + s_lead s + s_pre s \<le> p"
  shows "fst (scheduled p s pos) = TCP_LEO_PRE_HANDOVER \<Longrightarrow> snd (scheduled p s pos) < s_pre s"
    and "fst (scheduled p s pos) = TCP_LEO_DRAIN \<Longrightarrow> snd (scheduled p s pos) < s_lead s"
    and "fst (scheduled p s pos) = TCP_LEO_OUTAGE \<Longrightarrow> snd (scheduled p s pos) < s_outage s"
  using scheduled_lengths [OF assms] by (auto simp: scheduled_def split: if_splits)

end
