(* ===== verification/Leo_Invariant.thy ===== *)
theory Leo_Invariant
  imports Leo_Schedule
begin

text \<open>
  The invariant of the per-socket controller state, its preservation by every operation of
  \<open>tcp_redhat.c\<close>, and the states that are reachable by calls of \<open>tcp_leo_dynamic_target\<close> interleaved
  with arbitrary work of the rest of TCP.
\<close>

section \<open>Invariant\<close>

text \<open>What holds of a frozen snapshot at every point of a call.\<close>

definition leo_core :: "tcp_leo_dynamic_state \<Rightarrow> bool" where
  "leo_core st \<longleftrightarrow> (frozen st \<longrightarrow>
     initialized st \<and>
     frozen_min_rwnd st \<le> frozen_start_rwnd st \<and>
     frozen_rtt_half_us st = frozen_rtt_us st div 2 \<and>
     frozen_outage_us st \<le> frozen_rtt_half_us st \<and>
     (pre_started st \<longrightarrow>
        frozen_min_rwnd st \<le> frozen_pre_start_wnd st \<and>
        frozen_pre_start_wnd st \<le> frozen_start_rwnd st))"

text \<open>Between calls the recorded phase agrees with the snapshot: a controlled phase has an anchor, and
  a recovery has a start time.\<close>

definition leo_wf :: "tcp_leo_dynamic_state \<Rightarrow> bool" where
  "leo_wf st \<longleftrightarrow> leo_core st \<and>
     (controlled (current_phase st) \<longrightarrow> frozen st \<and> pre_started st) \<and>
     (current_phase st = TCP_LEO_RECOVERY \<longrightarrow>
        frozen st \<and> recovery_started st \<and> frozen_recovery_us st \<noteq> 0)"

definition leo_active :: "'a netns_leo_scheme \<Rightarrow> sock \<Rightarrow> bool" where
  "leo_active net sk \<longleftrightarrow> sysctl_tcp_leo_rwnd_enable net \<noteq> 0 \<and>
     sysctl_tcp_leo_dynamic_enable net \<noteq> 0 \<and> tcp_leo_port_matches net sk"

section \<open>Every operation keeps the snapshot well formed\<close>

lemma leo_core_not_frozen: "\<not> frozen st \<Longrightarrow> leo_core st"
  by (simp add: leo_core_def)

lemma leo_core_update_measurements:
  assumes "leo_core (leo_state sk)"
  shows "leo_core (leo_state (leo_update_measurements net sk w t p))"
proof (cases "initialized (leo_state sk)")
  case True
  with assms show ?thesis by (auto simp: leo_core_def leo_frame)
next
  case False
  then show ?thesis by (simp add: leo_core_not_frozen leo_update_measurements_init)
qed

lemma leo_core_freeze_parameters:
  "initialized (leo_state sk) \<Longrightarrow> leo_core (leo_state (leo_freeze_parameters net sk w t))"
  using leo_calc_outage_le_half [of net "leo_pick_rtt_us net sk" "rtt_baseline_us (leo_state sk)"]
  by (simp add: leo_core_def leo_freeze_parameters_def Let_def leo_pick_start_rwnd_def
      word_le_nat_alt unat_div_word unat_max)

lemma leo_core_release_after_recovery: "leo_core st \<Longrightarrow> leo_core (leo_release_after_recovery t st)"
  by (auto simp: leo_core_def leo_release_after_recovery_def)

lemma leo_core_release_no_recovery: "leo_core st \<Longrightarrow> leo_core (leo_release_no_recovery net t st)"
  by (auto simp: leo_core_def leo_release_no_recovery_def)

lemma release_initialized [simp]:
  "initialized (leo_release_after_recovery t st) = initialized st"
  "initialized (leo_release_no_recovery net t st) = initialized st"
  by (simp_all add: leo_release_after_recovery_def leo_release_no_recovery_def)

lemma freeze_initialized [simp]:
  "initialized (leo_state (leo_freeze_parameters net sk w t)) = initialized (leo_state sk)"
  by (simp add: leo_freeze_parameters_def Let_def)

lemma leo_core_maybe_freeze:
  assumes "leo_core (leo_state sk)" and "initialized (leo_state sk)"
  shows "leo_core (leo_state (leo_maybe_freeze net sk w t))"
    and "initialized (leo_state (leo_maybe_freeze net sk w t))"
  using assms
  by (simp_all add: leo_maybe_freeze_def Let_def leo_core_freeze_parameters
      leo_core_release_after_recovery leo_core_release_no_recovery)

lemma leo_phase_core:
  assumes "leo_phase net sk now = (p, e, sk')" and "leo_core (leo_state sk)"
  shows "leo_core (leo_state sk')"
  using assms by (auto simp: leo_phase_def leo_core_def Let_def split: if_splits prod.splits)

lemma leo_phase_initialized:
  "leo_phase net sk now = (p, e, sk') \<Longrightarrow> initialized (leo_state sk') = initialized (leo_state sk)"
  by (auto simp: leo_phase_def Let_def split: if_splits prod.splits)

lemma leo_phase_controlled:
  assumes "leo_phase net sk now = (p, e, sk')" and "controlled p"
  shows "frozen (leo_state sk')"
  using assms by (auto simp: leo_phase_def Let_def split: if_splits prod.splits)

lemma leo_scheduled_phase_not_recovery: "fst (leo_scheduled_phase p st pos) \<noteq> TCP_LEO_RECOVERY"
  by (simp add: leo_scheduled_phase_def Let_def)

lemma leo_phase_recovery:
  assumes "leo_phase net sk now = (TCP_LEO_RECOVERY, e, sk')"
  shows "frozen (leo_state sk') \<and> recovery_started (leo_state sk') \<and>
    frozen_recovery_us (leo_state sk') \<noteq> 0"
  using assms leo_scheduled_phase_not_recovery
    [of "u64_of_u32 (sysctl_tcp_leo_rwnd_period_ms net) * 1000" "leo_state sk"
      "leo_period_position_us net now"]
  by (auto simp: leo_phase_def Let_def split: if_splits prod.splits)

lemma leo_core_take_anchor:
  "leo_core st \<Longrightarrow> leo_core (leo_take_anchor w rn st)"
  by (auto simp: leo_core_def leo_take_anchor_def)

lemma leo_take_anchor_simps [simp]:
  "pre_started (leo_take_anchor w rn st)"
  "frozen (leo_take_anchor w rn st) = frozen st"
  "initialized (leo_take_anchor w rn st) = initialized st"
  "recovery_started (leo_take_anchor w rn st) = recovery_started st"
  "frozen_recovery_us (leo_take_anchor w rn st) = frozen_recovery_us st"
  "frozen_min_rwnd (leo_take_anchor w rn st) = frozen_min_rwnd st"
  by (simp_all add: leo_take_anchor_def)

lemma leo_core_anchor_step:
  "leo_core (leo_state sk) \<Longrightarrow> leo_core (leo_state (leo_anchor_step w q p sk))"
  by (simp add: leo_anchor_step_def Let_def leo_core_take_anchor)

lemma leo_anchor_step_simps [simp]:
  "frozen (leo_state (leo_anchor_step w q p sk)) = frozen (leo_state sk)"
  "initialized (leo_state (leo_anchor_step w q p sk)) = initialized (leo_state sk)"
  "recovery_started (leo_state (leo_anchor_step w q p sk)) = recovery_started (leo_state sk)"
  "frozen_recovery_us (leo_state (leo_anchor_step w q p sk)) = frozen_recovery_us (leo_state sk)"
  "rcv_nxt (leo_anchor_step w q p sk) = rcv_nxt sk"
  by (simp_all add: leo_anchor_step_def Let_def)

lemma leo_anchor_step_started:
  "controlled p \<Longrightarrow> pre_started (leo_state (leo_anchor_step w q p sk))"
  by (auto simp: leo_anchor_step_def controlled_def Let_def)

section \<open>The entry point\<close>

lemma dynamic_target_passive:
  "\<not> leo_active net sk \<Longrightarrow> tcp_leo_dynamic_target net r m sk w = (w, sk)"
  by (auto simp: tcp_leo_dynamic_target_def leo_active_def)

text \<open>The stages of an active call.\<close>

lemma dynamic_target_activeE:
  assumes "leo_active net sk" and "tcp_leo_dynamic_target net r m sk w = (t, sk')"
  obtains sk1 phase e sk3 sk4 where
    "sk1 = (if \<not> initialized (leo_state sk)
            then leo_update_measurements net sk w (leo_now_mono_us m) TCP_LEO_NORMAL else sk)"
    and "leo_phase net (leo_maybe_freeze net sk1 w (leo_now_real_us r)) (leo_now_real_us r) =
           (phase, e, sk3)"
    and "sk4 = leo_update_measurements net sk3 w (leo_now_mono_us m) phase"
    and "sk' = upd_leo (\<lambda>st. st\<lparr>current_phase := phase\<rparr>)
           (leo_anchor_step w (current_phase (leo_state sk)) phase sk4)"
    and "t = min (leo_phase_target (rcv_nxt sk') (leo_state sk') w phase e) w"
  using assms
  by (auto simp: tcp_leo_dynamic_target_def leo_active_def Let_def split: prod.splits)

lemma first_measurement:
  assumes "leo_core (leo_state sk)"
    and "sk1 = (if \<not> initialized (leo_state sk)
                then leo_update_measurements net sk w t TCP_LEO_NORMAL else sk)"
  shows "leo_core (leo_state sk1) \<and> initialized (leo_state sk1)"
  using assms by (auto simp: leo_core_update_measurements leo_update_measurements_init)

lemma leo_core_current_phase: "leo_core (st\<lparr>current_phase := p\<rparr>) = leo_core st"
  by (simp add: leo_core_def)

text \<open>The state after an active call: the recorded phase and what it guarantees.\<close>

lemma active_call:
  assumes act: "leo_active net sk" and call: "tcp_leo_dynamic_target net r m sk w = (t, sk')"
    and core: "leo_core (leo_state sk)"
  obtains e where "leo_wf (leo_state sk')" and "initialized (leo_state sk')"
    and "t = min (leo_phase_target (rcv_nxt sk') (leo_state sk') w (current_phase (leo_state sk')) e) w"
proof -
  obtain sk1 phase e sk3 sk4 where
    sk1: "sk1 = (if \<not> initialized (leo_state sk)
            then leo_update_measurements net sk w (leo_now_mono_us m) TCP_LEO_NORMAL else sk)"
    and ph: "leo_phase net (leo_maybe_freeze net sk1 w (leo_now_real_us r)) (leo_now_real_us r) =
           (phase, e, sk3)"
    and sk4: "sk4 = leo_update_measurements net sk3 w (leo_now_mono_us m) phase"
    and sk': "sk' = upd_leo (\<lambda>st. st\<lparr>current_phase := phase\<rparr>)
           (leo_anchor_step w (current_phase (leo_state sk)) phase sk4)"
    and t: "t = min (leo_phase_target (rcv_nxt sk') (leo_state sk') w phase e) w"
    by (rule dynamic_target_activeE [OF act call])
  note c1 = first_measurement [OF core sk1]
  note c2 = leo_core_maybe_freeze [OF c1 [THEN conjunct1] c1 [THEN conjunct2], of net w "leo_now_real_us r"]
  have c3: "leo_core (leo_state sk3)" and i3: "initialized (leo_state sk3)"
    using leo_phase_core [OF ph c2(1)] leo_phase_initialized [OF ph] c2(2) by simp_all
  have c4: "leo_core (leo_state sk4)" using c3 sk4 by (simp add: leo_core_update_measurements)
  have "phase = TCP_LEO_RECOVERY \<Longrightarrow> frozen (leo_state sk3) \<and> recovery_started (leo_state sk3) \<and>
      frozen_recovery_us (leo_state sk3) \<noteq> 0"
    using ph leo_phase_recovery by metis
  then have "leo_wf (leo_state sk')"
    unfolding leo_wf_def using c4 i3 leo_phase_controlled [OF ph]
    by (auto simp: sk' leo_core_current_phase leo_core_anchor_step leo_anchor_step_started sk4 leo_frame)
  moreover have "initialized (leo_state sk')" using i3 by (simp add: sk' sk4 leo_frame)
  moreover have "current_phase (leo_state sk') = phase" by (simp add: sk')
  ultimately show thesis using that t by simp
qed

lemma dynamic_target_wf:
  assumes "leo_wf (leo_state sk)"
  shows "leo_wf (leo_state (snd (tcp_leo_dynamic_target net r m sk w)))"
proof (cases "leo_active net sk")
  case True
  from assms have "leo_core (leo_state sk)" by (simp add: leo_wf_def)
  from active_call [OF True _ this, of r m w] show ?thesis by (metis prod.collapse)
next
  case False
  with assms show ?thesis by (simp add: dynamic_target_passive)
qed

section \<open>Reachable states\<close>

text \<open>The life of a socket: a call of the controller with any namespace settings, clock readings and
  ordinary window, or a step of the rest of TCP, which may change everything but the controller's
  own state.\<close>

inductive leo_step :: "sock \<Rightarrow> sock \<Rightarrow> bool" where
  call: "leo_step sk (snd (tcp_leo_dynamic_target (net :: netns_ipv4) real_ns mono_ns sk w))"
| tcp: "leo_state sk' = leo_state sk \<Longrightarrow> leo_step sk sk'"

inductive leo_reachable :: "sock \<Rightarrow> bool" where
  start: "leo_reachable (tcp_leo_dynamic_init sk)"
| step: "leo_reachable sk \<Longrightarrow> leo_step sk sk' \<Longrightarrow> leo_reachable sk'"

inductive_cases leo_stepE: "leo_step sk sk'"

lemma leo_wf_init: "leo_wf (leo_state (tcp_leo_dynamic_init sk))"
  by (simp add: tcp_leo_dynamic_init_def leo_state_zero_def leo_wf_def leo_core_def)

lemma leo_step_wf: "leo_step sk sk' \<Longrightarrow> leo_wf (leo_state sk) \<Longrightarrow> leo_wf (leo_state sk')"
  by (erule leo_stepE) (simp_all add: dynamic_target_wf)

lemma leo_reachable_wf: "leo_reachable sk \<Longrightarrow> leo_wf (leo_state sk)"
  by (induction rule: leo_reachable.induct) (auto intro: leo_wf_init leo_step_wf)

lemma leo_wf_anchored: "leo_wf st \<Longrightarrow> controlled (current_phase st) \<Longrightarrow> anchored st"
  by (simp add: leo_wf_def leo_core_def anchored_def)


section \<open>A snapshot is not kept forever\<close>

lemma maybe_freeze_keeps:
  assumes "frozen (leo_state sk)" and "\<not> recovery_started (leo_state sk)"
    and "frozen_recovery_us (leo_state sk) \<noteq> 0"
  shows "leo_maybe_freeze net sk w now = sk"
  using assms
  by (simp add: leo_maybe_freeze_def Let_def leo_release_after_recovery_def leo_release_no_recovery_def)

lemma phase_starts_recovery:
  assumes "frozen (leo_state sk)" and "\<not> recovery_started (leo_state sk)"
    and "frozen_recovery_us (leo_state sk) \<noteq> 0" and "sysctl_tcp_leo_rwnd_period_ms net \<noteq> 0"
    and "frozen_period_id (leo_state sk) < leo_period_id net now"
  shows "leo_phase net sk now = (TCP_LEO_RECOVERY, 0,
    upd_leo (\<lambda>st. st\<lparr>recovery_started := True, recovery_start_real_us := now\<rparr>) sk)"
  using assms by (auto simp: leo_phase_def Let_def period_us_eq_0)

text \<open>What is left of a snapshot: nothing, or a new one for the current period.\<close>

definition released :: "u64 \<Rightarrow> tcp_leo_dynamic_state \<Rightarrow> bool" where
  "released pid st \<longleftrightarrow> (frozen st \<longrightarrow> frozen_period_id st = pid \<and> \<not> recovery_started st)"

lemma maybe_freeze_releases:
  assumes "recovery_started (leo_state sk)" and "sysctl_tcp_leo_rwnd_period_ms net \<noteq> 0"
    and "u64_of_u32 (frozen_recovery_us (leo_state sk)) \<le> now - recovery_start_real_us (leo_state sk)"
  shows "released (leo_period_id net now) (leo_state (leo_maybe_freeze net sk w now))"
  using assms
  by (simp add: leo_maybe_freeze_def Let_def period_us_eq_0 leo_release_after_recovery_def
      leo_release_no_recovery_def leo_freeze_parameters_def released_def)

lemma phase_released:
  assumes "leo_phase net sk now = (p, e, sk')"
    and "released (leo_period_id net now) (leo_state sk)"
  shows "released (leo_period_id net now) (leo_state sk')"
  using assms by (auto simp: leo_phase_def released_def Let_def split: if_splits prod.splits)

lemma anchor_step_released:
  "released pid (leo_state (leo_anchor_step w q p sk)) = released pid (leo_state sk)"
  by (simp add: released_def leo_anchor_step_def Let_def leo_take_anchor_def)

lemma measurements_released:
  "initialized (leo_state sk) \<Longrightarrow>
     released pid (leo_state (leo_update_measurements net sk w t p)) = released pid (leo_state sk)"
  by (simp add: released_def leo_frame)

text \<open>The first call after the predicted handover starts the recovery ramp.\<close>

lemma call_starts_recovery:
  assumes act: "leo_active net sk" and call: "tcp_leo_dynamic_target net r m sk w = (t, sk')"
    and st: "initialized (leo_state sk)" "frozen (leo_state sk)" "\<not> recovery_started (leo_state sk)"
      "frozen_recovery_us (leo_state sk) \<noteq> 0"
    and net: "sysctl_tcp_leo_rwnd_period_ms net \<noteq> 0"
    and past: "frozen_period_id (leo_state sk) < leo_period_id net (leo_now_real_us r)"
  shows "current_phase (leo_state sk') = TCP_LEO_RECOVERY \<and> initialized (leo_state sk') \<and>
    recovery_started (leo_state sk') \<and> recovery_start_real_us (leo_state sk') = leo_now_real_us r \<and>
    frozen_recovery_us (leo_state sk') = frozen_recovery_us (leo_state sk)"
proof -
  have "leo_phase net (leo_maybe_freeze net sk w (leo_now_real_us r)) (leo_now_real_us r) =
    (TCP_LEO_RECOVERY, 0, upd_leo (\<lambda>st. st\<lparr>recovery_started := True,
       recovery_start_real_us := leo_now_real_us r\<rparr>) sk)"
    unfolding maybe_freeze_keeps [OF st(2-4)] by (rule phase_starts_recovery [OF st(2-4) net past])
  then show ?thesis
    using st(1) by (rule_tac dynamic_target_activeE [OF act call])
      (auto simp: leo_anchor_step_def leo_frame)
qed

text \<open>A call at least one recovery duration later drops the snapshot, or replaces it.\<close>

lemma call_releases:
  assumes act: "leo_active net sk" and call: "tcp_leo_dynamic_target net r m sk w = (t, sk')"
    and st: "initialized (leo_state sk)" "recovery_started (leo_state sk)"
    and net: "sysctl_tcp_leo_rwnd_period_ms net \<noteq> 0"
    and late: "u64_of_u32 (frozen_recovery_us (leo_state sk)) \<le>
      leo_now_real_us r - recovery_start_real_us (leo_state sk)"
  shows "released (leo_period_id net (leo_now_real_us r)) (leo_state sk')"
proof -
  let ?now = "leo_now_real_us r"
  obtain sk1 phase e sk3 sk4 where sk1: "sk1 = (if \<not> initialized (leo_state sk)
            then leo_update_measurements net sk w (leo_now_mono_us m) TCP_LEO_NORMAL else sk)"
    and ph: "leo_phase net (leo_maybe_freeze net sk1 w ?now) ?now = (phase, e, sk3)"
    and sk4: "sk4 = leo_update_measurements net sk3 w (leo_now_mono_us m) phase"
    and sk': "sk' = upd_leo (\<lambda>st. st\<lparr>current_phase := phase\<rparr>)
           (leo_anchor_step w (current_phase (leo_state sk)) phase sk4)"
    by (rule dynamic_target_activeE [OF act call])
  have sk1': "sk1 = sk" using sk1 st(1) by simp
  have "initialized (leo_state (leo_maybe_freeze net sk w ?now))"
    using st(1) by (simp add: leo_maybe_freeze_def Let_def)
  then have i3: "initialized (leo_state sk3)" using leo_phase_initialized [OF ph] sk1' by simp
  have "released (leo_period_id net ?now) (leo_state sk3)"
    using phase_released [OF ph] maybe_freeze_releases [OF st(2) net late] sk1' by simp
  then have "released (leo_period_id net ?now)
      (leo_state (leo_anchor_step w (current_phase (leo_state sk)) phase sk4))"
    using i3 by (simp add: anchor_step_released measurements_released sk4)
  then show ?thesis by (simp add: sk' released_def)
qed

end
