(* ===== verification/Rwnd_Select.thy ===== *)
theory Rwnd_Select
  imports Leo_Control "HOL-Library.Signed_Division"
begin

text \<open>
  The receive window part of \<open>tcp_output.c\<close>: the fixed-schedule controller, the ordinary window
  (\<open>__tcp_select_window\<close>), the choice of the advertised window (\<open>tcp_select_window\<close>) and of the
  initial window.  Functions of the kernel that are not part of the repository are the fields of
  the record \<open>kern\<close>.
\<close>

section \<open>What the code calls\<close>

record kern =
  tcp_receive_window :: "sock \<Rightarrow> u32"
  tcp_space :: "sock \<Rightarrow> s32"
  tcp_full_space :: "sock \<Rightarrow> s32"
  sk_is_mptcp :: "sock \<Rightarrow> bool"
  mptcp_space :: "sock \<Rightarrow> s32 \<times> s32 \<Rightarrow> s32 \<times> s32"
  tcp_under_memory_pressure :: "sock \<Rightarrow> bool"
  tcp_adjust_rcv_ssthresh :: "sock \<Rightarrow> sock"

text \<open>Documented behaviour of \<open>tcp_receive_window\<close>: what is left of the window offered last, as a
  signed difference, never negative.\<close>

definition receive_window_ok :: "kern \<Rightarrow> bool" where
  "receive_window_ok K \<longleftrightarrow> (\<forall>sk. tcp_receive_window K sk =
     (let win = rcv_wup sk + rcv_wnd sk - rcv_nxt sk in if win <s 0 then 0 else win))"

datatype mib = LINUX_MIB_TCPWANTZEROWINDOWADV | LINUX_MIB_TCPTOZEROWINDOWADV
  | LINUX_MIB_TCPFROMZEROWINDOWADV

definition smin :: "s32 \<Rightarrow> s32 \<Rightarrow> s32" where
  "smin a b = (if a <s b then a else b)"

section \<open>The fixed-schedule controller\<close>

definition tcp_leo_rwnd_min_window :: "'a netns_leo_scheme \<Rightarrow> sock \<Rightarrow> u32" where
  "tcp_leo_rwnd_min_window net sk =
     (let min_segs = sysctl_tcp_leo_rwnd_min_segs net;
          mss = (ucast (icsk_ack_rcv_mss sk) :: u32);
          min_segs = (if min_segs = 0 then 1 else min_segs);
          mss = (if mss = 0 then ucast (advmss sk) else mss);
          mss = (if mss = 0 then TCP_MSS_DEFAULT else mss)
      in min_segs * mss)"

definition tcp_leo_rwnd_phase_ms :: "'a netns_leo_scheme \<Rightarrow> u64 \<Rightarrow> u32" where
  "tcp_leo_rwnd_phase_ms net real_ns =
     (let period = sysctl_tcp_leo_rwnd_period_ms net;
          offset = sysctl_tcp_leo_rwnd_offset_ms net
      in if period = 0 then 0
         else
           let now_ms = real_ns div 1000000;
               rem = u32_of_u64 (now_ms mod u64_of_u32 period);
               offset = offset mod period
           in if rem \<ge> offset then rem - offset else rem + period - offset)"

definition tcp_leo_rwnd_target :: "'a netns_leo_scheme \<Rightarrow> u64 \<Rightarrow> sock \<Rightarrow> u32 \<Rightarrow> u32" where
  "tcp_leo_rwnd_target net real_ns sk normal_win =
     (let period = sysctl_tcp_leo_rwnd_period_ms net;
          pre = sysctl_tcp_leo_rwnd_pre_ms net;
          outage = sysctl_tcp_leo_rwnd_outage_ms net;
          recovery = sysctl_tcp_leo_rwnd_recovery_ms net;
          fast_recovery = sysctl_tcp_leo_rwnd_fast_recovery net
      in if sysctl_tcp_leo_rwnd_enable net = 0 then normal_win
         else if period = 0 then normal_win
         else
           let pre = (if pre \<ge> period then period - 1 else pre);
               min_win = tcp_leo_rwnd_min_window net sk
           in if normal_win \<le> min_win then normal_win
              else
                let phase = tcp_leo_rwnd_phase_ms net real_ns;
                    pre_start = period - pre;
                    recovery_end = outage + recovery;
                    delta = u64_of_u32 (normal_win - min_win)
                in if pre \<noteq> 0 \<and> phase \<ge> pre_start
                   then u32_of_u64 (u64_of_u32 normal_win -
                          (delta * u64_of_u32 (phase - pre_start)) div u64_of_u32 pre)
                   else if phase < outage then min_win
                   else if recovery \<noteq> 0 \<and> phase < recovery_end
                   then (if fast_recovery \<noteq> 0 then normal_win
                         else u32_of_u64 (u64_of_u32 min_win +
                                (delta * u64_of_u32 (phase - outage)) div u64_of_u32 recovery))
                   else normal_win)"

definition tcp_leo_rwnd_clamp :: "'a netns_leo_scheme \<Rightarrow> u64 \<Rightarrow> sock \<Rightarrow> u32 \<Rightarrow> u32 \<Rightarrow> u32" where
  "tcp_leo_rwnd_clamp net real_ns sk cur_win new_win =
     (if sysctl_tcp_leo_rwnd_enable net = 0 then new_win
      else
        let target = tcp_leo_rwnd_target net real_ns sk new_win
        in if target \<ge> new_win then new_win
           else
             let drained = rcv_nxt sk - rcv_wup sk
             in if target < cur_win
                then min new_win (if drained \<ge> cur_win - target then target else cur_win - drained)
                else min new_win target)"

section \<open>The ordinary window\<close>

text \<open>\<open>rounddown(x, y)\<close> on \<open>int\<close>: \<open>x - x % y\<close> with C's remainder, a division error at \<open>y = 0\<close>.\<close>

definition srounddown :: "s32 \<Rightarrow> s32 \<Rightarrow> s32 option" where
  "srounddown x y = (if y = 0 then None else Some (x - word_of_int (sint x smod sint y)))"

text \<open>The end of the path that must not shrink the window.\<close>

definition select_window_keep :: "sock \<Rightarrow> s32 \<Rightarrow> s32 \<Rightarrow> s32 \<Rightarrow> (u32 \<times> sock) option" where
  "select_window_keep sk mss full_space free_space =
     (let free_space = (if free_space > rcv_ssthresh sk then rcv_ssthresh sk else free_space)
      in if rcv_wscale sk \<noteq> 0
         then Some (ALIGN free_space (push_bit (unat (rcv_wscale sk)) 1), sk)
         else
           let window = rcv_wnd sk
           in if window \<le>s free_space - mss \<or> free_space <s window
              then map_option (\<lambda>w. (w, sk)) (srounddown free_space mss)
              else if mss = full_space \<and> window + signed_drop_bit 1 full_space <s free_space
              then Some (free_space, sk)
              else Some (window, sk))"

definition select_window_noshrink ::
  "kern \<Rightarrow> sock \<Rightarrow> s32 \<Rightarrow> s32 \<Rightarrow> s32 \<Rightarrow> s32 \<Rightarrow> (u32 \<times> sock) option" where
  "select_window_noshrink K sk mss full_space allowed_space free_space =
     (if free_space <s signed_drop_bit 1 full_space then
        let sk = sk\<lparr>icsk_ack_quick := 0\<rparr>;
            sk = (if tcp_under_memory_pressure K sk then tcp_adjust_rcv_ssthresh K sk else sk);
            free_space = round_down free_space (push_bit (unat (rcv_wscale sk)) 1)
        in if free_space <s signed_drop_bit 4 allowed_space \<or> free_space <s mss then Some (0, sk)
           else select_window_keep sk mss full_space free_space
      else select_window_keep sk mss full_space free_space)"

text \<open>The label \<open>shrink_window_allowed\<close>.\<close>

definition select_window_shrink ::
  "kern \<Rightarrow> sock \<Rightarrow> s32 \<Rightarrow> s32 \<Rightarrow> s32 \<Rightarrow> s32 \<Rightarrow> u32 \<times> sock" where
  "select_window_shrink K sk mss full_space allowed_space free_space =
     (let scale = push_bit (unat (rcv_wscale sk)) 1;
          free_space = round_down free_space scale;
          finish = (\<lambda>sk. (if free_space > rcv_ssthresh sk
                          then ALIGN (rcv_ssthresh sk) (push_bit (unat (rcv_wscale sk)) 1)
                          else free_space, sk))
      in if free_space <s signed_drop_bit 1 full_space then
           let sk = sk\<lparr>icsk_ack_quick := 0\<rparr>;
               sk = (if tcp_under_memory_pressure K sk then tcp_adjust_rcv_ssthresh K sk else sk)
           in if free_space <s signed_drop_bit 4 allowed_space \<or> free_space <s mss \<or>
                 free_space <s push_bit (unat (rcv_wscale sk)) 1
              then (0, sk) else finish sk
         else finish sk)"

text \<open>\<open>__tcp_select_window\<close>; \<open>None\<close> is the division error of a zero \<open>rcv_mss\<close>.\<close>

definition u_tcp_select_window :: "kern \<Rightarrow> netns_ipv4 \<Rightarrow> sock \<Rightarrow> (u32 \<times> sock) option" where
  "u_tcp_select_window K net sk =
     (let mss = (ucast (icsk_ack_rcv_mss sk) :: s32);
          free_space = tcp_space K sk;
          allowed_space = tcp_full_space K sk;
          (free_space, allowed_space) =
            (if sk_is_mptcp K sk then mptcp_space K sk (free_space, allowed_space)
             else (free_space, allowed_space));
          full_space = smin (window_clamp sk) allowed_space
      in if full_space <s mss \<and> full_space \<le>s 0 then Some (0, sk)
         else
           let mss = (if full_space <s mss then full_space else mss)
           in if sysctl_tcp_shrink_window net \<noteq> 0 \<and> rcv_wscale sk \<noteq> 0
              then Some (select_window_shrink K sk mss full_space allowed_space free_space)
              else select_window_noshrink K sk mss full_space allowed_space free_space)"

section \<open>The advertised window\<close>

text \<open>Where a window smaller than the one still offered is replaced by the latter.\<close>

definition keep_offered :: "netns_ipv4 \<Rightarrow> sock \<Rightarrow> bool \<Rightarrow> u32 \<Rightarrow> u32 \<Rightarrow> u32 \<times> mib list" where
  "keep_offered net sk leo_dynamic cur_win new_win =
     (if new_win < cur_win \<and> \<not> leo_dynamic then
        (if sysctl_tcp_shrink_window net = 0 \<or> rcv_wscale sk = 0
         then (ALIGN cur_win (push_bit (unat (rcv_wscale sk)) 1),
               if new_win = 0 then [LINUX_MIB_TCPWANTZEROWINDOWADV] else [])
         else (new_win, []))
      else (new_win, []))"

text \<open>The value for the header's window field.\<close>

definition scale_window :: "netns_ipv4 \<Rightarrow> sock \<Rightarrow> u32 \<Rightarrow> u32" where
  "scale_window net sk new_win =
     drop_bit (unat (rcv_wscale sk))
       (if rcv_wscale sk = 0 \<and> sysctl_tcp_workaround_signed_windows net \<noteq> 0
        then min new_win 32767
        else min new_win (push_bit (unat (rcv_wscale sk)) 65535))"

definition tcp_select_window ::
  "kern \<Rightarrow> netns_ipv4 \<Rightarrow> u64 \<Rightarrow> u64 \<Rightarrow> sock \<Rightarrow> (u16 \<times> mib list \<times> sock) option" where
  "tcp_select_window K net real_ns mono_ns sk =
     (let old_win = rcv_wnd sk;
          leo_dynamic = (sysctl_tcp_leo_rwnd_enable net \<noteq> 0 \<and> sysctl_tcp_leo_dynamic_enable net \<noteq> 0)
      in if icsk_ack_nomem sk
         then Some (0, [], sk\<lparr>pred_flags := 0, rcv_wnd := 0, rcv_wup := rcv_nxt sk\<rparr>)
         else
           let cur_win = tcp_receive_window K sk
           in case u_tcp_select_window K net sk of
                None \<Rightarrow> None
              | Some (new_win, sk) \<Rightarrow>
                  let (new_win, sk) =
                        (if leo_dynamic then tcp_leo_dynamic_target net real_ns mono_ns sk new_win
                         else if sysctl_tcp_leo_rwnd_enable net \<noteq> 0
                         then (tcp_leo_rwnd_clamp net real_ns sk cur_win new_win, sk)
                         else (new_win, sk));
                      (new_win, mibs) = keep_offered net sk leo_dynamic cur_win new_win;
                      sk = sk\<lparr>rcv_wnd := new_win, rcv_wup := rcv_nxt sk\<rparr>;
                      new_win = scale_window net sk new_win
                  in if new_win = 0
                     then Some (ucast new_win,
                            mibs @ (if old_win \<noteq> 0 then [LINUX_MIB_TCPTOZEROWINDOWADV] else []),
                            sk\<lparr>pred_flags := 0\<rparr>)
                     else Some (ucast new_win,
                            mibs @ (if old_win = 0 then [LINUX_MIB_TCPFROMZEROWINDOWADV] else []), sk))"

section \<open>The initial window\<close>

text \<open>\<open>ilog2\<close> of a 32 bit value: the position of its highest bit, \<open>-1\<close> for 0.\<close>

definition ilog2 :: "u32 \<Rightarrow> int" where
  "ilog2 x = (if x = 0 then -1 else int (last (filter (\<lambda>i. bit x i) [0..<32])))"

text \<open>Results: \<open>*rcv_wnd\<close>, \<open>*__window_clamp\<close> and \<open>*rcv_wscale\<close>; \<open>None\<close> is the division error of a
  zero \<open>mss\<close>, which the callers must avoid.\<close>

definition tcp_select_initial_window ::
  "netns_ipv4 \<Rightarrow> u32 \<Rightarrow> s32 \<Rightarrow> u32 \<Rightarrow> u32 \<Rightarrow> bool \<Rightarrow> u32 \<Rightarrow> (u32 \<times> u32 \<times> u8) option" where
  "tcp_select_initial_window net sysctl_rmem_max space0 mss window_clamp0 wscale_ok init_rcv_wnd =
     (let space = (if space0 <s 0 then 0 else space0);
          clampw = (if window_clamp0 = 0 then push_bit 14 65535 else window_clamp0);
          space = min clampw space
      in if space > mss \<and> mss = 0 then None
         else
           let space = (if space > mss then space - space mod mss else space);
               rcv_wnd = (if sysctl_tcp_workaround_signed_windows net \<noteq> 0
                          then min space 32767 else min space 65535);
               rcv_wnd = (if init_rcv_wnd \<noteq> 0 then min rcv_wnd (init_rcv_wnd * mss) else rcv_wnd);
               rcv_wscale =
                 (if wscale_ok then
                    let space = max space (sysctl_tcp_rmem2 net);
                        space = max space sysctl_rmem_max;
                        space = min space clampw
                    in nat (clamp_t (ilog2 space - 15) 0 14)
                  else 0)
           in Some (rcv_wnd, min (push_bit rcv_wscale 65535) clampw, of_nat rcv_wscale))"


section \<open>The phase clock of the fixed controller\<close>

lemma clamp_below_period: "(p :: u32) \<noteq> 0 \<Longrightarrow> (if p \<le> q then p - 1 else q) = min q (p - 1)"
proof -
  assume p: "p \<noteq> 0"
  have "q \<le> p - 1 \<longleftrightarrow> q < p"
  proof -
    have "1 \<le> unat p" using p by (simp add: unat_gt_0 Suc_leI)
    moreover from this have "unat (p - 1) = unat p - 1" by (simp add: unat_minus_le word_le_nat_alt)
    ultimately show ?thesis unfolding word_le_nat_alt word_less_nat_alt by linarith
  qed
  then show ?thesis by (auto simp: min_def not_less not_le)
qed

lemma mod_shift_nat:
  fixes n p k :: nat
  assumes "k < p"
  shows "(n + p - k) mod p = (if k \<le> n mod p then n mod p - k else n mod p + p - k)"
proof (cases "k \<le> n mod p")
  case True
  have "n + p - k = (n mod p - k) + p * Suc (n div p)"
  proof -
    have "n = n mod p + p * (n div p)" by simp
    then show ?thesis using True unfolding mult_Suc_right by linarith
  qed
  then have "(n + p - k) mod p = (n mod p - k) mod p" by (metis mod_mult_self2)
  also have "\<dots> = n mod p - k" using assms by (simp add: less_imp_diff_less)
  finally show ?thesis using True by simp
next
  case False
  have "n + p - k = (n mod p + p - k) + p * (n div p)"
    using False assms mult_div_mod_eq [of p n] by linarith
  then have "(n + p - k) mod p = (n mod p + p - k) mod p" by (metis mod_mult_self2)
  also have "\<dots> = n mod p + p - k" using False assms by (intro mod_less) linarith
  finally show ?thesis using False by simp
qed

lemma unat_tcp_leo_rwnd_phase_ms:
  fixes net :: "'a netns_leo_scheme"
  defines "p \<equiv> unat (sysctl_tcp_leo_rwnd_period_ms net)"
  assumes "sysctl_tcp_leo_rwnd_period_ms net \<noteq> 0"
  shows "unat (tcp_leo_rwnd_phase_ms net ns) =
    (unat ns div 1000000 + p - unat (sysctl_tcp_leo_rwnd_offset_ms net) mod p) mod p"
proof -
  let ?per = "sysctl_tcp_leo_rwnd_period_ms net" and ?off = "sysctl_tcp_leo_rwnd_offset_ms net"
  let ?rem = "u32_of_u64 (ns div 1000000 mod u64_of_u32 ?per)"
  have p0: "0 < p" using assms by (simp add: unat_gt_0)
  have pm: "p < 4294967296" by (simp add: p_def)
  have rm: "unat ns div 1000000 mod p < p" using p0 by simp
  then have "unat ns div 1000000 mod p < 4294967296" using pm by linarith
  then have rem: "unat ?rem = unat ns div 1000000 mod p"
    by (simp add: unat_u32_of_u64 unat_mod_word unat_div_word p_def)
  have off: "unat (?off mod ?per) = unat ?off mod p" by (simp add: unat_mod_word p_def)
  have ok: "unat ?off mod p < p" using p0 by simp
  have up: "unat (?rem + ?per - ?off mod ?per) = unat ?rem + p - unat ?off mod p"
    if "unat ?rem < unat ?off mod p"
  proof -
    have d: "unat (?per - ?off mod ?per) = p - unat ?off mod p"
      using ok by (simp add: unat_minus_le word_le_nat_alt off p_def)
    have "unat ?rem + (p - unat ?off mod p) < 4294967296" using that ok pm by linarith
    then have "unat (?rem + (?per - ?off mod ?per)) = unat ?rem + (p - unat ?off mod p)"
      by (simp add: unat_plus_small d)
    then show ?thesis using ok by (simp add: add_diff_eq)
  qed
  have "unat (tcp_leo_rwnd_phase_ms net ns) =
    (if unat ?off mod p \<le> unat ?rem then unat ?rem - unat ?off mod p
     else unat ?rem + p - unat ?off mod p)"
    using assms(2) up
    by (simp add: tcp_leo_rwnd_phase_ms_def Let_def word_le_nat_alt off unat_minus_le)
  then show ?thesis by (simp only: rem mod_shift_nat [OF ok])
qed

lemma tcp_leo_rwnd_phase_ms_less:
  "sysctl_tcp_leo_rwnd_period_ms net \<noteq> 0 \<Longrightarrow>
     tcp_leo_rwnd_phase_ms net ns < sysctl_tcp_leo_rwnd_period_ms net"
  by (simp add: word_less_nat_alt unat_tcp_leo_rwnd_phase_ms unat_gt_0)

section \<open>The window of the fixed controller\<close>

lemma unat_ramp_down:
  fixes d e p w :: u32
  assumes "e < p" and "d \<le> w"
  shows "unat (u32_of_u64 (u64_of_u32 w - (u64_of_u32 d * u64_of_u32 e) div u64_of_u32 p)) =
    unat w - unat d * unat e div unat p" and "unat d * unat e div unat p \<le> unat d"
proof -
  have e: "unat e < unat p" and d: "unat d \<le> unat w"
    using assms by (simp_all add: word_nat_ord)
  have "unat d * unat e \<le> unat d * unat p" using e by simp
  then show q: "unat d * unat e div unat p \<le> unat d"
    using e by (metis div_le_mono div_mult_self_is_m gr_zeroI not_less_zero)
  have x: "unat ((u64_of_u32 d * u64_of_u32 e) div u64_of_u32 p) = unat d * unat e div unat p"
    by (simp add: unat_div_word unat_mult_u32_u64)
  then have "(u64_of_u32 d * u64_of_u32 e) div u64_of_u32 p \<le> u64_of_u32 w"
    using q d by (simp add: word_le_nat_alt)
  then have y: "unat (u64_of_u32 w - (u64_of_u32 d * u64_of_u32 e) div u64_of_u32 p) =
    unat w - unat d * unat e div unat p" by (simp add: unat_minus_le x)
  have "unat w - unat d * unat e div unat p < 4294967296" by (simp add: less_imp_diff_less)
  then show "unat (u32_of_u64 (u64_of_u32 w - (u64_of_u32 d * u64_of_u32 e) div u64_of_u32 p)) =
    unat w - unat d * unat e div unat p" by (simp add: unat_u32_of_u64 y)
qed

lemma unat_ramp_up:
  fixes d e p w :: u32
  assumes "e < p" and "unat w + unat d < 2 ^ 32"
  shows "unat (u32_of_u64 (u64_of_u32 w + (u64_of_u32 d * u64_of_u32 e) div u64_of_u32 p)) =
    unat w + unat d * unat e div unat p"
proof -
  note q = unat_ramp_down(2) [OF assms(1) order_refl, of d]
  have "unat w + unat d < 4294967296" using assms(2) by simp
  then have s: "unat w + unat d * unat e div unat p < 4294967296" using q by linarith
  have x: "unat ((u64_of_u32 d * u64_of_u32 e) div u64_of_u32 p) = unat d * unat e div unat p"
    by (simp add: unat_div_word unat_mult_u32_u64)
  have "unat (u64_of_u32 w + (u64_of_u32 d * u64_of_u32 e) div u64_of_u32 p) =
    unat w + unat d * unat e div unat p"
    using s by (simp add: unat_plus_small x)
  with s show ?thesis by (simp add: unat_u32_of_u64)
qed

lemma pre_elapsed_less:
  fixes ph per pre :: u32
  assumes "ph < per" and "pre \<le> per" and "per - pre \<le> ph"
  shows "ph - (per - pre) < pre"
  using assms by (simp add: word_nat_ord unat_minus_le)

lemma recovery_elapsed_less:
  fixes ph outage rec :: u32
  assumes "outage \<le> ph" and "ph < outage + rec"
  shows "ph - outage < rec"
proof -
  have "unat (outage + rec) = (unat outage + unat rec) mod 2 ^ 32" by (simp add: unat_word_ariths)
  then have "unat (outage + rec) \<le> unat outage + unat rec" by (simp add: mod_le_divisor)
  with assms show ?thesis by (simp add: word_nat_ord unat_minus_le)
qed

text \<open>Whatever the sysctls say, the fixed controller's window lies between its floor and the ordinary
  window.\<close>

lemma tcp_leo_rwnd_target_between:
  assumes "tcp_leo_rwnd_min_window net sk < w"
  shows "tcp_leo_rwnd_min_window net sk \<le> tcp_leo_rwnd_target net ns sk w \<and>
    tcp_leo_rwnd_target net ns sk w \<le> w"
proof -
  let ?min = "tcp_leo_rwnd_min_window net sk" and ?per = "sysctl_tcp_leo_rwnd_period_ms net"
  have ud: "unat (w - ?min) = unat w - unat ?min" using assms by (simp add: unat_minus_le less_imp_le)
  have d: "w - ?min \<le> w" using ud by (simp add: word_le_nat_alt)
  have lt: "unat ?min < unat w" using assms by (simp add: word_less_nat_alt)
  have s: "unat ?min + unat (w - ?min) < 2 ^ 32" unfolding ud using lt unat_lt32 [of w] by simp
  have down: "?min \<le> X \<and> X \<le> w"
    if "e < p" and "X = u32_of_u64 (u64_of_u32 w - u64_of_u32 (w - ?min) * u64_of_u32 e div u64_of_u32 p)"
    for e p X
    using unat_ramp_down [OF that(1) d] lt unfolding that(2) word_le_nat_alt ud by linarith
  have up: "?min \<le> X \<and> X \<le> w"
    if "e < p" and "X = u32_of_u64 (u64_of_u32 ?min + u64_of_u32 (w - ?min) * u64_of_u32 e div u64_of_u32 p)"
    for e p X
    using unat_ramp_up [OF that(1) s] unat_ramp_down(2) [OF that(1) d] lt
    unfolding that(2) word_le_nat_alt ud by linarith
  have pre: "(if ?per \<le> q then ?per - 1 else q) \<le> ?per" if "?per \<noteq> 0" for q
    using that by (simp add: word_le_nat_alt unat_minus_le unat_gt_0 Suc_leI)
  show ?thesis
  proof (cases "?per = 0")
    case True
    with assms show ?thesis by (simp add: tcp_leo_rwnd_target_def Let_def)
  next
    case False
    note ph = tcp_leo_rwnd_phase_ms_less [OF False, of ns]
    note pe = pre_elapsed_less [OF ph pre [OF False, of "sysctl_tcp_leo_rwnd_pre_ms net"]]
    show ?thesis
      unfolding tcp_leo_rwnd_target_def Let_def
      using assms False down [OF pe refl] up [OF recovery_elapsed_less refl]
      by (simp add: not_less less_imp_le)
  qed
qed

lemma tcp_leo_rwnd_target_le: "tcp_leo_rwnd_target net ns sk w \<le> w"
proof (cases "tcp_leo_rwnd_min_window net sk < w")
  case True
  then show ?thesis using tcp_leo_rwnd_target_between by blast
next
  case False
  then have "w \<le> tcp_leo_rwnd_min_window net sk" by simp
  then show ?thesis by (simp add: tcp_leo_rwnd_target_def Let_def)
qed

lemma tcp_leo_rwnd_clamp_le: "tcp_leo_rwnd_clamp net ns sk cur w \<le> w"
  by (simp add: tcp_leo_rwnd_clamp_def Let_def tcp_leo_rwnd_target_le)

section \<open>The advertised window\<close>

text \<open>The header field is never truncated, and stands for no more than the window kept in the socket.\<close>

lemma unat_push_bit_65535: "unat (push_bit (unat (ws :: u4)) 65535 :: u32) = 65535 * 2 ^ unat ws"
proof -
  have "(2::nat) ^ unat ws \<le> 2 ^ 15"
  proof (rule power_increasing)
    show "unat ws \<le> 15" using unat4_less [of ws] by linarith
  qed simp
  then have "2 ^ unat ws * (65535::nat) < 2 ^ 32" by simp
  then show ?thesis
    by (simp add: push_bit_eq_mult unat_word_ariths unat_pow2)
qed

lemma scale_window_le_u16: "unat (scale_window net sk w) \<le> 65535"
proof -
  have "min (unat w) (65535 * 2 ^ unat (rcv_wscale sk)) div 2 ^ unat (rcv_wscale sk) \<le>
    65535 * 2 ^ unat (rcv_wscale sk) div 2 ^ unat (rcv_wscale sk)"
    by (intro div_le_mono) simp
  then show ?thesis
    by (simp add: scale_window_def unat_drop_bit unat_min unat_push_bit_65535 min.coboundedI2)
qed

lemma scale_window_backed: "unat (scale_window net sk w) * 2 ^ unat (rcv_wscale sk) \<le> unat w"
proof -
  have "min (unat w) x div 2 ^ k * 2 ^ k \<le> unat w" for x k
    by (rule order_trans [OF div_times_less_eq_dividend]) simp
  then show ?thesis by (simp add: scale_window_def unat_drop_bit unat_min)
qed


lemma unat_ucast_scale_window: "unat (ucast (scale_window net sk w) :: u16) = unat (scale_window net sk w)"
  using scale_window_le_u16 [of net sk w] by (simp add: unsigned_ucast_eq take_bit_nat_eq_self)

text \<open>Documented behaviour of \<open>tcp_adjust_rcv_ssthresh\<close>: it sets \<open>rcv_ssthresh\<close> and nothing else.\<close>

definition adjust_ok :: "kern \<Rightarrow> bool" where
  "adjust_ok K \<longleftrightarrow> (\<forall>sk. \<exists>v. tcp_adjust_rcv_ssthresh K sk = sk\<lparr>rcv_ssthresh := v\<rparr>)"

definition same_offer :: "sock \<Rightarrow> sock \<Rightarrow> bool" where
  "same_offer sk sk' \<longleftrightarrow> rcv_wscale sk' = rcv_wscale sk \<and> rcv_nxt sk' = rcv_nxt sk \<and>
     rcv_wnd sk' = rcv_wnd sk \<and> rcv_wup sk' = rcv_wup sk \<and> advmss sk' = advmss sk \<and> leo_state sk' = leo_state sk"

lemma same_offer_pressure:
  assumes "adjust_ok K"
  shows "same_offer sk (let sk = sk\<lparr>icsk_ack_quick := 0\<rparr>
    in if tcp_under_memory_pressure K sk then tcp_adjust_rcv_ssthresh K sk else sk)"
proof -
  obtain v where "tcp_adjust_rcv_ssthresh K (sk\<lparr>icsk_ack_quick := 0\<rparr>) =
    sk\<lparr>icsk_ack_quick := 0, rcv_ssthresh := v\<rparr>"
    using assms unfolding adjust_ok_def by blast
  then show ?thesis by (simp add: same_offer_def Let_def)
qed

lemma select_window_keep_frame: "select_window_keep sk mss full free = Some (w, sk') \<Longrightarrow> sk' = sk"
  by (auto simp: select_window_keep_def Let_def split: if_splits)

lemma u_tcp_select_window_frame:
  assumes "adjust_ok K" and "u_tcp_select_window K net sk = Some (w, sk')"
  shows "same_offer sk sk'"
  using assms(2) same_offer_pressure [OF assms(1), of sk]
  by (auto simp: u_tcp_select_window_def select_window_noshrink_def select_window_shrink_def Let_def
      same_offer_def split: if_splits prod.splits dest!: select_window_keep_frame)

text \<open>A socket with a segment size estimate never divides by zero.\<close>

lemma ucast16_pos: "x \<noteq> 0 \<Longrightarrow> (ucast (x :: u16) :: s32) \<noteq> 0"
  by (simp add: word_unat_eq_iff unat_ucast16)

lemma select_window_keep_total:
  "mss \<noteq> 0 \<Longrightarrow> select_window_keep sk mss full free \<noteq> None"
  by (simp add: select_window_keep_def Let_def srounddown_def)

lemma select_window_noshrink_total:
  "mss \<noteq> 0 \<Longrightarrow> select_window_noshrink K sk mss full allowed free \<noteq> None"
  by (simp add: select_window_noshrink_def Let_def select_window_keep_total del: not_None_eq)

lemma u_tcp_select_window_total:
  assumes "icsk_ack_rcv_mss sk \<noteq> 0"
  shows "u_tcp_select_window K net sk \<noteq> None"
proof -
  have pos: "(if full <s m then full else m) \<noteq> 0"
    if "m \<noteq> 0" and "\<not> (full <s m \<and> full \<le>s 0)" for full m :: s32
    using that by auto
  show ?thesis
    unfolding u_tcp_select_window_def Let_def
    by (simp add: select_window_noshrink_total pos [OF ucast16_pos [OF assms]] case_prod_beta
        del: not_None_eq)
qed

lemma ucast_scale_window_eq_0: "(ucast (scale_window net sk w) :: u16) = 0 \<longleftrightarrow> scale_window net sk w = 0"
  using unat_ucast_scale_window [of net sk w] by (simp add: word_unat_eq_iff)

lemma scale_window_frame: "scale_window net (sk\<lparr>rcv_wnd := a, rcv_wup := b\<rparr>) w = scale_window net sk w"
  by (simp add: scale_window_def)

text \<open>The stages of a window selection that does not run out of memory.\<close>

lemma select_windowE:
  assumes "tcp_select_window K net r m sk = Some (adv, mibs, sk')"
  obtains (nomem) "icsk_ack_nomem sk" and "adv = 0"
      and "sk' = sk\<lparr>pred_flags := 0, rcv_wnd := 0, rcv_wup := rcv_nxt sk\<rparr>"
    | (select) w1 sk1 w2 sk2 w3 mibs' where "\<not> icsk_ack_nomem sk"
      and "u_tcp_select_window K net sk = Some (w1, sk1)"
      and "(w2, sk2) =
        (if sysctl_tcp_leo_rwnd_enable net \<noteq> 0 \<and> sysctl_tcp_leo_dynamic_enable net \<noteq> 0
         then tcp_leo_dynamic_target net r m sk1 w1
         else if sysctl_tcp_leo_rwnd_enable net \<noteq> 0
         then (tcp_leo_rwnd_clamp net r sk1 (tcp_receive_window K sk) w1, sk1) else (w1, sk1))"
      and "(w3, mibs') = keep_offered net sk2
        (sysctl_tcp_leo_rwnd_enable net \<noteq> 0 \<and> sysctl_tcp_leo_dynamic_enable net \<noteq> 0)
        (tcp_receive_window K sk) w2"
      and "adv = ucast (scale_window net sk2 w3)"
      and "sk' = (if scale_window net sk2 w3 = 0
        then sk2\<lparr>rcv_wnd := w3, rcv_wup := rcv_nxt sk2, pred_flags := 0\<rparr>
        else sk2\<lparr>rcv_wnd := w3, rcv_wup := rcv_nxt sk2\<rparr>)"
proof (cases "icsk_ack_nomem sk")
  case True
  then show thesis using assms nomem by (auto simp: tcp_select_window_def)
next
  case False
  then obtain w1 sk1 where u: "u_tcp_select_window K net sk = Some (w1, sk1)"
    using assms by (auto simp: tcp_select_window_def Let_def split: option.splits)
  let ?leo = "sysctl_tcp_leo_rwnd_enable net \<noteq> 0 \<and> sysctl_tcp_leo_dynamic_enable net \<noteq> 0"
  obtain w2 sk2 where w2: "(w2, sk2) =
      (if ?leo then tcp_leo_dynamic_target net r m sk1 w1
       else if sysctl_tcp_leo_rwnd_enable net \<noteq> 0
       then (tcp_leo_rwnd_clamp net r sk1 (tcp_receive_window K sk) w1, sk1) else (w1, sk1))"
    by (metis surj_pair)
  obtain w3 mibs' where w3: "(w3, mibs') = keep_offered net sk2 ?leo (tcp_receive_window K sk) w2"
    by (metis surj_pair)
  have "adv = ucast (scale_window net sk2 w3)" and "sk' = (if scale_window net sk2 w3 = 0
        then sk2\<lparr>rcv_wnd := w3, rcv_wup := rcv_nxt sk2, pred_flags := 0\<rparr>
        else sk2\<lparr>rcv_wnd := w3, rcv_wup := rcv_nxt sk2\<rparr>)"
    using assms False
    unfolding tcp_select_window_def Let_def u
    by (simp_all add: w2 [symmetric] w3 [symmetric] scale_window_frame split: if_splits)
  then show thesis by (rule select [OF False u w2 w3])
qed

lemma keep_offered_not_shrunk:
  assumes "keep_offered net sk False cur w = (w', mibs)"
    and "sysctl_tcp_shrink_window net = 0 \<or> rcv_wscale sk = 0"
    and "unat cur + (2 ^ unat (rcv_wscale sk) - 1) < 2 ^ 32"
  shows "cur \<le> w'"
proof (cases "w < cur")
  case True
  then have "w' = ALIGN cur (2 ^ unat (rcv_wscale sk))"
    using assms(1,2) by (auto simp: keep_offered_def)
  then show ?thesis using ALIGN_pow2_ge [OF _ _, of "unat (rcv_wscale sk)" cur] assms(3) by simp
next
  case False
  with assms(1) show ?thesis by (simp add: keep_offered_def)
qed

text \<open>The field of the header stands for at most the window the socket remembers.\<close>

lemma select_window_backed:
  assumes "tcp_select_window K net r m sk = Some (adv, mibs, sk')"
  shows "unat adv * 2 ^ unat (rcv_wscale sk') \<le> unat (rcv_wnd sk') \<and> rcv_wup sk' = rcv_nxt sk' \<and> (adv = 0 \<longrightarrow> pred_flags sk' = 0)"
  using assms
proof (cases rule: select_windowE)
  case nomem
  then show ?thesis by simp
next
  case (select w1 sk1 w2 sk2 w3 mibs')
  then show ?thesis
    using scale_window_backed [of net sk2 w3] by (simp add: unat_ucast_scale_window ucast_scale_window_eq_0)
qed

lemma select_window_returns:
  assumes "icsk_ack_rcv_mss sk \<noteq> 0"
  shows "\<exists>adv mibs sk'. tcp_select_window K net r m sk = Some (adv, mibs, sk')"
proof -
  obtain w1 sk1 where "u_tcp_select_window K net sk = Some (w1, sk1)"
    using u_tcp_select_window_total [OF assms, of K net] by (cases "u_tcp_select_window K net sk") auto
  then show ?thesis by (auto simp: tcp_select_window_def Let_def split: prod.splits)
qed

section \<open>The initial window\<close>

lemma round_to_segments_le: "(if mss < x then x - x mod mss else x) \<le> (x :: u32)"
proof -
  have "x mod mss \<le> x" by (simp add: word_le_nat_alt unat_mod_word)
  then have "x - x mod mss \<le> x" by (simp add: word_le_nat_alt unat_minus_le)
  then show ?thesis by simp
qed

lemma nat_clamp_wscale: "nat (clamp_t x 0 14) \<le> 14"
  by (simp add: clamp_t_def)

lemma unat_push_bit_wscale: "k \<le> 14 \<Longrightarrow> unat (push_bit k 65535 :: u32) = 65535 * 2 ^ k"
proof -
  assume "k \<le> 14"
  then have "(2::nat) ^ k \<le> 2 ^ 14" by (intro power_increasing) simp_all
  then have "2 ^ k * (65535::nat) < 2 ^ 32" by simp
  with \<open>k \<le> 14\<close> show ?thesis by (simp add: push_bit_eq_mult unat_word_ariths unat_pow2)
qed

lemma unat_of_nat_wscale: "k \<le> 14 \<Longrightarrow> unat (of_nat k :: u8) = k"
  by (simp add: unsigned_of_nat take_bit_nat_eq_self)

end
