(* ===== verification/Leo_Example.thy ===== *)
theory Leo_Example
  imports Leo_Invariant Rwnd_Select
begin

text \<open>
  Concrete inputs: a socket on a controlled port, and four calls of the controller around a handover
  with the settings a namespace boots with (period 15 s, offset 12 s).  They are the inputs at which
  the properties are evaluated.
\<close>

definition demo_sock :: sock where
  "demo_sock = \<lparr>inet_sport = 27470, inet_dport = 0, icsk_ack_rcv_mss = 1460, icsk_ack_nomem = False,
     icsk_ack_quick = 0, advmss = 1460, rcv_wscale = 7, rcv_rtt_est_rtt_us = 0, bytes_received = 0,
     rcv_nxt = 1000, rcv_wnd = 1000000, rcv_wup = 1000, rcv_ssthresh = 1000000,
     window_clamp = 2000000, pred_flags = 0, leo_state = leo_state_zero\<rparr>"

text \<open>The snapshot that is frozen at 11.87 s, when the pre-handover phase begins.\<close>

definition demo_leo :: tcp_leo_dynamic_state where
  "demo_leo = \<lparr>last_sample_us = 1000000, last_bytes_received = 0,
     recv_rate_Bps_ewma = 31250000, rtt_us = 70000, rtt_baseline_us = 70000,
     normal_rwnd_ewma = 1000000, frozen_period_id = 0, frozen_rtt_us = 70000,
     frozen_rtt_half_us = 35000, frozen_recv_rate_Bps = 31250000, frozen_start_rwnd = 1000000,
     frozen_min_rwnd = 5888, frozen_pre_us = 31811, frozen_outage_us = 35000,
     frozen_drain_us = 35000, frozen_recovery_us = 35000, frozen_prediction_guard_us = 30000,
     frozen_pre_start_wnd = 1000000, frozen_pre_start_rcv_nxt = 1000, pre_started = True,
     recovery_started = False, recovery_start_real_us = 0, initialized = True, frozen = True,
     current_phase = TCP_LEO_PRE_HANDOVER\<rparr>"

definition demo_sock1 :: sock where
  "demo_sock1 = \<lparr>inet_sport = 27470, inet_dport = 0, icsk_ack_rcv_mss = 1460, icsk_ack_nomem = False,
     icsk_ack_quick = 0, advmss = 1460, rcv_wscale = 7, rcv_rtt_est_rtt_us = 0, bytes_received = 0,
     rcv_nxt = 1000, rcv_wnd = 1000000, rcv_wup = 1000, rcv_ssthresh = 1000000,
     window_clamp = 2000000, pred_flags = 0, leo_state = demo_leo\<rparr>"

text \<open>The same socket after 500000 more bytes.\<close>

definition demo_sock2 :: sock where
  "demo_sock2 = \<lparr>inet_sport = 27470, inet_dport = 0, icsk_ack_rcv_mss = 1460, icsk_ack_nomem = False,
     icsk_ack_quick = 0, advmss = 1460, rcv_wscale = 7, rcv_rtt_est_rtt_us = 0, bytes_received = 0,
     rcv_nxt = 501000, rcv_wnd = 1000000, rcv_wup = 1000, rcv_ssthresh = 1000000,
     window_clamp = 2000000, pred_flags = 0, leo_state = demo_leo\<rparr>"

definition demo_sock3 :: sock where
  "demo_sock3 = demo_sock2\<lparr>leo_state := demo_leo\<lparr>current_phase := TCP_LEO_DRAIN\<rparr>\<rparr>"

definition demo_sock4 :: sock where
  "demo_sock4 = demo_sock2\<lparr>leo_state := demo_leo\<lparr>last_sample_us := 1630000, recovery_started := True,
     recovery_start_real_us := 12500000, current_phase := TCP_LEO_RECOVERY\<rparr>\<rparr>"

text \<open>11.87 s: the parameters are frozen and the pre-handover phase begins.\<close>

lemma demo_call1:
  "tcp_leo_dynamic_target boot_netns 11870000000 1000000000 demo_sock 1000000 = (1000000, demo_sock1)"
  by code_simp

text \<open>11.88 s, after 500000 bytes: still pre-handover.\<close>

lemma demo_call2:
  "tcp_leo_dynamic_target boot_netns 11880000000 1010000000 demo_sock2 1000000 = (630900, demo_sock2)"
  by code_simp

text \<open>11.901 s, nothing more received: draining.\<close>

lemma demo_call3:
  "tcp_leo_dynamic_target boot_netns 11901000000 1031000000 demo_sock2 1000000 = (500000, demo_sock3)"
  by code_simp

text \<open>12.5 s: past the handover, recovering.\<close>

lemma demo_call4:
  "tcp_leo_dynamic_target boot_netns 12500000000 1630000000 demo_sock3 1000000 = (5888, demo_sock4)"
  by code_simp

text \<open>A kernel around the socket: what is left of the window offered last, and 500000 bytes of free
  receive memory.\<close>

definition demo_kern :: kern where
  "demo_kern = \<lparr>tcp_receive_window =
       (\<lambda>sk. let win = rcv_wup sk + rcv_wnd sk - rcv_nxt sk in if win <s 0 then 0 else win),
     tcp_space = (\<lambda>_. 500000), tcp_full_space = (\<lambda>_. 1000000), sk_is_mptcp = (\<lambda>_. False),
     mptcp_space = (\<lambda>_ p. p), tcp_under_memory_pressure = (\<lambda>_. False),
     tcp_adjust_rcv_ssthresh = (\<lambda>sk. sk)\<rparr>"

lemma demo_kern_ok: "receive_window_ok demo_kern"
  by (simp add: receive_window_ok_def demo_kern_def)

lemma boot_period: "sysctl_tcp_leo_rwnd_period_ms boot_netns = 15000"
  by (simp add: boot_netns_def tcp_sk_init_leo_def)

lemma demo_frozen: "frozen (leo_state demo_sock2)" "frozen_rtt_half_us (leo_state demo_sock2) = 35000"
  by (simp_all add: demo_sock2_def demo_leo_def)

lemma demo_active: "leo_active boot_netns demo_sock" "leo_active boot_netns demo_sock2"
  "leo_active boot_netns demo_sock3"
  by code_simp+

lemma demo_reachable: "leo_reachable demo_sock" "leo_reachable demo_sock2" "leo_reachable demo_sock3"
proof -
  have "demo_sock = tcp_leo_dynamic_init demo_sock"
    by (simp add: demo_sock_def tcp_leo_dynamic_init_def leo_state_zero_def)
  then show 0: "leo_reachable demo_sock" by (metis leo_reachable.start)
  have "leo_reachable demo_sock1"
    using leo_reachable.step [OF 0 leo_step.call [where net = boot_netns and real_ns = 11870000000
          and mono_ns = 1000000000 and w = 1000000]] by (simp add: demo_call1)
  then show 2: "leo_reachable demo_sock2"
    by (rule leo_reachable.step) (rule leo_step.tcp, simp add: demo_sock1_def demo_sock2_def)
  show "leo_reachable demo_sock3"
    using leo_reachable.step [OF 2 leo_step.call [where net = boot_netns and real_ns = 11901000000
          and mono_ns = 1031000000 and w = 1000000]] by (simp add: demo_call3)
qed

section \<open>Window selection\<close>

text \<open>A receiver whose free memory is half of the window it still offers.\<close>

lemma demo_select_plain:
  "tcp_select_window demo_kern (boot_netns\<lparr>sysctl_tcp_leo_rwnd_enable := 0\<rparr>) 0 0 demo_sock =
     Some (3906, [], demo_sock\<lparr>rcv_wnd := 499968\<rparr>)"
  by code_simp

lemma demo_select_keep:
  "tcp_select_window demo_kern
     (boot_netns\<lparr>sysctl_tcp_leo_rwnd_enable := 0, sysctl_tcp_shrink_window := 0\<rparr>) 0 0 demo_sock =
     Some (7813, [], demo_sock\<lparr>rcv_wnd := 1000064\<rparr>)"
  by code_simp

lemma demo_kern_adjust: "adjust_ok demo_kern"
  unfolding adjust_ok_def
proof
  fix sk :: sock
  have "tcp_adjust_rcv_ssthresh demo_kern sk = sk\<lparr>rcv_ssthresh := rcv_ssthresh sk\<rparr>"
    by (simp add: demo_kern_def)
  then show "\<exists>v. tcp_adjust_rcv_ssthresh demo_kern sk = sk\<lparr>rcv_ssthresh := v\<rparr>" ..
qed

lemma demo_kern_left: "tcp_receive_window demo_kern demo_sock = 1000000"
  by code_simp

definition demo_net_noshrink :: netns_ipv4 where
  "demo_net_noshrink = boot_netns\<lparr>sysctl_tcp_shrink_window := 0\<rparr>"

definition demo_sock_other :: sock where
  "demo_sock_other = demo_sock\<lparr>inet_sport := 80\<rparr>"

lemma demo_select_other:
  "tcp_select_window demo_kern demo_net_noshrink 11870000000 0 demo_sock_other =
     Some (3907, [], demo_sock_other\<lparr>rcv_wnd := 500096\<rparr>)"
  by code_simp

text \<open>The socket after 200000 bytes that no update has acknowledged yet, at the handover.\<close>

definition demo_sock_drained :: sock where
  "demo_sock_drained = demo_sock\<lparr>rcv_nxt := 201000\<rparr>"

lemma demo_fixed_target:
  "tcp_leo_rwnd_target boot_netns 12010000000 demo_sock_drained 900000 = 5840"
  by code_simp

lemma boot_enable: "sysctl_tcp_leo_rwnd_enable boot_netns = 1"
  by (simp add: boot_netns_def tcp_sk_init_leo_def)

end
