(* ===== verification/Props_Controller.thy ===== *)
theory Props_Controller
  imports Leo_Example
begin

text \<open>Properties of the dynamic receive window controller of \<open>tcp_redhat.c\<close>.\<close>

section \<open>Safety of the window\<close>



text \<open>C2: The controller never returns more than ordinary TCP would advertise, whatever its state,
  its settings and the clocks are.\<close>

theorem leo_never_above_normal: "fst (tcp_leo_dynamic_target net r m sk w) \<le> w"
  by (simp add: tcp_leo_dynamic_target_def Let_def split: prod.split)

text \<open>C3: In every reachable state, a call outside the normal phase returns at least the floor
  frozen for this handover, or all that ordinary TCP allows.\<close>

theorem leo_floor_held:
  assumes "leo_reachable sk" and "leo_active net sk"
    and "tcp_leo_dynamic_target net r m sk w = (t, sk')"
    and "current_phase (leo_state sk') \<noteq> TCP_LEO_NORMAL"
  shows "min (frozen_min_rwnd (leo_state sk')) w \<le> t"
proof -
  have "leo_core (leo_state sk)" using leo_reachable_wf [OF assms(1)] by (simp add: leo_wf_def)
  then obtain e where wf: "leo_wf (leo_state sk')"
    and t: "t = min (leo_phase_target (rcv_nxt sk') (leo_state sk') w (current_phase (leo_state sk')) e) w"
    using active_call [OF assms(2,3)] by metis
  show ?thesis
  proof (cases "controlled (current_phase (leo_state sk'))")
    case True
    note a = leo_wf_anchored [OF wf True]
    show ?thesis
      using True pre_window.bounded_floor [OF a] safe_window.bounded_floor [OF a]
      by (auto simp: t leo_phase_target_def controlled_def)
  next
    case False
    with assms(4) have "current_phase (leo_state sk') = TCP_LEO_RECOVERY"
      by (cases "current_phase (leo_state sk')") simp_all
    then show ?thesis
      using leo_recovery_target_floor [of "leo_state sk'" w e]
      by (auto simp: t leo_phase_target_def min_le_iff_disj)
  qed
qed

theorem leo_floor_held_witness: "min (frozen_min_rwnd (leo_state demo_sock4)) 1000000 \<le> 5888"
  by (rule leo_floor_held [OF demo_reachable(3) demo_active(3) demo_call4])
    (simp add: demo_sock4_def)

text \<open>C4: The invariant of the controller's state holds in every reachable state: a frozen snapshot
  has its floor below its start window, an outage no longer than half a round trip, an anchor between
  floor and start window, and the recorded phase agrees with it.\<close>

theorem leo_invariant: "leo_reachable sk \<Longrightarrow> leo_wf (leo_state sk)"
  by (rule leo_reachable_wf)

theorem leo_invariant_witness: "leo_wf (leo_state demo_sock3)"
  by (rule leo_invariant [OF demo_reachable(3)])

section \<open>The timeline of a handover\<close>

text \<open>C5: Up to the predicted handover, \<open>leo_phase\<close> implements the abstract schedule over natural
  numbers: no sum or difference of its 64 bit computation wraps around, for any settings.\<close>

theorem leo_phase_refines_schedule:
  assumes "frozen (leo_state sk)" and "sysctl_tcp_leo_rwnd_period_ms net \<noteq> 0"
    and "leo_period_id net now = frozen_period_id (leo_state sk)"
  shows "map_prod id (map_prod unat id) (leo_phase net sk now) =
    (let (p, e) = scheduled (period_us_of net) (schedule_of (leo_state sk))
                    (unat (leo_period_position_us net now)) in (p, e, sk))"
  using assms leo_scheduled_phase_refines [OF period_lt, of "sysctl_tcp_leo_rwnd_period_ms net"
      "leo_state sk" "leo_period_position_us net now", symmetric]
  by (simp add: leo_phase_def Let_def period_us_eq_0 unat_ms_to_us split: prod.split)

theorem leo_phase_refines_schedule_witness:
  "map_prod id (map_prod unat id) (leo_phase boot_netns demo_sock2 11880000) =
    (let (p, e) = scheduled (period_us_of boot_netns) (schedule_of (leo_state demo_sock2))
                    (unat (leo_period_position_us boot_netns 11880000)) in (p, e, demo_sock2))"
  by (rule leo_phase_refines_schedule) code_simp+

text \<open>C6: Within one predicted period the phases only move forward: pre-handover, drain, outage.
  The clock is assumed not to wrap around within a period.\<close>

theorem leo_phases_in_order:
  assumes "frozen (leo_state sk)" and "sysctl_tcp_leo_rwnd_period_ms net \<noteq> 0"
    and "now \<le> now'" and "unat now' + period_us_of net < 2 ^ 64"
    and "leo_period_id net now = frozen_period_id (leo_state sk)"
    and "leo_period_id net now' = frozen_period_id (leo_state sk)"
    and "controlled (fst (leo_phase net sk now))" and "controlled (fst (leo_phase net sk now'))"
  shows "phase_rank (fst (leo_phase net sk now)) \<le> phase_rank (fst (leo_phase net sk now'))"
proof -
  let ?s = "scheduled (period_us_of net) (schedule_of (leo_state sk))"
  let ?pos = "\<lambda>t. unat (leo_period_position_us net t)"
  have ph: "fst (leo_phase net sk t) = fst (?s (?pos t))"
    if "leo_period_id net t = frozen_period_id (leo_state sk)" for t
    using assms(1,2) that leo_scheduled_phase_refines [OF period_lt, of "sysctl_tcp_leo_rwnd_period_ms net"
      "leo_state sk" "leo_period_position_us net t", symmetric]
    by (simp add: leo_phase_def Let_def period_us_eq_0 unat_ms_to_us split: prod.split)
  have le: "unat now \<le> unat now'" using assms(3) by (simp add: word_le_nat_alt)
  have "?pos now \<le> ?pos now'"
  proof -
    let ?x = "\<lambda>t. unat t + period_us_of net - offset_us_of net mod period_us_of net"
    have n: "unat now + period_us_of net < 2 ^ 64" using le assms(4) by linarith
    have d: "?x now div period_us_of net = ?x now' div period_us_of net"
      using unat_leo_period_id [OF n assms(2)] unat_leo_period_id [OF assms(4,2)] assms(5,6) by simp
    have "?x now \<le> ?x now'" using le by linarith
    then have "?x now mod period_us_of net \<le> ?x now' mod period_us_of net"
      using d by (rule mod_mono_same_div)
    then show ?thesis
      unfolding unat_leo_period_position_us [OF n assms(2)]
        unat_leo_period_position_us [OF assms(4,2)] .
  qed
  then show ?thesis
    using scheduled_forward [of "?pos now" "?pos now'"] ph [OF assms(5)] ph [OF assms(6)] assms(7,8)
    by simp
qed

theorem leo_phases_in_order_witness:
  "phase_rank (fst (leo_phase boot_netns demo_sock2 11880000)) \<le>
   phase_rank (fst (leo_phase boot_netns demo_sock2 11901000))"
proof (rule leo_phases_in_order [OF demo_frozen(1)])
  show "unat (11901000 :: u64) + period_us_of boot_netns < 2 ^ 64" by (simp add: boot_period)
qed code_simp+

text \<open>In every reachable frozen state the outage is over at the predicted handover: the window is
  held down exactly from the start of the pre-handover phase to the end of the outage, and that end is
  inside the period.\<close>

theorem leo_outage_ends_by_handover:
  assumes "leo_reachable sk" and "frozen (leo_state sk)"
    and "unat (frozen_rtt_half_us (leo_state sk)) \<le> period_us_of net"
  shows "outage_start (period_us_of net) (schedule_of (leo_state sk)) +
           unat (frozen_outage_us (leo_state sk)) \<le> period_us_of net \<and>
    (controlled (fst (leo_scheduled_phase (u64_of_u32 (sysctl_tcp_leo_rwnd_period_ms net) * 1000)
            (leo_state sk) pos)) \<longleftrightarrow>
         pre_start (period_us_of net) (schedule_of (leo_state sk)) \<le> unat pos \<and>
         unat pos < outage_start (period_us_of net) (schedule_of (leo_state sk)) +
           unat (frozen_outage_us (leo_state sk)))"
proof -
  let ?s = "schedule_of (leo_state sk)"
  have wf: "frozen_outage_us (leo_state sk) \<le> frozen_rtt_half_us (leo_state sk)"
    using leo_reachable_wf [OF assms(1)] assms(2) unfolding leo_wf_def leo_core_def by blast
  then have o: "s_outage ?s \<le> s_half ?s" and h: "s_half ?s \<le> period_us_of net"
    using assms(3) by (simp_all add: schedule_of_def word_le_nat_alt)
  have so: "s_outage ?s = unat (frozen_outage_us (leo_state sk))" by (simp add: schedule_of_def)
  have fits: "outage_start (period_us_of net) ?s + unat (frozen_outage_us (leo_state sk)) \<le> period_us_of net"
    using o h by (simp add: outage_start_def so)
  have "fst (leo_scheduled_phase (u64_of_u32 (sysctl_tcp_leo_rwnd_period_ms net) * 1000)
      (leo_state sk) pos) = fst (scheduled (period_us_of net) ?s (unat pos))"
    using leo_scheduled_phase_refines [OF period_lt, of "sysctl_tcp_leo_rwnd_period_ms net"
      "leo_state sk" pos, symmetric] by (simp add: unat_ms_to_us)
  then have "controlled (fst (leo_scheduled_phase
        (u64_of_u32 (sysctl_tcp_leo_rwnd_period_ms net) * 1000) (leo_state sk) pos)) \<longleftrightarrow>
      pre_start (period_us_of net) ?s \<le> unat pos \<and>
      unat pos < outage_start (period_us_of net) ?s + unat (frozen_outage_us (leo_state sk))"
    using scheduled_controlled_iff [OF o h, of "unat pos"] by (simp add: so)
  with fits show ?thesis by (rule conjI)
qed

theorem leo_outage_ends_by_handover_witness:
  "outage_start (period_us_of boot_netns) (schedule_of (leo_state demo_sock2)) +
     unat (frozen_outage_us (leo_state demo_sock2)) \<le> period_us_of boot_netns"
  by (rule leo_outage_ends_by_handover [OF demo_reachable(2) demo_frozen(1), THEN conjunct1])
    (simp add: boot_period demo_frozen(2))

text \<open>C7: A frozen snapshot is not kept forever.  The first call after the predicted handover starts
  the recovery ramp, and any call at least one recovery duration later drops the snapshot or replaces
  it by one for the period of that call, whatever happened to the rest of the socket in between.\<close>

theorem leo_snapshot_released:
  assumes "leo_active net sk" and "tcp_leo_dynamic_target net r m sk w = (t, sk1)"
    and "initialized (leo_state sk)" and "frozen (leo_state sk)"
    and "\<not> recovery_started (leo_state sk)" and "frozen_recovery_us (leo_state sk) \<noteq> 0"
    and "sysctl_tcp_leo_rwnd_period_ms net \<noteq> 0"
    and "frozen_period_id (leo_state sk) < leo_period_id net (leo_now_real_us r)"
    and "leo_state sk2 = leo_state sk1" and "leo_active net sk2"
    and "tcp_leo_dynamic_target net r' m' sk2 w' = (t', sk3)"
    and "u64_of_u32 (frozen_recovery_us (leo_state sk)) \<le> leo_now_real_us r' - leo_now_real_us r"
  shows "current_phase (leo_state sk1) = TCP_LEO_RECOVERY \<and>
    (frozen (leo_state sk3) \<longrightarrow>
       frozen_period_id (leo_state sk3) = leo_period_id net (leo_now_real_us r') \<and>
       \<not> recovery_started (leo_state sk3))"
proof -
  note c = call_starts_recovery [OF assms(1-8)]
  have "released (leo_period_id net (leo_now_real_us r')) (leo_state sk3)"
    using c assms(9,12) by (intro call_releases [OF assms(10,11) _ _ assms(7)]) simp_all
  with c show ?thesis by (simp add: released_def)
qed

theorem leo_snapshot_released_witness:
  "\<exists>sk3. tcp_leo_dynamic_target boot_netns 12600000000 1730000000 demo_sock4 1000000 = (1000000, sk3) \<and>
    current_phase (leo_state demo_sock4) = TCP_LEO_RECOVERY \<and> \<not> frozen (leo_state sk3)"
proof -
  define sk3 where "sk3 = snd (tcp_leo_dynamic_target boot_netns 12600000000 1730000000 demo_sock4 1000000)"
  have c: "tcp_leo_dynamic_target boot_netns 12600000000 1730000000 demo_sock4 1000000 = (1000000, sk3)"
  proof -
    have "fst (tcp_leo_dynamic_target boot_netns 12600000000 1730000000 demo_sock4 1000000) = 1000000"
      by code_simp
    then show ?thesis by (simp add: sk3_def prod_eq_iff)
  qed
  have "current_phase (leo_state demo_sock4) = TCP_LEO_RECOVERY \<and>
    (frozen (leo_state sk3) \<longrightarrow>
       frozen_period_id (leo_state sk3) = leo_period_id boot_netns (leo_now_real_us 12600000000) \<and>
       \<not> recovery_started (leo_state sk3))"
    by (rule leo_snapshot_released [OF demo_active(3) demo_call4 _ _ _ _ _ _ refl _ c]) code_simp+
  moreover have "\<not> frozen (leo_state sk3)" unfolding sk3_def by code_simp
  ultimately show ?thesis using c by blast
qed


section \<open>Shape of the ramps\<close>

text \<open>The pre-handover window never grows: with more time elapsed and more bytes received it is
  the same or smaller, and it is never below the floor or above the window at the start.\<close>

theorem leo_pre_target_antimono:
  assumes "anchored st" and "e \<le> e'"
    and "rn - frozen_pre_start_rcv_nxt st \<le> rn' - frozen_pre_start_rcv_nxt st"
  shows "leo_pre_target rn' st e' \<le> leo_pre_target rn st e \<and>
    frozen_min_rwnd st \<le> leo_pre_target rn' st e' \<and> leo_pre_target rn st e \<le> frozen_pre_start_wnd st"
proof -
  have ps: "pre_started st" using assms(1) by (simp add: anchored_def)
  have "leo_pre_target rn' st e' \<le> leo_pre_target rn st e"
  proof (cases "frozen_min_rwnd st < frozen_pre_start_wnd st \<and> frozen_pre_us st \<noteq> 0")
    case True
    then have c: "frozen_min_rwnd st < frozen_pre_start_wnd st" "frozen_pre_us st \<noteq> 0" by simp_all
    have "min (unat e) (unat (frozen_pre_us st)) \<le> min (unat e') (unat (frozen_pre_us st))"
      using assms(2) by (simp add: word_le_nat_alt)
    then have "(unat (frozen_pre_start_wnd st) - unat (frozen_min_rwnd st)) *
        min (unat e) (unat (frozen_pre_us st)) div unat (frozen_pre_us st) \<le>
      (unat (frozen_pre_start_wnd st) - unat (frozen_min_rwnd st)) *
        min (unat e') (unat (frozen_pre_us st)) div unat (frozen_pre_us st)"
      by (intro div_le_mono mult_le_mono2)
    then show ?thesis
      using assms(3) unfolding word_le_nat_alt unat_leo_pre_target [OF ps c]
      by (intro diff_le_mono2 min.mono order_refl)
  next
    case False
    then show ?thesis by (auto simp: leo_pre_target_def not_less)
  qed
  then show ?thesis
    using pre_window.target_floor [OF assms(1)] pre_window.target_ceiling [OF assms(1)] by blast
qed

theorem leo_pre_target_antimono_witness:
  "leo_pre_target 501000 demo_leo 11811 \<le> leo_pre_target 1000 demo_leo 1811 \<and>
   frozen_min_rwnd demo_leo \<le> leo_pre_target 501000 demo_leo 11811 \<and>
   leo_pre_target 1000 demo_leo 1811 \<le> frozen_pre_start_wnd demo_leo"
  by (rule leo_pre_target_antimono) (simp_all add: anchored_def demo_leo_def)

text \<open>The recovery ramp rises from the floor to its end, the smaller of the ordinary window and
  the frozen start window but not below the floor: it starts at the floor, never falls with time, and
  has arrived when the recovery duration has passed.\<close>

theorem leo_recovery_ramp:
  assumes "frozen_recovery_us st \<noteq> 0" and "e \<le> e'"
  shows "leo_recovery_target st w 0 = frozen_min_rwnd st \<and>
    leo_recovery_target st w e \<le> leo_recovery_target st w e' \<and>
    leo_recovery_target st w e' \<le> max (min w (frozen_start_rwnd st)) (frozen_min_rwnd st) \<and>
    leo_recovery_target st w (u64_of_u32 (frozen_recovery_us st)) =
      max (min w (frozen_start_rwnd st)) (frozen_min_rwnd st)"
proof -
  let ?r = "unat (frozen_recovery_us st)" and ?m = "unat (frozen_min_rwnd st)"
  let ?d = "unat (recovery_end st w) - ?m"
  have r: "?r \<noteq> 0" using assms(1) by (simp add: unat_eq_zero)
  have m: "?m \<le> unat (recovery_end st w)" by (simp add: unat_max)
  note u = unat_leo_recovery_target [OF assms(1), of w]
  have "leo_recovery_target st w 0 = frozen_min_rwnd st"
    by (simp add: word_unat_eq_iff u)
  moreover have "leo_recovery_target st w e \<le> leo_recovery_target st w e'"
    using assms(2) unfolding word_le_nat_alt u
    by (intro add_left_mono div_le_mono mult_le_mono2 min.mono) simp_all
  moreover have "leo_recovery_target st w e' \<le> recovery_end st w"
    using ramp_le [OF r, of ?d "unat e'"] m unfolding word_le_nat_alt u by linarith
  moreover have "leo_recovery_target st w (u64_of_u32 (frozen_recovery_us st)) = recovery_end st w"
    using r m unfolding word_unat_eq_iff u by simp
  ultimately show ?thesis by blast
qed

theorem leo_recovery_ramp_witness:
  "leo_recovery_target demo_leo 1000000 0 = frozen_min_rwnd demo_leo \<and>
   leo_recovery_target demo_leo 1000000 100 \<le> leo_recovery_target demo_leo 1000000 20000 \<and>
   leo_recovery_target demo_leo 1000000 20000 \<le>
     max (min 1000000 (frozen_start_rwnd demo_leo)) (frozen_min_rwnd demo_leo) \<and>
   leo_recovery_target demo_leo 1000000 (u64_of_u32 (frozen_recovery_us demo_leo)) =
     max (min 1000000 (frozen_start_rwnd demo_leo)) (frozen_min_rwnd demo_leo)"
  by (rule leo_recovery_ramp) (simp_all add: demo_leo_def)

section \<open>Measurements and durations\<close>

text \<open>The averages never leave the range of what was measured: if the current value and all
  samples of a run lie in an interval, so does the average after the run, for both widths and any
  setting of the shift.\<close>

theorem leo_ewma_bounded:
  assumes "\<And>x. x \<in> set xs \<Longrightarrow> lo \<le> x \<and> x \<le> hi" and "lo \<le> old" and "old \<le> hi"
    and "\<And>y. y \<in> set ys \<Longrightarrow> lo' \<le> y \<and> y \<le> hi'" and "lo' \<le> old'" and "old' \<le> hi'"
  shows "lo \<le> foldl (\<lambda>a x. leo_ewma_u32 a x k) old xs \<and> foldl (\<lambda>a x. leo_ewma_u32 a x k) old xs \<le> hi \<and>
    lo' \<le> foldl (\<lambda>a x. leo_ewma_u64 a x k) old' ys \<and> foldl (\<lambda>a x. leo_ewma_u64 a x k) old' ys \<le> hi'"
  using ewma32.avg_run_interval [OF assms(1-3)] ewma64.avg_run_interval [OF assms(4-6)] by blast

theorem leo_ewma_bounded_witness:
  "10 \<le> foldl (\<lambda>a x. leo_ewma_u32 a x 3) 50 [10, 90, 20] \<and>
   foldl (\<lambda>a x. leo_ewma_u32 a x 3) 50 [10, 90, 20] \<le> 90 \<and>
   5 \<le> foldl (\<lambda>a x. leo_ewma_u64 a x 3) 6 [5, 7] \<and>
   foldl (\<lambda>a x. leo_ewma_u64 a x 3) 6 [5, 7] \<le> 7"
  by (rule leo_ewma_bounded) auto

text \<open>The position in the period and the number of the period split the time since the offset:
  they are its remainder and quotient by the period.  The clock is assumed to be a period away from
  wrapping around.\<close>

theorem leo_period_decomposition:
  assumes "sysctl_tcp_leo_rwnd_period_ms net \<noteq> 0" and "unat now + period_us_of net < 2 ^ 64"
  shows "unat now + period_us_of net - offset_us_of net mod period_us_of net =
      unat (leo_period_id net now) * period_us_of net + unat (leo_period_position_us net now) \<and>
    unat (leo_period_position_us net now) < period_us_of net"
  unfolding unat_leo_period_id [OF assms(2,1)]
  using unat_leo_period_position_us [OF assms(2,1)] leo_period_position_less [OF assms(1), of now]
  by (simp only: div_mult_mod_eq)

theorem leo_period_decomposition_witness:
  "unat (11870000 :: u64) + period_us_of boot_netns - offset_us_of boot_netns mod period_us_of boot_netns =
      unat (leo_period_id boot_netns 11870000) * period_us_of boot_netns +
      unat (leo_period_position_us boot_netns 11870000) \<and>
    unat (leo_period_position_us boot_netns 11870000) < period_us_of boot_netns"
  by (rule leo_period_decomposition) (simp_all add: boot_period)

text \<open>While a phase other than normal is on, a measurement of an initialised controller changes
  neither the averages of the ordinary window, of the rate and of the baseline round trip time, nor
  anything that was frozen for the handover.\<close>

theorem leo_no_learning_when_controlling:
  assumes "initialized (leo_state sk)" and "p \<noteq> TCP_LEO_NORMAL"
  shows "\<exists>r b l. leo_update_measurements net sk w t p =
    sk\<lparr>leo_state := (leo_state sk)\<lparr>rtt_us := r, last_bytes_received := b, last_sample_us := l\<rparr>\<rparr>"
proof (cases "t - last_sample_us (leo_state sk) <
    u64_of_u32 (max 1 (sysctl_tcp_leo_dynamic_sample_ms net)) * 1000")
  case True
  then have "leo_update_measurements net sk w t p =
    sk\<lparr>leo_state := (leo_state sk)\<lparr>rtt_us := rtt_us (leo_state sk),
      last_bytes_received := last_bytes_received (leo_state sk),
      last_sample_us := last_sample_us (leo_state sk)\<rparr>\<rparr>"
    using assms by (simp add: leo_update_measurements_def Let_def)
  then show ?thesis by blast
next
  case False
  then show ?thesis using assms by (auto simp: leo_update_measurements_def Let_def)
qed

theorem leo_no_learning_when_controlling_witness:
  "\<exists>r b l. leo_update_measurements boot_netns demo_sock3 1000000 1200000 TCP_LEO_DRAIN =
    demo_sock3\<lparr>leo_state := (leo_state demo_sock3)\<lparr>rtt_us := r, last_bytes_received := b,
      last_sample_us := l\<rparr>\<rparr>"
  by (rule leo_no_learning_when_controlling) (simp_all add: demo_sock3_def demo_leo_def)

text \<open>With settings that are not negative and fit 32 bits in microseconds, the drain and recovery
  durations are half a round trip clamped to the configured interval, given in either order, and the
  pre-handover duration is the time to receive the surplus window at the measured rate, clamped to its
  interval.\<close>

theorem leo_durations:
  assumes "ms_ok (sysctl_tcp_leo_dynamic_drain_min_ms net)"
    and "ms_ok (sysctl_tcp_leo_dynamic_drain_max_ms net)"
    and "ms_ok (sysctl_tcp_leo_dynamic_recovery_min_ms net)"
    and "ms_ok (sysctl_tcp_leo_dynamic_recovery_max_ms net)"
    and "sysctl_tcp_leo_dynamic_recovery_enable net \<noteq> 0"
    and "unat (max 1 (sysctl_tcp_leo_dynamic_pre_min_ms net)) \<le> 4294967"
    and "unat (max 1 (sysctl_tcp_leo_dynamic_pre_max_ms net)) \<le> 4294967"
    and "min_rwnd < start_rwnd" and "rate \<noteq> 0"
  shows "unat (leo_calc_drain_us net rtt) = clamp_t (unat rtt div 2)
      (min (unat (sysctl_tcp_leo_dynamic_drain_min_ms net))
           (unat (sysctl_tcp_leo_dynamic_drain_max_ms net)) * 1000)
      (max (unat (sysctl_tcp_leo_dynamic_drain_min_ms net))
           (unat (sysctl_tcp_leo_dynamic_drain_max_ms net)) * 1000) \<and>
    unat (leo_calc_recovery_us net rtt) = clamp_t (unat rtt div 2)
      (min (unat (sysctl_tcp_leo_dynamic_recovery_min_ms net))
           (unat (sysctl_tcp_leo_dynamic_recovery_max_ms net)) * 1000)
      (max (unat (sysctl_tcp_leo_dynamic_recovery_min_ms net))
           (unat (sysctl_tcp_leo_dynamic_recovery_max_ms net)) * 1000) \<and>
    unat (leo_calc_pre_us net start_rwnd min_rwnd rate) =
      clamp_t ((unat start_rwnd - unat min_rwnd) * 1000000 div unat rate)
        (min (unat (max 1 (sysctl_tcp_leo_dynamic_pre_min_ms net)))
             (unat (max 1 (sysctl_tcp_leo_dynamic_pre_max_ms net))) * 1000)
        (max (unat (max 1 (sysctl_tcp_leo_dynamic_pre_min_ms net)))
             (unat (max 1 (sysctl_tcp_leo_dynamic_pre_max_ms net))) * 1000)"
  by (intro conjI leo_calc_drain_exact [OF assms(1,2)] leo_calc_recovery_exact [OF assms(3-5)]
      leo_calc_pre_exact [OF assms(6-9)])

theorem leo_durations_witness:
  "unat (leo_calc_drain_us boot_netns 70000) = 35000 \<and>
   unat (leo_calc_recovery_us boot_netns 70000) = 35000 \<and>
   unat (leo_calc_pre_us boot_netns 1000000 5888 31250000) = 31811"
  using leo_durations [of boot_netns 5888 1000000 31250000 70000]
  by (simp add: boot_netns_def tcp_sk_init_leo_def ms_ok_def clamp_t_def word_sle_eq)

text \<open>The port filter accepts a socket exactly when one of the four slots is in use and holds its
  local or remote port, read in host byte order.\<close>

theorem leo_port_filter:
  "tcp_leo_port_matches net sk \<longleftrightarrow>
     (\<exists>port \<in> set (take 4 (sysctl_tcp_leo_dynamic_allow_ports net)). port \<noteq> 0 \<and>
        (ucast (ntohs (inet_sport sk)) = port \<or> ucast (ntohs (inet_dport sk)) = port))"
  by (simp add: tcp_leo_port_matches_def leo_port_loop_iff)

section \<open>What the controller does not keep\<close>


end
