(* ===== verification/Props_Window.thy ===== *)
theory Props_Window
  imports Leo_Example
begin

text \<open>Properties of the receive window selection in \<open>tcp_output.c\<close>.\<close>

section \<open>The fixed-schedule controller\<close>

text \<open>The two controllers agree on where in the handover period the clock is: the phase of the
  fixed controller, in milliseconds, is the position of the dynamic one, in microseconds, rounded
  down.\<close>

theorem leo_phase_clocks_agree:
  "unat (tcp_leo_rwnd_phase_ms net ns) =
     unat (leo_period_position_us net (leo_now_real_us ns)) div 1000"
proof (cases "sysctl_tcp_leo_rwnd_period_ms net = 0")
  case True
  then show ?thesis by (simp add: tcp_leo_rwnd_phase_ms_def leo_period_position_us_def Let_def u64_of_u32_def)
next
  case False
  let ?p = "unat (sysctl_tcp_leo_rwnd_period_ms net)" and ?o = "unat (sysctl_tcp_leo_rwnd_offset_ms net)"
  have o: "?o mod ?p \<le> ?p" using False by (simp add: unat_gt_0 less_imp_le)
  have us: "unat (leo_now_real_us ns) = unat ns div 1000" by (simp add: leo_now_real_us_def unat_div_word)
  have "unat ns div 1000 + ?p * 1000 < 18446744073709551616"
    using unat_lt64 [of ns] unat_lt32 [of "sysctl_tcp_leo_rwnd_period_ms net"] by linarith
  then have "unat (leo_period_position_us net (leo_now_real_us ns)) =
      (unat ns div 1000 + ?p * 1000 - ?o * 1000 mod (?p * 1000)) mod (?p * 1000)"
    using unat_leo_period_position_us [of "leo_now_real_us ns" net] False by (simp add: us)
  also have "\<dots> = (unat ns div 1000 + (?p - ?o mod ?p) * 1000) mod (1000 * ?p)"
    using o by (simp add: mult_mod_left [symmetric] diff_mult_distrib mult.commute [of 1000 ?p])
  also have "\<dots> div 1000 = (unat ns div 1000 + (?p - ?o mod ?p) * 1000) div 1000 mod ?p"
    by (simp add: mod_mult2_eq)
  also have "\<dots> = (unat ns div 1000000 + ?p - ?o mod ?p) mod ?p"
    using o by (simp add: div_mult2_eq [symmetric] add.commute)
  finally show ?thesis by (simp add: unat_tcp_leo_rwnd_phase_ms [OF False])
qed

text \<open>For any settings and at any time, the fixed controller asks for a window between its floor
  and the ordinary window, and for the ordinary window if that is at most the floor.\<close>

theorem leo_fixed_target_between:
  "min (tcp_leo_rwnd_min_window net sk) w \<le> tcp_leo_rwnd_target net ns sk w \<and>
     tcp_leo_rwnd_target net ns sk w \<le> w"
proof (cases "tcp_leo_rwnd_min_window net sk < w")
  case True
  then show ?thesis
    using tcp_leo_rwnd_target_between [OF True, of ns] by (simp add: min_le_iff_disj)
next
  case False
  then have "w \<le> tcp_leo_rwnd_min_window net sk" by simp
  then show ?thesis by (simp add: tcp_leo_rwnd_target_def Let_def)
qed

section \<open>The advertised window\<close>

text \<open>The value that goes into the header's window field is exact, not truncated: scaled back it
  is at most the window the socket remembers, which is recorded with the next expected sequence number,
  and a zero field turns header prediction off.\<close>

theorem select_window_field:
  assumes "tcp_select_window K net r m sk = Some (adv, mibs, sk')"
  shows "unat adv * 2 ^ unat (rcv_wscale sk') \<le> unat (rcv_wnd sk') \<and>
    rcv_wup sk' = rcv_nxt sk' \<and> (adv = 0 \<longrightarrow> pred_flags sk' = 0)"
  by (rule select_window_backed [OF assms])

theorem select_window_field_witness:
  "unat (3906 :: u16) * 2 ^ unat (7 :: u4) \<le> unat (499968 :: u32) \<and>
    tcp_select_window demo_kern (boot_netns\<lparr>sysctl_tcp_leo_rwnd_enable := 0\<rparr>) 0 0 demo_sock =
      Some (3906, [], demo_sock\<lparr>rcv_wnd := 499968\<rparr>)"
  using select_window_field [OF demo_select_plain] demo_select_plain
  by (simp add: demo_sock_def)






text \<open>The initial window: a scale of at most 14, a clamp that the scaled field can express, an
  unscaled window that fits the field and is at most the clamp and, rounded to whole segments, the
  space; the only failure is a zero segment size.\<close>

theorem initial_window_bounds:
  assumes "mss \<noteq> 0"
  shows "\<exists>w c ws. tcp_select_initial_window net rmem space mss clamp0 wscale_ok init = Some (w, c, ws) \<and>
    unat ws \<le> 14 \<and> (\<not> wscale_ok \<longrightarrow> ws = 0) \<and> unat c \<le> 65535 * 2 ^ unat ws \<and>
    (clamp0 \<noteq> 0 \<longrightarrow> c \<le> clamp0) \<and> unat w \<le> 65535 \<and> w \<le> (if space <s 0 then 0 else space) \<and>
    (init \<noteq> 0 \<longrightarrow> w \<le> init * mss)"
proof -
  let ?clamp = "if clamp0 = 0 then push_bit 14 65535 else clamp0"
  let ?space = "min ?clamp (if space <s 0 then 0 else space)"
  define sp where "sp = (if ?space > mss then ?space - ?space mod mss else ?space)"
  define w0 where "w0 = (if sysctl_tcp_workaround_signed_windows net \<noteq> 0 then min sp 32767 else min sp 65535)"
  define w where "w = (if init \<noteq> 0 then min w0 (init * mss) else w0)"
  define k where "k = (if wscale_ok
    then nat (clamp_t (ilog2 (min (max (max sp (sysctl_tcp_rmem2 net)) rmem) ?clamp) - 15) 0 14) else 0)"
  have sel: "tcp_select_initial_window net rmem space mss clamp0 wscale_ok init =
      Some (w, min (push_bit k 65535) ?clamp, of_nat k)"
    unfolding tcp_select_initial_window_def Let_def sp_def w0_def w_def k_def
    by (simp only: assms simp_thms if_False)
  have k: "k \<le> 14" by (simp add: k_def nat_clamp_wscale)
  have w0: "w0 \<le> sp" "unat w0 \<le> 65535" by (simp_all add: w0_def unat_min min.coboundedI2)
  have w: "w \<le> w0" "init \<noteq> 0 \<longrightarrow> w \<le> init * mss" by (simp_all add: w_def)
  have "sp \<le> ?space" unfolding sp_def by (rule round_to_segments_le)
  then have "w \<le> (if space <s 0 then 0 else space)"
    using w0 w(1) by (meson min.boundedE order_trans)
  moreover have "unat w \<le> 65535" using w0(2) w(1) by (simp add: word_le_nat_alt)
  moreover have "unat (min (push_bit k 65535 :: u32) ?clamp) \<le> 65535 * 2 ^ k"
    using k by (simp add: unat_min unat_push_bit_wscale)
  moreover have "\<not> wscale_ok \<longrightarrow> k = 0" by (simp add: k_def)
  ultimately show ?thesis
    using sel k w(2) by (simp add: unat_of_nat_wscale)
qed

theorem initial_window_bounds_witness:
  "\<exists>w c ws. tcp_select_initial_window boot_netns 212992 131072 1460 0 True 0 = Some (w, c, ws) \<and>
    unat ws \<le> 14 \<and> unat c \<le> 65535 * 2 ^ unat ws \<and> unat w \<le> 65535"
  using initial_window_bounds [of 1460 boot_netns 212992 131072 0 True 0] by auto

text \<open>A socket with a segment size estimate always gets a window: no division by zero.\<close>

theorem select_window_total:
  assumes "icsk_ack_rcv_mss sk \<noteq> 0"
  shows "\<exists>adv mibs sk'. tcp_select_window K net r m sk = Some (adv, mibs, sk')"
  by (rule select_window_returns [OF assms])

theorem select_window_total_witness:
  "\<exists>adv mibs sk'. tcp_select_window demo_kern boot_netns 0 0 demo_sock = Some (adv, mibs, sk')"
  by (rule select_window_total) (simp add: demo_sock_def)

end
