(* ===== verification/Sysctl_Table.thy ===== *)
theory Sysctl_Table
  imports Leo_State
begin

text \<open>
  The sysctl interface of \<open>sysctl_net_ipv4.c\<close> as data: the two tables, the fields of
  \<open>struct netns_ipv4\<close> (\<open>ipv4.h\<close>) they point to, and the registration of the tables for a network
  namespace.  The names of the entries, the fields and the bounds are those of the source.
\<close>

section \<open>Types, pointers and entries\<close>

text \<open>The kernel configuration options the tables depend on.\<close>

record config =
  config_netlabel :: bool
  config_net_l3_master_dev :: bool
  config_ip_multicast :: bool
  config_syn_cookies :: bool
  config_ip_route_multipath :: bool

datatype ctype = C_u8 | C_bool | C_int | C_u32 | C_uint | C_ulong | C_gid | C_pointer | C_array ctype nat

text \<open>Sizes on the 64 bit machines the kernel is built for.\<close>

primrec csizeof :: "ctype \<Rightarrow> nat" where
  "csizeof C_u8 = 1"
| "csizeof C_bool = 1"
| "csizeof C_int = 4"
| "csizeof C_u32 = 4"
| "csizeof C_uint = 4"
| "csizeof C_ulong = 8"
| "csizeof C_gid = 4"
| "csizeof C_pointer = 8"
| "csizeof (C_array t n) = csizeof t * n"

text \<open>A data pointer: the struct of namespace \<open>n\<close> (0 is \<open>init_net\<close>) or an element of one of its
  fields, a variable of the kernel, or an address that belongs to no object.\<close>

datatype netloc = WholeNet | Field string nat

datatype ptr = InNet nat netloc | Global string | Wild

definition init_net :: nat where
  "init_net = 0"

datatype maxlen = SizeOf ctype | SizeOfField string | SizeOfVar string | Bytes nat | Named string
  | FastopenKeySize

datatype extra = SYSCTL_ZERO | SYSCTL_ONE | SYSCTL_TWO | SYSCTL_THREE | SYSCTL_FOUR
  | SYSCTL_ONE_THOUSAND | Var string

datatype handler = H_proc_dointvec | H_proc_douintvec | H_proc_dointvec_minmax
  | H_proc_douintvec_minmax | H_proc_dou8vec_minmax | H_proc_doulongvec_minmax
  | H_proc_dointvec_jiffies | H_proc_dointvec_ms_jiffies | H_proc_do_large_bitmap
  | H_ipv4_ping_group_range | H_ipv4_local_port_range | H_ipv4_fwd_update_priority
  | H_ipv4_privileged_ports | H_proc_tcp_congestion_control
  | H_proc_tcp_available_congestion_control | H_proc_allowed_congestion_control
  | H_proc_tcp_fastopen_key | H_proc_tfo_blackhole_detect_timeout | H_proc_tcp_available_ulp
  | H_proc_tcp_ehash_entries | H_proc_udp_hash_entries | H_proc_fib_multipath_hash_policy
  | H_proc_fib_multipath_hash_fields

record ctl_table =
  procname :: string
  ctl_data :: "ptr option"
  ctl_maxlen :: maxlen
  ctl_mode :: u16
  proc_handler :: handler
  extra1 :: "extra option"
  extra2 :: "extra option"

definition ctl :: "string \<Rightarrow> ptr option \<Rightarrow> maxlen \<Rightarrow> u16 \<Rightarrow> handler \<Rightarrow> extra option \<Rightarrow> extra option \<Rightarrow> ctl_table" where
  "ctl n d l md h e1 e2 = \<lparr>procname = n, ctl_data = d, ctl_maxlen = l, ctl_mode = md,
     proc_handler = h, extra1 = e1, extra2 = e2\<rparr>"

definition net_elem :: "string \<Rightarrow> nat \<Rightarrow> ptr option" where
  "net_elem f i = Some (InNet init_net (Field f i))"

definition net_field :: "string \<Rightarrow> ptr option" where
  "net_field f = net_elem f 0"

text \<open>File modes, in octal in the source.\<close>

definition mode_0644 :: u16 where
  "mode_0644 = 6 * 64 + 4 * 8 + 4"

definition mode_0444 :: u16 where
  "mode_0444 = 4 * 64 + 4 * 8 + 4"

definition mode_0600 :: u16 where
  "mode_0600 = 6 * 64"

definition mode_0222 :: u16 where
  "mode_0222 = 2 * 64 + 2 * 8 + 2"

section \<open>The fields of a namespace\<close>

text \<open>The fields that sysctls live in, with their types: those every configuration has,
  in the order of the struct, and those of two configuration options.\<close>

definition netns_fields_hot :: "(string \<times> ctype) list" where
  "netns_fields_hot =
   [(''sysctl_tcp_early_retrans'', C_u8), (''sysctl_tcp_tso_win_divisor'', C_u8),
    (''sysctl_tcp_tso_rtt_log'', C_u8), (''sysctl_tcp_autocorking'', C_u8),
    (''sysctl_tcp_min_snd_mss'', C_int), (''sysctl_tcp_notsent_lowat'', C_uint),
    (''sysctl_tcp_limit_output_bytes'', C_int), (''sysctl_tcp_min_rtt_wlen'', C_int),
    (''sysctl_tcp_wmem'', (C_array C_int 3)), (''sysctl_ip_fwd_use_pmtu'', C_u8),
    (''sysctl_tcp_moderate_rcvbuf'', C_u8), (''sysctl_ip_early_demux'', C_u8),
    (''sysctl_tcp_early_demux'', C_u8), (''sysctl_tcp_reordering'', C_int),
    (''sysctl_tcp_rmem'', (C_array C_int 3)), (''tcp_death_row.sysctl_max_tw_buckets'', C_int)]"

definition netns_fields_base :: "(string \<times> ctype) list" where
  "netns_fields_base =
   [(''sysctl_tcp_shrink_window'', C_u8), (''sysctl_icmp_echo_ignore_all'', C_u8),
    (''sysctl_icmp_echo_enable_probe'', C_u8), (''sysctl_icmp_echo_ignore_broadcasts'', C_u8),
    (''sysctl_icmp_ignore_bogus_error_responses'', C_u8),
    (''sysctl_icmp_errors_use_inbound_ifaddr'', C_u8), (''sysctl_icmp_ratelimit'', C_int),
    (''sysctl_icmp_ratemask'', C_int), (''ip_local_ports.range'', C_u32),
    (''ip_local_ports.warned'', C_bool), (''sysctl_tcp_ecn'', C_u8),
    (''sysctl_tcp_ecn_fallback'', C_u8), (''sysctl_ip_default_ttl'', C_u8),
    (''sysctl_ip_no_pmtu_disc'', C_u8), (''sysctl_ip_fwd_update_priority'', C_u8),
    (''sysctl_ip_nonlocal_bind'', C_u8), (''sysctl_ip_autobind_reuse'', C_u8),
    (''sysctl_ip_dynaddr'', C_u8), (''sysctl_udp_early_demux'', C_u8),
    (''sysctl_nexthop_compat_mode'', C_u8), (''sysctl_fwmark_reflect'', C_u8),
    (''sysctl_tcp_fwmark_accept'', C_u8), (''sysctl_tcp_mtu_probing'', C_u8),
    (''sysctl_tcp_mtu_probe_floor'', C_int), (''sysctl_tcp_base_mss'', C_int),
    (''sysctl_tcp_probe_threshold'', C_int), (''sysctl_tcp_probe_interval'', C_u32),
    (''sysctl_tcp_keepalive_time'', C_int), (''sysctl_tcp_keepalive_intvl'', C_int),
    (''sysctl_tcp_keepalive_probes'', C_u8), (''sysctl_tcp_syn_retries'', C_u8),
    (''sysctl_tcp_synack_retries'', C_u8), (''sysctl_tcp_syncookies'', C_u8),
    (''sysctl_tcp_migrate_req'', C_u8), (''sysctl_tcp_comp_sack_nr'', C_u8),
    (''sysctl_tcp_backlog_ack_defer'', C_u8), (''sysctl_tcp_pingpong_thresh'', C_u8),
    (''sysctl_tcp_retries1'', C_u8), (''sysctl_tcp_retries2'', C_u8),
    (''sysctl_tcp_orphan_retries'', C_u8), (''sysctl_tcp_tw_reuse'', C_u8),
    (''sysctl_tcp_fin_timeout'', C_int), (''sysctl_tcp_sack'', C_u8),
    (''sysctl_tcp_window_scaling'', C_u8), (''sysctl_tcp_timestamps'', C_u8),
    (''sysctl_tcp_recovery'', C_u8), (''sysctl_tcp_thin_linear_timeouts'', C_u8),
    (''sysctl_tcp_slow_start_after_idle'', C_u8), (''sysctl_tcp_retrans_collapse'', C_u8),
    (''sysctl_tcp_stdurg'', C_u8), (''sysctl_tcp_rfc1337'', C_u8),
    (''sysctl_tcp_abort_on_overflow'', C_u8), (''sysctl_tcp_fack'', C_u8),
    (''sysctl_tcp_max_reordering'', C_int), (''sysctl_tcp_adv_win_scale'', C_int),
    (''sysctl_tcp_dsack'', C_u8), (''sysctl_tcp_app_win'', C_u8), (''sysctl_tcp_frto'', C_u8),
    (''sysctl_tcp_nometrics_save'', C_u8), (''sysctl_tcp_no_ssthresh_metrics_save'', C_u8),
    (''sysctl_tcp_workaround_signed_windows'', C_u8),
    (''sysctl_tcp_challenge_ack_limit'', C_int), (''sysctl_tcp_min_tso_segs'', C_u8),
    (''sysctl_tcp_reflect_tos'', C_u8), (''sysctl_tcp_invalid_ratelimit'', C_int),
    (''sysctl_tcp_pacing_ss_ratio'', C_int), (''sysctl_tcp_pacing_ca_ratio'', C_int),
    (''sysctl_tcp_child_ehash_entries'', C_uint), (''sysctl_tcp_comp_sack_delay_ns'', C_ulong),
    (''sysctl_tcp_comp_sack_slack_ns'', C_ulong), (''sysctl_max_syn_backlog'', C_int)]"

definition netns_fields_more :: "(string \<times> ctype) list" where
  "netns_fields_more =
   [(''sysctl_tcp_fastopen'', C_int), (''tcp_congestion_control'', C_pointer),
    (''sysctl_tcp_fastopen_blackhole_timeout'', C_uint), (''sysctl_tcp_plb_enabled'', C_u8),
    (''sysctl_tcp_plb_idle_rehash_rounds'', C_u8), (''sysctl_tcp_plb_rehash_rounds'', C_u8),
    (''sysctl_tcp_plb_suspend_rto_sec'', C_u8), (''sysctl_tcp_plb_cong_thresh'', C_int),
    (''sysctl_udp_wmem_min'', C_int), (''sysctl_udp_rmem_min'', C_int),
    (''sysctl_fib_notify_on_flag_change'', C_u8), (''sysctl_tcp_syn_linear_timeouts'', C_u8),
    (''sysctl_igmp_llm_reports'', C_u8), (''sysctl_igmp_max_memberships'', C_int),
    (''sysctl_igmp_max_msf'', C_int), (''sysctl_igmp_qrv'', C_int),
    (''ping_group_range.range'', (C_array C_gid 2)), (''sysctl_udp_child_hash_entries'', C_uint),
    (''sysctl_local_reserved_ports'', C_pointer), (''sysctl_ip_prot_sock'', C_int)]"

definition netns_fields_leo :: "(string \<times> ctype) list" where
  "netns_fields_leo =
   [(''sysctl_tcp_leo_rwnd_enable'', C_u32), (''sysctl_tcp_leo_rwnd_period_ms'', C_u32),
    (''sysctl_tcp_leo_rwnd_offset_ms'', C_u32), (''sysctl_tcp_leo_rwnd_pre_ms'', C_u32),
    (''sysctl_tcp_leo_rwnd_outage_ms'', C_u32), (''sysctl_tcp_leo_rwnd_min_segs'', C_u32),
    (''sysctl_tcp_leo_rwnd_debug'', C_u32), (''sysctl_tcp_leo_rwnd_recovery_ms'', C_u32),
    (''sysctl_tcp_leo_rwnd_fast_recovery'', C_u32), (''sysctl_tcp_leo_dynamic_enable'', C_int),
    (''sysctl_tcp_leo_dynamic_sample_ms'', C_int),
    (''sysctl_tcp_leo_dynamic_freeze_guard_ms'', C_int),
    (''sysctl_tcp_leo_dynamic_pre_min_ms'', C_int),
    (''sysctl_tcp_leo_dynamic_pre_max_ms'', C_int),
    (''sysctl_tcp_leo_dynamic_outage_min_ms'', C_int),
    (''sysctl_tcp_leo_dynamic_outage_max_ms'', C_int),
    (''sysctl_tcp_leo_dynamic_outage_guard_ms'', C_int),
    (''sysctl_tcp_leo_dynamic_drain_min_ms'', C_int),
    (''sysctl_tcp_leo_dynamic_drain_max_ms'', C_int),
    (''sysctl_tcp_leo_dynamic_fallback_rtt_ms'', C_int),
    (''sysctl_tcp_leo_dynamic_fallback_rate_mbps'', C_int),
    (''sysctl_tcp_leo_dynamic_ewma_shift'', C_int),
    (''sysctl_tcp_leo_dynamic_allow_ports'', (C_array C_u32 4)),
    (''sysctl_tcp_leo_dynamic_prediction_guard_ms'', C_int),
    (''sysctl_tcp_leo_dynamic_pred_guard_to_outage'', C_int),
    (''sysctl_tcp_leo_dynamic_recovery_enable'', C_int),
    (''sysctl_tcp_leo_dynamic_recovery_min_ms'', C_int),
    (''sysctl_tcp_leo_dynamic_recovery_max_ms'', C_int)]"

definition netns_fields_l3mdev :: "(string \<times> ctype) list" where
  "netns_fields_l3mdev =
   [(''sysctl_raw_l3mdev_accept'', C_u8), (''sysctl_tcp_l3mdev_accept'', C_u8),
    (''sysctl_udp_l3mdev_accept'', C_u8)]"

definition netns_fields_multipath :: "(string \<times> ctype) list" where
  "netns_fields_multipath =
   [(''sysctl_fib_multipath_hash_fields'', C_u32), (''sysctl_fib_multipath_use_neigh'', C_u8),
    (''sysctl_fib_multipath_hash_policy'', C_u8)]"

definition netns_fields :: "config \<Rightarrow> (string \<times> ctype) list" where
  "netns_fields cfg = netns_fields_hot @ netns_fields_base @ netns_fields_more @ netns_fields_leo @
     (if config_net_l3_master_dev cfg then netns_fields_l3mdev else []) @
     (if config_ip_route_multipath cfg then netns_fields_multipath else [])"

section \<open>The tables\<close>

definition ipv4_table :: "config \<Rightarrow> ctl_table list" where
  "ipv4_table cfg =
   [ctl ''tcp_max_orphans'' (Some (Global ''sysctl_tcp_max_orphans'')) (SizeOf C_int)
      mode_0644 H_proc_dointvec None None,
    ctl ''inet_peer_threshold'' (Some (Global ''inet_peer_threshold'')) (SizeOf C_int)
      mode_0644 H_proc_dointvec None None,
    ctl ''inet_peer_minttl'' (Some (Global ''inet_peer_minttl'')) (SizeOf C_int)
      mode_0644 H_proc_dointvec_jiffies None None,
    ctl ''inet_peer_maxttl'' (Some (Global ''inet_peer_maxttl'')) (SizeOf C_int)
      mode_0644 H_proc_dointvec_jiffies None None,
    ctl ''tcp_mem'' (Some (Global ''sysctl_tcp_mem'')) (SizeOfVar ''sysctl_tcp_mem'')
      mode_0644 H_proc_doulongvec_minmax None None,
    ctl ''tcp_low_latency'' (Some (Global ''sysctl_tcp_low_latency'')) (SizeOf C_int)
      mode_0644 H_proc_dointvec None None] @
   (if config_netlabel cfg then [ctl ''cipso_cache_enable'' (Some (Global ''cipso_v4_cache_enabled'')) (SizeOf C_int)
      mode_0644 H_proc_dointvec None None,
    ctl ''cipso_cache_bucket_size'' (Some (Global ''cipso_v4_cache_bucketsize'')) (SizeOf C_int)
      mode_0644 H_proc_dointvec None None,
    ctl ''cipso_rbm_optfmt'' (Some (Global ''cipso_v4_rbm_optfmt'')) (SizeOf C_int)
      mode_0644 H_proc_dointvec None None,
    ctl ''cipso_rbm_strictvalid'' (Some (Global ''cipso_v4_rbm_strictvalid'')) (SizeOf C_int)
      mode_0644 H_proc_dointvec None None] else []) @
   [ctl ''tcp_available_ulp'' None (Named ''TCP_ULP_BUF_MAX'')
      mode_0444 H_proc_tcp_available_ulp None None,
    ctl ''icmp_msgs_per_sec'' (Some (Global ''sysctl_icmp_msgs_per_sec'')) (SizeOf C_int)
      mode_0644 H_proc_dointvec_minmax (Some SYSCTL_ZERO) None,
    ctl ''icmp_msgs_burst'' (Some (Global ''sysctl_icmp_msgs_burst'')) (SizeOf C_int)
      mode_0644 H_proc_dointvec_minmax (Some SYSCTL_ZERO) None,
    ctl ''udp_mem'' (Some (Global ''sysctl_udp_mem'')) (SizeOfVar ''sysctl_udp_mem'')
      mode_0644 H_proc_doulongvec_minmax None None,
    ctl ''fib_sync_mem'' (Some (Global ''sysctl_fib_sync_mem'')) (SizeOfVar ''sysctl_fib_sync_mem'')
      mode_0644 H_proc_douintvec_minmax (Some (Var ''sysctl_fib_sync_mem_min'')) (Some (Var ''sysctl_fib_sync_mem_max''))]"

definition net_table_icmp :: "config \<Rightarrow> ctl_table list" where
  "net_table_icmp cfg =
   [ctl ''tcp_max_tw_buckets'' (net_field ''tcp_death_row.sysctl_max_tw_buckets'') (SizeOf C_int)
      mode_0644 H_proc_dointvec None None,
    ctl ''icmp_echo_ignore_all'' (net_field ''sysctl_icmp_echo_ignore_all'') (SizeOf C_u8)
      mode_0644 H_proc_dou8vec_minmax (Some SYSCTL_ZERO) (Some SYSCTL_ONE),
    ctl ''icmp_echo_enable_probe'' (net_field ''sysctl_icmp_echo_enable_probe'') (SizeOf C_u8)
      mode_0644 H_proc_dou8vec_minmax (Some SYSCTL_ZERO) (Some SYSCTL_ONE),
    ctl ''icmp_echo_ignore_broadcasts'' (net_field ''sysctl_icmp_echo_ignore_broadcasts'') (SizeOf C_u8)
      mode_0644 H_proc_dou8vec_minmax (Some SYSCTL_ZERO) (Some SYSCTL_ONE),
    ctl ''icmp_ignore_bogus_error_responses'' (net_field ''sysctl_icmp_ignore_bogus_error_responses'') (SizeOf C_u8)
      mode_0644 H_proc_dou8vec_minmax (Some SYSCTL_ZERO) (Some SYSCTL_ONE),
    ctl ''icmp_errors_use_inbound_ifaddr'' (net_field ''sysctl_icmp_errors_use_inbound_ifaddr'') (SizeOf C_u8)
      mode_0644 H_proc_dou8vec_minmax (Some SYSCTL_ZERO) (Some SYSCTL_ONE),
    ctl ''icmp_ratelimit'' (net_field ''sysctl_icmp_ratelimit'') (SizeOf C_int)
      mode_0644 H_proc_dointvec_ms_jiffies None None,
    ctl ''icmp_ratemask'' (net_field ''sysctl_icmp_ratemask'') (SizeOf C_int)
      mode_0644 H_proc_dointvec None None,
    ctl ''ping_group_range'' (net_field ''ping_group_range.range'') (SizeOf (C_array C_gid 2))
      mode_0644 H_ipv4_ping_group_range None None] @
   (if config_net_l3_master_dev cfg then [ctl ''raw_l3mdev_accept'' (net_field ''sysctl_raw_l3mdev_accept'') (SizeOf C_u8)
      mode_0644 H_proc_dou8vec_minmax (Some SYSCTL_ZERO) (Some SYSCTL_ONE)] else [])"

definition net_table_ip :: "config \<Rightarrow> ctl_table list" where
  "net_table_ip cfg =
   [ctl ''tcp_ecn'' (net_field ''sysctl_tcp_ecn'') (SizeOf C_u8)
      mode_0644 H_proc_dou8vec_minmax (Some SYSCTL_ZERO) (Some SYSCTL_TWO),
    ctl ''tcp_ecn_fallback'' (net_field ''sysctl_tcp_ecn_fallback'') (SizeOf C_u8)
      mode_0644 H_proc_dou8vec_minmax (Some SYSCTL_ZERO) (Some SYSCTL_ONE),
    ctl ''ip_dynaddr'' (net_field ''sysctl_ip_dynaddr'') (SizeOf C_u8)
      mode_0644 H_proc_dou8vec_minmax None None,
    ctl ''ip_early_demux'' (net_field ''sysctl_ip_early_demux'') (SizeOf C_u8)
      mode_0644 H_proc_dou8vec_minmax None None,
    ctl ''udp_early_demux'' (net_field ''sysctl_udp_early_demux'') (SizeOf C_u8)
      mode_0644 H_proc_dou8vec_minmax None None,
    ctl ''tcp_early_demux'' (net_field ''sysctl_tcp_early_demux'') (SizeOf C_u8)
      mode_0644 H_proc_dou8vec_minmax None None,
    ctl ''nexthop_compat_mode'' (net_field ''sysctl_nexthop_compat_mode'') (SizeOf C_u8)
      mode_0644 H_proc_dou8vec_minmax (Some SYSCTL_ZERO) (Some SYSCTL_ONE),
    ctl ''ip_default_ttl'' (net_field ''sysctl_ip_default_ttl'') (SizeOf C_u8)
      mode_0644 H_proc_dou8vec_minmax (Some (Var ''ip_ttl_min'')) (Some (Var ''ip_ttl_max'')),
    ctl ''ip_local_port_range'' (Some (InNet init_net WholeNet)) (Bytes 0)
      mode_0644 H_ipv4_local_port_range None None,
    ctl ''ip_local_reserved_ports'' (net_field ''sysctl_local_reserved_ports'') (Bytes 65536)
      mode_0644 H_proc_do_large_bitmap None None,
    ctl ''ip_no_pmtu_disc'' (net_field ''sysctl_ip_no_pmtu_disc'') (SizeOf C_u8)
      mode_0644 H_proc_dou8vec_minmax None None,
    ctl ''ip_forward_use_pmtu'' (net_field ''sysctl_ip_fwd_use_pmtu'') (SizeOf C_u8)
      mode_0644 H_proc_dou8vec_minmax None None,
    ctl ''ip_forward_update_priority'' (net_field ''sysctl_ip_fwd_update_priority'') (SizeOf C_u8)
      mode_0644 H_ipv4_fwd_update_priority (Some SYSCTL_ZERO) (Some SYSCTL_ONE),
    ctl ''ip_nonlocal_bind'' (net_field ''sysctl_ip_nonlocal_bind'') (SizeOf C_u8)
      mode_0644 H_proc_dou8vec_minmax None None,
    ctl ''ip_autobind_reuse'' (net_field ''sysctl_ip_autobind_reuse'') (SizeOf C_u8)
      mode_0644 H_proc_dou8vec_minmax (Some SYSCTL_ZERO) (Some SYSCTL_ONE),
    ctl ''fwmark_reflect'' (net_field ''sysctl_fwmark_reflect'') (SizeOf C_u8)
      mode_0644 H_proc_dou8vec_minmax None None,
    ctl ''tcp_fwmark_accept'' (net_field ''sysctl_tcp_fwmark_accept'') (SizeOf C_u8)
      mode_0644 H_proc_dou8vec_minmax None None] @
   (if config_net_l3_master_dev cfg then [ctl ''tcp_l3mdev_accept'' (net_field ''sysctl_tcp_l3mdev_accept'') (SizeOf C_u8)
      mode_0644 H_proc_dou8vec_minmax (Some SYSCTL_ZERO) (Some SYSCTL_ONE)] else [])"

definition net_table_retries :: "config \<Rightarrow> ctl_table list" where
  "net_table_retries cfg =
   [ctl ''tcp_mtu_probing'' (net_field ''sysctl_tcp_mtu_probing'') (SizeOf C_u8)
      mode_0644 H_proc_dou8vec_minmax None None,
    ctl ''tcp_base_mss'' (net_field ''sysctl_tcp_base_mss'') (SizeOf C_int)
      mode_0644 H_proc_dointvec None None,
    ctl ''tcp_min_snd_mss'' (net_field ''sysctl_tcp_min_snd_mss'') (SizeOf C_int)
      mode_0644 H_proc_dointvec_minmax (Some (Var ''tcp_min_snd_mss_min'')) (Some (Var ''tcp_min_snd_mss_max'')),
    ctl ''tcp_mtu_probe_floor'' (net_field ''sysctl_tcp_mtu_probe_floor'') (SizeOf C_int)
      mode_0644 H_proc_dointvec_minmax (Some (Var ''tcp_min_snd_mss_min'')) (Some (Var ''tcp_min_snd_mss_max'')),
    ctl ''tcp_probe_threshold'' (net_field ''sysctl_tcp_probe_threshold'') (SizeOf C_int)
      mode_0644 H_proc_dointvec None None,
    ctl ''tcp_probe_interval'' (net_field ''sysctl_tcp_probe_interval'') (SizeOf C_u32)
      mode_0644 H_proc_douintvec_minmax None (Some (Var ''u32_max_div_HZ'')),
    ctl ''igmp_link_local_mcast_reports'' (net_field ''sysctl_igmp_llm_reports'') (SizeOf C_u8)
      mode_0644 H_proc_dou8vec_minmax None None,
    ctl ''igmp_max_memberships'' (net_field ''sysctl_igmp_max_memberships'') (SizeOf C_int)
      mode_0644 H_proc_dointvec None None,
    ctl ''igmp_max_msf'' (net_field ''sysctl_igmp_max_msf'') (SizeOf C_int)
      mode_0644 H_proc_dointvec None None] @
   (if config_ip_multicast cfg then [ctl ''igmp_qrv'' (net_field ''sysctl_igmp_qrv'') (SizeOf C_int)
      mode_0644 H_proc_dointvec_minmax (Some SYSCTL_ONE) None] else []) @
   [ctl ''tcp_congestion_control'' (net_field ''tcp_congestion_control'') (Named ''TCP_CA_NAME_MAX'')
      mode_0644 H_proc_tcp_congestion_control None None,
    ctl ''tcp_available_congestion_control'' None (Named ''TCP_CA_BUF_MAX'')
      mode_0444 H_proc_tcp_available_congestion_control None None,
    ctl ''tcp_allowed_congestion_control'' None (Named ''TCP_CA_BUF_MAX'')
      mode_0644 H_proc_allowed_congestion_control None None,
    ctl ''tcp_keepalive_time'' (net_field ''sysctl_tcp_keepalive_time'') (SizeOf C_int)
      mode_0644 H_proc_dointvec_jiffies None None,
    ctl ''tcp_keepalive_probes'' (net_field ''sysctl_tcp_keepalive_probes'') (SizeOf C_u8)
      mode_0644 H_proc_dou8vec_minmax None None,
    ctl ''tcp_keepalive_intvl'' (net_field ''sysctl_tcp_keepalive_intvl'') (SizeOf C_int)
      mode_0644 H_proc_dointvec_jiffies None None,
    ctl ''tcp_syn_retries'' (net_field ''sysctl_tcp_syn_retries'') (SizeOf C_u8)
      mode_0644 H_proc_dou8vec_minmax (Some (Var ''tcp_syn_retries_min'')) (Some (Var ''tcp_syn_retries_max'')),
    ctl ''tcp_synack_retries'' (net_field ''sysctl_tcp_synack_retries'') (SizeOf C_u8)
      mode_0644 H_proc_dou8vec_minmax None None] @
   (if config_syn_cookies cfg then [ctl ''tcp_syncookies'' (net_field ''sysctl_tcp_syncookies'') (SizeOf C_u8)
      mode_0644 H_proc_dou8vec_minmax None None] else [])"

definition net_table_syn :: "config \<Rightarrow> ctl_table list" where
  "net_table_syn cfg =
   [ctl ''tcp_migrate_req'' (net_field ''sysctl_tcp_migrate_req'') (SizeOf C_u8)
      mode_0644 H_proc_dou8vec_minmax (Some SYSCTL_ZERO) (Some SYSCTL_ONE),
    ctl ''tcp_reordering'' (net_field ''sysctl_tcp_reordering'') (SizeOf C_int)
      mode_0644 H_proc_dointvec None None,
    ctl ''tcp_retries1'' (net_field ''sysctl_tcp_retries1'') (SizeOf C_u8)
      mode_0644 H_proc_dou8vec_minmax None (Some (Var ''tcp_retr1_max'')),
    ctl ''tcp_retries2'' (net_field ''sysctl_tcp_retries2'') (SizeOf C_u8)
      mode_0644 H_proc_dou8vec_minmax None None,
    ctl ''tcp_orphan_retries'' (net_field ''sysctl_tcp_orphan_retries'') (SizeOf C_u8)
      mode_0644 H_proc_dou8vec_minmax None None,
    ctl ''tcp_fin_timeout'' (net_field ''sysctl_tcp_fin_timeout'') (SizeOf C_int)
      mode_0644 H_proc_dointvec_jiffies None None,
    ctl ''tcp_notsent_lowat'' (net_field ''sysctl_tcp_notsent_lowat'') (SizeOf C_uint)
      mode_0644 H_proc_douintvec None None,
    ctl ''tcp_tw_reuse'' (net_field ''sysctl_tcp_tw_reuse'') (SizeOf C_u8)
      mode_0644 H_proc_dou8vec_minmax (Some SYSCTL_ZERO) (Some SYSCTL_TWO),
    ctl ''tcp_max_syn_backlog'' (net_field ''sysctl_max_syn_backlog'') (SizeOf C_int)
      mode_0644 H_proc_dointvec None None,
    ctl ''tcp_fastopen'' (net_field ''sysctl_tcp_fastopen'') (SizeOf C_int)
      mode_0644 H_proc_dointvec None None,
    ctl ''tcp_fastopen_key'' (net_field ''sysctl_tcp_fastopen'') FastopenKeySize
      mode_0600 H_proc_tcp_fastopen_key None None,
    ctl ''tcp_fastopen_blackhole_timeout_sec'' (net_field ''sysctl_tcp_fastopen_blackhole_timeout'') (SizeOf C_int)
      mode_0644 H_proc_tfo_blackhole_detect_timeout (Some SYSCTL_ZERO) None] @
   (if config_ip_route_multipath cfg then [ctl ''fib_multipath_use_neigh'' (net_field ''sysctl_fib_multipath_use_neigh'') (SizeOf C_u8)
      mode_0644 H_proc_dou8vec_minmax (Some SYSCTL_ZERO) (Some SYSCTL_ONE),
    ctl ''fib_multipath_hash_policy'' (net_field ''sysctl_fib_multipath_hash_policy'') (SizeOf C_u8)
      mode_0644 H_proc_fib_multipath_hash_policy (Some SYSCTL_ZERO) (Some SYSCTL_THREE),
    ctl ''fib_multipath_hash_fields'' (net_field ''sysctl_fib_multipath_hash_fields'') (SizeOf C_u32)
      mode_0644 H_proc_fib_multipath_hash_fields (Some SYSCTL_ONE) (Some (Var ''fib_multipath_hash_fields_all_mask''))] else []) @
   [ctl ''ip_unprivileged_port_start'' (net_field ''sysctl_ip_prot_sock'') (SizeOf C_int)
      mode_0644 H_ipv4_privileged_ports None None] @
   (if config_net_l3_master_dev cfg then [ctl ''udp_l3mdev_accept'' (net_field ''sysctl_udp_l3mdev_accept'') (SizeOf C_u8)
      mode_0644 H_proc_dou8vec_minmax (Some SYSCTL_ZERO) (Some SYSCTL_ONE)] else [])"

definition net_table_sack :: "config \<Rightarrow> ctl_table list" where
  "net_table_sack cfg =
   [ctl ''tcp_sack'' (net_field ''sysctl_tcp_sack'') (SizeOf C_u8)
      mode_0644 H_proc_dou8vec_minmax None None,
    ctl ''tcp_window_scaling'' (net_field ''sysctl_tcp_window_scaling'') (SizeOf C_u8)
      mode_0644 H_proc_dou8vec_minmax None None,
    ctl ''tcp_timestamps'' (net_field ''sysctl_tcp_timestamps'') (SizeOf C_u8)
      mode_0644 H_proc_dou8vec_minmax None None,
    ctl ''tcp_early_retrans'' (net_field ''sysctl_tcp_early_retrans'') (SizeOf C_u8)
      mode_0644 H_proc_dou8vec_minmax (Some SYSCTL_ZERO) (Some SYSCTL_FOUR),
    ctl ''tcp_recovery'' (net_field ''sysctl_tcp_recovery'') (SizeOf C_u8)
      mode_0644 H_proc_dou8vec_minmax None None,
    ctl ''tcp_thin_linear_timeouts'' (net_field ''sysctl_tcp_thin_linear_timeouts'') (SizeOf C_u8)
      mode_0644 H_proc_dou8vec_minmax None None,
    ctl ''tcp_slow_start_after_idle'' (net_field ''sysctl_tcp_slow_start_after_idle'') (SizeOf C_u8)
      mode_0644 H_proc_dou8vec_minmax None None,
    ctl ''tcp_retrans_collapse'' (net_field ''sysctl_tcp_retrans_collapse'') (SizeOf C_u8)
      mode_0644 H_proc_dou8vec_minmax None None,
    ctl ''tcp_stdurg'' (net_field ''sysctl_tcp_stdurg'') (SizeOf C_u8)
      mode_0644 H_proc_dou8vec_minmax None None,
    ctl ''tcp_rfc1337'' (net_field ''sysctl_tcp_rfc1337'') (SizeOf C_u8)
      mode_0644 H_proc_dou8vec_minmax None None,
    ctl ''tcp_abort_on_overflow'' (net_field ''sysctl_tcp_abort_on_overflow'') (SizeOf C_u8)
      mode_0644 H_proc_dou8vec_minmax None None,
    ctl ''tcp_fack'' (net_field ''sysctl_tcp_fack'') (SizeOf C_u8)
      mode_0644 H_proc_dou8vec_minmax None None,
    ctl ''tcp_max_reordering'' (net_field ''sysctl_tcp_max_reordering'') (SizeOf C_int)
      mode_0644 H_proc_dointvec None None,
    ctl ''tcp_dsack'' (net_field ''sysctl_tcp_dsack'') (SizeOf C_u8)
      mode_0644 H_proc_dou8vec_minmax None None,
    ctl ''tcp_app_win'' (net_field ''sysctl_tcp_app_win'') (SizeOf C_u8)
      mode_0644 H_proc_dou8vec_minmax (Some SYSCTL_ZERO) (Some (Var ''tcp_app_win_max'')),
    ctl ''tcp_adv_win_scale'' (net_field ''sysctl_tcp_adv_win_scale'') (SizeOf C_int)
      mode_0644 H_proc_dointvec_minmax (Some (Var ''tcp_adv_win_scale_min'')) (Some (Var ''tcp_adv_win_scale_max'')),
    ctl ''tcp_frto'' (net_field ''sysctl_tcp_frto'') (SizeOf C_u8)
      mode_0644 H_proc_dou8vec_minmax None None,
    ctl ''tcp_no_metrics_save'' (net_field ''sysctl_tcp_nometrics_save'') (SizeOf C_u8)
      mode_0644 H_proc_dou8vec_minmax None None]"

definition net_table_pacing :: "config \<Rightarrow> ctl_table list" where
  "net_table_pacing cfg =
   [ctl ''tcp_no_ssthresh_metrics_save'' (net_field ''sysctl_tcp_no_ssthresh_metrics_save'') (SizeOf C_u8)
      mode_0644 H_proc_dou8vec_minmax (Some SYSCTL_ZERO) (Some SYSCTL_ONE),
    ctl ''tcp_moderate_rcvbuf'' (net_field ''sysctl_tcp_moderate_rcvbuf'') (SizeOf C_u8)
      mode_0644 H_proc_dou8vec_minmax None None,
    ctl ''tcp_tso_win_divisor'' (net_field ''sysctl_tcp_tso_win_divisor'') (SizeOf C_u8)
      mode_0644 H_proc_dou8vec_minmax None None,
    ctl ''tcp_workaround_signed_windows'' (net_field ''sysctl_tcp_workaround_signed_windows'') (SizeOf C_u8)
      mode_0644 H_proc_dou8vec_minmax None None,
    ctl ''tcp_limit_output_bytes'' (net_field ''sysctl_tcp_limit_output_bytes'') (SizeOf C_int)
      mode_0644 H_proc_dointvec None None,
    ctl ''tcp_challenge_ack_limit'' (net_field ''sysctl_tcp_challenge_ack_limit'') (SizeOf C_int)
      mode_0644 H_proc_dointvec None None,
    ctl ''tcp_min_tso_segs'' (net_field ''sysctl_tcp_min_tso_segs'') (SizeOf C_u8)
      mode_0644 H_proc_dou8vec_minmax (Some SYSCTL_ONE) None,
    ctl ''tcp_tso_rtt_log'' (net_field ''sysctl_tcp_tso_rtt_log'') (SizeOf C_u8)
      mode_0644 H_proc_dou8vec_minmax None None,
    ctl ''tcp_min_rtt_wlen'' (net_field ''sysctl_tcp_min_rtt_wlen'') (SizeOf C_int)
      mode_0644 H_proc_dointvec_minmax (Some SYSCTL_ZERO) (Some (Var ''one_day_secs'')),
    ctl ''tcp_autocorking'' (net_field ''sysctl_tcp_autocorking'') (SizeOf C_u8)
      mode_0644 H_proc_dou8vec_minmax (Some SYSCTL_ZERO) (Some SYSCTL_ONE),
    ctl ''tcp_invalid_ratelimit'' (net_field ''sysctl_tcp_invalid_ratelimit'') (SizeOf C_int)
      mode_0644 H_proc_dointvec_ms_jiffies None None,
    ctl ''tcp_pacing_ss_ratio'' (net_field ''sysctl_tcp_pacing_ss_ratio'') (SizeOf C_int)
      mode_0644 H_proc_dointvec_minmax (Some SYSCTL_ZERO) (Some SYSCTL_ONE_THOUSAND),
    ctl ''tcp_pacing_ca_ratio'' (net_field ''sysctl_tcp_pacing_ca_ratio'') (SizeOf C_int)
      mode_0644 H_proc_dointvec_minmax (Some SYSCTL_ZERO) (Some SYSCTL_ONE_THOUSAND),
    ctl ''tcp_wmem'' (net_field ''sysctl_tcp_wmem'') (SizeOfField ''sysctl_tcp_wmem'')
      mode_0644 H_proc_dointvec_minmax (Some SYSCTL_ONE) None,
    ctl ''tcp_rmem'' (net_field ''sysctl_tcp_rmem'') (SizeOfField ''sysctl_tcp_rmem'')
      mode_0644 H_proc_dointvec_minmax (Some SYSCTL_ONE) None,
    ctl ''tcp_comp_sack_delay_ns'' (net_field ''sysctl_tcp_comp_sack_delay_ns'') (SizeOf C_ulong)
      mode_0644 H_proc_doulongvec_minmax None None,
    ctl ''tcp_comp_sack_slack_ns'' (net_field ''sysctl_tcp_comp_sack_slack_ns'') (SizeOf C_ulong)
      mode_0644 H_proc_doulongvec_minmax None None,
    ctl ''tcp_comp_sack_nr'' (net_field ''sysctl_tcp_comp_sack_nr'') (SizeOf C_u8)
      mode_0644 H_proc_dou8vec_minmax (Some SYSCTL_ZERO) None]"

definition net_table_misc :: "config \<Rightarrow> ctl_table list" where
  "net_table_misc cfg =
   [ctl ''tcp_backlog_ack_defer'' (net_field ''sysctl_tcp_backlog_ack_defer'') (SizeOf C_u8)
      mode_0644 H_proc_dou8vec_minmax (Some SYSCTL_ZERO) (Some SYSCTL_ONE),
    ctl ''tcp_reflect_tos'' (net_field ''sysctl_tcp_reflect_tos'') (SizeOf C_u8)
      mode_0644 H_proc_dou8vec_minmax (Some SYSCTL_ZERO) (Some SYSCTL_ONE),
    ctl ''tcp_ehash_entries'' (net_field ''sysctl_tcp_child_ehash_entries'') (Bytes 0)
      mode_0444 H_proc_tcp_ehash_entries None None,
    ctl ''tcp_child_ehash_entries'' (net_field ''sysctl_tcp_child_ehash_entries'') (SizeOf C_uint)
      mode_0644 H_proc_douintvec_minmax (Some SYSCTL_ZERO) (Some (Var ''tcp_child_ehash_entries_max'')),
    ctl ''udp_hash_entries'' (net_field ''sysctl_udp_child_hash_entries'') (Bytes 0)
      mode_0444 H_proc_udp_hash_entries None None,
    ctl ''udp_child_hash_entries'' (net_field ''sysctl_udp_child_hash_entries'') (SizeOf C_uint)
      mode_0644 H_proc_douintvec_minmax (Some SYSCTL_ZERO) (Some (Var ''udp_child_hash_entries_max'')),
    ctl ''udp_rmem_min'' (net_field ''sysctl_udp_rmem_min'') (SizeOfField ''sysctl_udp_rmem_min'')
      mode_0644 H_proc_dointvec_minmax (Some SYSCTL_ONE) None,
    ctl ''udp_wmem_min'' (net_field ''sysctl_udp_wmem_min'') (SizeOfField ''sysctl_udp_wmem_min'')
      mode_0644 H_proc_dointvec_minmax (Some SYSCTL_ONE) None,
    ctl ''fib_notify_on_flag_change'' (net_field ''sysctl_fib_notify_on_flag_change'') (SizeOf C_u8)
      mode_0644 H_proc_dou8vec_minmax (Some SYSCTL_ZERO) (Some SYSCTL_TWO),
    ctl ''tcp_plb_enabled'' (net_field ''sysctl_tcp_plb_enabled'') (SizeOf C_u8)
      mode_0644 H_proc_dou8vec_minmax (Some SYSCTL_ZERO) (Some SYSCTL_ONE),
    ctl ''tcp_plb_idle_rehash_rounds'' (net_field ''sysctl_tcp_plb_idle_rehash_rounds'') (SizeOf C_u8)
      mode_0644 H_proc_dou8vec_minmax None (Some (Var ''tcp_plb_max_rounds'')),
    ctl ''tcp_plb_rehash_rounds'' (net_field ''sysctl_tcp_plb_rehash_rounds'') (SizeOf C_u8)
      mode_0644 H_proc_dou8vec_minmax None (Some (Var ''tcp_plb_max_rounds'')),
    ctl ''tcp_plb_suspend_rto_sec'' (net_field ''sysctl_tcp_plb_suspend_rto_sec'') (SizeOf C_u8)
      mode_0644 H_proc_dou8vec_minmax None None,
    ctl ''tcp_plb_cong_thresh'' (net_field ''sysctl_tcp_plb_cong_thresh'') (SizeOf C_int)
      mode_0644 H_proc_dointvec_minmax (Some SYSCTL_ZERO) (Some (Var ''tcp_plb_max_cong_thresh'')),
    ctl ''tcp_syn_linear_timeouts'' (net_field ''sysctl_tcp_syn_linear_timeouts'') (SizeOf C_u8)
      mode_0644 H_proc_dou8vec_minmax (Some SYSCTL_ZERO) (Some (Var ''tcp_syn_linear_timeouts_max'')),
    ctl ''tcp_shrink_window'' (net_field ''sysctl_tcp_shrink_window'') (SizeOf C_u8)
      mode_0644 H_proc_dou8vec_minmax (Some SYSCTL_ZERO) (Some SYSCTL_ONE),
    ctl ''tcp_pingpong_thresh'' (net_field ''sysctl_tcp_pingpong_thresh'') (SizeOf C_u8)
      mode_0644 H_proc_dou8vec_minmax (Some SYSCTL_ONE) None]"

definition net_table_leo_rwnd :: "config \<Rightarrow> ctl_table list" where
  "net_table_leo_rwnd cfg =
   [ctl ''tcp_leo_rwnd_enable'' (net_field ''sysctl_tcp_leo_rwnd_enable'') (SizeOf C_u32)
      mode_0644 H_proc_douintvec_minmax (Some SYSCTL_ZERO) (Some SYSCTL_ONE),
    ctl ''tcp_leo_rwnd_period_ms'' (net_field ''sysctl_tcp_leo_rwnd_period_ms'') (SizeOf C_u32)
      mode_0644 H_proc_douintvec_minmax (Some SYSCTL_ONE) None,
    ctl ''tcp_leo_rwnd_offset_ms'' (net_field ''sysctl_tcp_leo_rwnd_offset_ms'') (SizeOf C_u32)
      mode_0644 H_proc_douintvec None None,
    ctl ''tcp_leo_rwnd_pre_ms'' (net_field ''sysctl_tcp_leo_rwnd_pre_ms'') (SizeOf C_u32)
      mode_0644 H_proc_douintvec None None,
    ctl ''tcp_leo_rwnd_outage_ms'' (net_field ''sysctl_tcp_leo_rwnd_outage_ms'') (SizeOf C_u32)
      mode_0644 H_proc_douintvec None None,
    ctl ''tcp_leo_rwnd_min_segs'' (net_field ''sysctl_tcp_leo_rwnd_min_segs'') (SizeOf C_u32)
      mode_0644 H_proc_douintvec_minmax (Some SYSCTL_ONE) None,
    ctl ''tcp_leo_rwnd_debug'' (net_field ''sysctl_tcp_leo_rwnd_debug'') (SizeOf C_u32)
      mode_0644 H_proc_douintvec_minmax (Some SYSCTL_ZERO) (Some SYSCTL_ONE),
    ctl ''tcp_leo_rwnd_recovery_ms'' (net_field ''sysctl_tcp_leo_rwnd_recovery_ms'') (SizeOf C_u32)
      mode_0644 H_proc_douintvec_minmax (Some SYSCTL_ONE) None,
    ctl ''tcp_leo_rwnd_fast_recovery'' (net_field ''sysctl_tcp_leo_rwnd_fast_recovery'') (SizeOf C_u32)
      mode_0644 H_proc_douintvec_minmax (Some SYSCTL_ONE) None]"

definition net_table_leo_dynamic :: "config \<Rightarrow> ctl_table list" where
  "net_table_leo_dynamic cfg =
   [ctl ''tcp_leo_dynamic_enable'' (net_field ''sysctl_tcp_leo_dynamic_enable'') (SizeOf C_int)
      mode_0644 H_proc_dointvec_minmax (Some SYSCTL_ZERO) (Some SYSCTL_ONE),
    ctl ''tcp_leo_dynamic_sample_ms'' (net_field ''sysctl_tcp_leo_dynamic_sample_ms'') (SizeOf C_int)
      mode_0644 H_proc_dointvec_minmax (Some SYSCTL_ONE) None,
    ctl ''tcp_leo_dynamic_freeze_guard_ms'' (net_field ''sysctl_tcp_leo_dynamic_freeze_guard_ms'') (SizeOf C_int)
      mode_0644 H_proc_dointvec_minmax (Some SYSCTL_ONE) None,
    ctl ''tcp_leo_dynamic_pre_min_ms'' (net_field ''sysctl_tcp_leo_dynamic_pre_min_ms'') (SizeOf C_int)
      mode_0644 H_proc_dointvec_minmax (Some SYSCTL_ONE) None,
    ctl ''tcp_leo_dynamic_pre_max_ms'' (net_field ''sysctl_tcp_leo_dynamic_pre_max_ms'') (SizeOf C_int)
      mode_0644 H_proc_dointvec_minmax (Some SYSCTL_ONE) None,
    ctl ''tcp_leo_dynamic_outage_min_ms'' (net_field ''sysctl_tcp_leo_dynamic_outage_min_ms'') (SizeOf C_int)
      mode_0644 H_proc_dointvec_minmax (Some SYSCTL_ZERO) None,
    ctl ''tcp_leo_dynamic_outage_max_ms'' (net_field ''sysctl_tcp_leo_dynamic_outage_max_ms'') (SizeOf C_int)
      mode_0644 H_proc_dointvec_minmax (Some SYSCTL_ZERO) None,
    ctl ''tcp_leo_dynamic_outage_guard_ms'' (net_field ''sysctl_tcp_leo_dynamic_outage_guard_ms'') (SizeOf C_int)
      mode_0644 H_proc_dointvec_minmax (Some SYSCTL_ZERO) None,
    ctl ''tcp_leo_dynamic_drain_min_ms'' (net_field ''sysctl_tcp_leo_dynamic_drain_min_ms'') (SizeOf C_int)
      mode_0644 H_proc_dointvec_minmax (Some SYSCTL_ZERO) None,
    ctl ''tcp_leo_dynamic_drain_max_ms'' (net_field ''sysctl_tcp_leo_dynamic_drain_max_ms'') (SizeOf C_int)
      mode_0644 H_proc_dointvec_minmax (Some SYSCTL_ZERO) None,
    ctl ''tcp_leo_dynamic_fallback_rtt_ms'' (net_field ''sysctl_tcp_leo_dynamic_fallback_rtt_ms'') (SizeOf C_int)
      mode_0644 H_proc_dointvec_minmax (Some SYSCTL_ONE) None,
    ctl ''tcp_leo_dynamic_fallback_rate_mbps'' (net_field ''sysctl_tcp_leo_dynamic_fallback_rate_mbps'') (SizeOf C_int)
      mode_0644 H_proc_dointvec_minmax (Some SYSCTL_ONE) None,
    ctl ''tcp_leo_dynamic_ewma_shift'' (net_field ''sysctl_tcp_leo_dynamic_ewma_shift'') (SizeOf C_int)
      mode_0644 H_proc_douintvec_minmax (Some SYSCTL_ONE) None]"

definition net_table_leo_ports :: "config \<Rightarrow> ctl_table list" where
  "net_table_leo_ports cfg =
   [ctl ''tcp_leo_dynamic_allow_port1'' (net_elem ''sysctl_tcp_leo_dynamic_allow_ports'' 0) (SizeOf C_u32)
      mode_0644 H_proc_douintvec_minmax (Some SYSCTL_ZERO) (Some (Var ''tcp_leo_port_max'')),
    ctl ''tcp_leo_dynamic_allow_port2'' (net_elem ''sysctl_tcp_leo_dynamic_allow_ports'' 1) (SizeOf C_u32)
      mode_0644 H_proc_douintvec_minmax (Some SYSCTL_ZERO) (Some (Var ''tcp_leo_port_max'')),
    ctl ''tcp_leo_dynamic_allow_port3'' (net_elem ''sysctl_tcp_leo_dynamic_allow_ports'' 2) (SizeOf C_u32)
      mode_0644 H_proc_douintvec_minmax (Some SYSCTL_ZERO) (Some (Var ''tcp_leo_port_max'')),
    ctl ''tcp_leo_dynamic_allow_port4'' (net_elem ''sysctl_tcp_leo_dynamic_allow_ports'' 3) (SizeOf C_u32)
      mode_0644 H_proc_dointvec_minmax (Some SYSCTL_ZERO) (Some (Var ''tcp_leo_port_max'')),
    ctl ''tcp_leo_dynamic_prediction_guard_ms'' (net_field ''sysctl_tcp_leo_dynamic_prediction_guard_ms'') (SizeOf C_int)
      mode_0644 H_proc_douintvec_minmax (Some SYSCTL_ONE) None,
    ctl ''tcp_leo_dynamic_pred_guard_to_outage'' (net_field ''sysctl_tcp_leo_dynamic_pred_guard_to_outage'') (SizeOf C_int)
      mode_0644 H_proc_dointvec_minmax (Some SYSCTL_ZERO) (Some SYSCTL_ONE),
    ctl ''tcp_leo_dynamic_recovery_enable'' (net_field ''sysctl_tcp_leo_dynamic_recovery_enable'') (SizeOf C_int)
      mode_0644 H_proc_dointvec_minmax (Some SYSCTL_ZERO) (Some SYSCTL_ONE),
    ctl ''tcp_leo_dynamic_recovery_min_ms'' (net_field ''sysctl_tcp_leo_dynamic_recovery_min_ms'') (SizeOf C_int)
      mode_0644 H_proc_dointvec_minmax (Some SYSCTL_ZERO) None,
    ctl ''tcp_leo_dynamic_recovery_max_ms'' (net_field ''sysctl_tcp_leo_dynamic_recovery_max_ms'') (SizeOf C_int)
      mode_0644 H_proc_dointvec_minmax (Some SYSCTL_ZERO) None]"

text \<open>Without the empty entry that ends the table.\<close>

definition ipv4_net_table :: "config \<Rightarrow> ctl_table list" where
  "ipv4_net_table cfg = net_table_icmp cfg @ net_table_ip cfg @ net_table_retries cfg @
     net_table_syn cfg @ net_table_sack cfg @ net_table_pacing cfg @ net_table_misc cfg @
     net_table_leo_rwnd cfg @ net_table_leo_dynamic cfg @ net_table_leo_ports cfg"

section \<open>What a vector handler writes\<close>

text \<open>The element size of the generic handlers that read and write a vector at the entry's data
  pointer, directly or through a handler of this file; \<open>ipv4_ping_group_range\<close> writes two group ids
  there.\<close>

fun handler_width :: "handler \<Rightarrow> nat option" where
  "handler_width H_proc_dointvec = Some 4"
| "handler_width H_proc_douintvec = Some 4"
| "handler_width H_proc_dointvec_minmax = Some 4"
| "handler_width H_proc_douintvec_minmax = Some 4"
| "handler_width H_proc_dou8vec_minmax = Some 1"
| "handler_width H_proc_doulongvec_minmax = Some 8"
| "handler_width H_proc_dointvec_jiffies = Some 4"
| "handler_width H_proc_dointvec_ms_jiffies = Some 4"
| "handler_width H_ipv4_ping_group_range = Some 4"
| "handler_width H_ipv4_fwd_update_priority = Some 1"
| "handler_width H_proc_tfo_blackhole_detect_timeout = Some 4"
| "handler_width H_proc_fib_multipath_hash_policy = Some 1"
| "handler_width H_proc_fib_multipath_hash_fields = Some 4"
| "handler_width _ = None"

fun elem_type :: "ctype \<Rightarrow> ctype" where
  "elem_type (C_array t n) = t"
| "elem_type t = t"

text \<open>The size of the entry's data in bytes, for an entry whose data is a field of type \<open>t\<close>.\<close>

fun maxlen_bytes :: "string \<Rightarrow> ctype \<Rightarrow> maxlen \<Rightarrow> nat" where
  "maxlen_bytes f t (SizeOf u) = csizeof u"
| "maxlen_bytes f t (SizeOfField g) = (if g = f then csizeof t else 0)"
| "maxlen_bytes f t (Bytes n) = n"
| "maxlen_bytes f t _ = 0"

definition vector_inside :: "string \<Rightarrow> nat \<Rightarrow> ctype \<Rightarrow> maxlen \<Rightarrow> nat \<Rightarrow> bool" where
  "vector_inside f i t l w \<longleftrightarrow> csizeof (elem_type t) = w \<and> 0 < maxlen_bytes f t l \<and>
     maxlen_bytes f t l mod w = 0 \<and> i * w + maxlen_bytes f t l \<le> csizeof t"

text \<open>Every entry with a vector handler points to a field whose elements have the handler's size,
  and its length stays inside the field.\<close>

definition entry_fits :: "config \<Rightarrow> ctl_table \<Rightarrow> bool" where
  "entry_fits cfg e = (case handler_width (proc_handler e) of
     None \<Rightarrow> True
   | Some w \<Rightarrow> (case ctl_data e of
       Some (InNet n (Field f i)) \<Rightarrow> n = init_net \<and>
         list_ex (\<lambda>(g, t). g = f \<and> vector_inside f i t (ctl_maxlen e) w) (netns_fields cfg)
     | _ \<Rightarrow> False))"

lemma entry_fitsI:
  assumes "(f, t) \<in> set (netns_fields cfg)" and "handler_width h = Some w"
    and "vector_inside f i t l w"
  shows "entry_fits cfg (ctl nm (net_elem f i) l md h a b)"
  using assms by (auto simp: entry_fits_def ctl_def net_elem_def list_ex_iff)

lemma entry_fits_other: "handler_width h = None \<Longrightarrow> entry_fits cfg (ctl nm d l md h a b)"
  by (simp add: entry_fits_def ctl_def)

lemma list_all_if: "list_all P (if c then xs else []) \<longleftrightarrow> (c \<longrightarrow> list_all P xs)"
  by simp

text \<open>The fields as facts, one for each field, for the simplifier.\<close>

lemma field_always:
  "list_all (\<lambda>x. x \<in> set (netns_fields cfg))
     (netns_fields_hot @ netns_fields_base @ netns_fields_more @ netns_fields_leo)"
  by (auto simp: list_all_iff netns_fields_def)

lemma field_l3mdev:
  "config_net_l3_master_dev cfg \<longrightarrow> list_all (\<lambda>x. x \<in> set (netns_fields cfg)) netns_fields_l3mdev"
  by (auto simp: list_all_iff netns_fields_def)

lemma field_multipath:
  "config_ip_route_multipath cfg \<longrightarrow> list_all (\<lambda>x. x \<in> set (netns_fields cfg)) netns_fields_multipath"
  by (auto simp: list_all_iff netns_fields_def)

lemmas field_facts =
  field_always [unfolded netns_fields_base_def netns_fields_hot_def netns_fields_more_def
    netns_fields_leo_def list_all_append list.pred_inject]
  field_l3mdev [unfolded netns_fields_l3mdev_def list.pred_inject]
  field_multipath [unfolded netns_fields_multipath_def list.pred_inject]

lemmas leo_entries_defs = net_table_leo_rwnd_def net_table_leo_dynamic_def net_table_leo_ports_def

lemmas net_table_defs = net_table_icmp_def net_table_ip_def net_table_retries_def net_table_syn_def
  net_table_sack_def net_table_pacing_def net_table_misc_def

definition fits_as :: "config \<Rightarrow> string \<Rightarrow> nat \<Rightarrow> maxlen \<Rightarrow> nat \<Rightarrow> ctype \<Rightarrow> bool" where
  "fits_as cfg f i l w t \<longleftrightarrow> (f, t) \<in> set (netns_fields cfg) \<and> vector_inside f i t l w"

lemma entry_fits_candidate:
  "handler_width h = Some w \<Longrightarrow>
   list_ex (fits_as cfg f i l w) [C_u8, C_int, C_u32, C_uint, C_ulong, C_array C_int 3,
     C_array C_u32 4, C_array C_gid 2] \<Longrightarrow>
   entry_fits cfg (ctl nm (net_elem f i) l md h a b)"
  by (auto simp: fits_as_def intro!: entry_fitsI)

lemma net_table_fits: "list_all (entry_fits cfg) (ipv4_net_table cfg)"
  by (simp add: ipv4_net_table_def net_table_defs leo_entries_defs net_field_def list_all_if
      entry_fits_candidate entry_fits_other fits_as_def field_facts vector_inside_def)

section \<open>Registration for a namespace\<close>

text \<open>\<open>table[i].data += (void *)net - (void *)&init_net\<close>: an address inside \<open>init_net\<close> becomes the
  same place of \<open>net\<close>; any other address ends up somewhere in memory.\<close>

fun relocate :: "nat \<Rightarrow> ptr \<Rightarrow> ptr" where
  "relocate net (InNet n loc) = (if n = init_net then InNet net loc else Wild)"
| "relocate net _ = Wild"

definition relocate_entry :: "nat \<Rightarrow> ctl_table \<Rightarrow> ctl_table" where
  "relocate_entry net e = (case ctl_data e of
     Some p \<Rightarrow> e\<lparr>ctl_data := Some (relocate net p)\<rparr>
   | None \<Rightarrow> e\<lparr>ctl_mode := ctl_mode e AND NOT mode_0222\<rparr>)"

text \<open>What the registration allocates and registers.\<close>

datatype alloc = TableCopy nat | ReservedPorts nat

record sysctl_world =
  live :: "alloc list"
  registered :: "(nat \<times> ctl_table list) list"

definition ENOMEM :: int where
  "ENOMEM = 12"

text \<open>\<open>kfree\<close> of an object that is not allocated is a fault.\<close>

definition kfree :: "alloc \<Rightarrow> sysctl_world \<Rightarrow> sysctl_world option" where
  "kfree a W = (if a \<in> set (live W) then Some (W\<lparr>live := remove1 a (live W)\<rparr>) else None)"

definition unregister :: "nat \<times> ctl_table list \<Rightarrow> sysctl_world \<Rightarrow> sysctl_world option" where
  "unregister h W = (if h \<in> set (registered W)
     then Some (W\<lparr>registered := remove1 h (registered W)\<rparr>) else None)"

text \<open>The label \<open>err_reg\<close>.\<close>

definition init_net_err_reg :: "nat \<Rightarrow> sysctl_world \<Rightarrow> (int \<times> sysctl_world) option" where
  "init_net_err_reg net W = map_option (Pair (- ENOMEM))
     (if net \<noteq> init_net then kfree (TableCopy net) W else Some W)"

text \<open>The three flags say which of \<open>kmemdup\<close>, \<open>register_net_sysctl_sz\<close> and \<open>kzalloc\<close> succeed.\<close>

definition ipv4_sysctl_init_net ::
  "config \<Rightarrow> nat \<Rightarrow> bool \<Rightarrow> bool \<Rightarrow> bool \<Rightarrow> sysctl_world \<Rightarrow> (int \<times> sysctl_world) option" where
  "ipv4_sysctl_init_net cfg net dup_ok reg_ok ports_ok W =
     (if net \<noteq> init_net \<and> \<not> dup_ok then Some (- ENOMEM, W)
      else
        let table = (if net \<noteq> init_net then map (relocate_entry net) (ipv4_net_table cfg)
                     else ipv4_net_table cfg);
            W = (if net \<noteq> init_net then W\<lparr>live := TableCopy net # live W\<rparr> else W)
        in if \<not> reg_ok then init_net_err_reg net W
           else
             let W = W\<lparr>registered := (net, table) # registered W\<rparr>
             in if \<not> ports_ok
                then Option.bind (unregister (net, table) W) (init_net_err_reg net)
                else Some (0, W\<lparr>live := ReservedPorts net # live W\<rparr>))"

text \<open>\<open>hdr\<close> is the table that was registered for the namespace.\<close>

definition ipv4_sysctl_exit_net :: "nat \<Rightarrow> ctl_table list \<Rightarrow> sysctl_world \<Rightarrow> sysctl_world option" where
  "ipv4_sysctl_exit_net net hdr W =
     Option.bind (kfree (ReservedPorts net) W) (\<lambda>W.
     Option.bind (unregister (net, hdr) W) (\<lambda>W.
     kfree (TableCopy net) W))"

definition sysctl_ipv4_init :: "config \<Rightarrow> bool \<Rightarrow> bool \<Rightarrow> sysctl_world \<Rightarrow> (int \<times> sysctl_world) option" where
  "sysctl_ipv4_init cfg reg_ok pernet_ok W =
     (if \<not> reg_ok then Some (- ENOMEM, W)
      else
        let hdr = (init_net, ipv4_table cfg);
            W = W\<lparr>registered := hdr # registered W\<rparr>
        in if \<not> pernet_ok then map_option (Pair (- ENOMEM)) (unregister hdr W)
           else Some (0, W))"

text \<open>Every data pointer of the per-namespace table is inside \<open>init_net\<close>, so that the shift lands on
  the same place of the new namespace.\<close>

definition data_in_init_net :: "ctl_table \<Rightarrow> bool" where
  "data_in_init_net e = (case ctl_data e of
     Some (InNet n loc) \<Rightarrow> n = init_net | Some _ \<Rightarrow> False | None \<Rightarrow> True)"

lemma data_in_init_net_ctl [simp]:
  "data_in_init_net (ctl nm (net_elem f i) l md h a b)"
  "data_in_init_net (ctl nm (Some (InNet init_net WholeNet)) l md h a b)"
  "data_in_init_net (ctl nm None l md h a b)"
  by (simp_all add: data_in_init_net_def ctl_def net_elem_def)

lemma net_table_in_init_net: "list_all data_in_init_net (ipv4_net_table cfg)"
  by (simp add: ipv4_net_table_def net_table_defs leo_entries_defs net_field_def)

text \<open>What an entry is in the table of another namespace.\<close>

definition relocated :: "nat \<Rightarrow> ctl_table \<Rightarrow> ctl_table \<Rightarrow> bool" where
  "relocated net e t = (case ctl_data e of
     None \<Rightarrow> ctl_data t = None \<and> ctl_mode t AND mode_0222 = 0
   | Some (InNet n loc) \<Rightarrow> n = init_net \<and> ctl_data t = Some (InNet net loc) \<and> ctl_mode t = ctl_mode e
   | Some _ \<Rightarrow> False)"

lemma mask_off: "(x AND NOT m) AND m = (0 :: u16)"
  by (rule bit_word_eqI) (simp add: bit_simps)

lemma relocate_entry_ok: "data_in_init_net e \<Longrightarrow> relocated net e (relocate_entry net e)"
  by (auto simp: relocate_entry_def data_in_init_net_def relocated_def mask_off
      split: option.splits ptr.splits)

text \<open>A configuration and a state for evaluation.\<close>

definition full_config :: config where
  "full_config = \<lparr>config_netlabel = True, config_net_l3_master_dev = True, config_ip_multicast = True,
     config_syn_cookies = True, config_ip_route_multipath = True\<rparr>"

definition empty_world :: sysctl_world where
  "empty_world = \<lparr>live = [], registered = []\<rparr>"

end
