(* ===== verification/Sysctl_Settings.thy ===== *)
theory Sysctl_Settings
  imports Sysctl_Table
begin

text \<open>
  The values the sysctl tables admit: the bounds of \<open>sysctl_net_ipv4.c\<close>, the interval of each entry,
  and the settings of a namespace under any sequence of writes.  The generic handlers
  (\<open>proc_dointvec_minmax\<close> and the like) are not part of the repository; what is used of them is their
  documented contract, that a write stores a value of the handler's type between the entry's bounds
  or fails.
\<close>

section \<open>Bounds\<close>

text \<open>The variables at the top of the file; \<open>ext\<close> gives the kernel's constants.\<close>

definition sysctl_statics :: "(string \<Rightarrow> int) \<Rightarrow> (string \<times> int) list" where
  "sysctl_statics ext =
   [(''tcp_retr1_max'', 255), (''ip_local_port_range_min'', 1), (''ip_local_port_range_max'', 65535),
    (''tcp_adv_win_scale_min'', -31), (''tcp_adv_win_scale_max'', 31), (''tcp_app_win_max'', 31),
    (''tcp_min_snd_mss_min'', ext ''TCP_MIN_SND_MSS''), (''tcp_min_snd_mss_max'', 65535),
    (''ip_privileged_port_min'', 0), (''ip_privileged_port_max'', 65535), (''ip_ttl_min'', 1),
    (''ip_ttl_max'', 255), (''tcp_syn_retries_min'', 1), (''tcp_syn_retries_max'', ext ''MAX_TCP_SYNCNT''),
    (''tcp_syn_linear_timeouts_max'', ext ''MAX_TCP_SYNCNT''), (''ip_ping_group_range_min'', 0),
    (''ip_ping_group_range_max'', ext ''GID_T_MAX''), (''u32_max_div_HZ'', 4294967295 div ext ''HZ''),
    (''one_day_secs'', 24 * 3600),
    (''fib_multipath_hash_fields_all_mask'', ext ''FIB_MULTIPATH_HASH_FIELD_ALL_MASK''),
    (''tcp_child_ehash_entries_max'', 16 * 1024 * 1024),
    (''udp_child_hash_entries_max'', ext ''UDP_HTABLE_SIZE_MAX''), (''tcp_plb_max_rounds'', 31),
    (''tcp_plb_max_cong_thresh'', 256), (''tcp_leo_port_max'', 65535)]"

fun extra_value :: "(string \<Rightarrow> int) \<Rightarrow> extra \<Rightarrow> int" where
  "extra_value ext SYSCTL_ZERO = 0"
| "extra_value ext SYSCTL_ONE = 1"
| "extra_value ext SYSCTL_TWO = 2"
| "extra_value ext SYSCTL_THREE = 3"
| "extra_value ext SYSCTL_FOUR = 4"
| "extra_value ext SYSCTL_ONE_THOUSAND = 1000"
| "extra_value ext (Var x) = (case map_of (sysctl_statics ext) x of Some v \<Rightarrow> v | None \<Rightarrow> ext x)"

text \<open>The values of the handler's type.\<close>

fun handler_range :: "handler \<Rightarrow> (int \<times> int) option" where
  "handler_range H_proc_dointvec = Some (- (2 ^ 31), 2 ^ 31 - 1)"
| "handler_range H_proc_dointvec_minmax = Some (- (2 ^ 31), 2 ^ 31 - 1)"
| "handler_range H_proc_douintvec = Some (0, 2 ^ 32 - 1)"
| "handler_range H_proc_douintvec_minmax = Some (0, 2 ^ 32 - 1)"
| "handler_range H_proc_dou8vec_minmax = Some (0, 255)"
| "handler_range _ = None"

fun checks_bounds :: "handler \<Rightarrow> bool" where
  "checks_bounds H_proc_dointvec_minmax = True"
| "checks_bounds H_proc_douintvec_minmax = True"
| "checks_bounds H_proc_dou8vec_minmax = True"
| "checks_bounds _ = False"

text \<open>Whether a write of \<open>v\<close> succeeds; the handlers with no interval of their own are not restricted.\<close>

definition admits :: "(string \<Rightarrow> int) \<Rightarrow> ctl_table \<Rightarrow> int \<Rightarrow> bool" where
  "admits ext e v = (case handler_range (proc_handler e) of
     None \<Rightarrow> True
   | Some (lo, hi) \<Rightarrow> lo \<le> v \<and> v \<le> hi \<and>
       (checks_bounds (proc_handler e) \<longrightarrow>
         (case extra1 e of None \<Rightarrow> True | Some x \<Rightarrow> extra_value ext x \<le> v) \<and>
         (case extra2 e of None \<Rightarrow> True | Some x \<Rightarrow> v \<le> extra_value ext x)))"

section \<open>Settings under writes\<close>

type_synonym settings = "netloc \<Rightarrow> int"

definition leo_entries :: "config \<Rightarrow> ctl_table list" where
  "leo_entries cfg = net_table_leo_rwnd cfg @ net_table_leo_dynamic cfg @ net_table_leo_ports cfg"

text \<open>The values \<open>tcp_sk_init\<close> gives to the settings of the controllers.\<close>

definition leo_boot :: "(netloc \<times> int) list" where
  "leo_boot =
   [(Field ''sysctl_tcp_leo_rwnd_enable'' 0, 1), (Field ''sysctl_tcp_leo_rwnd_period_ms'' 0, 15000),
    (Field ''sysctl_tcp_leo_rwnd_offset_ms'' 0, 12000), (Field ''sysctl_tcp_leo_rwnd_pre_ms'' 0, 150),
    (Field ''sysctl_tcp_leo_rwnd_outage_ms'' 0, 100), (Field ''sysctl_tcp_leo_rwnd_min_segs'' 0, 4),
    (Field ''sysctl_tcp_leo_rwnd_debug'' 0, 1), (Field ''sysctl_tcp_leo_rwnd_recovery_ms'' 0, 0),
    (Field ''sysctl_tcp_leo_rwnd_fast_recovery'' 0, 1),
    (Field ''sysctl_tcp_leo_dynamic_enable'' 0, 1), (Field ''sysctl_tcp_leo_dynamic_sample_ms'' 0, 50),
    (Field ''sysctl_tcp_leo_dynamic_freeze_guard_ms'' 0, 50),
    (Field ''sysctl_tcp_leo_dynamic_pre_min_ms'' 0, 20), (Field ''sysctl_tcp_leo_dynamic_pre_max_ms'' 0, 300),
    (Field ''sysctl_tcp_leo_dynamic_outage_min_ms'' 0, 10), (Field ''sysctl_tcp_leo_dynamic_outage_max_ms'' 0, 80),
    (Field ''sysctl_tcp_leo_dynamic_outage_guard_ms'' 0, 5),
    (Field ''sysctl_tcp_leo_dynamic_drain_min_ms'' 0, 10), (Field ''sysctl_tcp_leo_dynamic_drain_max_ms'' 0, 80),
    (Field ''sysctl_tcp_leo_dynamic_fallback_rtt_ms'' 0, 70),
    (Field ''sysctl_tcp_leo_dynamic_fallback_rate_mbps'' 0, 250),
    (Field ''sysctl_tcp_leo_dynamic_ewma_shift'' 0, 3),
    (Field ''sysctl_tcp_leo_dynamic_allow_ports'' 0, 20075), (Field ''sysctl_tcp_leo_dynamic_allow_ports'' 1, 20076),
    (Field ''sysctl_tcp_leo_dynamic_allow_ports'' 2, 0), (Field ''sysctl_tcp_leo_dynamic_allow_ports'' 3, 0),
    (Field ''sysctl_tcp_leo_dynamic_prediction_guard_ms'' 0, 30),
    (Field ''sysctl_tcp_leo_dynamic_pred_guard_to_outage'' 0, 1),
    (Field ''sysctl_tcp_leo_dynamic_recovery_enable'' 0, 1),
    (Field ''sysctl_tcp_leo_dynamic_recovery_min_ms'' 0, 20), (Field ''sysctl_tcp_leo_dynamic_recovery_max_ms'' 0, 80)]"

text \<open>The namespace the controllers read.\<close>

definition leo_settings :: "settings \<Rightarrow> netns_leo" where
  "leo_settings s =
   \<lparr>sysctl_tcp_leo_rwnd_enable = word_of_int (s (Field ''sysctl_tcp_leo_rwnd_enable'' 0)),
    sysctl_tcp_leo_rwnd_period_ms = word_of_int (s (Field ''sysctl_tcp_leo_rwnd_period_ms'' 0)),
    sysctl_tcp_leo_rwnd_offset_ms = word_of_int (s (Field ''sysctl_tcp_leo_rwnd_offset_ms'' 0)),
    sysctl_tcp_leo_rwnd_pre_ms = word_of_int (s (Field ''sysctl_tcp_leo_rwnd_pre_ms'' 0)),
    sysctl_tcp_leo_rwnd_outage_ms = word_of_int (s (Field ''sysctl_tcp_leo_rwnd_outage_ms'' 0)),
    sysctl_tcp_leo_rwnd_min_segs = word_of_int (s (Field ''sysctl_tcp_leo_rwnd_min_segs'' 0)),
    sysctl_tcp_leo_rwnd_debug = word_of_int (s (Field ''sysctl_tcp_leo_rwnd_debug'' 0)),
    sysctl_tcp_leo_rwnd_recovery_ms = word_of_int (s (Field ''sysctl_tcp_leo_rwnd_recovery_ms'' 0)),
    sysctl_tcp_leo_rwnd_fast_recovery = word_of_int (s (Field ''sysctl_tcp_leo_rwnd_fast_recovery'' 0)),
    sysctl_tcp_leo_dynamic_enable = word_of_int (s (Field ''sysctl_tcp_leo_dynamic_enable'' 0)),
    sysctl_tcp_leo_dynamic_sample_ms = word_of_int (s (Field ''sysctl_tcp_leo_dynamic_sample_ms'' 0)),
    sysctl_tcp_leo_dynamic_freeze_guard_ms =
      word_of_int (s (Field ''sysctl_tcp_leo_dynamic_freeze_guard_ms'' 0)),
    sysctl_tcp_leo_dynamic_pre_min_ms = word_of_int (s (Field ''sysctl_tcp_leo_dynamic_pre_min_ms'' 0)),
    sysctl_tcp_leo_dynamic_pre_max_ms = word_of_int (s (Field ''sysctl_tcp_leo_dynamic_pre_max_ms'' 0)),
    sysctl_tcp_leo_dynamic_outage_min_ms =
      word_of_int (s (Field ''sysctl_tcp_leo_dynamic_outage_min_ms'' 0)),
    sysctl_tcp_leo_dynamic_outage_max_ms =
      word_of_int (s (Field ''sysctl_tcp_leo_dynamic_outage_max_ms'' 0)),
    sysctl_tcp_leo_dynamic_outage_guard_ms =
      word_of_int (s (Field ''sysctl_tcp_leo_dynamic_outage_guard_ms'' 0)),
    sysctl_tcp_leo_dynamic_drain_min_ms = word_of_int (s (Field ''sysctl_tcp_leo_dynamic_drain_min_ms'' 0)),
    sysctl_tcp_leo_dynamic_drain_max_ms = word_of_int (s (Field ''sysctl_tcp_leo_dynamic_drain_max_ms'' 0)),
    sysctl_tcp_leo_dynamic_fallback_rtt_ms =
      word_of_int (s (Field ''sysctl_tcp_leo_dynamic_fallback_rtt_ms'' 0)),
    sysctl_tcp_leo_dynamic_fallback_rate_mbps =
      word_of_int (s (Field ''sysctl_tcp_leo_dynamic_fallback_rate_mbps'' 0)),
    sysctl_tcp_leo_dynamic_ewma_shift = word_of_int (s (Field ''sysctl_tcp_leo_dynamic_ewma_shift'' 0)),
    sysctl_tcp_leo_dynamic_allow_ports =
      map (\<lambda>i. word_of_int (s (Field ''sysctl_tcp_leo_dynamic_allow_ports'' i))) [0, 1, 2, 3],
    sysctl_tcp_leo_dynamic_prediction_guard_ms =
      word_of_int (s (Field ''sysctl_tcp_leo_dynamic_prediction_guard_ms'' 0)),
    sysctl_tcp_leo_dynamic_pred_guard_to_outage =
      word_of_int (s (Field ''sysctl_tcp_leo_dynamic_pred_guard_to_outage'' 0)),
    sysctl_tcp_leo_dynamic_recovery_enable =
      word_of_int (s (Field ''sysctl_tcp_leo_dynamic_recovery_enable'' 0)),
    sysctl_tcp_leo_dynamic_recovery_min_ms =
      word_of_int (s (Field ''sysctl_tcp_leo_dynamic_recovery_min_ms'' 0)),
    sysctl_tcp_leo_dynamic_recovery_max_ms =
      word_of_int (s (Field ''sysctl_tcp_leo_dynamic_recovery_max_ms'' 0))\<rparr>"

text \<open>A namespace after \<open>tcp_sk_init\<close> and any number of successful writes through its table.  An
  entry for an array is a write to its first element; no setting of the controllers is one.\<close>

inductive settings_reach :: "config \<Rightarrow> (string \<Rightarrow> int) \<Rightarrow> settings \<Rightarrow> bool" for cfg ext where
  boot: "list_all (\<lambda>(loc, v). s loc = v) leo_boot \<Longrightarrow> settings_reach cfg ext s"
| store: "settings_reach cfg ext s \<Longrightarrow> e \<in> set (ipv4_net_table cfg) \<Longrightarrow>
    ctl_data e = Some (InNet init_net loc) \<Longrightarrow> admits ext e v \<Longrightarrow> settings_reach cfg ext (s(loc := v))"

lemma leo_settings_boot:
  "list_all (\<lambda>(loc, v). s loc = v) leo_boot \<Longrightarrow> leo_settings s = tcp_sk_init_leo (leo_settings s)"
  by (simp add: leo_boot_def leo_settings_def tcp_sk_init_leo_def)

section \<open>The controllers' settings\<close>

definition is_leo_loc :: "netloc \<Rightarrow> bool" where
  "is_leo_loc loc = (case loc of WholeNet \<Rightarrow> False | Field f i \<Rightarrow> take 14 f = ''sysctl_tcp_leo'')"

definition is_leo_entry :: "ctl_table \<Rightarrow> bool" where
  "is_leo_entry e = (case ctl_data e of Some (InNet n loc) \<Rightarrow> is_leo_loc loc | _ \<Rightarrow> False)"

lemma is_leo_entry_ctl:
  "is_leo_entry (ctl nm (net_elem f i) l md h a b) \<longleftrightarrow> take 14 f = ''sysctl_tcp_leo''"
  "\<not> is_leo_entry (ctl nm (Some (InNet init_net WholeNet)) l md h a b)"
  "\<not> is_leo_entry (ctl nm None l md h a b)"
  by (simp_all add: is_leo_entry_def is_leo_loc_def ctl_def net_elem_def)

lemma other_entries_not_leo:
  "list_all (\<lambda>e. \<not> is_leo_entry e) (net_table_icmp cfg @ net_table_ip cfg @ net_table_retries cfg @
     net_table_syn cfg @ net_table_sack cfg @ net_table_pacing cfg @ net_table_misc cfg)"
  by (simp add: net_table_defs net_field_def list_all_if is_leo_entry_ctl)

lemma leo_entries_distinct: "distinct (map ctl_data (leo_entries cfg))"
  by (simp add: leo_entries_def leo_entries_defs ctl_def net_field_def net_elem_def)

lemma leo_entry_in_table:
  "e \<in> set (ipv4_net_table cfg) \<Longrightarrow> is_leo_entry e \<Longrightarrow> e \<in> set (leo_entries cfg)"
  using other_entries_not_leo [of cfg]
  by (auto simp: ipv4_net_table_def leo_entries_def list_all_iff)

lemma leo_entries_locs: "map ctl_data (leo_entries cfg) = map (\<lambda>(loc, v). Some (InNet init_net loc)) leo_boot"
  by (simp add: leo_entries_def leo_entries_defs ctl_def net_field_def net_elem_def leo_boot_def)

lemma leo_boot_leo: "list_all (\<lambda>(loc, v). is_leo_loc loc) leo_boot"
  by (simp add: leo_boot_def is_leo_loc_def)

text \<open>Every setting of the controllers has its boot value or one that its own entry admits.\<close>

lemma settings_admitted:
  assumes "settings_reach cfg ext s" and "i < length leo_boot" and "leo_boot ! i = (loc, b)"
  shows "s loc = b \<or> admits ext (leo_entries cfg ! i) (s loc)"
  using assms(1)
proof induction
  case (boot s)
  then show ?case using assms(2,3) by (fastforce simp: list_all_iff dest: nth_mem)
next
  case (store s e' loc' v)
  have len: "length (leo_entries cfg) = length leo_boot"
    by (metis leo_entries_locs length_map)
  have at: "ctl_data (leo_entries cfg ! i) = Some (InNet init_net loc)"
    using arg_cong [where f = "\<lambda>xs. xs ! i", OF leo_entries_locs [of cfg]] assms(2,3) len by simp
  show ?case
  proof (cases "loc' = loc")
    case True
    have "is_leo_loc loc"
      using leo_boot_leo assms(2,3) by (fastforce simp: list_all_iff dest: nth_mem)
    with store True have "e' \<in> set (leo_entries cfg)"
      by (intro leo_entry_in_table) (simp_all add: is_leo_entry_def)
    moreover have "leo_entries cfg ! i \<in> set (leo_entries cfg)" using assms(2) len by simp
    moreover have "ctl_data e' = ctl_data (leo_entries cfg ! i)" using store at True by simp
    ultimately have "e' = leo_entries cfg ! i"
      using leo_entries_distinct [of cfg] by (metis distinct_map inj_on_eq_iff)
    with store True show ?thesis by simp
  next
    case False
    with store show ?thesis by simp
  qed
qed

lemma settings_all:
  assumes "settings_reach cfg ext s"
  shows "list_all2 (\<lambda>e (loc, b). s loc = b \<or> admits ext e (s loc)) (leo_entries cfg) leo_boot"
proof -
  have "length (leo_entries cfg) = length leo_boot" by (metis leo_entries_locs length_map)
  then show ?thesis
    using settings_admitted [OF assms] by (auto simp: list_all2_conv_all_nth split: prod.split)
qed

lemma admits_int: "admits ext (ctl nm d l md H_proc_dointvec_minmax a b) v \<longleftrightarrow>
    - (2 ^ 31) \<le> v \<and> v \<le> 2 ^ 31 - 1 \<and> (case a of None \<Rightarrow> True | Some x \<Rightarrow> extra_value ext x \<le> v) \<and>
    (case b of None \<Rightarrow> True | Some x \<Rightarrow> v \<le> extra_value ext x)"
  and admits_uint: "admits ext (ctl nm d l md H_proc_douintvec_minmax a b) v \<longleftrightarrow>
    0 \<le> v \<and> v \<le> 2 ^ 32 - 1 \<and> (case a of None \<Rightarrow> True | Some x \<Rightarrow> extra_value ext x \<le> v) \<and>
    (case b of None \<Rightarrow> True | Some x \<Rightarrow> v \<le> extra_value ext x)"
  and admits_any: "admits ext (ctl nm d l md H_proc_douintvec a b) v \<longleftrightarrow> 0 \<le> v \<and> v \<le> 2 ^ 32 - 1"
  by (simp_all add: admits_def ctl_def)

lemmas settings_facts = settings_all [unfolded leo_entries_def leo_entries_defs leo_boot_def append.simps
    list.rel_inject case_prod_conv admits_int admits_uint admits_any option.case extra_value.simps]

text \<open>What the controllers can rely on.\<close>

definition leo_settings_ok :: "'a netns_leo_scheme \<Rightarrow> bool" where
  "leo_settings_ok net \<longleftrightarrow>
     list_all (\<lambda>b. b = 0 \<or> b = 1) [sysctl_tcp_leo_rwnd_enable net, sysctl_tcp_leo_rwnd_debug net,
       sysctl_tcp_leo_dynamic_enable net, sysctl_tcp_leo_dynamic_pred_guard_to_outage net,
       sysctl_tcp_leo_dynamic_recovery_enable net] \<and>
     list_all (\<lambda>v. v \<noteq> 0) [sysctl_tcp_leo_rwnd_period_ms net, sysctl_tcp_leo_rwnd_min_segs net,
       sysctl_tcp_leo_rwnd_fast_recovery net, sysctl_tcp_leo_dynamic_ewma_shift net,
       sysctl_tcp_leo_dynamic_prediction_guard_ms net] \<and>
     list_all (\<lambda>v. 1 \<le>s v) [sysctl_tcp_leo_dynamic_sample_ms net,
       sysctl_tcp_leo_dynamic_freeze_guard_ms net, sysctl_tcp_leo_dynamic_pre_min_ms net,
       sysctl_tcp_leo_dynamic_pre_max_ms net, sysctl_tcp_leo_dynamic_fallback_rtt_ms net,
       sysctl_tcp_leo_dynamic_fallback_rate_mbps net] \<and>
     list_all (\<lambda>v. 0 \<le>s v) [sysctl_tcp_leo_dynamic_outage_min_ms net,
       sysctl_tcp_leo_dynamic_outage_max_ms net, sysctl_tcp_leo_dynamic_outage_guard_ms net,
       sysctl_tcp_leo_dynamic_drain_min_ms net, sysctl_tcp_leo_dynamic_drain_max_ms net,
       sysctl_tcp_leo_dynamic_recovery_min_ms net, sysctl_tcp_leo_dynamic_recovery_max_ms net] \<and>
     length (sysctl_tcp_leo_dynamic_allow_ports net) = 4 \<and>
     list_all (\<lambda>p. p \<le> 65535) (sysctl_tcp_leo_dynamic_allow_ports net)"

text \<open>From the values of a setting to its word, for the four kinds of bounds.\<close>

lemma flag_word:
  "v = 1 \<or> lo \<le> v \<and> v \<le> hi \<and> 0 \<le> v \<and> v \<le> 1 \<Longrightarrow> word_of_int v = (0 :: s32) \<or> word_of_int v = (1 :: s32)"
proof -
  assume "v = 1 \<or> lo \<le> v \<and> v \<le> hi \<and> 0 \<le> v \<and> v \<le> 1"
  then have "v = 0 \<or> v = 1" by auto
  then show ?thesis by auto
qed

lemma uint_word_of_int_range: "0 \<le> v \<Longrightarrow> v \<le> 2 ^ 32 - 1 \<Longrightarrow> uint (word_of_int v :: u32) = v"
  by (simp add: uint_word_of_int_eq take_bit_int_eq_self)

lemma nonzero_word:
  "v = b \<or> lo \<le> v \<and> v \<le> 2 ^ 32 - 1 \<and> 1 \<le> v \<and> True \<Longrightarrow> 1 \<le> b \<Longrightarrow> b \<le> 2 ^ 32 - 1 \<Longrightarrow>
   word_of_int v \<noteq> (0 :: u32)"
  using uint_word_of_int_range [of v] by auto

lemma sint_word_of_int_range:
  assumes "0 \<le> v" and "v \<le> 2 ^ 31 - 1"
  shows "sint (word_of_int v :: s32) = v"
proof -
  have "sint (word_of_int v :: s32) = signed_take_bit 31 v" by (simp add: signed_of_int)
  then show ?thesis using assms by (simp add: signed_take_bit_int_eq_self)
qed

lemma positive_word:
  "v = b \<or> lo \<le> v \<and> v \<le> 2 ^ 31 - 1 \<and> 1 \<le> v \<and> True \<Longrightarrow> 1 \<le> b \<Longrightarrow> b \<le> 2 ^ 31 - 1 \<Longrightarrow>
   1 \<le>s (word_of_int v :: s32)"
  using sint_word_of_int_range [of v] by (auto simp: word_sle_eq)

lemma nonneg_word:
  "v = b \<or> lo \<le> v \<and> v \<le> 2 ^ 31 - 1 \<and> 0 \<le> v \<and> True \<Longrightarrow> 0 \<le> b \<Longrightarrow> b \<le> 2 ^ 31 - 1 \<Longrightarrow>
   0 \<le>s (word_of_int v :: s32)"
  using sint_word_of_int_range [of v] by (auto simp: word_sle_eq)

lemma port_word:
  "v = b \<or> lo \<le> v \<and> v \<le> hi \<and> 0 \<le> v \<and> v \<le> 65535 \<Longrightarrow> 0 \<le> b \<Longrightarrow> b \<le> 65535 \<Longrightarrow>
   word_of_int v \<le> (65535 :: u32)"
  using uint_word_of_int_range [of v] by (auto simp: word_le_def)

lemma port_max: "extra_value ext (Var ''tcp_leo_port_max'') = 65535"
  by (simp add: sysctl_statics_def)

lemma settings_ok:
  assumes "settings_reach cfg ext s"
  shows "leo_settings_ok (leo_settings s)"
proof -
  note f = settings_facts [OF assms, folded extra_value.simps(7), unfolded port_max]
  show ?thesis
    unfolding leo_settings_ok_def leo_settings_def netns_leo.simps list.map list.pred_inject list.size
    using f
    by (elim conjE) (intro conjI list.pred_inject(1);
      (erule flag_word | erule nonzero_word | erule positive_word | erule nonneg_word | erule port_word |
        simp (no_asm)); simp (no_asm))
qed

text \<open>Settings for evaluation: the boot values, and a period of 30 s written by the administrator.\<close>

definition demo_settings :: settings where
  "demo_settings = (\<lambda>loc. case map_of leo_boot loc of Some v \<Rightarrow> v | None \<Rightarrow> 0)
     (Field ''sysctl_tcp_leo_rwnd_period_ms'' 0 := 30000)"

lemma boot_settings_reach:
  "settings_reach cfg ext (\<lambda>loc. case map_of leo_boot loc of Some v \<Rightarrow> v | None \<Rightarrow> 0)"
  by (rule settings_reach.boot) (simp add: leo_boot_def)

lemma demo_settings_reach: "settings_reach full_config ext demo_settings"
  unfolding demo_settings_def
proof (rule settings_reach.store [OF boot_settings_reach])
  show "ctl ''tcp_leo_rwnd_period_ms'' (net_field ''sysctl_tcp_leo_rwnd_period_ms'') (SizeOf C_u32)
      mode_0644 H_proc_douintvec_minmax (Some SYSCTL_ONE) None \<in> set (ipv4_net_table full_config)"
    by (simp add: ipv4_net_table_def net_table_leo_rwnd_def)
qed (simp_all add: admits_uint, simp add: ctl_def net_field_def net_elem_def)

end
