(* ===== verification/Sysctl_Handlers.thy ===== *)
theory Sysctl_Handlers
  imports Sysctl_Settings
begin

text \<open>
  The handlers of \<open>sysctl_net_ipv4.c\<close>: a read or a write of one file under \<open>/proc/sys/net/ipv4\<close>.
  A handler gets the direction and the user's buffer, and returns its return value, the state of the
  namespace and the buffer.  The kernel functions it calls are the fields of the record \<open>procfs\<close>.
  The machine is little endian, so that \<open>cpu_to_le32\<close> is the identity.  A handler runs without
  interleaving: the retry loop and the lock around the group range are not visible.
\<close>

section \<open>State and kernel interface\<close>

datatype netevent = NETEVENT_IPV4_FWD_UPDATE_PRIORITY_UPDATE | NETEVENT_IPV4_MPATH_HASH_UPDATE

record sysnet =
  ip_local_ports_range :: u32
  ip_local_ports_warned :: bool
  sysctl_ip_prot_sock :: int
  ping_group_range :: "u32 \<times> u32"
  sysctl_ip_fwd_update_priority :: int
  sysctl_fib_multipath_hash_policy :: int
  sysctl_fib_multipath_hash_fields :: int
  sysctl_tcp_fastopen_blackhole_timeout :: int
  tfo_active_disable_times :: int
  ehash_mask :: int
  ehash_pernet :: bool
  udp_mask :: int
  udp_shared :: bool
  netevents :: "netevent list"

text \<open>Bounds, direction, buffer and values; the return value, the values and the buffer.\<close>

type_synonym vec_handler =
  "int option \<Rightarrow> int option \<Rightarrow> bool \<Rightarrow> string \<Rightarrow> int list \<Rightarrow> int \<times> int list \<times> string"

record procfs =
  proc_dointvec :: "bool \<Rightarrow> string \<Rightarrow> int list \<Rightarrow> int \<times> int list \<times> string"
  proc_dointvec_minmax :: vec_handler
  proc_doulongvec_minmax :: vec_handler
  proc_dou8vec_minmax :: vec_handler
  proc_douintvec_minmax :: vec_handler
  proc_dostring :: "nat \<Rightarrow> bool \<Rightarrow> string \<Rightarrow> string \<Rightarrow> int \<times> string \<times> string"
  inet_get_local_port_range :: "sysnet \<Rightarrow> int \<times> int"
  from_kgid_munged :: "u32 \<Rightarrow> int"
  make_kgid :: "int \<Rightarrow> u32"
  init_make_kgid :: "int \<Rightarrow> u32"
  gid_valid :: "u32 \<Rightarrow> bool"
  gid_lt :: "u32 \<Rightarrow> u32 \<Rightarrow> bool"
  tcp_get_default_congestion_control :: "sysnet \<Rightarrow> string"
  tcp_set_default_congestion_control :: "sysnet \<Rightarrow> string \<Rightarrow> int \<times> sysnet"
  tcp_get_available_congestion_control :: "nat \<Rightarrow> string"
  tcp_get_allowed_congestion_control :: "nat \<Rightarrow> string"
  tcp_set_allowed_congestion_control :: "sysnet \<Rightarrow> string \<Rightarrow> int \<times> sysnet"
  tcp_get_available_ulp :: "nat \<Rightarrow> string"
  tcp_fastopen_get_cipher :: "sysnet \<Rightarrow> nat \<times> u32 list"
  tcp_fastopen_reset_cipher :: "sysnet \<Rightarrow> u32 list \<Rightarrow> u32 list option \<Rightarrow> sysnet"
  kconst :: "string \<Rightarrow> int"

definition EINVAL :: int where
  "EINVAL = 22"

section \<open>Port ranges\<close>

definition set_local_port_range :: "u32 \<Rightarrow> u32 \<Rightarrow> sysnet \<Rightarrow> sysnet" where
  "set_local_port_range low high N =
     (let same_parity = ((low XOR high) AND 1 = 0)
      in N\<lparr>ip_local_ports_warned := (ip_local_ports_warned N \<or> same_parity),
           ip_local_ports_range := push_bit 16 high OR low\<rparr>)"

definition ipv4_local_port_range :: "procfs \<Rightarrow> bool \<Rightarrow> string \<Rightarrow> sysnet \<Rightarrow> int \<times> sysnet \<times> string" where
  "ipv4_local_port_range P write buffer N =
     (let (low, high) = inet_get_local_port_range P N;
          (ret, range, buffer) = proc_dointvec_minmax P (Some 1) (Some 65535) write buffer [low, high]
      in if write \<and> ret = 0 then
           (if range ! 1 < range ! 0 \<or> range ! 0 < sysctl_ip_prot_sock N then (- EINVAL, N, buffer)
            else (ret, set_local_port_range (word_of_int (range ! 0)) (word_of_int (range ! 1)) N, buffer))
         else (ret, N, buffer))"

definition ipv4_privileged_ports :: "procfs \<Rightarrow> bool \<Rightarrow> string \<Rightarrow> sysnet \<Rightarrow> int \<times> sysnet \<times> string" where
  "ipv4_privileged_ports P write buffer N =
     (let (ret, pports, buffer) =
            proc_dointvec_minmax P (Some 0) (Some 65535) write buffer [sysctl_ip_prot_sock N]
      in if write \<and> ret = 0 then
           let (low, high) = inet_get_local_port_range P N
           in if low < pports ! 0 then (- EINVAL, N, buffer)
              else (ret, N\<lparr>sysctl_ip_prot_sock := pports ! 0\<rparr>, buffer)
         else (ret, N, buffer))"

section \<open>Group range\<close>

definition inet_get_ping_group_range_table :: "sysnet \<Rightarrow> u32 \<times> u32" where
  "inet_get_ping_group_range_table N = ping_group_range N"

definition set_ping_group_range :: "u32 \<Rightarrow> u32 \<Rightarrow> sysnet \<Rightarrow> sysnet" where
  "set_ping_group_range low high N = N\<lparr>ping_group_range := (low, high)\<rparr>"

definition ipv4_ping_group_range :: "procfs \<Rightarrow> bool \<Rightarrow> string \<Rightarrow> sysnet \<Rightarrow> int \<times> sysnet \<times> string" where
  "ipv4_ping_group_range P write buffer N =
     (let (low, high) = inet_get_ping_group_range_table N;
          (ret, urange, buffer) = proc_doulongvec_minmax P (Some 0) (Some (kconst P ''GID_T_MAX''))
             write buffer [from_kgid_munged P low, from_kgid_munged P high]
      in if write \<and> ret = 0 then
           let low = make_kgid P (urange ! 0);
               high = make_kgid P (urange ! 1)
           in if \<not> gid_valid P low \<or> \<not> gid_valid P high then (- EINVAL, N, buffer)
              else
                let (low, high) =
                      (if urange ! 1 < urange ! 0 \<or> gid_lt P high low
                       then (init_make_kgid P 1, init_make_kgid P 0) else (low, high))
                in (ret, set_ping_group_range low high N, buffer)
         else (ret, N, buffer))"

section \<open>Values with a notification\<close>

definition ipv4_fwd_update_priority :: "procfs \<Rightarrow> bool \<Rightarrow> string \<Rightarrow> sysnet \<Rightarrow> int \<times> sysnet \<times> string" where
  "ipv4_fwd_update_priority P write buffer N =
     (let (ret, v, buffer) = proc_dou8vec_minmax P (Some 0) (Some 1) write buffer
            [sysctl_ip_fwd_update_priority N];
          N = N\<lparr>sysctl_ip_fwd_update_priority := v ! 0\<rparr>
      in (ret, if write \<and> ret = 0
               then N\<lparr>netevents := netevents N @ [NETEVENT_IPV4_FWD_UPDATE_PRIORITY_UPDATE]\<rparr> else N,
          buffer))"

definition proc_fib_multipath_hash_policy ::
  "procfs \<Rightarrow> bool \<Rightarrow> string \<Rightarrow> sysnet \<Rightarrow> int \<times> sysnet \<times> string" where
  "proc_fib_multipath_hash_policy P write buffer N =
     (let (ret, v, buffer) = proc_dou8vec_minmax P (Some 0) (Some 3) write buffer
            [sysctl_fib_multipath_hash_policy N];
          N = N\<lparr>sysctl_fib_multipath_hash_policy := v ! 0\<rparr>
      in (ret, if write \<and> ret = 0
               then N\<lparr>netevents := netevents N @ [NETEVENT_IPV4_MPATH_HASH_UPDATE]\<rparr> else N, buffer))"

definition proc_fib_multipath_hash_fields ::
  "procfs \<Rightarrow> bool \<Rightarrow> string \<Rightarrow> sysnet \<Rightarrow> int \<times> sysnet \<times> string" where
  "proc_fib_multipath_hash_fields P write buffer N =
     (let (ret, v, buffer) = proc_douintvec_minmax P (Some 1)
            (Some (kconst P ''FIB_MULTIPATH_HASH_FIELD_ALL_MASK'')) write buffer
            [sysctl_fib_multipath_hash_fields N];
          N = N\<lparr>sysctl_fib_multipath_hash_fields := v ! 0\<rparr>
      in (ret, if write \<and> ret = 0
               then N\<lparr>netevents := netevents N @ [NETEVENT_IPV4_MPATH_HASH_UPDATE]\<rparr> else N, buffer))"

definition proc_tfo_blackhole_detect_timeout ::
  "procfs \<Rightarrow> bool \<Rightarrow> string \<Rightarrow> sysnet \<Rightarrow> int \<times> sysnet \<times> string" where
  "proc_tfo_blackhole_detect_timeout P write buffer N =
     (let (ret, v, buffer) = proc_dointvec_minmax P (Some 0) None write buffer
            [sysctl_tcp_fastopen_blackhole_timeout N];
          N = N\<lparr>sysctl_tcp_fastopen_blackhole_timeout := v ! 0\<rparr>
      in (ret, if write \<and> ret = 0 then N\<lparr>tfo_active_disable_times := 0\<rparr> else N, buffer))"

section \<open>Strings\<close>

definition proc_tcp_congestion_control ::
  "procfs \<Rightarrow> bool \<Rightarrow> string \<Rightarrow> sysnet \<Rightarrow> int \<times> sysnet \<times> string" where
  "proc_tcp_congestion_control P write buffer N =
     (let (ret, val, buffer) = proc_dostring P (nat (kconst P ''TCP_CA_NAME_MAX'')) write buffer
            (tcp_get_default_congestion_control P N)
      in if write \<and> ret = 0
         then (let (ret, N) = tcp_set_default_congestion_control P N val in (ret, N, buffer))
         else (ret, N, buffer))"

text \<open>The flag \<open>mem\<close> says whether \<open>kmalloc\<close> succeeds; the copy is freed on every path.\<close>

definition proc_tcp_available_congestion_control ::
  "procfs \<Rightarrow> bool \<Rightarrow> bool \<Rightarrow> string \<Rightarrow> int \<times> string" where
  "proc_tcp_available_congestion_control P mem write buffer =
     (if \<not> mem then (- ENOMEM, buffer)
      else let (ret, data, buffer) = proc_dostring P (nat (kconst P ''TCP_CA_BUF_MAX'')) write buffer
                 (tcp_get_available_congestion_control P (nat (kconst P ''TCP_CA_BUF_MAX'')))
           in (ret, buffer))"

definition proc_allowed_congestion_control ::
  "procfs \<Rightarrow> bool \<Rightarrow> bool \<Rightarrow> string \<Rightarrow> sysnet \<Rightarrow> int \<times> sysnet \<times> string" where
  "proc_allowed_congestion_control P mem write buffer N =
     (if \<not> mem then (- ENOMEM, N, buffer)
      else let (ret, data, buffer) = proc_dostring P (nat (kconst P ''TCP_CA_BUF_MAX'')) write buffer
                 (tcp_get_allowed_congestion_control P (nat (kconst P ''TCP_CA_BUF_MAX'')))
           in if write \<and> ret = 0
              then (let (ret, N) = tcp_set_allowed_congestion_control P N data in (ret, N, buffer))
              else (ret, N, buffer))"

definition proc_tcp_available_ulp :: "procfs \<Rightarrow> bool \<Rightarrow> bool \<Rightarrow> string \<Rightarrow> int \<times> string" where
  "proc_tcp_available_ulp P mem write buffer =
     (if \<not> mem then (- ENOMEM, buffer)
      else let (ret, data, buffer) = proc_dostring P (nat (kconst P ''TCP_ULP_BUF_MAX'')) write buffer
                 (tcp_get_available_ulp P (nat (kconst P ''TCP_ULP_BUF_MAX'')))
           in (ret, buffer))"

section \<open>Hash table sizes\<close>

text \<open>A shared table is shown as a negative number.\<close>

definition proc_tcp_ehash_entries ::
  "procfs \<Rightarrow> bool \<Rightarrow> bool \<Rightarrow> string \<Rightarrow> sysnet \<Rightarrow> int \<times> int list \<times> string" where
  "proc_tcp_ehash_entries P is_init_net write buffer N =
     (let tcp_ehash_entries = ehash_mask N + 1;
          tcp_ehash_entries = (if \<not> is_init_net \<and> \<not> ehash_pernet N then tcp_ehash_entries * -1
                               else tcp_ehash_entries)
      in proc_dointvec P write buffer [tcp_ehash_entries])"

definition proc_udp_hash_entries ::
  "procfs \<Rightarrow> bool \<Rightarrow> bool \<Rightarrow> string \<Rightarrow> sysnet \<Rightarrow> int \<times> int list \<times> string" where
  "proc_udp_hash_entries P is_init_net write buffer N =
     (let udp_hash_entries = udp_mask N + 1;
          udp_hash_entries = (if \<not> is_init_net \<and> udp_shared N then udp_hash_entries * -1
                              else udp_hash_entries)
      in proc_dointvec P write buffer [udp_hash_entries])"

section \<open>Fast Open keys\<close>

text \<open>\<open>%08x\<close>: eight lower case digits.\<close>

definition hex_digit :: "u32 \<Rightarrow> char" where
  "hex_digit d = ''0123456789abcdef'' ! unat (d AND 15)"

definition hex08 :: "u32 \<Rightarrow> string" where
  "hex08 x = map (\<lambda>i. hex_digit (drop_bit (4 * i) x)) [7, 6, 5, 4, 3, 2, 1, 0]"

text \<open>\<open>%x\<close> of the kernel's \<open>sscanf\<close>: leading blanks, an optional \<open>0x\<close>, any number of digits, the value
  modulo the width of the result; it fails if the first character after the blanks is no digit.\<close>

definition hex_val :: "char \<Rightarrow> u32 option" where
  "hex_val c = map_of (zip ''0123456789abcdefABCDEF''
     [0, 1, 2, 3, 4, 5, 6, 7, 8, 9, 10, 11, 12, 13, 14, 15, 10, 11, 12, 13, 14, 15]) c"

fun scan_digits :: "u32 \<Rightarrow> string \<Rightarrow> u32 \<times> string" where
  "scan_digits acc [] = (acc, [])"
| "scan_digits acc (c # cs) = (case hex_val c of
     Some d \<Rightarrow> scan_digits (acc * 16 + d) cs | None \<Rightarrow> (acc, c # cs))"

definition is_space :: "char \<Rightarrow> bool" where
  "is_space c \<longleftrightarrow> c \<in> set [CHR '' '', CHR 0x09, CHR 0x0A, CHR 0x0B, CHR 0x0C, CHR 0x0D]"

definition scan_hex :: "string \<Rightarrow> (u32 \<times> string) option" where
  "scan_hex s = (case dropWhile is_space s of
     [] \<Rightarrow> None
   | c # cs \<Rightarrow>
       if hex_val c = None then None
       else if c = CHR ''0'' \<and> cs \<noteq> [] \<and> hd cs \<in> set ''xX'' then Some (scan_digits 0 (tl cs))
       else Some (scan_digits 0 (c # cs)))"

text \<open>A literal of the format matches that character.\<close>

definition scan_lit :: "char \<Rightarrow> string \<Rightarrow> string option" where
  "scan_lit c s = (case s of [] \<Rightarrow> None | d # ds \<Rightarrow> if d = c then Some ds else None)"

text \<open>\<open>%x-%x-%x-%x\<close> with all four conversions done, else \<open>None\<close>.\<close>

definition sscanf_key :: "string \<Rightarrow> (u32 list) option" where
  "sscanf_key s =
     Option.bind (scan_hex s) (\<lambda>(a, s).
     Option.bind (scan_lit CHR ''-'' s) (\<lambda>s.
     Option.bind (scan_hex s) (\<lambda>(b, s).
     Option.bind (scan_lit CHR ''-'' s) (\<lambda>s.
     Option.bind (scan_hex s) (\<lambda>(c, s).
     Option.bind (scan_lit CHR ''-'' s) (\<lambda>s.
     Option.bind (scan_hex s) (\<lambda>(d, s).
     Some [a, b, c, d])))))))"

definition show_key :: "u32 list \<Rightarrow> string" where
  "show_key k = hex08 (k ! 0) @ ''-'' @ hex08 (k ! 1) @ ''-'' @ hex08 (k ! 2) @ ''-'' @ hex08 (k ! 3)"

text \<open>\<open>off += snprintf(data + off, maxlen - off, ...)\<close>: the text is cut to the room that is left, the
  result is the length it would have had.\<close>

definition snprintf_at :: "nat \<Rightarrow> string \<times> nat \<Rightarrow> string \<Rightarrow> string \<times> nat" where
  "snprintf_at maxlen d s = (case d of (data, off) \<Rightarrow>
     (take off data @ take (maxlen - off - 1) s, off + length s))"

text \<open>The loop over the keys from index \<open>i\<close>, with \<open>n\<close> of them to go.\<close>

fun print_keys :: "nat \<Rightarrow> u32 list \<Rightarrow> nat \<Rightarrow> nat \<Rightarrow> string \<times> nat \<Rightarrow> string" where
  "print_keys maxlen keys i 0 d = fst d"
| "print_keys maxlen keys i (Suc n) d =
     (let d = snprintf_at maxlen d (show_key (take 4 (drop (4 * i) keys)))
      in if snd d \<ge> maxlen - 1 then fst d
         else print_keys maxlen keys (Suc i) n
           (if n \<noteq> 0 then snprintf_at maxlen d '','' else d))"

definition fastopen_keys_maxlen :: "procfs \<Rightarrow> nat" where
  "fastopen_keys_maxlen P = nat (kconst P ''TCP_FASTOPEN_KEY_LENGTH'' * 2 * kconst P ''TCP_FASTOPEN_KEY_MAX'' +
     kconst P ''TCP_FASTOPEN_KEY_MAX'' * 5)"

text \<open>The keys to show: a zero key if there is none.\<close>

definition fastopen_shown_keys :: "procfs \<Rightarrow> sysnet \<Rightarrow> nat \<times> u32 list" where
  "fastopen_shown_keys P N = (let (n_keys, key) = tcp_fastopen_get_cipher P N
     in if n_keys = 0 then (1, [0, 0, 0, 0]) else (n_keys, key))"

text \<open>The text after a write: a key, and a second one after a comma.\<close>

definition parse_keys :: "string \<Rightarrow> (u32 list \<times> u32 list option) option" where
  "parse_keys data =
     (let first = takeWhile (\<lambda>c. c \<noteq> CHR '','') data;
          rest = dropWhile (\<lambda>c. c \<noteq> CHR '','') data
      in Option.bind (sscanf_key first) (\<lambda>k.
         if rest = [] then Some (k, None)
         else map_option (\<lambda>b. (k, Some b)) (sscanf_key (tl rest))))"

definition proc_tcp_fastopen_key ::
  "procfs \<Rightarrow> bool \<Rightarrow> bool \<Rightarrow> string \<Rightarrow> sysnet \<Rightarrow> int \<times> sysnet \<times> string" where
  "proc_tcp_fastopen_key P mem write buffer N =
     (if \<not> mem then (- ENOMEM, N, buffer)
      else
        let maxlen = fastopen_keys_maxlen P;
            (n_keys, key) = fastopen_shown_keys P N;
            data = print_keys maxlen key 0 n_keys ([], 0);
            (ret, data, buffer) = proc_dostring P maxlen write buffer data
        in if write \<and> ret = 0
           then (case parse_keys data of
               None \<Rightarrow> (- EINVAL, N, buffer)
             | Some (k, b) \<Rightarrow> (ret, tcp_fastopen_reset_cipher P N k b, buffer))
           else (ret, N, buffer))"

section \<open>Lemmas: hexadecimal numbers\<close>

lemma hex_digit_chars: "list_all (\<lambda>n. hex_val (''0123456789abcdef'' ! n) = Some (of_nat n) \<and>
    \<not> is_space (''0123456789abcdef'' ! n) \<and> ''0123456789abcdef'' ! n \<notin> set ''xX,'') [0..<16]"
  by code_simp

lemma low_digit: "d AND 15 = (d mod 16 :: u32)"
  using take_bit_eq_mod [of 4 d] by (simp add: take_bit_eq_mask mask_eq_exp_minus_1)

lemma hex_digit_props:
  "hex_val (hex_digit d) = Some (d AND 15)" "\<not> is_space (hex_digit d)" "hex_digit d \<notin> set ''xX,''"
proof -
  have "unat (d AND 15) \<in> set [0..<16]"
    by (simp add: low_digit unat_mod_word)
  with hex_digit_chars show "hex_val (hex_digit d) = Some (d AND 15)" "\<not> is_space (hex_digit d)"
    "hex_digit d \<notin> set ''xX,''"
    unfolding list_all_iff hex_digit_def by auto
qed

lemma hex_shift: "drop_bit (4 * Suc i) x * 16 + (drop_bit (4 * i) x AND 15) = drop_bit (4 * i) (x :: u32)"
proof -
  have "drop_bit (4 * Suc i) x = drop_bit (4 * i) x div 16"
    using drop_bit_drop_bit [of 4 "4 * i" x] by (simp add: drop_bit_eq_div add.commute)
  then show ?thesis using div_mult_mod_eq [of "drop_bit (4 * i) x" 16] by (simp add: low_digit)
qed

lemma scan_digits_hex:
  "n \<le> 8 \<Longrightarrow> scan_digits (drop_bit (4 * n) x) (map (\<lambda>i. hex_digit (drop_bit (4 * i) x)) (rev [0..<n]) @ rest) =
     scan_digits x rest"
proof (induction n)
  case (Suc n)
  then show ?case using hex_shift [of n x] by (simp add: hex_digit_props mult.commute)
qed simp

lemma hex08_rev: "hex08 x = map (\<lambda>i. hex_digit (drop_bit (4 * i) x)) (rev [0..<8])"
  by (simp add: hex08_def upt_rec)

lemma hex08_Cons: "\<exists>c c' cs. hex08 x = c # c' # cs \<and> \<not> is_space c \<and> hex_val c \<noteq> None \<and> c' \<notin> set ''xX,''"
  using hex_digit_props(3) [of "drop_bit 24 x"] by (simp add: hex08_def hex_digit_props(1,2))

lemma scan_hex08:
  assumes "rest = [] \<or> hex_val (hd rest) = None"
  shows "scan_hex (hex08 x @ rest) = Some (x, rest)"
proof -
  obtain c c' cs where h: "hex08 x = c # c' # cs" "\<not> is_space c" "hex_val c \<noteq> None" "c' \<notin> set ''xX,''"
    using hex08_Cons by blast
  have "drop_bit (4 * 8) x = 0" by (rule bit_word_eqI) (simp add: bit_drop_bit_eq)
  then have "scan_digits 0 (hex08 x @ rest) = scan_digits x rest"
    using scan_digits_hex [of 8 x rest] by (simp add: hex08_rev)
  moreover have "scan_digits x rest = (x, rest)"
    using assms by (cases rest) auto
  ultimately show ?thesis using h by (auto simp: scan_hex_def)
qed

text \<open>A key that was printed is read back.\<close>

lemma sscanf_show_key:
  assumes "length k = 4"
  shows "sscanf_key (show_key k) = Some k"
proof -
  obtain a b c d where k: "k = [a, b, c, d]"
    using assms by (auto simp: length_Suc_conv eval_nat_numeral)
  have dash: "hex_val CHR ''-'' = None" by code_simp
  have last: "scan_hex (hex08 d) = Some (d, [])" using scan_hex08 [of "[]" d] by simp
  have mid: "scan_hex (hex08 x @ CHR ''-'' # s) = Some (x, CHR ''-'' # s)" for x s
    by (rule scan_hex08) (simp add: dash)
  show ?thesis by (simp add: sscanf_key_def show_key_def k mid last scan_lit_def)
qed

lemma hex08_no_comma: "CHR '','' \<notin> set (hex08 x)"
  using hex_digit_props(3) by (simp add: hex08_def) metis

lemma show_key_no_comma: "CHR '','' \<notin> set (show_key k)"
  by (simp add: show_key_def hex08_no_comma)

lemma length_show_key: "length (show_key k) = 35"
  by (simp add: show_key_def hex08_def)

lemma print_one_key:
  "length k = 4 \<Longrightarrow> 74 \<le> maxlen \<Longrightarrow> print_keys maxlen k 0 (Suc 0) ([], 0) = show_key k"
  by (simp add: snprintf_at_def length_show_key Let_def)

lemma print_two_keys:
  assumes "length k = 4" and "length b = 4" and "74 \<le> maxlen"
  shows "print_keys maxlen (k @ b) 0 2 ([], 0) = show_key k @ '','' @ show_key b"
  using assms by (simp add: numeral_2_eq_2 snprintf_at_def length_show_key Let_def)

lemma show_key_prefix:
  "takeWhile (\<lambda>c. c \<noteq> CHR '','') (show_key k) = show_key k"
  "dropWhile (\<lambda>c. c \<noteq> CHR '','') (show_key k) = []"
  "takeWhile (\<lambda>c. c \<noteq> CHR '','') (show_key k @ CHR '','' # s) = show_key k"
  "dropWhile (\<lambda>c. c \<noteq> CHR '','') (show_key k @ CHR '','' # s) = CHR '','' # s"
proof -
  have no: "\<And>c. c \<in> set (show_key k) \<Longrightarrow> c \<noteq> CHR '',''" using show_key_no_comma by metis
  show "takeWhile (\<lambda>c. c \<noteq> CHR '','') (show_key k) = show_key k"
    and "dropWhile (\<lambda>c. c \<noteq> CHR '','') (show_key k) = []"
    using no by (auto simp only: takeWhile_eq_all_conv dropWhile_eq_Nil_conv)
  show "takeWhile (\<lambda>c. c \<noteq> CHR '','') (show_key k @ CHR '','' # s) = show_key k"
    and "dropWhile (\<lambda>c. c \<noteq> CHR '','') (show_key k @ CHR '','' # s) = CHR '','' # s"
    using takeWhile_append2 [of "show_key k" "\<lambda>c. c \<noteq> CHR '',''" "CHR '','' # s"]
      dropWhile_append2 [of "show_key k" "\<lambda>c. c \<noteq> CHR '',''" "CHR '','' # s"] no by simp_all
qed

lemma parse_one_key: "length k = 4 \<Longrightarrow> parse_keys (show_key k) = Some (k, None)"
  by (simp add: parse_keys_def sscanf_show_key show_key_prefix)

lemma parse_two_keys:
  assumes "length k = 4" and "length b = 4"
  shows "parse_keys (show_key k @ '','' @ show_key b) = Some (k, Some b)"
proof -
  show ?thesis
    using assms by (simp add: parse_keys_def show_key_prefix sscanf_show_key)
qed

section \<open>Lemmas: port ranges\<close>

text \<open>Documented behaviour of the vector handlers: a read changes nothing; a successful write leaves
  as many values as there were, all within the bounds.\<close>

definition vec_ok :: "vec_handler \<Rightarrow> bool" where
  "vec_ok h \<longleftrightarrow> (\<forall>lo hi buffer vs.
     fst (snd (h lo hi False buffer vs)) = vs \<and>
     (fst (h lo hi True buffer vs) = 0 \<longrightarrow>
        length (fst (snd (h lo hi True buffer vs))) = length vs \<and>
        (\<forall>v \<in> set (fst (snd (h lo hi True buffer vs))).
           (case lo of None \<Rightarrow> True | Some l \<Rightarrow> l \<le> v) \<and> (case hi of None \<Rightarrow> True | Some u \<Rightarrow> v \<le> u))))"

text \<open>Documented behaviour of \<open>inet_get_local_port_range\<close>: it splits the word that
  \<open>set_local_port_range\<close> composes.\<close>

definition get_range_ok :: "procfs \<Rightarrow> bool" where
  "get_range_ok P \<longleftrightarrow> (\<forall>N. inet_get_local_port_range P N =
     (uint (ip_local_ports_range N AND 65535), uint (drop_bit 16 (ip_local_ports_range N))))"

definition ports_ok :: "sysnet \<Rightarrow> bool" where
  "ports_ok N \<longleftrightarrow> (let low = uint (ip_local_ports_range N AND 65535);
       high = uint (drop_bit 16 (ip_local_ports_range N))
     in low \<le> high \<and> sysctl_ip_prot_sock N \<le> low)"

lemma range_split:
  assumes "0 \<le> low" "low \<le> 65535" "0 \<le> high" "high \<le> 65535"
  defines "w \<equiv> push_bit 16 (word_of_int high) OR (word_of_int low :: u32)"
  shows "uint (w AND 65535) = low" and "uint (drop_bit 16 w) = high"
proof -
  have lt: "low < 2 ^ 16" "high < 2 ^ 16" using assms by simp_all
  have m: "(65535 :: u32) = mask 16" by (simp add: mask_eq_exp_minus_1)
  have small: "\<not> bit (word_of_int v :: u32) n" if "0 \<le> v" "v < 2 ^ 16" "16 \<le> n" for v n
  proof -
    have "take_bit 16 v = v" using that by (simp add: take_bit_int_eq_self)
    then show ?thesis using that(3) by (metis bit_take_bit_iff bit_word_of_int_iff not_le)
  qed
  note lowb = small [OF assms(1) lt(1)] and highb = small [OF assms(3) lt(2)]
  have "w AND 65535 = word_of_int low"
    unfolding w_def m by (rule bit_word_eqI) (use lowb in \<open>auto simp: bit_simps not_less [symmetric]\<close>)
  then show "uint (w AND 65535) = low" using assms(1) lt(1) by (simp add: uint_word_of_int_eq take_bit_int_eq_self)
  have "drop_bit 16 w = word_of_int high"
    unfolding w_def by (rule bit_word_eqI) (use lowb highb in \<open>auto simp: bit_simps not_less [symmetric]\<close>)
  then show "uint (drop_bit 16 w) = high" using assms(3) lt(2) by (simp add: uint_word_of_int_eq take_bit_int_eq_self)
qed

lemma vec_okD:
  assumes "vec_ok h" and "h lo hi True buffer vs = (0, vs', buffer')"
  shows "length vs' = length vs"
    and "v \<in> set vs' \<Longrightarrow> (case lo of None \<Rightarrow> True | Some l \<Rightarrow> l \<le> v) \<and> (case hi of None \<Rightarrow> True | Some u \<Rightarrow> v \<le> u)"
  using assms unfolding vec_ok_def by (metis fst_conv snd_conv)+

lemma set_local_port_range_ok:
  assumes "0 \<le> low" "low \<le> high" "high \<le> 65535" "sysctl_ip_prot_sock N \<le> low"
  shows "ports_ok (set_local_port_range (word_of_int low) (word_of_int high) N)"
  using assms range_split [of low high]
  by (simp add: ports_ok_def set_local_port_range_def Let_def)

lemma local_port_range_keeps:
  assumes "vec_ok (proc_dointvec_minmax P)" and "ports_ok N"
    and "ipv4_local_port_range P write buffer N = (ret, N', buffer')"
  shows "ports_ok N' \<and> (ret \<noteq> 0 \<or> \<not> write \<longrightarrow> N' = N)"
proof -
  obtain low high where lh: "inet_get_local_port_range P N = (low, high)" by fastforce
  obtain r vs b where h: "proc_dointvec_minmax P (Some 1) (Some 65535) write buffer [low, high] = (r, vs, b)"
    by (metis prod.exhaust)
  show ?thesis
  proof (cases "write \<and> r = 0")
    case True
    note ok = vec_okD [OF assms(1), of "Some 1" "Some 65535" buffer "[low, high]" vs b]
    have len: "length vs = 2" and mem: "\<And>v. v \<in> set vs \<Longrightarrow> 1 \<le> v \<and> v \<le> 65535"
      using ok h True by simp_all
    have "1 \<le> vs ! 0" "vs ! 1 \<le> 65535"
      using mem [of "vs ! 0"] mem [of "vs ! 1"] len by simp_all
    then show ?thesis
      using assms(2,3) lh h True set_local_port_range_ok [of "vs ! 0" "vs ! 1" N]
      by (auto simp: ipv4_local_port_range_def EINVAL_def split: if_splits)
  next
    case False
    then show ?thesis using assms(2,3) lh h by (auto simp: ipv4_local_port_range_def split: if_splits)
  qed
qed

lemma privileged_ports_keeps:
  assumes "vec_ok (proc_dointvec_minmax P)" and "get_range_ok P" and "ports_ok N"
    and "ipv4_privileged_ports P write buffer N = (ret, N', buffer')"
  shows "ports_ok N' \<and> (ret \<noteq> 0 \<or> \<not> write \<longrightarrow> N' = N)"
proof -
  obtain r vs b where h: "proc_dointvec_minmax P (Some 0) (Some 65535) write buffer
      [sysctl_ip_prot_sock N] = (r, vs, b)"
    by (metis prod.exhaust)
  show ?thesis
    using assms(3,4) h assms(2)
    by (auto simp: ipv4_privileged_ports_def get_range_ok_def ports_ok_def EINVAL_def Let_def
        split: if_splits)
qed

text \<open>Any sequence of reads and writes of the two files.\<close>

datatype port_request = LocalPorts bool string | PrivilegedPorts bool string

fun serve_ports :: "procfs \<Rightarrow> sysnet \<Rightarrow> port_request \<Rightarrow> int \<times> sysnet" where
  "serve_ports P N (LocalPorts write buffer) =
     (case ipv4_local_port_range P write buffer N of (ret, N', b) \<Rightarrow> (ret, N'))"
| "serve_ports P N (PrivilegedPorts write buffer) =
     (case ipv4_privileged_ports P write buffer N of (ret, N', b) \<Rightarrow> (ret, N'))"

lemma serve_ports_keeps:
  assumes "vec_ok (proc_dointvec_minmax P)" and "get_range_ok P" and "ports_ok N"
    and "serve_ports P N r = (ret, N')"
  shows "ports_ok N' \<and> (ret \<noteq> 0 \<longrightarrow> N' = N)"
  using assms(4) local_port_range_keeps [OF assms(1,3)] privileged_ports_keeps [OF assms(1-3)]
  by (cases r) (fastforce split: prod.splits)+

section \<open>A concrete kernel\<close>

text \<open>A kernel for evaluation: a vector is written with one character for each value, whose code is
  the value, and strings are stored as they are.\<close>

definition demo_vec :: vec_handler where
  "demo_vec lo hi write buffer vs =
     (let new = map (\<lambda>c. int (of_char c)) buffer
      in if \<not> write then (0, vs, buffer)
         else if length new = length vs \<and>
           list_all (\<lambda>v. (case lo of None \<Rightarrow> True | Some l \<Rightarrow> l \<le> v) \<and> (case hi of None \<Rightarrow> True | Some u \<Rightarrow> v \<le> u)) new
         then (0, new, buffer) else (- EINVAL, vs, buffer))"

lemma demo_vec_ok: "vec_ok demo_vec"
  by (simp add: vec_ok_def demo_vec_def Let_def EINVAL_def list_all_iff)

definition demo_procfs :: procfs where
  "demo_procfs = \<lparr>proc_dointvec = demo_vec None None, proc_dointvec_minmax = demo_vec,
     proc_doulongvec_minmax = demo_vec, proc_dou8vec_minmax = demo_vec, proc_douintvec_minmax = demo_vec,
     proc_dostring = (\<lambda>maxlen write buffer data. if write then (0, take (maxlen - 1) buffer, buffer) else (0, data, data)),
     inet_get_local_port_range = (\<lambda>N. (uint (ip_local_ports_range N AND 65535),
       uint (drop_bit 16 (ip_local_ports_range N)))),
     from_kgid_munged = uint, make_kgid = word_of_int, init_make_kgid = word_of_int,
     gid_valid = (\<lambda>g. g \<noteq> -1), gid_lt = (<),
     tcp_get_default_congestion_control = (\<lambda>_. ''cubic''),
     tcp_set_default_congestion_control = (\<lambda>N _. (0, N)),
     tcp_get_available_congestion_control = (\<lambda>_. ''reno cubic''),
     tcp_get_allowed_congestion_control = (\<lambda>_. ''reno cubic''),
     tcp_set_allowed_congestion_control = (\<lambda>N _. (0, N)), tcp_get_available_ulp = (\<lambda>_. ''tls''),
     tcp_fastopen_get_cipher = (\<lambda>_. (2, [1, 2, 3, 4, 5, 6, 7, 8])),
     tcp_fastopen_reset_cipher = (\<lambda>N _ _. N),
     kconst = (\<lambda>n. if n = ''TCP_FASTOPEN_KEY_LENGTH'' then 16 else if n = ''TCP_FASTOPEN_KEY_MAX'' then 2
       else 4294967295)\<rparr>"

definition demo_sysnet :: sysnet where
  "demo_sysnet = \<lparr>ip_local_ports_range = push_bit 16 120 OR 40, ip_local_ports_warned = False,
     sysctl_ip_prot_sock = 32, ping_group_range = (1, 0), sysctl_ip_fwd_update_priority = 1,
     sysctl_fib_multipath_hash_policy = 0, sysctl_fib_multipath_hash_fields = 7,
     sysctl_tcp_fastopen_blackhole_timeout = 0, tfo_active_disable_times = 0, ehash_mask = 1023,
     ehash_pernet = False, udp_mask = 255, udp_shared = True, netevents = []\<rparr>"

lemma demo_procfs_ok: "vec_ok (proc_dointvec_minmax demo_procfs)" "get_range_ok demo_procfs"
  by (simp_all add: demo_procfs_def demo_vec_ok get_range_ok_def)

lemma demo_sysnet_ok: "ports_ok demo_sysnet"
  by code_simp

end
