(* ===== verification/Props_Sysctl.thy ===== *)
theory Props_Sysctl
  imports Sysctl_Handlers Leo_Example
begin

text \<open>Properties of the sysctl interface.\<close>

section \<open>The tables\<close>

text \<open>C12: No write through a sysctl of a namespace leaves its field: for every configuration, every
  entry with a vector handler points to a field of \<open>struct netns_ipv4\<close> whose elements have the size the
  handler writes, and the length of the entry ends inside the field.\<close>

theorem sysctl_entries_fit: "list_all (entry_fits cfg) (ipv4_net_table cfg)"
  by (rule net_table_fits)

text \<open>Registration for a new namespace: the table that is registered is the template with every
  data pointer moved to the same place of the new namespace, so that no pointer is wild or still
  points to the initial namespace, and the entries without data cannot be written.\<close>

theorem sysctl_relocation:
  assumes "ipv4_sysctl_init_net cfg net dup reg ports W = Some (0, W')" and "net \<noteq> init_net"
  shows "\<exists>table. registered W' = (net, table) # registered W \<and>
    list_all2 (relocated net) (ipv4_net_table cfg) table"
proof -
  have "registered W' = (net, map (relocate_entry net) (ipv4_net_table cfg)) # registered W"
    using assms by (auto simp: ipv4_sysctl_init_net_def init_net_err_reg_def unregister_def kfree_def
        ENOMEM_def Let_def split: if_splits)
  moreover have "relocated net e (relocate_entry net e)" if "e \<in> set (ipv4_net_table cfg)" for e
    using net_table_in_init_net [of cfg] that by (simp add: list_all_iff relocate_entry_ok)
  ultimately show ?thesis by (auto simp: list_all2_map2 list_all2_same)
qed

theorem sysctl_relocation_witness:
  "\<exists>table. registered \<lparr>live = [ReservedPorts 7, TableCopy 7],
       registered = [(7, map (relocate_entry 7) (ipv4_net_table full_config))]\<rparr> =
       (7, table) # registered empty_world \<and>
    list_all2 (relocated 7) (ipv4_net_table full_config) table"
  by (rule sysctl_relocation [where dup = True and reg = True and ports = True])
    (simp_all add: ipv4_sysctl_init_net_def empty_world_def init_net_def Let_def)

text \<open>C13: Registration does not leak: whichever allocation or registration fails, a failed
  initialisation leaves allocations and registered tables as they were, and leaving a namespace undoes
  its initialisation without freeing anything twice.\<close>

theorem sysctl_no_leak:
  assumes "net \<noteq> init_net"
  shows "(\<forall>r W'. ipv4_sysctl_init_net cfg net dup reg ports W = Some (r, W') \<longrightarrow>
            (r = - ENOMEM \<and> W' = W \<and> \<not> (dup \<and> reg \<and> ports)) \<or>
            (r = 0 \<and> dup \<and> reg \<and> ports \<and>
             ipv4_sysctl_exit_net net (map (relocate_entry net) (ipv4_net_table cfg)) W' = Some W)) \<and>
    ipv4_sysctl_init_net cfg net dup reg ports W \<noteq> None"
  using assms
  by (auto simp: ipv4_sysctl_init_net_def ipv4_sysctl_exit_net_def init_net_err_reg_def unregister_def
      kfree_def ENOMEM_def Let_def split: if_splits)

theorem sysctl_no_leak_witness:
  "ipv4_sysctl_init_net full_config 7 True True False empty_world = Some (- ENOMEM, empty_world)"
proof -
  have "\<exists>r W'. ipv4_sysctl_init_net full_config 7 True True False empty_world = Some (r, W')"
    using sysctl_no_leak [of 7 full_config True True False empty_world] by (auto simp: init_net_def)
  then show ?thesis
    using sysctl_no_leak [of 7 full_config True True False empty_world] by (auto simp: init_net_def)
qed

section \<open>Ports\<close>

text \<open>C14: Whatever is written to the local port range and to the first unprivileged port, in any
  order and with any text, the range is not empty and starts at or above the privileged ports; a
  request that fails changes nothing.\<close>

theorem sysctl_ports_disjoint:
  assumes "vec_ok (proc_dointvec_minmax P)" and "get_range_ok P" and "ports_ok N"
  shows "ports_ok (foldl (\<lambda>N r. snd (serve_ports P N r)) N rs) \<and>
    (\<forall>r ret N'. serve_ports P N r = (ret, N') \<longrightarrow> ret \<noteq> 0 \<longrightarrow> N' = N)"
proof -
  have "ports_ok M \<Longrightarrow> ports_ok (foldl (\<lambda>N r. snd (serve_ports P N r)) M rs)" for M
  proof (induction rs arbitrary: M)
    case (Cons r rs)
    then show ?case using serve_ports_keeps [OF assms(1,2) Cons.prems, of r] by (simp add: prod_eq_iff)
  qed simp
  with assms serve_ports_keeps [OF assms] show ?thesis by blast
qed

theorem sysctl_ports_disjoint_witness:
  "ports_ok (foldl (\<lambda>N r. snd (serve_ports demo_procfs N r)) demo_sysnet
     [PrivilegedPorts True ''!'', LocalPorts True ''Az'', LocalPorts True '' z'', PrivilegedPorts True ''B''])"
  using sysctl_ports_disjoint [OF demo_procfs_ok demo_sysnet_ok] by blast

section \<open>Group range and keys\<close>

text \<open>After a successful write the ping group range is either a pair of valid groups in order or
  the pair that admits no group; a failed write, or a read, changes nothing.\<close>

theorem sysctl_ping_range:
  assumes "ipv4_ping_group_range P write buffer N = (ret, N', buffer')"
  shows "(if write \<and> ret = 0
          then (\<exists>low high. ping_group_range N' = (low, high) \<and>
            ((gid_valid P low \<and> gid_valid P high \<and> \<not> gid_lt P high low) \<or>
             (low = init_make_kgid P 1 \<and> high = init_make_kgid P 0)))
          else N' = N)"
  using assms
  by (auto simp: ipv4_ping_group_range_def set_ping_group_range_def EINVAL_def Let_def
      split: if_splits prod.splits)

theorem sysctl_ping_range_witness:
  "\<exists>low high. ping_group_range (demo_sysnet\<lparr>ping_group_range := (97, 122)\<rparr>) = (low, high) \<and>
     ((gid_valid demo_procfs low \<and> gid_valid demo_procfs high \<and> \<not> gid_lt demo_procfs high low) \<or>
      (low = init_make_kgid demo_procfs 1 \<and> high = init_make_kgid demo_procfs 0))"
proof -
  have "ipv4_ping_group_range demo_procfs True ''az'' demo_sysnet =
      (0, demo_sysnet\<lparr>ping_group_range := (97, 122)\<rparr>, ''az'')"
    by code_simp
  from sysctl_ping_range [OF this] show ?thesis by simp
qed

text \<open>The Fast Open keys survive a copy: the text a read shows, written back, installs the keys
  that are in use, one key or a key and its backup.\<close>

theorem sysctl_fastopen_key_roundtrip:
  fixes P :: procfs and N :: sysnet
  defines "shown \<equiv> print_keys (fastopen_keys_maxlen P) (snd (fastopen_shown_keys P N)) 0
      (fst (fastopen_shown_keys P N)) ([], 0)"
  assumes "74 \<le> fastopen_keys_maxlen P"
    and "tcp_fastopen_get_cipher P N = (1, k) \<and> length k = 4 \<and> backup = None \<or>
      tcp_fastopen_get_cipher P N = (2, k @ b) \<and> length k = 4 \<and> length b = 4 \<and> backup = Some b"
    and "proc_dostring P (fastopen_keys_maxlen P) True shown shown = (0, shown, buffer)"
  shows "proc_tcp_fastopen_key P True True shown N = (0, tcp_fastopen_reset_cipher P N k backup, buffer)"
proof -
  have "shown = show_key k \<and> backup = None \<or> shown = show_key k @ '','' @ show_key b \<and> backup = Some b"
    using assms(2,3) unfolding shown_def fastopen_shown_keys_def
    by (auto simp: print_one_key print_two_keys simp del: print_keys.simps)
  moreover have "length k = 4" "backup \<noteq> None \<longrightarrow> length b = 4" using assms(3) by auto
  ultimately have parse: "parse_keys shown = Some (k, backup)"
    using parse_one_key [of k] parse_two_keys [of k b] by auto
  have "proc_tcp_fastopen_key P True True shown N =
      (case proc_dostring P (fastopen_keys_maxlen P) True shown shown of (ret, data, buffer) \<Rightarrow>
         if ret = 0 then (case parse_keys data of None \<Rightarrow> (- EINVAL, N, buffer)
           | Some (k, b) \<Rightarrow> (ret, tcp_fastopen_reset_cipher P N k b, buffer)) else (ret, N, buffer))"
    by (simp add: proc_tcp_fastopen_key_def shown_def Let_def split: prod.split)
  with parse assms(4) show ?thesis by simp
qed

theorem sysctl_fastopen_key_roundtrip_witness:
  "proc_tcp_fastopen_key demo_procfs True True
     ''00000001-00000002-00000003-00000004,00000005-00000006-00000007-00000008'' demo_sysnet =
     (0, tcp_fastopen_reset_cipher demo_procfs demo_sysnet [1, 2, 3, 4] (Some [5, 6, 7, 8]),
      ''00000001-00000002-00000003-00000004,00000005-00000006-00000007-00000008'')"
proof -
  have "print_keys (fastopen_keys_maxlen demo_procfs) (snd (fastopen_shown_keys demo_procfs demo_sysnet)) 0
      (fst (fastopen_shown_keys demo_procfs demo_sysnet)) ([], 0) =
      ''00000001-00000002-00000003-00000004,00000005-00000006-00000007-00000008''"
    by code_simp
  moreover have "fastopen_keys_maxlen demo_procfs = 74" by code_simp
  ultimately show ?thesis
    using sysctl_fastopen_key_roundtrip [of demo_procfs demo_sysnet "[1, 2, 3, 4]" "Some [5, 6, 7, 8]" "[5, 6, 7, 8]"]
    by (simp add: demo_procfs_def)
qed

section \<open>The settings of the controllers\<close>



text \<open>C16: The recovery ramp of the fixed controller is dead code: its entry does not admit the value
  that would select it, so after any sequence of writes the controller asks for the ordinary window
  at once, whenever it is neither before the handover nor in the outage.\<close>

theorem leo_fixed_recovery_unreachable:
  fixes s :: settings
  defines "net \<equiv> leo_settings s"
  assumes "settings_reach cfg ext s"
    and "sysctl_tcp_leo_rwnd_outage_ms net \<le> tcp_leo_rwnd_phase_ms net ns"
    and "tcp_leo_rwnd_phase_ms net ns < sysctl_tcp_leo_rwnd_period_ms net -
      min (sysctl_tcp_leo_rwnd_pre_ms net) (sysctl_tcp_leo_rwnd_period_ms net - 1)"
  shows "tcp_leo_rwnd_target net ns sk w = w"
proof -
  have ok: "sysctl_tcp_leo_rwnd_fast_recovery net \<noteq> 0" "sysctl_tcp_leo_rwnd_period_ms net \<noteq> 0"
    using settings_ok [OF assms(2)] by (simp_all add: leo_settings_ok_def net_def)
  have "(if sysctl_tcp_leo_rwnd_period_ms net \<le> pre then sysctl_tcp_leo_rwnd_period_ms net - 1 else pre) =
      min pre (sysctl_tcp_leo_rwnd_period_ms net - 1)" for pre
    using ok(2) by (rule clamp_below_period)
  with ok assms(3,4) show ?thesis
    unfolding tcp_leo_rwnd_target_def Let_def by (simp add: not_le [symmetric])
qed

theorem leo_fixed_recovery_unreachable_witness:
  "tcp_leo_rwnd_target (leo_settings demo_settings) 13000000000 demo_sock 1000000 = 1000000"
  by (rule leo_fixed_recovery_unreachable [OF demo_settings_reach]) code_simp+

end
