(* ===== verification/Tcp_Options.thy ===== *)
theory Tcp_Options
  imports Leo_Prelude
begin

text \<open>
  The TCP options of \<open>tcp_output.c\<close>: which options go into a SYN, a SYN-ACK and a segment of an
  established connection, how much room they take, and the bytes that are written.  The option kinds
  and lengths are those of the protocol (RFC 9293, 7323, 2018, 2385, 5925, 7413, 6994).  What the code
  gets from other parts of the kernel (MPTCP, BPF programs, TCP-AO keys, the route, the clock) is the
  record \<open>opt_env\<close>.
\<close>

section \<open>Constants\<close>

definition MAX_TCP_OPTION_SPACE :: u32 where "MAX_TCP_OPTION_SPACE = 40"

definition TCPOPT_NOP :: u32 where "TCPOPT_NOP = 1"
definition TCPOPT_MSS :: u32 where "TCPOPT_MSS = 2"
definition TCPOPT_WINDOW :: u32 where "TCPOPT_WINDOW = 3"
definition TCPOPT_SACK_PERM :: u32 where "TCPOPT_SACK_PERM = 4"
definition TCPOPT_SACK :: u32 where "TCPOPT_SACK = 5"
definition TCPOPT_TIMESTAMP :: u32 where "TCPOPT_TIMESTAMP = 8"
definition TCPOPT_MD5SIG :: u32 where "TCPOPT_MD5SIG = 19"
definition TCPOPT_AO :: u32 where "TCPOPT_AO = 29"
definition TCPOPT_FASTOPEN :: u32 where "TCPOPT_FASTOPEN = 34"
definition TCPOPT_EXP :: u32 where "TCPOPT_EXP = 254"
definition TCPOPT_FASTOPEN_MAGIC :: u32 where "TCPOPT_FASTOPEN_MAGIC = 0xF989"
definition TCPOPT_SMC_MAGIC :: u32 where "TCPOPT_SMC_MAGIC = 0xE2D4C3D9"

definition TCPOLEN_MSS :: u32 where "TCPOLEN_MSS = 4"
definition TCPOLEN_WINDOW :: u32 where "TCPOLEN_WINDOW = 3"
definition TCPOLEN_SACK_PERM :: u32 where "TCPOLEN_SACK_PERM = 2"
definition TCPOLEN_TIMESTAMP :: u32 where "TCPOLEN_TIMESTAMP = 10"
definition TCPOLEN_MD5SIG :: u32 where "TCPOLEN_MD5SIG = 18"
definition TCPOLEN_FASTOPEN_BASE :: u32 where "TCPOLEN_FASTOPEN_BASE = 2"
definition TCPOLEN_EXP_FASTOPEN_BASE :: u32 where "TCPOLEN_EXP_FASTOPEN_BASE = 4"
definition TCPOLEN_EXP_SMC_BASE :: u32 where "TCPOLEN_EXP_SMC_BASE = 6"
definition TCPOLEN_SACK_BASE :: u32 where "TCPOLEN_SACK_BASE = 2"
definition TCPOLEN_SACK_PERBLOCK :: u32 where "TCPOLEN_SACK_PERBLOCK = 8"
definition TCPOLEN_MSS_ALIGNED :: u32 where "TCPOLEN_MSS_ALIGNED = 4"
definition TCPOLEN_WSCALE_ALIGNED :: u32 where "TCPOLEN_WSCALE_ALIGNED = 4"
definition TCPOLEN_SACKPERM_ALIGNED :: u32 where "TCPOLEN_SACKPERM_ALIGNED = 4"
definition TCPOLEN_TSTAMP_ALIGNED :: u32 where "TCPOLEN_TSTAMP_ALIGNED = 12"
definition TCPOLEN_MD5SIG_ALIGNED :: u32 where "TCPOLEN_MD5SIG_ALIGNED = 20"
definition TCPOLEN_SACK_BASE_ALIGNED :: u32 where "TCPOLEN_SACK_BASE_ALIGNED = 4"
definition TCPOLEN_EXP_SMC_BASE_ALIGNED :: u32 where "TCPOLEN_EXP_SMC_BASE_ALIGNED = 8"

lemmas tcpopt_defs = MAX_TCP_OPTION_SPACE_def TCPOPT_NOP_def TCPOPT_MSS_def TCPOPT_WINDOW_def
  TCPOPT_SACK_PERM_def TCPOPT_SACK_def TCPOPT_TIMESTAMP_def TCPOPT_MD5SIG_def TCPOPT_AO_def
  TCPOPT_FASTOPEN_def TCPOPT_EXP_def TCPOPT_FASTOPEN_MAGIC_def TCPOPT_SMC_MAGIC_def TCPOLEN_MSS_def
  TCPOLEN_WINDOW_def TCPOLEN_SACK_PERM_def TCPOLEN_TIMESTAMP_def TCPOLEN_MD5SIG_def
  TCPOLEN_FASTOPEN_BASE_def TCPOLEN_EXP_FASTOPEN_BASE_def TCPOLEN_EXP_SMC_BASE_def
  TCPOLEN_SACK_BASE_def TCPOLEN_SACK_PERBLOCK_def TCPOLEN_MSS_ALIGNED_def TCPOLEN_WSCALE_ALIGNED_def
  TCPOLEN_SACKPERM_ALIGNED_def TCPOLEN_TSTAMP_ALIGNED_def TCPOLEN_MD5SIG_ALIGNED_def
  TCPOLEN_SACK_BASE_ALIGNED_def TCPOLEN_EXP_SMC_BASE_ALIGNED_def

section \<open>State\<close>

text \<open>The bits of the field \<open>options\<close>.\<close>

datatype option_flag = OPTION_SACK_ADVERTISE | OPTION_TS | OPTION_MD5 | OPTION_WSCALE
  | OPTION_FAST_OPEN_COOKIE | OPTION_SMC | OPTION_MPTCP | OPTION_AO

text \<open>A Fast Open cookie: a signed length, negative for no cookie, and 16 bytes.\<close>

record tcp_fastopen_cookie =
  foc_val :: "u8 list"
  foc_len :: int
  foc_exp :: bool

text \<open>\<open>hash_location\<close> is the offset in the option bytes.\<close>

record tcp_out_options =
  options :: "option_flag set"
  opt_mss :: u16
  opt_ws :: u8
  num_sack_blocks :: u8
  bpf_opt_len :: u8
  hash_location :: "nat option"
  tsval :: u32
  tsecr :: u32
  fastopen_cookie :: "tcp_fastopen_cookie option"

definition no_options :: tcp_out_options where
  "no_options = \<lparr>options = {}, opt_mss = 0, opt_ws = 0, num_sack_blocks = 0, bpf_opt_len = 0,
     hash_location = None, tsval = 0, tsecr = 0, fastopen_cookie = None\<rparr>"

abbreviation add_option :: "option_flag \<Rightarrow> tcp_out_options \<Rightarrow> tcp_out_options" where
  "add_option f opts \<equiv> opts\<lparr>options := insert f (options opts)\<rparr>"

text \<open>A signing key: none, MD5, or TCP-AO with the length of its MAC, the length of its option, that
  length rounded up, its id, and the id of the key to use next (if there is one).\<close>

datatype tcp_key = KEY_NONE | KEY_MD5 | KEY_AO (maclen: u8) (ao_len: u32) (ao_len_aligned: u32)
  (sndid: u8) (rnext_rcvid: "u8 option")

record opt_sock =
  os_advmss :: u16
  os_tstamp_ok :: bool
  os_ts_recent :: u32
  os_tsoffset :: u32
  os_rcv_wscale :: u8
  os_num_sacks :: u8
  os_dsack :: bool
  os_duplicate_sack :: "(u32 \<times> u32) list"
  os_selective_acks :: "(u32 \<times> u32) list"
  os_fastopen :: "tcp_fastopen_cookie option"
  os_syn_smc :: bool
  os_syn_fastopen :: bool
  os_syn_fastopen_exp :: bool

text \<open>A connection request, for a SYN-ACK.\<close>

record opt_req =
  rq_wscale_ok :: bool
  rq_tstamp_ok :: bool
  rq_sack_ok :: bool
  rq_smc_ok :: bool
  rq_rcv_wscale :: u8
  rq_ts_off :: u32
  rq_ts_recent :: u32

text \<open>What the rest of the kernel answers: the sysctls, the route's segment size, the time stamp of the
  packet, whether SMC is in use, the room MPTCP asks for, and what a BPF program leaves of the room.\<close>

record opt_env =
  e_timestamps :: bool
  e_window_scaling :: bool
  e_sack :: bool
  e_dst_advmss :: "u32 option"
  e_skb_ts :: "u32 option"
  e_have_smc :: bool
  e_mptcp_syn :: "u32 option"
  e_mptcp_synack :: "u32 option"
  e_mptcp_established :: "u32 \<Rightarrow> u32 option"
  e_bpf_flag :: bool
  e_bpf :: "u32 \<Rightarrow> u32 option"

section \<open>Which options\<close>

definition tcp_advertise_mss :: "opt_env \<Rightarrow> opt_sock \<Rightarrow> u16 \<times> opt_sock" where
  "tcp_advertise_mss E tp = (case e_dst_advmss E of
     Some metric \<Rightarrow> if metric < ucast (os_advmss tp)
       then (ucast metric, tp\<lparr>os_advmss := ucast metric\<rparr>) else (os_advmss tp, tp)
   | None \<Rightarrow> (os_advmss tp, tp))"

text \<open>An error of the program, or an unchanged length, reserves nothing.\<close>

definition bpf_skops_hdr_opt_len :: "opt_env \<Rightarrow> tcp_out_options \<Rightarrow> u32 \<Rightarrow> tcp_out_options \<times> u32" where
  "bpf_skops_hdr_opt_len E opts remaining =
     (if \<not> e_bpf_flag E \<or> remaining = 0 then (opts, remaining)
      else case e_bpf E remaining of
          None \<Rightarrow> (opts, remaining)
        | Some left \<Rightarrow>
            if left = remaining then (opts, remaining)
            else
              let len = (ucast (remaining - left) :: u8);
                  len = ucast ((ucast len + 3 :: u32) AND NOT 3)
              in (opts\<lparr>bpf_opt_len := len\<rparr>, remaining - ucast len))"

definition smc_set_option :: "opt_env \<Rightarrow> opt_sock \<Rightarrow> tcp_out_options \<Rightarrow> u32 \<Rightarrow> tcp_out_options \<times> u32" where
  "smc_set_option E tp opts remaining =
     (if e_have_smc E \<and> os_syn_smc tp \<and> remaining \<ge> TCPOLEN_EXP_SMC_BASE_ALIGNED
      then (add_option OPTION_SMC opts, remaining - TCPOLEN_EXP_SMC_BASE_ALIGNED)
      else (opts, remaining))"

definition smc_set_option_cond ::
  "opt_env \<Rightarrow> opt_sock \<Rightarrow> opt_req \<Rightarrow> tcp_out_options \<Rightarrow> u32 \<Rightarrow> tcp_out_options \<times> u32" where
  "smc_set_option_cond E tp ireq opts remaining =
     (if e_have_smc E \<and> os_syn_smc tp \<and> rq_smc_ok ireq \<and> remaining \<ge> TCPOLEN_EXP_SMC_BASE_ALIGNED
      then (add_option OPTION_SMC opts, remaining - TCPOLEN_EXP_SMC_BASE_ALIGNED)
      else (opts, remaining))"

text \<open>The same test for the answer of \<open>mptcp_syn_options\<close> and of \<open>mptcp_synack_options\<close>.\<close>

definition mptcp_set_option :: "u32 option \<Rightarrow> tcp_out_options \<Rightarrow> u32 \<Rightarrow> tcp_out_options \<times> u32" where
  "mptcp_set_option answer opts remaining = (case answer of
     Some sz \<Rightarrow> if remaining \<ge> sz then (add_option OPTION_MPTCP opts, remaining - sz)
       else (opts, remaining)
   | None \<Rightarrow> (opts, remaining))"

definition mptcp_set_option_cond :: "opt_env \<Rightarrow> tcp_out_options \<Rightarrow> u32 \<Rightarrow> tcp_out_options \<times> u32" where
  "mptcp_set_option_cond E opts remaining = mptcp_set_option (e_mptcp_synack E) opts remaining"

definition cookie_need :: "tcp_fastopen_cookie \<Rightarrow> u32" where
  "cookie_need foc = (word_of_int (foc_len foc) +
     (if foc_exp foc then TCPOLEN_EXP_FASTOPEN_BASE else TCPOLEN_FASTOPEN_BASE) + 3) AND NOT 3"

text \<open>The cookie goes in if there is one and if it fits; the result says whether it did.\<close>

definition fastopen_set_option ::
  "tcp_fastopen_cookie option \<Rightarrow> tcp_out_options \<Rightarrow> u32 \<Rightarrow> bool \<times> tcp_out_options \<times> u32" where
  "fastopen_set_option foc opts remaining = (case foc of
     Some c \<Rightarrow>
       if 0 \<le> foc_len c \<and> remaining \<ge> cookie_need c
       then (True, (add_option OPTION_FAST_OPEN_COOKIE opts)\<lparr>fastopen_cookie := Some c\<rparr>,
             remaining - cookie_need c)
       else (False, opts, remaining)
   | None \<Rightarrow> (False, opts, remaining))"

text \<open>The options of a SYN whose room is taken without a check.\<close>

definition syn_fixed_options ::
  "opt_env \<Rightarrow> opt_sock \<Rightarrow> tcp_key \<Rightarrow> tcp_out_options \<Rightarrow> tcp_out_options \<times> u32 \<times> opt_sock" where
  "syn_fixed_options E tp key opts =
     (let remaining = MAX_TCP_OPTION_SPACE;
          (timestamps, opts, remaining) =
            (case key of
               KEY_MD5 \<Rightarrow> (False, add_option OPTION_MD5 opts, remaining - TCPOLEN_MD5SIG_ALIGNED)
             | KEY_AO _ _ aligned _ _ \<Rightarrow> (e_timestamps E, add_option OPTION_AO opts, remaining - aligned)
             | KEY_NONE \<Rightarrow> (e_timestamps E, opts, remaining));
          (mss, tp) = tcp_advertise_mss E tp;
          opts = opts\<lparr>opt_mss := mss\<rparr>;
          remaining = remaining - TCPOLEN_MSS_ALIGNED;
          (opts, remaining) =
            (if timestamps
             then ((add_option OPTION_TS opts)\<lparr>
                     tsval := (case e_skb_ts E of Some t \<Rightarrow> t | None \<Rightarrow> 0) + os_tsoffset tp,
                     tsecr := os_ts_recent tp\<rparr>, remaining - TCPOLEN_TSTAMP_ALIGNED)
             else (opts, remaining));
          (opts, remaining) =
            (if e_window_scaling E
             then ((add_option OPTION_WSCALE opts)\<lparr>opt_ws := os_rcv_wscale tp\<rparr>,
                   remaining - TCPOLEN_WSCALE_ALIGNED)
             else (opts, remaining));
          (opts, remaining) =
            (if e_sack E
             then (add_option OPTION_SACK_ADVERTISE opts,
                   if OPTION_TS \<in> options opts then remaining else remaining - TCPOLEN_SACKPERM_ALIGNED)
             else (opts, remaining))
      in (opts, remaining, tp))"

definition tcp_syn_options ::
  "opt_env \<Rightarrow> opt_sock \<Rightarrow> tcp_key \<Rightarrow> tcp_out_options \<Rightarrow> u32 \<times> tcp_out_options \<times> opt_sock" where
  "tcp_syn_options E tp key opts =
     (let (opts, remaining, tp) = syn_fixed_options E tp key opts;
          (used, opts, remaining) = fastopen_set_option (os_fastopen tp) opts remaining;
          tp = (if used then tp\<lparr>os_syn_fastopen := True,
                               os_syn_fastopen_exp := (case os_fastopen tp of Some c \<Rightarrow> foc_exp c | None \<Rightarrow> False)\<rparr>
                else tp);
          (opts, remaining) = smc_set_option E tp opts remaining;
          (opts, remaining) = mptcp_set_option (e_mptcp_syn E) opts remaining;
          (opts, remaining) = bpf_skops_hdr_opt_len E opts remaining
      in (MAX_TCP_OPTION_SPACE - remaining, opts, tp))"

text \<open>\<open>cookie\<close> says whether the SYN-ACK is a SYN cookie.\<close>

definition synack_fixed_options ::
  "opt_env \<Rightarrow> opt_req \<Rightarrow> u32 \<Rightarrow> tcp_key \<Rightarrow> bool \<Rightarrow> tcp_out_options \<Rightarrow> tcp_out_options \<times> u32 \<times> opt_req" where
  "synack_fixed_options E ireq mss key cookie opts =
     (let remaining = MAX_TCP_OPTION_SPACE;
          (ireq, opts, remaining) =
            (case key of
               KEY_MD5 \<Rightarrow>
                 (if cookie then ireq
                  else ireq\<lparr>rq_tstamp_ok := (rq_tstamp_ok ireq \<and> \<not> rq_sack_ok ireq)\<rparr>,
                  add_option OPTION_MD5 opts, remaining - TCPOLEN_MD5SIG_ALIGNED)
             | KEY_AO _ _ aligned _ _ \<Rightarrow>
                 (ireq\<lparr>rq_tstamp_ok := (rq_tstamp_ok ireq \<and> \<not> rq_sack_ok ireq)\<rparr>,
                  add_option OPTION_AO opts, remaining - aligned)
             | KEY_NONE \<Rightarrow> (ireq, opts, remaining));
          opts = opts\<lparr>opt_mss := ucast mss\<rparr>;
          remaining = remaining - TCPOLEN_MSS_ALIGNED;
          (opts, remaining) =
            (if rq_wscale_ok ireq
             then ((add_option OPTION_WSCALE opts)\<lparr>opt_ws := rq_rcv_wscale ireq\<rparr>,
                   remaining - TCPOLEN_WSCALE_ALIGNED)
             else (opts, remaining));
          (opts, remaining) =
            (if rq_tstamp_ok ireq
             then ((add_option OPTION_TS opts)\<lparr>
                     tsval := (case e_skb_ts E of Some t \<Rightarrow> t | None \<Rightarrow> 0) + rq_ts_off ireq,
                     tsecr := rq_ts_recent ireq\<rparr>, remaining - TCPOLEN_TSTAMP_ALIGNED)
             else (opts, remaining));
          (opts, remaining) =
            (if rq_sack_ok ireq
             then (add_option OPTION_SACK_ADVERTISE opts,
                   if rq_tstamp_ok ireq then remaining else remaining - TCPOLEN_SACKPERM_ALIGNED)
             else (opts, remaining))
      in (opts, remaining, ireq))"

definition tcp_synack_options ::
  "opt_env \<Rightarrow> opt_sock \<Rightarrow> opt_req \<Rightarrow> u32 \<Rightarrow> tcp_key \<Rightarrow> tcp_fastopen_cookie option \<Rightarrow> bool \<Rightarrow>
   tcp_out_options \<Rightarrow> u32 \<times> tcp_out_options \<times> opt_req" where
  "tcp_synack_options E tp ireq mss key foc cookie opts =
     (let (opts, remaining, ireq) = synack_fixed_options E ireq mss key cookie opts;
          (used, opts, remaining) = fastopen_set_option foc opts remaining;
          (opts, remaining) = mptcp_set_option_cond E opts remaining;
          (opts, remaining) = smc_set_option_cond E tp ireq opts remaining;
          (opts, remaining) = bpf_skops_hdr_opt_len E opts remaining
      in (MAX_TCP_OPTION_SPACE - remaining, opts, ireq))"

definition est_fixed_options ::
  "opt_env \<Rightarrow> opt_sock \<Rightarrow> tcp_key \<Rightarrow> tcp_out_options \<Rightarrow> tcp_out_options \<times> u32" where
  "est_fixed_options E tp key opts =
     (let sz = 0;
          opts = opts\<lparr>options := {}\<rparr>;
          (opts, sz) =
            (case key of
               KEY_MD5 \<Rightarrow> (add_option OPTION_MD5 opts, sz + TCPOLEN_MD5SIG_ALIGNED)
             | KEY_AO _ _ aligned _ _ \<Rightarrow> (add_option OPTION_AO opts, sz + aligned)
             | KEY_NONE \<Rightarrow> (opts, sz))
      in if os_tstamp_ok tp
         then ((add_option OPTION_TS opts)\<lparr>
                 tsval := (case e_skb_ts E of Some t \<Rightarrow> t + os_tsoffset tp | None \<Rightarrow> 0),
                 tsecr := os_ts_recent tp\<rparr>, sz + TCPOLEN_TSTAMP_ALIGNED)
         else (opts, sz))"

text \<open>As many SACK blocks as fit; without room for one the result is \<open>None\<close>, an early return.\<close>

definition sack_set_option ::
  "opt_sock \<Rightarrow> tcp_out_options \<Rightarrow> u32 \<Rightarrow> (tcp_out_options \<times> u32) option" where
  "sack_set_option tp opts sz =
     (let eff_sacks = (ucast (os_num_sacks tp) + (if os_dsack tp then 1 else 0) :: u32);
          remaining = MAX_TCP_OPTION_SPACE - sz
      in if eff_sacks = 0 then Some (opts, sz)
         else if remaining < TCPOLEN_SACK_BASE_ALIGNED + TCPOLEN_SACK_PERBLOCK then None
         else
           let blocks = (ucast (min eff_sacks
                 ((remaining - TCPOLEN_SACK_BASE_ALIGNED) div TCPOLEN_SACK_PERBLOCK)) :: u8)
           in Some (opts\<lparr>num_sack_blocks := blocks\<rparr>,
                 sz + (TCPOLEN_SACK_BASE_ALIGNED + ucast blocks * TCPOLEN_SACK_PERBLOCK)))"

definition tcp_established_options ::
  "opt_env \<Rightarrow> opt_sock \<Rightarrow> tcp_key \<Rightarrow> tcp_out_options \<Rightarrow> u32 \<times> tcp_out_options" where
  "tcp_established_options E tp key opts =
     (let (opts, sz) = est_fixed_options E tp key opts;
          (opts, sz) =
            (case e_mptcp_established E (MAX_TCP_OPTION_SPACE - sz) of
               Some opt_size \<Rightarrow> (add_option OPTION_MPTCP opts, sz + opt_size)
             | None \<Rightarrow> (opts, sz))
      in case sack_set_option tp opts sz of
           None \<Rightarrow> (sz, opts)
         | Some (opts, sz) \<Rightarrow>
             if e_bpf_flag E then
               let (opts, remaining) = bpf_skops_hdr_opt_len E opts (MAX_TCP_OPTION_SPACE - sz)
               in (MAX_TCP_OPTION_SPACE - remaining, opts)
             else (sz, opts))"

section \<open>The bytes\<close>

text \<open>A byte of the header, \<open>None\<close> where nothing is written yet: the MAC goes there later.\<close>

type_synonym opt_bytes = "u8 option list"

text \<open>\<open>htonl\<close> of a word, in memory.\<close>

definition be32 :: "u32 \<Rightarrow> opt_bytes" where
  "be32 w = map Some [ucast (drop_bit 24 w), ucast (drop_bit 16 w), ucast (drop_bit 8 w), ucast w]"

text \<open>\<open>(a << 24) | (b << 16) | (c << 8) | d\<close>\<close>

definition pack4 :: "u32 \<Rightarrow> u32 \<Rightarrow> u32 \<Rightarrow> u32 \<Rightarrow> u32" where
  "pack4 a b c d = push_bit 24 a OR push_bit 16 b OR push_bit 8 c OR d"

definition smc_options_write :: "bool \<Rightarrow> option_flag set \<Rightarrow> opt_bytes" where
  "smc_options_write have_smc opts =
     (if have_smc \<and> OPTION_SMC \<in> opts
      then be32 (pack4 TCPOPT_NOP TCPOPT_NOP TCPOPT_EXP TCPOLEN_EXP_SMC_BASE) @ be32 TCPOPT_SMC_MAGIC
      else [])"

text \<open>\<open>mptcp\<close> is what \<open>mptcp_write_options\<close> writes.\<close>

definition mptcp_options_write :: "u8 list \<Rightarrow> option_flag set \<Rightarrow> opt_bytes" where
  "mptcp_options_write mptcp opts = (if OPTION_MPTCP \<in> opts then map Some mptcp else [])"

text \<open>The TCP-AO option; \<open>tcprsk\<close> is the key id and the next key id of a request.  The second result is
  the place of the MAC.  Without a next key nothing is written.\<close>

definition process_tcp_ao_options ::
  "(u8 \<times> u8) option \<Rightarrow> u8 \<Rightarrow> u32 \<Rightarrow> u8 \<Rightarrow> u8 option \<Rightarrow> opt_bytes \<times> nat option" where
  "process_tcp_ao_options tcprsk mlen len snd_id rnext =
     (let mac = replicate (unat mlen div 4 * 4) None @
                (if unat mlen mod 4 \<noteq> 0 then replicate 4 (Some (ucast TCPOPT_NOP)) else [])
      in case tcprsk of
           Some (keyid, next_id) \<Rightarrow>
             (be32 (pack4 TCPOPT_AO (ucast (mlen + 4)) (ucast keyid) (ucast next_id)) @ mac, Some 4)
         | None \<Rightarrow> (case rnext of
             None \<Rightarrow> ([], None)
           | Some rcvid \<Rightarrow> (be32 (pack4 TCPOPT_AO len (ucast snd_id) (ucast rcvid)) @ mac, Some 4)))"

text \<open>The Fast Open option: kind, length and cookie, padded to a multiple of four; only a rest of two
  is filled.\<close>

definition fastopen_body :: "tcp_fastopen_cookie \<Rightarrow> nat \<Rightarrow> opt_bytes" where
  "fastopen_body foc len =
     (if foc_exp foc
      then be32 (push_bit 24 TCPOPT_EXP OR push_bit 16 (of_nat len) OR TCPOPT_FASTOPEN_MAGIC)
      else [Some (ucast TCPOPT_FASTOPEN), Some (of_nat len)]) @
     map Some (take (nat (foc_len foc)) (foc_val foc)) @
     (if len mod 4 = 2 then replicate 2 (Some (ucast TCPOPT_NOP)) else [])"

definition fastopen_options_write :: "tcp_fastopen_cookie \<Rightarrow> opt_bytes" where
  "fastopen_options_write foc =
     (let len = nat (foc_len foc) +
            unat (if foc_exp foc then TCPOLEN_EXP_FASTOPEN_BASE else TCPOLEN_FASTOPEN_BASE);
          bytes = fastopen_body foc len
      in bytes @ replicate ((len + 3) div 4 * 4 - length bytes) None)"

text \<open>Bytes written over the beginning of what is there: SMC and MPTCP get the same pointer.\<close>

definition overwrite :: "opt_bytes \<Rightarrow> opt_bytes \<Rightarrow> opt_bytes" where
  "overwrite old new = new @ drop (length new) old"

text \<open>The MAC of a key, and where it goes.\<close>

definition key_options_write ::
  "(u8 \<times> u8) option \<Rightarrow> tcp_out_options \<Rightarrow> tcp_key \<Rightarrow> opt_bytes \<times> tcp_out_options" where
  "key_options_write tcprsk opts key =
     (let (mac, loc) =
            (case key of
               KEY_MD5 \<Rightarrow> (be32 (pack4 TCPOPT_NOP TCPOPT_NOP TCPOPT_MD5SIG TCPOLEN_MD5SIG) @
                          replicate 16 None, Some 4)
             | KEY_AO mlen len aligned snd_id rnext \<Rightarrow> process_tcp_ao_options tcprsk mlen len snd_id rnext
             | KEY_NONE \<Rightarrow> ([], None))
      in (mac, case loc of None \<Rightarrow> opts | Some l \<Rightarrow> opts\<lparr>hash_location := Some l\<rparr>))"

definition mss_options_write :: "tcp_out_options \<Rightarrow> opt_bytes" where
  "mss_options_write opts =
     (if opt_mss opts \<noteq> 0
      then be32 (push_bit 24 TCPOPT_MSS OR push_bit 16 TCPOLEN_MSS OR ucast (opt_mss opts)) else [])"

text \<open>The time stamp takes the permission for SACK along, in place of two fillers.\<close>

definition ts_options_write :: "tcp_out_options \<Rightarrow> opt_bytes" where
  "ts_options_write opts =
     (if OPTION_TS \<in> options opts
      then be32 (if OPTION_SACK_ADVERTISE \<in> options opts
                 then pack4 TCPOPT_SACK_PERM TCPOLEN_SACK_PERM TCPOPT_TIMESTAMP TCPOLEN_TIMESTAMP
                 else pack4 TCPOPT_NOP TCPOPT_NOP TCPOPT_TIMESTAMP TCPOLEN_TIMESTAMP) @
           be32 (tsval opts) @ be32 (tsecr opts)
      else if OPTION_SACK_ADVERTISE \<in> options opts
      then be32 (pack4 TCPOPT_NOP TCPOPT_NOP TCPOPT_SACK_PERM TCPOLEN_SACK_PERM) else [])"

definition wscale_options_write :: "tcp_out_options \<Rightarrow> opt_bytes" where
  "wscale_options_write opts =
     (if OPTION_WSCALE \<in> options opts
      then be32 (pack4 TCPOPT_NOP TCPOPT_WINDOW TCPOLEN_WINDOW (ucast (opt_ws opts))) else [])"

definition fixed_options_write :: "tcp_out_options \<Rightarrow> opt_bytes" where
  "fixed_options_write opts = mss_options_write opts @ ts_options_write opts @ wscale_options_write opts"

text \<open>The SACK blocks; \<open>duplicate_sack\<close> stands right before \<open>selective_acks\<close> in the socket.\<close>

definition sack_list :: "opt_sock \<Rightarrow> (u32 \<times> u32) list" where
  "sack_list tp = (if os_dsack tp then os_duplicate_sack tp @ os_selective_acks tp else os_selective_acks tp)"

definition sack_blocks_write :: "(u32 \<times> u32) list \<Rightarrow> opt_bytes" where
  "sack_blocks_write bs = concat (map (\<lambda>(s, e). be32 s @ be32 e) bs)"

definition sack_options_write :: "opt_sock \<Rightarrow> tcp_out_options \<Rightarrow> opt_bytes \<times> opt_sock" where
  "sack_options_write tp opts =
     (if num_sack_blocks opts \<noteq> 0
      then (be32 (pack4 TCPOPT_NOP TCPOPT_NOP TCPOPT_SACK
              (TCPOLEN_SACK_BASE + ucast (num_sack_blocks opts) * TCPOLEN_SACK_PERBLOCK)) @
            sack_blocks_write (take (unat (num_sack_blocks opts)) (sack_list tp)),
            tp\<lparr>os_dsack := False\<rparr>)
      else ([], tp))"

definition cookie_options_write :: "tcp_out_options \<Rightarrow> opt_bytes" where
  "cookie_options_write opts = (case fastopen_cookie opts of
     Some foc \<Rightarrow> if OPTION_FAST_OPEN_COOKIE \<in> options opts then fastopen_options_write foc else []
   | None \<Rightarrow> [])"

definition tcp_options_write ::
  "bool \<Rightarrow> u8 list \<Rightarrow> opt_sock \<Rightarrow> (u8 \<times> u8) option \<Rightarrow> tcp_out_options \<Rightarrow> tcp_key \<Rightarrow>
   opt_bytes \<times> tcp_out_options \<times> opt_sock" where
  "tcp_options_write have_smc mptcp tp tcprsk opts key =
     (let (mac, opts') = key_options_write tcprsk opts key;
          (blocks, tp) = sack_options_write tp opts;
          tail = overwrite (smc_options_write have_smc (options opts))
                   (mptcp_options_write mptcp (options opts))
      in (mac @ fixed_options_write opts @ blocks @ cookie_options_write opts @ tail, opts', tp))"

text \<open>\<open>prog\<close> is the BPF program: the bytes it writes, or an error.  What it leaves is filled.\<close>

definition bpf_skops_write_hdr_opt :: "(nat \<Rightarrow> u8 list option) \<Rightarrow> tcp_out_options \<Rightarrow> opt_bytes" where
  "bpf_skops_write_hdr_opt prog opts =
     (let max_opt_len = unat (bpf_opt_len opts);
          written = (if max_opt_len = 0 then [] else case prog max_opt_len of None \<Rightarrow> [] | Some bs \<Rightarrow> bs)
      in map Some written @ replicate (max_opt_len - length written) (Some (ucast TCPOPT_NOP)))"

section \<open>The room the options take\<close>

definition key_len :: "tcp_key \<Rightarrow> nat" where
  "key_len key = (case key of KEY_NONE \<Rightarrow> 0 | KEY_MD5 \<Rightarrow> 20 | KEY_AO _ _ aligned _ _ \<Rightarrow> unat aligned)"

text \<open>The bytes a set of options takes, with \<open>m\<close> for MPTCP.\<close>

definition options_len :: "nat \<Rightarrow> tcp_key \<Rightarrow> tcp_out_options \<Rightarrow> nat" where
  "options_len m key opts =
     key_len key + (if opt_mss opts \<noteq> 0 then 4 else 0) +
     (if OPTION_TS \<in> options opts then 12 else 0) +
     (if OPTION_SACK_ADVERTISE \<in> options opts \<and> OPTION_TS \<notin> options opts then 4 else 0) +
     (if OPTION_WSCALE \<in> options opts then 4 else 0) +
     (if num_sack_blocks opts \<noteq> 0 then 4 + 8 * unat (num_sack_blocks opts) else 0) +
     (case fastopen_cookie opts of
        Some c \<Rightarrow> if OPTION_FAST_OPEN_COOKIE \<in> options opts then unat (cookie_need c) else 0
      | None \<Rightarrow> 0) +
     (if OPTION_SMC \<in> options opts then 8 else 0) +
     (if OPTION_MPTCP \<in> options opts then m else 0)"

text \<open>Documented behaviour of the parts around the options: the room for a TCP-AO option is its length
  rounded up and small enough for a SYN, MPTCP asks for whole words and keeps to the room it is given,
  a BPF program keeps to its room, a cookie has at most 16 bytes.\<close>

definition key_ok :: "tcp_key \<Rightarrow> bool" where
  "key_ok key = (case key of
     KEY_AO mlen len aligned snd_id rnext \<Rightarrow>
       unat len = unat mlen + 4 \<and> unat aligned = (unat len + 3) div 4 * 4 \<and> unat aligned \<le> 20
   | _ \<Rightarrow> True)"

definition words_ok :: "u32 option \<Rightarrow> u32 \<Rightarrow> bool" where
  "words_ok answer m \<longleftrightarrow> (case answer of None \<Rightarrow> True | Some n \<Rightarrow> n = m) \<and> unat m mod 4 = 0"

definition bpf_ok :: "opt_env \<Rightarrow> bool" where
  "bpf_ok E \<longleftrightarrow> (\<forall>r left. e_bpf E r = Some left \<longrightarrow> left \<le> r)"

definition cookie_ok :: "tcp_fastopen_cookie option \<Rightarrow> bool" where
  "cookie_ok foc = (case foc of None \<Rightarrow> True | Some c \<Rightarrow> foc_len c \<le> 16 \<and> length (foc_val c) = 16)"

text \<open>The room that is left and the room that is taken add up, in whole words.\<close>

definition room :: "nat \<Rightarrow> tcp_key \<Rightarrow> tcp_out_options \<Rightarrow> u32 \<Rightarrow> bool" where
  "room m key opts remaining \<longleftrightarrow>
     unat remaining + options_len m key opts + unat (bpf_opt_len opts) = 40 \<and> unat remaining mod 4 = 0"

lemma key_ok_cases:
  assumes "key_ok key"
  obtains "key = KEY_NONE" | "key = KEY_MD5"
    | mlen len snd_id rnext k where "key = KEY_AO mlen len (of_nat (4 * k)) snd_id rnext" and "k \<le> 5"
proof (cases key)
  case (KEY_AO mlen len aligned snd_id rnext)
  let ?k = "(unat len + 3) div 4"
  have ok: "unat aligned = ?k * 4 \<and> unat aligned \<le> 20"
    using assms unfolding KEY_AO key_ok_def tcp_key.case by blast
  then have "unat aligned = 4 * ?k" "unat aligned \<le> 20" by linarith+
  then have "?k \<le> 5" by linarith
  moreover have "aligned = of_nat (4 * ?k)" using \<open>unat aligned = 4 * ?k\<close> by (metis of_nat_unat ucast_id)
  ultimately have "aligned = of_nat (4 * ?k)" "?k \<le> 5" by simp_all
  with KEY_AO that(3) show thesis by blast
qed (use that in auto)

lemma unat_round4:
  assumes "unat x + 3 < 2 ^ 32"
  shows "unat ((x + 3) AND NOT 3 :: u32) = (unat x + 3) div 4 * 4"
  using unat_ALIGN_pow2 [of 2 x] assms by (simp add: ALIGN_def)

lemma cookie_need_unat:
  assumes "0 \<le> foc_len c" and "foc_len c \<le> 16"
  shows "unat (cookie_need c) = (nat (foc_len c) + (if foc_exp c then 4 else 2) + 3) div 4 * 4"
proof -
  have u: "unat (word_of_int (foc_len c) :: u32) = nat (foc_len c)"
    using assms by (simp add: unsigned_of_int take_bit_int_eq_self)
  let ?b = "if foc_exp c then TCPOLEN_EXP_FASTOPEN_BASE else TCPOLEN_FASTOPEN_BASE"
  have b: "unat ?b = (if foc_exp c then 4 else 2)" by (simp add: tcpopt_defs)
  have s: "unat (word_of_int (foc_len c) + ?b) = nat (foc_len c) + (if foc_exp c then 4 else 2)"
    using assms by (simp add: unat_word_ariths u b nat_le_iff)
  have "nat (foc_len c) \<le> 16" using assms by simp
  then have "unat (word_of_int (foc_len c) + ?b) + 3 < 2 ^ 32" unfolding s by simp
  from unat_round4 [OF this] show ?thesis by (simp add: cookie_need_def s)
qed

lemma room_take:
  assumes "room m key opts r" and "n \<le> r" and "unat n mod 4 = 0"
    and "options_len m key opts' + unat (bpf_opt_len opts') = options_len m key opts + unat (bpf_opt_len opts) + unat n"
  shows "room m key opts' (r - n)"
proof -
  have "unat (r - n) = unat r - unat n" "unat n \<le> unat r"
    using assms(2) by (simp_all add: unat_minus_le word_le_nat_alt)
  moreover have "(unat r - unat n) mod 4 = 0"
    using assms(1,3) unfolding room_def by (simp add: mod_eq_0_iff_dvd)
  moreover have "unat r + options_len m key opts + unat (bpf_opt_len opts) = 40"
    using assms(1) by (simp add: room_def)
  ultimately show ?thesis using assms(4) unfolding room_def by simp
qed

text \<open>What one more option adds.\<close>

lemma options_len_add:
  "OPTION_SMC \<notin> options opts \<Longrightarrow> options_len m key (add_option OPTION_SMC opts) = options_len m key opts + 8"
  "OPTION_MPTCP \<notin> options opts \<Longrightarrow> options_len m key (add_option OPTION_MPTCP opts) = options_len m key opts + m"
  "fastopen_cookie opts = None \<Longrightarrow>
     options_len m key ((add_option OPTION_FAST_OPEN_COOKIE opts)\<lparr>fastopen_cookie := Some c\<rparr>) =
     options_len m key opts + unat (cookie_need c)"
  "options_len m key (opts\<lparr>bpf_opt_len := b\<rparr>) = options_len m key opts"
  by (simp_all add: options_len_def split del: if_split cong: if_cong option.case_cong)

lemma room_fastopen:
  assumes "room m key opts r" and "cookie_ok foc" and "fastopen_cookie opts = None"
    and "fastopen_set_option foc opts r = (used, opts', r')"
  shows "room m key opts' r' \<and> options opts' \<subseteq> insert OPTION_FAST_OPEN_COOKIE (options opts) \<and>
    options opts \<subseteq> options opts' \<and> cookie_ok (fastopen_cookie opts') \<and> bpf_opt_len opts' = bpf_opt_len opts \<and>
    (fastopen_cookie opts' \<noteq> None \<longrightarrow> 0 \<le> foc_len (the (fastopen_cookie opts')))"
proof (cases used)
  case True
  then obtain c where c: "foc = Some c" "0 \<le> foc_len c" "cookie_need c \<le> r" "r' = r - cookie_need c"
      "opts' = (add_option OPTION_FAST_OPEN_COOKIE opts)\<lparr>fastopen_cookie := Some c\<rparr>"
    using assms(4) by (auto simp: fastopen_set_option_def split: option.splits if_splits)
  have "unat (cookie_need c) mod 4 = 0"
    using assms(2) c by (simp add: cookie_ok_def cookie_need_unat)
  then have "room m key opts' r'"
    unfolding c(4,5) using assms(1,3) c(3)
    by (intro room_take [OF assms(1)]) (simp_all add: options_len_add)
  with c assms(2) show ?thesis by (auto simp: cookie_ok_def)
next
  case False
  with assms show ?thesis
    by (auto simp: fastopen_set_option_def cookie_ok_def split: option.splits if_splits)
qed

lemma room_smc:
  assumes "room m key opts r" and "OPTION_SMC \<notin> options opts"
  shows "8 \<le> r \<Longrightarrow> room m key (add_option OPTION_SMC opts) (r - 8)"
  using assms by (intro room_take [OF assms(1)]) (simp_all add: options_len_add)

lemma room_mptcp:
  assumes "room (unat n) key opts r" and "OPTION_MPTCP \<notin> options opts" and "words_ok answer n"
    and "mptcp_set_option answer opts r = (opts', r')"
  shows "room (unat n) key opts' r' \<and> options opts' \<subseteq> insert OPTION_MPTCP (options opts) \<and>
    bpf_opt_len opts' = bpf_opt_len opts \<and> fastopen_cookie opts' = fastopen_cookie opts"
proof (cases "\<exists>k. answer = Some k \<and> k \<le> r")
  case True
  with assms(3,4) have "answer = Some n" "n \<le> r" "opts' = add_option OPTION_MPTCP opts" "r' = r - n"
    by (auto simp: words_ok_def mptcp_set_option_def)
  then show ?thesis
    using assms(1-3) room_take [OF assms(1), of n "add_option OPTION_MPTCP opts"]
    by (auto simp: options_len_add words_ok_def)
next
  case False
  with assms show ?thesis
    by (auto simp: mptcp_set_option_def split: option.splits if_splits)
qed

lemma unat_ucast8: "unat (ucast (x :: u8) :: u32) = unat x"
proof -
  have "unat x < 256" using unsigned_less [of x, where ?'a = nat] by simp
  then show ?thesis by (simp add: unsigned_ucast_eq take_bit_nat_eq_self)
qed

lemma room_bpf:
  assumes "room m key opts r" and "bpf_ok E" and "bpf_opt_len opts = 0"
    and "bpf_skops_hdr_opt_len E opts r = (opts', r')"
  shows "room m key opts' r' \<and> options opts' = options opts"
proof (cases "\<exists>left. e_bpf_flag E \<and> r \<noteq> 0 \<and> e_bpf E r = Some left \<and> left \<noteq> r")
  case True
  then obtain left where l: "e_bpf_flag E" "r \<noteq> 0" "e_bpf E r = Some left" "left \<noteq> r" by blast
  define n where "n = unat (r - left)"
  have "left \<le> r" using assms(2) l(3) by (simp add: bpf_ok_def)
  then have n: "n \<le> unat r" by (simp add: n_def unat_minus_le)
  have r: "unat r \<le> 40" "unat r mod 4 = 0" using assms(1) by (simp_all add: room_def)
  define len where "len = (n + 3) div 4 * 4"
  have len: "len \<le> unat r" "len mod 4 = 0"
    using n r(2) unfolding len_def by (auto simp: mod_eq_0_iff_dvd elim!: dvdE)
  have small: "unat (ucast (r - left) :: u8) = n"
    using n r(1) by (simp add: n_def unsigned_ucast_eq take_bit_nat_eq_self)
  let ?b = "ucast ((ucast (ucast (r - left) :: u8) + 3 :: u32) AND NOT 3) :: u8"
  have "unat (ucast (ucast (r - left) :: u8) :: u32) = n"
    using small unat_ucast8 by metis
  then have "unat ((ucast (ucast (r - left) :: u8) + 3 :: u32) AND NOT 3) = len"
    using unat_round4 [of "ucast (ucast (r - left) :: u8)"] n r(1) by (simp add: len_def)
  then have b: "unat ?b = len"
    using len(1) r(1) by (simp add: unsigned_ucast_eq take_bit_nat_eq_self)
  have b32: "unat (ucast ?b :: u32) = len" using b unat_ucast8 by metis
  have "opts' = opts\<lparr>bpf_opt_len := ?b\<rparr>" "r' = r - ucast ?b"
    using assms(4) l by (auto simp: bpf_skops_hdr_opt_len_def Let_def)
  moreover have "room m key (opts\<lparr>bpf_opt_len := ?b\<rparr>) (r - ucast ?b)"
    using assms(1,3) len b b32 by (intro room_take [OF assms(1)]) (simp_all add: options_len_add word_le_nat_alt)
  ultimately show ?thesis by simp
next
  case False
  then have "opts' = opts \<and> r' = r"
    using assms(4) by (auto simp: bpf_skops_hdr_opt_len_def split: option.splits if_splits)
  with assms(1) show ?thesis by simp
qed

lemma ao_cases: "(k :: nat) \<le> 5 \<Longrightarrow> k = 0 \<or> k = 1 \<or> k = 2 \<or> k = 3 \<or> k = 4 \<or> k = 5" by linarith

lemmas fixed_room = room_def options_len_def key_len_def no_options_def tcpopt_defs

lemma room_syn_fixed:
  assumes "key_ok key" and "fst (tcp_advertise_mss E tp) \<noteq> 0"
    and "syn_fixed_options E tp key no_options = (opts, r, tp')"
  shows "room m key opts r \<and>
    options opts \<subseteq> {OPTION_MD5, OPTION_AO, OPTION_TS, OPTION_WSCALE, OPTION_SACK_ADVERTISE} \<and>
    fastopen_cookie opts = None \<and> bpf_opt_len opts = 0 \<and> num_sack_blocks opts = 0 \<and> opt_mss opts \<noteq> 0"
proof -
  obtain mss tp1 where adv: "tcp_advertise_mss E tp = (mss, tp1)" by fastforce
  with assms(2) have "mss \<noteq> 0" by simp
  from assms(1) show ?thesis
  proof (cases rule: key_ok_cases)
    case 1
    with assms(3) \<open>mss \<noteq> 0\<close> show ?thesis
      by (cases "e_timestamps E"; cases "e_window_scaling E"; cases "e_sack E")
        (clarsimp simp: syn_fixed_options_def adv fixed_room)+
  next
    case 2
    with assms(3) \<open>mss \<noteq> 0\<close> show ?thesis
      by (cases "e_window_scaling E"; cases "e_sack E")
        (clarsimp simp: syn_fixed_options_def adv fixed_room)+
  next
    case (3 mlen len snd_id rnext k)
    with assms(3) \<open>mss \<noteq> 0\<close> ao_cases [OF 3(2)] show ?thesis
      by (elim disjE; cases "e_timestamps E"; cases "e_window_scaling E"; cases "e_sack E")
        (clarsimp simp: syn_fixed_options_def adv fixed_room)+
  qed
qed

lemma room_synack_fixed:
  assumes "key_ok key" and "(ucast mss :: u16) \<noteq> 0"
    and "synack_fixed_options E ireq mss key cookie no_options = (opts, r, ireq')"
  shows "room m key opts r \<and>
    options opts \<subseteq> {OPTION_MD5, OPTION_AO, OPTION_TS, OPTION_WSCALE, OPTION_SACK_ADVERTISE} \<and>
    fastopen_cookie opts = None \<and> bpf_opt_len opts = 0 \<and> num_sack_blocks opts = 0 \<and> opt_mss opts \<noteq> 0"
  using assms(1)
proof (cases rule: key_ok_cases)
  case 1
  with assms(2,3) show ?thesis
    by (cases "rq_tstamp_ok ireq"; cases "rq_wscale_ok ireq"; cases "rq_sack_ok ireq")
      (clarsimp simp: synack_fixed_options_def fixed_room)+
next
  case 2
  with assms(2,3) show ?thesis
    by (cases cookie; cases "rq_tstamp_ok ireq"; cases "rq_wscale_ok ireq"; cases "rq_sack_ok ireq")
      (clarsimp simp: synack_fixed_options_def fixed_room)+
next
  case (3 mlen len snd_id rnext k)
  with assms(2,3) ao_cases [OF 3(2)] show ?thesis
    by (elim disjE; cases "rq_tstamp_ok ireq"; cases "rq_wscale_ok ireq"; cases "rq_sack_ok ireq")
      (clarsimp simp: synack_fixed_options_def fixed_room)+
qed

lemma syn_fixed_frame:
  "syn_fixed_options E tp key opts = (opts', r, tp') \<Longrightarrow>
   os_fastopen tp' = os_fastopen tp \<and> os_syn_smc tp' = os_syn_smc tp"
  by (auto simp: syn_fixed_options_def tcp_advertise_mss_def Let_def
      split: option.splits tcp_key.splits if_splits)

definition exact_size :: "nat \<Rightarrow> tcp_key \<Rightarrow> u32 \<Rightarrow> tcp_out_options \<Rightarrow> bool" where
  "exact_size m key sz opts \<longleftrightarrow> unat sz = options_len m key opts + unat (bpf_opt_len opts) \<and>
     unat sz \<le> 40 \<and> unat sz mod 4 = 0"

lemma room_exact: "room m key opts r \<Longrightarrow> exact_size m key (MAX_TCP_OPTION_SPACE - r) opts"
proof -
  assume a: "room m key opts r"
  then have "unat r \<le> unat (40 :: u32)" by (simp add: room_def)
  then have "unat (40 - r) = 40 - unat r" by (simp add: unat_minus_le word_le_nat_alt)
  moreover have "(40 - unat r) mod 4 = 0" using a by (auto simp: room_def mod_eq_0_iff_dvd)
  moreover have "40 - unat r = options_len m key opts + unat (bpf_opt_len opts)"
    using a unfolding room_def by linarith
  ultimately show ?thesis by (simp add: exact_size_def MAX_TCP_OPTION_SPACE_def)
qed

text \<open>The options whose room is checked, in the order of a SYN or of a SYN-ACK.\<close>

lemma room_variable:
  assumes "room (unat n) key opts r" and "fastopen_cookie opts = None" and "bpf_opt_len opts = 0"
    and "options opts \<subseteq> {OPTION_MD5, OPTION_AO, OPTION_TS, OPTION_WSCALE, OPTION_SACK_ADVERTISE}"
    and "cookie_ok foc" and "words_ok answer n"
    and f: "fastopen_set_option foc opts r = (used, opts1, r1)"
  shows "smc_set_option E tp opts1 r1 = (opts2, r2) \<Longrightarrow> mptcp_set_option answer opts2 r2 = (opts3, r3) \<Longrightarrow>
      room (unat n) key opts3 r3 \<and> bpf_opt_len opts3 = 0"
    and "mptcp_set_option answer opts1 r1 = (opts2, r2) \<Longrightarrow> smc_set_option_cond E tp ireq opts2 r2 = (opts3, r3) \<Longrightarrow>
      room (unat n) key opts3 r3 \<and> bpf_opt_len opts3 = 0"
proof -
  note 1 = room_fastopen [OF assms(1,5,2) f]
  then have no: "OPTION_SMC \<notin> options opts1" "OPTION_MPTCP \<notin> options opts1" using assms(4) by auto
  show "room (unat n) key opts3 r3 \<and> bpf_opt_len opts3 = 0"
    if "smc_set_option E tp opts1 r1 = (opts2, r2)" "mptcp_set_option answer opts2 r2 = (opts3, r3)"
  proof -
    have "room (unat n) key opts2 r2 \<and> OPTION_MPTCP \<notin> options opts2 \<and> bpf_opt_len opts2 = 0"
      using that(1) 1 no room_smc [of "unat n" key opts1 r1] assms(3)
      by (auto simp: smc_set_option_def TCPOLEN_EXP_SMC_BASE_ALIGNED_def split: if_splits)
    with room_mptcp [OF _ _ assms(6) that(2)] show ?thesis by auto
  qed
  show "room (unat n) key opts3 r3 \<and> bpf_opt_len opts3 = 0"
    if "mptcp_set_option answer opts1 r1 = (opts2, r2)" "smc_set_option_cond E tp ireq opts2 r2 = (opts3, r3)"
  proof -
    have "room (unat n) key opts2 r2 \<and> OPTION_SMC \<notin> options opts2 \<and> bpf_opt_len opts2 = 0"
      using room_mptcp [OF _ no(2) assms(6) that(1)] 1 no assms(3) by auto
    with that(2) show ?thesis
      using room_smc [of "unat n" key opts2 r2]
      by (auto simp: smc_set_option_cond_def TCPOLEN_EXP_SMC_BASE_ALIGNED_def split: if_splits)
  qed
qed

lemma syn_options_exact:
  assumes "key_ok key" and "fst (tcp_advertise_mss E tp) \<noteq> 0" and "cookie_ok (os_fastopen tp)"
    and "words_ok (e_mptcp_syn E) n" and "bpf_ok E"
    and "tcp_syn_options E tp key no_options = (sz, opts, tp')"
  shows "exact_size (unat n) key sz opts"
proof -
  obtain o0 r0 tp0 where 0: "syn_fixed_options E tp key no_options = (o0, r0, tp0)" by (metis prod.exhaust)
  obtain u o1 r1 where 1: "fastopen_set_option (os_fastopen tp0) o0 r0 = (u, o1, r1)" by (metis prod.exhaust)
  define tp1 where "tp1 = (if u then tp0\<lparr>os_syn_fastopen := True, os_syn_fastopen_exp :=
      (case os_fastopen tp0 of Some c \<Rightarrow> foc_exp c | None \<Rightarrow> False)\<rparr> else tp0)"
  obtain o2 r2 where 2: "smc_set_option E tp1 o1 r1 = (o2, r2)" by fastforce
  obtain o3 r3 where 3: "mptcp_set_option (e_mptcp_syn E) o2 r2 = (o3, r3)" by fastforce
  obtain o4 r4 where 4: "bpf_skops_hdr_opt_len E o3 r3 = (o4, r4)" by fastforce
  have f: "room (unat n) key o0 r0" "fastopen_cookie o0 = None" "bpf_opt_len o0 = 0"
    "options o0 \<subseteq> {OPTION_MD5, OPTION_AO, OPTION_TS, OPTION_WSCALE, OPTION_SACK_ADVERTISE}"
    using room_syn_fixed [OF assms(1,2) 0] by blast+
  have "room (unat n) key o3 r3 \<and> bpf_opt_len o3 = 0"
    using room_variable(1) [OF f _ assms(4) 1 2 3] assms(3) by (simp add: syn_fixed_frame [OF 0])
  then have "room (unat n) key o4 r4" using room_bpf [OF _ assms(5) _ 4] by blast
  moreover have "sz = MAX_TCP_OPTION_SPACE - r4" "opts = o4"
    using assms(6) by (simp_all add: tcp_syn_options_def 0 1 2 3 4 tp1_def [symmetric])
  ultimately show ?thesis using room_exact by blast
qed

lemma synack_options_exact:
  assumes "key_ok key" and "(ucast mss :: u16) \<noteq> 0" and "cookie_ok foc" and "words_ok (e_mptcp_synack E) n" and "bpf_ok E"
    and "tcp_synack_options E tp ireq mss key foc cookie no_options = (sz, opts, ireq')"
  shows "exact_size (unat n) key sz opts"
proof -
  obtain o0 r0 q0 where 0: "synack_fixed_options E ireq mss key cookie no_options = (o0, r0, q0)" by (metis prod.exhaust)
  obtain u o1 r1 where 1: "fastopen_set_option foc o0 r0 = (u, o1, r1)" by (metis prod.exhaust)
  obtain o2 r2 where 2: "mptcp_set_option (e_mptcp_synack E) o1 r1 = (o2, r2)" by fastforce
  obtain o3 r3 where 3: "smc_set_option_cond E tp q0 o2 r2 = (o3, r3)" by fastforce
  obtain o4 r4 where 4: "bpf_skops_hdr_opt_len E o3 r3 = (o4, r4)" by fastforce
  have f: "room (unat n) key o0 r0" "fastopen_cookie o0 = None" "bpf_opt_len o0 = 0"
    "options o0 \<subseteq> {OPTION_MD5, OPTION_AO, OPTION_TS, OPTION_WSCALE, OPTION_SACK_ADVERTISE}"
    using room_synack_fixed [OF assms(1,2) 0] by blast+
  have "room (unat n) key o3 r3 \<and> bpf_opt_len o3 = 0"
    by (rule room_variable(2) [OF f assms(3,4) 1 2 3])
  then have "room (unat n) key o4 r4" using room_bpf [OF _ assms(5) _ 4] by blast
  moreover have "sz = MAX_TCP_OPTION_SPACE - r4" "opts = o4"
    using assms(6) by (simp_all add: tcp_synack_options_def mptcp_set_option_cond_def 0 1 2 3 4)
  ultimately show ?thesis using room_exact by blast
qed

text \<open>Established connections count the room that is taken instead of the room that is left.\<close>

definition mptcp_ok :: "opt_env \<Rightarrow> u32 \<Rightarrow> bool" where
  "mptcp_ok E n \<longleftrightarrow> unat n mod 4 = 0 \<and> (\<forall>r k. e_mptcp_established E r = Some k \<longrightarrow> k = n \<and> k \<le> r)"

lemma room_est_fixed:
  assumes "key_ok key" and "est_fixed_options E tp key no_options = (opts, sz)"
  shows "room m key opts (40 - sz) \<and> options opts \<subseteq> {OPTION_MD5, OPTION_AO, OPTION_TS} \<and>
    bpf_opt_len opts = 0 \<and> num_sack_blocks opts = 0"
  using assms(1)
proof (cases rule: key_ok_cases)
  case 1
  with assms(2) show ?thesis
    by (cases "os_tstamp_ok tp") (clarsimp simp: est_fixed_options_def fixed_room)+
next
  case 2
  with assms(2) show ?thesis
    by (cases "os_tstamp_ok tp") (clarsimp simp: est_fixed_options_def fixed_room)+
next
  case (3 mlen len snd_id rnext k)
  with assms(2) ao_cases [OF 3(2)] show ?thesis
    by (elim disjE; cases "os_tstamp_ok tp") (clarsimp simp: est_fixed_options_def fixed_room)+
qed

lemma room_sacks:
  assumes "room m key opts r" and "num_sack_blocks opts = 0" and "12 \<le> r" and "eff \<noteq> 0"
  defines "blocks \<equiv> (ucast (min eff ((r - 4) div 8)) :: u8)"
  shows "room m key (opts\<lparr>num_sack_blocks := blocks\<rparr>) (r - (4 + ucast blocks * 8)) \<and> unat blocks \<le> unat eff \<and>
    1 \<le> unat blocks \<and> unat blocks \<le> 4"
proof -
  have r: "12 \<le> unat r" "unat r \<le> 40" using assms(1,3) by (simp_all add: room_def word_le_nat_alt)
  have "unat (min eff ((r - 4) div 8)) = min (unat eff) ((unat r - 4) div 8)"
    using r(1) by (simp add: unat_min unat_div_word unat_minus_le word_le_nat_alt)
  then have b: "unat blocks = min (unat eff) ((unat r - 4) div 8)"
    using r(2) by (simp add: blocks_def unsigned_ucast_eq take_bit_nat_eq_self min.coboundedI2 le_less_trans)
  have "1 \<le> unat eff" using assms(4) by (simp add: unat_gt_0 Suc_leI)
  then have n: "1 \<le> unat blocks" "unat blocks \<le> 4" "4 + 8 * unat blocks \<le> unat r" "unat blocks \<le> unat eff"
    using b r by auto
  have u: "unat (4 + ucast blocks * 8 :: u32) = 4 + 8 * unat blocks"
    using n(2) by (simp add: unat_word_ariths unat_ucast8)
  have "blocks \<noteq> 0" using n(1) by auto
  then have "options_len m key (opts\<lparr>num_sack_blocks := blocks\<rparr>) = options_len m key opts + (4 + 8 * unat blocks)"
    using assms(2) by (simp add: options_len_def split del: if_split cong: if_cong option.case_cong)
  then have "room m key (opts\<lparr>num_sack_blocks := blocks\<rparr>) (r - (4 + ucast blocks * 8))"
    using n(3) by (intro room_take [OF assms(1)]) (simp_all add: u word_le_nat_alt mod_simps)
  with n show ?thesis by simp
qed


lemma sub_sub_40: "40 - (sz + n) = 40 - sz - (n :: u32)" by simp

lemma room_est_mptcp:
  assumes "room (unat n) key opts (40 - sz)" and "OPTION_MPTCP \<notin> options opts" and "mptcp_ok E n"
    and "e_mptcp_established E (40 - sz) = Some k"
  shows "room (unat n) key (add_option OPTION_MPTCP opts) (40 - (sz + k))"
proof -
  have k: "k = n" "n \<le> 40 - sz" "unat n mod 4 = 0" using assms(3,4) by (auto simp: mptcp_ok_def)
  show ?thesis
    unfolding k(1) sub_sub_40 using assms(2) by (intro room_take [OF assms(1) k(2,3)]) (simp add: options_len_add)
qed

lemma room_sack_set:
  assumes "room m key opts (40 - sz)" and "num_sack_blocks opts = 0"
    and "sack_set_option tp opts sz = Some (opts', sz')"
  shows "room m key opts' (40 - sz') \<and> bpf_opt_len opts' = bpf_opt_len opts"
proof (cases "ucast (os_num_sacks tp) + (if os_dsack tp then 1 else 0) = (0 :: u32)")
  case True
  with assms show ?thesis by (simp add: sack_set_option_def Let_def)
next
  case False
  let ?eff = "ucast (os_num_sacks tp) + (if os_dsack tp then 1 else 0) :: u32"
  let ?b = "ucast (min ?eff ((40 - sz - 4) div 8)) :: u8"
  have "\<not> 40 - sz < 12" "opts' = opts\<lparr>num_sack_blocks := ?b\<rparr>" "sz' = sz + (4 + ucast ?b * 8)"
    using assms(3) False by (auto simp: sack_set_option_def Let_def tcpopt_defs split: if_splits)
  then show ?thesis using room_sacks [OF assms(1,2) _ False] unfolding sub_sub_40 by simp
qed

lemma established_options_exact:
  assumes "key_ok key" and "mptcp_ok E n" and "bpf_ok E"
    and "tcp_established_options E tp key no_options = (sz, opts)"
  shows "exact_size (unat n) key sz opts"
proof -
  obtain o0 s0 where 0: "est_fixed_options E tp key no_options = (o0, s0)" by fastforce
  obtain o1 s1 where 1: "(case e_mptcp_established E (MAX_TCP_OPTION_SPACE - s0) of
      Some k \<Rightarrow> (add_option OPTION_MPTCP o0, s0 + k) | None \<Rightarrow> (o0, s0)) = (o1, s1)" by fastforce
  have f: "room (unat n) key o0 (40 - s0)" "OPTION_MPTCP \<notin> options o0" "bpf_opt_len o0 = 0"
    "num_sack_blocks o0 = 0"
    using room_est_fixed [OF assms(1) 0, of "unat n"] by auto
  have r1: "room (unat n) key o1 (40 - s1)" "bpf_opt_len o1 = 0" "num_sack_blocks o1 = 0"
    using 1 f room_est_mptcp [OF f(1,2) assms(2)]
    by (auto simp: MAX_TCP_OPTION_SPACE_def split: option.splits)
  have fin: "exact_size (unat n) key s o'" if "room (unat n) key o' (40 - s)" for s o'
    using room_exact [OF that] by (simp add: MAX_TCP_OPTION_SPACE_def)
  show ?thesis
  proof (cases "sack_set_option tp o1 s1")
    case None
    with assms(4) fin [OF r1(1)] show ?thesis by (simp add: tcp_established_options_def 0 1)
  next
    case (Some x)
    then obtain o2 s2 where 2: "sack_set_option tp o1 s1 = Some (o2, s2)" by (cases x) simp
    have r2: "room (unat n) key o2 (40 - s2)" "bpf_opt_len o2 = 0"
      using room_sack_set [OF r1(1,3) 2] r1(2) by simp_all
    obtain o3 r3 where 3: "bpf_skops_hdr_opt_len E o2 (MAX_TCP_OPTION_SPACE - s2) = (o3, r3)" by fastforce
    have "room (unat n) key o3 r3"
      using room_bpf [OF r2(1) assms(3) r2(2)] 3 by (simp add: MAX_TCP_OPTION_SPACE_def)
    then have "exact_size (unat n) key (MAX_TCP_OPTION_SPACE - r3) o3" by (rule room_exact)
    with assms(4) fin [OF r2(1)] 3 show ?thesis
      by (auto simp: tcp_established_options_def 0 1 2 split: if_splits)
  qed
qed

section \<open>The bytes that are written\<close>

lemma length_be32 [simp]: "length (be32 w) = 4"
  by (simp add: be32_def)

lemma length_sack_blocks [simp]: "length (sack_blocks_write bs) = 8 * length bs"
  by (induction bs) (auto simp: sack_blocks_write_def)

lemma length_smc: "length (smc_options_write have_smc fs) = (if have_smc \<and> OPTION_SMC \<in> fs then 8 else 0)"
  by (simp add: smc_options_write_def)

lemma fill_to_word: "n + (if n mod 4 = 2 then 2 else 0) \<le> (n + 3) div 4 * (4 :: nat)"
  by (split if_split) presburger

lemma length_fastopen_body:
  assumes "cookie_ok (Some c)"
  shows "length (fastopen_body c len) = nat (foc_len c) + (if foc_exp c then 4 else 2) + (if len mod 4 = 2 then 2 else 0)"
  using assms by (auto simp: cookie_ok_def fastopen_body_def nat_le_iff)

lemma length_fastopen:
  assumes "cookie_ok (Some c)" and "0 \<le> foc_len c"
  shows "length (fastopen_options_write c) = unat (cookie_need c)"
proof -
  let ?len = "nat (foc_len c) + (if foc_exp c then 4 else 2)"
  have n: "foc_len c \<le> 16" using assms by (simp add: cookie_ok_def)
  have base: "unat (if foc_exp c then TCPOLEN_EXP_FASTOPEN_BASE else TCPOLEN_FASTOPEN_BASE) =
      (if foc_exp c then 4 else 2)" by (simp add: tcpopt_defs)
  show ?thesis
    unfolding cookie_need_unat [OF assms(2) n] fastopen_options_write_def Let_def base
    using fill_to_word [of ?len] length_fastopen_body [OF assms(1), of ?len]
    by (simp only: length_append length_replicate) linarith
qed

text \<open>The key has a successor where the option needs one.\<close>

definition ao_ready :: "(u8 \<times> u8) option \<Rightarrow> tcp_key \<Rightarrow> bool" where
  "ao_ready tcprsk key = (case key of
     KEY_AO _ _ _ _ rnext \<Rightarrow> tcprsk \<noteq> None \<or> rnext \<noteq> None
   | _ \<Rightarrow> True)"

lemma length_ao:
  assumes "key_ok (KEY_AO mlen len aligned snd_id rnext)" and "tcprsk \<noteq> None \<or> rnext \<noteq> None"
  shows "length (fst (process_tcp_ao_options tcprsk mlen len snd_id rnext)) = unat aligned"
proof -
  let ?m = "unat mlen"
  have "(?m + 7) div 4 * 4 = 4 + ?m div 4 * 4 + (if ?m mod 4 \<noteq> 0 then 4 else 0)"
    by (cases "?m mod 4 = 0") (auto, presburger+)
  moreover have "unat aligned = (?m + 7) div 4 * 4" using assms(1) by (simp add: key_ok_def add.commute)
  ultimately show ?thesis
    using assms(2) by (cases tcprsk; cases rnext) (auto simp: process_tcp_ao_options_def Let_def)
qed

lemma length_key:
  assumes "key_ok key" and "ao_ready tcprsk key"
  shows "length (fst (key_options_write tcprsk opts key)) = key_len key"
proof (cases key)
  case (KEY_AO mlen len aligned snd_id rnext)
  with assms length_ao [of mlen len aligned snd_id rnext tcprsk] show ?thesis
    by (auto simp: key_options_write_def key_len_def ao_ready_def split_beta)
qed (simp_all add: key_options_write_def key_len_def)

text \<open>What the writer relies on: the options it finds are set together with what they carry.\<close>

definition writable :: "bool \<Rightarrow> u8 list \<Rightarrow> opt_sock \<Rightarrow> (u8 \<times> u8) option \<Rightarrow> tcp_out_options \<Rightarrow> tcp_key \<Rightarrow> bool" where
  "writable have_smc mptcp tp tcprsk opts key \<longleftrightarrow>
     key_ok key \<and> ao_ready tcprsk key \<and> unat (num_sack_blocks opts) \<le> length (sack_list tp) \<and>
     (OPTION_SMC \<in> options opts \<longrightarrow> have_smc) \<and>
     \<not> (OPTION_SMC \<in> options opts \<and> OPTION_MPTCP \<in> options opts) \<and>
     cookie_ok (fastopen_cookie opts) \<and>
     (case fastopen_cookie opts of None \<Rightarrow> True | Some c \<Rightarrow> 0 \<le> foc_len c)"

lemma length_tail:
  assumes "OPTION_SMC \<in> fs \<longrightarrow> have_smc" and "\<not> (OPTION_SMC \<in> fs \<and> OPTION_MPTCP \<in> fs)"
  shows "length (overwrite (smc_options_write have_smc fs) (mptcp_options_write mptcp fs)) =
    (if OPTION_SMC \<in> fs then 8 else 0) + (if OPTION_MPTCP \<in> fs then length mptcp else 0)"
  using assms by (auto simp: overwrite_def mptcp_options_write_def length_smc)

lemma write_length:
  assumes "writable have_smc mptcp tp tcprsk opts key"
    and "tcp_options_write have_smc mptcp tp tcprsk opts key = (bytes, opts', tp')"
  shows "length bytes = options_len (length mptcp) key opts"
proof -
  obtain mac opts1 where mac: "key_options_write tcprsk opts key = (mac, opts1)" by fastforce
  obtain blocks tp1 where blocks: "sack_options_write tp opts = (blocks, tp1)" by fastforce
  have "length mac = key_len key"
    using length_key [of key tcprsk opts] assms(1) mac by (simp add: writable_def)
  moreover have "length (fixed_options_write opts) =
      (if opt_mss opts \<noteq> 0 then 4 else 0) + (if OPTION_TS \<in> options opts then 12 else 0) +
      (if OPTION_SACK_ADVERTISE \<in> options opts \<and> OPTION_TS \<notin> options opts then 4 else 0) +
      (if OPTION_WSCALE \<in> options opts then 4 else 0)"
    by (simp add: fixed_options_write_def mss_options_write_def ts_options_write_def wscale_options_write_def)
  moreover have "length blocks = (if num_sack_blocks opts \<noteq> 0 then 4 + 8 * unat (num_sack_blocks opts) else 0)"
    using assms(1) blocks by (auto simp: sack_options_write_def writable_def split: if_splits)
  moreover have "length (cookie_options_write opts) = (case fastopen_cookie opts of
      Some c \<Rightarrow> if OPTION_FAST_OPEN_COOKIE \<in> options opts then unat (cookie_need c) else 0 | None \<Rightarrow> 0)"
    using assms(1) length_fastopen by (auto simp: cookie_options_write_def writable_def split: option.splits)
  moreover note length_tail [of "options opts" have_smc mptcp]
  ultimately show ?thesis
    using assms unfolding writable_def
    by (auto simp: tcp_options_write_def mac blocks options_len_def split del: if_split)
qed

lemma bpf_write_length:
  assumes "\<forall>k bs. prog k = Some bs \<longrightarrow> length bs \<le> k"
  shows "length (bpf_skops_write_hdr_opt prog opts) = unat (bpf_opt_len opts)"
  using assms by (auto simp: bpf_skops_write_hdr_opt_def Let_def split: option.split)

end
