(* ===== verification/Option_Wire.thy ===== *)
theory Option_Wire
  imports Tcp_Options
begin

text \<open>
  The wire format of TCP options (RFC 9293, section 3.1): a kind of one byte, for every kind but the
  filler a length, and the rest.  \<open>wire_options\<close> says what the options of a segment mean, and the
  lemmas show that a reader of the bytes of \<open>tcp_options_write\<close> finds exactly that.
\<close>

section \<open>A reader\<close>

text \<open>The end marker is not accepted: the kernel pads with fillers only.\<close>

function parse_options :: "opt_bytes \<Rightarrow> (u8 \<times> opt_bytes) list option" where
  "parse_options [] = Some []"
| "parse_options (None # bs) = None"
| "parse_options (Some k # bs) =
     (if k = 1 then parse_options bs
      else if k = 0 then None
      else case bs of
          Some l # rest \<Rightarrow>
            if 2 \<le> unat l \<and> unat l - 2 \<le> length rest
            then map_option (Cons (k, take (unat l - 2) rest)) (parse_options (drop (unat l - 2) rest))
            else None
        | _ \<Rightarrow> None)"
  by pat_completeness auto
termination
  by (relation "measure length") auto

lemma parse_append:
  "parse_options a = Some xs \<Longrightarrow> parse_options (a @ b) = map_option ((@) xs) (parse_options b)"
proof (induction a arbitrary: xs rule: parse_options.induct)
  case (3 k bs)
  show ?case
  proof (cases "k = 1")
    case True
    with 3 show ?thesis by simp
  next
    case False
    with 3(3) obtain l rest where bs: "bs = Some l # rest" "k \<noteq> 0" "2 \<le> unat l" "unat l - 2 \<le> length rest"
      by (auto split: list.splits option.splits if_splits)
    with 3(3) False obtain ys where ys: "parse_options (drop (unat l - 2) rest) = Some ys"
        "xs = (k, take (unat l - 2) rest) # ys" by auto
    have "parse_options (drop (unat l - 2) rest @ b) = map_option ((@) ys) (parse_options b)"
      using 3(2) False bs ys(1) by blast
    with False bs ys(2) show ?thesis by (simp add: option.map_comp comp_def)
  qed
qed (auto simp: option.map_ident_strong)

lemma parse_two:
  "parse_options a = Some xs \<Longrightarrow> parse_options b = Some ys \<Longrightarrow> parse_options (a @ b) = Some (xs @ ys)"
  by (simp add: parse_append)

text \<open>One option, and a filler, in front.\<close>

lemma parse_nop [simp]: "parse_options (Some 1 # bs) = parse_options bs"
  by simp

lemma parse_option:
  assumes "1 < k" and "unat l = length body + 2"
  shows "parse_options (Some k # Some l # body @ bs) = map_option (Cons (k, body)) (parse_options bs)"
proof -
  have "k \<noteq> 1" "k \<noteq> 0" using assms(1) by auto
  with assms(2) show ?thesis by simp
qed

declare parse_options.simps(3) [simp del]

lemma parse_option_last:
  assumes "1 < k" and "unat l = length body + 2"
  shows "parse_options (Some k # Some l # body) = Some [(k, body)]"
  using parse_option [OF assms, of "[]"] by simp

lemma parse_nops: "parse_options (replicate n (Some 1) @ bs) = parse_options bs"
  by (induction n) simp_all

section \<open>Words in memory\<close>

lemma bit_u8_high: "8 \<le> n \<Longrightarrow> \<not> bit (a :: u8) n"
  by (auto dest: bit_imp_le_length)

lemma be32_pack4:
  "be32 (pack4 (ucast a) (ucast b) (ucast c) (ucast d)) = map Some [a, b, c, d]"
proof -
  have "ucast (drop_bit 24 (pack4 (ucast a) (ucast b) (ucast c) (ucast d))) = a"
    "ucast (drop_bit 16 (pack4 (ucast a) (ucast b) (ucast c) (ucast d))) = b"
    "ucast (drop_bit 8 (pack4 (ucast a) (ucast b) (ucast c) (ucast d))) = c"
    "ucast (pack4 (ucast a) (ucast b) (ucast c) (ucast d)) = d"
    by (auto intro!: bit_word_eqI simp: pack4_def bit_simps bit_u8_high)
  then show ?thesis by (simp add: be32_def)
qed

lemma be32_mss:
  "be32 (push_bit 24 (ucast a) OR push_bit 16 (ucast b) OR ucast (w :: u16)) =
   map Some [a, b, ucast (drop_bit 8 w), ucast w]"
proof -
  have hi: "\<not> bit w n" if "16 \<le> n" for n using that by (auto dest: bit_imp_le_length)
  let ?w = "push_bit 24 (ucast a) OR push_bit 16 (ucast b) OR ucast w :: u32"
  have "ucast (drop_bit 24 ?w) = a" "ucast (drop_bit 16 ?w) = b" "ucast (drop_bit 8 ?w) = (ucast (drop_bit 8 w) :: u8)"
    "ucast ?w = (ucast w :: u8)"
    by (auto intro!: bit_word_eqI simp: bit_simps bit_u8_high hi)
  then show ?thesis by (simp add: be32_def)
qed

section \<open>What the options mean\<close>

definition key_wire :: "(u8 \<times> u8) option \<Rightarrow> tcp_key \<Rightarrow> (u8 \<times> opt_bytes) list" where
  "key_wire tcprsk key = (case key of
     KEY_NONE \<Rightarrow> []
   | KEY_MD5 \<Rightarrow> [(19, replicate 16 None)]
   | KEY_AO mlen len aligned snd_id rnext \<Rightarrow>
       (case (case tcprsk of Some ids \<Rightarrow> Some ids | None \<Rightarrow> map_option (Pair snd_id) rnext) of
          None \<Rightarrow> []
        | Some (keyid, next_id) \<Rightarrow>
            [(29, [Some keyid, Some next_id] @ replicate (unat mlen div 4 * 4) None @
                  replicate (unat mlen mod 4) (Some 1))]))"

definition fixed_wire :: "tcp_out_options \<Rightarrow> (u8 \<times> opt_bytes) list" where
  "fixed_wire opts =
     (if opt_mss opts \<noteq> 0 then [(2, map Some [ucast (drop_bit 8 (opt_mss opts)), ucast (opt_mss opts)])] else []) @
     (if OPTION_TS \<in> options opts
      then (if OPTION_SACK_ADVERTISE \<in> options opts then [(4, [])] else []) @
           [(8, be32 (tsval opts) @ be32 (tsecr opts))]
      else if OPTION_SACK_ADVERTISE \<in> options opts then [(4, [])] else []) @
     (if OPTION_WSCALE \<in> options opts then [(3, [Some (opt_ws opts)])] else [])"

definition sack_wire :: "opt_sock \<Rightarrow> tcp_out_options \<Rightarrow> (u8 \<times> opt_bytes) list" where
  "sack_wire tp opts =
     (if num_sack_blocks opts \<noteq> 0
      then [(5, sack_blocks_write (take (unat (num_sack_blocks opts)) (sack_list tp)))] else [])"

definition cookie_wire :: "tcp_out_options \<Rightarrow> (u8 \<times> opt_bytes) list" where
  "cookie_wire opts = (case fastopen_cookie opts of
     Some c \<Rightarrow>
       if OPTION_FAST_OPEN_COOKIE \<in> options opts
       then (let v = map Some (take (nat (foc_len c)) (foc_val c))
             in [if foc_exp c then (254, map Some [0xF9, 0x89] @ v) else (34, v)])
       else []
   | None \<Rightarrow> [])"

definition tail_wire :: "(u8 \<times> opt_bytes) list \<Rightarrow> option_flag set \<Rightarrow> (u8 \<times> opt_bytes) list" where
  "tail_wire mptcp fs =
     (if OPTION_SMC \<in> fs then [(254, map Some [0xE2, 0xD4, 0xC3, 0xD9])] else []) @
     (if OPTION_MPTCP \<in> fs then mptcp else [])"

text \<open>The options of a segment, in the order they are sent; \<open>mptcp\<close> are those of MPTCP.\<close>

definition wire_options ::
  "(u8 \<times> opt_bytes) list \<Rightarrow> opt_sock \<Rightarrow> (u8 \<times> u8) option \<Rightarrow> tcp_out_options \<Rightarrow> tcp_key \<Rightarrow> (u8 \<times> opt_bytes) list" where
  "wire_options mptcp tp tcprsk opts key =
     key_wire tcprsk key @ fixed_wire opts @ sack_wire tp opts @ cookie_wire opts @ tail_wire mptcp (options opts)"

section \<open>The reader finds them\<close>

lemma parse_const:
  "parse_options (be32 (pack4 TCPOPT_NOP TCPOPT_NOP TCPOPT_SACK_PERM TCPOLEN_SACK_PERM)) = Some [(4, [])]"
  "parse_options (be32 (pack4 TCPOPT_NOP TCPOPT_NOP TCPOPT_MD5SIG TCPOLEN_MD5SIG) @ replicate 16 None) =
     Some [(19, replicate 16 None)]"
  "parse_options (be32 (pack4 TCPOPT_NOP TCPOPT_NOP TCPOPT_TIMESTAMP TCPOLEN_TIMESTAMP) @ be32 v @ be32 e) =
     Some [(8, be32 v @ be32 e)]"
  "parse_options (be32 (pack4 TCPOPT_SACK_PERM TCPOLEN_SACK_PERM TCPOPT_TIMESTAMP TCPOLEN_TIMESTAMP) @ be32 v @ be32 e) =
     Some [(4, []), (8, be32 v @ be32 e)]"
  "parse_options (be32 (pack4 TCPOPT_NOP TCPOPT_NOP TCPOPT_EXP TCPOLEN_EXP_SMC_BASE) @ be32 TCPOPT_SMC_MAGIC) =
     Some [(254, map Some [0xE2, 0xD4, 0xC3, 0xD9])]"
proof -
  have c: "TCPOPT_NOP = ucast (1 :: u8)" "TCPOPT_SACK_PERM = ucast (4 :: u8)" "TCPOLEN_SACK_PERM = ucast (2 :: u8)"
    "TCPOPT_MD5SIG = ucast (19 :: u8)" "TCPOLEN_MD5SIG = ucast (18 :: u8)" "TCPOPT_TIMESTAMP = ucast (8 :: u8)"
    "TCPOLEN_TIMESTAMP = ucast (10 :: u8)" "TCPOPT_EXP = ucast (254 :: u8)" "TCPOLEN_EXP_SMC_BASE = ucast (6 :: u8)"
    by (simp_all add: tcpopt_defs)
  show "parse_options (be32 (pack4 TCPOPT_NOP TCPOPT_NOP TCPOPT_SACK_PERM TCPOLEN_SACK_PERM)) = Some [(4, [])]"
    unfolding c be32_pack4 by (simp add: parse_option_last)
  show "parse_options (be32 (pack4 TCPOPT_NOP TCPOPT_NOP TCPOPT_MD5SIG TCPOLEN_MD5SIG) @ replicate 16 None) =
     Some [(19, replicate 16 None)]"
    unfolding c be32_pack4 by (simp add: parse_option_last)
  show "parse_options (be32 (pack4 TCPOPT_NOP TCPOPT_NOP TCPOPT_TIMESTAMP TCPOLEN_TIMESTAMP) @ be32 v @ be32 e) =
     Some [(8, be32 v @ be32 e)]"
    unfolding c be32_pack4 by (simp add: parse_option_last)
  show "parse_options (be32 (pack4 TCPOPT_SACK_PERM TCPOLEN_SACK_PERM TCPOPT_TIMESTAMP TCPOLEN_TIMESTAMP) @ be32 v @ be32 e) =
     Some [(4, []), (8, be32 v @ be32 e)]"
    unfolding c be32_pack4 using parse_option [of 4 2 "[]"] by (simp add: parse_option_last)
  show "parse_options (be32 (pack4 TCPOPT_NOP TCPOPT_NOP TCPOPT_EXP TCPOLEN_EXP_SMC_BASE) @ be32 TCPOPT_SMC_MAGIC) =
     Some [(254, map Some [0xE2, 0xD4, 0xC3, 0xD9])]"
    unfolding c be32_pack4 by (simp add: parse_option_last be32_def TCPOPT_SMC_MAGIC_def)
qed

lemma parse_mss:
  "parse_options (be32 (push_bit 24 TCPOPT_MSS OR push_bit 16 TCPOLEN_MSS OR ucast (w :: u16))) =
   Some [(2, map Some [ucast (drop_bit 8 w), ucast w])]"
proof -
  have c: "TCPOPT_MSS = ucast (2 :: u8)" "TCPOLEN_MSS = ucast (4 :: u8)" by (simp_all add: tcpopt_defs)
  show ?thesis unfolding c be32_mss by (simp add: parse_option_last)
qed

lemma parse_wscale:
  "parse_options (be32 (pack4 TCPOPT_NOP TCPOPT_WINDOW TCPOLEN_WINDOW (ucast (ws :: u8)))) = Some [(3, [Some ws])]"
proof -
  have c: "TCPOPT_NOP = ucast (1 :: u8)" "TCPOPT_WINDOW = ucast (3 :: u8)" "TCPOLEN_WINDOW = ucast (3 :: u8)"
    by (simp_all add: tcpopt_defs)
  show ?thesis unfolding c be32_pack4 by (simp add: parse_option_last)
qed

lemma parse_fixed: "parse_options (fixed_options_write opts) = Some (fixed_wire opts)"
  unfolding fixed_options_write_def fixed_wire_def
  by (intro parse_two)
    (auto simp: mss_options_write_def ts_options_write_def wscale_options_write_def parse_mss parse_wscale parse_const)

lemma parse_sacks:
  assumes "unat (num_sack_blocks opts) \<le> length (sack_list tp)" and "unat (num_sack_blocks opts) \<le> 4"
  shows "parse_options (fst (sack_options_write tp opts)) = Some (sack_wire tp opts)"
proof -
  let ?n = "num_sack_blocks opts"
  have c: "TCPOPT_NOP = ucast (1 :: u8)" "TCPOPT_SACK = ucast (5 :: u8)" by (simp_all add: tcpopt_defs)
  have u: "unat (2 + ?n * 8) = 8 * unat ?n + 2" using assms(2) by (simp add: unat_word_ariths)
  have "TCPOLEN_SACK_BASE + ucast ?n * TCPOLEN_SACK_PERBLOCK = ucast (2 + ?n * 8)"
    by (rule word_unat_eq_iff [THEN iffD2])
      (use assms(2) in \<open>simp add: tcpopt_defs unat_ucast8 u, simp add: unat_word_ariths unat_ucast8\<close>)
  then have w: "be32 (pack4 TCPOPT_NOP TCPOPT_NOP TCPOPT_SACK (TCPOLEN_SACK_BASE + ucast ?n * TCPOLEN_SACK_PERBLOCK)) =
      map Some [1, 1, 5, 2 + ?n * 8]"
    unfolding c by (simp only: be32_pack4)
  show ?thesis
    using assms u by (simp add: sack_options_write_def sack_wire_def w parse_option_last)
qed


lemma parse_ao_mac:
  assumes "unat l = m + 4"
  shows "parse_options (map Some [29, l, keyid, next_id] @ replicate (m div 4 * 4) None @
      (if m mod 4 \<noteq> 0 then replicate 4 (Some 1) else [])) =
    Some [(29, [Some keyid, Some next_id] @ replicate (m div 4 * 4) None @ replicate (m mod 4) (Some 1))]"
proof -
  let ?body = "[Some keyid, Some next_id] @ replicate (m div 4 * 4) None @ replicate (m mod 4) (Some 1)"
  have l: "unat l = length ?body + 2" using assms by simp
  have "(if m mod 4 \<noteq> 0 then replicate 4 (Some 1) else []) =
      replicate (m mod 4) (Some (1 :: u8)) @ replicate (if m mod 4 \<noteq> 0 then 4 - m mod 4 else 0) (Some 1)"
    by (auto simp: replicate_add [symmetric])
  then have "map Some [29, l, keyid, next_id] @ replicate (m div 4 * 4) None @
      (if m mod 4 \<noteq> 0 then replicate 4 (Some 1) else []) =
    Some 29 # Some l # ?body @ replicate (if m mod 4 \<noteq> 0 then 4 - m mod 4 else 0) (Some 1) @ []"
    by simp
  moreover have "parse_options (Some 29 # Some l # ?body @
      replicate (if m mod 4 \<noteq> 0 then 4 - m mod 4 else 0) (Some 1) @ []) = Some [(29, ?body)]"
    by (subst parse_option [OF _ l]) (simp_all add: parse_nops del: append_Nil2)
  ultimately show ?thesis by (simp only:)
qed

lemma parse_key:
  assumes "key_ok key" and "ao_ready tcprsk key"
  shows "parse_options (fst (key_options_write tcprsk opts key)) = Some (key_wire tcprsk key)"
proof (cases key)
  case (KEY_AO mlen len aligned snd_id rnext)
  have ok: "unat len = unat mlen + 4" "unat mlen + 7 \<le> 27"
    using assms(1) unfolding KEY_AO key_ok_def tcp_key.case by linarith+
  have c: "TCPOPT_AO = ucast (29 :: u8)" "ucast TCPOPT_NOP = (1 :: u8)" by (simp_all add: tcpopt_defs)
  have l: "unat (mlen + 4) = unat mlen + 4" using ok(2) by (simp add: unat_word_ariths)
  have len: "len = ucast (mlen + 4)"
    using ok(1) l by (intro word_unat_eq_iff [THEN iffD2]) (simp only: unat_ucast8)
  obtain keyid next_id where ids: "tcprsk = Some (keyid, next_id) \<or> tcprsk = None \<and> keyid = snd_id \<and> rnext = Some next_id"
    using assms(2) unfolding KEY_AO ao_ready_def by (cases tcprsk) auto
  then have "fst (key_options_write tcprsk opts key) = map Some [29, mlen + 4, keyid, next_id] @
      replicate (unat mlen div 4 * 4) None @ (if unat mlen mod 4 \<noteq> 0 then replicate 4 (Some 1) else [])"
    unfolding KEY_AO key_options_write_def process_tcp_ao_options_def len c
    by (auto simp only: be32_pack4 Let_def tcp_key.case option.case prod.case fst_conv)
  moreover have "key_wire tcprsk key = [(29, [Some keyid, Some next_id] @ replicate (unat mlen div 4 * 4) None @
      replicate (unat mlen mod 4) (Some 1))]"
    using ids by (auto simp: KEY_AO key_wire_def)
  ultimately show ?thesis using parse_ao_mac [OF l] by (simp only:)
qed (simp_all add: key_options_write_def key_wire_def parse_const)

lemma even_fill: "even n \<Longrightarrow> (n + 3) div 4 * 4 = n + (if n mod 4 = 2 then 2 else 0 :: nat)"
  by (split if_split) presburger

text \<open>Cookies are of even length.\<close>

lemma parse_cookie:
  assumes "cookie_ok (Some c)" and "0 \<le> foc_len c" and "even (foc_len c)"
  shows "parse_options (fastopen_options_write c) =
    Some [let v = map Some (take (nat (foc_len c)) (foc_val c))
          in if foc_exp c then (254, map Some [0xF9, 0x89] @ v) else (34, v)]"
proof -
  let ?n = "nat (foc_len c)" and ?b = "if foc_exp c then 4 else 2 :: nat"
  define len where "len = ?n + ?b"
  let ?v = "map Some (take (nat (foc_len c)) (foc_val c))"
  have n: "?n \<le> 16" "even ?n" "length ?v = ?n"
    using assms by (auto simp: cookie_ok_def even_nat_iff)
  have base: "unat (if foc_exp c then TCPOLEN_EXP_FASTOPEN_BASE else TCPOLEN_FASTOPEN_BASE) = ?b"
    by (simp add: tcpopt_defs)
  have "(len + 3) div 4 * 4 = len + (if len mod 4 = 2 then 2 else 0)"
    using n(2) by (intro even_fill) (simp add: len_def)
  then have w: "fastopen_options_write c = fastopen_body c len"
    unfolding fastopen_options_write_def Let_def base len_def [symmetric]
    using length_fastopen_body [OF assms(1), of len] by (simp add: len_def)
  have "len < 256" using n(1) by (simp add: len_def)
  then have l: "unat (of_nat len :: u8) = len" "unat (of_nat len :: u32) = len"
    by (simp_all add: unsigned_of_nat take_bit_nat_eq_self)
  let ?fill = "if len mod 4 = 2 then replicate 2 (Some (ucast TCPOPT_NOP :: u8)) else []"
  have fill: "parse_options ?fill = Some []" by (simp add: TCPOPT_NOP_def numeral_2_eq_2)
  show ?thesis
  proof (cases "foc_exp c")
    case True
    have c: "TCPOPT_EXP = ucast (254 :: u8)" "TCPOPT_FASTOPEN_MAGIC = ucast (0xF989 :: u16)"
      "(of_nat len :: u32) = ucast (of_nat len :: u8)"
      using l by (simp_all only: tcpopt_defs word_unat_eq_iff unat_ucast8) simp_all
    have "fastopen_body c len = Some 254 # Some (of_nat len) # (map Some [0xF9, 0x89] @ ?v) @ ?fill"
      using True unfolding fastopen_body_def c be32_mss by simp
    moreover have "unat (of_nat len :: u8) = length (map Some [0xF9, 0x89 :: u8] @ ?v) + 2"
      using l n True by (simp add: len_def)
    from parse_option [OF _ this, of 254 ?fill] have "parse_options (Some 254 # Some (of_nat len) #
        (map Some [0xF9, 0x89] @ ?v) @ ?fill) = Some [(254, map Some [0xF9, 0x89] @ ?v)]"
      unfolding fill by simp
    ultimately show ?thesis using True unfolding w Let_def by (simp only: if_True)
  next
    case False
    have "fastopen_body c len = Some 34 # Some (of_nat len) # ?v @ ?fill"
      using False by (simp add: fastopen_body_def TCPOPT_FASTOPEN_def)
    moreover have "unat (of_nat len :: u8) = length ?v + 2" using l n False by (simp add: len_def)
    ultimately show ?thesis using False by (simp add: w parse_option fill)
  qed
qed

text \<open>The whole header: everything that was asked for, in order, and nothing else.\<close>

definition readable :: "u8 list \<Rightarrow> (u8 \<times> opt_bytes) list \<Rightarrow> tcp_out_options \<Rightarrow> bool" where
  "readable mptcp mptcp_opts opts \<longleftrightarrow> parse_options (map Some mptcp) = Some mptcp_opts \<and>
     unat (num_sack_blocks opts) \<le> 4 \<and>
     (case fastopen_cookie opts of None \<Rightarrow> True | Some c \<Rightarrow> even (foc_len c))"

lemma parse_tail:
  assumes "OPTION_SMC \<in> fs \<longrightarrow> have_smc" and "\<not> (OPTION_SMC \<in> fs \<and> OPTION_MPTCP \<in> fs)"
    and "parse_options (map Some mptcp) = Some mptcp_opts"
  shows "parse_options (overwrite (smc_options_write have_smc fs) (mptcp_options_write mptcp fs)) =
    Some (tail_wire mptcp_opts fs)"
  using assms
  by (auto simp: overwrite_def mptcp_options_write_def smc_options_write_def tail_wire_def parse_const)

lemma parse_written:
  assumes "writable have_smc mptcp tp tcprsk opts key" and "readable mptcp mptcp_opts opts"
    and "tcp_options_write have_smc mptcp tp tcprsk opts key = (bytes, opts', tp')"
  shows "parse_options bytes = Some (wire_options mptcp_opts tp tcprsk opts key)"
proof -
  have "parse_options (cookie_options_write opts) = Some (cookie_wire opts)"
    using assms(1,2) parse_cookie
    by (auto simp: writable_def readable_def cookie_options_write_def cookie_wire_def Let_def split: option.splits)
  moreover have "bytes = fst (key_options_write tcprsk opts key) @ fixed_options_write opts @
      fst (sack_options_write tp opts) @ cookie_options_write opts @
      overwrite (smc_options_write have_smc (options opts)) (mptcp_options_write mptcp (options opts))"
    using assms(3) by (simp add: tcp_options_write_def split_beta)
  ultimately show ?thesis
    using assms(1,2) unfolding wire_options_def writable_def readable_def
    by (simp add: parse_two parse_key parse_fixed parse_sacks parse_tail)
qed

section \<open>The options that are chosen can be written\<close>

text \<open>What \<open>tcp_syn_options\<close> and its siblings guarantee of the fields the writer looks at.\<close>

definition well_set :: "opt_env \<Rightarrow> bool \<Rightarrow> bool \<Rightarrow> tcp_out_options \<Rightarrow> bool" where
  "well_set E smc mp opts \<longleftrightarrow> num_sack_blocks opts = 0 \<and> cookie_ok (fastopen_cookie opts) \<and>
     (case fastopen_cookie opts of None \<Rightarrow> True | Some c \<Rightarrow> 0 \<le> foc_len c) \<and>
     (OPTION_SMC \<in> options opts \<longrightarrow> e_have_smc E \<and> smc) \<and> (OPTION_MPTCP \<in> options opts \<longrightarrow> mp)"

lemma well_set_fastopen:
  assumes "well_set E smc mp opts" and "cookie_ok foc" and "fastopen_set_option foc opts r = (u, opts', r')"
  shows "well_set E smc mp opts'"
  using assms by (auto simp: well_set_def fastopen_set_option_def split: option.splits if_splits)

lemma well_set_smc:
  assumes "well_set E (os_syn_smc tp) mp opts" and "smc_set_option E tp opts r = (opts', r')"
  shows "well_set E (os_syn_smc tp) mp opts'"
  using assms by (auto simp: well_set_def smc_set_option_def split: if_splits)

lemma well_set_smc_cond:
  assumes "well_set E (os_syn_smc tp) mp opts" and "smc_set_option_cond E tp ireq opts r = (opts', r')"
  shows "well_set E (os_syn_smc tp) mp opts'"
  using assms by (auto simp: well_set_def smc_set_option_cond_def split: if_splits)

lemma well_set_mptcp:
  assumes "well_set E smc (answer \<noteq> None) opts" and "mptcp_set_option answer opts r = (opts', r')"
  shows "well_set E smc (answer \<noteq> None) opts'"
  using assms by (auto simp: well_set_def mptcp_set_option_def split: option.splits if_splits)

lemma well_set_bpf:
  assumes "well_set E smc mp opts" and "bpf_skops_hdr_opt_len E' opts r = (opts', r')"
  shows "well_set E smc mp opts'"
  using assms by (auto simp: well_set_def bpf_skops_hdr_opt_len_def Let_def split: option.splits if_splits)

lemmas well_set_steps = well_set_fastopen well_set_smc well_set_smc_cond well_set_mptcp well_set_bpf

lemma well_set_writable:
  assumes "well_set E smc mp opts" and "\<not> (smc \<and> mp)" and "key_ok key" and "ao_ready tcprsk key"
  shows "writable (e_have_smc E) mptcp tp tcprsk opts key"
  using assms by (auto simp: well_set_def writable_def)

lemma syn_well_set:
  assumes "key_ok key" and "fst (tcp_advertise_mss E tp) \<noteq> 0" and "cookie_ok (os_fastopen tp)"
    and "tcp_syn_options E tp key no_options = (sz, opts, tp')"
  shows "well_set E (os_syn_smc tp) (e_mptcp_syn E \<noteq> None) opts"
proof -
  obtain o0 r0 tp0 where 0: "syn_fixed_options E tp key no_options = (o0, r0, tp0)" by (metis prod.exhaust)
  obtain u o1 r1 where 1: "fastopen_set_option (os_fastopen tp0) o0 r0 = (u, o1, r1)" by (metis prod.exhaust)
  define tp1 where "tp1 = (if u then tp0\<lparr>os_syn_fastopen := True, os_syn_fastopen_exp :=
      (case os_fastopen tp0 of Some c \<Rightarrow> foc_exp c | None \<Rightarrow> False)\<rparr> else tp0)"
  obtain o2 r2 where 2: "smc_set_option E tp1 o1 r1 = (o2, r2)" by fastforce
  obtain o3 r3 where 3: "mptcp_set_option (e_mptcp_syn E) o2 r2 = (o3, r3)" by fastforce
  obtain o4 r4 where 4: "bpf_skops_hdr_opt_len E o3 r3 = (o4, r4)" by fastforce
  have tp: "os_syn_smc tp1 = os_syn_smc tp" "os_fastopen tp0 = os_fastopen tp"
    using syn_fixed_frame [OF 0] by (simp_all add: tp1_def)
  let ?W = "well_set E (os_syn_smc tp) (e_mptcp_syn E \<noteq> None)"
  have "?W o0" using room_syn_fixed [OF assms(1,2) 0, of 0] by (auto simp: well_set_def cookie_ok_def)
  then have "?W o1" using assms(3) 1 unfolding tp by (rule well_set_fastopen)
  then have "?W o2" using well_set_smc [OF _ 2] unfolding tp by blast
  then have "?W o3" using well_set_mptcp [OF _ 3] by blast
  then have "?W o4" using well_set_bpf [OF _ 4] by blast
  then show ?thesis using assms(4) by (simp add: tcp_syn_options_def 0 1 2 3 4 tp1_def [symmetric])
qed

lemma synack_well_set:
  assumes "key_ok key" and "(ucast mss :: u16) \<noteq> 0" and "cookie_ok foc"
    and "tcp_synack_options E tp ireq mss key foc cookie no_options = (sz, opts, ireq')"
  shows "well_set E (os_syn_smc tp) (e_mptcp_synack E \<noteq> None) opts"
proof -
  obtain o0 r0 q0 where 0: "synack_fixed_options E ireq mss key cookie no_options = (o0, r0, q0)" by (metis prod.exhaust)
  obtain u o1 r1 where 1: "fastopen_set_option foc o0 r0 = (u, o1, r1)" by (metis prod.exhaust)
  obtain o2 r2 where 2: "mptcp_set_option (e_mptcp_synack E) o1 r1 = (o2, r2)" by fastforce
  obtain o3 r3 where 3: "smc_set_option_cond E tp q0 o2 r2 = (o3, r3)" by fastforce
  obtain o4 r4 where 4: "bpf_skops_hdr_opt_len E o3 r3 = (o4, r4)" by fastforce
  let ?W = "well_set E (os_syn_smc tp) (e_mptcp_synack E \<noteq> None)"
  have "?W o0" using room_synack_fixed [OF assms(1,2) 0, of 0] by (auto simp: well_set_def cookie_ok_def)
  then have "?W o1" using assms(3) 1 by (rule well_set_fastopen)
  then have "?W o2" using well_set_mptcp [OF _ 2] by blast
  then have "?W o3" using well_set_smc_cond [OF _ 3] by blast
  then have "?W o4" using well_set_bpf [OF _ 4] by blast
  then show ?thesis using assms(4) by (simp add: tcp_synack_options_def mptcp_set_option_cond_def 0 1 2 3 4)
qed

text \<open>On an established connection the blocks that are announced are there.\<close>

definition sacks_ok :: "opt_sock \<Rightarrow> bool" where
  "sacks_ok tp \<longleftrightarrow> length (os_duplicate_sack tp) = 1 \<and> unat (os_num_sacks tp) \<le> length (os_selective_acks tp) \<and>
     unat (os_num_sacks tp) \<le> 4"

lemma est_fixed_frame:
  "est_fixed_options E tp key no_options = (opts, sz) \<Longrightarrow>
   fastopen_cookie opts = None \<and> OPTION_SMC \<notin> options opts \<and> num_sack_blocks opts = 0"
  by (auto simp: est_fixed_options_def no_options_def Let_def split: tcp_key.splits if_splits)

lemma sack_set_length:
  assumes "sacks_ok tp" and "sack_set_option tp opts sz = Some (opts', sz')" and "num_sack_blocks opts = 0"
  shows "unat (num_sack_blocks opts') \<le> length (sack_list tp) \<and>
    options opts' = options opts \<and> fastopen_cookie opts' = fastopen_cookie opts"
proof -
  let ?eff = "ucast (os_num_sacks tp) + (if os_dsack tp then 1 else 0) :: u32"
  have eff: "unat ?eff \<le> length (sack_list tp)" "unat ?eff \<le> 5"
    using assms(1) by (auto simp: sacks_ok_def sack_list_def unat_word_ariths unat_ucast8)
  have "unat (ucast (min ?eff k) :: u8) \<le> unat ?eff" for k :: u32
    using eff(2) by (simp add: unsigned_ucast_eq unat_min take_bit_nat_eq_self min.coboundedI1 le_less_trans)
  then have le: "unat (ucast (min ?eff k) :: u8) \<le> length (sack_list tp)" for k :: u32
    using eff(1) order_trans by blast
  have "num_sack_blocks opts' = 0 \<or> (\<exists>k. num_sack_blocks opts' = ucast (min ?eff k))"
    "options opts' = options opts \<and> fastopen_cookie opts' = fastopen_cookie opts"
    using assms(2,3) by (auto simp: sack_set_option_def Let_def split: if_split_asm)
  with le show ?thesis by auto
qed

lemma established_writable:
  assumes "key_ok key" and "ao_ready tcprsk key" and "sacks_ok tp"
    and "tcp_established_options E tp key no_options = (sz, opts)"
  shows "writable have_smc mptcp tp tcprsk opts key"
proof -
  obtain o0 s0 where 0: "est_fixed_options E tp key no_options = (o0, s0)" by fastforce
  obtain o1 s1 where 1: "(case e_mptcp_established E (MAX_TCP_OPTION_SPACE - s0) of
      Some k \<Rightarrow> (add_option OPTION_MPTCP o0, s0 + k) | None \<Rightarrow> (o0, s0)) = (o1, s1)" by fastforce
  have f1: "fastopen_cookie o1 = None" "OPTION_SMC \<notin> options o1" "num_sack_blocks o1 = 0"
    using est_fixed_frame [OF 0] 1 by (auto split: option.splits)
  have w: "writable have_smc mptcp tp tcprsk o' key" if "fastopen_cookie o' = None" "OPTION_SMC \<notin> options o'"
      "unat (num_sack_blocks o') \<le> length (sack_list tp)" for o'
    using that assms(1,2) by (simp add: writable_def cookie_ok_def)
  show ?thesis
  proof (cases "sack_set_option tp o1 s1")
    case None
    with assms(4) f1 show ?thesis by (auto simp: tcp_established_options_def 0 1 intro!: w)
  next
    case (Some x)
    then obtain o2 s2 where 2: "sack_set_option tp o1 s1 = Some (o2, s2)" by (cases x) simp
    note f2 = sack_set_length [OF assms(3) 2 f1(3)]
    obtain o3 r3 where 3: "bpf_skops_hdr_opt_len E o2 (MAX_TCP_OPTION_SPACE - s2) = (o3, r3)" by fastforce
    have "options o3 = options o2 \<and> fastopen_cookie o3 = fastopen_cookie o2 \<and> num_sack_blocks o3 = num_sack_blocks o2"
      using 3 by (auto simp: bpf_skops_hdr_opt_len_def Let_def split: option.splits if_splits)
    with assms(4) f1 f2 3 show ?thesis
      by (auto simp: tcp_established_options_def 0 1 2 split: if_splits intro!: w)
  qed
qed

end
