(* ===== verification/Props_Options.thy ===== *)
theory Props_Options
  imports Option_Wire
begin

text \<open>
  The properties of the TCP options, with a concrete connection for the witnesses: time stamps, window
  scaling and SACK are on, a Fast Open cookie of eight bytes is known, a BPF program asks for three
  bytes.
\<close>

section \<open>A connection\<close>

definition demo_cookie :: tcp_fastopen_cookie where
  "demo_cookie = \<lparr>foc_val = [1, 2, 3, 4, 5, 6, 7, 8, 0, 0, 0, 0, 0, 0, 0, 0], foc_len = 8, foc_exp = False\<rparr>"

definition demo_env :: opt_env where
  "demo_env = \<lparr>e_timestamps = True, e_window_scaling = True, e_sack = True, e_dst_advmss = Some 1400,
     e_skb_ts = Some 1000, e_have_smc = False, e_mptcp_syn = None, e_mptcp_synack = None,
     e_mptcp_established = (\<lambda>r. None), e_bpf_flag = True, e_bpf = (\<lambda>r. if 3 \<le> r then Some (r - 3) else None)\<rparr>"

definition demo_opt_sock :: opt_sock where
  "demo_opt_sock = \<lparr>os_advmss = 1460, os_tstamp_ok = True, os_ts_recent = 77, os_tsoffset = 5,
     os_rcv_wscale = 7, os_num_sacks = 2, os_dsack = True, os_duplicate_sack = [(10, 20)],
     os_selective_acks = [(30, 40), (50, 60), (0, 0), (0, 0)], os_fastopen = Some demo_cookie,
     os_syn_smc = False, os_syn_fastopen = False, os_syn_fastopen_exp = False\<rparr>"

definition demo_req :: opt_req where
  "demo_req = \<lparr>rq_wscale_ok = True, rq_tstamp_ok = True, rq_sack_ok = True, rq_smc_ok = False,
     rq_rcv_wscale = 7, rq_ts_off = 9, rq_ts_recent = 77\<rparr>"

definition demo_prog :: "nat \<Rightarrow> u8 list option" where
  "demo_prog n = (if 3 \<le> n then Some [253, 3, 0] else None)"

lemma demo_bpf_ok: "bpf_ok demo_env"
  by (auto simp: bpf_ok_def demo_env_def word_le_nat_alt unat_minus_le)

lemma demo_ok:
  "key_ok KEY_NONE" "key_ok KEY_MD5" "ao_ready t KEY_NONE" "ao_ready t KEY_MD5"
  "words_ok (e_mptcp_syn demo_env) 0" "words_ok (e_mptcp_synack demo_env) 0" "mptcp_ok demo_env 0"
  "cookie_ok (os_fastopen demo_opt_sock)" "cookie_ok (Some demo_cookie)" "sacks_ok demo_opt_sock"
  "fst (tcp_advertise_mss demo_env demo_opt_sock) \<noteq> 0" "os_syn_smc demo_opt_sock = False"
  "unat (0 :: u32) = length ([] :: u8 list)"
  by (simp_all add: key_ok_def ao_ready_def words_ok_def mptcp_ok_def cookie_ok_def sacks_ok_def demo_env_def
      demo_opt_sock_def demo_cookie_def tcp_advertise_mss_def)

section \<open>Sizes\<close>

text \<open>C17: for SYN, SYN-ACK and established segments the size that is returned is exactly the sum of
  the options that were chosen and of the room for the BPF program, is a multiple of four, and never
  exceeds the 40 bytes a TCP header has.  The subtractions of unsigned integers never wrap.\<close>

theorem option_sizes_fit:
  assumes "key_ok key" and "bpf_ok E" and "words_ok (e_mptcp_syn E) n" and "words_ok (e_mptcp_synack E) n"
    and "mptcp_ok E n" and "cookie_ok (os_fastopen tp)" and "cookie_ok foc"
    and "fst (tcp_advertise_mss E tp) \<noteq> 0" and "(ucast mss :: u16) \<noteq> 0"
  shows "(case tcp_syn_options E tp key no_options of (sz, opts, _) \<Rightarrow> exact_size (unat n) key sz opts) \<and>
    (case tcp_synack_options E tp ireq mss key foc cookie no_options of
       (sz, opts, _) \<Rightarrow> exact_size (unat n) key sz opts) \<and>
    (case tcp_established_options E tp key no_options of (sz, opts) \<Rightarrow> exact_size (unat n) key sz opts)"
  using syn_options_exact [OF assms(1,8,6,3,2)] synack_options_exact [OF assms(1,9,7,4,2)]
    established_options_exact [OF assms(1,5,2)]
  by (auto split: prod.split)

theorem option_sizes_fit_witness:
  "(case tcp_syn_options demo_env demo_opt_sock KEY_NONE no_options of
      (sz, opts, _) \<Rightarrow> exact_size 0 KEY_NONE sz opts \<and> sz = 36)"
proof -
  have "fst (tcp_syn_options demo_env demo_opt_sock KEY_NONE no_options) = 36"
    by code_simp
  then show ?thesis
    using option_sizes_fit [OF demo_ok(1) demo_bpf_ok demo_ok(5-9,11), of 1400 demo_req False]
    by (simp add: split_beta)
qed

section \<open>Bytes\<close>

text \<open>C18: the bytes that are written are as many as the size that was computed, so the header length
  is right and no byte of the option area is left out or written past its end: the options from
  \<open>tcp_options_write\<close> and the rest, filled by \<open>bpf_skops_write_hdr_opt\<close>.  SMC and MPTCP must not be
  used on one connection (both would be written to the same place).\<close>

theorem options_written_fill_header:
  assumes "key_ok key" and "bpf_ok E" and "unat n = length mptcp" and "\<forall>k bs. prog k = Some bs \<longrightarrow> length bs \<le> k"
    and "cookie_ok (os_fastopen tp)" and "cookie_ok foc" and "sacks_ok tp"
    and "fst (tcp_advertise_mss E tp) \<noteq> 0" and "(ucast mss :: u16) \<noteq> 0"
    and "words_ok (e_mptcp_syn E) n" and "words_ok (e_mptcp_synack E) n" and "mptcp_ok E n"
    and "os_syn_smc tp \<longrightarrow> e_mptcp_syn E = None \<and> e_mptcp_synack E = None"
    and "ao_ready None key" and "ao_ready (Some ids) key"
  defines "written \<equiv> \<lambda>tcprsk opts. length (fst (tcp_options_write (e_have_smc E) mptcp tp tcprsk opts key)) +
    length (bpf_skops_write_hdr_opt prog opts)"
  shows "(case tcp_syn_options E tp key no_options of (sz, opts, _) \<Rightarrow> written None opts = unat sz) \<and>
    (case tcp_synack_options E tp ireq mss key foc cookie no_options of
       (sz, opts, _) \<Rightarrow> written (Some ids) opts = unat sz) \<and>
    (case tcp_established_options E tp key no_options of (sz, opts) \<Rightarrow> written None opts = unat sz)"
proof -
  have fill: "written tcprsk opts = unat sz"
    if "exact_size (unat n) key sz opts" "writable (e_have_smc E) mptcp tp tcprsk opts key" for tcprsk sz opts
    using that assms(4) write_length [OF that(2)] bpf_write_length [of prog opts]
    by (cases "tcp_options_write (e_have_smc E) mptcp tp tcprsk opts key")
      (simp add: written_def exact_size_def assms(3))
  obtain sz opts tp' where syn: "tcp_syn_options E tp key no_options = (sz, opts, tp')" by (metis prod.exhaust)
  have 1: "written None opts = unat sz"
    using fill [OF syn_options_exact [OF assms(1,8,5,10,2) syn]]
      well_set_writable [OF syn_well_set [OF assms(1,8,5) syn]] assms(1,13,14) by blast
  obtain sz' opts' q where synack: "tcp_synack_options E tp ireq mss key foc cookie no_options = (sz', opts', q)"
    by (metis prod.exhaust)
  have 2: "written (Some ids) opts' = unat sz'"
    using fill [OF synack_options_exact [OF assms(1,9,6,11,2) synack]]
      well_set_writable [OF synack_well_set [OF assms(1,9,6) synack]] assms(1,13,15) by blast
  obtain sz'' opts'' where est: "tcp_established_options E tp key no_options = (sz'', opts'')" by fastforce
  have 3: "written None opts'' = unat sz''"
    using fill [OF established_options_exact [OF assms(1,12,2) est]]
      established_writable [OF assms(1,14,7) est] by blast
  from 1 2 3 show ?thesis by (simp add: syn synack est)
qed

theorem options_written_fill_header_witness:
  "case tcp_established_options demo_env demo_opt_sock KEY_MD5 no_options of (sz, opts) \<Rightarrow>
     length (fst (tcp_options_write (e_have_smc demo_env) [] demo_opt_sock None opts KEY_MD5)) +
     length (bpf_skops_write_hdr_opt demo_prog opts) = unat sz"
proof -
  have prog: "\<forall>k bs. demo_prog k = Some bs \<longrightarrow> length bs \<le> k" by (simp add: demo_prog_def)
  have smc: "os_syn_smc demo_opt_sock \<longrightarrow> e_mptcp_syn demo_env = None \<and> e_mptcp_synack demo_env = None"
    by (simp add: demo_ok)
  show ?thesis
    using options_written_fill_header [OF demo_ok(2) demo_bpf_ok demo_ok(13) prog demo_ok(8,9,10,11) _ demo_ok(5-7)
        smc demo_ok(4) demo_ok(4), of 1400 "(0, 0)" demo_req False]
    by simp
qed

text \<open>C19: whoever reads the option bytes by the rules of the protocol (kind, length, rest, fillers in
  between) finds exactly the options that were chosen, in order and with their values: signature, segment
  size, SACK permission, time stamps, window scale, SACK blocks, Fast Open cookie, SMC or MPTCP.\<close>

theorem options_read_back:
  assumes "writable have_smc mptcp tp tcprsk opts key" and "parse_options (map Some mptcp) = Some mptcp_opts"
    and "unat (num_sack_blocks opts) \<le> 4"
    and "case fastopen_cookie opts of None \<Rightarrow> True | Some c \<Rightarrow> even (foc_len c)"
  shows "parse_options (fst (tcp_options_write have_smc mptcp tp tcprsk opts key)) =
    Some (wire_options mptcp_opts tp tcprsk opts key)"
  using parse_written [OF assms(1)] assms(2-4)
  by (cases "tcp_options_write have_smc mptcp tp tcprsk opts key") (simp add: readable_def)

definition demo_opts :: tcp_out_options where
  "demo_opts = snd (tcp_established_options demo_env demo_opt_sock KEY_NONE no_options)"

theorem options_read_back_witness:
  "parse_options (fst (tcp_options_write False [] demo_opt_sock None demo_opts KEY_NONE)) =
     Some [(8, be32 1005 @ be32 77),
           (5, be32 10 @ be32 20 @ be32 30 @ be32 40 @ be32 50 @ be32 60)]"
proof -
  obtain sz where est: "tcp_established_options demo_env demo_opt_sock KEY_NONE no_options = (sz, demo_opts)"
    by (metis demo_opts_def prod.collapse)
  have n: "num_sack_blocks demo_opts = 3" "fastopen_cookie demo_opts = None" "options demo_opts = {OPTION_TS}"
    "opt_mss demo_opts = 0" "tsval demo_opts = 1005" "tsecr demo_opts = 77"
    by code_simp+
  have "wire_options [] demo_opt_sock None demo_opts KEY_NONE =
      [(8, be32 1005 @ be32 77), (5, be32 10 @ be32 20 @ be32 30 @ be32 40 @ be32 50 @ be32 60)]"
    by (simp add: wire_options_def key_wire_def fixed_wire_def sack_wire_def cookie_wire_def tail_wire_def n
        sack_list_def demo_opt_sock_def sack_blocks_write_def)
  with options_read_back [OF established_writable [OF demo_ok(1) demo_ok(3) demo_ok(10) est], where mptcp = "[]" and
      have_smc = False and mptcp_opts = "[]" and tcprsk = None] n
  show ?thesis by simp
qed

end
