(* ===== verification/Tcp_Segment.thy ===== *)
theory Tcp_Segment
  imports Leo_Prelude
begin

text \<open>
  The segments of the write queue and of the retransmission queue, and how \<open>tcp_output.c\<close> splits and
  trims them: \<open>tcp_fragment\<close>, \<open>tso_fragment\<close>, \<open>tcp_trim_head\<close> and the counters they keep.  What the
  allocator and other parts of the kernel answer is the record \<open>seg_env\<close>.
\<close>

section \<open>Sequence numbers\<close>

text \<open>\<open>before\<close> and \<open>after\<close>: the sign of the difference.\<close>

definition seq_before :: "u32 \<Rightarrow> u32 \<Rightarrow> bool" where
  "seq_before a b \<longleftrightarrow> a - b <s 0"

abbreviation seq_after :: "u32 \<Rightarrow> u32 \<Rightarrow> bool" where
  "seq_after a b \<equiv> seq_before b a"

section \<open>State\<close>

definition TCPHDR_FIN :: u8 where "TCPHDR_FIN = 0x01"
definition TCPHDR_SYN :: u8 where "TCPHDR_SYN = 0x02"
definition TCPHDR_PSH :: u8 where "TCPHDR_PSH = 0x08"
definition TCPHDR_ACK :: u8 where "TCPHDR_ACK = 0x10"
definition TCPHDR_ECE :: u8 where "TCPHDR_ECE = 0x40"
definition TCPHDR_CWR :: u8 where "TCPHDR_CWR = 0x80"
definition TCPCB_SACKED_ACKED :: u8 where "TCPCB_SACKED_ACKED = 0x01"
definition TCPCB_SACKED_RETRANS :: u8 where "TCPCB_SACKED_RETRANS = 0x02"
definition TCPCB_LOST :: u8 where "TCPCB_LOST = 0x04"

text \<open>A segment: the fields of its control block and its data, which is in pages only.\<close>

record sk_buff =
  skb_seq :: u32
  skb_end_seq :: u32
  skb_flags :: u8
  skb_sacked :: u8
  skb_eor :: bool
  skb_frags :: "u8 list list"
  skb_pcount :: u16
  skb_gso_size :: u16
  skb_truesize :: int
  skb_txstamp_ack :: bool
  skb_tx_flags :: u8
  skb_tskey :: u32
  skb_tstamp :: u64
  skb_tx :: u32

abbreviation skb_data :: "sk_buff \<Rightarrow> u8 list" where
  "skb_data skb \<equiv> concat (skb_frags skb)"

definition skb_len :: "sk_buff \<Rightarrow> u32" where
  "skb_len skb = of_nat (length (skb_data skb))"

datatype tcp_queue = TCP_FRAG_IN_WRITE_QUEUE | TCP_FRAG_IN_RTX_QUEUE

text \<open>The part of the socket that the queues are accounted in.  \<open>lost_skb_hint\<close> is the sequence number
  of the segment the pointer leads to.\<close>

record seg_sock =
  sk_write_queue :: "sk_buff list"
  tcp_rtx_queue :: "sk_buff list"
  sk_sndbuf :: int
  sk_wmem_queued :: int
  sk_forward_alloc :: int
  snd_nxt :: u32
  packets_out :: u32
  sacked_out :: u32
  retrans_out :: u32
  lost_out :: u32
  lost_skb_hint :: "u32 option"
  lost_cnt_hint :: int
  sack_ok :: bool
  wqueue_too_big :: nat

text \<open>The answers of the kernel: the mask of the time stamp flags, the allowance beyond the send buffer,
  whether the data can be made private, a new segment if there is memory, and how \<open>skb_split\<close> cuts a
  list of pages at a number of bytes.\<close>

record seg_env =
  se_any_tstamp :: u8
  se_limit :: int
  se_unclone :: bool
  se_alloc :: "sk_buff option"
  se_split :: "nat \<Rightarrow> u8 list list \<Rightarrow> u8 list list \<times> u8 list list"

text \<open>The contract of \<open>skb_split\<close>: the first \<open>n\<close> bytes stay, the others move.\<close>

definition splits_pages :: "seg_env \<Rightarrow> bool" where
  "splits_pages E \<longleftrightarrow> (\<forall>n fs. concat (fst (se_split E n fs)) = take n (concat fs) \<and>
     concat (snd (se_split E n fs)) = drop n (concat fs))"

definition ENOMEM :: int where "ENOMEM = 12"
definition EINVAL :: int where "EINVAL = 22"

definition queue_of :: "tcp_queue \<Rightarrow> 'a seg_sock_scheme \<Rightarrow> sk_buff list" where
  "queue_of q sk = (case q of TCP_FRAG_IN_WRITE_QUEUE \<Rightarrow> sk_write_queue sk | TCP_FRAG_IN_RTX_QUEUE \<Rightarrow> tcp_rtx_queue sk)"

definition set_queue :: "tcp_queue \<Rightarrow> sk_buff list \<Rightarrow> 'a seg_sock_scheme \<Rightarrow> 'a seg_sock_scheme" where
  "set_queue q xs sk = (case q of
     TCP_FRAG_IN_WRITE_QUEUE \<Rightarrow> sk\<lparr>sk_write_queue := xs\<rparr> | TCP_FRAG_IN_RTX_QUEUE \<Rightarrow> sk\<lparr>tcp_rtx_queue := xs\<rparr>)"

section \<open>Control segments\<close>

text \<open>A buffer as the allocator returns it.\<close>

definition alloc_skb :: "int \<Rightarrow> sk_buff" where
  "alloc_skb truesize = \<lparr>skb_seq = 0, skb_end_seq = 0, skb_flags = 0, skb_sacked = 0, skb_eor = False,
     skb_frags = [], skb_pcount = 0, skb_gso_size = 0, skb_truesize = truesize, skb_txstamp_ack = False,
     skb_tx_flags = 0, skb_tskey = 0, skb_tstamp = 0, skb_tx = 0\<rparr>"

definition tcp_init_nondata_skb :: "sk_buff \<Rightarrow> u32 \<Rightarrow> u8 \<Rightarrow> sk_buff" where
  "tcp_init_nondata_skb skb seq flags =
     skb\<lparr>skb_flags := flags, skb_pcount := 1, skb_seq := seq,
         skb_end_seq := (if flags AND (TCPHDR_SYN OR TCPHDR_FIN) \<noteq> 0 then seq + 1 else seq)\<rparr>"

section \<open>Counting packets\<close>

definition tcp_set_skb_tso_segs :: "sk_buff \<Rightarrow> u32 \<Rightarrow> sk_buff" where
  "tcp_set_skb_tso_segs skb mss_now =
     (if skb_len skb \<le> mss_now then skb\<lparr>skb_pcount := 1, skb_gso_size := 0\<rparr>
      else skb\<lparr>skb_pcount := ucast ((skb_len skb + mss_now - 1) div mss_now), skb_gso_size := ucast mss_now\<rparr>)"

definition tcp_init_tso_segs :: "sk_buff \<Rightarrow> u32 \<Rightarrow> u16 \<times> sk_buff" where
  "tcp_init_tso_segs skb mss_now =
     (let skb = (if skb_pcount skb = 0 \<or> skb_pcount skb > 1 \<and> ucast (skb_gso_size skb) \<noteq> mss_now
                 then tcp_set_skb_tso_segs skb mss_now else skb)
      in (skb_pcount skb, skb))"

text \<open>\<open>decr\<close> may be negative.\<close>

definition tcp_adjust_pcount :: "'a seg_sock_scheme \<Rightarrow> sk_buff \<Rightarrow> int \<Rightarrow> 'a seg_sock_scheme" where
  "tcp_adjust_pcount sk skb decr =
     (let d = word_of_int decr;
          sk = sk\<lparr>packets_out := packets_out sk - d\<rparr>;
          sk = (if skb_sacked skb AND TCPCB_SACKED_ACKED \<noteq> 0 then sk\<lparr>sacked_out := sacked_out sk - d\<rparr> else sk);
          sk = (if skb_sacked skb AND TCPCB_SACKED_RETRANS \<noteq> 0 then sk\<lparr>retrans_out := retrans_out sk - d\<rparr> else sk);
          sk = (if skb_sacked skb AND TCPCB_LOST \<noteq> 0 then sk\<lparr>lost_out := lost_out sk - d\<rparr> else sk);
          sk = (if \<not> sack_ok sk \<and> decr > 0 then sk\<lparr>sacked_out := sacked_out sk - min (sacked_out sk) d\<rparr> else sk)
      in case lost_skb_hint sk of
           None \<Rightarrow> sk
         | Some hint \<Rightarrow>
             if seq_before (skb_seq skb) hint \<and> skb_sacked skb AND TCPCB_SACKED_ACKED \<noteq> 0
             then sk\<lparr>lost_cnt_hint := lost_cnt_hint sk - decr\<rparr> else sk)"

section \<open>Splitting\<close>

definition tcp_has_tx_tstamp :: "seg_env \<Rightarrow> sk_buff \<Rightarrow> bool" where
  "tcp_has_tx_tstamp E skb \<longleftrightarrow> skb_txstamp_ack skb \<or> skb_tx_flags skb AND se_any_tstamp E \<noteq> 0"

definition tcp_fragment_tstamp :: "seg_env \<Rightarrow> sk_buff \<times> sk_buff \<Rightarrow> sk_buff \<times> sk_buff" where
  "tcp_fragment_tstamp E p = (case p of (skb, skb2) \<Rightarrow>
     if tcp_has_tx_tstamp E skb \<and> \<not> seq_before (skb_tskey skb) (skb_seq skb2)
     then let tsflags = skb_tx_flags skb AND se_any_tstamp E
          in (skb\<lparr>skb_tx_flags := skb_tx_flags skb AND NOT tsflags, skb_tskey := skb_tskey skb2,
                  skb_txstamp_ack := False\<rparr>,
              skb2\<lparr>skb_tx_flags := skb_tx_flags skb2 OR tsflags, skb_tskey := skb_tskey skb,
                   skb_txstamp_ack := skb_txstamp_ack skb\<rparr>)
     else (skb, skb2))"

definition tcp_skb_fragment_eor :: "sk_buff \<times> sk_buff \<Rightarrow> sk_buff \<times> sk_buff" where
  "tcp_skb_fragment_eor p = (case p of (skb, skb2) \<Rightarrow>
     (skb\<lparr>skb_eor := False\<rparr>, skb2\<lparr>skb_eor := skb_eor skb\<rparr>))"

text \<open>What \<open>tcp_fragment\<close> and \<open>tso_fragment\<close> do to the two segments: sizes, sequence numbers, flags, end
  of record, data, time stamps and packet counts.\<close>

definition split_skb :: "seg_env \<Rightarrow> u32 \<Rightarrow> u32 \<Rightarrow> sk_buff \<Rightarrow> sk_buff \<Rightarrow> sk_buff \<times> sk_buff" where
  "split_skb E len mss_now buff skb =
     (let nlen = int (length (skb_data skb)) - int (unat len);
          (keep, move) = se_split E (unat len) (skb_frags skb);
          skb1 = skb\<lparr>skb_truesize := skb_truesize skb - nlen, skb_end_seq := skb_seq skb + len,
                     skb_flags := skb_flags skb AND NOT (TCPHDR_FIN OR TCPHDR_PSH), skb_frags := keep\<rparr>;
          buff = buff\<lparr>skb_truesize := skb_truesize buff + nlen, skb_seq := skb_seq skb + len,
                      skb_end_seq := skb_end_seq skb, skb_flags := skb_flags skb, skb_frags := move\<rparr>;
          (skb1, buff) = tcp_fragment_tstamp E (tcp_skb_fragment_eor (skb1, buff))
      in (tcp_set_skb_tso_segs skb1 mss_now, tcp_set_skb_tso_segs buff mss_now))"

text \<open>\<open>tcp_fragment\<close> also hands on what is known about the delivery.\<close>

definition fragment_skb :: "seg_env \<Rightarrow> u32 \<Rightarrow> u32 \<Rightarrow> sk_buff \<Rightarrow> sk_buff \<Rightarrow> sk_buff \<times> sk_buff" where
  "fragment_skb E len mss_now buff skb =
     (let (skb1, buff) = split_skb E len mss_now buff skb
      in (skb1, buff\<lparr>skb_sacked := skb_sacked skb, skb_tstamp := skb_tstamp skb, skb_tx := skb_tx skb\<rparr>))"

text \<open>\<open>tcp_fragment\<close> of the segment at position \<open>i\<close> of a queue; the new segment stands right after it,
  which is its place by sequence number.\<close>

definition tcp_fragment ::
  "seg_env \<Rightarrow> tcp_queue \<Rightarrow> nat \<Rightarrow> u32 \<Rightarrow> u32 \<Rightarrow> 'a seg_sock_scheme \<Rightarrow> int \<times> 'a seg_sock_scheme" where
  "tcp_fragment E q i len mss_now sk =
     (let skb = queue_of q sk ! i
      in if len > skb_len skb then (- EINVAL, sk)
         else if sk_wmem_queued sk div 2 > sk_sndbuf sk + 2 * se_limit E \<and> q \<noteq> TCP_FRAG_IN_WRITE_QUEUE \<and>
              i \<noteq> 0 \<and> Suc i \<noteq> length (tcp_rtx_queue sk)
         then (- ENOMEM, sk\<lparr>wqueue_too_big := Suc (wqueue_too_big sk)\<rparr>)
         else if \<not> se_unclone E then (- ENOMEM, sk)
         else case se_alloc E of
             None \<Rightarrow> (- ENOMEM, sk)
           | Some buff \<Rightarrow>
               let sk = sk\<lparr>sk_wmem_queued := sk_wmem_queued sk + skb_truesize buff,
                            sk_forward_alloc := sk_forward_alloc sk - skb_truesize buff\<rparr>;
                   (skb1, buff) = fragment_skb E len mss_now buff skb;
                   diff = int (unat (skb_pcount skb)) - int (unat (skb_pcount skb1)) - int (unat (skb_pcount buff));
                   sk = (if \<not> seq_before (snd_nxt sk) (skb_end_seq buff) \<and> diff \<noteq> 0
                         then tcp_adjust_pcount sk skb1 diff else sk)
               in (0, set_queue q (take i (queue_of q sk) @ [skb1, buff] @ drop (Suc i) (queue_of q sk)) sk))"

text \<open>\<open>tso_fragment\<close> of the head of the write queue.\<close>

definition tso_fragment :: "seg_env \<Rightarrow> u32 \<Rightarrow> u32 \<Rightarrow> 'a seg_sock_scheme \<Rightarrow> int \<times> 'a seg_sock_scheme" where
  "tso_fragment E len mss_now sk = (case sk_write_queue sk of
     [] \<Rightarrow> (- EINVAL, sk)
   | skb # rest \<Rightarrow>
       (case se_alloc E of
          None \<Rightarrow> (- ENOMEM, sk)
        | Some buff \<Rightarrow>
            let sk = sk\<lparr>sk_wmem_queued := sk_wmem_queued sk + skb_truesize buff,
                         sk_forward_alloc := sk_forward_alloc sk - skb_truesize buff\<rparr>;
                (skb1, buff) = split_skb E len mss_now buff skb
            in (0, sk\<lparr>sk_write_queue := skb1 # buff # rest\<rparr>)))"

section \<open>Trimming\<close>

text \<open>The loop of \<open>__pskb_trim_head\<close> over the pages, with the bytes still to eat.\<close>

fun eat_frags :: "nat \<Rightarrow> u8 list list \<Rightarrow> u8 list list" where
  "eat_frags eat [] = []"
| "eat_frags eat (f # fs) =
     (if length f \<le> eat then eat_frags (eat - length f) fs else drop eat f # eat_frags 0 fs)"

definition pskb_trim_head :: "sk_buff \<Rightarrow> u32 \<Rightarrow> sk_buff" where
  "pskb_trim_head skb len = skb\<lparr>skb_frags := eat_frags (unat len) (skb_frags skb)\<rparr>"

text \<open>A pointer to a segment is the sequence number of the segment; it follows when that changes.\<close>

definition follow :: "u32 \<Rightarrow> u32 \<Rightarrow> u32 option \<Rightarrow> u32 option" where
  "follow old new p = (if p = Some old then Some new else p)"

text \<open>\<open>tcp_trim_head\<close> of the segment at position \<open>i\<close> of the retransmission queue; \<open>zcopy_pure\<close> says whether
  the data belongs to the user.\<close>

definition tcp_trim_head ::
  "seg_env \<Rightarrow> bool \<Rightarrow> nat \<Rightarrow> u32 \<Rightarrow> 'a seg_sock_scheme \<Rightarrow> int \<times> 'a seg_sock_scheme" where
  "tcp_trim_head E zcopy_pure i len sk =
     (if \<not> se_unclone E then (- ENOMEM, sk)
      else
        let skb = tcp_rtx_queue sk ! i;
            delta = int (unat len);
            sk = sk\<lparr>lost_skb_hint := follow (skb_seq skb) (skb_seq skb + len) (lost_skb_hint sk)\<rparr>;
            skb = (pskb_trim_head skb len)\<lparr>skb_seq := skb_seq skb + len, skb_truesize := skb_truesize skb - delta\<rparr>;
            sk = sk\<lparr>sk_wmem_queued := sk_wmem_queued sk - delta\<rparr>;
            sk = (if zcopy_pure then sk else sk\<lparr>sk_forward_alloc := sk_forward_alloc sk + delta\<rparr>);
            skb = (if skb_pcount skb > 1 then tcp_set_skb_tso_segs skb (ucast (skb_gso_size skb)) else skb)
        in (0, sk\<lparr>tcp_rtx_queue := (tcp_rtx_queue sk)[i := skb]\<rparr>))"

section \<open>Laws of splitting\<close>

lemma eat_frags_concat: "concat (eat_frags n fs) = drop n (concat fs)"
  by (induction n fs rule: eat_frags.induct) auto

lemma tso_segs_frame [simp]:
  "skb_frags (tcp_set_skb_tso_segs skb m) = skb_frags skb" "skb_seq (tcp_set_skb_tso_segs skb m) = skb_seq skb"
  "skb_end_seq (tcp_set_skb_tso_segs skb m) = skb_end_seq skb" "skb_flags (tcp_set_skb_tso_segs skb m) = skb_flags skb"
  "skb_truesize (tcp_set_skb_tso_segs skb m) = skb_truesize skb" "skb_eor (tcp_set_skb_tso_segs skb m) = skb_eor skb"
  "skb_sacked (tcp_set_skb_tso_segs skb m) = skb_sacked skb" "skb_tx_flags (tcp_set_skb_tso_segs skb m) = skb_tx_flags skb"
  by (simp_all add: tcp_set_skb_tso_segs_def)

text \<open>The number of packets of a segment: its length divided by the segment size, rounded up, and at
  least one.\<close>

definition seg_count :: "nat \<Rightarrow> nat \<Rightarrow> nat" where
  "seg_count len mss = max 1 ((len + mss - 1) div mss)"

lemma seg_count_le: "len \<le> mss \<Longrightarrow> 0 < mss \<Longrightarrow> seg_count len mss = 1"
proof -
  assume "len \<le> mss" "0 < mss"
  then have "len + mss - 1 < 2 * mss" by linarith
  then have "(len + mss - 1) div mss < 2" by (rule less_mult_imp_div_less)
  then show ?thesis by (simp add: seg_count_def)
qed

text \<open>The sequence space a segment takes: its data and its FIN.\<close>

definition span :: "sk_buff \<Rightarrow> nat" where
  "span skb = length (skb_data skb) + (if skb_flags skb AND TCPHDR_FIN \<noteq> 0 then 1 else 0)"

text \<open>A queue that covers the sequence numbers from \<open>a\<close> to \<open>b\<close> without gaps.\<close>

fun chain :: "u32 \<Rightarrow> sk_buff list \<Rightarrow> u32 \<Rightarrow> bool" where
  "chain a [] b \<longleftrightarrow> a = b"
| "chain a (s # ss) b \<longleftrightarrow> skb_seq s = a \<and> skb_end_seq s = a + of_nat (span s) \<and> chain (skb_end_seq s) ss b"

lemma chain_append: "chain a (xs @ ys) b \<longleftrightarrow> (\<exists>c. chain a xs c \<and> chain c ys b)"
  by (induction xs arbitrary: a) auto

lemma chain_end: "chain a ss b \<Longrightarrow> b = a + of_nat (sum_list (map span ss))"
proof (induction ss arbitrary: a)
  case (Cons s ss)
  then have "b = skb_end_seq s + of_nat (sum_list (map span ss))" by auto
  with Cons.prems show ?case by (simp add: add.assoc)
qed simp

text \<open>The contract of a split: the data is cut in two if the pages are (\<open>cuts\<close>), the sequence numbers meet,
  and the sizes and the flags of the parts follow.\<close>

locale segment_split =
  fixes cuts :: bool and split :: "u32 \<Rightarrow> sk_buff \<Rightarrow> sk_buff \<Rightarrow> sk_buff \<times> sk_buff"
  assumes split_data: "cuts \<Longrightarrow> split len new skb = (a, b) \<Longrightarrow>
      skb_data a = take (unat len) (skb_data skb) \<and> skb_data b = drop (unat len) (skb_data skb)"
    and split_seq: "split len new skb = (a, b) \<Longrightarrow> skb_seq a = skb_seq skb \<and> skb_end_seq a = skb_seq skb + len \<and>
      skb_seq b = skb_seq skb + len \<and> skb_end_seq b = skb_end_seq skb"
    and split_size: "split len new skb = (a, b) \<Longrightarrow> skb_truesize a + skb_truesize b = skb_truesize skb + skb_truesize new"
    and split_flags: "split len new skb = (a, b) \<Longrightarrow>
      skb_flags a = skb_flags skb AND NOT (TCPHDR_FIN OR TCPHDR_PSH) \<and> skb_flags b = skb_flags skb"
begin

lemma split_span:
  assumes cuts and "split len new skb = (a, b)" and "unat len \<le> length (skb_data skb)"
  shows "span a = unat len \<and> span a + span b = span skb"
proof -
  have "(f AND NOT (TCPHDR_FIN OR TCPHDR_PSH)) AND TCPHDR_FIN = 0" for f
    by (simp add: TCPHDR_FIN_def TCPHDR_PSH_def and.assoc)
  then show ?thesis
    using assms(3) by (simp add: span_def split_data [OF assms(1,2)] split_flags [OF assms(2)])
qed

lemma split_chain:
  assumes cuts and "chain c (xs @ skb # ys) d" and "split len new skb = (a, b)" and "unat len \<le> length (skb_data skb)"
  shows "chain c (xs @ a # b # ys) d"
proof -
  obtain e where e: "chain c xs e" "skb_seq skb = e" "skb_end_seq skb = e + of_nat (span skb)"
      "chain (skb_end_seq skb) ys d"
    using assms(2) by (auto simp: chain_append)
  have "of_nat (span skb) = (of_nat (span a) + of_nat (span b) :: u32)" "(of_nat (span a) :: u32) = len"
    using split_span [OF assms(1,3,4)] by (metis of_nat_add, simp)
  with e split_seq [OF assms(3)] show ?thesis by (auto simp: chain_append)
qed

end

interpretation plain_split: segment_split "splits_pages E" "\<lambda>len. split_skb E len mss"
  by unfold_locales
    (auto simp: split_skb_def tcp_fragment_tstamp_def tcp_skb_fragment_eor_def splits_pages_def Let_def
      split: prod.splits if_splits, (metis fst_conv snd_conv)+)

interpretation frag_split: segment_split "splits_pages E" "\<lambda>len. fragment_skb E len mss"
  by unfold_locales
    (auto simp: fragment_skb_def split: prod.splits
      dest: plain_split.split_data plain_split.split_seq plain_split.split_size plain_split.split_flags)

text \<open>Sequence numbers at a distance below half of the space compare like numbers.\<close>

lemma sint_word32: "- (2 ^ 31) \<le> v \<Longrightarrow> v < 2 ^ 31 \<Longrightarrow> sint (word_of_int v :: u32) = v"
  by (simp add: signed_of_int signed_take_bit_int_eq_self)

lemma seq_before_add: "k < 2 ^ 31 \<Longrightarrow> seq_before a (a + of_nat k) \<longleftrightarrow> 0 < k"
  "k < 2 ^ 31 \<Longrightarrow> \<not> seq_before (a + of_nat k) a"
proof -
  assume k: "k < 2 ^ 31"
  have "- (of_nat k :: u32) = word_of_int (- int k)" by simp
  then have "sint (- (of_nat k :: u32)) = - int k" using k sint_word32 [of "- int k"] by simp
  then show "seq_before a (a + of_nat k) \<longleftrightarrow> 0 < k"
    by (simp add: seq_before_def word_sless_alt)
  have "sint (of_nat k :: u32) = int k" using k sint_word32 [of "int k"] by simp
  then show "\<not> seq_before (a + of_nat k) a"
    by (simp add: seq_before_def word_sless_alt)
qed

section \<open>The invariant of the queues\<close>

definition packets :: "sk_buff list \<Rightarrow> u32" where
  "packets ss = of_nat (sum_list (map (\<lambda>s. unat (skb_pcount s)) ss))"

lemma packets_append [simp]: "packets (xs @ ys) = packets xs + packets ys"
  "packets (s # ss) = ucast (skb_pcount s) + packets ss" "packets [] = 0"
  by (simp_all add: packets_def)

text \<open>Together the queues cover the sequence numbers up to the end without gaps, less than half of the
  sequence space; what is in the retransmission queue has been counted as sent.\<close>

definition seg_inv :: "'a seg_sock_scheme \<Rightarrow> bool" where
  "seg_inv sk \<longleftrightarrow> (\<exists>a. chain a (tcp_rtx_queue sk) (snd_nxt sk)) \<and> (\<exists>b. chain (snd_nxt sk) (sk_write_queue sk) b) \<and>
     sum_list (map span (tcp_rtx_queue sk)) + sum_list (map span (sk_write_queue sk)) < 2 ^ 31 \<and>
     packets_out sk = packets (tcp_rtx_queue sk)"

lemma adjust_pcount_frame:
  "tcp_rtx_queue (tcp_adjust_pcount sk s d) = tcp_rtx_queue sk"
  "sk_write_queue (tcp_adjust_pcount sk s d) = sk_write_queue sk"
  "snd_nxt (tcp_adjust_pcount sk s d) = snd_nxt sk"
  "packets_out (tcp_adjust_pcount sk s d) = packets_out sk - word_of_int d"
  "sk_wmem_queued (tcp_adjust_pcount sk s d) = sk_wmem_queued sk"
  by (auto simp: tcp_adjust_pcount_def Let_def split: option.splits)

lemma pcount_balance: "uint (x :: u16) - uint a = uint b \<Longrightarrow> ucast a + ucast b = (ucast x :: u32)"
proof -
  assume "uint x - uint a = uint b"
  then have "uint x = uint a + uint b" by linarith
  then have "(word_of_int (uint x) :: u32) = word_of_int (uint a + uint b)" by (rule arg_cong)
  then show ?thesis by simp
qed

lemma tcp_fragment_done:
  assumes "tcp_fragment E q i len mss sk = (0, sk')"
  obtains new a b where "fragment_skb E len mss new (queue_of q sk ! i) = (a, b)" "se_alloc E = Some new"
    "len \<le> skb_len (queue_of q sk ! i)"
    "queue_of q sk' = take i (queue_of q sk) @ [a, b] @ drop (Suc i) (queue_of q sk)"
    "\<And>q'. q' \<noteq> q \<Longrightarrow> queue_of q' sk' = queue_of q' sk" "snd_nxt sk' = snd_nxt sk"
    "sk_wmem_queued sk' = sk_wmem_queued sk + skb_truesize new"
    "packets_out sk' = (if seq_before (snd_nxt sk) (skb_end_seq b) then packets_out sk
       else packets_out sk - (ucast (skb_pcount (queue_of q sk ! i)) - ucast (skb_pcount a) - ucast (skb_pcount b)))"
proof -
  have "se_alloc E \<noteq> None" "\<not> len > skb_len (queue_of q sk ! i)" "se_unclone E"
    using assms by (auto simp: tcp_fragment_def ENOMEM_def EINVAL_def Let_def split: if_splits option.splits)
  then obtain new where t: "se_alloc E = Some new" by blast
  obtain a b where ab: "fragment_skb E len mss new (queue_of q sk ! i) = (a, b)" by fastforce
  show thesis
    by (rule that [OF ab t])
      (use assms t ab in \<open>auto simp: tcp_fragment_def ENOMEM_def EINVAL_def Let_def queue_of_def set_queue_def
         adjust_pcount_frame pcount_balance split: if_splits tcp_queue.splits\<close>)
qed

lemma tcp_fragment_failed:
  assumes "tcp_fragment E q i len mss sk = (r, sk')" and "r \<noteq> 0"
  shows "r \<in> {- EINVAL, - ENOMEM} \<and> (\<exists>n. sk' = sk\<lparr>wqueue_too_big := n\<rparr>)"
proof -
  have "sk = sk\<lparr>wqueue_too_big := wqueue_too_big sk\<rparr>" by simp
  with assms show ?thesis
    by (auto simp: tcp_fragment_def Let_def split: if_splits option.splits prod.splits intro: exI [of _ "wqueue_too_big sk"])
qed

text \<open>The invariant holds through a split, in either queue.\<close>

lemma take_nth_drop: "i < length xs \<Longrightarrow> xs = take i xs @ xs ! i # drop (Suc i) xs"
  by (simp add: id_take_nth_drop)

lemma chain_before:
  assumes "chain a (xs @ s # ys) b" and "sum_list (map span (xs @ s # ys)) < 2 ^ 31"
  shows "\<not> seq_before b (skb_end_seq s)" and "0 < span s \<Longrightarrow> seq_before a (skb_end_seq s)"
proof -
  obtain c where c: "chain a xs c" "skb_seq s = c" "skb_end_seq s = c + of_nat (span s)" "chain (skb_end_seq s) ys b"
    using assms(1) by (auto simp: chain_append)
  show "\<not> seq_before b (skb_end_seq s)"
    using chain_end [OF c(4)] seq_before_add(2) [of "sum_list (map span ys)" "skb_end_seq s"] assms(2) by simp
  have "skb_end_seq s = a + of_nat (sum_list (map span xs) + span s)"
    using chain_end [OF c(1)] c(3) by (simp add: add.assoc)
  then show "seq_before a (skb_end_seq s)" if "0 < span s"
    using seq_before_add(1) [of "sum_list (map span xs) + span s" a] assms(2) that by simp
qed

lemma tcp_fragment_inv:
  assumes "splits_pages E" and "seg_inv sk" and "i < length (queue_of q sk)" and "unat len < length (skb_data (queue_of q sk ! i))"
    and "tcp_fragment E q i len mss sk = (r, sk')"
  shows "seg_inv sk'"
proof (cases "r = 0")
  case False
  with tcp_fragment_failed [OF assms(5)] assms(2) show ?thesis by (auto simp: seg_inv_def)
next
  case True
  let ?Q = "queue_of q sk" and ?s = "queue_of q sk ! i"
  from assms(5) True obtain new a b where ab: "fragment_skb E len mss new ?s = (a, b)"
    and Q: "queue_of q sk' = take i ?Q @ [a, b] @ drop (Suc i) ?Q"
    and other: "\<And>q'. q' \<noteq> q \<Longrightarrow> queue_of q' sk' = queue_of q' sk" "snd_nxt sk' = snd_nxt sk"
    and out: "packets_out sk' = (if seq_before (snd_nxt sk) (skb_end_seq b) then packets_out sk
       else packets_out sk - (ucast (skb_pcount ?s) - ucast (skb_pcount a) - ucast (skb_pcount b)))"
    by (auto elim: tcp_fragment_done)
  have eq: "?Q = take i ?Q @ ?s # drop (Suc i) ?Q" using assms(3) by (rule take_nth_drop)
  have len: "unat len \<le> length (skb_data ?s)" using assms(4) by simp
  have spans: "sum_list (map span (queue_of q sk')) = sum_list (map span ?Q)"
    using frag_split.split_span [OF assms(1) ab len] by (subst eq) (simp add: Q)
  have chain': "chain c (queue_of q sk') d" if "chain c ?Q d" for c d
    using that frag_split.split_chain [OF assms(1) _ ab len, of c "take i ?Q" "drop (Suc i) ?Q" d] eq by (simp add: Q)
  have endb: "skb_end_seq b = skb_end_seq ?s" using frag_split.split_seq [OF ab] by simp
  show ?thesis
  proof (cases q)
    case TCP_FRAG_IN_WRITE_QUEUE
    then have "sk_write_queue sk = ?Q" by (simp add: queue_of_def)
    moreover have "0 < span ?s" using assms(4) unfolding span_def by linarith
    ultimately have "seq_before (snd_nxt sk) (skb_end_seq b)"
      using assms(2) chain_before(2) [of "snd_nxt sk" "take i ?Q" ?s "drop (Suc i) ?Q"] eq
      unfolding endb by (auto simp: seg_inv_def)
    with out other spans chain' assms(2) TCP_FRAG_IN_WRITE_QUEUE show ?thesis
      by (force simp: seg_inv_def queue_of_def split: tcp_queue.splits)
  next
    case TCP_FRAG_IN_RTX_QUEUE
    then have R: "tcp_rtx_queue sk = ?Q" by (simp add: queue_of_def)
    then have "\<not> seq_before (snd_nxt sk) (skb_end_seq b)"
      using assms(2) chain_before(1) [of _ "take i ?Q" ?s "drop (Suc i) ?Q" "snd_nxt sk"] eq
      unfolding endb by (auto simp: seg_inv_def)
    moreover have "packets ?Q = packets (take i ?Q) + (ucast (skb_pcount ?s) + packets (drop (Suc i) ?Q))"
      by (subst eq) simp
    ultimately have "packets_out sk' = packets (queue_of q sk')"
      using out assms(2) R by (simp add: Q seg_inv_def)
    with other spans chain' assms(2) TCP_FRAG_IN_RTX_QUEUE show ?thesis
      by (force simp: seg_inv_def queue_of_def split: tcp_queue.splits)
  qed
qed

end
