(* ===== verification/Tcp_Send.thy ===== *)
theory Tcp_Send
  imports Tcp_Segment Tcp_Options
begin

text \<open>
  The sending decisions of \<open>tcp_output.c\<close>: segment sizes, the congestion window after idle times, the
  Nagle rules, how much of a segment may go out, and the loop of \<open>tcp_write_xmit\<close> that puts them
  together.  The window \<open>snd_wnd\<close> is the one the peer advertised.  What other parts of the kernel answer
  (clocks, the congestion control, pacing and offload parameters, the path) is the record \<open>snd_env\<close>.
\<close>

section \<open>State\<close>

text \<open>The phases of the chronograph, in the order of their priority.\<close>

datatype tcp_chrono = TCP_CHRONO_UNSPEC | TCP_CHRONO_BUSY | TCP_CHRONO_RWND_LIMITED | TCP_CHRONO_SNDBUF_LIMITED

fun chrono_rank :: "tcp_chrono \<Rightarrow> nat" where
  "chrono_rank TCP_CHRONO_UNSPEC = 0"
| "chrono_rank TCP_CHRONO_BUSY = 1"
| "chrono_rank TCP_CHRONO_RWND_LIMITED = 2"
| "chrono_rank TCP_CHRONO_SNDBUF_LIMITED = 3"

text \<open>Calls to other parts of the kernel, in the order they are made.\<close>

datatype snd_call = Rearm_rto | Check_space | Ca_tx_start | Ca_cwnd_restart | Inc_pingpong
  | Cancel_compressed_ack | Dec_quickack | Clear_dack_timer | Start_pacing_timer | Loss_probe_timer u32 | Retrans_timer u32
  | Check_probe_timer | Clear_pending

record tcp_sock = seg_sock +
  snd_una :: u32
  snd_wnd :: u32
  max_window :: u32
  snd_up :: u32
  snd_sml :: u32
  highest_sack :: "u32 option"
  loss_probe_pending :: bool
  snd_cwnd :: u32
  snd_ssthresh :: u32
  snd_cwnd_stamp :: u32
  snd_cwnd_used :: u32
  max_packets_out :: u32
  cwnd_usage_seq :: u32
  is_cwnd_limited :: bool
  icsk_rto :: u32
  icsk_ca_state :: u8
  prr_out :: u32
  fastopen_rsk :: bool
  mss_cache :: u32
  tcp_clock_cache :: u64
  tcp_wstamp_ns :: u64
  tcp_mstamp :: u64
  srtt_us :: u32
  pacing_timer_queued :: bool
  tsq_throttled :: bool
  repairing :: bool
  chrono_type :: tcp_chrono
  chrono_start :: u32
  chrono_stat :: "u32 list"
  lsndtime :: u32
  ack_lrcvtime :: u32
  ack_ato :: u32
  compressed_ack :: u8
  ack_rcv_nxt :: u32
  wscale_ok :: bool
  rx_rcv_wscale :: u8
  tcp_header_len :: int
  mss_clamp :: int
  icsk_ext_hdr_len :: int
  icsk_pmtu_cookie :: u32
  mtup_enabled :: bool
  mtup_search_high :: int
  mtup_search_low :: int
  mtup_probe_size :: int
  mtup_probe_timestamp :: u32
  retransmit_skb_hint :: "u32 option"
  total_retrans :: u32
  bytes_retrans :: u64
  retrans_stamp :: u32
  undo_retrans :: int
  snd_calls :: "snd_call list"

record snd_env =
  jiffies :: u32
  clock_ns :: u64
  init_cwnd :: u32
  current_ssthresh :: u32
  sk_pacing_rate :: u64
  sk_pacing_shift :: nat
  pacing_none :: bool
  needs_internal_pacing :: bool
  min_rtt_us :: u32
  tso_rtt_log :: nat
  gso_max_size :: u32
  gso_max_segs :: u16
  min_tso_segs :: u32
  tso_win_divisor :: u32
  max_tso_deferred_mss :: u32
  limit_output_bytes :: u64
  early_retrans :: int
  rto_min_us :: u32
  rto_delta_us :: u32
  timeout_init :: u32
  timeout_min_us :: u32
  usecs_to_jiffies :: "u32 \<Rightarrow> u32"
  jiffies_to_usecs :: "u32 \<Rightarrow> u32"
  tx_delay :: "u32 option"
  slow_start_after_idle :: bool
  has_cong_control :: bool
  has_socket :: bool
  sk_nospace :: bool
  sk_can_send :: bool
  net_header_len :: int
  min_snd_mss :: int
  base_mss :: int
  mtu_probing :: int
  dst_mtu :: "u32 option"
  bound_to_half_wnd :: "u32 \<Rightarrow> int \<Rightarrow> int"
  tcp_is_cwnd_limited :: "tcp_sock \<Rightarrow> bool"

definition TCP_CA_Open :: u8 where "TCP_CA_Open = 0"
definition TCP_CA_CWR :: u8 where "TCP_CA_CWR = 2"
definition TCP_CA_Recovery :: u8 where "TCP_CA_Recovery = 3"
definition NSEC_PER_MSEC :: u64 where "NSEC_PER_MSEC = 1000000"
definition TCP_NAGLE_OFF :: u32 where "TCP_NAGLE_OFF = 1"
definition TCP_NAGLE_CORK :: u32 where "TCP_NAGLE_CORK = 2"
definition TCP_NAGLE_PUSH :: u32 where "TCP_NAGLE_PUSH = 4"

definition log_call :: "snd_call \<Rightarrow> tcp_sock \<Rightarrow> tcp_sock" where
  "log_call c tp = tp\<lparr>snd_calls := snd_calls tp @ [c]\<rparr>"

text \<open>The end of the peer's window, and the packets in the network.\<close>

definition tcp_wnd_end :: "tcp_sock \<Rightarrow> u32" where
  "tcp_wnd_end tp = snd_una tp + snd_wnd tp"

definition tcp_packets_in_flight :: "tcp_sock \<Rightarrow> u32" where
  "tcp_packets_in_flight tp = packets_out tp - (sacked_out tp + lost_out tp) + retrans_out tp"

section \<open>Clocks, sequence numbers and events\<close>

definition tcp_mstamp_refresh :: "snd_env \<Rightarrow> tcp_sock \<Rightarrow> tcp_sock" where
  "tcp_mstamp_refresh E tp = tp\<lparr>tcp_clock_cache := clock_ns E, tcp_mstamp := clock_ns E div 1000\<rparr>"

text \<open>The head of the write queue has been sent.\<close>

definition tcp_event_new_data_sent :: "tcp_sock \<Rightarrow> tcp_sock" where
  "tcp_event_new_data_sent tp = (case sk_write_queue tp of
     [] \<Rightarrow> tp
   | skb # rest \<Rightarrow>
       let prior_packets = packets_out tp;
           tp = tp\<lparr>snd_nxt := skb_end_seq skb, sk_write_queue := rest, tcp_rtx_queue := tcp_rtx_queue tp @ [skb]\<rparr>;
           tp = (if highest_sack tp = None then tp\<lparr>highest_sack := Some (skb_seq skb)\<rparr> else tp);
           tp = tp\<lparr>packets_out := packets_out tp + ucast (skb_pcount skb)\<rparr>;
           tp = (if prior_packets = 0 \<or> loss_probe_pending tp then log_call Rearm_rto tp else tp)
       in log_call Check_space tp)"

definition tcp_acceptable_seq :: "tcp_sock \<Rightarrow> u32" where
  "tcp_acceptable_seq tp =
     (if \<not> seq_before (tcp_wnd_end tp) (snd_nxt tp) \<or>
         wscale_ok tp \<and> snd_nxt tp - tcp_wnd_end tp < push_bit (unat (rx_rcv_wscale tp)) 1
      then snd_nxt tp else tcp_wnd_end tp)"

definition tcp_event_data_sent :: "snd_env \<Rightarrow> tcp_sock \<Rightarrow> tcp_sock" where
  "tcp_event_data_sent E tp =
     (let tp = (if tcp_packets_in_flight tp = 0 then log_call Ca_tx_start tp else tp);
          tp = tp\<lparr>lsndtime := jiffies E\<rparr>
      in if jiffies E - ack_lrcvtime tp < ack_ato tp then log_call Inc_pingpong tp else tp)"

definition tcp_event_ack_sent :: "u32 \<Rightarrow> tcp_sock \<Rightarrow> tcp_sock" where
  "tcp_event_ack_sent rcv_nxt tp =
     (let tp = (if compressed_ack tp \<noteq> 0 then log_call Cancel_compressed_ack (tp\<lparr>compressed_ack := 0\<rparr>) else tp)
      in if rcv_nxt \<noteq> ack_rcv_nxt tp then tp else log_call Clear_dack_timer (log_call Dec_quickack tp))"

text \<open>The window of a connection that was idle is halved once per retransmission timeout, down to the
  restart window.  \<open>delta\<close> is signed.\<close>

function restart_loop :: "u32 \<Rightarrow> u32 \<Rightarrow> s32 \<Rightarrow> u32 \<Rightarrow> u32" where
  "restart_loop rto restart_cwnd delta cwnd =
     (let delta = delta - rto
      in if 0 <s delta \<and> restart_cwnd < cwnd then restart_loop rto restart_cwnd delta (drop_bit 1 cwnd) else cwnd)"
  by pat_completeness auto
termination
proof (relation "measure (\<lambda>(rto, r, delta, cwnd). unat cwnd)")
  fix rto restart_cwnd delta cwnd x :: u32
  assume "0 <s x \<and> restart_cwnd < cwnd"
  then have "0 < unat cwnd" by (metis unat_gt_0 word_coorder.not_eq_extremum word_coorder.extremum_strict)
  then show "((rto, restart_cwnd, x, drop_bit 1 cwnd), rto, restart_cwnd, delta, cwnd) \<in>
      measure (\<lambda>(rto, r, delta, cwnd). unat cwnd)"
    by (simp add: unat_drop_bit)
qed simp

declare restart_loop.simps [simp del]

definition tcp_cwnd_restart :: "snd_env \<Rightarrow> s32 \<Rightarrow> tcp_sock \<Rightarrow> tcp_sock" where
  "tcp_cwnd_restart E delta tp =
     (let tp = log_call Ca_cwnd_restart tp;
          tp = tp\<lparr>snd_ssthresh := current_ssthresh E\<rparr>;
          restart_cwnd = min (init_cwnd E) (snd_cwnd tp);
          cwnd = restart_loop (icsk_rto tp) restart_cwnd delta (snd_cwnd tp)
      in tp\<lparr>snd_cwnd := max cwnd restart_cwnd, snd_cwnd_stamp := jiffies E, snd_cwnd_used := 0\<rparr>)"

section \<open>Congestion window validation\<close>

definition tcp_chrono_set :: "snd_env \<Rightarrow> tcp_chrono \<Rightarrow> tcp_sock \<Rightarrow> tcp_sock" where
  "tcp_chrono_set E new tp =
     (let old = chrono_rank (chrono_type tp);
          tp = (if old > 0
                then tp\<lparr>chrono_stat := (chrono_stat tp)[old - 1 := chrono_stat tp ! (old - 1) + (jiffies E - chrono_start tp)]\<rparr>
                else tp)
      in tp\<lparr>chrono_start := jiffies E, chrono_type := new\<rparr>)"

definition tcp_chrono_start :: "snd_env \<Rightarrow> tcp_chrono \<Rightarrow> tcp_sock \<Rightarrow> tcp_sock" where
  "tcp_chrono_start E type tp =
     (if chrono_rank type > chrono_rank (chrono_type tp) then tcp_chrono_set E type tp else tp)"

definition tcp_chrono_stop :: "snd_env \<Rightarrow> tcp_chrono \<Rightarrow> tcp_sock \<Rightarrow> tcp_sock" where
  "tcp_chrono_stop E type tp =
     (if tcp_rtx_queue tp = [] \<and> sk_write_queue tp = [] then tcp_chrono_set E TCP_CHRONO_UNSPEC tp
      else if type = chrono_type tp then tcp_chrono_set E TCP_CHRONO_BUSY tp else tp)"

definition tcp_cwnd_application_limited :: "snd_env \<Rightarrow> tcp_sock \<Rightarrow> tcp_sock" where
  "tcp_cwnd_application_limited E tp =
     (let tp = (if icsk_ca_state tp = TCP_CA_Open \<and> has_socket E \<and> \<not> sk_nospace E
                then let win_used = max (snd_cwnd_used tp) (init_cwnd E);
                         tp = (if win_used < snd_cwnd tp
                               then tp\<lparr>snd_ssthresh := current_ssthresh E,
                                       snd_cwnd := drop_bit 1 (snd_cwnd tp + win_used)\<rparr>
                               else tp)
                     in tp\<lparr>snd_cwnd_used := 0\<rparr>
                else tp)
      in tp\<lparr>snd_cwnd_stamp := jiffies E\<rparr>)"

definition tcp_cwnd_validate :: "snd_env \<Rightarrow> bool \<Rightarrow> tcp_sock \<Rightarrow> tcp_sock" where
  "tcp_cwnd_validate E limited tp =
     (let tp = (if \<not> seq_before (snd_una tp) (cwnd_usage_seq tp) \<or> limited \<or>
                   \<not> is_cwnd_limited tp \<and> packets_out tp > max_packets_out tp
                then tp\<lparr>is_cwnd_limited := limited, max_packets_out := packets_out tp, cwnd_usage_seq := snd_nxt tp\<rparr>
                else tp)
      in if tcp_is_cwnd_limited E tp then tp\<lparr>snd_cwnd_used := 0, snd_cwnd_stamp := jiffies E\<rparr>
         else
           let tp = (if packets_out tp > snd_cwnd_used tp then tp\<lparr>snd_cwnd_used := packets_out tp\<rparr> else tp);
               tp = (if slow_start_after_idle E \<and> icsk_rto tp \<le> jiffies E - snd_cwnd_stamp tp \<and> \<not> has_cong_control E
                     then tcp_cwnd_application_limited E tp else tp)
           in if sk_write_queue tp = [] \<and> has_socket E \<and> sk_nospace E \<and> sk_can_send E
              then tcp_chrono_start E TCP_CHRONO_SNDBUF_LIMITED tp else tp)"

section \<open>Segment sizes\<close>

text \<open>\<open>sizeof(struct tcphdr)\<close>\<close>

abbreviation tcphdr_size :: int where "tcphdr_size \<equiv> 20"

definition u_tcp_mtu_to_mss :: "snd_env \<Rightarrow> tcp_sock \<Rightarrow> int \<Rightarrow> int" where
  "u_tcp_mtu_to_mss E tp pmtu =
     (let mss_now = pmtu - net_header_len E - tcphdr_size;
          mss_now = (if mss_now > mss_clamp tp then mss_clamp tp else mss_now);
          mss_now = mss_now - icsk_ext_hdr_len tp
      in max mss_now (min_snd_mss E))"

definition tcp_mtu_to_mss :: "snd_env \<Rightarrow> tcp_sock \<Rightarrow> int \<Rightarrow> int" where
  "tcp_mtu_to_mss E tp pmtu = u_tcp_mtu_to_mss E tp pmtu - (tcp_header_len tp - tcphdr_size)"

definition tcp_mss_to_mtu :: "snd_env \<Rightarrow> tcp_sock \<Rightarrow> int \<Rightarrow> int" where
  "tcp_mss_to_mtu E tp mss = mss + tcp_header_len tp + icsk_ext_hdr_len tp + net_header_len E"

definition tcp_mtup_init :: "snd_env \<Rightarrow> tcp_sock \<Rightarrow> tcp_sock" where
  "tcp_mtup_init E tp =
     (let tp = tp\<lparr>mtup_enabled := mtu_probing E > 1,
                  mtup_search_high := mss_clamp tp + tcphdr_size + net_header_len E\<rparr>;
          tp = tp\<lparr>mtup_search_low := tcp_mss_to_mtu E tp (base_mss E), mtup_probe_size := 0\<rparr>
      in if mtup_enabled tp then tp\<lparr>mtup_probe_timestamp := jiffies E\<rparr> else tp)"

definition tcp_sync_mss :: "snd_env \<Rightarrow> u32 \<Rightarrow> tcp_sock \<Rightarrow> u32 \<times> tcp_sock" where
  "tcp_sync_mss E pmtu tp =
     (let tp = (if mtup_search_high tp > int (unat pmtu) then tp\<lparr>mtup_search_high := int (unat pmtu)\<rparr> else tp);
          mss_now = tcp_mtu_to_mss E tp (int (unat pmtu));
          mss_now = bound_to_half_wnd E (max_window tp) mss_now;
          tp = tp\<lparr>icsk_pmtu_cookie := pmtu\<rparr>;
          mss_now = (if mtup_enabled tp then min mss_now (tcp_mtu_to_mss E tp (mtup_search_low tp)) else mss_now)
      in (word_of_int mss_now, tp\<lparr>mss_cache := word_of_int mss_now\<rparr>))"

text \<open>The options of the segment are those of an established connection, without a packet.\<close>

definition tcp_current_mss :: "snd_env \<Rightarrow> opt_env \<Rightarrow> opt_sock \<Rightarrow> tcp_key \<Rightarrow> tcp_sock \<Rightarrow> u32 \<times> tcp_sock" where
  "tcp_current_mss E oe os key tp =
     (let (mss_now, tp) = (case dst_mtu E of
            None \<Rightarrow> (mss_cache tp, tp)
          | Some mtu \<Rightarrow> if mtu \<noteq> icsk_pmtu_cookie tp then tcp_sync_mss E mtu tp else (mss_cache tp, tp));
          header_len = fst (tcp_established_options (oe\<lparr>e_skb_ts := None\<rparr>) os key no_options) + 20
      in if header_len \<noteq> word_of_int (tcp_header_len tp)
         then (mss_now - (header_len - word_of_int (tcp_header_len tp)), tp)
         else (mss_now, tp))"

section \<open>Nagle's rules\<close>

definition tcp_urg_mode :: "tcp_sock \<Rightarrow> bool" where
  "tcp_urg_mode tp \<longleftrightarrow> snd_una tp \<noteq> snd_up tp"

definition tcp_minshall_check :: "tcp_sock \<Rightarrow> bool" where
  "tcp_minshall_check tp \<longleftrightarrow> seq_after (snd_sml tp) (snd_una tp) \<and> \<not> seq_after (snd_sml tp) (snd_nxt tp)"

definition tcp_minshall_update :: "u32 \<Rightarrow> sk_buff \<Rightarrow> tcp_sock \<Rightarrow> tcp_sock" where
  "tcp_minshall_update mss_now skb tp =
     (if skb_len skb < ucast (skb_pcount skb) * mss_now then tp\<lparr>snd_sml := skb_end_seq skb\<rparr> else tp)"

text \<open>Whether a small segment has to wait.\<close>

definition tcp_nagle_check :: "bool \<Rightarrow> tcp_sock \<Rightarrow> u32 \<Rightarrow> bool" where
  "tcp_nagle_check partial tp nonagle \<longleftrightarrow>
     partial \<and> (nonagle AND TCP_NAGLE_CORK \<noteq> 0 \<or> nonagle = 0 \<and> packets_out tp \<noteq> 0 \<and> tcp_minshall_check tp)"

definition tcp_nagle_test :: "tcp_sock \<Rightarrow> sk_buff \<Rightarrow> u32 \<Rightarrow> u32 \<Rightarrow> bool" where
  "tcp_nagle_test tp skb cur_mss nonagle \<longleftrightarrow>
     nonagle AND TCP_NAGLE_PUSH \<noteq> 0 \<or> tcp_urg_mode tp \<or> skb_flags skb AND TCPHDR_FIN \<noteq> 0 \<or>
     \<not> tcp_nagle_check (skb_len skb < cur_mss) tp nonagle"

section \<open>How much may go out\<close>

definition tcp_tso_autosize :: "snd_env \<Rightarrow> u32 \<Rightarrow> u32 \<Rightarrow> u32" where
  "tcp_tso_autosize E mss_now min_segs =
     (let bytes = drop_bit (sk_pacing_shift E) (sk_pacing_rate E);
          r = drop_bit (tso_rtt_log E) (min_rtt_us E);
          bytes = (if r < 32 then bytes + ucast (drop_bit (unat r) (gso_max_size E)) else bytes);
          bytes = min bytes (ucast (gso_max_size E))
      in max (ucast (bytes div ucast mss_now)) min_segs)"

definition tcp_tso_segs :: "snd_env \<Rightarrow> u32 \<Rightarrow> u32" where
  "tcp_tso_segs E mss_now = min (tcp_tso_autosize E mss_now (min_tso_segs E)) (ucast (gso_max_segs E))"

text \<open>\<open>is_tail\<close> says whether the segment is the last of the write queue.\<close>

definition tcp_mss_split_point :: "tcp_sock \<Rightarrow> sk_buff \<Rightarrow> bool \<Rightarrow> u32 \<Rightarrow> u32 \<Rightarrow> u32 \<Rightarrow> u32" where
  "tcp_mss_split_point tp skb is_tail mss_now max_segs nonagle =
     (let window = tcp_wnd_end tp - skb_seq skb;
          max_len = mss_now * max_segs
      in if max_len \<le> window \<and> \<not> is_tail then max_len
         else
           let needed = min (skb_len skb) window
           in if max_len \<le> needed then max_len
              else
                let partial = needed mod mss_now
                in if tcp_nagle_check (partial \<noteq> 0) tp nonagle then needed - partial else needed)"

definition tcp_cwnd_test :: "tcp_sock \<Rightarrow> sk_buff \<Rightarrow> u32" where
  "tcp_cwnd_test tp skb =
     (if skb_flags skb AND TCPHDR_FIN \<noteq> 0 \<and> skb_pcount skb = 1 then 1
      else
        let in_flight = tcp_packets_in_flight tp;
            cwnd = snd_cwnd tp
        in if in_flight \<ge> cwnd then 0
           else min (max (drop_bit 1 cwnd) 1) (cwnd - in_flight))"

definition tcp_snd_wnd_test :: "tcp_sock \<Rightarrow> sk_buff \<Rightarrow> u32 \<Rightarrow> bool" where
  "tcp_snd_wnd_test tp skb cur_mss \<longleftrightarrow>
     (let end_seq = (if skb_len skb > cur_mss then skb_seq skb + cur_mss else skb_end_seq skb)
      in \<not> seq_after end_seq (tcp_wnd_end tp))"

text \<open>Whether to wait for more: the answer and the two limits, or nothing if a \<open>BUG_ON\<close> strikes.\<close>

definition tso_limits :: "tcp_sock \<Rightarrow> sk_buff \<Rightarrow> u32 \<times> u32" where
  "tso_limits tp skb = (tcp_wnd_end tp - skb_seq skb, (snd_cwnd tp - tcp_packets_in_flight tp) * mss_cache tp)"

text \<open>The reasons of \<open>tcp_tso_should_defer\<close> to send at once, up to the estimate of the next ACK.\<close>

definition tso_send_now :: "snd_env \<Rightarrow> tcp_sock \<Rightarrow> sk_buff \<Rightarrow> bool \<Rightarrow> u32 \<Rightarrow> bool" where
  "tso_send_now E tp skb is_tail max_segs =
     (let (send_win, cong_win) = tso_limits tp skb;
          limit = min send_win cong_win
      in limit \<ge> max_segs * mss_cache tp \<or> \<not> is_tail \<and> limit \<ge> skb_len skb \<or>
         (if tso_win_divisor E \<noteq> 0
          then limit \<ge> min (snd_wnd tp) (snd_cwnd tp * mss_cache tp) div tso_win_divisor E
          else limit > max_tso_deferred_mss E * mss_cache tp) \<or>
         (case tcp_rtx_queue tp of
            [] \<Rightarrow> True
          | head # _ \<Rightarrow>
              let srtt_in_ns = 125 * ucast (srtt_us tp) :: u64;
                  how_far_is_the_ack = skb_tstamp head + srtt_in_ns - tcp_clock_cache tp;
                  threshold = min (drop_bit 1 srtt_in_ns) NSEC_PER_MSEC
              in 0 <s how_far_is_the_ack - ucast (ucast threshold :: u32)))"

definition tcp_tso_should_defer ::
  "snd_env \<Rightarrow> tcp_sock \<Rightarrow> sk_buff \<Rightarrow> bool \<Rightarrow> u32 \<Rightarrow> bool \<times> bool \<Rightarrow> (bool \<times> bool \<times> bool) option" where
  "tcp_tso_should_defer E tp skb is_tail max_segs flags = (case flags of (cwnd_limited, rwnd_limited) \<Rightarrow>
     if icsk_ca_state tp \<ge> TCP_CA_Recovery then Some (False, flags)
     else if 0 <s tcp_clock_cache tp - tcp_wstamp_ns tp - NSEC_PER_MSEC then Some (False, flags)
     else if skb_pcount skb \<le> 1 \<or> snd_cwnd tp \<le> tcp_packets_in_flight tp then None
     else if tso_send_now E tp skb is_tail max_segs then Some (False, flags)
     else
       let (send_win, cong_win) = tso_limits tp skb
       in if cong_win < send_win \<and> cong_win \<le> skb_len skb then Some (True, True, rwnd_limited)
          else if \<not> cong_win < send_win \<and> send_win \<le> skb_len skb then Some (True, cwnd_limited, True)
          else if skb_flags skb AND TCPHDR_FIN \<noteq> 0 \<or> skb_eor skb then Some (False, flags)
          else Some (True, flags))"

definition tcp_pacing_check :: "snd_env \<Rightarrow> tcp_sock \<Rightarrow> bool \<times> tcp_sock" where
  "tcp_pacing_check E tp =
     (if \<not> needs_internal_pacing E \<or> tcp_wstamp_ns tp \<le> tcp_clock_cache tp then (False, tp)
      else (True, if pacing_timer_queued tp then tp
                  else log_call Start_pacing_timer (tp\<lparr>pacing_timer_queued := True\<rparr>)))"

text \<open>\<open>alloc1\<close> and \<open>alloc2\<close> are the two readings of \<open>sk_wmem_alloc\<close>.\<close>

definition tcp_small_queue_check :: "snd_env \<Rightarrow> u64 \<Rightarrow> u64 \<Rightarrow> sk_buff \<Rightarrow> nat \<Rightarrow> tcp_sock \<Rightarrow> bool \<times> tcp_sock" where
  "tcp_small_queue_check E alloc1 alloc2 skb factor tp =
     (let limit = max (ucast (word_of_int (2 * skb_truesize skb) :: u32)) (drop_bit (sk_pacing_shift E) (sk_pacing_rate E));
          limit = (if pacing_none E then min limit (limit_output_bytes E) else limit);
          limit = push_bit factor limit;
          limit = (case tx_delay E of
              Some d \<Rightarrow> if d \<noteq> 0 then limit + drop_bit 19 (sk_pacing_rate E * ucast d) else limit
            | None \<Rightarrow> limit)
      in if alloc1 > limit then
           (if length (tcp_rtx_queue tp) \<le> 1 then (False, tp)
            else (alloc2 > limit, tp\<lparr>tsq_throttled := True\<rparr>))
         else (False, tp))"

section \<open>The loop of \<open>tcp_write_xmit\<close>\<close>

text \<open>What happens in one round outside this file: memory for a split, the bytes queued below the socket,
  and whether the transmission succeeds.\<close>

record xmit_ans =
  xa_seg :: seg_env
  xa_alloc1 :: u64
  xa_alloc2 :: u64
  xa_sent :: bool

record xmit_state =
  xs_sk :: tcp_sock
  xs_sent :: "sk_buff list"
  xs_sent_pkts :: u32
  xs_cwnd_limited :: bool
  xs_rwnd_limited :: bool

datatype xmit_result = Bug | Break xmit_state | Continue xmit_state

text \<open>The label \<open>repair\<close>: the head of the queue counts as sent.\<close>

definition xmit_advance :: "u32 \<Rightarrow> bool \<Rightarrow> xmit_state \<Rightarrow> xmit_state" where
  "xmit_advance mss_now on_wire L = (case sk_write_queue (xs_sk L) of
     [] \<Rightarrow> L
   | skb # rest \<Rightarrow>
       L\<lparr>xs_sk := tcp_minshall_update mss_now skb (tcp_event_new_data_sent (xs_sk L)),
         xs_sent_pkts := xs_sent_pkts L + ucast (skb_pcount skb),
         xs_sent := (if on_wire then xs_sent L @ [skb] else xs_sent L)\<rparr>)"

definition set_head :: "sk_buff \<Rightarrow> tcp_sock \<Rightarrow> tcp_sock" where
  "set_head skb tp = tp\<lparr>sk_write_queue := skb # tl (sk_write_queue tp)\<rparr>"

text \<open>The part of a round between the decision to send and the transmission.\<close>

definition xmit_send :: "snd_env \<Rightarrow> u32 \<Rightarrow> u32 \<Rightarrow> xmit_ans \<Rightarrow> xmit_state \<Rightarrow> xmit_result" where
  "xmit_send E mss_now limit a L =
     (let (err, tp) = (if skb_len (hd (sk_write_queue (xs_sk L))) > limit
                       then tso_fragment (xa_seg a) limit mss_now (xs_sk L) else (0, xs_sk L));
          L = L\<lparr>xs_sk := tp\<rparr>
      in if err \<noteq> 0 then Break L
         else
           let skb = hd (sk_write_queue tp);
               (throttle, tp) = tcp_small_queue_check E (xa_alloc1 a) (xa_alloc2 a) skb 0 tp;
               L = L\<lparr>xs_sk := tp\<rparr>
           in if throttle then Break L
              else if skb_end_seq skb = skb_seq skb then Break L
              else if \<not> xa_sent a then Break L
              else Continue (xmit_advance mss_now True L))"

text \<open>The bound on what one round may send.\<close>

definition xmit_limit :: "u32 \<Rightarrow> u32 \<Rightarrow> u32 \<Rightarrow> u32 \<Rightarrow> u16 \<Rightarrow> tcp_sock \<Rightarrow> u32" where
  "xmit_limit mss_now nonagle max_segs cwnd_quota tso_segs tp =
     (if tso_segs > 1 \<and> \<not> tcp_urg_mode tp
      then tcp_mss_split_point tp (hd (sk_write_queue tp)) (tl (sk_write_queue tp) = []) mss_now
             (min cwnd_quota max_segs) nonagle
      else mss_now)"

text \<open>One round.  \<open>push_one\<close> is 0, 1, or 2 for a loss probe.\<close>

definition xmit_round :: "snd_env \<Rightarrow> u32 \<Rightarrow> u32 \<Rightarrow> nat \<Rightarrow> u32 \<Rightarrow> xmit_ans \<Rightarrow> xmit_state \<Rightarrow> xmit_result" where
  "xmit_round E mss_now nonagle push_one max_segs a L = (case sk_write_queue (xs_sk L) of
     [] \<Rightarrow> Break L
   | skb # rest \<Rightarrow>
       if repairing (xs_sk L) then
         let tp = (xs_sk L)\<lparr>tcp_wstamp_ns := tcp_clock_cache (xs_sk L)\<rparr>;
             skb = skb\<lparr>skb_tstamp := tcp_wstamp_ns tp\<rparr>
         in Continue (xmit_advance mss_now False (L\<lparr>xs_sk := set_head (snd (tcp_init_tso_segs skb mss_now)) tp\<rparr>))
       else
         let (wait, tp) = tcp_pacing_check E (xs_sk L);
             L = L\<lparr>xs_sk := tp\<rparr>
         in if wait then Break L
            else
              let (tso_segs, skb) = tcp_init_tso_segs skb mss_now;
                  tp = set_head skb tp;
                  L = L\<lparr>xs_sk := tp\<rparr>;
                  cwnd_quota = tcp_cwnd_test tp skb
              in if tso_segs = 0 then Bug
                 else if cwnd_quota = 0 \<and> push_one \<noteq> 2 then Break L
                 else
                   let cwnd_quota = (if cwnd_quota = 0 then 1 else cwnd_quota);
                       limit = xmit_limit mss_now nonagle max_segs cwnd_quota tso_segs tp
                   in if \<not> tcp_snd_wnd_test tp skb mss_now then Break (L\<lparr>xs_rwnd_limited := True\<rparr>)
                      else if tso_segs = 1 then
                        (if \<not> tcp_nagle_test tp skb mss_now (if rest = [] then nonagle else TCP_NAGLE_PUSH)
                         then Break L else xmit_send E mss_now limit a L)
                      else if push_one \<noteq> 0 then xmit_send E mss_now limit a L
                      else case tcp_tso_should_defer E tp skb (rest = []) max_segs (xs_cwnd_limited L, xs_rwnd_limited L) of
                          None \<Rightarrow> Bug
                        | Some (defer, cl, rl) \<Rightarrow>
                            let L = L\<lparr>xs_cwnd_limited := cl, xs_rwnd_limited := rl\<rparr>
                            in if defer then Break L else xmit_send E mss_now limit a L)"

text \<open>The loop, with one answer per round; \<open>None\<close> if they do not suffice.\<close>

fun xmit_loop :: "snd_env \<Rightarrow> u32 \<Rightarrow> u32 \<Rightarrow> nat \<Rightarrow> u32 \<Rightarrow> xmit_ans list \<Rightarrow> xmit_state \<Rightarrow> xmit_result option" where
  "xmit_loop E mss_now nonagle push_one max_segs [] L =
     (if sk_write_queue (xs_sk L) = [] then Some (Break L) else None)"
| "xmit_loop E mss_now nonagle push_one max_segs (a # as) L =
     (case xmit_round E mss_now nonagle push_one max_segs a L of
        Bug \<Rightarrow> Some Bug
      | Break L' \<Rightarrow> Some (Break L')
      | Continue L' \<Rightarrow>
          if push_one \<noteq> 0 then Some (Break L') else xmit_loop E mss_now nonagle push_one max_segs as L')"

text \<open>The timer of the loss probe; \<open>rto_delta_us\<close> is the time left until the retransmission timeout.\<close>

definition tcp_schedule_loss_probe :: "snd_env \<Rightarrow> bool \<Rightarrow> tcp_sock \<Rightarrow> bool \<times> tcp_sock" where
  "tcp_schedule_loss_probe E advancing_rto tp =
     (if fastopen_rsk tp then (False, tp)
      else if early_retrans E \<noteq> 3 \<and> early_retrans E \<noteq> 4 \<or> packets_out tp = 0 \<or> \<not> sack_ok tp \<or>
              icsk_ca_state tp \<noteq> TCP_CA_Open \<and> icsk_ca_state tp \<noteq> TCP_CA_CWR then (False, tp)
      else
        let timeout = (if srtt_us tp \<noteq> 0
              then usecs_to_jiffies E (drop_bit 2 (srtt_us tp) + (if packets_out tp = 1 then rto_min_us E else timeout_min_us E))
              else timeout_init E);
            delta = (if advancing_rto then jiffies_to_usecs E (icsk_rto tp) else rto_delta_us E);
            timeout = (if delta > 0 then min timeout (usecs_to_jiffies E delta) else timeout)
        in (True, log_call (Loss_probe_timer timeout) tp))"

text \<open>After the loop: the chronograph, the validation of the congestion window, and the loss probe.  The
  result says whether data is queued, none is in flight and nothing could be sent.\<close>

definition xmit_end :: "snd_env \<Rightarrow> nat \<Rightarrow> xmit_state \<Rightarrow> bool \<times> tcp_sock" where
  "xmit_end E push_one L =
     (let tp = (if xs_rwnd_limited L then tcp_chrono_start E TCP_CHRONO_RWND_LIMITED (xs_sk L)
                else tcp_chrono_stop E TCP_CHRONO_RWND_LIMITED (xs_sk L));
          limited = (xs_cwnd_limited L \<or> tcp_packets_in_flight tp \<ge> snd_cwnd tp);
          tp = (if xs_sent_pkts L \<noteq> 0 \<or> limited then tcp_cwnd_validate E limited tp else tp)
      in if xs_sent_pkts L \<noteq> 0 then
           let tp = (if icsk_ca_state tp = TCP_CA_CWR \<or> icsk_ca_state tp = TCP_CA_Recovery
                     then tp\<lparr>prr_out := prr_out tp + xs_sent_pkts L\<rparr> else tp)
           in (False, if push_one \<noteq> 2 then snd (tcp_schedule_loss_probe E False tp) else tp)
         else (packets_out tp = 0 \<and> sk_write_queue tp \<noteq> [], tp))"

section \<open>The restart window\<close>

text \<open>The halvings of the loop: one for each timeout that ended within the idle time.\<close>

lemma sint_diff_nonneg:
  assumes "0 \<le> sint (d :: u32)" and "unat (r :: u32) < 2 ^ 31"
  shows "sint (d - r) = sint d - int (unat r)"
proof -
  have "d - r = word_of_int (sint d - int (unat r))" by simp
  moreover have "sint d < 2147483648" "unat r < 2147483648" using sint_lt [of d] assms(2) by simp_all
  then have "- 2147483648 \<le> sint d - int (unat r)" "sint d - int (unat r) < 2147483648" using assms(1) by linarith+
  then have "sint (word_of_int (sint d - int (unat r)) :: u32) = sint d - int (unat r)"
    using sint_word32 [of "sint d - int (unat r)"] by simp
  ultimately show ?thesis by (simp only:)
qed

lemma restart_loop_value:
  assumes "0 < unat rto" and "unat rto < 2 ^ 31" and "0 \<le> sint delta"
  shows "max (unat (restart_loop rto r delta cwnd)) (unat r) = max (unat cwnd div 2 ^ ((nat (sint delta) - 1) div unat rto)) (unat r)"
  using assms
proof (induction rto r delta cwnd rule: restart_loop.induct)
  case (1 rto r delta cwnd)
  let ?k = "(nat (sint delta) - 1) div unat rto"
  have d: "sint (delta - rto) = sint delta - int (unat rto)" using "1.prems" by (intro sint_diff_nonneg)
  show ?case
  proof (cases "0 <s delta - rto \<and> r < cwnd")
    case True
    then have pos: "0 < sint delta - int (unat rto)" using d by (simp add: word_sless_alt)
    then have "nat (sint delta) - 1 = nat (sint (delta - rto)) - 1 + unat rto" using d by linarith
    then have k: "?k = Suc ((nat (sint (delta - rto)) - 1) div unat rto)" using "1.prems" by (simp only: div_add_self2)
    have "unat (drop_bit 1 cwnd) = unat cwnd div 2" by (simp add: unat_drop_bit flip: drop_bit_eq_div)
    with True "1.IH" [OF refl True] "1.prems" pos d k show ?thesis
      by (subst restart_loop.simps) (simp add: div_mult2_eq)
  next
    case False
    then have "restart_loop rto r delta cwnd = cwnd" by (subst restart_loop.simps) (auto simp: Let_def)
    moreover consider "cwnd \<le> r" | "sint delta \<le> int (unat rto)" using False d by (auto simp: word_sless_alt not_less)
    then have "max (unat cwnd) (unat r) = max (unat cwnd div 2 ^ ?k) (unat r)"
    proof cases
      case 1
      then have "unat cwnd \<le> unat r" by (simp add: word_le_nat_alt)
      moreover have "unat cwnd div 2 ^ ?k \<le> unat cwnd" by simp
      ultimately show ?thesis by linarith
    next
      case 2
      then have "nat (sint delta) - 1 < unat rto" using "1.prems" by linarith
      then show ?thesis by simp
    qed
    ultimately show ?thesis by simp
  qed
qed

end
