(* ===== verification/Send_Safety.thy ===== *)
theory Send_Safety
  imports Tcp_Send
begin

text \<open>
  What the loop of \<open>tcp_write_xmit\<close> guarantees: the queues stay in order and counted, a segment that goes
  out lies within the peer's window and within the congestion window, nothing is lost or reordered, and
  the loop ends.
\<close>

section \<open>Frames\<close>

lemma log_call_frame [simp]:
  "sk_write_queue (log_call c tp) = sk_write_queue tp" "tcp_rtx_queue (log_call c tp) = tcp_rtx_queue tp"
  "snd_nxt (log_call c tp) = snd_nxt tp" "snd_una (log_call c tp) = snd_una tp" "snd_wnd (log_call c tp) = snd_wnd tp"
  "packets_out (log_call c tp) = packets_out tp" "sacked_out (log_call c tp) = sacked_out tp"
  "lost_out (log_call c tp) = lost_out tp" "retrans_out (log_call c tp) = retrans_out tp"
  "snd_cwnd (log_call c tp) = snd_cwnd tp" "highest_sack (log_call c tp) = highest_sack tp"
  "repairing (log_call c tp) = repairing tp"
  by (simp_all add: log_call_def)

text \<open>What the checks of a round leave alone.\<close>

definition same_conn :: "tcp_sock \<Rightarrow> tcp_sock \<Rightarrow> bool" where
  "same_conn tp tp' \<longleftrightarrow> tcp_rtx_queue tp' = tcp_rtx_queue tp \<and> snd_nxt tp' = snd_nxt tp \<and> snd_una tp' = snd_una tp \<and>
     snd_wnd tp' = snd_wnd tp \<and> packets_out tp' = packets_out tp \<and> sacked_out tp' = sacked_out tp \<and>
     lost_out tp' = lost_out tp \<and> retrans_out tp' = retrans_out tp \<and> snd_cwnd tp' = snd_cwnd tp \<and>
     repairing tp' = repairing tp"

lemma same_conn_refl [simp]: "same_conn tp tp"
  by (simp add: same_conn_def)

lemma same_conn_trans: "same_conn a b \<Longrightarrow> same_conn b c \<Longrightarrow> same_conn a c"
  by (simp add: same_conn_def)

lemma same_conn_in_flight: "same_conn tp tp' \<Longrightarrow> tcp_packets_in_flight tp' = tcp_packets_in_flight tp"
  by (simp add: same_conn_def tcp_packets_in_flight_def)

lemma same_conn_wnd_end: "same_conn tp tp' \<Longrightarrow> tcp_wnd_end tp' = tcp_wnd_end tp"
  by (simp add: same_conn_def tcp_wnd_end_def)

lemma pacing_check_frame:
  "tcp_pacing_check E tp = (w, tp') \<Longrightarrow> same_conn tp tp' \<and> sk_write_queue tp' = sk_write_queue tp"
  by (auto simp: tcp_pacing_check_def same_conn_def split: if_splits)

lemma small_queue_frame:
  "tcp_small_queue_check E a1 a2 skb f tp = (w, tp') \<Longrightarrow> same_conn tp tp' \<and> sk_write_queue tp' = sk_write_queue tp"
  by (auto simp: tcp_small_queue_check_def same_conn_def Let_def split: if_splits)

lemma set_head_frame: "same_conn tp (set_head skb tp)" "sk_write_queue (set_head skb tp) = skb # tl (sk_write_queue tp)"
  by (simp_all add: set_head_def same_conn_def)

lemma tso_fragment_frame:
  "tso_fragment SE len mss tp = (err, tp') \<Longrightarrow> same_conn tp tp'"
  by (auto simp: tso_fragment_def same_conn_def split: list.splits option.splits prod.splits)

lemma init_tso_segs_frame:
  assumes "tcp_init_tso_segs skb mss = (n, skb')"
  shows "skb_frags skb' = skb_frags skb" "skb_seq skb' = skb_seq skb" "skb_end_seq skb' = skb_end_seq skb"
    "skb_flags skb' = skb_flags skb" "n = skb_pcount skb'"
  using assms by (auto simp: tcp_init_tso_segs_def Let_def split: if_splits)

section \<open>Limits\<close>

lemma word_sub_mod_le: "(x :: u32) - x mod y \<le> x"
proof -
  have "x mod y \<le> x" by (simp add: word_le_nat_alt unat_mod_word)
  then show ?thesis by (simp add: word_le_nat_alt unat_minus_le)
qed

lemma split_point_bounds:
  "tcp_mss_split_point tp skb tail mss segs nonagle \<le> tcp_wnd_end tp - skb_seq skb"
  "tcp_mss_split_point tp skb tail mss segs nonagle \<le> mss * segs"
  by (auto simp: tcp_mss_split_point_def Let_def min_def not_le intro: order_trans [OF word_sub_mod_le] less_imp_le)

section \<open>The peer's window\<close>

text \<open>The data of a segment lies between \<open>snd_una\<close> and the end of the window.\<close>

definition in_window :: "tcp_sock \<Rightarrow> sk_buff \<Rightarrow> bool" where
  "in_window tp skb \<longleftrightarrow> unat (skb_seq skb - snd_una tp) + length (skb_data skb) \<le> unat (snd_wnd tp)"

lemma window_word:
  "tcp_wnd_end tp - (q + of_nat k) = word_of_int (int (unat (snd_wnd tp)) - int (unat (q - snd_una tp)) - int k)"
  by (simp add: tcp_wnd_end_def algebra_simps)

lemma sint_diff:
  "d + k < 2147483648 \<Longrightarrow> w < 2147483648 \<Longrightarrow> v = int w - int d - int k \<Longrightarrow> sint (word_of_int v :: u32) = v"
  for d k w :: nat
  using sint_word32 [of v] by simp

lemma not_after_window:
  assumes "unat (q - snd_una tp) + k < 2 ^ 31" and "unat (snd_wnd tp) < 2 ^ 31"
    and "\<not> seq_after (q + of_nat k) (tcp_wnd_end tp)"
  shows "unat (q - snd_una tp) + k \<le> unat (snd_wnd tp)"
proof -
  let ?v = "int (unat (snd_wnd tp)) - int (unat (q - snd_una tp)) - int k"
  have n: "unat (q - snd_una tp) + k < 2147483648" "unat (snd_wnd tp) < 2147483648" using assms(1,2) by simp_all
  have "0 \<le> sint (tcp_wnd_end tp - (q + of_nat k))"
    using assms(3) by (simp add: seq_before_def word_sless_alt)
  moreover have "sint (word_of_int ?v :: u32) = ?v"
    using n by (rule sint_diff [OF _ _ refl])
  ultimately have "0 \<le> ?v" unfolding window_word by linarith
  then show ?thesis by linarith
qed

lemma window_left:
  assumes "unat (q - snd_una tp) \<le> unat (snd_wnd tp)"
  shows "unat (tcp_wnd_end tp - q) = unat (snd_wnd tp) - unat (q - snd_una tp)"
proof -
  have "tcp_wnd_end tp - q = snd_wnd tp - (q - snd_una tp)" by (simp add: tcp_wnd_end_def)
  then show ?thesis
    using assms unat_minus_le [of "q - snd_una tp" "snd_wnd tp"] by (simp only: word_le_nat_alt)
qed

section \<open>Packet counts\<close>

lemma unat_skb_len: "length (skb_data skb) < 2 ^ 31 \<Longrightarrow> unat (skb_len skb) = length (skb_data skb)"
  by (simp add: skb_len_def unsigned_of_nat take_bit_nat_eq_self)

lemma seg_count_pos: "1 \<le> seg_count len mss"
  by (simp add: seg_count_def)

lemma seg_count_mono: "a \<le> b \<Longrightarrow> seg_count a mss \<le> seg_count b mss"
  unfolding seg_count_def by (intro max.mono div_le_mono) simp_all

lemma seg_count_limit: "0 < mss \<Longrightarrow> 0 < k \<Longrightarrow> len \<le> mss * k \<Longrightarrow> seg_count len mss \<le> k"
proof -
  assume "0 < mss" "0 < k" "len \<le> mss * k"
  then have "len + mss - 1 < Suc k * mss" by (simp add: mult.commute)
  then have "(len + mss - 1) div mss < Suc k" by (rule less_mult_imp_div_less)
  with \<open>0 < k\<close> show ?thesis by (simp add: seg_count_def)
qed

text \<open>A count above one is exact for the segment size it was made with.\<close>

definition counted :: "sk_buff \<Rightarrow> bool" where
  "counted skb \<longleftrightarrow> (1 < skb_pcount skb \<longrightarrow>
     unat (skb_pcount skb) = seg_count (length (skb_data skb)) (unat (skb_gso_size skb)))"

text \<open>A segment of the write queue that can be counted with the current segment size.\<close>

definition countable :: "u32 \<Rightarrow> sk_buff \<Rightarrow> bool" where
  "countable mss skb \<longleftrightarrow> length (skb_data skb) < 2 ^ 31 \<and> seg_count (length (skb_data skb)) (unat mss) < 2 ^ 16"

lemma countable_shorter: "countable mss s \<Longrightarrow> length (skb_data n) \<le> length (skb_data s) \<Longrightarrow> countable mss n"
  unfolding countable_def using seg_count_mono [of "length (skb_data n)" "length (skb_data s)" "unat mss"] by linarith

lemma tso_segs_count:
  assumes "countable mss skb" and "0 < mss" and "mss < 2 ^ 16"
  shows "unat (skb_pcount (tcp_set_skb_tso_segs skb mss)) = seg_count (length (skb_data skb)) (unat mss)"
    and "counted (tcp_set_skb_tso_segs skb mss)"
proof -
  let ?n = "length (skb_data skb)" and ?m = "unat mss"
  have n: "?n < 2 ^ 31" "seg_count ?n ?m < 2 ^ 16" using assms(1) by (simp_all add: countable_def)
  have m: "0 < ?m" "?m < 2 ^ 16" using assms(2,3) by (simp_all add: word_less_nat_alt unat_gt_0)
  note len = unat_skb_len [OF n(1)]
  show count: "unat (skb_pcount (tcp_set_skb_tso_segs skb mss)) = seg_count ?n ?m"
  proof (cases "skb_len skb \<le> mss")
    case True
    then have "?n \<le> ?m" by (simp add: word_le_nat_alt len)
    with True m(1) show ?thesis by (simp add: tcp_set_skb_tso_segs_def seg_count_le)
  next
    case False
    then have big: "?m < ?n" by (simp add: word_le_nat_alt len)
    have "unat (skb_len skb + mss - 1) = ?n + ?m - 1"
      using n(1) m by (simp add: unat_word_ariths len word_le_nat_alt unat_minus_le)
    then have "unat ((skb_len skb + mss - 1) div mss) = (?n + ?m - 1) div ?m"
      by (simp add: unat_div_word)
    moreover have "(?n + ?m - 1) div ?m = seg_count ?n ?m"
    proof -
      have "1 \<le> (?n + ?m - 1) div ?m" using big m(1) by (simp add: div_greater_zero_iff Suc_le_eq)
      then show ?thesis by (simp add: seg_count_def)
    qed
    ultimately have "unat (ucast ((skb_len skb + mss - 1) div mss) :: u16) = seg_count ?n ?m"
      using n(2) by (simp add: unsigned_ucast_eq take_bit_nat_eq_self)
    with False show ?thesis by (simp add: tcp_set_skb_tso_segs_def)
  qed
  have "unat (skb_gso_size (tcp_set_skb_tso_segs skb mss)) = ?m" if "\<not> skb_len skb \<le> mss"
    using that m(2) by (simp add: tcp_set_skb_tso_segs_def unsigned_ucast_eq take_bit_nat_eq_self)
  then show "counted (tcp_set_skb_tso_segs skb mss)"
    using count by (auto simp: counted_def tcp_set_skb_tso_segs_def split: if_splits)
qed

lemma init_tso_segs_count:
  assumes "countable mss skb" and "0 < mss" and "mss < 2 ^ 16" and "counted skb"
    and "tcp_init_tso_segs skb mss = (n, skb')"
  shows "n \<noteq> 0" and "1 < n \<Longrightarrow> unat n = seg_count (length (skb_data skb)) (unat mss)" and "counted skb'"
proof -
  have set: "unat (skb_pcount (tcp_set_skb_tso_segs skb mss)) = seg_count (length (skb_data skb)) (unat mss)"
    "counted (tcp_set_skb_tso_segs skb mss)"
    using tso_segs_count [OF assms(1-3)] by blast+
  have same: "unat (skb_pcount skb) = seg_count (length (skb_data skb)) (unat mss)"
    if "1 < skb_pcount skb" "ucast (skb_gso_size skb) = mss"
  proof -
    have "unat (skb_gso_size skb) = unat mss" using that(2) by (metis unat_ucast16)
    with that(1) assms(4) show ?thesis by (simp add: counted_def)
  qed
  show "n \<noteq> 0" "1 < n \<Longrightarrow> unat n = seg_count (length (skb_data skb)) (unat mss)" "counted skb'"
    using assms(4,5) set same seg_count_pos [of "length (skb_data skb)" "unat mss"]
    by (auto simp: tcp_init_tso_segs_def Let_def split: if_splits)
qed

section \<open>The invariant of the loop\<close>

text \<open>The queues are in order and counted, and everything that is queued lies within half of the sequence
  space after \<open>snd_una\<close>; so does the window.\<close>

definition send_inv :: "u32 \<Rightarrow> tcp_sock \<Rightarrow> bool" where
  "send_inv mss tp \<longleftrightarrow> seg_inv tp \<and> (\<forall>s \<in> set (sk_write_queue tp). counted s \<and> countable mss s) \<and>
     unat (snd_nxt tp - snd_una tp) + sum_list (map span (sk_write_queue tp)) < 2 ^ 31 \<and> unat (snd_wnd tp) < 2 ^ 31"

lemma send_inv_frame:
  assumes "same_conn tp tp'" and "sk_write_queue tp' = sk_write_queue tp"
  shows "send_inv mss tp' \<longleftrightarrow> send_inv mss tp"
  using assms by (simp add: send_inv_def seg_inv_def same_conn_def)

text \<open>All bytes that are queued, sent or not.\<close>

definition queued_data :: "tcp_sock \<Rightarrow> u8 list" where
  "queued_data tp = concat (map skb_data (tcp_rtx_queue tp @ sk_write_queue tp))"

lemma queued_data_frame:
  "same_conn tp tp' \<Longrightarrow> sk_write_queue tp' = sk_write_queue tp \<Longrightarrow> queued_data tp' = queued_data tp"
  by (simp add: queued_data_def same_conn_def)

text \<open>Counting the head again changes nothing else.\<close>

lemma set_head_inv:
  assumes "send_inv mss tp" and "sk_write_queue tp = skb # rest" and "0 < mss" and "mss < 2 ^ 16"
    and "tcp_init_tso_segs skb mss = (n, skb')"
  shows "send_inv mss (set_head skb' tp)" and "queued_data (set_head skb' tp) = queued_data tp"
proof -
  note f = init_tso_segs_frame [OF assms(5)]
  have "counted skb" "countable mss skb" using assms(1,2) by (auto simp: send_inv_def)
  then have "counted skb'" "countable mss skb'"
    using init_tso_segs_count [OF _ assms(3,4) _ assms(5)] f by (auto simp: countable_def)
  moreover have "span skb' = span skb" using f by (simp add: span_def)
  ultimately show "send_inv mss (set_head skb' tp)"
    using assms(1,2) f by (auto simp: send_inv_def seg_inv_def set_head_def)
  show "queued_data (set_head skb' tp) = queued_data tp"
    using assms(2) f by (simp add: queued_data_def set_head_def)
qed

lemma split_counted:
  assumes "splits_pages SE" and "countable mss skb" and "0 < mss" and "mss < 2 ^ 16" and "split_skb SE len mss new skb = (a, b)"
  shows "counted a \<and> countable mss a \<and> counted b \<and> countable mss b \<and>
    unat (skb_pcount a) = seg_count (length (skb_data a)) (unat mss) \<and> unat (skb_pcount b) = seg_count (length (skb_data b)) (unat mss)"
proof -
  note d = plain_split.split_data [OF assms(1,5)]
  have ab: "countable mss a" "countable mss b"
    using assms(2) d seg_count_mono [of "length (skb_data a)" "length (skb_data skb)" "unat mss"]
      seg_count_mono [of "length (skb_data b)" "length (skb_data skb)" "unat mss"]
    by (auto simp: countable_def)
  obtain a0 b0 where "a = tcp_set_skb_tso_segs a0 mss" "b = tcp_set_skb_tso_segs b0 mss"
    using assms(5) by (auto simp: split_skb_def Let_def split: prod.splits)
  with ab tso_segs_count [OF _ assms(3,4), of a0] tso_segs_count [OF _ assms(3,4), of b0] show ?thesis
    by (auto simp: countable_def)
qed

lemma tso_fragment_inv:
  assumes "splits_pages SE" and "send_inv mss tp" and "sk_write_queue tp = skb # rest" and "0 < mss" and "mss < 2 ^ 16"
    and "len < skb_len skb" and "tso_fragment SE len mss tp = (err, tp')"
  shows "send_inv mss tp' \<and> queued_data tp' = queued_data tp"
proof (cases "se_alloc SE")
  case None
  with assms show ?thesis by (simp add: tso_fragment_def)
next
  case (Some new)
  obtain a b where ab: "split_skb SE len mss new skb = (a, b)" by fastforce
  have ok: "countable mss skb" using assms(2,3) by (simp add: send_inv_def)
  then have len: "unat len \<le> length (skb_data skb)"
    using assms(6) unat_skb_len [of skb] by (simp add: countable_def word_less_nat_alt)
  have tp': "sk_write_queue tp' = a # b # rest" "same_conn tp tp'"
    using assms(3,7) Some ab tso_fragment_frame [OF assms(7)] by (auto simp: tso_fragment_def)
  note sp = plain_split.split_span [OF assms(1) ab len]
  obtain d where "chain (snd_nxt tp) ([] @ skb # rest) d" using assms(2,3) by (auto simp: send_inv_def seg_inv_def)
  from plain_split.split_chain [OF assms(1) this ab len]
  have "\<exists>d. chain (snd_nxt tp') (sk_write_queue tp') d" using tp' by (auto simp: same_conn_def)
  then have "send_inv mss tp'"
    using assms(2,3) tp' sp split_counted [OF assms(1) ok assms(4,5) ab]
    by (auto simp: send_inv_def seg_inv_def same_conn_def simp del: chain.simps)
  moreover have "queued_data tp' = queued_data tp"
    using tp' assms(3) plain_split.split_data [OF assms(1) ab] by (simp add: queued_data_def same_conn_def)
  ultimately show ?thesis by simp
qed

text \<open>The head moves to the retransmission queue.\<close>

lemma new_data_sent_fields:
  assumes "sk_write_queue tp = skb # rest"
  shows "sk_write_queue (tcp_event_new_data_sent tp) = rest"
    "tcp_rtx_queue (tcp_event_new_data_sent tp) = tcp_rtx_queue tp @ [skb]"
    "snd_nxt (tcp_event_new_data_sent tp) = skb_end_seq skb" "snd_una (tcp_event_new_data_sent tp) = snd_una tp"
    "snd_wnd (tcp_event_new_data_sent tp) = snd_wnd tp" "snd_cwnd (tcp_event_new_data_sent tp) = snd_cwnd tp"
    "packets_out (tcp_event_new_data_sent tp) = packets_out tp + ucast (skb_pcount skb)"
    "sacked_out (tcp_event_new_data_sent tp) = sacked_out tp" "lost_out (tcp_event_new_data_sent tp) = lost_out tp"
    "retrans_out (tcp_event_new_data_sent tp) = retrans_out tp" "repairing (tcp_event_new_data_sent tp) = repairing tp"
  using assms by (simp_all add: tcp_event_new_data_sent_def Let_def)

lemma minshall_frame: "same_conn tp (tcp_minshall_update m skb tp)"
  "sk_write_queue (tcp_minshall_update m skb tp) = sk_write_queue tp"
  by (simp_all add: tcp_minshall_update_def same_conn_def)

lemma new_data_sent_inv:
  assumes "send_inv mss tp" and "sk_write_queue tp = skb # rest"
  shows "send_inv mss (tcp_event_new_data_sent tp) \<and> queued_data (tcp_event_new_data_sent tp) = queued_data tp"
proof -
  note f = new_data_sent_fields [OF assms(2)]
  obtain c d where ch: "chain c (tcp_rtx_queue tp) (snd_nxt tp)" "chain (snd_nxt tp) (skb # rest) d"
    using assms by (auto simp: send_inv_def seg_inv_def)
  then have endq: "skb_end_seq skb = snd_nxt tp + of_nat (span skb)" by simp
  have small: "unat (snd_nxt tp - snd_una tp) + span skb < 2 ^ 31" using assms by (simp add: send_inv_def)
  have "skb_end_seq skb - snd_una tp = (snd_nxt tp - snd_una tp) + of_nat (span skb)" using endq by simp
  moreover have "unat ((snd_nxt tp - snd_una tp) + of_nat (span skb)) = unat (snd_nxt tp - snd_una tp) + span skb"
    using small by (simp add: unat_plus_small unsigned_of_nat take_bit_nat_eq_self)
  ultimately have dist: "unat (skb_end_seq skb - snd_una tp) = unat (snd_nxt tp - snd_una tp) + span skb"
    by (simp only:)
  have "chain c (tcp_rtx_queue tp @ [skb]) (skb_end_seq skb)" using ch by (auto simp: chain_append)
  moreover have "chain (skb_end_seq skb) rest d" using ch(2) unfolding chain.simps by blast
  ultimately show ?thesis
    using assms dist by (auto simp: send_inv_def seg_inv_def queued_data_def f)
qed

section \<open>One round\<close>

text \<open>The segment that goes out and what stays: all of the head, or its first \<open>limit\<close> bytes.\<close>

definition cut_of :: "u32 \<Rightarrow> u32 \<Rightarrow> sk_buff \<Rightarrow> sk_buff list \<Rightarrow> sk_buff \<Rightarrow> sk_buff list \<Rightarrow> bool" where
  "cut_of mss limit skb rest h q \<longleftrightarrow> (if limit < skb_len skb
     then skb_data h = take (unat limit) (skb_data skb) \<and> unat (skb_pcount h) = seg_count (length (skb_data h)) (unat mss) \<and>
       (\<exists>b. q = b # rest \<and> span h + span b = span skb \<and> skb_flags b = skb_flags skb)
     else h = skb \<and> q = rest)"

text \<open>The end of a round, from the split to the transmission.\<close>

lemma xmit_send_cases:
  assumes "splits_pages (xa_seg a)" and "send_inv mss (xs_sk L)" and "sk_write_queue (xs_sk L) = skb # rest" and "0 < mss" and "mss < 2 ^ 16"
  obtains (stop) tp1 where "xmit_send E mss limit a L = Break (L\<lparr>xs_sk := tp1\<rparr>)" "same_conn (xs_sk L) tp1"
      "send_inv mss tp1" "queued_data tp1 = queued_data (xs_sk L)"
    | (go) tp1 h q where "xmit_send E mss limit a L = Continue (xmit_advance mss True (L\<lparr>xs_sk := tp1\<rparr>))"
      "same_conn (xs_sk L) tp1" "send_inv mss tp1" "queued_data tp1 = queued_data (xs_sk L)"
      "sk_write_queue tp1 = h # q" "skb_seq h = skb_seq skb" "skb_end_seq h \<noteq> skb_seq h"
      "cut_of mss limit skb rest h q"
proof -
  define r where "r = (if skb_len skb > limit then tso_fragment (xa_seg a) limit mss (xs_sk L) else (0, xs_sk L))"
  obtain err tp where r: "r = (err, tp)" by fastforce
  have keep: "send_inv mss tp" "queued_data tp = queued_data (xs_sk L)" "same_conn (xs_sk L) tp"
    using r assms(2) tso_fragment_inv [OF assms(1,2,3,4,5)] tso_fragment_frame [of "xa_seg a" limit mss "xs_sk L"]
    by (auto simp: r_def split: if_splits)
  have head: "\<exists>h q. sk_write_queue tp = h # q \<and> skb_seq h = skb_seq skb \<and> cut_of mss limit skb rest h q" if err0: "err = 0"
  proof (cases "limit < skb_len skb")
    case True
    then obtain new x y where xy: "split_skb (xa_seg a) limit mss new skb = (x, y)" "sk_write_queue tp = x # y # rest"
      using r err0 assms(3) by (auto simp: r_def tso_fragment_def ENOMEM_def split: option.splits prod.splits)
    have ok: "countable mss skb" using assms(2,3) by (simp add: send_inv_def)
    then have "unat limit \<le> length (skb_data skb)"
      using True unat_skb_len [of skb] by (simp add: countable_def word_less_nat_alt)
    note sp = plain_split.split_span [OF assms(1) xy(1) this] and cnt = split_counted [OF assms(1) ok assms(4,5) xy(1)]
    show ?thesis
      using True sp cnt plain_split.split_data [OF assms(1) xy(1)] plain_split.split_seq [OF xy(1)] plain_split.split_flags [OF xy(1)] xy(2)
      by (auto simp: cut_of_def)
  next
    case False
    with r err0 assms(3) show ?thesis by (auto simp: r_def cut_of_def)
  qed
  obtain w tp2 where sq: "tcp_small_queue_check E (xa_alloc1 a) (xa_alloc2 a) (hd (sk_write_queue tp)) 0 tp = (w, tp2)"
    by fastforce
  note fr = small_queue_frame [OF sq]
  have keep2: "send_inv mss tp2" "queued_data tp2 = queued_data (xs_sk L)" "same_conn (xs_sk L) tp2"
    using keep fr send_inv_frame queued_data_frame same_conn_trans by metis+
  have run: "xmit_send E mss limit a L = (if err \<noteq> 0 then Break (L\<lparr>xs_sk := tp\<rparr>)
      else if w \<or> skb_end_seq (hd (sk_write_queue tp)) = skb_seq (hd (sk_write_queue tp)) \<or> \<not> xa_sent a
      then Break (L\<lparr>xs_sk := tp2\<rparr>) else Continue (xmit_advance mss True (L\<lparr>xs_sk := tp2\<rparr>)))"
    using r sq assms(3) by (auto simp: xmit_send_def r_def Let_def split: prod.splits)
  show thesis
  proof (cases "err = 0 \<and> \<not> (w \<or> skb_end_seq (hd (sk_write_queue tp)) = skb_seq (hd (sk_write_queue tp)) \<or> \<not> xa_sent a)")
    case True
    with head obtain h q where h: "sk_write_queue tp = h # q" "skb_seq h = skb_seq skb"
      "cut_of mss limit skb rest h q" by blast
    show thesis by (rule go [OF _ keep2(3,1,2)]) (use True run h fr in auto)
  next
    case False
    with run keep keep2 stop show thesis by (auto split: if_splits)
  qed
qed

text \<open>A round outside of repair mode: it stops, it strikes a \<open>BUG_ON\<close>, or all checks let the head go.\<close>

lemma xmit_round_cases:
  fixes E mss nonagle push_one max_segs a
  defines "run \<equiv> xmit_round E mss nonagle push_one max_segs a"
  assumes "sk_write_queue (xs_sk L) = skb # rest" and "\<not> repairing (xs_sk L)" and "tcp_init_tso_segs skb mss = (n, s')"
  obtains (stop) L' where "run L = Break L'" "same_conn (xs_sk L) (xs_sk L')" "xs_sent L' = xs_sent L"
      "sk_write_queue (xs_sk L') = skb # rest \<or> sk_write_queue (xs_sk L') = s' # rest"
    | (bug) tp1 where "run L = Bug" "same_conn (xs_sk L) tp1"
      "n = 0 \<or> n \<noteq> 1 \<and> push_one = 0 \<and> tcp_cwnd_test tp1 s' \<noteq> 0 \<and> (skb_pcount s' \<le> 1 \<or> snd_cwnd tp1 \<le> tcp_packets_in_flight tp1)"
    | (send) L1 quota where "run L = xmit_send E mss (xmit_limit mss nonagle max_segs quota n (xs_sk L1)) a L1"
      "same_conn (xs_sk L) (xs_sk L1)" "xs_sent L1 = xs_sent L" "sk_write_queue (xs_sk L1) = s' # rest" "n \<noteq> 0"
      "tcp_snd_wnd_test (xs_sk L1) s' mss"
      "quota = tcp_cwnd_test (xs_sk L1) s' \<and> quota \<noteq> 0 \<or> push_one = 2 \<and> quota = 1"
proof -
  obtain w tp where pc: "tcp_pacing_check E (xs_sk L) = (w, tp)" by fastforce
  note fr = pacing_check_frame [OF pc]
  define tp1 where "tp1 = set_head s' tp"
  have c1: "same_conn (xs_sk L) tp1" "sk_write_queue tp1 = s' # rest"
    using fr set_head_frame(1) [of tp s'] set_head_frame(2) [of s' tp] assms(2) same_conn_trans unfolding tp1_def by (blast, simp)
  show thesis
  proof (cases "w \<or> n = 0 \<or> tcp_cwnd_test tp1 s' = 0 \<and> push_one \<noteq> 2 \<or> \<not> tcp_snd_wnd_test tp1 s' mss")
    case True
    then consider "w" | "\<not> w" "n = 0" | "\<not> w" "n \<noteq> 0" by blast
    then show thesis
    proof cases
      case 1
      with fr assms(2,3,4) pc stop show thesis by (simp add: run_def xmit_round_def)
    next
      case 2
      with c1 assms(2,3,4) pc bug [of tp1] show thesis by (simp add: run_def xmit_round_def Let_def tp1_def [symmetric])
    next
      case 3
      with True c1 assms(2,3,4) pc stop show thesis
        by (cases "tcp_cwnd_test tp1 s' = 0 \<and> push_one \<noteq> 2")
          (simp_all add: run_def xmit_round_def Let_def tp1_def [symmetric])
    qed
  next
    case False
    define quota where "quota = (if tcp_cwnd_test tp1 s' = 0 then 1 else tcp_cwnd_test tp1 s')"
    let ?L1 = "L\<lparr>xs_sk := tp1\<rparr>" and ?limit = "xmit_limit mss nonagle max_segs quota n tp1"
    let ?defer = "tcp_tso_should_defer E tp1 s' (rest = []) max_segs (xs_cwnd_limited L, xs_rwnd_limited L)"
    have q: "quota = tcp_cwnd_test tp1 s' \<and> quota \<noteq> 0 \<or> push_one = 2 \<and> quota = 1"
      using False by (auto simp: quota_def)
    have go: thesis if "run L = xmit_send E mss ?limit a L1" "xs_sk L1 = tp1" "xs_sent L1 = xs_sent L" for L1
      by (rule send [of quota L1]) (use that c1 q False in auto)
    have ru: "run L = (if n = 1 then
          (if \<not> tcp_nagle_test tp1 s' mss (if rest = [] then nonagle else TCP_NAGLE_PUSH) then Break ?L1
           else xmit_send E mss ?limit a ?L1)
        else if push_one \<noteq> 0 then xmit_send E mss ?limit a ?L1
        else case ?defer of None \<Rightarrow> Bug
          | Some (defer, cl, rl) \<Rightarrow> if defer then Break (?L1\<lparr>xs_cwnd_limited := cl, xs_rwnd_limited := rl\<rparr>)
              else xmit_send E mss ?limit a (?L1\<lparr>xs_cwnd_limited := cl, xs_rwnd_limited := rl\<rparr>))"
      using False assms(2,3,4) pc
      by (simp add: run_def xmit_round_def Let_def tp1_def [symmetric] quota_def split: option.split)
    show thesis
    proof (cases "n = 1 \<or> push_one \<noteq> 0")
      case True
      with ru stop [of ?L1] go [of ?L1] c1 show thesis by (auto split: if_splits)
    next
      case multi: False
      show thesis
      proof (cases ?defer)
        case None
        then have "skb_pcount s' \<le> 1 \<or> snd_cwnd tp1 \<le> tcp_packets_in_flight tp1"
          by (auto simp: tcp_tso_should_defer_def Let_def split: if_splits prod.splits)
        with None ru multi False bug [OF _ c1(1)] show thesis by auto
      next
        case (Some x)
        obtain d cl rl where x: "x = (d, cl, rl)" by (metis prod.exhaust)
        let ?L2 = "?L1\<lparr>xs_cwnd_limited := cl, xs_rwnd_limited := rl\<rparr>"
        from Some x ru multi stop [of ?L2] go [of ?L2] c1 show thesis by (cases d) auto
      qed
    qed
  qed
qed


section \<open>What a round sends\<close>

text \<open>The congestion window has room for the segment.  A last segment with a FIN and a loss probe go out
  without.\<close>

definition in_cwnd :: "nat \<Rightarrow> tcp_sock \<Rightarrow> sk_buff \<Rightarrow> bool" where
  "in_cwnd push_one tp h \<longleftrightarrow> unat (tcp_packets_in_flight tp) + unat (skb_pcount h) \<le> unat (snd_cwnd tp) \<or>
     skb_pcount h = 1 \<and> (push_one = 2 \<or> skb_flags (hd (sk_write_queue tp)) AND TCPHDR_FIN \<noteq> 0)"

lemma seg_count_cap: "0 < mss \<Longrightarrow> len \<le> mss * k \<Longrightarrow> seg_count len mss \<le> max 1 k"
  using seg_count_limit [of mss "max 1 k" len] by (cases "k = 0") simp_all

lemma cwnd_test_room:
  "tcp_cwnd_test tp skb \<noteq> 0 \<Longrightarrow> skb_flags skb AND TCPHDR_FIN \<noteq> 0 \<and> skb_pcount skb = 1 \<and> tcp_cwnd_test tp skb = 1 \<or>
     unat (tcp_packets_in_flight tp) + unat (tcp_cwnd_test tp skb) \<le> unat (snd_cwnd tp) \<and>
     tcp_packets_in_flight tp < snd_cwnd tp"
proof (cases "skb_flags skb AND TCPHDR_FIN \<noteq> 0 \<and> skb_pcount skb = 1")
  case True
  then show ?thesis by (simp add: tcp_cwnd_test_def)
next
  case False
  assume nz: "tcp_cwnd_test tp skb \<noteq> 0"
  then have lt: "tcp_packets_in_flight tp < snd_cwnd tp" using False by (auto simp: tcp_cwnd_test_def Let_def split: if_splits)
  then have "tcp_cwnd_test tp skb \<le> snd_cwnd tp - tcp_packets_in_flight tp"
    using False by (auto simp: tcp_cwnd_test_def Let_def)
  then have "unat (tcp_cwnd_test tp skb) \<le> unat (snd_cwnd tp) - unat (tcp_packets_in_flight tp)"
    using unat_minus_le [OF less_imp_le [OF lt]] by (simp only: word_le_nat_alt)
  moreover have "unat (tcp_packets_in_flight tp) < unat (snd_cwnd tp)" using lt by (simp add: word_less_nat_alt)
  ultimately have "unat (tcp_packets_in_flight tp) + unat (tcp_cwnd_test tp skb) \<le> unat (snd_cwnd tp)" by linarith
  with lt show ?thesis by blast
qed

text \<open>The packets of the segment that goes out are within the quota.\<close>

lemma cut_pcount:
  assumes "countable mss s" and "0 < mss" and "mss < 2 ^ 16" and "n = skb_pcount s" and "n \<noteq> 0"
    and exact: "1 < n \<Longrightarrow> unat n = seg_count (length (skb_data s)) (unat mss)"
    and cut: "cut_of mss (xmit_limit mss nonagle max_segs quota n tp) s rest h q" and "hd (sk_write_queue tp) = s"
    and "quota \<noteq> 0"
  shows "unat (skb_pcount h) \<le> unat quota"
proof -
  let ?lim = "xmit_limit mss nonagle max_segs quota n tp" and ?k = "min quota max_segs"
  have m: "0 < unat mss" using assms(2) by (simp add: unat_gt_0)
  have q1: "1 \<le> unat quota" using assms(9) by (simp add: unat_gt_0 Suc_le_eq)
  have len: "unat (skb_len s) = length (skb_data s)" using assms(1) by (simp add: countable_def unat_skb_len)
  have cap: "seg_count l (unat mss) \<le> unat quota" if "l \<le> unat ?lim" "n > 1" for l
  proof (cases "tcp_urg_mode tp")
    case True
    with that m q1 show ?thesis by (simp add: xmit_limit_def seg_count_le)
  next
    case False
    with that have "l \<le> unat (mss * ?k)"
      using split_point_bounds(2) [of tp s "tl (sk_write_queue tp) = []" mss ?k nonagle] assms(8)
      by (simp add: xmit_limit_def word_le_nat_alt)
    also have "\<dots> \<le> unat mss * unat ?k" by (simp add: unat_word_ariths)
    finally have "seg_count l (unat mss) \<le> max 1 (unat ?k)" by (rule seg_count_cap [OF m])
    moreover have "unat ?k \<le> unat quota" by (simp add: min_def word_le_nat_alt)
    ultimately show ?thesis using q1 by linarith
  qed
  consider "n = 1" | "n > 1" using assms(5) by (metis word_gt_0 word_le_less_eq linorder_neqE word_less_1)
  then show ?thesis
  proof cases
    case 1
    then have "?lim = mss" by (simp add: xmit_limit_def)
    with 1 cut q1 assms(4) m len show ?thesis
      by (auto simp: cut_of_def seg_count_le split: if_splits)
  next
    case 2
    show ?thesis
    proof (cases "?lim < skb_len s")
      case True
      with cut have "unat (skb_pcount h) = seg_count (length (skb_data h)) (unat mss)" "length (skb_data h) \<le> unat ?lim"
        by (auto simp: cut_of_def)
      with cap 2 show ?thesis by simp
    next
      case False
      then have "length (skb_data s) \<le> unat ?lim" by (simp add: not_less word_le_nat_alt flip: len)
      with False cut cap [of "length (skb_data s)"] 2 exact assms(4) show ?thesis by (simp add: cut_of_def)
    qed
  qed
qed


text \<open>The segment that goes out is within the peer's window.\<close>

lemma cut_in_window:
  assumes "send_inv mss tp" and "sk_write_queue tp = s # rest" and "tcp_snd_wnd_test tp s mss"
    and "n = skb_pcount s" and "0 < mss" and exact: "1 < n \<Longrightarrow> unat n = seg_count (length (skb_data s)) (unat mss)"
    and cut: "cut_of mss (xmit_limit mss nonagle max_segs quota n tp) s rest h q" and "skb_seq h = skb_seq s"
  shows "in_window tp h"
proof -
  let ?lim = "xmit_limit mss nonagle max_segs quota n tp" and ?d = "unat (skb_seq s - snd_una tp)" and ?l = "length (skb_data s)"
  have ch: "skb_seq s = snd_nxt tp" "skb_end_seq s = skb_seq s + of_nat (span s)"
    using assms(1,2) by (auto simp: send_inv_def seg_inv_def)
  have small: "?d + span s < 2 ^ 31" "unat (snd_wnd tp) < 2 ^ 31" using assms(1,2) ch(1) by (auto simp: send_inv_def)
  have l: "?l \<le> span s" by (simp add: span_def)
  have len: "unat (skb_len s) = ?l" using l small by (intro unat_skb_len) simp
  have m: "0 < unat mss" using assms(5) by (simp add: unat_gt_0)
  have fits: "?d + min ?l (unat mss) \<le> unat (snd_wnd tp)"
  proof (cases "skb_len s > mss")
    case True
    then have big: "unat mss < ?l" by (simp add: word_less_nat_alt len)
    then have "?d + unat mss \<le> unat (snd_wnd tp)"
      using True assms(3) small l by (intro not_after_window) (simp_all add: tcp_snd_wnd_test_def)
    with big show ?thesis by simp
  next
    case False
    then have "?d + span s \<le> unat (snd_wnd tp)"
      using assms(3) small ch(2) by (intro not_after_window) (simp_all add: tcp_snd_wnd_test_def)
    with l show ?thesis by simp
  qed
  have "length (skb_data h) \<le> min ?l (unat ?lim)"
    using cut len by (auto simp: cut_of_def not_less word_le_nat_alt split: if_splits)
  moreover have "?d + min ?l (unat ?lim) \<le> unat (snd_wnd tp)"
  proof (cases "1 < n \<and> \<not> tcp_urg_mode tp")
    case True
    then have "unat ?lim \<le> unat (tcp_wnd_end tp - skb_seq s)"
      using split_point_bounds(1) [of tp s "rest = []" mss "min quota max_segs" nonagle] assms(2)
      by (simp add: xmit_limit_def word_le_nat_alt)
    with window_left [of "skb_seq s" tp] fits show ?thesis by linarith
  next
    case False
    then have "?lim = mss" by (auto simp: xmit_limit_def)
    with fits show ?thesis by simp
  qed
  ultimately show ?thesis unfolding in_window_def assms(8) by linarith
qed

section \<open>The result of a round\<close>

definition fin_free :: "tcp_sock \<Rightarrow> bool" where
  "fin_free tp \<longleftrightarrow> (\<forall>s \<in> set (sk_write_queue tp). skb_flags s AND TCPHDR_FIN = 0)"

text \<open>The rounds a queue can take at most: one per sequence number and one per segment.\<close>

definition weight :: "sk_buff list \<Rightarrow> nat" where
  "weight ss = sum_list (map (\<lambda>s. Suc (span s)) ss)"

lemma weight_simps [simp]: "weight [] = 0" "weight (s # ss) = Suc (span s) + weight ss"
  by (simp_all add: weight_def)

lemma init_tso_segs_span: "tcp_init_tso_segs skb mss = (n, skb') \<Longrightarrow> span skb' = span skb"
  by (simp add: span_def init_tso_segs_frame)

lemma cut_weight:
  assumes "cut_of mss limit s rest h q" and "0 < span h"
  shows "weight q < weight (s # rest)" and "x \<in> set q \<Longrightarrow> x \<in> set rest \<or> skb_flags x = skb_flags s"
  using assms by (auto simp: cut_of_def split: if_splits)

text \<open>The round of a socket in repair: nothing goes out, the head moves on.\<close>

lemma xmit_round_repair:
  fixes E mss nonagle push_one max_segs a L
  assumes "send_inv mss (xs_sk L)" and "sk_write_queue (xs_sk L) = skb # rest" and "repairing (xs_sk L)"
    and "0 < mss" and "mss < 2 ^ 16"
  obtains tp h where "xmit_round E mss nonagle push_one max_segs a L = Continue (xmit_advance mss False (L\<lparr>xs_sk := tp\<rparr>))"
    "same_conn (xs_sk L) tp" "send_inv mss tp" "queued_data tp = queued_data (xs_sk L)" "sk_write_queue tp = h # rest"
    "span h = span skb"
proof -
  let ?tp = "(xs_sk L)\<lparr>tcp_wstamp_ns := tcp_clock_cache (xs_sk L)\<rparr>" and ?skb = "skb\<lparr>skb_tstamp := tcp_clock_cache (xs_sk L)\<rparr>"
  let ?tp1 = "set_head ?skb ?tp"
  have "send_inv mss ?tp1" "queued_data ?tp1 = queued_data (xs_sk L)"
    using assms(1,2)
    by (auto simp: send_inv_def seg_inv_def set_head_def counted_def countable_def span_def queued_data_def)
  moreover have q: "sk_write_queue ?tp1 = ?skb # rest" using assms(2) by (simp add: set_head_def)
  moreover obtain n h where nh: "tcp_init_tso_segs ?skb mss = (n, h)" by fastforce
  ultimately have inv: "send_inv mss (set_head h ?tp1)" "queued_data (set_head h ?tp1) = queued_data (xs_sk L)"
    using set_head_inv [OF _ q assms(4,5) nh] by simp_all
  have "set_head h ?tp1 = set_head h ?tp" by (simp add: set_head_def)
  moreover have "same_conn (xs_sk L) (set_head h ?tp)" by (simp add: same_conn_def set_head_def)
  moreover have "span h = span skb" using init_tso_segs_span [OF nh] by (simp add: span_def)
  ultimately show thesis
    using inv assms(2,3) nh by (intro that [of "set_head h ?tp" h]) (simp_all add: xmit_round_def set_head_def Let_def)
qed


lemma in_window_frame: "same_conn tp tp' \<Longrightarrow> in_window tp' s = in_window tp s"
  by (simp add: in_window_def same_conn_def)

lemma span_pos: "send_inv mss tp \<Longrightarrow> sk_write_queue tp = h # q \<Longrightarrow> skb_end_seq h \<noteq> skb_seq h \<Longrightarrow> 0 < span h"
  by (auto simp: send_inv_def seg_inv_def intro: ccontr)

lemma quota_in_cwnd:
  assumes "quota = tcp_cwnd_test tp s \<and> quota \<noteq> 0 \<or> push_one = 2 \<and> quota = 1" and "unat (skb_pcount h) \<le> unat quota"
    and "skb_pcount h \<noteq> 0" and "hd (sk_write_queue tp) = s"
  shows "in_cwnd push_one tp h"
proof -
  have one: "skb_pcount h = 1" if "quota = 1"
  proof -
    have "unat (skb_pcount h) = 1" using that assms(2,3) by (simp add: le_Suc_eq unat_eq_0)
    then show ?thesis by (intro word_unat_eq_iff [THEN iffD2]) simp
  qed
  consider "quota = tcp_cwnd_test tp s" "quota \<noteq> 0" | "push_one = 2" "quota = 1" using assms(1) by blast
  then show ?thesis
  proof cases
    case 1
    with cwnd_test_room [of tp s] one assms(2,4) show ?thesis by (auto simp: in_cwnd_def)
  next
    case 2
    with one show ?thesis by (simp add: in_cwnd_def)
  qed
qed

text \<open>A round outside of repair: it never strikes a \<open>BUG_ON\<close>, and what it sends is within both windows.\<close>

lemma xmit_round_wire:
  fixes E mss nonagle push_one max_segs a L
  defines "run \<equiv> xmit_round E mss nonagle push_one max_segs a L"
  assumes sp: "splits_pages (xa_seg a)" and inv: "send_inv mss (xs_sk L)" and Q: "sk_write_queue (xs_sk L) = skb # rest" and wire: "\<not> repairing (xs_sk L)"
    and m: "0 < mss" "mss < 2 ^ 16"
  obtains (stop) L' where "run = Break L'" "same_conn (xs_sk L) (xs_sk L')" "send_inv mss (xs_sk L')"
      "queued_data (xs_sk L') = queued_data (xs_sk L)" "xs_sent L' = xs_sent L"
    | (sent) L1 h q where "run = Continue (xmit_advance mss True L1)" "same_conn (xs_sk L) (xs_sk L1)" "send_inv mss (xs_sk L1)"
      "queued_data (xs_sk L1) = queued_data (xs_sk L)" "xs_sent L1 = xs_sent L" "sk_write_queue (xs_sk L1) = h # q"
      "weight q < weight (skb # rest)" "\<And>x. x \<in> set q \<Longrightarrow> x \<in> set rest \<or> skb_flags x = skb_flags skb"
      "in_window (xs_sk L) h" "in_cwnd push_one (xs_sk L) h"
proof -
  obtain n s' where ns: "tcp_init_tso_segs skb mss = (n, s')" by fastforce
  note f = init_tso_segs_frame [OF ns] and same_span = init_tso_segs_span [OF ns]
  have "counted skb" "countable mss skb" using inv Q by (auto simp: send_inv_def)
  then have cnt: "n \<noteq> 0" "1 < n \<Longrightarrow> unat n = seg_count (length (skb_data s')) (unat mss)" "countable mss s'"
    using init_tso_segs_count [OF _ m _ ns] f by (simp_all add: countable_def)
  note keep = set_head_inv [OF inv Q m ns]
  have keeps: "send_inv mss tp" "queued_data tp = queued_data (xs_sk L)"
    if "same_conn (xs_sk L) tp" "sk_write_queue tp = skb # rest \<or> sk_write_queue tp = s' # rest" for tp
  proof -
    have "same_conn (set_head s' (xs_sk L)) tp" "sk_write_queue (set_head s' (xs_sk L)) = s' # rest"
      using that(1) Q by (simp_all add: same_conn_def set_head_def)
    with that keep Q inv show "send_inv mss tp" "queued_data tp = queued_data (xs_sk L)"
      using send_inv_frame queued_data_frame by metis+
  qed
  show thesis
  proof (rule xmit_round_cases [OF Q wire ns, of E nonagle push_one max_segs a])
    fix L' assume "xmit_round E mss nonagle push_one max_segs a L = Break L'" "same_conn (xs_sk L) (xs_sk L')" "xs_sent L' = xs_sent L"
      "sk_write_queue (xs_sk L') = skb # rest \<or> sk_write_queue (xs_sk L') = s' # rest"
    with keeps stop show thesis by (simp add: run_def)
  next
    fix tp1 assume "n = 0 \<or> n \<noteq> 1 \<and> push_one = 0 \<and> tcp_cwnd_test tp1 s' \<noteq> 0 \<and> (skb_pcount s' \<le> 1 \<or> snd_cwnd tp1 \<le> tcp_packets_in_flight tp1)"
    with cnt(1) have bad: "n \<noteq> 1" "tcp_cwnd_test tp1 s' \<noteq> 0" "n \<le> 1 \<or> snd_cwnd tp1 \<le> tcp_packets_in_flight tp1"
      by (auto simp: f(5))
    then have "\<not> n \<le> 1" using cnt(1) by (metis word_le_less_eq word_less_1)
    with cwnd_test_room [OF bad(2)] bad f(5) show thesis by (auto simp: not_le [symmetric])
  next
    fix L1 :: xmit_state and quota
    let ?lim = "xmit_limit mss nonagle max_segs quota n (xs_sk L1)"
    assume run: "xmit_round E mss nonagle push_one max_segs a L = xmit_send E mss ?lim a L1"
      and L1: "same_conn (xs_sk L) (xs_sk L1)" "xs_sent L1 = xs_sent L" "sk_write_queue (xs_sk L1) = s' # rest"
      and wnd: "tcp_snd_wnd_test (xs_sk L1) s' mss"
      and quota: "quota = tcp_cwnd_test (xs_sk L1) s' \<and> quota \<noteq> 0 \<or> push_one = 2 \<and> quota = 1"
    have inv1: "send_inv mss (xs_sk L1)" "queued_data (xs_sk L1) = queued_data (xs_sk L)" using keeps L1 by simp_all
    show thesis
    proof (rule xmit_send_cases [OF sp inv1(1) L1(3) m, of E ?lim])
      fix tp1 assume "xmit_send E mss ?lim a L1 = Break (L1\<lparr>xs_sk := tp1\<rparr>)" "same_conn (xs_sk L1) tp1"
        "send_inv mss tp1" "queued_data tp1 = queued_data (xs_sk L1)"
      with run L1 inv1 same_conn_trans [of "xs_sk L" "xs_sk L1" tp1] show thesis
        by (intro stop [of "L1\<lparr>xs_sk := tp1\<rparr>"]) (simp_all add: run_def)
    next
      fix tp1 h q
      assume go: "xmit_send E mss ?lim a L1 = Continue (xmit_advance mss True (L1\<lparr>xs_sk := tp1\<rparr>))"
        and tp1: "same_conn (xs_sk L1) tp1" "send_inv mss tp1" "queued_data tp1 = queued_data (xs_sk L1)" "sk_write_queue tp1 = h # q"
        and h: "skb_seq h = skb_seq s'" "skb_end_seq h \<noteq> skb_seq h" "cut_of mss ?lim s' rest h q"
      have c: "same_conn (xs_sk L) tp1" using L1(1) tp1(1) by (rule same_conn_trans)
      have "quota \<noteq> 0" using quota by auto
      then have pc: "unat (skb_pcount h) \<le> unat quota"
        using L1(3) by (intro cut_pcount [OF cnt(3) m f(5) cnt(1,2) h(3)]) simp_all
      have win: "in_window (xs_sk L1) h" by (rule cut_in_window [OF inv1(1) L1(3) wnd f(5) m(1) cnt(2) h(3,1)])
      have "skb_pcount h \<noteq> 0"
        using h(3) cnt(1) f(5) seg_count_pos [of "length (skb_data h)" "unat mss"]
        by (auto simp: cut_of_def split: if_splits)
      then have "in_cwnd push_one (xs_sk L1) h"
        using quota pc L1(3) by (intro quota_in_cwnd [where quota = quota and s = s']) auto
      then have "in_cwnd push_one (xs_sk L) h"
        using L1 same_conn_in_flight [OF L1(1)] Q f(4) by (simp add: in_cwnd_def same_conn_def)
      then show thesis
        using run go tp1 inv1 L1 c win in_window_frame [OF L1(1)] cut_weight [OF h(3) span_pos [OF tp1(2,4) h(2)]] same_span f(4)
        by (intro sent [of "L1\<lparr>xs_sk := tp1\<rparr>" h q]) (simp_all add: run_def)
    qed
  qed
qed


section \<open>Progress\<close>

text \<open>What rounds may do to the socket, and the segments \<open>ss\<close> they may put on the wire.\<close>

definition progress :: "u32 \<Rightarrow> nat \<Rightarrow> tcp_sock \<Rightarrow> tcp_sock \<Rightarrow> sk_buff list \<Rightarrow> bool" where
  "progress mss push_one tp tp' ss \<longleftrightarrow> send_inv mss tp' \<and> queued_data tp' = queued_data tp \<and>
     snd_una tp' = snd_una tp \<and> snd_wnd tp' = snd_wnd tp \<and> snd_cwnd tp' = snd_cwnd tp \<and> repairing tp' = repairing tp \<and>
     (\<forall>s \<in> set ss. in_window tp s) \<and> (if repairing tp then ss = [] else tcp_rtx_queue tp' = tcp_rtx_queue tp @ ss) \<and>
     (fin_free tp \<and> push_one \<noteq> 2 \<and> \<not> repairing tp \<longrightarrow>
        unat (tcp_packets_in_flight tp') \<le> max (unat (tcp_packets_in_flight tp)) (unat (snd_cwnd tp)))"

lemma progress_stop:
  "same_conn tp tp' \<Longrightarrow> send_inv mss tp' \<Longrightarrow> queued_data tp' = queued_data tp \<Longrightarrow> progress mss push_one tp tp' []"
  using same_conn_in_flight [of tp tp'] by (simp add: progress_def same_conn_def)

lemma progress_trans:
  assumes "progress mss push_one tp tp1 ss1" and "progress mss push_one tp1 tp2 ss2"
    and "fin_free tp \<and> \<not> repairing tp \<Longrightarrow> fin_free tp1"
  shows "progress mss push_one tp tp2 (ss1 @ ss2)"
proof -
  have "in_window tp1 s = in_window tp s" for s using assms(1) by (simp add: progress_def in_window_def)
  with assms show ?thesis by (auto simp: progress_def split: if_splits)
qed

lemma advance_fields:
  assumes "sk_write_queue (xs_sk L) = h # q"
  shows "xs_sk (xmit_advance mss w L) = tcp_minshall_update mss h (tcp_event_new_data_sent (xs_sk L))"
    "xs_sent (xmit_advance mss w L) = xs_sent L @ (if w then [h] else [])"
    "sk_write_queue (xs_sk (xmit_advance mss w L)) = q"
  using assms by (simp_all add: xmit_advance_def minshall_frame new_data_sent_fields)

text \<open>The packets in flight after a segment has gone out.\<close>

lemma advance_in_flight:
  assumes "sk_write_queue (xs_sk L) = h # q"
  shows "tcp_packets_in_flight (xs_sk (xmit_advance mss w L)) = tcp_packets_in_flight (xs_sk L) + ucast (skb_pcount h)"
  using same_conn_in_flight [OF minshall_frame(1)]
  by (simp add: advance_fields [OF assms] tcp_packets_in_flight_def new_data_sent_fields [OF assms])

lemma advance_progress:
  assumes "same_conn tp (xs_sk L)" and "send_inv mss (xs_sk L)" and "queued_data (xs_sk L) = queued_data tp"
    and Q: "sk_write_queue (xs_sk L) = h # q"
    and w: "w = (\<not> repairing tp)" "w \<Longrightarrow> in_window tp h" "w \<Longrightarrow> in_cwnd push_one tp h" and ne: "sk_write_queue tp \<noteq> []"
  shows "progress mss push_one tp (xs_sk (xmit_advance mss w L)) (if w then [h] else [])"
proof -
  let ?t = "tcp_event_new_data_sent (xs_sk L)" and ?n = "xs_sk (xmit_advance mss w L)"
  note f = new_data_sent_fields [OF Q]
  have "send_inv mss ?n" "queued_data ?n = queued_data tp"
    using new_data_sent_inv [OF assms(2) Q] minshall_frame(1) [of ?t mss h] minshall_frame(2) [of mss h ?t] send_inv_frame queued_data_frame assms(3)
    by (metis advance_fields(1) [OF Q])+
  moreover have "snd_una ?n = snd_una tp" "snd_wnd ?n = snd_wnd tp" "snd_cwnd ?n = snd_cwnd tp" "repairing ?n = repairing tp"
    "tcp_rtx_queue ?n = tcp_rtx_queue tp @ [h]"
    using assms(1) minshall_frame(1) [of ?t mss h] by (simp_all add: advance_fields [OF Q] same_conn_def f)
  moreover have "unat (tcp_packets_in_flight ?n) \<le> unat (snd_cwnd tp)"
    if "fin_free tp" "push_one \<noteq> 2" "\<not> repairing tp"
  proof -
    have "unat (tcp_packets_in_flight tp) + unat (skb_pcount h) \<le> unat (snd_cwnd tp)"
      using that w ne by (auto simp: in_cwnd_def fin_free_def)
    moreover have "unat (tcp_packets_in_flight ?n) \<le> unat (tcp_packets_in_flight tp) + unat (skb_pcount h)"
      using advance_in_flight [OF Q] same_conn_in_flight [OF assms(1)] by (simp add: unat_word_ariths unat_ucast16)
    ultimately show ?thesis by linarith
  qed
  ultimately show ?thesis using w by (auto simp: progress_def)
qed


text \<open>A round stops or moves the head on; it never strikes a \<open>BUG_ON\<close>.\<close>

lemma xmit_round_progress:
  fixes E mss nonagle push_one max_segs a L
  defines "run \<equiv> xmit_round E mss nonagle push_one max_segs a L"
  assumes sp: "splits_pages (xa_seg a)" and inv: "send_inv mss (xs_sk L)" and m: "0 < mss" "mss < 2 ^ 16"
  obtains (stop) L' where "run = Break L'" "progress mss push_one (xs_sk L) (xs_sk L') []" "xs_sent L' = xs_sent L"
    | (on) L' ss where "run = Continue L'" "progress mss push_one (xs_sk L) (xs_sk L') ss" "xs_sent L' = xs_sent L @ ss"
      "weight (sk_write_queue (xs_sk L')) < weight (sk_write_queue (xs_sk L))" "fin_free (xs_sk L) \<Longrightarrow> fin_free (xs_sk L')"
proof (cases "sk_write_queue (xs_sk L)")
  case Nil
  with inv stop show thesis by (simp add: run_def xmit_round_def progress_stop)
next
  case Q: (Cons skb rest)
  show thesis
  proof (cases "repairing (xs_sk L)")
    case True
    obtain tp h where r: "run = Continue (xmit_advance mss False (L\<lparr>xs_sk := tp\<rparr>))" and tp: "same_conn (xs_sk L) tp" "send_inv mss tp"
      "queued_data tp = queued_data (xs_sk L)" "sk_write_queue tp = h # rest"
      using xmit_round_repair [OF inv Q True m] unfolding run_def by metis
    let ?L = "L\<lparr>xs_sk := tp\<rparr>"
    have Q': "sk_write_queue (xs_sk ?L) = h # rest" using tp by simp
    have "progress mss push_one (xs_sk L) (xs_sk (xmit_advance mss False ?L)) []"
      using advance_progress [where w = False, OF _ _ _ Q'] tp True Q by simp
    then show thesis
      by (rule on [OF r]) (use Q advance_fields(2,3) [OF Q'] in \<open>auto simp: fin_free_def\<close>)
  next
    case False
    show thesis
    proof (rule xmit_round_wire [OF sp inv Q False m, of E nonagle push_one max_segs])
      fix L' assume "xmit_round E mss nonagle push_one max_segs a L = Break L'" "same_conn (xs_sk L) (xs_sk L')"
        "send_inv mss (xs_sk L')" "queued_data (xs_sk L') = queued_data (xs_sk L)" "xs_sent L' = xs_sent L"
      then show thesis by (intro stop [of L']) (simp_all add: run_def progress_stop)
    next
      fix L1 :: xmit_state and h q
      assume r: "xmit_round E mss nonagle push_one max_segs a L = Continue (xmit_advance mss True L1)"
        and L1: "same_conn (xs_sk L) (xs_sk L1)" "send_inv mss (xs_sk L1)" "queued_data (xs_sk L1) = queued_data (xs_sk L)"
          "xs_sent L1 = xs_sent L" and Q1: "sk_write_queue (xs_sk L1) = h # q"
        and q: "weight q < weight (skb # rest)" "\<And>x. x \<in> set q \<Longrightarrow> x \<in> set rest \<or> skb_flags x = skb_flags skb"
        and win: "in_window (xs_sk L) h" "in_cwnd push_one (xs_sk L) h"
      have "progress mss push_one (xs_sk L) (xs_sk (xmit_advance mss True L1)) [h]"
        using advance_progress [where w = True, OF L1(1-3) Q1] win False Q by simp
      then show thesis
        by (rule on [OF r [folded run_def]]) (use q(1) Q L1 advance_fields(2,3) [OF Q1] in \<open>auto simp: fin_free_def dest!: q(2)\<close>)
    qed
  qed
qed

section \<open>The loop\<close>

lemma xmit_loop_progress:
  assumes "list_all (\<lambda>a. splits_pages (xa_seg a)) as" and "send_inv mss (xs_sk L)" and "0 < mss" and "mss < 2 ^ 16"
    and "xmit_loop E mss nonagle push_one max_segs as L = Some r"
  shows "\<exists>L' ss. r = Break L' \<and> progress mss push_one (xs_sk L) (xs_sk L') ss \<and> xs_sent L' = xs_sent L @ ss"
  using assms(1,2,5)
proof (induction as arbitrary: L)
  case Nil
  then show ?case by (intro exI [of _ L] exI [of _ "[]"]) (auto simp: progress_stop split: if_splits)
next
  case (Cons a as)
  have sp: "splits_pages (xa_seg a)" "list_all (\<lambda>a. splits_pages (xa_seg a)) as" using Cons.prems(1) by simp_all
  show ?case
  proof (rule xmit_round_progress [OF sp(1) Cons.prems(2) assms(3,4), of E nonagle push_one max_segs])
    fix L' assume "xmit_round E mss nonagle push_one max_segs a L = Break L'"
      "progress mss push_one (xs_sk L) (xs_sk L') []" "xs_sent L' = xs_sent L"
    with Cons.prems(3) show ?thesis by auto
  next
    fix L1 ss assume r: "xmit_round E mss nonagle push_one max_segs a L = Continue L1"
      and p: "progress mss push_one (xs_sk L) (xs_sk L1) ss" "xs_sent L1 = xs_sent L @ ss" "fin_free (xs_sk L) \<Longrightarrow> fin_free (xs_sk L1)"
    show ?thesis
    proof (cases "push_one = 0")
      case False
      with Cons.prems(3) r p show ?thesis by auto
    next
      case True
      with Cons.prems(3) r have "xmit_loop E mss nonagle push_one max_segs as L1 = Some r" by simp
      moreover have "send_inv mss (xs_sk L1)" using p(1) by (simp add: progress_def)
      ultimately obtain L' ss' where "r = Break L'" "progress mss push_one (xs_sk L1) (xs_sk L') ss'" "xs_sent L' = xs_sent L1 @ ss'"
        using Cons.IH [OF sp(2)] by blast
      with p progress_trans [OF p(1)] show ?thesis
        by (intro exI [of _ L'] exI [of _ "ss @ ss'"]) simp
    qed
  qed
qed

lemma xmit_loop_total:
  assumes "list_all (\<lambda>a. splits_pages (xa_seg a)) as" and "send_inv mss (xs_sk L)" and "0 < mss" and "mss < 2 ^ 16"
    and "weight (sk_write_queue (xs_sk L)) \<le> length as"
  shows "xmit_loop E mss nonagle push_one max_segs as L \<noteq> None"
  using assms(1,2,5)
proof (induction as arbitrary: L)
  case Nil
  then show ?case by (cases "sk_write_queue (xs_sk L)") simp_all
next
  case (Cons a as)
  have sp: "splits_pages (xa_seg a)" "list_all (\<lambda>a. splits_pages (xa_seg a)) as" using Cons.prems(1) by simp_all
  show ?case
  proof (rule xmit_round_progress [OF sp(1) Cons.prems(2) assms(3,4), of E nonagle push_one max_segs])
    fix L1 ss assume r: "xmit_round E mss nonagle push_one max_segs a L = Continue L1"
      and "progress mss push_one (xs_sk L) (xs_sk L1) ss"
      and "weight (sk_write_queue (xs_sk L1)) < weight (sk_write_queue (xs_sk L))"
    then have "send_inv mss (xs_sk L1)" "weight (sk_write_queue (xs_sk L1)) \<le> length as"
      using Cons.prems(3) by (simp_all add: progress_def)
    with Cons.IH [OF sp(2)] r show ?thesis by auto
  qed simp
qed


section \<open>After the loop\<close>

text \<open>What the steps after the loop leave alone.\<close>

definition same_queues :: "tcp_sock \<Rightarrow> tcp_sock \<Rightarrow> bool" where
  "same_queues tp tp' \<longleftrightarrow> sk_write_queue tp' = sk_write_queue tp \<and> tcp_rtx_queue tp' = tcp_rtx_queue tp \<and>
     snd_nxt tp' = snd_nxt tp \<and> packets_out tp' = packets_out tp \<and> snd_una tp' = snd_una tp \<and> snd_wnd tp' = snd_wnd tp"

lemma same_queues_refl [simp]: "same_queues tp tp"
  by (simp add: same_queues_def)

lemma same_queues_trans: "same_queues a b \<Longrightarrow> same_queues b c \<Longrightarrow> same_queues a c"
  by (simp add: same_queues_def)

lemma chrono_frame:
  "same_queues tp (tcp_chrono_set E c tp)" "snd_cwnd (tcp_chrono_set E c tp) = snd_cwnd tp"
  "same_queues tp (tcp_chrono_start E c tp)" "snd_cwnd (tcp_chrono_start E c tp) = snd_cwnd tp"
  "same_queues tp (tcp_chrono_stop E c tp)" "snd_cwnd (tcp_chrono_stop E c tp) = snd_cwnd tp"
  by (simp_all add: tcp_chrono_start_def tcp_chrono_stop_def tcp_chrono_set_def Let_def same_queues_def)

lemma unat_mean:
  assumes "(a :: u32) < 2 ^ 31" and "b \<le> a"
  shows "b \<le> drop_bit 1 (a + b)" and "drop_bit 1 (a + b) \<le> a"
proof -
  have n: "unat a < 2147483648" "unat b \<le> unat a" using assms by (simp_all add: word_less_nat_alt word_le_nat_alt)
  then have "unat (a + b) = unat a + unat b" by (simp add: unat_plus_small)
  then have "unat (drop_bit 1 (a + b)) = (unat a + unat b) div 2" by (simp add: unat_drop_bit flip: drop_bit_eq_div)
  with n show "b \<le> drop_bit 1 (a + b)" "drop_bit 1 (a + b) \<le> a" unfolding word_le_nat_alt by linarith+
qed

lemma application_limited_bounds:
  assumes "snd_cwnd tp < 2 ^ 31"
  shows "same_queues tp (tcp_cwnd_application_limited E tp)"
    "min (init_cwnd E) (snd_cwnd tp) \<le> snd_cwnd (tcp_cwnd_application_limited E tp)"
    "snd_cwnd (tcp_cwnd_application_limited E tp) \<le> snd_cwnd tp"
proof -
  let ?u = "max (snd_cwnd_used tp) (init_cwnd E)"
  have "init_cwnd E \<le> drop_bit 1 (snd_cwnd tp + ?u)" "drop_bit 1 (snd_cwnd tp + ?u) \<le> snd_cwnd tp" if "?u < snd_cwnd tp"
    using unat_mean [OF assms less_imp_le [OF that]] by (metis max.cobounded2 order_trans, blast)
  then show "min (init_cwnd E) (snd_cwnd tp) \<le> snd_cwnd (tcp_cwnd_application_limited E tp)"
    "snd_cwnd (tcp_cwnd_application_limited E tp) \<le> snd_cwnd tp"
    by (auto simp: tcp_cwnd_application_limited_def Let_def min_le_iff_disj)
qed (auto simp: tcp_cwnd_application_limited_def same_queues_def Let_def)

lemma cwnd_validate_bounds:
  assumes "snd_cwnd tp < 2 ^ 31"
  shows "same_queues tp (tcp_cwnd_validate E l tp)"
    "min (init_cwnd E) (snd_cwnd tp) \<le> snd_cwnd (tcp_cwnd_validate E l tp) \<and> snd_cwnd (tcp_cwnd_validate E l tp) \<le> snd_cwnd tp"
proof -
  define t1 where "t1 = (if \<not> seq_before (snd_una tp) (cwnd_usage_seq tp) \<or> l \<or> \<not> is_cwnd_limited tp \<and> packets_out tp > max_packets_out tp
    then tp\<lparr>is_cwnd_limited := l, max_packets_out := packets_out tp, cwnd_usage_seq := snd_nxt tp\<rparr> else tp)"
  define t2 where "t2 = (if packets_out t1 > snd_cwnd_used t1 then t1\<lparr>snd_cwnd_used := packets_out t1\<rparr> else t1)"
  define t3 where "t3 = (if slow_start_after_idle E \<and> icsk_rto t2 \<le> jiffies E - snd_cwnd_stamp t2 \<and> \<not> has_cong_control E
    then tcp_cwnd_application_limited E t2 else t2)"
  have f: "same_queues tp t2" "snd_cwnd t2 = snd_cwnd tp" "same_queues tp t1" "snd_cwnd t1 = snd_cwnd tp"
    by (auto simp: t1_def t2_def same_queues_def)
  have "same_queues t2 t3" "min (init_cwnd E) (snd_cwnd tp) \<le> snd_cwnd t3" "snd_cwnd t3 \<le> snd_cwnd tp"
    using application_limited_bounds [of t2 E] assms f by (auto simp: t3_def)
  moreover have "tcp_cwnd_validate E l tp = (if tcp_is_cwnd_limited E t1 then t1\<lparr>snd_cwnd_used := 0, snd_cwnd_stamp := jiffies E\<rparr>
    else if sk_write_queue t3 = [] \<and> has_socket E \<and> sk_nospace E \<and> sk_can_send E then tcp_chrono_start E TCP_CHRONO_SNDBUF_LIMITED t3 else t3)"
    unfolding tcp_cwnd_validate_def t1_def [symmetric] Let_def t2_def [symmetric] t3_def [symmetric] by (rule refl)
  ultimately show "same_queues tp (tcp_cwnd_validate E l tp)"
    "min (init_cwnd E) (snd_cwnd tp) \<le> snd_cwnd (tcp_cwnd_validate E l tp) \<and> snd_cwnd (tcp_cwnd_validate E l tp) \<le> snd_cwnd tp"
    using f chrono_frame(3,4) [where tp = t3 and E = E and c = TCP_CHRONO_SNDBUF_LIMITED]
    by (auto simp: same_queues_def min_le_iff_disj)
qed

lemma loss_probe_frame:
  "same_queues tp (snd (tcp_schedule_loss_probe E b tp))" "snd_cwnd (snd (tcp_schedule_loss_probe E b tp)) = snd_cwnd tp"
  by (simp_all add: tcp_schedule_loss_probe_def same_queues_def Let_def)

lemma xmit_end_frame:
  assumes "snd_cwnd (xs_sk L) < 2 ^ 31" and "xmit_end E push_one L = (stalled, tp')"
  shows "same_queues (xs_sk L) tp'"
    and "min (init_cwnd E) (snd_cwnd (xs_sk L)) \<le> snd_cwnd tp' \<and> snd_cwnd tp' \<le> snd_cwnd (xs_sk L)"
    and "stalled \<longleftrightarrow> xs_sent_pkts L = 0 \<and> packets_out (xs_sk L) = 0 \<and> sk_write_queue (xs_sk L) \<noteq> []"
proof -
  define t1 where "t1 = (if xs_rwnd_limited L then tcp_chrono_start E TCP_CHRONO_RWND_LIMITED (xs_sk L)
    else tcp_chrono_stop E TCP_CHRONO_RWND_LIMITED (xs_sk L))"
  define l where "l = (xs_cwnd_limited L \<or> tcp_packets_in_flight t1 \<ge> snd_cwnd t1)"
  define t2 where "t2 = (if xs_sent_pkts L \<noteq> 0 \<or> l then tcp_cwnd_validate E l t1 else t1)"
  define t3 where "t3 = (if icsk_ca_state t2 = TCP_CA_CWR \<or> icsk_ca_state t2 = TCP_CA_Recovery
    then t2\<lparr>prr_out := prr_out t2 + xs_sent_pkts L\<rparr> else t2)"
  have 1: "same_queues (xs_sk L) t1" "snd_cwnd t1 = snd_cwnd (xs_sk L)" by (auto simp: t1_def chrono_frame)
  have 2: "same_queues t1 t2" "min (init_cwnd E) (snd_cwnd (xs_sk L)) \<le> snd_cwnd t2 \<and> snd_cwnd t2 \<le> snd_cwnd (xs_sk L)"
    using cwnd_validate_bounds [of t1 E l] assms(1) 1 by (auto simp: t2_def)
  have 3: "same_queues t2 t3" "snd_cwnd t3 = snd_cwnd t2" by (auto simp: t3_def same_queues_def)
  have run: "(stalled, tp') = (if xs_sent_pkts L \<noteq> 0 then (False, if push_one \<noteq> 2 then snd (tcp_schedule_loss_probe E False t3) else t3)
      else (packets_out t2 = 0 \<and> sk_write_queue t2 \<noteq> [], t2))"
    using assms(2) unfolding xmit_end_def t1_def [symmetric] Let_def l_def [symmetric] t2_def [symmetric] t3_def [symmetric]
    by (rule sym)
  note lp = loss_probe_frame [where tp = t3 and E = E and b = False]
  have q: "same_queues (xs_sk L) t2" "same_queues (xs_sk L) t3" "same_queues (xs_sk L) (snd (tcp_schedule_loss_probe E False t3))"
    using same_queues_trans [OF 1(1) 2(1)] same_queues_trans [OF _ 3(1)] same_queues_trans [OF _ lp(1)] by blast+
  have w: "snd_cwnd tp' = snd_cwnd t2" using run 3(2) lp(2) by (simp split: if_splits)
  show "same_queues (xs_sk L) tp'" using run q by (simp split: if_splits)
  show "min (init_cwnd E) (snd_cwnd (xs_sk L)) \<le> snd_cwnd tp' \<and> snd_cwnd tp' \<le> snd_cwnd (xs_sk L)"
    unfolding w by (rule 2(2))
  show "stalled \<longleftrightarrow> xs_sent_pkts L = 0 \<and> packets_out (xs_sk L) = 0 \<and> sk_write_queue (xs_sk L) \<noteq> []"
    using run q(1) by (simp add: same_queues_def split: if_splits)
qed


section \<open>The data of split and trimmed segments\<close>

lemma tcp_fragment_data:
  assumes "splits_pages E" and "tcp_fragment E q i len mss sk = (0, sk')" and "i < length (queue_of q sk)"
  shows "concat (map skb_data (queue_of q sk')) = concat (map skb_data (queue_of q sk)) \<and>
    skb_data (queue_of q sk' ! i) = take (unat len) (skb_data (queue_of q sk ! i)) \<and>
    skb_data (queue_of q sk' ! Suc i) = drop (unat len) (skb_data (queue_of q sk ! i))"
proof -
  let ?Q = "queue_of q sk"
  obtain tsize a b where ab: "fragment_skb E len mss tsize (?Q ! i) = (a, b)"
    and Q: "queue_of q sk' = take i ?Q @ [a, b] @ drop (Suc i) ?Q"
    using assms(2) by (rule tcp_fragment_done)
  note d = frag_split.split_data [OF assms(1) ab]
  have "concat (map skb_data ?Q) = concat (map skb_data (take i ?Q @ ?Q ! i # drop (Suc i) ?Q))"
    using take_nth_drop [OF assms(3)] by (rule arg_cong)
  then show ?thesis using Q d assms(3) by (simp add: nth_append)
qed

lemma trim_head_done:
  assumes "tcp_trim_head E z 0 len sk = (0, sk')" and "tcp_rtx_queue sk = s # rest"
  obtains s' where "tcp_rtx_queue sk' = s' # rest" "skb_data s' = drop (unat len) (skb_data s)" "skb_seq s' = skb_seq s + len"
    "skb_end_seq s' = skb_end_seq s" "skb_flags s' = skb_flags s" "snd_nxt sk' = snd_nxt sk" "skb_sacked s' = skb_sacked s"
    "skb_pcount s' = (if 1 < skb_pcount s then skb_pcount (tcp_set_skb_tso_segs (pskb_trim_head s len) (ucast (skb_gso_size s)))
       else skb_pcount s)"
proof -
  define s1 where "s1 = (pskb_trim_head s len)\<lparr>skb_seq := skb_seq s + len, skb_truesize := skb_truesize s - int (unat len)\<rparr>"
  define s' where "s' = (if 1 < skb_pcount s then tcp_set_skb_tso_segs s1 (ucast (skb_gso_size s)) else s1)"
  have "skb_len s1 = skb_len (pskb_trim_head s len)" by (simp add: s1_def skb_len_def)
  then show thesis
    using assms
    by (intro that [of s'])
      (auto simp: tcp_trim_head_def s1_def s'_def pskb_trim_head_def Let_def ENOMEM_def eat_frags_concat tcp_set_skb_tso_segs_def
        split: if_splits)
qed

end
