(* ===== verification/Props_Send.thy ===== *)
theory Props_Send
  imports Send_Safety
begin

text \<open>
  The properties of segmentation and sending.
\<close>

section \<open>An example\<close>

text \<open>A connection with one segment in flight and two in the write queue, the second with a FIN, in a kernel
  that cuts pages where needed.\<close>

fun split_frags :: "nat \<Rightarrow> u8 list list \<Rightarrow> u8 list list \<times> u8 list list" where
  "split_frags n [] = ([], [])"
| "split_frags n (f # fs) =
     (if n = 0 then ([], f # fs)
      else if length f \<le> n then (let (a, b) = split_frags (n - length f) fs in (f # a, b))
      else ([take n f], drop n f # fs))"

definition fresh_skb :: "int \<Rightarrow> sk_buff" where
  "fresh_skb tsize = \<lparr>skb_seq = 0, skb_end_seq = 0, skb_flags = 0, skb_sacked = 0, skb_eor = False,
     skb_frags = [], skb_pcount = 0, skb_gso_size = 0, skb_truesize = tsize, skb_txstamp_ack = False,
     skb_tx_flags = 0, skb_tskey = 0, skb_tstamp = 0, skb_tx = 0\<rparr>"

definition tx_skb :: "u32 \<Rightarrow> nat \<Rightarrow> u8 \<Rightarrow> u16 \<Rightarrow> sk_buff" where
  "tx_skb q n flags pcount = (fresh_skb 2304)\<lparr>skb_seq := q,
     skb_end_seq := q + of_nat n + (if flags AND TCPHDR_FIN \<noteq> 0 then 1 else 0), skb_flags := flags,
     skb_frags := [replicate n 7, []], skb_pcount := pcount\<rparr>"

definition tx_sock :: tcp_sock where
  "tx_sock = \<lparr>sk_write_queue = [tx_skb 30 25 TCPHDR_ACK 0, tx_skb 55 5 (TCPHDR_ACK OR TCPHDR_FIN) 0],
     tcp_rtx_queue = [tx_skb 20 10 TCPHDR_ACK 1],
     sk_sndbuf = 100000, sk_wmem_queued = 6912, sk_forward_alloc = 0, snd_nxt = 30, packets_out = 1, sacked_out = 0,
     retrans_out = 0, lost_out = 0, lost_skb_hint = None, lost_cnt_hint = 0, sack_ok = True, wqueue_too_big = 0,
     snd_una = 20, snd_wnd = 100, max_window = 100, snd_up = 20, snd_sml = 20, highest_sack = None, loss_probe_pending = False,
     snd_cwnd = 10, snd_ssthresh = 100, snd_cwnd_stamp = 0, snd_cwnd_used = 0, max_packets_out = 1, cwnd_usage_seq = 30,
     is_cwnd_limited = False, icsk_rto = 200, icsk_ca_state = 0, prr_out = 0, fastopen_rsk = False, mss_cache = 10, tcp_clock_cache = 0, tcp_wstamp_ns = 0,
     tcp_mstamp = 0, srtt_us = 0, pacing_timer_queued = False, tsq_throttled = False, repairing = False,
     chrono_type = TCP_CHRONO_UNSPEC, chrono_start = 0, chrono_stat = [0, 0, 0], lsndtime = 0, ack_lrcvtime = 0,
     ack_ato = 0, compressed_ack = 0, ack_rcv_nxt = 0, wscale_ok = True, rx_rcv_wscale = 7,
     tcp_header_len = 32, mss_clamp = 1460, icsk_ext_hdr_len = 0, icsk_pmtu_cookie = 1500, mtup_enabled = False,
     mtup_search_high = 1500, mtup_search_low = 552, mtup_probe_size = 0, mtup_probe_timestamp = 0,
     retransmit_skb_hint = None, total_retrans = 0, bytes_retrans = 0, retrans_stamp = 0, undo_retrans = 0, snd_calls = []\<rparr>"

definition tx_senv :: snd_env where
  "tx_senv = \<lparr>jiffies = 1000, clock_ns = 0, init_cwnd = 10, current_ssthresh = 100, sk_pacing_rate = 0,
     sk_pacing_shift = 10, pacing_none = False, needs_internal_pacing = False, min_rtt_us = 0, tso_rtt_log = 9,
     gso_max_size = 65536, gso_max_segs = 65535, min_tso_segs = 2, tso_win_divisor = 3, max_tso_deferred_mss = 3,
     limit_output_bytes = 1048576,
     early_retrans = 3, rto_min_us = 200000, rto_delta_us = 200000, timeout_init = 1000, timeout_min_us = 2000,
     usecs_to_jiffies = (\<lambda>u. u div 1000), jiffies_to_usecs = (\<lambda>j. j * 1000), tx_delay = None, slow_start_after_idle = True, has_cong_control = False,
     has_socket = True, sk_nospace = False, sk_can_send = True, net_header_len = 20, min_snd_mss = 48, base_mss = 1024,
     mtu_probing = 0, dst_mtu = Some 1500, bound_to_half_wnd = (\<lambda>w m. m), tcp_is_cwnd_limited = (\<lambda>tp. False)\<rparr>"

definition tx_seg :: seg_env where
  "tx_seg = \<lparr>se_any_tstamp = 0, se_limit = 65536, se_unclone = True, se_alloc = Some (fresh_skb 1280),
     se_split = split_frags\<rparr>"

definition tx_ans :: xmit_ans where
  "tx_ans = \<lparr>xa_seg = tx_seg, xa_alloc1 = 0, xa_alloc2 = 0, xa_sent = True\<rparr>"

definition tx_loop :: xmit_state where
  "tx_loop = \<lparr>xs_sk = tx_sock, xs_sent = [], xs_sent_pkts = 0, xs_cwnd_limited = False, xs_rwnd_limited = False\<rparr>"

lemma split_frags_concat:
  "concat (fst (split_frags n fs)) = take n (concat fs) \<and> concat (snd (split_frags n fs)) = drop n (concat fs)"
  by (induction n fs rule: split_frags.induct) (auto simp: case_prod_beta Let_def)

lemma tx_splits: "splits_pages tx_seg"
  by (simp add: splits_pages_def tx_seg_def split_frags_concat)

lemma tx_answers: "list_all (\<lambda>a. splits_pages (xa_seg a)) (replicate n tx_ans)"
  by (simp add: list_all_iff tx_ans_def tx_splits)

lemma tx_skb_fields:
  "skb_data (tx_skb q n fl c) = replicate n 7" "skb_seq (tx_skb q n fl c) = q" "skb_pcount (tx_skb q n fl c) = c"
  "skb_flags (tx_skb q n fl c) = fl"
  "skb_end_seq (tx_skb q n fl c) = q + of_nat n + (if fl AND TCPHDR_FIN \<noteq> 0 then 1 else 0)"
  "span (tx_skb q n fl c) = n + (if fl AND TCPHDR_FIN \<noteq> 0 then 1 else 0)"
  by (simp_all add: tx_skb_def span_def)

lemma tx_flags: "TCPHDR_ACK AND TCPHDR_FIN = 0" "TCPHDR_FIN \<noteq> 0" "(TCPHDR_ACK OR TCPHDR_FIN) AND TCPHDR_FIN = TCPHDR_FIN"
  unfolding TCPHDR_ACK_def TCPHDR_FIN_def by simp_all

lemma tx_seg_inv: "seg_inv tx_sock"
  by (simp add: seg_inv_def tx_sock_def tx_skb_fields tx_flags)

lemma tx_send_inv: "send_inv 10 tx_sock"
  unfolding send_inv_def
proof (intro conjI ballI)
  show "seg_inv tx_sock" by (rule tx_seg_inv)
qed (auto simp: tx_sock_def tx_skb_fields tx_flags counted_def countable_def seg_count_def)

lemma tx_weight: "weight (sk_write_queue tx_sock) = 33"
  by (simp add: tx_sock_def tx_skb_fields tx_flags)

section \<open>Sending\<close>



text \<open>C24: the loop loses, repeats and reorders nothing: the queues stay contiguous in sequence space and
  counted, all queued bytes are the same as before, and what went out is exactly what has been appended
  to the retransmission queue, in order (a socket in repair moves its segments there without
  sending).\<close>

theorem xmit_keeps_data:
  assumes "list_all (\<lambda>a. splits_pages (xa_seg a)) as" and "send_inv mss (xs_sk L)" and "0 < mss" and "mss < 2 ^ 16"
    and "weight (sk_write_queue (xs_sk L)) \<le> length as"
  shows "\<exists>L' ss. xmit_loop E mss nonagle push_one max_segs as L = Some (Break L') \<and> xs_sent L' = xs_sent L @ ss \<and>
    send_inv mss (xs_sk L') \<and> queued_data (xs_sk L') = queued_data (xs_sk L) \<and>
    (if repairing (xs_sk L) then ss = [] else tcp_rtx_queue (xs_sk L') = tcp_rtx_queue (xs_sk L) @ ss)"
proof -
  obtain r where "xmit_loop E mss nonagle push_one max_segs as L = Some r" using xmit_loop_total [OF assms] by blast
  with xmit_loop_progress [OF assms(1-4) this] show ?thesis by (auto simp: progress_def)
qed

theorem xmit_keeps_data_witness:
  "send_inv 10 tx_sock \<and> (\<exists>L' ss. xmit_loop tx_senv 10 0 0 2 (replicate 33 tx_ans) tx_loop = Some (Break L') \<and>
     send_inv 10 (xs_sk L') \<and> xs_sent L' = ss \<and> queued_data (xs_sk L') = queued_data tx_sock \<and>
     tcp_rtx_queue (xs_sk L') = tcp_rtx_queue tx_sock @ ss)"
proof -
  have "\<not> repairing tx_sock" by (simp add: tx_sock_def)
  then show ?thesis
    using xmit_keeps_data [of "replicate 33 tx_ans" 10 tx_loop tx_senv 0 0 2] tx_send_inv tx_weight tx_answers [of 33]
    by (auto simp: tx_loop_def)
qed


text \<open>What follows the loop leaves the queues alone; it reports a stall exactly when data is queued
  while nothing is in flight and nothing was sent; and it never raises the congestion window nor lowers
  it below the smaller of the initial window and the old one.\<close>

theorem xmit_end_effect:
  assumes "snd_cwnd (xs_sk L) < 2 ^ 31" and "xmit_end E push_one L = (stalled, tp')"
  shows "same_queues (xs_sk L) tp' \<and>
    (stalled \<longleftrightarrow> xs_sent_pkts L = 0 \<and> packets_out (xs_sk L) = 0 \<and> sk_write_queue (xs_sk L) \<noteq> []) \<and>
    min (init_cwnd E) (snd_cwnd (xs_sk L)) \<le> snd_cwnd tp' \<and> snd_cwnd tp' \<le> snd_cwnd (xs_sk L)"
  using xmit_end_frame [OF assms] by blast

theorem xmit_end_effect_witness:
  "\<not> fst (xmit_end tx_senv 0 tx_loop) \<and> snd_cwnd (snd (xmit_end tx_senv 0 tx_loop)) = 10"
proof -
  have f: "snd_cwnd (xs_sk tx_loop) = 10" "packets_out (xs_sk tx_loop) = 1" "init_cwnd tx_senv = 10"
    by (simp_all add: tx_loop_def tx_sock_def tx_senv_def)
  then show ?thesis
    using xmit_end_effect [of tx_loop tx_senv 0 "fst (xmit_end tx_senv 0 tx_loop)" "snd (xmit_end tx_senv 0 tx_loop)"]
    by (simp add: order_antisym)
qed

section \<open>Splitting and trimming\<close>

definition queued_bytes :: "sk_buff list \<Rightarrow> u8 list" where
  "queued_bytes ss = concat (map skb_data ss)"

text \<open>C25: \<open>tcp_fragment\<close> cuts the segment at position \<open>i\<close> of either queue at \<open>len\<close> bytes, in place, so
  that all bytes, their order and the sequence numbers stay, and \<open>packets_out\<close> remains the number of
  packets of the retransmission queue; without memory, or when the queue is far over its limit, it
  fails with an error and changes nothing but a counter.\<close>

theorem tcp_fragment_keeps_queues:
  assumes "splits_pages E" and "seg_inv sk" and "i < length (queue_of q sk)" and "unat len < length (skb_data (queue_of q sk ! i))"
    and "tcp_fragment E q i len mss sk = (r, sk')"
  shows "seg_inv sk' \<and> concat (map skb_data (queue_of q sk')) = concat (map skb_data (queue_of q sk)) \<and>
    (r = 0 \<longrightarrow> skb_data (queue_of q sk' ! i) = take (unat len) (skb_data (queue_of q sk ! i)) \<and>
       skb_data (queue_of q sk' ! Suc i) = drop (unat len) (skb_data (queue_of q sk ! i))) \<and>
    (r \<noteq> 0 \<longrightarrow> r \<in> {- EINVAL, - ENOMEM} \<and> (\<exists>n. sk' = sk\<lparr>wqueue_too_big := n\<rparr>))"
proof (cases "r = 0")
  case True
  with tcp_fragment_inv [OF assms] tcp_fragment_data [OF assms(1), of q i len mss sk sk'] assms(3,5) show ?thesis by simp
next
  case False
  with tcp_fragment_inv [OF assms] tcp_fragment_failed [OF assms(5)] show ?thesis by (auto simp: queue_of_def split: tcp_queue.splits)
qed

theorem tcp_fragment_keeps_queues_witness:
  "let sk' = snd (tcp_fragment tx_seg TCP_FRAG_IN_RTX_QUEUE 0 4 10 tx_sock) in seg_inv sk' \<and>
     concat (map skb_data (queue_of TCP_FRAG_IN_RTX_QUEUE sk')) = replicate 10 7"
proof -
  let ?q = TCP_FRAG_IN_RTX_QUEUE
  have "concat (map skb_data (queue_of ?q tx_sock)) = replicate 10 7" "0 < length (queue_of ?q tx_sock)"
    "unat (4 :: u32) < length (skb_data (queue_of ?q tx_sock ! 0))"
    by (simp_all add: tx_sock_def queue_of_def tx_skb_fields)
  then show ?thesis
    using tcp_fragment_keeps_queues [OF tx_splits tx_seg_inv, of 0 ?q 4 10
      "fst (tcp_fragment tx_seg ?q 0 4 10 tx_sock)" "snd (tcp_fragment tx_seg ?q 0 4 10 tx_sock)"]
    by (simp add: Let_def)
qed

text \<open>\<open>tcp_trim_head\<close> removes exactly the acknowledged bytes from the front of the oldest segment in
  flight: what remains starts that much later in sequence space, the queue still covers it without gaps
  up to \<open>snd_nxt\<close>, and the packets of a large segment are counted again with its own segment size; if the
  data cannot be made private nothing changes.\<close>

theorem trim_head_drops_acked:
  assumes "seg_inv sk" and "tcp_rtx_queue sk = s # rest" and "unat len \<le> length (skb_data s)"
    and "tcp_trim_head E z 0 len sk = (r, sk')"
  shows "(r = 0 \<longrightarrow> queued_bytes (tcp_rtx_queue sk') = drop (unat len) (queued_bytes (tcp_rtx_queue sk)) \<and>
       chain (skb_seq s + len) (tcp_rtx_queue sk') (snd_nxt sk') \<and>
       (counted s \<and> 1 < skb_pcount s \<and> skb_gso_size s \<noteq> 0 \<longrightarrow> unat (skb_pcount (hd (tcp_rtx_queue sk'))) =
          seg_count (length (skb_data s) - unat len) (unat (skb_gso_size s)))) \<and>
    (r \<noteq> 0 \<longrightarrow> r = - ENOMEM \<and> sk' = sk)"
proof (cases "r = 0")
  case False
  with assms(4) show ?thesis by (auto simp: tcp_trim_head_def Let_def split: if_splits)
next
  case True
  with assms(2,4) obtain s' where s': "tcp_rtx_queue sk' = s' # rest" "skb_data s' = drop (unat len) (skb_data s)"
    "skb_seq s' = skb_seq s + len" "skb_end_seq s' = skb_end_seq s" "skb_flags s' = skb_flags s" "snd_nxt sk' = snd_nxt sk"
    "skb_pcount s' = (if 1 < skb_pcount s then skb_pcount (tcp_set_skb_tso_segs (pskb_trim_head s len) (ucast (skb_gso_size s)))
       else skb_pcount s)"
    by (auto elim: trim_head_done)
  have ch: "skb_end_seq s = skb_seq s + of_nat (span s)" "chain (skb_end_seq s) rest (snd_nxt sk)"
    and small: "length (skb_data s) < 2 ^ 31"
    using assms(1,2) by (auto simp: seg_inv_def span_def)
  have sp: "span s = unat len + span s'" using s' assms(3) by (simp add: span_def)
  have "skb_end_seq s = skb_seq s + len + of_nat (span s')" unfolding ch(1) sp by (simp add: add.assoc)
  then have "chain (skb_seq s + len) (tcp_rtx_queue sk') (snd_nxt sk')" using s' ch by simp
  moreover have "unat (skb_pcount s') = seg_count (length (skb_data s) - unat len) (unat (skb_gso_size s))"
    if c: "counted s" "1 < skb_pcount s" "skb_gso_size s \<noteq> 0"
  proof -
    let ?m = "ucast (skb_gso_size s) :: u32" and ?t = "pskb_trim_head s len"
    have m: "unat ?m = unat (skb_gso_size s)" by (rule unat_ucast16)
    have t: "length (skb_data ?t) = length (skb_data s) - unat len" by (simp add: pskb_trim_head_def eat_frags_concat)
    have "seg_count (length (skb_data ?t)) (unat ?m) \<le> unat (skb_pcount s)"
      using c seg_count_mono [of "length (skb_data ?t)" "length (skb_data s)" "unat ?m"] by (simp add: counted_def m t)
    also have "\<dots> < 2 ^ 16" using unsigned_less [of "skb_pcount s"] by simp
    finally have "countable ?m ?t" using small t by (simp add: countable_def)
    moreover have "0 < ?m" "?m < 2 ^ 16" using c(3) unsigned_less [of "skb_gso_size s"] m
      by (simp_all add: word_less_nat_alt unat_gt_0)
    ultimately show ?thesis using tso_segs_count(1) [of ?m ?t] s'(7) c(2) m t by simp
  qed
  ultimately show ?thesis using True s' assms(2,3) by (simp add: queued_bytes_def del: chain.simps)
qed


theorem trim_head_drops_acked_witness:
  "let sk' = snd (tcp_trim_head tx_seg False 0 4 tx_sock) in
     fst (tcp_trim_head tx_seg False 0 4 tx_sock) = 0 \<and> queued_bytes (tcp_rtx_queue sk') = replicate 6 7 \<and>
     chain 24 (tcp_rtx_queue sk') 30"
proof -
  have "fst (tcp_trim_head tx_seg False 0 4 tx_sock) = 0" "snd_nxt (snd (tcp_trim_head tx_seg False 0 4 tx_sock)) = 30"
    by (simp_all add: tcp_trim_head_def tx_seg_def tx_sock_def Let_def)
  moreover have "tcp_rtx_queue tx_sock = tx_skb 20 10 TCPHDR_ACK 1 # []" by (simp add: tx_sock_def)
  moreover have "drop 4 (replicate 10 (7 :: u8)) = replicate 6 7" by (simp add: drop_replicate)
  ultimately show ?thesis
    using trim_head_drops_acked [OF tx_seg_inv, of "tx_skb 20 10 TCPHDR_ACK 1" "[]" 4 tx_seg False 0
      "snd (tcp_trim_head tx_seg False 0 4 tx_sock)"]
    by (simp add: Let_def queued_bytes_def tx_skb_fields prod_eq_iff del: chain.simps)
qed

section \<open>The congestion window after idle times\<close>

text \<open>After an idle time of \<open>delta\<close> ticks \<open>tcp_cwnd_restart\<close> has halved the congestion window once for
  every full retransmission timeout that ended before, but not below the smaller of the initial window
  and the old one.\<close>

theorem cwnd_restart_halves:
  assumes "0 < unat (icsk_rto tp)" and "unat (icsk_rto tp) < 2 ^ 31" and "0 \<le> sint delta"
  shows "unat (snd_cwnd (tcp_cwnd_restart E delta tp)) =
    max (unat (snd_cwnd tp) div 2 ^ ((nat (sint delta) - 1) div unat (icsk_rto tp)))
      (min (unat (init_cwnd E)) (unat (snd_cwnd tp)))"
proof -
  have "unat (max a b) = max (unat a) (unat b)" "unat (min a b) = min (unat a) (unat b)" for a b :: u32
    by (simp_all add: max_def min_def word_le_nat_alt)
  then show ?thesis
    using restart_loop_value [OF assms, of "min (init_cwnd E) (snd_cwnd tp)" "snd_cwnd tp"]
    by (simp add: tcp_cwnd_restart_def log_call_def Let_def)
qed

theorem cwnd_restart_halves_witness:
  "unat (snd_cwnd (tcp_cwnd_restart tx_senv 601 (tx_sock\<lparr>snd_cwnd := 100\<rparr>))) = 12"
proof -
  have "sint (601 :: u32) = 601" using sint_word32 [of 601] by simp
  then show ?thesis
    using cwnd_restart_halves [of "tx_sock\<lparr>snd_cwnd := 100\<rparr>" 601 tx_senv] by (simp add: tx_sock_def tx_senv_def)
qed

section \<open>Segment sizes\<close>

text \<open>The segment size for a path never makes a packet larger than the path takes, unless the lower
  bound \<open>min_snd_mss\<close> strikes; it is exact when the peer's limit does not strike either, and between the
  two bounds the conversions of \<open>tcp_mtu_to_mss\<close> and \<open>tcp_mss_to_mtu\<close> are inverse to each other.\<close>

theorem mtu_mss_roundtrip:
  "(min_snd_mss E \<le> pmtu - net_header_len E - 20 - icsk_ext_hdr_len tp \<and> min_snd_mss E \<le> mss_clamp tp - icsk_ext_hdr_len tp \<longrightarrow>
      tcp_mss_to_mtu E tp (tcp_mtu_to_mss E tp pmtu) = min pmtu (mss_clamp tp + 20 + net_header_len E)) \<and>
   (min_snd_mss E \<le> mss + tcp_header_len tp - 20 \<and> mss + tcp_header_len tp - 20 \<le> mss_clamp tp - icsk_ext_hdr_len tp \<longrightarrow>
      tcp_mtu_to_mss E tp (tcp_mss_to_mtu E tp mss) = mss)"
  by (auto simp: tcp_mtu_to_mss_def u_tcp_mtu_to_mss_def tcp_mss_to_mtu_def Let_def)

theorem mtu_mss_roundtrip_witness:
  "tcp_mss_to_mtu tx_senv tx_sock (tcp_mtu_to_mss tx_senv tx_sock 1400) = 1400 \<and>
   tcp_mtu_to_mss tx_senv tx_sock (tcp_mss_to_mtu tx_senv tx_sock 536) = 536"
  using mtu_mss_roundtrip [of tx_senv 1400 tx_sock 536] by (simp add: tx_sock_def tx_senv_def)

end
