(* ===== verification/Tcp_Retrans.thy ===== *)
theory Tcp_Retrans
  imports Tcp_Send
begin

text \<open>
  Retransmission in \<open>tcp_output.c\<close>: \<open>__tcp_retransmit_skb\<close> cuts acknowledged data off, fits the segment
  to the peer's window, merges small neighbours into it (\<open>tcp_retrans_try_collapse\<close>) and sends it;
  \<open>tcp_retransmit_skb\<close> keeps the account.  A segment is given by its position \<open>i\<close> in the
  retransmission queue, which no step changes.  What other parts of the kernel answer is the record
  \<open>rtx_env\<close>.
\<close>

section \<open>Definitions\<close>

definition TCPCB_EVER_RETRANS :: u8 where "TCPCB_EVER_RETRANS = 0x80"
definition TCPCB_RETRANS :: u8 where "TCPCB_RETRANS = TCPCB_SACKED_RETRANS OR TCPCB_EVER_RETRANS"
definition TCPHDR_SYN_ECN :: u8 where "TCPHDR_SYN_ECN = TCPHDR_SYN OR TCPHDR_ECE OR TCPHDR_CWR"
definition EAGAIN :: int where "EAGAIN = 11"
definition EBUSY :: int where "EBUSY = 16"
definition EHOSTUNREACH :: int where "EHOSTUNREACH = 113"

text \<open>The two answers of \<open>skb_fclone_busy\<close>, the failure of \<open>rebuild_header\<close>, the answers for splitting,
  whether the data of a segment is shared or belongs to the user, \<open>tcp_skb_can_collapse\<close>,
  \<open>tcp_skb_shift\<close> of all data of the second segment into the first, the two settings, the result of
  the transmission, and the time stamp of \<open>tcp_skb_timestamp_ts\<close>.\<close>

record rtx_env =
  re_busy1 :: bool
  re_busy2 :: bool
  re_rebuild :: int
  re_seg :: seg_env
  re_cloned :: "sk_buff \<Rightarrow> bool"
  re_zcopy_pure :: "sk_buff \<Rightarrow> bool"
  re_can_collapse :: "sk_buff \<Rightarrow> sk_buff \<Rightarrow> bool"
  re_shift :: "sk_buff \<Rightarrow> sk_buff \<Rightarrow> (sk_buff \<times> sk_buff) option"
  re_retrans_collapse :: bool
  re_ecn_fallback :: bool
  re_err :: int
  re_stamp :: u32

definition tcp_ecn_clear_syn :: "rtx_env \<Rightarrow> sk_buff \<Rightarrow> sk_buff" where
  "tcp_ecn_clear_syn E skb =
     (if re_ecn_fallback E then skb\<lparr>skb_flags := skb_flags skb AND NOT (TCPHDR_ECE OR TCPHDR_CWR)\<rparr> else skb)"

definition skb_still_in_host_queue :: "rtx_env \<Rightarrow> tcp_sock \<Rightarrow> bool \<times> tcp_sock" where
  "skb_still_in_host_queue E tp = (if re_busy1 E then (re_busy2 E, tp\<lparr>tsq_throttled := True\<rparr>) else (False, tp))"

definition tcp_skb_collapse_tstamp :: "seg_env \<Rightarrow> sk_buff \<Rightarrow> sk_buff \<Rightarrow> sk_buff" where
  "tcp_skb_collapse_tstamp SE skb next_skb =
     (if tcp_has_tx_tstamp SE next_skb
      then skb\<lparr>skb_tx_flags := skb_tx_flags skb OR (skb_tx_flags next_skb AND se_any_tstamp SE),
               skb_tskey := skb_tskey next_skb, skb_txstamp_ack := skb_txstamp_ack skb \<or> skb_txstamp_ack next_skb\<rparr>
      else skb)"

datatype 'a attempt = Bug_on | No | Yes 'a

text \<open>The segment after position \<open>i\<close> is merged into the one at \<open>i\<close> and freed.\<close>

definition tcp_collapse_retrans :: "rtx_env \<Rightarrow> nat \<Rightarrow> tcp_sock \<Rightarrow> tcp_sock attempt" where
  "tcp_collapse_retrans E i tp =
     (let skb = tcp_rtx_queue tp ! i;
          next_skb = tcp_rtx_queue tp ! Suc i
      in if skb_pcount skb \<noteq> 1 \<or> skb_pcount next_skb \<noteq> 1 then Bug_on
         else case (if skb_len next_skb \<noteq> 0 then re_shift E skb next_skb else Some (skb, next_skb)) of
             None \<Rightarrow> No
           | Some (skb, next_skb) \<Rightarrow>
               let tp = (if highest_sack tp = Some (skb_seq next_skb) then tp\<lparr>highest_sack := Some (skb_seq skb)\<rparr> else tp);
                   skb = skb\<lparr>skb_end_seq := skb_end_seq next_skb, skb_flags := skb_flags skb OR skb_flags next_skb,
                             skb_sacked := skb_sacked skb OR (skb_sacked next_skb AND TCPCB_EVER_RETRANS),
                             skb_eor := skb_eor next_skb\<rparr>;
                   tp = tp\<lparr>lost_skb_hint := None\<rparr>;
                   tp = (if retransmit_skb_hint tp = Some (skb_seq next_skb)
                         then tp\<lparr>retransmit_skb_hint := Some (skb_seq skb)\<rparr> else tp);
                   tp = tcp_adjust_pcount tp next_skb (int (unat (skb_pcount next_skb)));
                   skb = tcp_skb_collapse_tstamp (re_seg E) skb next_skb;
                   tp = tp\<lparr>tcp_rtx_queue := take i (tcp_rtx_queue tp) @ skb # drop (Suc (Suc i)) (tcp_rtx_queue tp),
                           sk_wmem_queued := sk_wmem_queued tp - skb_truesize next_skb\<rparr>
               in Yes (if re_zcopy_pure E next_skb then tp
                       else tp\<lparr>sk_forward_alloc := sk_forward_alloc tp + skb_truesize next_skb\<rparr>))"

definition tcp_can_collapse :: "rtx_env \<Rightarrow> sk_buff \<Rightarrow> bool" where
  "tcp_can_collapse E skb \<longleftrightarrow> \<not> skb_pcount skb > 1 \<and> \<not> re_cloned E skb \<and> skb_sacked skb AND TCPCB_SACKED_ACKED = 0"

lemma collapse_shortens:
  assumes "tcp_collapse_retrans E i tp = Yes tp'" and "Suc i < length (tcp_rtx_queue tp)"
  shows "length (tcp_rtx_queue tp') < length (tcp_rtx_queue tp)"
proof -
  have "tcp_rtx_queue (tcp_adjust_pcount t s d) = tcp_rtx_queue t" for t :: tcp_sock and s d
    by (auto simp: tcp_adjust_pcount_def Let_def split: option.splits)
  then show ?thesis
    using assms by (auto simp: tcp_collapse_retrans_def Let_def split: if_splits option.splits)
qed

text \<open>The rounds of \<open>tcp_retrans_try_collapse\<close> after the first; a merge shortens the queue.\<close>

function collapse_loop :: "rtx_env \<Rightarrow> nat \<Rightarrow> int \<Rightarrow> tcp_sock \<Rightarrow> tcp_sock option" where
  "collapse_loop E i space tp =
     (if Suc i < length (tcp_rtx_queue tp) then
        let to = tcp_rtx_queue tp ! i;
            skb = tcp_rtx_queue tp ! Suc i
        in if \<not> tcp_can_collapse E skb then Some tp
           else if \<not> re_can_collapse E to skb then Some tp
           else
             let space = space - int (unat (skb_len skb))
             in if space < 0 then Some tp
                else if seq_after (skb_end_seq skb) (tcp_wnd_end tp) then Some tp
                else case tcp_collapse_retrans E i tp of
                    Bug_on \<Rightarrow> None
                  | No \<Rightarrow> Some tp
                  | Yes tp' \<Rightarrow> collapse_loop E i space tp'
      else Some tp)"
  by pat_completeness auto

termination
  by (relation "measure (\<lambda>(E, i, space, tp). length (tcp_rtx_queue tp))") (auto intro: collapse_shortens)

declare collapse_loop.simps [simp del]

text \<open>\<open>None\<close> if a \<open>BUG_ON\<close> strikes.\<close>

definition tcp_retrans_try_collapse :: "rtx_env \<Rightarrow> nat \<Rightarrow> int \<Rightarrow> tcp_sock \<Rightarrow> tcp_sock option" where
  "tcp_retrans_try_collapse E i space tp =
     (let to = tcp_rtx_queue tp ! i
      in if \<not> re_retrans_collapse E \<or> skb_flags to AND TCPHDR_SYN \<noteq> 0 then Some tp
         else if \<not> tcp_can_collapse E to \<or> \<not> re_can_collapse E to to then Some tp
         else collapse_loop E i (space - int (unat (skb_len to))) tp)"

definition follow_hints :: "u32 \<Rightarrow> u32 \<Rightarrow> tcp_sock \<Rightarrow> tcp_sock" where
  "follow_hints old new tp = tp\<lparr>lost_skb_hint := follow old new (lost_skb_hint tp), highest_sack := follow old new (highest_sack tp),
     retransmit_skb_hint := follow old new (retransmit_skb_hint tp)\<rparr>"

definition set_rtx :: "nat \<Rightarrow> sk_buff \<Rightarrow> tcp_sock \<Rightarrow> tcp_sock" where
  "set_rtx i skb tp = tp\<lparr>tcp_rtx_queue := (tcp_rtx_queue tp)[i := skb]\<rparr>"

text \<open>The label \<open>start\<close>: acknowledged data is cut off.  A SYN is removed first, which can happen once.\<close>

definition retrans_trim :: "rtx_env \<Rightarrow> nat \<Rightarrow> tcp_sock \<Rightarrow> int \<times> tcp_sock" where
  "retrans_trim E i tp =
     (let skb = tcp_rtx_queue tp ! i;
          tp = (if seq_before (skb_seq skb) (snd_una tp) \<and> skb_flags skb AND TCPHDR_SYN \<noteq> 0
                then follow_hints (skb_seq skb) (skb_seq skb + 1)
                       (set_rtx i (skb\<lparr>skb_flags := skb_flags skb AND NOT TCPHDR_SYN, skb_seq := skb_seq skb + 1\<rparr>) tp)
                else tp);
          skb = tcp_rtx_queue tp ! i
      in if seq_before (skb_seq skb) (snd_una tp) then
           (if seq_before (skb_end_seq skb) (snd_una tp) then (- EINVAL, tp)
            else
              let (err, tp) = tcp_trim_head (re_seg E) (re_zcopy_pure E skb) i (snd_una tp - skb_seq skb) tp
              in if err \<noteq> 0 then (- ENOMEM, tp) else (0, follow_hints (skb_seq skb) (snd_una tp) tp))
         else (0, tp))"

text \<open>The room in the peer's window, and the length that is sent; both are of type \<open>int\<close>.\<close>

definition retrans_avail :: "u32 \<Rightarrow> sk_buff \<Rightarrow> tcp_sock \<Rightarrow> s32 option" where
  "retrans_avail cur_mss skb tp =
     (let avail_wnd = tcp_wnd_end tp - skb_seq skb
      in if avail_wnd \<le>s 0 then (if skb_seq skb \<noteq> snd_una tp then None else Some cur_mss)
         else Some avail_wnd)"

definition retrans_len :: "u32 \<Rightarrow> s32 \<Rightarrow> s32 \<Rightarrow> s32" where
  "retrans_len cur_mss segs avail_wnd =
     (let len = cur_mss * segs
      in if avail_wnd <s len
         then let len = avail_wnd - avail_wnd mod cur_mss in if len = 0 then avail_wnd else len
         else len)"

text \<open>The segment is split or, if it fits, counted again and merged with what follows.\<close>

definition retrans_fit :: "rtx_env \<Rightarrow> nat \<Rightarrow> u32 \<Rightarrow> s32 \<Rightarrow> s32 \<Rightarrow> tcp_sock \<Rightarrow> (int \<times> tcp_sock) option" where
  "retrans_fit E i cur_mss avail_wnd len tp =
     (let skb = tcp_rtx_queue tp ! i
      in if len < skb_len skb then
           (let (err, tp) = tcp_fragment (re_seg E) TCP_FRAG_IN_RTX_QUEUE i len cur_mss tp
            in Some (if err \<noteq> 0 then (- ENOMEM, tp) else (0, tp)))
         else if \<not> se_unclone (re_seg E) then Some (- ENOMEM, tp)
         else
           let skb' = tcp_set_skb_tso_segs skb cur_mss;
               diff = int (unat (skb_pcount skb)) - int (unat (skb_pcount skb'));
               tp = set_rtx i skb' tp;
               tp = (if diff \<noteq> 0 then tcp_adjust_pcount tp skb' diff else tp);
               avail_wnd = (if avail_wnd <s cur_mss then avail_wnd else cur_mss)
           in if skb_len skb' < avail_wnd
              then (case tcp_retrans_try_collapse E i (sint avail_wnd) tp of None \<Rightarrow> None | Some tp \<Rightarrow> Some (0, tp))
              else Some (0, tp))"

text \<open>The transmission and the statistics.  The segment that is handed to the network is part of the
  result.\<close>

definition retrans_send :: "rtx_env \<Rightarrow> nat \<Rightarrow> tcp_sock \<Rightarrow> int \<times> sk_buff option \<times> tcp_sock" where
  "retrans_send E i tp =
     (let skb = tcp_rtx_queue tp ! i;
          skb = (if skb_flags skb AND TCPHDR_SYN_ECN = TCPHDR_SYN_ECN then tcp_ecn_clear_syn E skb else skb);
          tp = tp\<lparr>total_retrans := total_retrans tp + ucast (skb_pcount skb),
                  bytes_retrans := bytes_retrans tp + ucast (skb_len skb)\<rparr>
      in (re_err E, Some skb, set_rtx i (skb\<lparr>skb_sacked := skb_sacked skb OR TCPCB_EVER_RETRANS\<rparr>) tp))"

definition u_tcp_retransmit_skb ::
  "snd_env \<Rightarrow> opt_env \<Rightarrow> opt_sock \<Rightarrow> tcp_key \<Rightarrow> rtx_env \<Rightarrow> nat \<Rightarrow> s32 \<Rightarrow> tcp_sock \<Rightarrow> (int \<times> sk_buff option \<times> tcp_sock) option" where
  "u_tcp_retransmit_skb S oe os key E i segs tp =
     (let tp = tp\<lparr>mtup_probe_size := 0\<rparr>;
          (busy, tp) = skb_still_in_host_queue E tp
      in if busy then Some (- EBUSY, None, tp)
         else case retrans_trim E i tp of (err, tp) \<Rightarrow>
           if err \<noteq> 0 then Some (err, None, tp)
           else if re_rebuild E \<noteq> 0 then Some (- EHOSTUNREACH, None, tp)
           else case tcp_current_mss S oe os key tp of (cur_mss, tp) \<Rightarrow>
             (case retrans_avail cur_mss (tcp_rtx_queue tp ! i) tp of
                None \<Rightarrow> Some (- EAGAIN, None, tp)
              | Some avail_wnd \<Rightarrow>
                  (case retrans_fit E i cur_mss avail_wnd (retrans_len cur_mss segs avail_wnd) tp of
                     None \<Rightarrow> None
                   | Some (err, tp) \<Rightarrow> if err \<noteq> 0 then Some (err, None, tp) else Some (retrans_send E i tp))))"

definition tcp_retransmit_skb ::
  "snd_env \<Rightarrow> opt_env \<Rightarrow> opt_sock \<Rightarrow> tcp_key \<Rightarrow> rtx_env \<Rightarrow> nat \<Rightarrow> s32 \<Rightarrow> tcp_sock \<Rightarrow> (int \<times> sk_buff option \<times> tcp_sock) option" where
  "tcp_retransmit_skb S oe os key E i segs tp =
     (case u_tcp_retransmit_skb S oe os key E i segs tp of
        None \<Rightarrow> None
      | Some (err, sent, tp) \<Rightarrow>
          let skb = tcp_rtx_queue tp ! i;
              tp = (if err = 0
                    then set_rtx i (skb\<lparr>skb_sacked := skb_sacked skb OR TCPCB_RETRANS\<rparr>)
                           (tp\<lparr>retrans_out := retrans_out tp + ucast (skb_pcount skb)\<rparr>)
                    else tp);
              tp = (if retrans_stamp tp = 0 then tp\<lparr>retrans_stamp := re_stamp E\<rparr> else tp);
              tp = (if undo_retrans tp < 0 then tp\<lparr>undo_retrans := 0\<rparr> else tp)
          in Some (err, sent, tp\<lparr>undo_retrans := undo_retrans tp + int (unat (skb_pcount skb))\<rparr>))"


section \<open>The loop of \<open>tcp_xmit_retransmit_queue\<close>\<close>

text \<open>What happens in one round outside this file, and the variables of the loop: whether a hole was
  found, whether the timer has to be set, and the segments handed to the network.\<close>

record rq_ans =
  ra_env :: rtx_env
  ra_alloc1 :: u64
  ra_alloc2 :: u64

record rq_state =
  rq_sk :: tcp_sock
  rq_hole :: bool
  rq_rearm :: bool
  rq_sent :: "sk_buff list"

datatype rq_result = RBug | RStop rq_state | RNext rq_state

text \<open>The end of a round, for a lost segment that has neither been received nor sent again.  \<open>j\<close> is its
  position, and the head is at position 0 throughout; \<open>reo\<close> says whether the reordering timer is pending.\<close>

definition retrans_emit ::
  "snd_env \<Rightarrow> opt_env \<Rightarrow> opt_sock \<Rightarrow> tcp_key \<Rightarrow> bool \<Rightarrow> rq_ans \<Rightarrow> nat \<Rightarrow> s32 \<Rightarrow> rq_state \<Rightarrow> rq_result" where
  "retrans_emit S oe os key reo a j segs L =
     (let skb = tcp_rtx_queue (rq_sk L) ! j;
          (throttle, tp) = tcp_small_queue_check S (ra_alloc1 a) (ra_alloc2 a) skb 1 (rq_sk L);
          L = L\<lparr>rq_sk := tp\<rparr>
      in if throttle then RStop L
         else case tcp_retransmit_skb S oe os key (ra_env a) j segs tp of
             None \<Rightarrow> RBug
           | Some (err, sent, tp) \<Rightarrow>
               let L = L\<lparr>rq_sk := tp, rq_sent := rq_sent L @ (case sent of None \<Rightarrow> [] | Some h \<Rightarrow> [h])\<rparr>
               in if err \<noteq> 0 then RStop L
                  else
                    let tp = (if icsk_ca_state tp = TCP_CA_CWR \<or> icsk_ca_state tp = TCP_CA_Recovery
                              then tp\<lparr>prr_out := prr_out tp + ucast (skb_pcount (tcp_rtx_queue tp ! j))\<rparr>
                              else tp)
                    in RNext (L\<lparr>rq_sk := tp, rq_rearm := rq_rearm L \<or> j = 0 \<and> \<not> reo\<rparr>))"

definition retrans_round ::
  "snd_env \<Rightarrow> opt_env \<Rightarrow> opt_sock \<Rightarrow> tcp_key \<Rightarrow> u32 \<Rightarrow> bool \<Rightarrow> rq_ans \<Rightarrow> nat \<Rightarrow> rq_state \<Rightarrow> rq_result" where
  "retrans_round S oe os key max_segs reo a j L =
     (let (wait, tp) = tcp_pacing_check S (rq_sk L);
          skb = tcp_rtx_queue tp ! j
      in if wait then RStop (L\<lparr>rq_sk := tp\<rparr>)
         else
           let tp = (if rq_hole L then tp else tp\<lparr>retransmit_skb_hint := Some (skb_seq skb)\<rparr>);
               L = L\<lparr>rq_sk := tp\<rparr>;
               segs = snd_cwnd tp - tcp_packets_in_flight tp
           in if segs \<le>s 0 then RStop L
              else
                let sacked = skb_sacked skb;
                    segs = (if segs <s max_segs then segs else max_segs)
                in if retrans_out tp \<ge> lost_out tp then RStop L
                   else if sacked AND TCPCB_LOST = 0 then
                     RNext (if \<not> rq_hole L \<and> sacked AND (TCPCB_SACKED_RETRANS OR TCPCB_SACKED_ACKED) = 0
                            then L\<lparr>rq_hole := True\<rparr> else L)
                   else if sacked AND (TCPCB_SACKED_ACKED OR TCPCB_SACKED_RETRANS) \<noteq> 0 then RNext L
                   else retrans_emit S oe os key reo a j segs L)"

text \<open>The walk, with one answer per round; \<open>None\<close> if they do not suffice.\<close>

fun retrans_loop ::
  "snd_env \<Rightarrow> opt_env \<Rightarrow> opt_sock \<Rightarrow> tcp_key \<Rightarrow> u32 \<Rightarrow> bool \<Rightarrow> rq_ans list \<Rightarrow> nat \<Rightarrow> rq_state \<Rightarrow> rq_result option" where
  "retrans_loop S oe os key max_segs reo [] j L =
     (if length (tcp_rtx_queue (rq_sk L)) \<le> j then Some (RStop L) else None)"
| "retrans_loop S oe os key max_segs reo (a # as) j L =
     (if length (tcp_rtx_queue (rq_sk L)) \<le> j then Some (RStop L)
      else case retrans_round S oe os key max_segs reo a j L of
          RBug \<Rightarrow> Some RBug
        | RStop L' \<Rightarrow> Some (RStop L')
        | RNext L' \<Rightarrow> retrans_loop S oe os key max_segs reo as (Suc j) L')"

text \<open>The position of the segment a pointer leads to.\<close>

definition hint_pos :: "tcp_sock \<Rightarrow> nat" where
  "hint_pos tp = (case retransmit_skb_hint tp of
     None \<Rightarrow> 0 | Some h \<Rightarrow> length (takeWhile (\<lambda>s. skb_seq s \<noteq> h) (tcp_rtx_queue tp)))"

definition tcp_xmit_retransmit_queue ::
  "snd_env \<Rightarrow> opt_env \<Rightarrow> opt_sock \<Rightarrow> tcp_key \<Rightarrow> bool \<Rightarrow> rq_ans list \<Rightarrow> tcp_sock \<Rightarrow> rq_result option" where
  "tcp_xmit_retransmit_queue S oe os key reo as tp =
     (if packets_out tp = 0 then Some (RStop \<lparr>rq_sk = tp, rq_hole = False, rq_rearm = False, rq_sent = []\<rparr>)
      else
        let j = hint_pos tp;
            (mss, tp) = tcp_current_mss S oe os key tp
        in case retrans_loop S oe os key (tcp_tso_segs S mss) reo as j \<lparr>rq_sk = tp, rq_hole = False, rq_rearm = False, rq_sent = []\<rparr> of
             Some (RStop L) \<Rightarrow>
               Some (RStop (if rq_rearm L then L\<lparr>rq_sk := log_call (Retrans_timer (icsk_rto (rq_sk L))) (rq_sk L)\<rparr> else L))
           | r \<Rightarrow> r)"

end
