(* ===== verification/Retrans_Safety.thy ===== *)
theory Retrans_Safety
  imports Tcp_Retrans Send_Safety
begin

text \<open>
  What a retransmission guarantees: the queues stay contiguous and counted, no byte that the peer has not
  acknowledged is lost or changed, and what goes out lies within the peer's window, or is one segment
  that probes a closed window.
\<close>

section \<open>The invariant of the retransmission queue\<close>

text \<open>Only the last segment has a FIN, none has a SYN, each counts at least one packet, and none is marked
  both as received and as lost.\<close>

definition has :: "u8 \<Rightarrow> sk_buff \<Rightarrow> bool" where
  "has b s \<longleftrightarrow> skb_sacked s AND b \<noteq> 0"

definition rtx_ok :: "sk_buff list \<Rightarrow> bool" where
  "rtx_ok ss \<longleftrightarrow> (\<forall>s \<in> set ss. skb_flags s AND TCPHDR_SYN = 0 \<and> skb_pcount s \<noteq> 0 \<and>
       \<not> (has TCPCB_SACKED_ACKED s \<and> has TCPCB_LOST s)) \<and>
     (\<forall>s \<in> set (butlast ss). skb_flags s AND TCPHDR_FIN = 0)"

text \<open>The first unacknowledged byte is in the head of the queue; a head that is partly acknowledged is a
  single packet, since whole packets of a larger one are removed when they are acknowledged.\<close>

definition acked_ok :: "u32 \<Rightarrow> sk_buff list \<Rightarrow> bool" where
  "acked_ok una ss \<longleftrightarrow> (case ss of [] \<Rightarrow> True | h # _ \<Rightarrow>
     unat (una - skb_seq h) \<le> length (skb_data h) \<and> (una \<noteq> skb_seq h \<longrightarrow> skb_pcount h = 1))"

text \<open>The packets of the segments with a mark, and the counters of a connection with SACK: they are exact.\<close>

definition tally :: "u8 \<Rightarrow> sk_buff list \<Rightarrow> u32" where
  "tally b ss = of_nat (sum_list (map (\<lambda>s. if has b s then unat (skb_pcount s) else 0) ss))"

lemma tally_simps [simp]: "tally b [] = 0" "tally b (s # ss) = (if has b s then ucast (skb_pcount s) else 0) + tally b ss"
  "tally b (xs @ ys) = tally b xs + tally b ys"
  by (simp_all add: tally_def)

definition scored :: "tcp_sock \<Rightarrow> bool" where
  "scored tp \<longleftrightarrow> (sack_ok tp \<longrightarrow> sacked_out tp = tally TCPCB_SACKED_ACKED (tcp_rtx_queue tp) \<and>
     retrans_out tp = tally TCPCB_SACKED_RETRANS (tcp_rtx_queue tp) \<and> lost_out tp = tally TCPCB_LOST (tcp_rtx_queue tp))"

definition rtx_inv :: "tcp_sock \<Rightarrow> bool" where
  "rtx_inv tp \<longleftrightarrow> seg_inv tp \<and> rtx_ok (tcp_rtx_queue tp) \<and> acked_ok (snd_una tp) (tcp_rtx_queue tp) \<and> scored tp \<and>
     unat (snd_wnd tp) < 2 ^ 31"

text \<open>The bytes in flight that the peer has not acknowledged.\<close>

definition unacked :: "tcp_sock \<Rightarrow> u8 list" where
  "unacked tp = (case tcp_rtx_queue tp of [] \<Rightarrow> [] | h # _ \<Rightarrow>
     drop (unat (snd_una tp - skb_seq h)) (concat (map skb_data (tcp_rtx_queue tp))))"

text \<open>The contract of \<open>tcp_skb_shift\<close>: if it succeeds, the data of the second segment is appended to the
  first; nothing else but sizes changes.\<close>

definition shifts :: "rtx_env \<Rightarrow> bool" where
  "shifts E \<longleftrightarrow> (\<forall>a b a' b'. re_shift E a b = Some (a', b') \<longrightarrow> (\<exists>fs t gs u.
     a' = a\<lparr>skb_frags := fs, skb_truesize := t\<rparr> \<and> b' = b\<lparr>skb_frags := gs, skb_truesize := u\<rparr> \<and>
     concat fs = skb_data a @ skb_data b))"

text \<open>What no step of a retransmission changes.\<close>

definition same_side :: "tcp_sock \<Rightarrow> tcp_sock \<Rightarrow> bool" where
  "same_side tp tp' \<longleftrightarrow> sk_write_queue tp' = sk_write_queue tp \<and> snd_nxt tp' = snd_nxt tp \<and> snd_una tp' = snd_una tp \<and>
     snd_wnd tp' = snd_wnd tp \<and> snd_cwnd tp' = snd_cwnd tp \<and> sack_ok tp' = sack_ok tp"

lemma same_side_refl [simp]: "same_side tp tp"
  by (simp add: same_side_def)

lemma same_side_trans: "same_side a b \<Longrightarrow> same_side b c \<Longrightarrow> same_side a c"
  by (simp add: same_side_def)

lemma adjust_pcount_side: "same_side tp (tcp_adjust_pcount tp s d)"
  by (auto simp: same_side_def tcp_adjust_pcount_def Let_def split: option.splits)

definition same_counts :: "tcp_sock \<Rightarrow> tcp_sock \<Rightarrow> bool" where
  "same_counts tp tp' \<longleftrightarrow> packets_out tp' = packets_out tp \<and> sacked_out tp' = sacked_out tp \<and>
     retrans_out tp' = retrans_out tp \<and> lost_out tp' = lost_out tp"

lemma rtx_frame:
  assumes "same_side tp tp'" and "tcp_rtx_queue tp' = tcp_rtx_queue tp" and "same_counts tp tp'"
  shows "rtx_inv tp' \<longleftrightarrow> rtx_inv tp" and "unacked tp' = unacked tp"
  using assms
  by (simp_all add: same_side_def same_counts_def rtx_inv_def scored_def seg_inv_def unacked_def split: list.split)

text \<open>A step replaces the segment at position \<open>i\<close>, and perhaps its neighbour, by others of the same
  bytes and sequence numbers, and the counters follow.\<close>

definition rescored :: "tcp_sock \<Rightarrow> tcp_sock \<Rightarrow> sk_buff list \<Rightarrow> sk_buff list \<Rightarrow> bool" where
  "rescored tp tp' old new \<longleftrightarrow> packets_out tp' = packets_out tp - packets old + packets new \<and>
     (sack_ok tp \<longrightarrow> sacked_out tp' = sacked_out tp - tally TCPCB_SACKED_ACKED old + tally TCPCB_SACKED_ACKED new \<and>
        retrans_out tp' = retrans_out tp - tally TCPCB_SACKED_RETRANS old + tally TCPCB_SACKED_RETRANS new \<and>
        lost_out tp' = lost_out tp - tally TCPCB_LOST old + tally TCPCB_LOST new)"

lemma rescored_counts:
  "same_counts tp tp' \<Longrightarrow> map skb_sacked new = map skb_sacked old \<Longrightarrow> map skb_pcount new = map skb_pcount old \<Longrightarrow>
   rescored tp tp' old new"
proof -
  assume c: "same_counts tp tp'" and m: "map skb_sacked new = map skb_sacked old" "map skb_pcount new = map skb_pcount old"
  have "list_all2 (\<lambda>x y. skb_sacked x = skb_sacked y \<and> skb_pcount x = skb_pcount y) new old"
    using m by (auto simp: list_all2_conv_all_nth list_eq_iff_nth_eq)
  then have "packets new = packets old \<and> tally b new = tally b old" for b
    by (induction rule: list_all2_induct) (auto simp: has_def)
  with c show ?thesis by (simp add: rescored_def same_counts_def)
qed

lemma adjust_score:
  fixes tp :: tcp_sock
  assumes "sack_ok tp"
  shows "sacked_out (tcp_adjust_pcount tp s d) = sacked_out tp - (if has TCPCB_SACKED_ACKED s then word_of_int d else 0)"
    "retrans_out (tcp_adjust_pcount tp s d) = retrans_out tp - (if has TCPCB_SACKED_RETRANS s then word_of_int d else 0)"
    "lost_out (tcp_adjust_pcount tp s d) = lost_out tp - (if has TCPCB_LOST s then word_of_int d else 0)"
  using assms by (auto simp: tcp_adjust_pcount_def has_def Let_def split: option.splits)

lemma rtx_inv_replace:
  assumes "rtx_inv tp" and "tcp_rtx_queue tp = xs @ old @ ys" and "tcp_rtx_queue tp' = xs @ new @ ys" and "same_side tp tp'"
    and chain: "\<And>c d. chain c old d \<Longrightarrow> chain c new d" and "sum_list (map span new) = sum_list (map span old)"
    and "rescored tp tp' old new"
    and "rtx_ok (xs @ new @ ys)" and "xs = [] \<Longrightarrow> acked_ok (snd_una tp) (new @ ys)"
  shows "rtx_inv tp'"
proof -
  have "chain c (xs @ new @ ys) d" if "chain c (xs @ old @ ys) d" for c d
    using that chain by (auto simp: chain_append)
  moreover have "acked_ok (snd_una tp) (xs @ new @ ys)"
    using assms(1,2,9) by (cases xs) (auto simp: rtx_inv_def acked_ok_def)
  moreover have "scored tp'"
    using assms(1-4,7) by (auto simp: rtx_inv_def scored_def rescored_def same_side_def)
  ultimately show ?thesis
    using assms(1-4,6-8) by (auto simp: rtx_inv_def seg_inv_def same_side_def rescored_def)
qed

lemma unacked_eq:
  "tcp_rtx_queue tp \<noteq> [] \<Longrightarrow> unacked tp =
     drop (unat (snd_una tp - skb_seq (hd (tcp_rtx_queue tp)))) (concat (map skb_data (tcp_rtx_queue tp)))"
  by (cases "tcp_rtx_queue tp") (simp_all add: unacked_def)

lemma unacked_replace:
  assumes "tcp_rtx_queue tp = xs @ old @ ys" and "tcp_rtx_queue tp' = xs @ new @ ys" and "same_side tp tp'"
    and "concat (map skb_data new) = concat (map skb_data old)" and "new \<noteq> []" and "old \<noteq> []"
    and "skb_seq (hd new) = skb_seq (hd old)"
  shows "unacked tp' = unacked tp"
proof -
  let ?q = "tcp_rtx_queue tp" and ?q' = "tcp_rtx_queue tp'"
  have "?q \<noteq> []" "?q' \<noteq> []" "skb_seq (hd ?q') = skb_seq (hd ?q)"
    using assms by (auto simp: hd_append)
  moreover have "concat (map skb_data ?q') = concat (map skb_data ?q)"
    using assms(1,2,4) by (metis concat_append map_append)
  ultimately show ?thesis using assms(3) by (simp add: unacked_eq same_side_def)
qed

section \<open>Marks and packets in flight\<close>

definition same_marks :: "sk_buff \<Rightarrow> sk_buff \<Rightarrow> bool" where
  "same_marks s s' \<longleftrightarrow> has TCPCB_SACKED_ACKED s' = has TCPCB_SACKED_ACKED s \<and>
     has TCPCB_SACKED_RETRANS s' = has TCPCB_SACKED_RETRANS s \<and> has TCPCB_LOST s' = has TCPCB_LOST s"

lemma same_marks_trans: "same_marks a b \<Longrightarrow> same_marks b c \<Longrightarrow> same_marks a c"
  by (simp add: same_marks_def)

lemma same_marks_eq: "skb_sacked s' = skb_sacked s \<Longrightarrow> same_marks s s'"
  by (simp add: same_marks_def has_def)

lemma ever_marks: "skb_sacked s' = skb_sacked s OR (y AND TCPCB_EVER_RETRANS) \<Longrightarrow> same_marks s s'"
  by (simp add: same_marks_def has_def TCPCB_EVER_RETRANS_def TCPCB_SACKED_ACKED_def TCPCB_SACKED_RETRANS_def TCPCB_LOST_def
      bit.conj_disj_distrib2 and.assoc)

text \<open>How often the packets of a segment are in the network: not if received or lost, once more if sent again.\<close>

definition contrib :: "sk_buff \<Rightarrow> int" where
  "contrib s = 1 - of_bool (has TCPCB_SACKED_ACKED s) - of_bool (has TCPCB_LOST s) + of_bool (has TCPCB_SACKED_RETRANS s)"

definition flight :: "sk_buff list \<Rightarrow> int" where
  "flight ss = sum_list (map (\<lambda>s. int (unat (skb_pcount s)) * contrib s) ss)"

lemma flight_simps [simp]: "flight [] = 0" "flight (s # ss) = int (unat (skb_pcount s)) * contrib s + flight ss"
  "flight (xs @ ys) = flight xs + flight ys"
  by (simp_all add: flight_def)

lemma contrib_marks: "same_marks s s' \<Longrightarrow> contrib s' = contrib s"
  by (simp add: same_marks_def contrib_def)

lemma contrib_nonneg: "rtx_ok ss \<Longrightarrow> s \<in> set ss \<Longrightarrow> 0 \<le> contrib s"
  by (auto simp: rtx_ok_def contrib_def)

lemma flight_nonneg: "\<forall>s \<in> set ss. 0 \<le> contrib s \<Longrightarrow> 0 \<le> flight ss"
  by (induction ss) simp_all

lemma in_flight_eq:
  assumes "rtx_inv tp" and "sack_ok tp"
  shows "tcp_packets_in_flight tp = word_of_int (flight (tcp_rtx_queue tp))"
proof -
  have "packets ss - (tally TCPCB_SACKED_ACKED ss + tally TCPCB_LOST ss) + tally TCPCB_SACKED_RETRANS ss = word_of_int (flight ss)" for ss
    by (induction ss) (auto simp: contrib_def algebra_simps)
  with assms show ?thesis by (simp add: rtx_inv_def scored_def seg_inv_def tcp_packets_in_flight_def)
qed

section \<open>Merging\<close>

lemma collapse_retrans_done:
  assumes "shifts E" and "tcp_rtx_queue tp = xs @ s # n # ys" and "length (skb_data n) < 2 ^ 31"
    and "tcp_collapse_retrans E (length xs) tp = Yes tp'"
  obtains m where "tcp_rtx_queue tp' = xs @ m # ys" "skb_data m = skb_data s @ skb_data n" "skb_seq m = skb_seq s"
    "skb_end_seq m = skb_end_seq n" "skb_flags m = skb_flags s OR skb_flags n" "skb_pcount m = 1" "same_side tp tp'"
    "rescored tp tp' [s, n] [m]" "same_marks s m"
proof -
  have nth: "(xs @ s # n # ys) ! Suc (length xs) = n" by (simp add: nth_append)
  define sh where "sh = (if skb_len n \<noteq> 0 then re_shift E s n else Some (s, n))"
  have one: "skb_pcount s = 1" "skb_pcount n = 1"
    using assms(2,4) nth by (auto simp: tcp_collapse_retrans_def Let_def split: if_splits)
  obtain s' n' where sn: "sh = Some (s', n')"
    using assms(2,4) nth by (auto simp: tcp_collapse_retrans_def Let_def sh_def split: if_splits option.splits)
  have "\<exists>fs t gs u. s' = s\<lparr>skb_frags := fs, skb_truesize := t\<rparr> \<and> n' = n\<lparr>skb_frags := gs, skb_truesize := u\<rparr> \<and>
    concat fs = skb_data s @ skb_data n"
  proof (cases "skb_len n = 0")
    case True
    with unat_skb_len [OF assms(3)] have "skb_data n = []" by (metis length_0_conv unat_0)
    with True sn show ?thesis
      by (intro exI [of _ "skb_frags s"] exI [of _ "skb_truesize s"] exI [of _ "skb_frags n"] exI [of _ "skb_truesize n"])
        (auto simp: sh_def)
  next
    case False
    with sn have "re_shift E s n = Some (s', n')" by (simp add: sh_def)
    with assms(1) show ?thesis unfolding shifts_def by blast
  qed
  then obtain fs t gs u where f: "s' = s\<lparr>skb_frags := fs, skb_truesize := t\<rparr>" "n' = n\<lparr>skb_frags := gs, skb_truesize := u\<rparr>"
    "concat fs = skb_data s @ skb_data n" by blast
  define m where "m = tcp_skb_collapse_tstamp (re_seg E) (s'\<lparr>skb_end_seq := skb_end_seq n', skb_flags := skb_flags s' OR skb_flags n',
    skb_sacked := skb_sacked s' OR (skb_sacked n' AND TCPCB_EVER_RETRANS), skb_eor := skb_eor n'\<rparr>) n'"
  have marks: "same_marks s m"
    using f(1) by (intro ever_marks [where y = "skb_sacked n'"]) (simp add: m_def tcp_skb_collapse_tstamp_def)
  have pm: "skb_pcount m = 1" using f one by (simp add: m_def tcp_skb_collapse_tstamp_def)
  define t0 where "t0 = (let tp = (if highest_sack tp = Some (skb_seq n) then tp\<lparr>highest_sack := Some (skb_seq s)\<rparr> else tp);
    tp = tp\<lparr>lost_skb_hint := None\<rparr>
    in if retransmit_skb_hint tp = Some (skb_seq n) then tp\<lparr>retransmit_skb_hint := Some (skb_seq s)\<rparr> else tp)"
  have t0: "same_side tp t0" "same_counts tp t0" "tcp_rtx_queue t0 = tcp_rtx_queue tp"
    by (simp_all add: t0_def same_side_def same_counts_def Let_def)
  define t1 where "t1 = tcp_adjust_pcount t0 n' 1"
  have n': "has b n' = has b n" for b using f(2) by (simp add: has_def)
  have c1: "rescored tp t1 [s, n] [m]"
    using adjust_score [of t0 n' 1] t0 marks pm one n'
    by (auto simp: rescored_def t1_def same_counts_def same_side_def same_marks_def adjust_pcount_frame)
  have "tp' = (let t = t1\<lparr>tcp_rtx_queue := xs @ m # ys, sk_wmem_queued := sk_wmem_queued t1 - skb_truesize n'\<rparr>
      in if re_zcopy_pure E n' then t else t\<lparr>sk_forward_alloc := sk_forward_alloc t + skb_truesize n'\<rparr>)"
    using assms(2,4) nth one sn f(1,2)
    by (auto simp: tcp_collapse_retrans_def Let_def sh_def m_def t1_def t0_def adjust_pcount_frame split: if_splits)
  then have side: "tcp_rtx_queue tp' = xs @ m # ys" "same_side t1 tp'" "rescored tp tp' [s, n] [m]"
    using c1 by (simp_all add: same_side_def rescored_def Let_def)
  moreover have "same_side tp tp'"
    using same_side_trans [OF same_side_trans [OF t0(1) adjust_pcount_side] side(2) [unfolded t1_def]] .
  moreover note marks
  moreover have "skb_data m = skb_data s @ skb_data n" "skb_seq m = skb_seq s"
    "skb_end_seq m = skb_end_seq n" "skb_flags m = skb_flags s OR skb_flags n" "skb_pcount m = 1"
    using f one by (simp_all add: m_def tcp_skb_collapse_tstamp_def)
  ultimately show thesis by (intro that)
qed

lemma fin_or: "(a OR b) AND TCPHDR_FIN \<noteq> 0 \<longleftrightarrow> a AND TCPHDR_FIN \<noteq> 0 \<or> b AND TCPHDR_FIN \<noteq> 0"
  by (simp add: bit.conj_disj_distrib2 or_eq_0_iff)

lemma collapse_retrans_inv:
  assumes "shifts E" and "rtx_inv tp" and q: "tcp_rtx_queue tp = xs @ s # n # ys"
    and "skb_pcount s = 1" and "skb_pcount n = 1" and "tcp_collapse_retrans E (length xs) tp = Yes tp'"
  obtains m where "tcp_rtx_queue tp' = xs @ m # ys" "skb_data m = skb_data s @ skb_data n" "skb_seq m = skb_seq s"
    "skb_pcount m = 1" "same_side tp tp'" "rtx_inv tp'" "unacked tp' = unacked tp" "same_marks s m"
    "flight (m # ys) \<le> flight (s # n # ys)"
proof -
  have small: "length (skb_data n) < 2 ^ 31" and ok: "rtx_ok (xs @ s # n # ys)" and ack: "acked_ok (snd_una tp) (xs @ s # n # ys)"
    using assms(2) q by (auto simp: rtx_inv_def seg_inv_def span_def)
  obtain m where m: "tcp_rtx_queue tp' = xs @ m # ys" "skb_data m = skb_data s @ skb_data n" "skb_seq m = skb_seq s"
    "skb_end_seq m = skb_end_seq n" "skb_flags m = skb_flags s OR skb_flags n" "skb_pcount m = 1" "same_side tp tp'"
    "rescored tp tp' [s, n] [m]" "same_marks s m"
    using collapse_retrans_done [OF assms(1) q small assms(6)] .
  have fin: "skb_flags s AND TCPHDR_FIN = 0" using ok by (simp add: rtx_ok_def butlast_append)
  have sp: "span m = span s + span n" using m fin by (simp add: span_def fin_or)
  have ok': "rtx_ok (xs @ [m] @ ys)"
    using ok m fin by (auto simp: rtx_ok_def butlast_append bit.conj_disj_distrib2 same_marks_def split: if_splits)
  have ack': "acked_ok (snd_una tp) ([m] @ ys)" if "xs = []" using ack that m by (auto simp: acked_ok_def)
  have ch: "chain c [m] d" if "chain c [s, n] d" for c d using that m sp by (auto simp: add.assoc)
  have inv: "rtx_inv tp'"
    by (rule rtx_inv_replace [where old = "[s, n]" and new = "[m]", OF assms(2) _ _ m(7) ch _ m(8) ok' ack'])
      (use q m sp in simp_all)
  have "unacked tp' = unacked tp"
    by (rule unacked_replace [where old = "[s, n]" and new = "[m]"]) (use q m in simp_all)
  moreover have "flight (m # ys) \<le> flight (s # n # ys)"
    using contrib_nonneg [OF ok, of n] contrib_marks [OF m(9)] m(6) assms(4,5) by simp
  ultimately show thesis using m inv by (intro that)
qed

text \<open>The merged segment grows by at most the space that is given.\<close>

lemma collapse_loop_inv:
  assumes "shifts E" and "rtx_inv tp" and "tcp_rtx_queue tp = xs @ s # ys" and "skb_pcount s = 1" and "0 \<le> space"
  obtains tp' m ys' where "collapse_loop E (length xs) space tp = Some tp'" "tcp_rtx_queue tp' = xs @ m # ys'"
    "skb_seq m = skb_seq s" "int (length (skb_data m)) \<le> int (length (skb_data s)) + space" "same_side tp tp'"
    "rtx_inv tp'" "unacked tp' = unacked tp" "skb_pcount m = 1" "same_marks s m" "weight ys' \<le> weight ys"
    "flight (m # ys') \<le> flight (s # ys)" "set ys' \<subseteq> set ys"
  using assms
proof (induction E "length xs" space tp arbitrary: s ys thesis rule: collapse_loop.induct)
  case (1 E space tp)
  note thesis = "1.prems"(1)
  have stop: thesis if "collapse_loop E (length xs) space tp = Some tp"
    using that "1.prems" by (intro thesis [of tp s ys]) (simp_all add: same_marks_eq)
  show ?case
  proof (cases "Suc (length xs) < length (tcp_rtx_queue tp)")
    case False
    then show ?thesis by (intro stop) (subst collapse_loop.simps, simp)
  next
    case True
    then obtain n zs where ys: "ys = n # zs" using "1.prems"(4) by (cases ys) auto
    have q: "tcp_rtx_queue tp = xs @ s # n # zs" using "1.prems"(4) ys by simp
    have nth: "tcp_rtx_queue tp ! length xs = s" "tcp_rtx_queue tp ! Suc (length xs) = n" using q by (simp_all add: nth_append)
    have small: "length (skb_data n) < 2 ^ 31" and pc: "skb_pcount n \<noteq> 0"
      using "1.prems"(3) q by (auto simp: rtx_inv_def seg_inv_def span_def rtx_ok_def)
    let ?space = "space - int (unat (skb_len n))"
    show ?thesis
    proof (cases "tcp_can_collapse E n \<and> re_can_collapse E s n \<and> \<not> ?space < 0 \<and> \<not> seq_after (skb_end_seq n) (tcp_wnd_end tp)")
      case False
      then show ?thesis by (intro stop) (subst collapse_loop.simps, use True nth in \<open>auto simp: Let_def\<close>)
    next
      case go: True
      then have "\<not> 1 < skb_pcount n" by (simp add: tcp_can_collapse_def)
      with pc have one: "skb_pcount n = 1" by (metis word_le_less_eq word_less_1 not_less)
      show ?thesis
      proof (cases "tcp_collapse_retrans E (length xs) tp")
        case Bug_on
        then have False using nth one "1.prems"(5) by (auto simp: tcp_collapse_retrans_def Let_def split: option.splits if_splits)
        then show ?thesis ..
      next
        case No
        with go show ?thesis by (intro stop) (subst collapse_loop.simps, use True nth in \<open>auto simp: Let_def\<close>)
      next
        case (Yes t)
        obtain m where m: "tcp_rtx_queue t = xs @ m # zs" "skb_data m = skb_data s @ skb_data n" "skb_seq m = skb_seq s"
          "skb_pcount m = 1" "same_side tp t" "rtx_inv t" "unacked t = unacked tp" "same_marks s m"
          "flight (m # zs) \<le> flight (s # n # zs)"
          using collapse_retrans_inv [OF "1.prems"(2,3) q "1.prems"(5) one Yes] .
        have run: "collapse_loop E (length xs) space tp = collapse_loop E (length xs) ?space t"
          using True go Yes nth by (subst collapse_loop.simps) (simp add: Let_def)
        from go have "0 \<le> ?space" by simp
        from "1.hyps" [OF True nth(1) [symmetric] nth(2) [symmetric] _ _ refl _ _ Yes _ "1.prems"(2) m(6,1,4) this] go obtain tp' m' ys' where
          r: "collapse_loop E (length xs) ?space t = Some tp'" "tcp_rtx_queue tp' = xs @ m' # ys'"
          "skb_seq m' = skb_seq m" "int (length (skb_data m')) \<le> int (length (skb_data m)) + ?space" "same_side t tp'"
          "rtx_inv tp'" "unacked tp' = unacked t" "skb_pcount m' = 1" "same_marks m m'" "weight ys' \<le> weight zs"
          "flight (m' # ys') \<le> flight (m # zs)" "set ys' \<subseteq> set zs" by (metis (no_types))
        have fl: "flight (m' # ys') \<le> flight (s # ys)" unfolding ys using r(11) m(9) by (rule order_trans)
        show ?thesis
          by (rule thesis [of tp' m' ys', OF _ _ _ _ _ _ _ _ _ _ fl subset_trans [OF r(12)]])
            (use r m run ys unat_skb_len [OF small] same_side_trans [OF m(5) r(5)] same_marks_trans [OF m(8) r(9)] in auto)
      qed
    qed
  qed
qed

section \<open>Cutting acknowledged data off\<close>

text \<open>A segment of the queue is partly acknowledged, and then the head, or starts at or after the first
  unacknowledged byte.\<close>

lemma segment_position:
  assumes "rtx_inv tp" and q: "tcp_rtx_queue tp = xs @ s # ys"
  obtains (head) k where "xs = []" "snd_una tp = skb_seq s + of_nat k" "0 < k" "k \<le> length (skb_data s)" "skb_pcount s = 1"
    | (later) d where "skb_seq s = snd_una tp + of_nat d" "d + span s < 2 ^ 31" "xs = [] \<longrightarrow> d = 0"
proof -
  obtain a where ch: "chain a (xs @ s # ys) (snd_nxt tp)" and small: "sum_list (map span (xs @ s # ys)) < 2 ^ 31"
    using assms by (auto simp: rtx_inv_def seg_inv_def)
  define h where "h = hd (xs @ s # ys)"
  define k where "k = unat (snd_una tp - skb_seq h)"
  have k: "snd_una tp = skb_seq h + of_nat k" "k \<le> length (skb_data h)" "k \<noteq> 0 \<longrightarrow> skb_pcount h = 1"
    using assms(1) q by (cases xs; force simp: rtx_inv_def acked_ok_def h_def k_def)+
  have "a = skb_seq h" using ch by (cases xs) (auto simp: h_def)
  then have "chain (skb_seq h) xs (skb_seq s)" using ch by (auto simp: chain_append)
  then have seq: "skb_seq s = skb_seq h + of_nat (sum_list (map span xs))" by (rule chain_end)
  show thesis
  proof (cases "xs = [] \<and> k \<noteq> 0")
    case True
    with k show thesis by (intro head [of k]) (auto simp: h_def)
  next
    case False
    have le: "k \<le> sum_list (map span xs)"
    proof (cases xs)
      case Nil
      with False show ?thesis by simp
    next
      case (Cons x xs')
      with k(2) show ?thesis by (simp add: h_def span_def)
    qed
    have "(of_nat (sum_list (map span xs)) :: u32) = of_nat k + of_nat (sum_list (map span xs) - k)"
      using le by (metis of_nat_add le_add_diff_inverse)
    with seq k(1) have "skb_seq s = snd_una tp + of_nat (sum_list (map span xs) - k)" by (simp add: add.assoc)
    with small show thesis by (intro later) auto
  qed
qed

lemma retrans_trim_later:
  assumes "skb_seq s = snd_una tp + of_nat d" and "d < 2 ^ 31" and "tcp_rtx_queue tp ! i = s"
  shows "retrans_trim E i tp = (0, tp)"
  using seq_before_add(2) [OF assms(2), of "snd_una tp"] assms(1,3) by (simp add: retrans_trim_def)

lemma retrans_trim_head:
  assumes q: "tcp_rtx_queue tp = s # ys" and una: "snd_una tp = skb_seq s + of_nat k" "0 < k" "k \<le> length (skb_data s)"
    and small: "span s < 2 ^ 31" and e: "skb_end_seq s = skb_seq s + of_nat (span s)" and f: "skb_flags s AND TCPHDR_SYN = 0"
  shows "retrans_trim E 0 tp = (let (err, tp) = tcp_trim_head (re_seg E) (re_zcopy_pure E s) 0 (of_nat k) tp
    in if err \<noteq> 0 then (- ENOMEM, tp) else (0, follow_hints (skb_seq s) (snd_una tp) tp))"
proof -
  have k: "k \<le> span s" "k < 2 ^ 31" using una(3) small by (simp_all add: span_def)
  then have "(of_nat (span s) :: u32) = of_nat k + of_nat (span s - k)" by (metis of_nat_add le_add_diff_inverse)
  then have "skb_end_seq s = snd_una tp + of_nat (span s - k)" using e una(1) by (simp add: add.assoc)
  then have "\<not> seq_before (skb_end_seq s) (snd_una tp)" using seq_before_add(2) [of "span s - k" "snd_una tp"] small by simp
  moreover have "seq_before (skb_seq s) (snd_una tp)" using seq_before_add(1) [OF k(2), of "skb_seq s"] una by simp
  moreover have "snd_una tp - skb_seq s = of_nat k" using una(1) by simp
  ultimately show ?thesis using q f by (simp add: retrans_trim_def)
qed

lemma retrans_trim_inv:
  assumes inv: "rtx_inv tp" and q: "tcp_rtx_queue tp = xs @ s # ys" and run: "retrans_trim E (length xs) tp = (err, tp')"
  obtains s' a b l h r where "tp' = tp\<lparr>tcp_rtx_queue := xs @ s' # ys, sk_wmem_queued := a, sk_forward_alloc := b,
      lost_skb_hint := l, highest_sack := h, retransmit_skb_hint := r\<rparr>"
    "rtx_inv tp'" "unacked tp' = unacked tp" "err = 0 \<or> err = - ENOMEM" "length (skb_data s') \<le> length (skb_data s)"
    "same_marks s s'" "skb_pcount s' = skb_pcount s" "span s' \<le> span s"
    "err = 0 \<Longrightarrow> \<exists>d. skb_seq s' = snd_una tp + of_nat d \<and> d + span s' < 2 ^ 31 \<and> (xs = [] \<longrightarrow> d = 0)"
proof -
  have same: "tp = tp\<lparr>tcp_rtx_queue := xs @ s # ys, sk_wmem_queued := sk_wmem_queued tp, sk_forward_alloc := sk_forward_alloc tp,
      lost_skb_hint := lost_skb_hint tp, highest_sack := highest_sack tp, retransmit_skb_hint := retransmit_skb_hint tp\<rparr>"
    using q [symmetric] by simp
  show thesis
  proof (rule segment_position [OF inv q])
    fix d assume d: "skb_seq s = snd_una tp + of_nat d" "d + span s < 2 ^ 31" "xs = [] \<longrightarrow> d = 0"
    then have "d < 2 ^ 31" by simp
    with run d q have r: "err = 0" "tp' = tp" by (simp_all add: retrans_trim_later [where s = s])
    show thesis by (rule that [OF trans [OF r(2) same]]) (use r inv d in \<open>auto simp: same_marks_eq\<close>)
  next
    fix k assume k: "xs = []" "snd_una tp = skb_seq s + of_nat k" "0 < k" "k \<le> length (skb_data s)" "skb_pcount s = 1"
    have q0: "tcp_rtx_queue tp = s # ys" using q k(1) by simp
    have seg: "seg_inv tp" "rtx_ok (s # ys)" using inv q0 by (auto simp: rtx_inv_def)
    obtain a where ch: "chain a (s # ys) (snd_nxt tp)" using seg q0 by (auto simp: seg_inv_def)
    have small: "span s + sum_list (map span ys) + sum_list (map span (sk_write_queue tp)) < 2 ^ 31"
      using seg q0 by (simp add: seg_inv_def)
    have uk: "unat (of_nat k :: u32) = k"
      using k(4) small by (simp add: span_def unsigned_of_nat take_bit_nat_eq_self)
    obtain e t where r: "tcp_trim_head (re_seg E) (re_zcopy_pure E s) 0 (of_nat k) tp = (e, t)" by fastforce
    have "retrans_trim E 0 tp = (if e \<noteq> 0 then (- ENOMEM, t) else (0, follow_hints (skb_seq s) (snd_una t) t))"
      using retrans_trim_head [OF q0 k(2-4), of E] small ch seg(2) r by (auto simp: rtx_ok_def)
    with run k(1) have res: "err = (if e \<noteq> 0 then - ENOMEM else 0)"
      "tp' = (if e \<noteq> 0 then t else follow_hints (skb_seq s) (snd_una t) t)" by (auto split: if_splits)
    show thesis
    proof (cases "e = 0")
      case False
      with r res have e: "tp' = tp" by (auto simp: tcp_trim_head_def Let_def split: if_splits)
      show thesis by (rule that [OF trans [OF e same]]) (use e False res inv in \<open>auto simp: ENOMEM_def same_marks_eq\<close>)
    next
      case True
      with r obtain s' where s': "tcp_rtx_queue t = s' # ys" "skb_data s' = drop k (skb_data s)" "skb_seq s' = snd_una tp"
        "skb_end_seq s' = skb_end_seq s" "skb_flags s' = skb_flags s" "skb_pcount s' = 1" "skb_sacked s' = skb_sacked s"
        using trim_head_done [OF _ q0, of "re_seg E" "re_zcopy_pure E s" "of_nat k" t] k(2,5) uk by auto
      have "t = tp\<lparr>tcp_rtx_queue := s' # ys, sk_wmem_queued := sk_wmem_queued t, sk_forward_alloc := sk_forward_alloc t,
          lost_skb_hint := lost_skb_hint t\<rparr>"
        using r s'(1) True q0 by (auto simp: tcp_trim_head_def Let_def split: if_splits)
      then obtain a b l where t: "t = tp\<lparr>tcp_rtx_queue := s' # ys, sk_wmem_queued := a, sk_forward_alloc := b, lost_skb_hint := l\<rparr>"
        by blast
      have form: "tp' = tp\<lparr>tcp_rtx_queue := xs @ s' # ys, sk_wmem_queued := a, sk_forward_alloc := b,
          lost_skb_hint := follow (skb_seq s) (snd_una tp) l, highest_sack := follow (skb_seq s) (snd_una tp) (highest_sack tp),
          retransmit_skb_hint := follow (skb_seq s) (snd_una tp) (retransmit_skb_hint tp)\<rparr>"
        using res(2) k(1) True by (simp add: t follow_hints_def)
      have sp: "span s = k + span s'" using s' k(4) by (simp add: span_def)
      have "skb_end_seq s = snd_una tp + of_nat (span s')" using ch k(2) sp by (simp add: add.assoc)
      then have "chain (snd_una tp) (s' # ys) (snd_nxt tp)" using ch s' by auto
      moreover have side: "same_side tp tp'" "same_counts tp tp'" and q': "tcp_rtx_queue tp' = s' # ys"
        using k(1) by (simp_all add: form same_side_def same_counts_def)
      ultimately have "rtx_inv tp'"
        using inv q0 s' sp k(5) small
        by (auto simp: rtx_inv_def seg_inv_def rtx_ok_def acked_ok_def same_side_def same_counts_def scored_def has_def)
      moreover have "unacked tp' = unacked tp"
        using side(1) q0 q' s'(2,3) k(2,4) uk by (simp add: unacked_def same_side_def)
      ultimately show thesis
        by (intro that [OF form]) (use res True s' k(5) sp small in \<open>auto simp: same_marks_eq intro: exI [of _ 0]\<close>)
    qed
  qed
qed

end
