(* ===== verification/Retrans_Send.thy ===== *)
theory Retrans_Send
  imports Retrans_Safety
begin

text \<open>
  The steps of one retransmission after the acknowledged data has been cut off, and the walk over the
  queue: every step keeps the invariant, and what goes out is within the peer's window and within the
  congestion window.
\<close>

section \<open>Fitting the segment\<close>

lemma not_fin_psh_syn: "f AND TCPHDR_SYN = 0 \<Longrightarrow> (f AND NOT (TCPHDR_FIN OR TCPHDR_PSH)) AND TCPHDR_SYN = 0"
  by (simp add: TCPHDR_FIN_def TCPHDR_PSH_def TCPHDR_SYN_def and.assoc)

lemma not_fin_psh_fin: "(f AND NOT (TCPHDR_FIN OR TCPHDR_PSH)) AND TCPHDR_FIN = 0"
  by (simp add: TCPHDR_FIN_def TCPHDR_PSH_def and.assoc)

lemma fragment_counts:
  assumes "splits_pages E" and "countable mss skb" and "0 < mss" and "mss < 2 ^ 16" and "fragment_skb E len mss new skb = (a, b)"
  shows "skb_pcount a \<noteq> 0" and "skb_pcount b \<noteq> 0" and "unat (skb_pcount a) = seg_count (length (skb_data a)) (unat mss)"
proof -
  obtain b0 where ab: "split_skb E len mss new skb = (a, b0)" "skb_pcount b = skb_pcount b0"
    using assms(5) by (auto simp: fragment_skb_def split: prod.splits)
  have "unat (skb_pcount a) \<noteq> 0" "unat (skb_pcount b0) \<noteq> 0"
    using split_counted [OF assms(1-4) ab(1)] seg_count_pos by (metis not_one_le_zero)+
  with ab(2) show "skb_pcount a \<noteq> 0" "skb_pcount b \<noteq> 0" by auto
  show "unat (skb_pcount a) = seg_count (length (skb_data a)) (unat mss)" using split_counted [OF assms(1-4) ab(1)] by blast
qed

lemma fragment_sacked:
  "fragment_skb E len mss new skb = (a, b) \<Longrightarrow> skb_sacked a = skb_sacked skb \<and> skb_sacked b = skb_sacked skb"
  by (auto simp: fragment_skb_def split_skb_def tcp_fragment_tstamp_def tcp_skb_fragment_eor_def Let_def split: prod.splits if_splits)

text \<open>The counters after a split of a segment that has been sent.\<close>

lemma fragment_score:
  fixes tp :: tcp_sock
  assumes run: "tcp_fragment E TCP_FRAG_IN_RTX_QUEUE i len mss tp = (0, tp')" and new: "se_alloc E = Some new"
    and ab: "fragment_skb E len mss new (tcp_rtx_queue tp ! i) = (a, b)" and sent: "\<not> seq_before (snd_nxt tp) (skb_end_seq b)"
  shows "same_side tp tp'" and "rescored tp tp' [tcp_rtx_queue tp ! i] [a, b]"
proof -
  let ?s = "tcp_rtx_queue tp ! i"
  define t0 where "t0 = tp\<lparr>sk_wmem_queued := sk_wmem_queued tp + skb_truesize new, sk_forward_alloc := sk_forward_alloc tp - skb_truesize new\<rparr>"
  define diff where "diff = int (unat (skb_pcount ?s)) - int (unat (skb_pcount a)) - int (unat (skb_pcount b))"
  define t1 where "t1 = (if diff \<noteq> 0 then tcp_adjust_pcount t0 a diff else t0)"
  have t0: "same_side tp t0" "same_counts tp t0" "snd_nxt t0 = snd_nxt tp" by (simp_all add: t0_def same_side_def same_counts_def)
  obtain Q where tp': "tp' = t1\<lparr>tcp_rtx_queue := Q\<rparr>"
    using run new ab sent
    by (auto simp: tcp_fragment_def queue_of_def set_queue_def t1_def t0_def diff_def ENOMEM_def EINVAL_def Let_def split: if_splits)
  have "same_side tp t1" using t0(1) same_side_trans [OF t0(1) adjust_pcount_side] by (simp add: t1_def)
  then show "same_side tp tp'" by (simp add: tp' same_side_def)
  have h: "has c a = has c ?s" "has c b = has c ?s" for c using fragment_sacked [OF ab] by (simp_all add: has_def)
  have d: "word_of_int diff = (ucast (skb_pcount ?s) - ucast (skb_pcount a) - ucast (skb_pcount b) :: u32)" by (simp add: diff_def)
  have "rescored tp t1 [?s] [a, b]"
  proof (cases "diff = 0")
    case True
    then have "(ucast (skb_pcount a) + ucast (skb_pcount b) :: u32) = ucast (skb_pcount ?s)"
      by (intro pcount_balance) (simp add: diff_def)
    with True t0 h show ?thesis by (auto simp: rescored_def t1_def same_counts_def)
  next
    case False
    have "sack_ok tp \<Longrightarrow> sack_ok t0" using t0(1) by (simp add: same_side_def)
    with False t0 h d adjust_score [of t0 a diff] show ?thesis
      by (auto simp: rescored_def t1_def same_counts_def adjust_pcount_frame)
  qed
  then show "rescored tp tp' [?s] [a, b]" by (simp add: tp' rescored_def)
qed

lemma retrans_fragment_inv:
  assumes "splits_pages SE" and inv: "rtx_inv tp" and q: "tcp_rtx_queue tp = xs @ s # ys" and "countable mss s"
    and m: "0 < mss" "mss < 2 ^ 16" and "len < skb_len s" and "xs = [] \<longrightarrow> skb_seq s = snd_una tp"
    and run: "tcp_fragment SE TCP_FRAG_IN_RTX_QUEUE (length xs) len mss tp = (0, tp')"
  obtains a b where "tcp_rtx_queue tp' = xs @ a # b # ys" "skb_seq a = skb_seq s" "length (skb_data a) \<le> unat len"
    "rtx_inv tp'" "unacked tp' = unacked tp" "same_side tp tp'" "same_marks s a" "same_marks s b" "span a + span b = span s"
    "span a = unat len" "unat (skb_pcount a) = seg_count (length (skb_data a)) (unat mss)"
    "length (skb_data b) \<le> length (skb_data s)"
proof -
  have qo: "queue_of TCP_FRAG_IN_RTX_QUEUE t = tcp_rtx_queue t" "queue_of TCP_FRAG_IN_WRITE_QUEUE t = sk_write_queue t"
    for t :: tcp_sock by (simp_all add: queue_of_def)
  have small: "length (skb_data s) < 2 ^ 31" using assms(4) by (simp add: countable_def)
  have len: "unat len \<le> length (skb_data s)" using assms(7) unat_skb_len [OF small] by (simp add: word_less_nat_alt)
  obtain new a b where ab: "fragment_skb SE len mss new s = (a, b)" and new: "se_alloc SE = Some new" and q': "tcp_rtx_queue tp' = xs @ [a, b] @ ys"
    using run
  proof (rule tcp_fragment_done)
    fix new a b
    let ?Q = "queue_of TCP_FRAG_IN_RTX_QUEUE tp"
    assume "fragment_skb SE len mss new (?Q ! length xs) = (a, b)" "se_alloc SE = Some new"
      "queue_of TCP_FRAG_IN_RTX_QUEUE tp' = take (length xs) ?Q @ [a, b] @ drop (Suc (length xs)) ?Q"
    then show thesis by (intro that [of new a b]) (simp_all add: qo q)
  qed
  note sp = frag_split.split_span [OF assms(1) ab len] and sq = frag_split.split_seq [OF ab] and fl = frag_split.split_flags [OF ab]
    and dt = frag_split.split_data [OF assms(1) ab] and ct = fragment_counts [OF assms(1,4) m ab]
  have mk: "same_marks s a" "same_marks s b" using fragment_sacked [OF ab] by (simp_all add: same_marks_eq)
  have ok: "rtx_ok (xs @ s # ys)" using inv q by (simp add: rtx_inv_def)
  have after: "\<not> seq_before (snd_nxt tp) (skb_end_seq b)"
    using inv q sq chain_before(1) [of _ xs s ys "snd_nxt tp"] by (auto simp: rtx_inv_def seg_inv_def)
  have nth: "tcp_rtx_queue tp ! length xs = s" using q by simp
  have same: "same_side tp tp'" and pk: "rescored tp tp' [s] [a, b]"
    using fragment_score [OF run new _ after] ab by (simp_all add: nth)
  have ok': "rtx_ok (xs @ [a, b] @ ys)"
    using ok fl ct mk not_fin_psh_syn [of "skb_flags s"] not_fin_psh_fin [of "skb_flags s"]
    by (auto simp: rtx_ok_def butlast_append same_marks_def split: if_splits)
  have ack: "acked_ok (snd_una tp) ([a, b] @ ys)" if "xs = []" using that assms(8) sq by (simp add: acked_ok_def)
  have ch: "chain c [a, b] d" if "chain c [s] d" for c d
    using frag_split.split_chain [OF assms(1) _ ab len, of c "[]" "[]" d] that by auto
  have inv': "rtx_inv tp'"
    by (rule rtx_inv_replace [where old = "[s]" and new = "[a, b]", OF inv _ _ same ch _ pk ok' ack]) (use q q' sp in simp_all)
  have un: "unacked tp' = unacked tp"
    by (rule unacked_replace [where old = "[s]" and new = "[a, b]"]) (use q q' same dt sq in simp_all)
  show thesis by (rule that [of a b, OF _ _ _ inv' un same mk]) (use q' sq dt sp ct in simp_all)
qed

lemma set_tso_inv:
  assumes inv: "rtx_inv tp" and q: "tcp_rtx_queue tp = xs @ s # ys" and "countable mss s" and m: "0 < mss" "mss < 2 ^ 16"
    and "xs = [] \<longrightarrow> skb_seq s = snd_una tp"
  defines "s' \<equiv> tcp_set_skb_tso_segs s mss"
  defines "diff \<equiv> int (unat (skb_pcount s)) - int (unat (skb_pcount s'))"
  defines "tp' \<equiv> (if diff \<noteq> 0 then tcp_adjust_pcount (set_rtx (length xs) s' tp) s' diff else set_rtx (length xs) s' tp)"
  shows "tcp_rtx_queue tp' = xs @ s' # ys" and "rtx_inv tp'" and "unacked tp' = unacked tp" and "same_side tp tp'"
    and "skb_pcount s' \<noteq> 0" and "same_marks s s'" and "unat (skb_pcount s') = seg_count (length (skb_data s)) (unat mss)"
proof -
  have f: "skb_frags s' = skb_frags s" "skb_seq s' = skb_seq s" "skb_end_seq s' = skb_end_seq s" "skb_flags s' = skb_flags s" "skb_sacked s' = skb_sacked s"
    by (simp_all add: s'_def)
  then show mk: "same_marks s s'" by (simp add: same_marks_eq)
  show "unat (skb_pcount s') = seg_count (length (skb_data s)) (unat mss)"
    unfolding s'_def by (rule tso_segs_count(1) [OF assms(3) m])
  then show ct: "skb_pcount s' \<noteq> 0" using seg_count_pos [of "length (skb_data s)" "unat mss"] by auto
  have q1: "tcp_rtx_queue (set_rtx (length xs) s' tp) = xs @ s' # ys" by (simp add: set_rtx_def q)
  have side1: "same_side tp (set_rtx (length xs) s' tp)" "same_counts tp (set_rtx (length xs) s' tp)"
    by (simp_all add: set_rtx_def same_side_def same_counts_def)
  show q': "tcp_rtx_queue tp' = xs @ s' # ys" using q1 by (simp add: tp'_def adjust_pcount_frame)
  show same: "same_side tp tp'" using side1 same_side_trans [OF side1(1) adjust_pcount_side] by (simp add: tp'_def)
  have d: "word_of_int diff = (ucast (skb_pcount s) - ucast (skb_pcount s') :: u32)" by (simp add: diff_def)
  have pk: "rescored tp tp' [s] [s']"
  proof (cases "diff = 0")
    case True
    then have "skb_pcount s' = skb_pcount s" by (simp add: diff_def word_uint_eq_iff)
    with True side1(2) f show ?thesis by (intro rescored_counts) (simp_all add: tp'_def)
  next
    case False
    have "sack_ok tp \<Longrightarrow> sack_ok (set_rtx (length xs) s' tp)" using side1(1) by (simp add: same_side_def)
    with False side1(2) mk d adjust_score [of "set_rtx (length xs) s' tp" s' diff] show ?thesis
      by (auto simp: rescored_def tp'_def same_counts_def same_marks_def adjust_pcount_frame)
  qed
  have ok: "rtx_ok (xs @ [s'] @ ys)" using inv q f ct mk
    by (auto simp: rtx_inv_def rtx_ok_def butlast_append same_marks_def split: if_splits)
  have ack: "acked_ok (snd_una tp) ([s'] @ ys)" if "xs = []" using that assms(6) f by (simp add: acked_ok_def)
  have sp: "span s' = span s" using f by (simp add: span_def)
  have ch: "chain c [s'] d" if "chain c [s] d" for c d using that f sp by auto
  show "rtx_inv tp'"
    by (rule rtx_inv_replace [where old = "[s]" and new = "[s']", OF inv _ _ same ch _ pk ok ack]) (use q q' sp in simp_all)
  show "unacked tp' = unacked tp"
    by (rule unacked_replace [where old = "[s]" and new = "[s']"]) (use q q' same f in simp_all)
qed

lemma sint_unat_small: "unat (w :: u32) < 2 ^ 31 \<Longrightarrow> sint w = int (unat w)"
proof -
  assume "unat w < 2 ^ 31"
  then have "unat w < 2147483648" by simp
  then have "- 2147483648 \<le> int (unat w)" "int (unat w) < 2147483648" by linarith+
  then show ?thesis using sint_word32 [of "int (unat w)"] by simp
qed

lemma sint_unat: "0 \<le> sint (w :: u32) \<Longrightarrow> sint w = int (unat w)"
proof -
  assume nn: "0 \<le> sint w"
  have "sint w < 2147483648" using sint_lt [of w] by simp
  with nn have "uint (word_of_int (sint w) :: u32) = sint w" by (simp only: uint_word_of_int) simp
  then show ?thesis by simp
qed

lemma retrans_fit_inv:
  assumes "splits_pages (re_seg E)" and "shifts E" and inv: "rtx_inv tp" and q: "tcp_rtx_queue tp = xs @ s # ys" and "countable mss s"
    and m: "0 < mss" "mss < 2 ^ 16" and "unat len \<le> unat avail" and av: "0 < unat avail" "unat avail < 2 ^ 31"
    and len: "0 < unat len" "unat len \<le> unat mss * k"
    and "xs = [] \<longrightarrow> skb_seq s = snd_una tp"
  obtains err tp' h ys' where "retrans_fit E (length xs) mss avail len tp = Some (err, tp')" "err = 0 \<or> err = - ENOMEM"
    "tcp_rtx_queue tp' = xs @ h # ys'" "skb_seq h = skb_seq s" "err = 0 \<Longrightarrow> length (skb_data h) \<le> unat avail"
    "rtx_inv tp'" "unacked tp' = unacked tp" "same_side tp tp'" "same_marks s h" "weight ys' < weight (s # ys)"
    "err = 0 \<Longrightarrow> unat (skb_pcount h) \<le> max 1 k" "contrib s = 0 \<Longrightarrow> flight (h # ys') \<le> flight (s # ys)"
    "\<forall>n \<in> set ys'. n \<in> set ys \<or> length (skb_data n) \<le> length (skb_data s)"
proof -
  have nth: "tcp_rtx_queue tp ! length xs = s" using q by simp
  have m0: "0 < unat mss" using m(1) by (simp add: unat_gt_0)
  have small: "length (skb_data s) < 2 ^ 31" using assms(5) by (simp add: countable_def)
  note slen = unat_skb_len [OF small]
  consider "len < skb_len s" | "\<not> len < skb_len s" "\<not> se_unclone (re_seg E)" | "\<not> len < skb_len s" "se_unclone (re_seg E)" by blast
  then show thesis
  proof cases
    case 1
    obtain r t where rt: "tcp_fragment (re_seg E) TCP_FRAG_IN_RTX_QUEUE (length xs) len mss tp = (r, t)" by fastforce
    have run: "retrans_fit E (length xs) mss avail len tp = Some (if r \<noteq> 0 then - ENOMEM else 0, t)"
      using 1 rt nth by (simp add: retrans_fit_def)
    show thesis
    proof (cases "r = 0")
      case True
      with rt have rt0: "tcp_fragment (re_seg E) TCP_FRAG_IN_RTX_QUEUE (length xs) len mss tp = (0, t)" by simp
      obtain a b where ab: "tcp_rtx_queue t = xs @ a # b # ys" "skb_seq a = skb_seq s" "length (skb_data a) \<le> unat len"
        "rtx_inv t" "unacked t = unacked tp" "same_side tp t" "same_marks s a" "same_marks s b" "span a + span b = span s"
        "span a = unat len" "unat (skb_pcount a) = seg_count (length (skb_data a)) (unat mss)"
        "length (skb_data b) \<le> length (skb_data s)"
        using retrans_fragment_inv [OF assms(1) inv q assms(5) m 1 assms(13) rt0] .
      have "length (skb_data a) \<le> unat mss * k" using ab(3) len(2) by linarith
      then have "unat (skb_pcount a) \<le> max 1 k" using seg_count_cap [OF m0, of "length (skb_data a)" k] ab(11) by linarith
      moreover have "weight (b # ys) < weight (s # ys)" using ab(9,10) len(1) by simp
      ultimately show thesis
        using run True ab assms(8) contrib_marks [OF ab(7)] contrib_marks [OF ab(8)] by (intro that [of 0 t a "b # ys"]) simp_all
    next
      case False
      with tcp_fragment_failed [OF rt] obtain n where "t = tp\<lparr>wqueue_too_big := n\<rparr>" by blast
      then have "same_side tp t" "tcp_rtx_queue t = tcp_rtx_queue tp" "same_counts tp t" by (simp_all add: same_side_def same_counts_def)
      with rtx_frame [OF this] run False inv q show thesis
        by (intro that [of "- ENOMEM" t s ys]) (simp_all add: ENOMEM_def same_marks_eq)
    qed
  next
    case 2
    then have "retrans_fit E (length xs) mss avail len tp = Some (- ENOMEM, tp)" using nth by (simp add: retrans_fit_def Let_def)
    with inv q show thesis by (intro that [of "- ENOMEM" tp s ys]) (auto simp: ENOMEM_def same_marks_eq)
  next
    case 3
    define s' where "s' = tcp_set_skb_tso_segs s mss"
    define diff where "diff = int (unat (skb_pcount s)) - int (unat (skb_pcount s'))"
    define t where "t = (if diff \<noteq> 0 then tcp_adjust_pcount (set_rtx (length xs) s' tp) s' diff else set_rtx (length xs) s' tp)"
    define w where "w = (if avail <s mss then avail else mss)"
    note t = set_tso_inv [OF inv q assms(5) m assms(13), folded s'_def, folded diff_def, folded t_def]
    have f: "skb_seq s' = skb_seq s" "skb_data s' = skb_data s" "skb_len s' = skb_len s" by (simp_all add: s'_def skb_len_def)
    have run: "retrans_fit E (length xs) mss avail len tp = (if skb_len s' < w
        then (case tcp_retrans_try_collapse E (length xs) (sint w) t of None \<Rightarrow> None | Some tp \<Rightarrow> Some (0, tp)) else Some (0, t))"
      using 3 nth unfolding retrans_fit_def Let_def w_def t_def diff_def s'_def by simp
    have sl: "length (skb_data s) \<le> unat avail" using 3(1) slen assms(8) by (simp add: not_less word_le_nat_alt)
    have "length (skb_data s) \<le> unat mss * k" using 3(1) slen len(2) by (simp add: not_less word_le_nat_alt)
    then have pc: "unat (skb_pcount s') \<le> max 1 k" using seg_count_cap [OF m0, of "length (skb_data s)" k] t(7) by linarith
    note result = that and cs = contrib_marks [OF t(6)]
    have stop: thesis if "retrans_fit E (length xs) mss avail len tp = Some (0, t)"
      using that t f sl pc cs by (intro result [of 0 t s' ys]) simp_all
    have ntht: "tcp_rtx_queue t ! length xs = s'" using t(1) by simp
    show thesis
    proof (cases "skb_len s' < w \<and> re_retrans_collapse E \<and> skb_flags s' AND TCPHDR_SYN = 0 \<and> tcp_can_collapse E s' \<and>
        re_can_collapse E s' s'")
      case False
      then show thesis
        by (intro stop) (use run ntht in \<open>auto simp: tcp_retrans_try_collapse_def Let_def\<close>)
    next
      case True
      have mw: "unat mss < 2 ^ 31" using m(2) by (simp add: word_less_nat_alt)
      note si = sint_unat_small [OF av(2)] sint_unat_small [OF mw]
      then have "avail <s mss \<longleftrightarrow> unat avail < unat mss" by (simp only: word_sless_alt of_nat_less_iff)
      with si have w: "sint w = int (unat w)" "unat w \<le> unat avail" by (auto simp: w_def)
      have "unat (skb_len s') < unat w" using True by (simp add: word_less_nat_alt)
      then have space: "0 \<le> sint w - int (unat (skb_len s'))" unfolding w(1) by linarith
      have one: "skb_pcount s' = 1"
        using True t(5) unfolding tcp_can_collapse_def by (metis word_le_less_eq word_less_1 not_less)
      obtain t' h ys' where r: "collapse_loop E (length xs) (sint w - int (unat (skb_len s'))) t = Some t'"
        "tcp_rtx_queue t' = xs @ h # ys'" "skb_seq h = skb_seq s'"
        "int (length (skb_data h)) \<le> int (length (skb_data s')) + (sint w - int (unat (skb_len s')))" "same_side t t'"
        "rtx_inv t'" "unacked t' = unacked t" "skb_pcount h = 1" "same_marks s' h" "weight ys' \<le> weight ys"
        "flight (h # ys') \<le> flight (s' # ys)" "set ys' \<subseteq> set ys"
        using collapse_loop_inv [OF assms(2) t(2,1) one space] by metis
      have "retrans_fit E (length xs) mss avail len tp = Some (0, t')"
        using run True r(1) ntht by (simp add: tcp_retrans_try_collapse_def Let_def)
      moreover have "length (skb_data h) \<le> unat avail" using r(4) w(2) unfolding f(2,3) slen w(1) by linarith
      moreover have "weight ys' < weight (s # ys)" using r(10) by simp
      moreover have "flight (h # ys') \<le> flight (s # ys)" if "contrib s = 0" using r(11) that cs by simp
      moreover have "unat (skb_pcount h) \<le> max 1 k" using r(8) by simp
      moreover have "\<forall>n \<in> set ys'. n \<in> set ys \<or> length (skb_data n) \<le> length (skb_data s)" using r(12) by blast
      ultimately show thesis
        using r(2,3,6,7) f t(3) same_side_trans [OF t(4) r(5)] same_marks_trans [OF t(6) r(9)]
        by (intro result [of 0 t' h ys']) simp_all
    qed
  qed
qed

section \<open>The room in the window\<close>

lemma retrans_avail_cases:
  assumes "retrans_avail mss s tp = Some avail" and d: "skb_seq s = snd_una tp + of_nat d" "d < 2 ^ 31" and wnd: "unat (snd_wnd tp) < 2 ^ 31"
    and m: "0 < mss" "mss < 2 ^ 16"
  shows "0 < unat avail \<and> unat avail < 2 ^ 31 \<and>
    (d + unat avail \<le> unat (snd_wnd tp) \<or> snd_wnd tp = 0 \<and> skb_seq s = snd_una tp \<and> avail = mss)"
proof -
  let ?w = "unat (snd_wnd tp)" and ?a = "tcp_wnd_end tp - skb_seq s"
  have n: "?w < 2147483648" "d < 2147483648" using wnd d(2) by simp_all
  have "?a = word_of_int (int ?w - int d)" using d(1) by (simp add: tcp_wnd_end_def)
  then have si: "sint ?a = int ?w - int d" using sint_diff [of d 0 ?w] n by simp
  show ?thesis
  proof (cases "?a \<le>s 0")
    case True
    then have "int ?w \<le> int d" using si by (simp add: word_sle_eq)
    have av: "avail = mss" "skb_seq s = snd_una tp" using assms(1) True by (auto simp: retrans_avail_def Let_def split: if_splits)
    then have "(of_nat d :: u32) = 0" using d(1) by simp
    moreover have "unat (of_nat d :: u32) = d" using d(2) by (simp add: unsigned_of_nat take_bit_nat_eq_self)
    ultimately have "d = 0" by simp
    with \<open>int ?w \<le> int d\<close> have "?w = 0" by linarith
    then have "snd_wnd tp = 0" by (simp add: unat_eq_0)
    with av m show ?thesis by (simp add: unat_gt_0 word_less_nat_alt)
  next
    case False
    then have av: "avail = ?a" "0 < sint ?a" using assms(1) by (auto simp: retrans_avail_def word_sle_eq Let_def)
    then have "int (unat avail) = int ?w - int d" using si sint_unat [of ?a] by simp
    with av si n have "0 < unat avail" "unat avail < 2147483648" "d + unat avail \<le> ?w" by linarith+
    then show ?thesis by simp
  qed
qed

lemma retrans_len_le:
  assumes "0 < unat avail" and "unat avail < 2 ^ 31" and "unat mss < 2 ^ 16" and "unat segs < 2 ^ 15"
    and "0 < unat mss" and "0 < unat segs"
  shows "unat (retrans_len mss segs avail) \<le> unat avail" and "0 < unat (retrans_len mss segs avail)"
    and "unat (retrans_len mss segs avail) \<le> unat mss * unat segs"
proof -
  have bound: "unat mss * unat segs \<le> 2 ^ 16 * 2 ^ 15 - 2 ^ 16"
  proof -
    have "unat mss * unat segs \<le> (2 ^ 16 - 1) * (2 ^ 15 - 1)" using assms(3,4) by (intro mult_le_mono) simp_all
    then show ?thesis by simp
  qed
  then have prod: "unat (mss * segs) = unat mss * unat segs" by (simp add: unat_word_ariths)
  with bound have "unat (mss * segs) < 2 ^ 31" by simp
  then have "sint (mss * segs) = int (unat (mss * segs))" by (rule sint_unat_small)
  moreover have "sint avail = int (unat avail)" using assms(2) by (rule sint_unat_small)
  ultimately have lt: "avail <s mss * segs \<longleftrightarrow> unat avail < unat mss * unat segs"
    by (simp only: word_sless_alt of_nat_less_iff prod)
  have le: "unat (avail - avail mod mss) \<le> unat avail" using word_sub_mod_le [of avail mss] by (simp only: word_le_nat_alt)
  have pos: "0 < unat mss * unat segs" using assms(5,6) by simp
  have unz: "0 < unat w" if "w \<noteq> 0" for w :: u32 using that by (simp add: unat_gt_0)
  show "unat (retrans_len mss segs avail) \<le> unat avail"
    using lt le by (auto simp: retrans_len_def Let_def prod)
  show "0 < unat (retrans_len mss segs avail)"
    using lt pos assms(1) unz by (auto simp: retrans_len_def Let_def prod)
  show "unat (retrans_len mss segs avail) \<le> unat mss * unat segs"
    using lt le by (auto simp: retrans_len_def Let_def prod)
qed

section \<open>One retransmission\<close>

lemma current_mss_frame:
  assumes "tcp_current_mss S oe os key tp = (m, t)"
  shows "same_side tp t" "tcp_rtx_queue t = tcp_rtx_queue tp" "same_counts tp t"
  using assms
  by (auto simp: tcp_current_mss_def tcp_sync_mss_def same_side_def same_counts_def Let_def split: option.splits if_splits prod.splits)

text \<open>The segment size does not depend on the queues.\<close>

lemma current_mss_queue:
  "fst (tcp_current_mss S oe os key (tp\<lparr>tcp_rtx_queue := q, sk_wmem_queued := a, sk_forward_alloc := b,
     lost_skb_hint := l, highest_sack := h, retransmit_skb_hint := r\<rparr>)) =
   fst (tcp_current_mss S oe os key tp)"
  by (simp add: tcp_current_mss_def tcp_sync_mss_def tcp_mtu_to_mss_def u_tcp_mtu_to_mss_def Let_def case_prod_beta split: option.split)

lemma current_mss_start:
  "fst (tcp_current_mss S oe os key (tp\<lparr>mtup_probe_size := p\<rparr>)) = fst (tcp_current_mss S oe os key tp)"
  "fst (tcp_current_mss S oe os key (tp\<lparr>mtup_probe_size := p, tsq_throttled := b\<rparr>)) = fst (tcp_current_mss S oe os key tp)"
  by (simp_all add: tcp_current_mss_def tcp_sync_mss_def tcp_mtu_to_mss_def u_tcp_mtu_to_mss_def Let_def case_prod_beta split: option.split)

text \<open>What is handed to the network, and what is left.\<close>

lemma syn_ecn: "f AND TCPHDR_SYN = 0 \<Longrightarrow> f AND TCPHDR_SYN_ECN \<noteq> TCPHDR_SYN_ECN"
proof
  assume "f AND TCPHDR_SYN = 0" "f AND TCPHDR_SYN_ECN = TCPHDR_SYN_ECN"
  then have "TCPHDR_SYN_ECN AND TCPHDR_SYN = (f AND TCPHDR_SYN) AND TCPHDR_SYN_ECN" by (metis and.assoc and.commute)
  also have "\<dots> = 0" using \<open>f AND TCPHDR_SYN = 0\<close> by simp
  finally show False by (simp add: TCPHDR_SYN_ECN_def TCPHDR_SYN_def TCPHDR_ECE_def TCPHDR_CWR_def)
qed

lemma retrans_send_inv:
  assumes inv: "rtx_inv tp" and q: "tcp_rtx_queue tp = xs @ s # ys" and run: "retrans_send E (length xs) tp = (err, sent, tp')"
  shows "err = re_err E" and "sent = Some s" and "rtx_inv tp'" and "unacked tp' = unacked tp" and "same_side tp tp'"
    and "tcp_rtx_queue tp' = xs @ s\<lparr>skb_sacked := skb_sacked s OR TCPCB_EVER_RETRANS\<rparr> # ys"
proof -
  let ?s = "s\<lparr>skb_sacked := skb_sacked s OR TCPCB_EVER_RETRANS\<rparr>"
  have mk: "same_marks s ?s" by (rule ever_marks [where y = TCPCB_EVER_RETRANS]) simp
  have ok: "rtx_ok (xs @ s # ys)" using inv q by (simp add: rtx_inv_def)
  then have "skb_flags s AND TCPHDR_SYN = 0" by (simp add: rtx_ok_def)
  from syn_ecn [OF this] run q show r: "err = re_err E" "sent = Some s" and q': "tcp_rtx_queue tp' = xs @ ?s # ys"
    by (auto simp: retrans_send_def set_rtx_def Let_def)
  from syn_ecn [OF \<open>skb_flags s AND TCPHDR_SYN = 0\<close>] run q show side: "same_side tp tp'"
    by (auto simp: retrans_send_def set_rtx_def same_side_def Let_def)
  from syn_ecn [OF \<open>skb_flags s AND TCPHDR_SYN = 0\<close>] run q have "same_counts tp tp'"
    by (auto simp: retrans_send_def set_rtx_def same_counts_def Let_def)
  then have pk: "rescored tp tp' [s] [?s]" using mk by (auto simp: rescored_def same_counts_def same_marks_def)
  have ok': "rtx_ok (xs @ [?s] @ ys)" using ok mk by (auto simp: rtx_ok_def butlast_append same_marks_def split: if_splits)
  have ack: "acked_ok (snd_una tp) ([?s] @ ys)" if "xs = []" using inv q that by (simp add: rtx_inv_def acked_ok_def)
  have sp: "span ?s = span s" by (simp add: span_def)
  have ch: "chain c [?s] d" if "chain c [s] d" for c d using that sp by auto
  show "rtx_inv tp'"
    by (rule rtx_inv_replace [where old = "[s]" and new = "[?s]", OF inv _ _ side ch _ pk ok' ack]) (use q q' sp in simp_all)
  show "unacked tp' = unacked tp"
    by (rule unacked_replace [where old = "[s]" and new = "[?s]"]) (use q q' side in simp_all)
qed

text \<open>Within the peer's window, or one segment against a closed one.\<close>

definition may_send :: "u32 \<Rightarrow> tcp_sock \<Rightarrow> sk_buff \<Rightarrow> bool" where
  "may_send mss tp h \<longleftrightarrow> in_window tp h \<or>
     snd_wnd tp = 0 \<and> skb_seq h = snd_una tp \<and> length (skb_data h) \<le> unat mss"

lemma may_send_avail:
  assumes "skb_seq h = snd_una tp + of_nat d" and "d < 2 ^ 31" and "length (skb_data h) \<le> unat avail"
    and "d + unat avail \<le> unat (snd_wnd tp) \<or> snd_wnd tp = 0 \<and> skb_seq h = snd_una tp \<and> avail = mss"
  shows "may_send mss tp h"
proof -
  have "unat (of_nat d :: u32) = d" using assms(2) by (simp add: unsigned_of_nat take_bit_nat_eq_self)
  with assms show ?thesis by (auto simp: may_send_def in_window_def)
qed

lemma may_send_frame: "same_side tp tp' \<Longrightarrow> may_send mss tp' h = may_send mss tp h"
  by (simp add: may_send_def in_window_def same_side_def)

text \<open>From the segment size to the end.\<close>

lemma retrans_tail:
  assumes "splits_pages (re_seg E)" and "shifts E" and inv: "rtx_inv tp" and q: "tcp_rtx_queue tp = xs @ s # ys" and "countable mss s"
    and m: "0 < mss" "mss < 2 ^ 16" and "unat segs < 2 ^ 15" and "0 < unat segs"
    and d: "skb_seq s = snd_una tp + of_nat d" "d + span s < 2 ^ 31" "xs = [] \<longrightarrow> d = 0"
    and av: "retrans_avail mss s tp = Some avail"
  obtains err tp' h ys' where "retrans_fit E (length xs) mss avail (retrans_len mss segs avail) tp = Some (err, tp')"
    "err = 0 \<or> err = - ENOMEM" "tcp_rtx_queue tp' = xs @ h # ys'" "err = 0 \<Longrightarrow> may_send mss tp h"
    "rtx_inv tp'" "unacked tp' = unacked tp" "same_side tp tp'" "same_marks s h" "weight ys' < weight (s # ys)"
    "err = 0 \<Longrightarrow> unat (skb_pcount h) \<le> unat segs" "contrib s = 0 \<Longrightarrow> flight (h # ys') \<le> flight (s # ys)"
    "\<forall>n \<in> set ys'. n \<in> set ys \<or> length (skb_data n) \<le> length (skb_data s)"
proof -
  have d31: "d < 2 ^ 31" and w31: "unat (snd_wnd tp) < 2 ^ 31" using d(2) inv by (simp_all add: rtx_inv_def)
  note room = retrans_avail_cases [OF av d(1) d31 w31 m]
  have mn: "unat mss < 2 ^ 16" "0 < unat mss" using m by (simp_all add: word_less_nat_alt unat_gt_0)
  have first: "xs = [] \<longrightarrow> skb_seq s = snd_una tp" using d by simp
  from room have av1: "0 < unat avail" and av2: "unat avail < 2 ^ 31" by blast+
  note len = retrans_len_le [OF av1 av2 mn(1) assms(8) mn(2) assms(9)]
  obtain err tp' h ys' where r: "retrans_fit E (length xs) mss avail (retrans_len mss segs avail) tp = Some (err, tp')"
    "err = 0 \<or> err = - ENOMEM" "tcp_rtx_queue tp' = xs @ h # ys'" "skb_seq h = skb_seq s"
    "err = 0 \<Longrightarrow> length (skb_data h) \<le> unat avail" "rtx_inv tp'" "unacked tp' = unacked tp" "same_side tp tp'"
    "same_marks s h" "weight ys' < weight (s # ys)" "err = 0 \<Longrightarrow> unat (skb_pcount h) \<le> max 1 (unat segs)"
    "contrib s = 0 \<Longrightarrow> flight (h # ys') \<le> flight (s # ys)"
    "\<forall>n \<in> set ys'. n \<in> set ys \<or> length (skb_data n) \<le> length (skb_data s)"
    by (rule retrans_fit_inv [OF assms(1,2) inv q assms(5) m len(1) av1 av2 len(2,3) first]) (rule that)
  have "may_send mss tp h" if "err = 0"
    using may_send_avail [OF _ d31 r(5) [OF that], of tp] d(1) r(4) room by auto
  moreover have "unat (skb_pcount h) \<le> unat segs" if "err = 0" using r(11) [OF that] assms(9) by linarith
  ultimately show thesis using r by (intro that)
qed

lemma retransmit_cases:
  assumes "splits_pages (re_seg E)" and "shifts E" and inv: "rtx_inv tp" and "i < length (tcp_rtx_queue tp)"
    and mss: "mss = fst (tcp_current_mss S oe os key tp)" and m: "0 < mss" "mss < 2 ^ 16" and "unat segs < 2 ^ 15" and "0 < unat segs"
    and cnt: "\<forall>s \<in> set (drop i (tcp_rtx_queue tp)). countable mss s"
  obtains err sent tp' h ys' where "u_tcp_retransmit_skb S oe os key E i segs tp = Some (err, sent, tp')"
    "rtx_inv tp'" "unacked tp' = unacked tp" "same_side tp tp'"
    "tcp_rtx_queue tp' = take i (tcp_rtx_queue tp) @ h # ys'" "same_marks (tcp_rtx_queue tp ! i) h"
    "weight ys' < weight (drop i (tcp_rtx_queue tp))"
    "contrib (tcp_rtx_queue tp ! i) = 0 \<Longrightarrow> flight (tcp_rtx_queue tp') \<le> flight (tcp_rtx_queue tp)"
    "sent = None \<Longrightarrow> err \<in> {- EBUSY, - ENOMEM, - EHOSTUNREACH, - EAGAIN}"
    "\<And>h0. sent = Some h0 \<Longrightarrow> err = re_err E \<and> may_send mss tp h0 \<and> unat (skb_pcount h0) \<le> unat segs \<and>
       h = h0\<lparr>skb_sacked := skb_sacked h0 OR TCPCB_EVER_RETRANS\<rparr>"
    "\<forall>n \<in> set ys'. countable mss n"
proof -
  obtain xs s ys where q: "tcp_rtx_queue tp = xs @ s # ys" and i: "i = length xs"
    using assms(4) by (metis id_take_nth_drop length_take min.absorb4)
  define t0 where "t0 = tp\<lparr>mtup_probe_size := 0\<rparr>"
  obtain busy t1 where t1: "skb_still_in_host_queue E t0 = (busy, t1)" by fastforce
  have f1: "same_side tp t1" "tcp_rtx_queue t1 = tcp_rtx_queue tp" "same_counts tp t1"
    "fst (tcp_current_mss S oe os key t1) = mss"
    using t1 mss by (auto simp: skb_still_in_host_queue_def t0_def same_side_def same_counts_def current_mss_start split: if_splits)
  have inv1: "rtx_inv t1" "unacked t1 = unacked tp" using rtx_frame [OF f1(1-3)] inv by simp_all
  have q1: "tcp_rtx_queue t1 = xs @ s # ys" using f1(2) q by simp
  obtain e2 t2 where t2: "retrans_trim E (length xs) t1 = (e2, t2)" by fastforce
  obtain s2 a b l h r where form: "t2 = t1\<lparr>tcp_rtx_queue := xs @ s2 # ys, sk_wmem_queued := a, sk_forward_alloc := b,
      lost_skb_hint := l, highest_sack := h, retransmit_skb_hint := r\<rparr>"
    and inv2: "rtx_inv t2" "unacked t2 = unacked t1" and e2: "e2 = 0 \<or> e2 = - ENOMEM" "length (skb_data s2) \<le> length (skb_data s)"
    and mk2: "same_marks s s2" "skb_pcount s2 = skb_pcount s" "span s2 \<le> span s"
    and pos: "e2 = 0 \<Longrightarrow> \<exists>d. skb_seq s2 = snd_una t1 + of_nat d \<and> d + span s2 < 2 ^ 31 \<and> (xs = [] \<longrightarrow> d = 0)"
    by (rule retrans_trim_inv [OF inv1(1) q1 t2]) (rule that)
  have f2: "same_side tp t2" "tcp_rtx_queue t2 = xs @ s2 # ys" "fst (tcp_current_mss S oe os key t2) = mss"
    using f1(1,4) by (simp_all add: form current_mss_queue same_side_def)
  obtain t3 where t3: "tcp_current_mss S oe os key t2 = (mss, t3)" using f2(3) by (metis prod.collapse)
  note f3 = current_mss_frame [OF t3]
  have inv3: "rtx_inv t3" "unacked t3 = unacked tp" using rtx_frame [OF f3] inv2 inv1 by simp_all
  have side3: "same_side tp t3" using same_side_trans [OF f2(1) f3(1)] .
  have q3: "tcp_rtx_queue t3 = xs @ s2 # ys" using f3(2) f2(2) by simp
  have run: "u_tcp_retransmit_skb S oe os key E i segs tp = (if busy then Some (- EBUSY, None, t1)
      else if e2 \<noteq> 0 then Some (e2, None, t2) else if re_rebuild E \<noteq> 0 then Some (- EHOSTUNREACH, None, t2)
      else case retrans_avail mss s2 t3 of None \<Rightarrow> Some (- EAGAIN, None, t3)
        | Some avail \<Rightarrow> (case retrans_fit E i mss avail (retrans_len mss segs avail) t3 of None \<Rightarrow> None
          | Some (err, t) \<Rightarrow> if err \<noteq> 0 then Some (err, None, t) else Some (retrans_send E i t)))"
    unfolding u_tcp_retransmit_skb_def Let_def t0_def [symmetric] t1 prod.case i t2 t3 q3 by simp
  have idx: "take i (tcp_rtx_queue tp) = xs" "tcp_rtx_queue tp ! i = s" "drop i (tcp_rtx_queue tp) = s # ys" using q i by simp_all
  have fl2: "flight (xs @ s2 # ys) = flight (tcp_rtx_queue tp)" using q mk2(2) contrib_marks [OF mk2(1)] by simp
  have sm: "same_marks s s" by (simp add: same_marks_eq)
  have cs: "countable mss s" and cys: "\<forall>n \<in> set ys. countable mss n" using cnt idx(3) by simp_all
  consider "busy" | "\<not> busy" "e2 \<noteq> 0" | "\<not> busy" "e2 = 0" "re_rebuild E \<noteq> 0"
    | "\<not> busy" "e2 = 0" "re_rebuild E = 0" "retrans_avail mss s2 t3 = None"
    | avail where "\<not> busy" "e2 = 0" "re_rebuild E = 0" "retrans_avail mss s2 t3 = Some avail" by blast
  then show thesis
  proof cases
    case 1
    with run inv1 f1(1) q1 idx q sm cys show thesis by (intro that [of "- EBUSY" None t1 s ys]) simp_all
  next
    case 2
    with run inv2 inv1 f2(1,2) e2 idx mk2(1) fl2 cys show thesis by (intro that [of e2 None t2 s2 ys]) auto
  next
    case 3
    with run inv2 inv1 f2(1,2) idx mk2(1) fl2 cys show thesis by (intro that [of "- EHOSTUNREACH" None t2 s2 ys]) simp_all
  next
    case 4
    with run inv3 side3 q3 idx mk2(1) fl2 cys show thesis by (intro that [of "- EAGAIN" None t3 s2 ys]) simp_all
  next
    case (5 avail)
    have c2: "countable mss s2" by (rule countable_shorter [OF cs e2(2)])
    obtain d where d: "skb_seq s2 = snd_una t3 + of_nat d" "d + span s2 < 2 ^ 31" "xs = [] \<longrightarrow> d = 0"
      using pos [OF 5(2)] f1(1) side3 by (auto simp: same_side_def)
    obtain err t4 h ys' where r: "retrans_fit E (length xs) mss avail (retrans_len mss segs avail) t3 = Some (err, t4)"
      "err = 0 \<or> err = - ENOMEM" "tcp_rtx_queue t4 = xs @ h # ys'" "err = 0 \<Longrightarrow> may_send mss t3 h"
      "rtx_inv t4" "unacked t4 = unacked t3" "same_side t3 t4" "same_marks s2 h" "weight ys' < weight (s2 # ys)"
      "err = 0 \<Longrightarrow> unat (skb_pcount h) \<le> unat segs" "contrib s2 = 0 \<Longrightarrow> flight (h # ys') \<le> flight (s2 # ys)"
      "\<forall>n \<in> set ys'. n \<in> set ys \<or> length (skb_data n) \<le> length (skb_data s2)"
      by (rule retrans_tail [OF assms(1,2) inv3(1) q3 c2 m assms(8,9) d 5(4)]) (rule that)
    have mk4: "same_marks s h" by (rule same_marks_trans [OF mk2(1) r(8)])
    have w4: "weight ys' < weight (drop i (tcp_rtx_queue tp))" using r(9) mk2(3) idx(3) by simp
    have fl4: "flight (xs @ h # ys') \<le> flight (tcp_rtx_queue tp)" if "contrib s = 0"
      using r(11) that contrib_marks [OF mk2(1)] fl2 by simp
    have cys': "\<forall>n \<in> set ys'. countable mss n"
      using r(12) cys countable_shorter [OF c2] by blast
    have side4: "same_side tp t4" using same_side_trans [OF side3 r(7)] .
    show thesis
    proof (cases "err = 0")
      case False
      with run 5 r inv3 side4 i idx mk4 w4 fl4 cys' show thesis by (intro that [of err None t4 h ys']) auto
    next
      case True
      obtain e5 sent t5 where t5: "retrans_send E (length xs) t4 = (e5, sent, t5)" by (metis prod_cases3)
      note snd = retrans_send_inv [OF r(5,3) t5]
      have "may_send mss tp h" using r(4) [OF True] may_send_frame [OF side3] by simp
      moreover have mk5: "same_marks s (h\<lparr>skb_sacked := skb_sacked h OR TCPCB_EVER_RETRANS\<rparr>)" (is "same_marks s ?h")
        by (rule same_marks_trans [OF mk4 ever_marks [where y = TCPCB_EVER_RETRANS]]) simp
      moreover have "flight (xs @ ?h # ys') = flight (xs @ h # ys')"
        using contrib_marks [OF mk5] contrib_marks [OF mk4] by simp
      ultimately show thesis
        using snd run 5 True r(1,6,10) i inv3 t5 same_side_trans [OF side4 snd(5)] idx w4 fl4 cys'
        by (intro that [of e5 sent t5 ?h ys']) auto
    qed
  qed
qed

end
