(* ===== verification/Retrans_Walk.thy ===== *)
theory Retrans_Walk
  imports Retrans_Send
begin

text \<open>
  The account of a retransmission (\<open>tcp_retransmit_skb\<close>) and the walk over the queue
  (\<open>tcp_xmit_retransmit_queue\<close>): the counters stay exact, only lost segments go out, and the packets in
  flight do not exceed the congestion window.
\<close>

section \<open>The account\<close>

lemma marked_retrans:
  assumes "skb_sacked h' = skb_sacked h OR TCPCB_RETRANS"
  shows "has TCPCB_SACKED_RETRANS h'" and "has TCPCB_SACKED_ACKED h' = has TCPCB_SACKED_ACKED h" and "has TCPCB_LOST h' = has TCPCB_LOST h"
  using assms
  by (simp_all add: has_def TCPCB_RETRANS_def TCPCB_EVER_RETRANS_def TCPCB_SACKED_ACKED_def TCPCB_SACKED_RETRANS_def TCPCB_LOST_def
      bit.conj_disj_distrib2 or_eq_0_iff)

lemma mark_retrans_inv:
  assumes inv: "rtx_inv tp" and q: "tcp_rtx_queue tp = xs @ h # ys" and h: "\<not> has TCPCB_SACKED_RETRANS h"
    and h': "h' = h\<lparr>skb_sacked := skb_sacked h OR TCPCB_RETRANS\<rparr>"
    and q': "tcp_rtx_queue tp' = xs @ h' # ys" and side: "same_side tp tp'"
    and cnt: "packets_out tp' = packets_out tp" "sacked_out tp' = sacked_out tp" "lost_out tp' = lost_out tp"
      "retrans_out tp' = retrans_out tp + ucast (skb_pcount h)"
  shows "rtx_inv tp'" and "unacked tp' = unacked tp" and "flight (tcp_rtx_queue tp') = flight (tcp_rtx_queue tp) + int (unat (skb_pcount h))"
proof -
  have mk: "has TCPCB_SACKED_RETRANS h'" "has TCPCB_SACKED_ACKED h' = has TCPCB_SACKED_ACKED h" "has TCPCB_LOST h' = has TCPCB_LOST h"
    using marked_retrans [of h' h] h' by simp_all
  have f: "skb_data h' = skb_data h" "skb_seq h' = skb_seq h" "skb_end_seq h' = skb_end_seq h" "skb_flags h' = skb_flags h"
    "skb_pcount h' = skb_pcount h" "span h' = span h"
    by (simp_all add: h' span_def)
  have pk: "rescored tp tp' [h] [h']" using mk h cnt f by (auto simp: rescored_def)
  have ok: "rtx_ok (xs @ [h'] @ ys)" using inv q f mk by (auto simp: rtx_inv_def rtx_ok_def butlast_append split: if_splits)
  have ack: "acked_ok (snd_una tp) ([h'] @ ys)" if "xs = []" using inv q that f by (simp add: rtx_inv_def acked_ok_def)
  have ch: "chain c [h'] d" if "chain c [h] d" for c d using that f by auto
  show "rtx_inv tp'"
    by (rule rtx_inv_replace [where old = "[h]" and new = "[h']", OF inv _ _ side ch _ pk ok ack]) (use q q' f in simp_all)
  show "unacked tp' = unacked tp"
    by (rule unacked_replace [where old = "[h]" and new = "[h']"]) (use q q' side f in simp_all)
  have "contrib h' = contrib h + 1" using mk h by (simp add: contrib_def)
  then show "flight (tcp_rtx_queue tp') = flight (tcp_rtx_queue tp) + int (unat (skb_pcount h))"
    using q q' f by (simp add: algebra_simps)
qed

lemma retransmit_counted:
  assumes "splits_pages (re_seg E)" and "shifts E" and inv: "rtx_inv tp" and "i < length (tcp_rtx_queue tp)"
    and mss: "mss = fst (tcp_current_mss S oe os key tp)" and m: "0 < mss" "mss < 2 ^ 16" and "unat segs < 2 ^ 15" and "0 < unat segs"
    and cnt: "\<forall>s \<in> set (drop i (tcp_rtx_queue tp)). countable mss s" and un: "\<not> has TCPCB_SACKED_RETRANS (tcp_rtx_queue tp ! i)"
  obtains err sent tp' h ys' where "tcp_retransmit_skb S oe os key E i segs tp = Some (err, sent, tp')"
    "rtx_inv tp'" "unacked tp' = unacked tp" "same_side tp tp'"
    "tcp_rtx_queue tp' = take i (tcp_rtx_queue tp) @ h # ys'" "has TCPCB_SACKED_RETRANS h \<longleftrightarrow> err = 0"
    "weight ys' < weight (drop i (tcp_rtx_queue tp))" "\<forall>n \<in> set ys'. countable mss n"
    "contrib (tcp_rtx_queue tp ! i) = 0 \<Longrightarrow>
       flight (tcp_rtx_queue tp') \<le> flight (tcp_rtx_queue tp) + (if err = 0 then int (unat segs) else 0)"
    "sent = None \<Longrightarrow> err \<in> {- EBUSY, - ENOMEM, - EHOSTUNREACH, - EAGAIN}"
    "\<And>h0. sent = Some h0 \<Longrightarrow> err = re_err E \<and> may_send mss tp h0 \<and> unat (skb_pcount h0) \<le> unat segs \<and>
       same_marks (tcp_rtx_queue tp ! i) h0"
proof -
  obtain err sent t h ys' where r: "u_tcp_retransmit_skb S oe os key E i segs tp = Some (err, sent, t)"
    "rtx_inv t" "unacked t = unacked tp" "same_side tp t"
    "tcp_rtx_queue t = take i (tcp_rtx_queue tp) @ h # ys'" "same_marks (tcp_rtx_queue tp ! i) h"
    "weight ys' < weight (drop i (tcp_rtx_queue tp))"
    "contrib (tcp_rtx_queue tp ! i) = 0 \<Longrightarrow> flight (tcp_rtx_queue t) \<le> flight (tcp_rtx_queue tp)"
    "sent = None \<Longrightarrow> err \<in> {- EBUSY, - ENOMEM, - EHOSTUNREACH, - EAGAIN}"
    "\<And>h0. sent = Some h0 \<Longrightarrow> err = re_err E \<and> may_send mss tp h0 \<and> unat (skb_pcount h0) \<le> unat segs \<and>
       h = h0\<lparr>skb_sacked := skb_sacked h0 OR TCPCB_EVER_RETRANS\<rparr>"
    "\<forall>n \<in> set ys'. countable mss n"
    by (rule retransmit_cases [OF assms(1-10)]) (rule that)
  define h' where "h' = h\<lparr>skb_sacked := skb_sacked h OR TCPCB_RETRANS\<rparr>"
  have i: "length (take i (tcp_rtx_queue tp)) = i" using assms(4) by simp
  have nth: "tcp_rtx_queue t ! i = h" and upd: "(tcp_rtx_queue t)[i := h'] = take i (tcp_rtx_queue tp) @ h' # ys'"
    using r(5) i by (metis nth_append_length, metis list_update_length)
  have h: "\<not> has TCPCB_SACKED_RETRANS h" using un r(6) by (simp add: same_marks_def)
  obtain tp' where run: "tcp_retransmit_skb S oe os key E i segs tp = Some (err, sent, tp')" and side: "same_side t tp'"
    and q: "tcp_rtx_queue tp' = (if err = 0 then take i (tcp_rtx_queue tp) @ h' # ys' else tcp_rtx_queue t)"
    and c: "packets_out tp' = packets_out t" "sacked_out tp' = sacked_out t" "lost_out tp' = lost_out t"
      "retrans_out tp' = (if err = 0 then retrans_out t + ucast (skb_pcount h) else retrans_out t)"
    using r(1) nth upd h'_def by (auto simp: tcp_retransmit_skb_def set_rtx_def same_side_def Let_def)
  have marks: "same_marks (tcp_rtx_queue tp ! i) h0" if "sent = Some h0" for h0
    using r(6) r(10) [OF that] ever_marks [of h h0 TCPCB_EVER_RETRANS] by (simp add: same_marks_def)
  show thesis
  proof (cases "err = 0")
    case False
    then have "same_counts t tp'" using c by (simp add: same_counts_def)
    with False rtx_frame [OF side, of] q have "rtx_inv tp'" "unacked tp' = unacked t" using r(2) by simp_all
    with False q r h run same_side_trans [OF r(4) side] marks show thesis
      by (intro that [of err sent tp' h ys']) auto
  next
    case True
    from True r(9) obtain h0 where h0: "sent = Some h0" by (cases sent) (auto simp: EBUSY_def ENOMEM_def EHOSTUNREACH_def EAGAIN_def)
    then have pc: "unat (skb_pcount h) \<le> unat segs" using r(10) [OF h0] by simp
    have q': "tcp_rtx_queue tp' = take i (tcp_rtx_queue tp) @ h' # ys'" using q True by simp
    note mk = mark_retrans_inv [OF r(2,5) h h'_def q' side c(1-3)]
    have "retrans_out tp' = retrans_out t + ucast (skb_pcount h)" using c(4) True by simp
    note mk = mk [OF this]
    have "flight (tcp_rtx_queue tp') \<le> flight (tcp_rtx_queue tp) + int (unat segs)" if "contrib (tcp_rtx_queue tp ! i) = 0"
      using mk(3) r(8) [OF that] pc by linarith
    moreover have "has TCPCB_SACKED_RETRANS h'" using marked_retrans(1) [of h' h] by (simp add: h'_def)
    ultimately show thesis
      using True mk(1,2) r q' run same_side_trans [OF r(4) side] marks
      by (intro that [of err sent tp' h' ys']) auto
  qed
qed

section \<open>The segment size during the walk\<close>

text \<open>Once the path MTU is taken over, the segment size is a function of three fields that no
  retransmission changes.\<close>

definition settled :: "snd_env \<Rightarrow> tcp_sock \<Rightarrow> bool" where
  "settled S tp \<longleftrightarrow> (case dst_mtu S of None \<Rightarrow> True | Some mtu \<Rightarrow> icsk_pmtu_cookie tp = mtu)"

definition same_mss :: "tcp_sock \<Rightarrow> tcp_sock \<Rightarrow> bool" where
  "same_mss tp tp' \<longleftrightarrow> mss_cache tp' = mss_cache tp \<and> icsk_pmtu_cookie tp' = icsk_pmtu_cookie tp \<and> tcp_header_len tp' = tcp_header_len tp"

lemma same_mss_refl [simp]: "same_mss tp tp"
  by (simp add: same_mss_def)

lemma same_mss_trans: "same_mss a b \<Longrightarrow> same_mss b c \<Longrightarrow> same_mss a c"
  by (simp add: same_mss_def)

lemma settles: "tcp_current_mss S oe os key tp = (m, t) \<Longrightarrow> settled S t"
  by (auto simp: tcp_current_mss_def tcp_sync_mss_def settled_def Let_def split: option.splits if_splits prod.splits)

lemma settled_mss: "settled S tp \<Longrightarrow> snd (tcp_current_mss S oe os key tp) = tp"
  by (auto simp: tcp_current_mss_def settled_def Let_def split: option.splits)

lemma settled_frame:
  assumes "settled S tp" and "same_mss tp tp'"
  shows "settled S tp'" and "fst (tcp_current_mss S oe os key tp') = fst (tcp_current_mss S oe os key tp)"
  using assms by (auto simp: tcp_current_mss_def settled_def same_mss_def Let_def split: option.splits)

lemma current_mss_again:
  assumes "tcp_current_mss S oe os key tp = (m, t)"
  shows "fst (tcp_current_mss S oe os key t) = m"
proof -
  obtain m0 t0 where inner: "(case dst_mtu S of None \<Rightarrow> (mss_cache tp, tp)
      | Some mtu \<Rightarrow> if mtu \<noteq> icsk_pmtu_cookie tp then tcp_sync_mss S mtu tp else (mss_cache tp, tp)) = (m0, t0)" (is "?I = _")
    by (cases ?I)
  then have "mss_cache t0 = m0" "settled S t0"
    by (auto simp: tcp_sync_mss_def settled_def Let_def split: option.splits if_splits)
  moreover have "t = t0" "m = fst (let header_len = fst (tcp_established_options (oe\<lparr>e_skb_ts := None\<rparr>) os key no_options) + 20
      in if header_len \<noteq> word_of_int (tcp_header_len t0) then (m0 - (header_len - word_of_int (tcp_header_len t0)), t0) else (m0, t0))"
    using assms unfolding tcp_current_mss_def inner by (auto simp: Let_def split: if_splits)
  ultimately show ?thesis
    unfolding tcp_current_mss_def by (auto simp: settled_def Let_def split: option.splits)
qed

lemma adjust_pcount_mss: "same_mss tp (tcp_adjust_pcount tp s d)"
  by (auto simp: same_mss_def tcp_adjust_pcount_def Let_def split: option.splits)

lemma set_rtx_mss: "same_mss tp (set_rtx i s tp)"
  by (simp add: same_mss_def set_rtx_def)

lemma fragment_mss: "tcp_fragment SE TCP_FRAG_IN_RTX_QUEUE i len mss tp = (r, tp') \<Longrightarrow> same_mss tp tp'"
  using adjust_pcount_mss
  by (auto simp: tcp_fragment_def same_mss_def set_queue_def Let_def split: if_splits option.splits prod.splits)

lemma collapse_mss: "tcp_collapse_retrans E i tp = Yes tp' \<Longrightarrow> same_mss tp tp'"
  using adjust_pcount_mss
  by (auto simp: tcp_collapse_retrans_def same_mss_def Let_def split: if_splits option.splits prod.splits)

lemma collapse_loop_mss: "collapse_loop E i space tp = Some tp' \<Longrightarrow> same_mss tp tp'"
proof (induction E i space tp rule: collapse_loop.induct)
  case (1 E i space tp)
  then show ?case
    by (subst (asm) collapse_loop.simps)
      (auto simp: Let_def split: if_splits attempt.splits intro: same_mss_trans [OF collapse_mss])
qed

lemma try_collapse_mss: "tcp_retrans_try_collapse E i space tp = Some tp' \<Longrightarrow> same_mss tp tp'"
  by (auto simp: tcp_retrans_try_collapse_def Let_def split: if_splits dest: collapse_loop_mss)

lemma retrans_fit_mss:
  assumes "retrans_fit E i mss avail len tp = Some (err, tp')"
  shows "same_mss tp tp'"
proof -
  let ?s = "tcp_rtx_queue tp ! i"
  let ?s' = "tcp_set_skb_tso_segs ?s mss"
  define t where "t = (if int (unat (skb_pcount ?s)) - int (unat (skb_pcount ?s')) \<noteq> 0
    then tcp_adjust_pcount (set_rtx i ?s' tp) ?s' (int (unat (skb_pcount ?s)) - int (unat (skb_pcount ?s'))) else set_rtx i ?s' tp)"
  have "same_mss tp t" using set_rtx_mss same_mss_trans [OF set_rtx_mss adjust_pcount_mss] by (simp add: t_def)
  moreover have "tp' = tp \<or> tp' = t \<or> (\<exists>w. tcp_retrans_try_collapse E i w t = Some tp') \<or>
      (\<exists>r. tcp_fragment (re_seg E) TCP_FRAG_IN_RTX_QUEUE i len mss tp = (r, tp'))"
    using assms unfolding retrans_fit_def Let_def t_def [symmetric] by (auto split: if_splits option.splits prod.splits)
  ultimately show ?thesis
    using fragment_mss try_collapse_mss same_mss_trans by (metis (no_types) same_mss_refl)
qed

lemma retrans_trim_mss: "retrans_trim E i tp = (err, tp') \<Longrightarrow> same_mss tp tp'"
  by (auto simp: retrans_trim_def same_mss_def follow_hints_def set_rtx_def tcp_trim_head_def Let_def split: if_splits prod.splits)

lemma retransmit_mss:
  assumes "settled S tp" and run: "u_tcp_retransmit_skb S oe os key E i segs tp = Some (err, sent, tp')"
  shows "same_mss tp tp'"
proof -
  define t0 where "t0 = tp\<lparr>mtup_probe_size := 0\<rparr>"
  obtain busy t1 where t1: "skb_still_in_host_queue E t0 = (busy, t1)" by fastforce
  obtain e2 t2 where t2: "retrans_trim E i t1 = (e2, t2)" by fastforce
  obtain m t3 where t3: "tcp_current_mss S oe os key t2 = (m, t3)" by fastforce
  have m1: "same_mss tp t1" using t1 by (auto simp: skb_still_in_host_queue_def t0_def same_mss_def split: if_splits)
  have m2: "same_mss tp t2" by (rule same_mss_trans [OF m1 retrans_trim_mss [OF t2]])
  have t32: "t3 = t2" using settled_mss [OF settled_frame(1) [OF assms(1) m2], of oe os key] t3 by simp
  have send: "same_mss t t'" if "retrans_send E i t = (e, s, t')" for t t' e s
    using that by (auto simp: retrans_send_def set_rtx_def same_mss_def Let_def)
  have "tp' = t1 \<or> tp' = t2 \<or> (\<exists>a l e t. retrans_fit E i m a l t2 = Some (e, t) \<and>
      (tp' = t \<or> (\<exists>e' s'. retrans_send E i t = (e', s', tp'))))"
    using run unfolding u_tcp_retransmit_skb_def Let_def t0_def [symmetric] t1 prod.case t2 t3 t32
    by (auto split: if_splits option.splits prod.splits)
  then show ?thesis
    using m1 m2 send retrans_fit_mss same_mss_trans by metis
qed

lemma retransmit_skb_mss:
  assumes "settled S tp" and "tcp_retransmit_skb S oe os key E i segs tp = Some (err, sent, tp')"
  shows "same_mss tp tp'"
  using assms(2) retransmit_mss [OF assms(1)]
  by (auto simp: tcp_retransmit_skb_def set_rtx_def same_mss_def Let_def split: option.splits if_splits prod.splits)

section \<open>The walk\<close>

text \<open>What may go out: a lost segment that has neither been received nor sent again, within the window.\<close>

definition lawful :: "u32 \<Rightarrow> tcp_sock \<Rightarrow> sk_buff \<Rightarrow> bool" where
  "lawful mss tp h \<longleftrightarrow> may_send mss tp h \<and> has TCPCB_LOST h \<and> \<not> has TCPCB_SACKED_ACKED h \<and> \<not> has TCPCB_SACKED_RETRANS h"

text \<open>What a part of the walk guarantees.\<close>

definition walks :: "u32 \<Rightarrow> rq_state \<Rightarrow> rq_state \<Rightarrow> bool" where
  "walks mss L L' \<longleftrightarrow> rtx_inv (rq_sk L') \<and> unacked (rq_sk L') = unacked (rq_sk L) \<and> same_side (rq_sk L) (rq_sk L') \<and>
     same_mss (rq_sk L) (rq_sk L') \<and>
     (\<exists>hs. rq_sent L' = rq_sent L @ hs \<and> (\<forall>h \<in> set hs. lawful mss (rq_sk L) h)) \<and>
     (sack_ok (rq_sk L) \<longrightarrow> flight (tcp_rtx_queue (rq_sk L)) < 2 ^ 31 \<longrightarrow> unat (snd_cwnd (rq_sk L)) < 2 ^ 31 \<longrightarrow>
        flight (tcp_rtx_queue (rq_sk L')) \<le> max (flight (tcp_rtx_queue (rq_sk L))) (int (unat (snd_cwnd (rq_sk L)))))"

lemma walks_trans:
  assumes "walks mss L L'" and "walks mss L' L''"
  shows "walks mss L L''"
proof -
  have side: "same_side (rq_sk L) (rq_sk L')" using assms(1) by (simp add: walks_def)
  have law: "lawful mss (rq_sk L') h = lawful mss (rq_sk L) h" for h
    using may_send_frame [OF side] by (simp add: lawful_def)
  obtain hs where hs: "rq_sent L' = rq_sent L @ hs" "\<forall>h \<in> set hs. lawful mss (rq_sk L) h"
    using assms(1) unfolding walks_def by blast
  obtain hs' where "rq_sent L'' = rq_sent L' @ hs'" "\<forall>h \<in> set hs'. lawful mss (rq_sk L) h"
    using assms(2) unfolding walks_def law by blast
  with hs have sent: "\<exists>hs. rq_sent L'' = rq_sent L @ hs \<and> (\<forall>h \<in> set hs. lawful mss (rq_sk L) h)"
    by (intro exI [of _ "hs @ hs'"]) auto
  have "flight (tcp_rtx_queue (rq_sk L'')) \<le> max (flight (tcp_rtx_queue (rq_sk L))) (int (unat (snd_cwnd (rq_sk L))))"
    if c: "sack_ok (rq_sk L)" "flight (tcp_rtx_queue (rq_sk L)) < 2 ^ 31" "unat (snd_cwnd (rq_sk L)) < 2 ^ 31"
  proof -
    have c': "sack_ok (rq_sk L')" "snd_cwnd (rq_sk L') = snd_cwnd (rq_sk L)" using c side by (simp_all add: same_side_def)
    have f: "flight (tcp_rtx_queue (rq_sk L')) \<le> max (flight (tcp_rtx_queue (rq_sk L))) (int (unat (snd_cwnd (rq_sk L))))"
      using assms(1) c by (simp add: walks_def)
    have n: "unat (snd_cwnd (rq_sk L)) < 2147483648" "flight (tcp_rtx_queue (rq_sk L)) < 2147483648" using c by simp_all
    then have "flight (tcp_rtx_queue (rq_sk L')) < 2147483648" using f by linarith
    then have "flight (tcp_rtx_queue (rq_sk L')) < 2 ^ 31" by simp
    then have "flight (tcp_rtx_queue (rq_sk L'')) \<le> max (flight (tcp_rtx_queue (rq_sk L'))) (int (unat (snd_cwnd (rq_sk L))))"
      using assms(2) c' c(3) by (simp add: walks_def)
    with f show ?thesis by linarith
  qed
  with sent assms show ?thesis
    using same_side_trans same_mss_trans unfolding walks_def by (metis (no_types, lifting))
qed

lemma walks_frame:
  assumes "rtx_inv (rq_sk L)" and "same_side (rq_sk L) (rq_sk L')" and "tcp_rtx_queue (rq_sk L') = tcp_rtx_queue (rq_sk L)"
    and "same_counts (rq_sk L) (rq_sk L')" and "same_mss (rq_sk L) (rq_sk L')" and "rq_sent L' = rq_sent L"
  shows "walks mss L L'"
  using assms rtx_frame [OF assms(2-4)] by (simp add: walks_def)

text \<open>The quota of a round: positive, and within what the congestion window leaves.\<close>

lemma segs_quota:
  fixes max_segs cwnd fl :: u32
  defines "segs \<equiv> cwnd - fl"
  defines "n \<equiv> (if segs <s max_segs then segs else max_segs)"
  assumes "\<not> segs \<le>s 0" and ms: "0 < unat max_segs" "unat max_segs < 2 ^ 15"
  shows "0 < unat n" and "unat n < 2 ^ 15"
    and "fl = word_of_int f \<Longrightarrow> 0 \<le> f \<Longrightarrow> f < 2 ^ 31 \<Longrightarrow> unat cwnd < 2 ^ 31 \<Longrightarrow> f + int (unat n) \<le> int (unat cwnd)"
proof -
  have pos: "0 < sint segs" using assms(3) by (simp add: word_sle_eq)
  have seg: "sint segs = int (unat segs)" using sint_unat [of segs] pos by simp
  have small: "unat max_segs < 32768" using ms(2) by simp
  have "unat max_segs < 2 ^ 31" using small by simp
  note mx = sint_unat_small [OF this]
  have lt: "segs <s max_segs \<longleftrightarrow> unat segs < unat max_segs" using seg mx by (simp only: word_sless_alt of_nat_less_iff)
  show "0 < unat n" using pos seg ms lt unfolding n_def by (auto simp: unat_gt_0)
  show "unat n < 2 ^ 15" using lt ms by (auto simp: n_def)
  have le: "unat n \<le> unat segs" using lt by (auto simp: n_def)
  assume f: "fl = word_of_int f" "0 \<le> f" "f < 2 ^ 31" "unat cwnd < 2 ^ 31"
  have b: "f < 2147483648" "unat cwnd < 2147483648" using f by simp_all
  have "segs = word_of_int (int (unat cwnd) - f)" by (simp add: segs_def f(1))
  moreover have "- 2147483648 \<le> int (unat cwnd) - f" "int (unat cwnd) - f < 2147483648" using b f(2) by linarith+
  ultimately have "sint segs = int (unat cwnd) - f" using sint_word32 [of "int (unat cwnd) - f"] by simp
  with seg le show "f + int (unat n) \<le> int (unat cwnd)" by linarith
qed

lemma pacing_frame:
  assumes "tcp_pacing_check S tp = (w, t)"
  shows "same_side tp t" "tcp_rtx_queue t = tcp_rtx_queue tp" "same_counts tp t" "same_mss tp t"
  using assms
  by (auto simp: tcp_pacing_check_def log_call_def same_side_def same_counts_def same_mss_def split: if_splits)

lemma tsq_frame:
  assumes "tcp_small_queue_check S a b s f tp = (w, t)"
  shows "same_side tp t" "tcp_rtx_queue t = tcp_rtx_queue tp" "same_counts tp t" "same_mss tp t"
proof -
  have "t = tp \<or> t = tp\<lparr>tsq_throttled := True\<rparr>"
    using assms unfolding tcp_small_queue_check_def Let_def by (auto split: if_splits)
  then show "same_side tp t" "tcp_rtx_queue t = tcp_rtx_queue tp" "same_counts tp t" "same_mss tp t"
    by (auto simp: same_side_def same_counts_def same_mss_def)
qed

lemma same_counts_trans: "same_counts a b \<Longrightarrow> same_counts b c \<Longrightarrow> same_counts a c"
  by (simp add: same_counts_def)

text \<open>What a round leaves for the next one.\<close>

definition goes_on :: "u32 \<Rightarrow> nat \<Rightarrow> rq_state \<Rightarrow> rq_state \<Rightarrow> bool" where
  "goes_on mss j L L' \<longleftrightarrow>
     weight (drop (Suc j) (tcp_rtx_queue (rq_sk L'))) < weight (drop j (tcp_rtx_queue (rq_sk L))) \<and>
     (\<forall>n \<in> set (drop (Suc j) (tcp_rtx_queue (rq_sk L'))). countable mss n)"

lemma goes_on_same:
  assumes "tcp_rtx_queue (rq_sk L') = tcp_rtx_queue (rq_sk L)" and "j < length (tcp_rtx_queue (rq_sk L))"
    and "\<forall>s \<in> set (drop j (tcp_rtx_queue (rq_sk L))). countable mss s"
  shows "goes_on mss j L L'"
  using assms by (simp add: goes_on_def Cons_nth_drop_Suc [symmetric])

text \<open>The transmission of a round.\<close>

lemma round_sends:
  assumes E: "splits_pages (re_seg E)" "shifts E" and inv: "rtx_inv (rq_sk L)" and j: "j < length (tcp_rtx_queue (rq_sk L))"
    and st: "settled S (rq_sk L)" and mss: "mss = fst (tcp_current_mss S oe os key (rq_sk L))" and m: "0 < mss" "mss < 2 ^ 16"
    and n: "unat n < 2 ^ 15" "0 < unat n" and cnt: "\<forall>s \<in> set (drop j (tcp_rtx_queue (rq_sk L))). countable mss s"
    and skb: "skb = tcp_rtx_queue (rq_sk L) ! j" "has TCPCB_LOST skb" "\<not> has TCPCB_SACKED_ACKED skb" "\<not> has TCPCB_SACKED_RETRANS skb"
    and fl: "sack_ok (rq_sk L) \<Longrightarrow> flight (tcp_rtx_queue (rq_sk L)) < 2 ^ 31 \<Longrightarrow> unat (snd_cwnd (rq_sk L)) < 2 ^ 31 \<Longrightarrow>
      flight (tcp_rtx_queue (rq_sk L)) + int (unat n) \<le> int (unat (snd_cwnd (rq_sk L)))"
  obtains err sent t where "tcp_retransmit_skb S oe os key E j n (rq_sk L) = Some (err, sent, t)"
    "\<And>L'. rq_sent L' = rq_sent L @ (case sent of None \<Rightarrow> [] | Some h \<Rightarrow> [h]) \<Longrightarrow> rq_sk L' = t \<Longrightarrow> walks mss L L' \<and> goes_on mss j L L'"
proof -
  let ?tp = "rq_sk L"
  have un: "\<not> has TCPCB_SACKED_RETRANS (tcp_rtx_queue ?tp ! j)" using skb by simp
  have zero: "contrib (tcp_rtx_queue ?tp ! j) = 0" using skb by (simp add: contrib_def)
  obtain err sent t h ys' where r: "tcp_retransmit_skb S oe os key E j n ?tp = Some (err, sent, t)"
    "rtx_inv t" "unacked t = unacked ?tp" "same_side ?tp t"
    "tcp_rtx_queue t = take j (tcp_rtx_queue ?tp) @ h # ys'" "has TCPCB_SACKED_RETRANS h \<longleftrightarrow> err = 0"
    "weight ys' < weight (drop j (tcp_rtx_queue ?tp))" "\<forall>n \<in> set ys'. countable mss n"
    "contrib (tcp_rtx_queue ?tp ! j) = 0 \<Longrightarrow>
       flight (tcp_rtx_queue t) \<le> flight (tcp_rtx_queue ?tp) + (if err = 0 then int (unat n) else 0)"
    "sent = None \<Longrightarrow> err \<in> {- EBUSY, - ENOMEM, - EHOSTUNREACH, - EAGAIN}"
    "\<And>h0. sent = Some h0 \<Longrightarrow> err = re_err E \<and> may_send mss ?tp h0 \<and> unat (skb_pcount h0) \<le> unat n \<and>
       same_marks (tcp_rtx_queue ?tp ! j) h0"
    by (rule retransmit_counted [OF E inv j mss m n cnt un]) (rule that)
  have law: "\<forall>h \<in> set (case sent of None \<Rightarrow> [] | Some h \<Rightarrow> [h]). lawful mss ?tp h"
    using r(11) skb by (auto simp: lawful_def same_marks_def split: option.splits)
  have "drop (Suc j) (tcp_rtx_queue t) = ys'" using r(5) j by simp
  then have go: "weight (drop (Suc j) (tcp_rtx_queue t)) < weight (drop j (tcp_rtx_queue ?tp)) \<and>
      (\<forall>n \<in> set (drop (Suc j) (tcp_rtx_queue t)). countable mss n)" using r(7,8) by simp
  have "flight (tcp_rtx_queue t) \<le> max (flight (tcp_rtx_queue ?tp)) (int (unat (snd_cwnd ?tp)))"
    if "sack_ok ?tp" "flight (tcp_rtx_queue ?tp) < 2 ^ 31" "unat (snd_cwnd ?tp) < 2 ^ 31"
    using fl [OF that] r(9) [OF zero] by (simp split: if_splits)
  with law go r retransmit_skb_mss [OF st r(1)] show thesis
    by (intro that [OF r(1)]) (auto simp: walks_def goes_on_def)
qed

lemma marks_sacked:
  "skb_sacked s AND TCPCB_LOST = 0 \<longleftrightarrow> \<not> has TCPCB_LOST s"
  "skb_sacked s AND (TCPCB_SACKED_ACKED OR TCPCB_SACKED_RETRANS) \<noteq> 0 \<longleftrightarrow> has TCPCB_SACKED_ACKED s \<or> has TCPCB_SACKED_RETRANS s"
  by (simp_all add: has_def bit.conj_disj_distrib or_eq_0_iff)

text \<open>Both end in one of three ways.\<close>

definition fine :: "u32 \<Rightarrow> nat \<Rightarrow> rq_state \<Rightarrow> rq_result \<Rightarrow> bool" where
  "fine mss j L r \<longleftrightarrow> (case r of RBug \<Rightarrow> False | RStop L' \<Rightarrow> walks mss L L' | RNext L' \<Rightarrow> walks mss L L' \<and> goes_on mss j L L')"

lemma retrans_emit_fine:
  assumes E: "splits_pages (re_seg (ra_env a))" "shifts (ra_env a)" and inv: "rtx_inv (rq_sk L)" and j: "j < length (tcp_rtx_queue (rq_sk L))"
    and st: "settled S (rq_sk L)" and mss: "mss = fst (tcp_current_mss S oe os key (rq_sk L))" and m: "0 < mss" "mss < 2 ^ 16"
    and n: "unat n < 2 ^ 15" "0 < unat n" and cnt: "\<forall>s \<in> set (drop j (tcp_rtx_queue (rq_sk L))). countable mss s"
    and skb: "skb = tcp_rtx_queue (rq_sk L) ! j" "has TCPCB_LOST skb" "\<not> has TCPCB_SACKED_ACKED skb" "\<not> has TCPCB_SACKED_RETRANS skb"
    and fl: "sack_ok (rq_sk L) \<Longrightarrow> flight (tcp_rtx_queue (rq_sk L)) < 2 ^ 31 \<Longrightarrow> unat (snd_cwnd (rq_sk L)) < 2 ^ 31 \<Longrightarrow>
      flight (tcp_rtx_queue (rq_sk L)) + int (unat n) \<le> int (unat (snd_cwnd (rq_sk L)))"
  shows "fine mss j L (retrans_emit S oe os key reo a j n L)"
proof -
  obtain thr t where t: "tcp_small_queue_check S (ra_alloc1 a) (ra_alloc2 a) skb 1 (rq_sk L) = (thr, t)" by fastforce
  note f = tsq_frame [OF t]
  define L1 where "L1 = L\<lparr>rq_sk := t\<rparr>"
  have sk: "rq_sk L1 = t" "rq_sent L1 = rq_sent L" by (simp_all add: L1_def)
  have w1: "walks mss L L1" using f by (intro walks_frame [OF inv]) (simp_all add: sk)
  have inv1: "rtx_inv (rq_sk L1)" using w1 by (simp add: walks_def)
  have eq: "settled S (rq_sk L1)" "mss = fst (tcp_current_mss S oe os key (rq_sk L1))" "tcp_rtx_queue (rq_sk L1) = tcp_rtx_queue (rq_sk L)"
    using settled_frame [OF st, of t] f mss by (simp_all add: sk)
  have fl1: "flight (tcp_rtx_queue (rq_sk L1)) + int (unat n) \<le> int (unat (snd_cwnd (rq_sk L1)))"
    if "sack_ok (rq_sk L1)" "flight (tcp_rtx_queue (rq_sk L1)) < 2 ^ 31" "unat (snd_cwnd (rq_sk L1)) < 2 ^ 31"
    using that fl f(1) by (simp add: sk eq(3) [unfolded sk] same_side_def)
  have j1: "j < length (tcp_rtx_queue (rq_sk L1))" "\<forall>s \<in> set (drop j (tcp_rtx_queue (rq_sk L1))). countable mss s"
    "skb = tcp_rtx_queue (rq_sk L1) ! j" using j cnt skb(1) by (simp_all only: eq(3))
  obtain err sent t' where r: "tcp_retransmit_skb S oe os key (ra_env a) j n (rq_sk L1) = Some (err, sent, t')"
    "\<And>L'. rq_sent L' = rq_sent L1 @ (case sent of None \<Rightarrow> [] | Some h \<Rightarrow> [h]) \<Longrightarrow> rq_sk L' = t' \<Longrightarrow> walks mss L1 L' \<and> goes_on mss j L1 L'"
    by (rule round_sends [OF E inv1 j1(1) eq(1,2) m n j1(2,3) skb(2-4)]) (rule fl1, assumption+, rule that)
  define L4 where "L4 = L1\<lparr>rq_sk := t', rq_sent := rq_sent L1 @ (case sent of None \<Rightarrow> [] | Some h \<Rightarrow> [h])\<rparr>"
  define t5 where "t5 = (if icsk_ca_state t' = TCP_CA_CWR \<or> icsk_ca_state t' = TCP_CA_Recovery
     then t'\<lparr>prr_out := prr_out t' + ucast (skb_pcount (tcp_rtx_queue t' ! j))\<rparr> else t')"
  define L5 where "L5 = L4\<lparr>rq_sk := t5, rq_rearm := rq_rearm L4 \<or> j = 0 \<and> \<not> reo\<rparr>"
  have w4: "walks mss L1 L4" "goes_on mss j L1 L4" using r(2) [of L4] by (simp_all add: L4_def)
  have f5: "same_side t' t5" "tcp_rtx_queue t5 = tcp_rtx_queue t'" "same_counts t' t5" "same_mss t' t5"
    by (simp_all add: t5_def same_side_def same_counts_def same_mss_def)
  have "walks mss L4 L5"
    using w4(1) f5 by (intro walks_frame) (simp_all add: L4_def L5_def walks_def)
  then have w5: "walks mss L L5" "goes_on mss j L L5" "walks mss L L4"
    using walks_trans [OF w1 walks_trans [OF w4(1)]] walks_trans [OF w1 w4(1)] w4(2) f5(2) eq(3)
    by (simp_all add: goes_on_def L4_def L5_def)
  have "retrans_emit S oe os key reo a j n L = (if thr then RStop L1 else if err \<noteq> 0 then RStop L4 else RNext L5)"
    using r(1) unfolding retrans_emit_def skb(1) [symmetric] Let_def t prod.case L1_def [symmetric] sk
    by (simp add: L5_def L4_def t5_def sk)
  with w1 w5 show ?thesis by (simp add: fine_def)
qed

lemma retrans_round_fine:
  assumes E: "splits_pages (re_seg (ra_env a))" "shifts (ra_env a)" and inv: "rtx_inv (rq_sk L)" and j: "j < length (tcp_rtx_queue (rq_sk L))"
    and st: "settled S (rq_sk L)" and mss: "mss = fst (tcp_current_mss S oe os key (rq_sk L))" and m: "0 < mss" "mss < 2 ^ 16"
    and ms: "0 < unat max_segs" "unat max_segs < 2 ^ 15" and cnt: "\<forall>s \<in> set (drop j (tcp_rtx_queue (rq_sk L))). countable mss s"
  shows "fine mss j L (retrans_round S oe os key max_segs reo a j L)"
proof -
  obtain wait t1 where t1: "tcp_pacing_check S (rq_sk L) = (wait, t1)" by fastforce
  note f1 = pacing_frame [OF t1]
  define skb where "skb = tcp_rtx_queue (rq_sk L) ! j"
  define t2 where "t2 = (if rq_hole L then t1 else t1\<lparr>retransmit_skb_hint := Some (skb_seq skb)\<rparr>)"
  define L2 where "L2 = L\<lparr>rq_sk := t2\<rparr>"
  define segs where "segs = snd_cwnd t2 - tcp_packets_in_flight t2"
  define n where "n = (if segs <s max_segs then segs else max_segs)"
  have f2: "same_side (rq_sk L) t2" "tcp_rtx_queue t2 = tcp_rtx_queue (rq_sk L)" "same_counts (rq_sk L) t2" "same_mss (rq_sk L) t2"
    using f1 by (simp_all add: t2_def same_side_def same_counts_def same_mss_def)
  have sk: "rq_sk L2 = t2" "rq_sent L2 = rq_sent L" by (simp_all add: L2_def)
  have w1: "walks mss L (L\<lparr>rq_sk := t1\<rparr>)" and w2: "walks mss L L2" "walks mss L (L2\<lparr>rq_hole := True\<rparr>)"
    using f1 f2 by (auto intro!: walks_frame [OF inv] simp: sk)
  have g2: "goes_on mss j L L2" "goes_on mss j L (L2\<lparr>rq_hole := True\<rparr>)"
    using f2(2) by (auto intro!: goes_on_same [OF _ j cnt] simp: sk)
  have inv2: "rtx_inv (rq_sk L2)" using w2(1) by (simp add: walks_def)
  have emit: "fine mss j L (retrans_emit S oe os key reo a j n L2)"
    if pos: "\<not> segs \<le>s 0" and mk: "has TCPCB_LOST skb" "\<not> has TCPCB_SACKED_ACKED skb" "\<not> has TCPCB_SACKED_RETRANS skb"
  proof -
    note quota = segs_quota [OF pos [unfolded segs_def] ms, folded segs_def, folded n_def]
    have "flight (tcp_rtx_queue t2) + int (unat n) \<le> int (unat (snd_cwnd t2))"
      if "sack_ok t2" "flight (tcp_rtx_queue t2) < 2 ^ 31" "unat (snd_cwnd t2) < 2 ^ 31"
      using quota(3) [OF in_flight_eq _ that(2,3)] inv2 that(1) flight_nonneg contrib_nonneg
      by (metis rtx_inv_def sk(1))
    then have "fine mss j L2 (retrans_emit S oe os key reo a j n L2)"
      using settled_frame [OF st f2(4)] j cnt mss f2(2) mk
      by (intro retrans_emit_fine [OF E inv2 _ _ _ m quota(2,1), where skb = skb]) (auto simp: sk skb_def)
    then show ?thesis
      using f2(2) walks_trans [OF w2(1)] by (auto simp: fine_def goes_on_def sk split: rq_result.splits)
  qed
  have "retrans_round S oe os key max_segs reo a j L =
    (if wait then RStop (L\<lparr>rq_sk := t1\<rparr>) else if segs \<le>s 0 then RStop L2
     else if retrans_out t2 \<ge> lost_out t2 then RStop L2
     else if \<not> has TCPCB_LOST skb then
       RNext (if \<not> rq_hole L2 \<and> skb_sacked skb AND (TCPCB_SACKED_RETRANS OR TCPCB_SACKED_ACKED) = 0 then L2\<lparr>rq_hole := True\<rparr> else L2)
     else if has TCPCB_SACKED_ACKED skb \<or> has TCPCB_SACKED_RETRANS skb then RNext L2
     else retrans_emit S oe os key reo a j n L2)"
    unfolding retrans_round_def t1 f1(2) skb_def [symmetric] Let_def prod.case t2_def [symmetric] L2_def [symmetric]
      segs_def [symmetric] n_def [symmetric] marks_sacked ..
  with w1 w2 g2 emit show ?thesis by (auto simp: fine_def)
qed

lemma retrans_loop_walks:
  assumes "\<forall>a \<in> set as. splits_pages (re_seg (ra_env a)) \<and> shifts (ra_env a)" and "rtx_inv (rq_sk L)" and "settled S (rq_sk L)"
    and "mss = fst (tcp_current_mss S oe os key (rq_sk L))" and m: "0 < mss" "mss < 2 ^ 16"
    and ms: "0 < unat max_segs" "unat max_segs < 2 ^ 15" and "\<forall>s \<in> set (drop j (tcp_rtx_queue (rq_sk L))). countable mss s"
    and "weight (drop j (tcp_rtx_queue (rq_sk L))) \<le> length as"
  shows "\<exists>L'. retrans_loop S oe os key max_segs reo as j L = Some (RStop L') \<and> walks mss L L'"
  using assms(1-4,9,10)
proof (induction "as" arbitrary: j L)
  case Nil
  then have "length (tcp_rtx_queue (rq_sk L)) \<le> j" by (simp add: weight_def)
  with Nil walks_frame [of L L] show ?case by (simp add: same_counts_def)
next
  case (Cons a as)
  show ?case
  proof (cases "length (tcp_rtx_queue (rq_sk L)) \<le> j")
    case True
    with Cons walks_frame [of L L] show ?thesis by (simp add: same_counts_def)
  next
    case False
    have f: "fine mss j L (retrans_round S oe os key max_segs reo a j L)"
      using Cons.prems False by (intro retrans_round_fine [OF _ _ _ _ _ _ m ms]) simp_all
    show ?thesis
    proof (cases "retrans_round S oe os key max_segs reo a j L")
      case RBug
      with f show ?thesis by (simp add: fine_def)
    next
      case (RStop L')
      with f False show ?thesis by (simp add: fine_def)
    next
      case (RNext L')
      with f have w: "walks mss L L'" "goes_on mss j L L'" by (simp_all add: fine_def)
      have "\<exists>L''. retrans_loop S oe os key max_segs reo as (Suc j) L' = Some (RStop L'') \<and> walks mss L' L''"
        using Cons.prems w settled_frame [OF Cons.prems(3), of "rq_sk L'"]
        by (intro Cons.IH) (auto simp: walks_def goes_on_def)
      with w RNext False walks_trans [OF w(1)] show ?thesis by auto
    qed
  qed
qed

lemma retransmit_queue_walks:
  assumes "\<forall>a \<in> set as. splits_pages (re_seg (ra_env a)) \<and> shifts (ra_env a)" and inv: "rtx_inv tp"
    and mss: "mss = fst (tcp_current_mss S oe os key tp)" "0 < mss" "mss < 2 ^ 16"
    and ms: "0 < unat (tcp_tso_segs S mss)" "unat (tcp_tso_segs S mss) < 2 ^ 15"
    and cnt: "\<forall>s \<in> set (tcp_rtx_queue tp). countable mss s" and fuel: "weight (tcp_rtx_queue tp) \<le> length as"
  obtains L where "tcp_xmit_retransmit_queue S oe os key reo as tp = Some (RStop L)" "rtx_inv (rq_sk L)"
    "unacked (rq_sk L) = unacked tp" "same_side tp (rq_sk L)" "\<forall>h \<in> set (rq_sent L). lawful mss tp h"
    "sack_ok tp \<Longrightarrow> flight (tcp_rtx_queue tp) < 2 ^ 31 \<Longrightarrow> unat (snd_cwnd tp) < 2 ^ 31 \<Longrightarrow>
       flight (tcp_rtx_queue (rq_sk L)) \<le> max (flight (tcp_rtx_queue tp)) (int (unat (snd_cwnd tp)))"
proof (cases "packets_out tp = 0")
  case True
  then show thesis
    using inv by (intro that [of "\<lparr>rq_sk = tp, rq_hole = False, rq_rearm = False, rq_sent = []\<rparr>"])
      (simp_all add: tcp_xmit_retransmit_queue_def)
next
  case False
  obtain t where t: "tcp_current_mss S oe os key tp = (mss, t)" using mss(1) by (metis prod.collapse)
  note f = current_mss_frame [OF t]
  define L0 where "L0 = \<lparr>rq_sk = t, rq_hole = False, rq_rearm = False, rq_sent = []\<rparr>"
  have inv0: "rtx_inv (rq_sk L0)" "unacked (rq_sk L0) = unacked tp" "tcp_rtx_queue (rq_sk L0) = tcp_rtx_queue tp" "same_side tp (rq_sk L0)"
    using rtx_frame [OF f] inv f by (simp_all add: L0_def)
  have st: "settled S (rq_sk L0)" "mss = fst (tcp_current_mss S oe os key (rq_sk L0))"
    using settles [OF t] current_mss_again [OF t] by (simp_all add: L0_def)
  have "weight (drop k q) \<le> weight q" for k q
    by (metis append_take_drop_id le_add2 map_append sum_list_append weight_def)
  with fuel have fuel0: "weight (drop (hint_pos tp) (tcp_rtx_queue (rq_sk L0))) \<le> length as"
    unfolding inv0(3) using le_trans by blast
  have cnt0: "\<forall>s \<in> set (drop (hint_pos tp) (tcp_rtx_queue (rq_sk L0))). countable mss s"
    using cnt in_set_dropD unfolding inv0(3) by fast
  from retrans_loop_walks [OF assms(1) inv0(1) st mss(2,3) ms cnt0 fuel0, of reo]
  obtain L' where L': "retrans_loop S oe os key (tcp_tso_segs S mss) reo as (hint_pos tp) L0 = Some (RStop L')" "walks mss L0 L'" by blast
  define L where "L = (if rq_rearm L' then L'\<lparr>rq_sk := log_call (Retrans_timer (icsk_rto (rq_sk L'))) (rq_sk L')\<rparr> else L')"
  have inv': "rtx_inv (rq_sk L')" using L'(2) by (simp add: walks_def)
  have "walks mss L' L"
    by (rule walks_frame [OF inv']) (simp_all add: L_def log_call_def same_side_def same_counts_def same_mss_def)
  with L'(2) have w: "walks mss L0 L" by (rule walks_trans)
  have "lawful mss (rq_sk L0) h = lawful mss tp h" for h
    using may_send_frame [OF inv0(4)] by (simp add: lawful_def)
  with w have sent: "\<forall>h \<in> set (rq_sent L). lawful mss tp h" by (auto simp: walks_def L0_def)
  have run: "tcp_xmit_retransmit_queue S oe os key reo as tp = Some (RStop L)"
    using L'(1) False unfolding tcp_xmit_retransmit_queue_def t by (simp add: Let_def L0_def [symmetric] L_def)
  show thesis
    using w inv0 sent same_side_trans [OF inv0(4)] by (intro that [OF run]) (auto simp: walks_def same_side_def)
qed

end
