(* ===== verification/Props_Retrans.thy ===== *)
theory Props_Retrans
  imports Retrans_Walk Props_Send Props_Options
begin

text \<open>
  The properties of retransmission.
\<close>

section \<open>An example\<close>

text \<open>Three segments are in flight: the first is lost and partly acknowledged, the second has been
  received, and the third, of two packets, is lost.\<close>

definition rx_oe :: opt_env where "rx_oe = demo_env\<lparr>e_bpf_flag := False\<rparr>"

definition rx_os :: opt_sock where "rx_os = demo_opt_sock\<lparr>os_num_sacks := 0, os_dsack := False\<rparr>"

definition rx_env :: rtx_env where
  "rx_env = \<lparr>re_busy1 = False, re_busy2 = False, re_rebuild = 0, re_seg = tx_seg, re_cloned = (\<lambda>s. False),
     re_zcopy_pure = (\<lambda>s. False), re_can_collapse = (\<lambda>a b. True),
     re_shift = (\<lambda>a b. Some (a\<lparr>skb_frags := skb_frags a @ skb_frags b\<rparr>, b\<lparr>skb_frags := []\<rparr>)),
     re_retrans_collapse = True, re_ecn_fallback = True, re_err = 0, re_stamp = 5\<rparr>"

definition rx_ans :: rq_ans where
  "rx_ans = \<lparr>ra_env = rx_env, ra_alloc1 = 0, ra_alloc2 = 0\<rparr>"

definition rx_sock :: tcp_sock where
  "rx_sock = tx_sock\<lparr>sk_write_queue := [],
     tcp_rtx_queue := [tx_skb 20 10 TCPHDR_ACK 1\<lparr>skb_sacked := TCPCB_LOST\<rparr>,
       tx_skb 30 10 TCPHDR_ACK 1\<lparr>skb_sacked := TCPCB_SACKED_ACKED\<rparr>, tx_skb 40 15 TCPHDR_ACK 2\<lparr>skb_sacked := TCPCB_LOST\<rparr>],
     snd_una := 24, snd_nxt := 55, packets_out := 4, sacked_out := 1, lost_out := 3\<rparr>"

lemma rx_queue:
  "tcp_rtx_queue rx_sock = [tx_skb 20 10 TCPHDR_ACK 1\<lparr>skb_sacked := TCPCB_LOST\<rparr>,
     tx_skb 30 10 TCPHDR_ACK 1\<lparr>skb_sacked := TCPCB_SACKED_ACKED\<rparr>, tx_skb 40 15 TCPHDR_ACK 2\<lparr>skb_sacked := TCPCB_LOST\<rparr>]"
  by (simp add: rx_sock_def)

lemma rx_span: "span (tx_skb q n fl c\<lparr>skb_sacked := x\<rparr>) = span (tx_skb q n fl c)"
  by (simp add: span_def)

lemma rx_syn: "TCPHDR_ACK AND TCPHDR_SYN = 0"
  unfolding TCPHDR_ACK_def TCPHDR_SYN_def by simp

lemma rx_marks: "TCPCB_LOST \<noteq> 0" "TCPCB_SACKED_ACKED \<noteq> 0" "TCPCB_LOST AND TCPCB_SACKED_ACKED = 0"
  "TCPCB_SACKED_ACKED AND TCPCB_LOST = 0" "TCPCB_LOST AND TCPCB_SACKED_RETRANS = 0" "TCPCB_SACKED_ACKED AND TCPCB_SACKED_RETRANS = 0"
  unfolding TCPCB_LOST_def TCPCB_SACKED_ACKED_def TCPCB_SACKED_RETRANS_def by simp_all

lemma rx_rtx_inv: "rtx_inv rx_sock"
  unfolding rtx_inv_def
proof (intro conjI)
  show "seg_inv rx_sock" by (simp add: seg_inv_def rx_sock_def tx_skb_fields tx_flags rx_span)
  show "rtx_ok (tcp_rtx_queue rx_sock)" by (simp add: rtx_ok_def rx_queue tx_skb_fields tx_flags rx_syn rx_marks has_def)
  show "acked_ok (snd_una rx_sock) (tcp_rtx_queue rx_sock)" by (simp add: acked_ok_def rx_sock_def tx_skb_fields)
  show "scored rx_sock" unfolding scored_def rx_queue by (simp add: rx_sock_def tx_sock_def tx_skb_fields has_def rx_marks)
  show "unat (snd_wnd rx_sock) < 2 ^ 31" by (simp add: rx_sock_def tx_sock_def)
qed

lemma rx_mss: "tcp_current_mss tx_senv rx_oe rx_os KEY_NONE rx_sock = (10, rx_sock)"
  by (simp add: tcp_current_mss_def tx_senv_def rx_sock_def tx_sock_def rx_oe_def rx_os_def demo_env_def demo_opt_sock_def
      tcp_established_options_def est_fixed_options_def sack_set_option_def no_options_def Let_def TCPOLEN_TSTAMP_ALIGNED_def)

lemma rx_tso: "tcp_tso_segs tx_senv 10 = 6553"
  by (simp add: tcp_tso_segs_def tcp_tso_autosize_def tx_senv_def Let_def)

lemma rx_countable: "\<forall>s \<in> set (tcp_rtx_queue rx_sock). countable 10 s"
  by (simp add: rx_queue countable_def seg_count_def tx_skb_fields)

lemma rx_weight: "weight (tcp_rtx_queue rx_sock) = 38"
  by (simp add: rx_queue tx_skb_fields tx_flags rx_span)

lemma rx_shifts: "shifts rx_env"
  unfolding shifts_def
proof (intro allI impI)
  fix a b a' b' assume "re_shift rx_env a b = Some (a', b')"
  then have "a' = a\<lparr>skb_frags := skb_frags a @ skb_frags b\<rparr>" "b' = b\<lparr>skb_frags := []\<rparr>" by (auto simp: rx_env_def)
  then show "\<exists>fs t gs u. a' = a\<lparr>skb_frags := fs, skb_truesize := t\<rparr> \<and> b' = b\<lparr>skb_frags := gs, skb_truesize := u\<rparr> \<and>
      concat fs = skb_data a @ skb_data b"
    by (intro exI [of _ "skb_frags a @ skb_frags b"] exI [of _ "skb_truesize a"] exI [of _ "[]"] exI [of _ "skb_truesize b"]) simp
qed

lemma rx_splits: "splits_pages (re_seg rx_env)"
  by (simp add: rx_env_def tx_splits)

lemma rx_unmarked: "\<not> has TCPCB_SACKED_RETRANS (tcp_rtx_queue rx_sock ! 0)"
  by (simp add: rx_queue has_def rx_marks)

lemma rx_answers: "\<forall>a \<in> set (replicate n rx_ans). splits_pages (re_seg (ra_env a)) \<and> shifts (ra_env a)"
  using rx_splits rx_shifts by (simp add: rx_ans_def)


section \<open>One segment\<close>



text \<open>C27: a retransmission keeps the bytes that the peer has not acknowledged, in order and without gaps, even
  when it cuts acknowledged data off, splits the segment or merges its neighbours into it; the counters
  of received, lost and retransmitted packets remain exact, and the segment counts as retransmitted
  exactly if the call succeeds.\<close>

theorem retransmit_keeps_scoreboard:
  assumes "splits_pages (re_seg E)" and "shifts E" and "rtx_inv tp" and "i < length (tcp_rtx_queue tp)"
    and "mss = fst (tcp_current_mss S oe os key tp)" and "0 < mss" and "mss < 2 ^ 16" and "unat segs < 2 ^ 15" and "0 < unat segs"
    and "\<forall>s \<in> set (drop i (tcp_rtx_queue tp)). countable mss s" and "\<not> has TCPCB_SACKED_RETRANS (tcp_rtx_queue tp ! i)"
  shows "\<exists>err sent tp'. tcp_retransmit_skb S oe os key E i segs tp = Some (err, sent, tp') \<and>
    rtx_inv tp' \<and> unacked tp' = unacked tp \<and> take i (tcp_rtx_queue tp') = take i (tcp_rtx_queue tp) \<and>
    (has TCPCB_SACKED_RETRANS (tcp_rtx_queue tp' ! i) \<longleftrightarrow> err = 0) \<and>
    snd_nxt tp' = snd_nxt tp \<and> snd_una tp' = snd_una tp \<and> sk_write_queue tp' = sk_write_queue tp"
proof (rule retransmit_counted [OF assms])
  fix err sent tp' h ys'
  assume r: "tcp_retransmit_skb S oe os key E i segs tp = Some (err, sent, tp')" "rtx_inv tp'" "unacked tp' = unacked tp"
    "same_side tp tp'" "tcp_rtx_queue tp' = take i (tcp_rtx_queue tp) @ h # ys'" "has TCPCB_SACKED_RETRANS h \<longleftrightarrow> err = 0"
  have i: "length (take i (tcp_rtx_queue tp)) = i" using assms(4) by simp
  then have "tcp_rtx_queue tp' ! i = h" "take i (tcp_rtx_queue tp') = take i (tcp_rtx_queue tp)"
    using r(5) by (metis nth_append_length, simp)
  with r show ?thesis by (auto simp: same_side_def)
qed

theorem retransmit_keeps_scoreboard_witness:
  "\<exists>err sent tp'. tcp_retransmit_skb tx_senv rx_oe rx_os KEY_NONE rx_env 0 2 rx_sock = Some (err, sent, tp') \<and>
     rtx_inv tp' \<and> unacked tp' = unacked rx_sock \<and> (has TCPCB_SACKED_RETRANS (tcp_rtx_queue tp' ! 0) \<longleftrightarrow> err = 0)"
proof -
  have "0 < length (tcp_rtx_queue rx_sock)" by (simp add: rx_sock_def)
  then show ?thesis
    using retransmit_keeps_scoreboard [OF rx_splits rx_shifts rx_rtx_inv, of 0 10 tx_senv rx_oe rx_os KEY_NONE 2]
      rx_mss rx_countable rx_unmarked
    by fastforce
qed

section \<open>The walk over the queue\<close>

text \<open>C28: with an answer for every byte and segment in flight, \<open>tcp_xmit_retransmit_queue\<close> returns without
  striking a \<open>BUG_ON\<close>, although it splits and merges the segments it walks over, and keeps the
  unacknowledged bytes and the counters.\<close>

theorem retransmit_queue_returns:
  assumes "\<forall>a \<in> set as. splits_pages (re_seg (ra_env a)) \<and> shifts (ra_env a)" and "rtx_inv tp"
    and "mss = fst (tcp_current_mss S oe os key tp)" and "0 < mss" and "mss < 2 ^ 16"
    and "0 < unat (tcp_tso_segs S mss)" and "unat (tcp_tso_segs S mss) < 2 ^ 15"
    and "\<forall>s \<in> set (tcp_rtx_queue tp). countable mss s" and "weight (tcp_rtx_queue tp) \<le> length as"
  shows "\<exists>L. tcp_xmit_retransmit_queue S oe os key reo as tp = Some (RStop L) \<and> rtx_inv (rq_sk L) \<and>
    unacked (rq_sk L) = unacked tp \<and> snd_nxt (rq_sk L) = snd_nxt tp \<and> sk_write_queue (rq_sk L) = sk_write_queue tp"
  by (rule retransmit_queue_walks [OF assms, of reo]) (auto simp: same_side_def)

theorem retransmit_queue_returns_witness:
  "\<exists>L. tcp_xmit_retransmit_queue tx_senv rx_oe rx_os KEY_NONE False (replicate 38 rx_ans) rx_sock = Some (RStop L) \<and>
     rtx_inv (rq_sk L) \<and> unacked (rq_sk L) = unacked rx_sock"
  using retransmit_queue_returns [OF rx_answers [of 38] rx_rtx_inv, of 10 tx_senv rx_oe rx_os KEY_NONE False]
    rx_mss rx_tso rx_countable rx_weight
  by fastforce



end
