(* ===== verification/Tcp_Transmit.thy ===== *)
theory Tcp_Transmit
  imports Tcp_Send Rwnd_Select
begin

text \<open>
  The transmission of a segment (\<open>__tcp_transmit_skb\<close>): the options and the header are put in front of the
  data, the receive window is selected, the signature and the checksum are filled in, and the packet goes to
  IP.  Here the three parts of the socket meet: the sending part \<open>tcp_sock\<close>, the receiving part \<open>sock\<close> with
  the window controller, and the part the options are made of.  What other parts of the kernel answer is
  the record \<open>tx_env\<close>.
\<close>

section \<open>State\<close>

definition TCPHDR_RST :: u8 where "TCPHDR_RST = 0x04"
definition TCPHDR_URG :: u8 where "TCPHDR_URG = 0x20"
definition TCP_ECN_OK :: u8 where "TCP_ECN_OK = 1"
definition TCP_ECN_QUEUE_CWR :: u8 where "TCP_ECN_QUEUE_CWR = 2"
definition TCP_ECN_DEMAND_CWR :: u8 where "TCP_ECN_DEMAND_CWR = 4"
definition ENOBUFS :: int where "ENOBUFS = 105"
definition NSEC_PER_SEC :: u64 where "NSEC_PER_SEC = 1000000000"

text \<open>The header; \<open>th_word\<close> is the 16 bit word of the data offset and the flags.\<close>

record tcphdr =
  th_source :: u16
  th_dest :: u16
  th_seq :: u32
  th_ack_seq :: u32
  th_word :: u16
  th_window :: u16
  th_check :: u16
  th_urg_ptr :: u16

record packet =
  pk_hdr :: tcphdr
  pk_opts :: opt_bytes
  pk_data :: "u8 list"
  pk_gso_segs :: u16
  pk_gso_size :: u16
  pk_gso_ecn :: bool
  pk_ect :: bool
  pk_ooo_okay :: bool
  pk_tstamp :: u64

text \<open>The socket.  \<open>c_ect\<close> says whether packets are sent as ECN capable.\<close>

record conn =
  c_tx :: tcp_sock
  c_rx :: sock
  c_opts :: opt_sock
  c_ecn_flags :: u8
  c_ect :: bool
  c_gso_disabled :: bool
  c_wmem_alloc :: int
  c_segs_out :: u32
  c_data_segs_out :: u32
  c_bytes_sent :: u64
  c_mibs :: "mib list"
  c_tsorted :: "u32 list"

text \<open>Fields of \<open>tcp_sock\<close> that more than one part of the model reads.\<close>

definition one_sock :: "conn \<Rightarrow> bool" where
  "one_sock c \<longleftrightarrow> ack_rcv_nxt (c_tx c) = rcv_nxt (c_rx c) \<and> unat (rx_rcv_wscale (c_tx c)) = unat (rcv_wscale (c_rx c)) \<and>
     os_rcv_wscale (c_opts c) = rx_rcv_wscale (c_tx c) \<and> os_advmss (c_opts c) = advmss (c_rx c)"

text \<open>Memory for a copy, the signing key, the answers for the options and the bytes of MPTCP, the signatures,
  the BPF program, the checksum, what \<open>queue_xmit\<close> returns and \<open>net_xmit_eval\<close> makes of it, the congestion
  control (\<open>tcp_enter_cwr\<close>, \<open>tcp_rate_skb_sent\<close>, \<open>tcp_ca_needs_ecn\<close>), and the clocks and settings for the
  windows.\<close>

record tx_env =
  te_clone :: bool
  te_key :: tcp_key
  te_opt :: opt_env
  te_mptcp :: "u8 list"
  te_md5 :: "tcphdr \<Rightarrow> opt_bytes \<Rightarrow> u8 list \<Rightarrow> u8 list"
  te_ao :: "tcphdr \<Rightarrow> opt_bytes \<Rightarrow> u8 list \<Rightarrow> u8 list option"
  te_bpf :: "nat \<Rightarrow> u8 list option"
  te_check :: "tcphdr \<Rightarrow> opt_bytes \<Rightarrow> u8 list \<Rightarrow> u16"
  te_truesize1 :: int
  te_queue_xmit :: "packet \<Rightarrow> int"
  te_xmit_eval :: "int \<Rightarrow> int"
  te_enter_cwr :: "tcp_sock \<Rightarrow> tcp_sock"
  te_rate_sent :: "sk_buff \<Rightarrow> u32"
  te_needs_ecn :: bool
  te_snd :: snd_env
  te_kern :: kern
  te_net :: netns_ipv4
  te_real_ns :: u64
  te_mono_ns :: u64

section \<open>Explicit congestion notification\<close>

definition tcp_ecn_send_synack :: "bool \<Rightarrow> sk_buff \<Rightarrow> conn \<Rightarrow> sk_buff \<times> conn" where
  "tcp_ecn_send_synack needs_ecn skb c =
     (let skb = skb\<lparr>skb_flags := skb_flags skb AND NOT TCPHDR_CWR\<rparr>
      in if c_ecn_flags c AND TCP_ECN_OK = 0 then (skb\<lparr>skb_flags := skb_flags skb AND NOT TCPHDR_ECE\<rparr>, c)
         else if needs_ecn then (skb, c\<lparr>c_ect := True\<rparr>)
         else (skb, c))"

text \<open>\<open>sysctl_ecn\<close> is the setting, \<open>dst_ecn\<close> the feature of the route.\<close>

definition tcp_ecn_send_syn :: "u8 \<Rightarrow> bool \<Rightarrow> bool \<Rightarrow> bool \<Rightarrow> sk_buff \<Rightarrow> conn \<Rightarrow> sk_buff \<times> conn" where
  "tcp_ecn_send_syn sysctl_ecn ca_needs_ecn bpf_needs_ecn dst_ecn skb c =
     (let use_ecn = (sysctl_ecn = 1 \<or> ca_needs_ecn \<or> bpf_needs_ecn);
          use_ecn = (if \<not> use_ecn \<and> dst_ecn then True else use_ecn);
          c = c\<lparr>c_ecn_flags := 0\<rparr>
      in if use_ecn then
           let skb = skb\<lparr>skb_flags := skb_flags skb OR (TCPHDR_ECE OR TCPHDR_CWR)\<rparr>;
               c = c\<lparr>c_ecn_flags := TCP_ECN_OK\<rparr>
           in (skb, if ca_needs_ecn \<or> bpf_needs_ecn then c\<lparr>c_ect := True\<rparr> else c)
         else (skb, c))"

definition tcp_ecn_make_synack :: "bool \<Rightarrow> tcphdr \<Rightarrow> tcphdr" where
  "tcp_ecn_make_synack ecn_ok th = (if ecn_ok then th\<lparr>th_word := th_word th OR ucast TCPHDR_ECE\<rparr> else th)"

text \<open>The third result says whether the offload has to treat the packet as one with CWR.\<close>

definition tcp_ecn_send :: "bool \<Rightarrow> sk_buff \<Rightarrow> tcphdr \<Rightarrow> conn \<Rightarrow> tcphdr \<times> bool \<times> conn" where
  "tcp_ecn_send needs_ecn skb th c =
     (if c_ecn_flags c AND TCP_ECN_OK \<noteq> 0 then
        let (th, gso_ecn, c) =
              (if skb_len skb \<noteq> 0 \<and> \<not> seq_before (skb_seq skb) (snd_nxt (c_tx c)) then
                 let c = c\<lparr>c_ect := True\<rparr>
                 in if c_ecn_flags c AND TCP_ECN_QUEUE_CWR \<noteq> 0
                    then (th\<lparr>th_word := th_word th OR ucast TCPHDR_CWR\<rparr>, True,
                          c\<lparr>c_ecn_flags := c_ecn_flags c AND NOT TCP_ECN_QUEUE_CWR\<rparr>)
                    else (th, False, c)
               else if \<not> needs_ecn then (th, False, c\<lparr>c_ect := False\<rparr>)
               else (th, False, c))
        in (if c_ecn_flags c AND TCP_ECN_DEMAND_CWR \<noteq> 0 then th\<lparr>th_word := th_word th OR ucast TCPHDR_ECE\<rparr> else th, gso_ecn, c)
      else (th, False, c))"

section \<open>The header\<close>

definition tcp_urg_ptr :: "tcp_sock \<Rightarrow> u32 \<Rightarrow> u16 option" where
  "tcp_urg_ptr tp seq =
     (if tcp_urg_mode tp \<and> seq_before seq (snd_up tp) then
        (if seq_before (snd_up tp) (seq + 0x10000) then Some (ucast (snd_up tp - seq))
         else if seq_after (seq + 0xFFFF) (snd_nxt tp) then Some 0xFFFF
         else None)
      else None)"

definition build_header :: "sock \<Rightarrow> tcp_sock \<Rightarrow> sk_buff \<Rightarrow> u32 \<Rightarrow> u32 \<Rightarrow> tcphdr" where
  "build_header sk tp skb tcp_header_size ack_seq =
     (let th = \<lparr>th_source = inet_sport sk, th_dest = inet_dport sk, th_seq = skb_seq skb, th_ack_seq = ack_seq,
                th_word = ucast (push_bit 12 (drop_bit 2 tcp_header_size)) OR ucast (skb_flags skb),
                th_window = 0, th_check = 0, th_urg_ptr = 0\<rparr>
      in case tcp_urg_ptr tp (skb_seq skb) of
           None \<Rightarrow> th
         | Some u \<Rightarrow> th\<lparr>th_urg_ptr := u, th_word := th_word th OR ucast TCPHDR_URG\<rparr>)"

text \<open>The options, and their length.  A large segment gets a PSH.\<close>

definition transmit_options :: "tx_env \<Rightarrow> sk_buff \<Rightarrow> conn \<Rightarrow> u32 \<times> tcp_out_options \<times> sk_buff \<times> conn" where
  "transmit_options E skb c =
     (if skb_flags skb AND TCPHDR_SYN \<noteq> 0
      then let (sz, opts, os) = tcp_syn_options (te_opt E) (c_opts c) (te_key E) no_options
           in (sz, opts, skb, c\<lparr>c_opts := os, c_rx := (c_rx c)\<lparr>advmss := os_advmss os\<rparr>\<rparr>)
      else let (sz, opts) = tcp_established_options (te_opt E) (c_opts c) (te_key E) no_options
           in (sz, opts, if skb_pcount skb > 1 then skb\<lparr>skb_flags := skb_flags skb OR TCPHDR_PSH\<rparr> else skb, c))"

text \<open>The window of the header: the window that is selected, or the unscaled one of a SYN.\<close>

definition transmit_window :: "tx_env \<Rightarrow> sk_buff \<Rightarrow> tcphdr \<Rightarrow> conn \<Rightarrow> (tcphdr \<times> bool \<times> conn) option" where
  "transmit_window E skb th c =
     (if skb_flags skb AND TCPHDR_SYN = 0
      then case tcp_select_window (te_kern E) (te_net E) (te_real_ns E) (te_mono_ns E) (c_rx c) of
          None \<Rightarrow> None
        | Some (w, mibs, sk) \<Rightarrow>
            Some (tcp_ecn_send (te_needs_ecn E) skb (th\<lparr>th_window := w\<rparr>) (c\<lparr>c_rx := sk, c_mibs := c_mibs c @ mibs\<rparr>))
      else Some (th\<lparr>th_window := ucast (min (rcv_wnd (c_rx c)) 65535)\<rparr>, False, c))"

text \<open>A signature is written to its place among the option bytes; \<open>None\<close> if it cannot be made.\<close>

definition put_mac :: "opt_bytes \<Rightarrow> nat \<Rightarrow> u8 list \<Rightarrow> opt_bytes" where
  "put_mac bs i mac = take i bs @ map Some mac @ drop (i + length mac) bs"

definition transmit_sign :: "tx_env \<Rightarrow> tcphdr \<Rightarrow> tcp_out_options \<Rightarrow> opt_bytes \<Rightarrow> u8 list \<Rightarrow> conn \<Rightarrow> (opt_bytes \<times> conn) option" where
  "transmit_sign E th opts bs data c =
     (case te_key E of
        KEY_NONE \<Rightarrow> Some (bs, c)
      | KEY_MD5 \<Rightarrow> Some (case hash_location opts of None \<Rightarrow> bs | Some i \<Rightarrow> put_mac bs i (te_md5 E th bs data), c\<lparr>c_gso_disabled := True\<rparr>)
      | KEY_AO _ _ _ _ _ \<Rightarrow>
          (case te_ao E th bs data of
             None \<Rightarrow> None
           | Some mac \<Rightarrow> Some (case hash_location opts of None \<Rightarrow> bs | Some i \<Rightarrow> put_mac bs i mac, c)))"

section \<open>Transmission\<close>

definition transmit_count :: "tx_env \<Rightarrow> sk_buff \<Rightarrow> u32 \<Rightarrow> conn \<Rightarrow> conn" where
  "transmit_count E skb ack_seq c =
     (let c = (if skb_flags skb AND TCPHDR_ACK \<noteq> 0 then c\<lparr>c_tx := tcp_event_ack_sent ack_seq (c_tx c)\<rparr> else c);
          c = (if skb_len skb \<noteq> 0
               then c\<lparr>c_tx := tcp_event_data_sent (te_snd E) (c_tx c),
                      c_data_segs_out := c_data_segs_out c + ucast (skb_pcount skb),
                      c_bytes_sent := c_bytes_sent c + ucast (skb_len skb)\<rparr>
               else c)
      in c\<lparr>c_segs_out := c_segs_out c + ucast (skb_pcount skb)\<rparr>)"

text \<open>The departure time of the next packet, and the order of the segments by time of departure.\<close>

definition tcp_update_skb_after_send :: "snd_env \<Rightarrow> sk_buff \<Rightarrow> u64 \<Rightarrow> conn \<Rightarrow> conn" where
  "tcp_update_skb_after_send S skb prior_wstamp c =
     (let rate = sk_pacing_rate S;
          c = (if \<not> pacing_none S \<and> rate \<noteq> NOT 0 \<and> rate \<noteq> 0 \<and> c_data_segs_out c \<ge> 10
               then let len_ns = (ucast (skb_len skb) * NSEC_PER_SEC) div rate;
                        credit = tcp_wstamp_ns (c_tx c) - prior_wstamp;
                        len_ns = len_ns - min (len_ns div 2) credit
                    in c\<lparr>c_tx := (c_tx c)\<lparr>tcp_wstamp_ns := tcp_wstamp_ns (c_tx c) + len_ns\<rparr>\<rparr>
               else c)
      in c\<lparr>c_tsorted := filter (\<lambda>s. s \<noteq> skb_seq skb) (c_tsorted c) @ [skb_seq skb]\<rparr>)"

text \<open>The packet is handed to IP; \<open>oskb\<close> is the segment of the queue that it is a copy of, if it is one.\<close>

definition transmit_queue :: "tx_env \<Rightarrow> bool \<Rightarrow> packet \<Rightarrow> u64 \<Rightarrow> sk_buff \<Rightarrow> conn \<Rightarrow> int \<times> sk_buff \<times> conn" where
  "transmit_queue E clone_it pk prior_wstamp oskb c =
     (let err = te_queue_xmit E pk;
          (err, c) = (if err > 0 then (te_xmit_eval E err, c\<lparr>c_tx := te_enter_cwr E (c_tx c)\<rparr>) else (err, c))
      in if err = 0 \<and> clone_it
         then (err, oskb\<lparr>skb_tx := te_rate_sent E oskb\<rparr>, tcp_update_skb_after_send (te_snd E) oskb prior_wstamp c)
         else (err, oskb, c))"

text \<open>Up to the signature: the segment that goes out, whether it may overtake others, its header, whether the
  offload has to treat it as one with CWR, its options and their bytes.  \<open>None\<close> is a division by zero in the
  selection of the window.\<close>

type_synonym draft = "sk_buff \<times> bool \<times> tcphdr \<times> bool \<times> tcp_out_options \<times> opt_bytes"

definition transmit_prepare :: "tx_env \<Rightarrow> u32 \<Rightarrow> sk_buff \<Rightarrow> conn \<Rightarrow> (draft \<times> conn) option" where
  "transmit_prepare E ack_seq skb c =
     (let (tcp_options_size, opts, skb, c) = transmit_options E skb c;
          tcp_header_size = tcp_options_size + 20;
          ooo_okay = (c_wmem_alloc c < te_truesize1 E \<or> tcp_rtx_queue (c_tx c) = []);
          c = c\<lparr>c_wmem_alloc := c_wmem_alloc c + skb_truesize skb\<rparr>;
          th = build_header (c_rx c) (c_tx c) skb tcp_header_size ack_seq
      in case transmit_window E skb th c of
           None \<Rightarrow> None
         | Some (th, gso_ecn, c) \<Rightarrow>
             let (bs, opts, os) = tcp_options_write (e_have_smc (te_opt E)) (te_mptcp E) (c_opts c) None opts (te_key E)
             in Some ((skb, ooo_okay, th, gso_ecn, opts, bs), c\<lparr>c_opts := os\<rparr>))"

text \<open>The results are the error, the packet if one was handed to IP, and the segment.  \<open>None\<close> is a \<open>BUG_ON\<close> or
  the division by zero.\<close>

definition u_tcp_transmit_skb :: "tx_env \<Rightarrow> bool \<Rightarrow> u32 \<Rightarrow> sk_buff \<Rightarrow> conn \<Rightarrow> (int \<times> packet option \<times> sk_buff \<times> conn) option" where
  "u_tcp_transmit_skb E clone_it ack_seq skb c =
     (if skb_pcount skb = 0 then None
      else
        let prior_wstamp = tcp_wstamp_ns (c_tx c);
            wstamp = max (tcp_wstamp_ns (c_tx c)) (tcp_clock_cache (c_tx c));
            c = c\<lparr>c_tx := (c_tx c)\<lparr>tcp_wstamp_ns := wstamp\<rparr>\<rparr>;
            oskb = skb\<lparr>skb_tstamp := wstamp\<rparr>
        in if clone_it \<and> \<not> te_clone E then Some (- ENOBUFS, None, oskb, c)
           else case transmit_prepare E ack_seq oskb c of
               None \<Rightarrow> None
             | Some ((skb, ooo_okay, th, gso_ecn, opts, bs), c) \<Rightarrow>
                 (case transmit_sign E th opts bs (skb_data skb) c of
                    None \<Rightarrow> Some (- ENOMEM, None, oskb, c\<lparr>c_wmem_alloc := c_wmem_alloc c - skb_truesize skb\<rparr>)
                  | Some (bs, c) \<Rightarrow>
                      let bs = bs @ bpf_skops_write_hdr_opt (te_bpf E) opts;
                          th = th\<lparr>th_check := te_check E th bs (skb_data skb)\<rparr>;
                          c = transmit_count E skb ack_seq c;
                          tstamp = skb_tstamp skb + (case tx_delay (te_snd E) of None \<Rightarrow> 0 | Some d \<Rightarrow> ucast d * 1000);
                          pk = \<lparr>pk_hdr = th, pk_opts = bs, pk_data = skb_data skb, pk_gso_segs = skb_pcount skb,
                                pk_gso_size = skb_gso_size skb, pk_gso_ecn = gso_ecn, pk_ect = c_ect c,
                                pk_ooo_okay = ooo_okay, pk_tstamp = tstamp\<rparr>;
                          (err, oskb, c) = transmit_queue E clone_it pk prior_wstamp oskb c
                      in Some (err, Some pk, oskb, c)))"

definition tcp_transmit_skb :: "tx_env \<Rightarrow> bool \<Rightarrow> sk_buff \<Rightarrow> conn \<Rightarrow> (int \<times> packet option \<times> sk_buff \<times> conn) option" where
  "tcp_transmit_skb E clone_it skb c = u_tcp_transmit_skb E clone_it (rcv_nxt (c_rx c)) skb c"

end
