(* ===== verification/Transmit_Safety.thy ===== *)
theory Transmit_Safety
  imports Tcp_Transmit Option_Wire Leo_Invariant
begin

text \<open>
  What a transmission guarantees: the header describes the bytes that follow it and leaves none unwritten, its
  window is the one that was selected and recorded, and the queues stay as they are.
\<close>

section \<open>The course of a transmission\<close>

lemma transmitE:
  assumes "u_tcp_transmit_skb E clone_it ack skb c = Some (err, pko, skb', c')"
  defines "t \<equiv> max (tcp_wstamp_ns (c_tx c)) (tcp_clock_cache (c_tx c))"
  defines "c0 \<equiv> c\<lparr>c_tx := (c_tx c)\<lparr>tcp_wstamp_ns := t\<rparr>\<rparr>" and "oskb \<equiv> skb\<lparr>skb_tstamp := t\<rparr>"
  obtains (nomem) "clone_it" "\<not> te_clone E" "err = - ENOBUFS" "pko = None" "skb' = oskb" "c' = c0"
    | (nomac) s1 ooo th gso opts bs c1 where "transmit_prepare E ack oskb c0 = Some ((s1, ooo, th, gso, opts, bs), c1)"
      "transmit_sign E th opts bs (skb_data s1) c1 = None" "err = - ENOMEM" "pko = None" "skb' = oskb"
      "c' = c1\<lparr>c_wmem_alloc := c_wmem_alloc c1 - skb_truesize s1\<rparr>"
    | (sent) s1 ooo th gso opts bs c1 bs' c2 pk where "transmit_prepare E ack oskb c0 = Some ((s1, ooo, th, gso, opts, bs), c1)"
      "transmit_sign E th opts bs (skb_data s1) c1 = Some (bs', c2)" "pko = Some pk"
      "pk_opts pk = bs' @ bpf_skops_write_hdr_opt (te_bpf E) opts"
      "pk_hdr pk = th\<lparr>th_check := te_check E th (pk_opts pk) (skb_data s1)\<rparr>" "pk_data pk = skb_data s1"
      "pk_gso_segs pk = skb_pcount s1" "pk_gso_size pk = skb_gso_size s1"
      "transmit_queue E clone_it pk (tcp_wstamp_ns (c_tx c)) oskb (transmit_count E s1 ack c2) = (err, skb', c')"
proof -
  note run = assms(1) [unfolded u_tcp_transmit_skb_def Let_def t_def [symmetric], folded c0_def oskb_def]
  show thesis
  proof (cases "clone_it \<and> \<not> te_clone E")
    case True
    with run show thesis by (intro nomem) (auto split: if_splits)
  next
    case False
    with run obtain s1 ooo th gso opts bs c1 where prep: "transmit_prepare E ack oskb c0 = Some ((s1, ooo, th, gso, opts, bs), c1)"
      by (auto split: if_splits option.splits)
    show thesis
    proof (cases "transmit_sign E th opts bs (skb_data s1) c1")
      case None
      with run False prep show thesis by (intro nomac [OF prep]) (auto split: if_splits)
    next
      case (Some p)
      obtain bs' c2 where p: "p = (bs', c2)" by fastforce
      with run False prep Some show thesis by (intro sent [OF prep]) (auto split: if_splits prod.splits)
    qed
  qed
qed

lemma prepareE:
  assumes "transmit_prepare E ack skb c = Some ((s1, ooo, th, gso, opts, bs), c')"
  obtains sz opts0 c1 c2 c3 os where "transmit_options E skb c = (sz, opts0, s1, c1)"
    "c2 = c1\<lparr>c_wmem_alloc := c_wmem_alloc c1 + skb_truesize s1\<rparr>"
    "transmit_window E s1 (build_header (c_rx c2) (c_tx c2) s1 (sz + 20) ack) c2 = Some (th, gso, c3)"
    "tcp_options_write (e_have_smc (te_opt E)) (te_mptcp E) (c_opts c3) None opts0 (te_key E) = (bs, opts, os)"
    "c' = c3\<lparr>c_opts := os\<rparr>"
  using assms by (auto simp: transmit_prepare_def Let_def split: prod.splits option.splits)

section \<open>The header\<close>

lemma drop_flags: "drop_bit 12 (ucast (f :: u8) :: u16) = 0"
  by (rule bit_word_eqI) (auto simp: bit_drop_bit_eq bit_ucast_iff dest: bit_imp_le_length)

text \<open>Two headers that differ in flags only.\<close>

definition more_flags :: "tcphdr \<Rightarrow> tcphdr \<Rightarrow> bool" where
  "more_flags th th' \<longleftrightarrow> (\<exists>f :: u8. th' = th\<lparr>th_word := th_word th OR ucast f\<rparr>)"

lemma more_flags_refl [simp]: "more_flags th th"
  unfolding more_flags_def by (rule exI [of _ 0]) simp

lemma more_flags_step [simp]: "more_flags th (th\<lparr>th_word := th_word th OR ucast (f :: u8)\<rparr>)"
  unfolding more_flags_def by blast

lemma more_flags_trans: "more_flags a b \<Longrightarrow> more_flags b c \<Longrightarrow> more_flags a c"
proof -
  assume "more_flags a b" "more_flags b c"
  then obtain f g :: u8 where "b = a\<lparr>th_word := th_word a OR ucast f\<rparr>" "c = b\<lparr>th_word := th_word b OR ucast g\<rparr>"
    by (auto simp: more_flags_def)
  then have "c = a\<lparr>th_word := th_word a OR ucast (f OR g)\<rparr>" by (simp add: or.assoc unsigned_or_eq)
  then show ?thesis unfolding more_flags_def by blast
qed

lemma more_flagsD:
  assumes "more_flags th th'"
  shows "th_source th' = th_source th" "th_dest th' = th_dest th" "th_seq th' = th_seq th" "th_ack_seq th' = th_ack_seq th"
    "th_window th' = th_window th" "th_check th' = th_check th" "th_urg_ptr th' = th_urg_ptr th"
    "drop_bit 12 (th_word th') = drop_bit 12 (th_word th)"
  using assms by (auto simp: more_flags_def drop_flags)

lemma ecn_send_frame:
  assumes "tcp_ecn_send n skb th c = (th', g, c')"
  shows "more_flags th th'" and "c_tx c' = c_tx c" and "c_rx c' = c_rx c" and "c_opts c' = c_opts c"
  using assms more_flags_trans [OF more_flags_step [of th TCPHDR_CWR] more_flags_step [of _ TCPHDR_ECE]]
  by (auto simp: tcp_ecn_send_def Let_def split: if_splits)

lemma transmit_window_header:
  assumes "transmit_window E s th c = Some (th', g, c')"
  shows "more_flags (th\<lparr>th_window := th_window th'\<rparr>) th'" and "c_tx c' = c_tx c" and "c_opts c' = c_opts c"
    and "if skb_flags s AND TCPHDR_SYN = 0
      then \<exists>mibs. tcp_select_window (te_kern E) (te_net E) (te_real_ns E) (te_mono_ns E) (c_rx c) = Some (th_window th', mibs, c_rx c')
      else th_window th' = ucast (min (rcv_wnd (c_rx c)) 65535) \<and> c_rx c' = c_rx c"
proof -
  let ?sel = "tcp_select_window (te_kern E) (te_net E) (te_real_ns E) (te_mono_ns E) (c_rx c)"
  have "more_flags (th\<lparr>th_window := th_window th'\<rparr>) th' \<and> c_tx c' = c_tx c \<and> c_opts c' = c_opts c \<and>
    (if skb_flags s AND TCPHDR_SYN = 0 then \<exists>mibs. ?sel = Some (th_window th', mibs, c_rx c')
     else th_window th' = ucast (min (rcv_wnd (c_rx c)) 65535) \<and> c_rx c' = c_rx c)"
  proof (cases "skb_flags s AND TCPHDR_SYN = 0")
    case True
    with assms obtain w mibs sk where w: "?sel = Some (w, mibs, sk)"
      and e: "tcp_ecn_send (te_needs_ecn E) s (th\<lparr>th_window := w\<rparr>) (c\<lparr>c_rx := sk, c_mibs := c_mibs c @ mibs\<rparr>) = (th', g, c')"
      by (auto simp: transmit_window_def split: option.splits)
    note f = ecn_send_frame [OF e]
    have "th_window th' = w" using more_flagsD(5) [OF f(1)] by simp
    with True w f show ?thesis by auto
  next
    case False
    with assms show ?thesis by (auto simp: transmit_window_def)
  qed
  then show "more_flags (th\<lparr>th_window := th_window th'\<rparr>) th'" and "c_tx c' = c_tx c" and "c_opts c' = c_opts c"
    and "if skb_flags s AND TCPHDR_SYN = 0 then \<exists>mibs. ?sel = Some (th_window th', mibs, c_rx c')
      else th_window th' = ucast (min (rcv_wnd (c_rx c)) 65535) \<and> c_rx c' = c_rx c"
    by blast+
qed

text \<open>The data offset, in words.\<close>

text \<open>The data offset is the upper four bits.\<close>

lemma doff_word:
  fixes f :: u8
  assumes n: "unat (n :: u32) < 64"
  shows "unat (drop_bit 12 ((ucast (push_bit 12 (drop_bit 2 n)) :: u16) OR ucast f)) = unat n div 4"
proof -
  have "unat (drop_bit 2 n) < 16" using n by (simp add: unat_drop_bit)
  then have "unat (push_bit 12 (drop_bit 2 n)) = 4096 * (unat n div 4)"
    by (simp add: push_bit_eq_mult unat_word_ariths unat_drop_bit)
  then have "unat (ucast (push_bit 12 (drop_bit 2 n)) :: u16) = 4096 * (unat n div 4)"
    using n by (simp add: unsigned_ucast_eq take_bit_nat_eq_self)
  then show ?thesis by (simp add: drop_flags unat_drop_bit)
qed

lemma build_header_fields:
  assumes "th = build_header sk tp s n ack"
  shows "th_source th = inet_sport sk" and "th_dest th = inet_dport sk" and "th_seq th = skb_seq s" and "th_ack_seq th = ack"
    and "th_check th = 0" and "unat n < 64 \<Longrightarrow> unat (drop_bit 12 (th_word th)) = unat n div 4"
proof -
  have w: "drop_bit 12 (th_word th) = drop_bit 12 (ucast (push_bit 12 (drop_bit 2 n)))"
    using assms by (simp add: build_header_def Let_def drop_flags split: option.splits)
  show "th_source th = inet_sport sk" and "th_dest th = inet_dport sk" and "th_seq th = skb_seq s" and "th_ack_seq th = ack" and "th_check th = 0"
    using assms by (simp_all add: build_header_def Let_def split: option.splits)
  assume n: "unat n < 64"
  show "unat (drop_bit 12 (th_word th)) = unat n div 4" using doff_word [OF n, of 0] w by simp
qed

section \<open>The options\<close>

text \<open>What the code around the options promises: that of the sizes, a MAC of the length its key has, and a
  BPF program that keeps to its room.\<close>

definition opts_ready :: "tx_env \<Rightarrow> u32 \<Rightarrow> opt_sock \<Rightarrow> bool" where
  "opts_ready E n os \<longleftrightarrow> key_ok (te_key E) \<and> ao_ready None (te_key E) \<and> bpf_ok (te_opt E) \<and>
     unat n = length (te_mptcp E) \<and> mptcp_ok (te_opt E) n \<and> words_ok (e_mptcp_syn (te_opt E)) n \<and>
     sacks_ok os \<and> cookie_ok (os_fastopen os) \<and> (\<forall>k. os_fastopen os = Some k \<longrightarrow> even (foc_len k)) \<and>
     fst (tcp_advertise_mss (te_opt E) os) \<noteq> 0 \<and> \<not> (os_syn_smc os \<and> e_mptcp_syn (te_opt E) \<noteq> None) \<and>
     (\<forall>k bs. te_bpf E k = Some bs \<longrightarrow> length bs \<le> k) \<and> (\<forall>th bs d. length (te_md5 E th bs d) = 16) \<and>
     (\<forall>th bs d mac. te_ao E th bs d = Some mac \<longrightarrow> is_KEY_AO (te_key E) \<longrightarrow> length mac = unat (maclen (te_key E)))"

lemma transmit_options_exact:
  assumes "opts_ready E n (c_opts c)" and "transmit_options E skb c = (sz, opts, s1, c1)"
  shows "exact_size (unat n) (te_key E) sz opts" and "writable (e_have_smc (te_opt E)) (te_mptcp E) (c_opts c1) None opts (te_key E)"
proof -
  note r = assms(1) [unfolded opts_ready_def]
  have "exact_size (unat n) (te_key E) sz opts \<and> writable (e_have_smc (te_opt E)) (te_mptcp E) (c_opts c1) None opts (te_key E)"
  proof (cases "skb_flags skb AND TCPHDR_SYN = 0")
    case True
    with assms(2) have est: "tcp_established_options (te_opt E) (c_opts c) (te_key E) no_options = (sz, opts)" and c1: "c1 = c"
      by (auto simp: transmit_options_def split: prod.splits)
    then show ?thesis
      using r established_options_exact [OF _ _ _ est] established_writable [OF _ _ _ est] by blast
  next
    case False
    with assms(2) obtain os where syn: "tcp_syn_options (te_opt E) (c_opts c) (te_key E) no_options = (sz, opts, os)"
      by (auto simp: transmit_options_def split: prod.splits)
    show ?thesis
      using r syn_options_exact [OF _ _ _ _ _ syn] well_set_writable [OF syn_well_set [OF _ _ _ syn]] by blast
  qed
  then show "exact_size (unat n) (te_key E) sz opts" and "writable (e_have_smc (te_opt E)) (te_mptcp E) (c_opts c1) None opts (te_key E)"
    by blast+
qed

text \<open>The cookie is the one of the socket.\<close>

lemma syn_fixed_cookie:
  "syn_fixed_options E tp key no_options = (opts, r, tp') \<Longrightarrow>
   fastopen_cookie opts = None \<and> os_fastopen tp' = os_fastopen tp \<and> os_rcv_wscale tp' = os_rcv_wscale tp"
  by (auto simp: syn_fixed_options_def tcp_advertise_mss_def no_options_def Let_def split: tcp_key.splits if_splits option.splits)

lemma cookie_frames:
  "smc_set_option E tp opts r = (opts', r') \<Longrightarrow> fastopen_cookie opts' = fastopen_cookie opts"
  "mptcp_set_option a opts r = (opts', r') \<Longrightarrow> fastopen_cookie opts' = fastopen_cookie opts"
  "bpf_skops_hdr_opt_len E opts r = (opts', r') \<Longrightarrow> fastopen_cookie opts' = fastopen_cookie opts"
  "sack_set_option tp opts r = Some (opts', r') \<Longrightarrow> fastopen_cookie opts' = fastopen_cookie opts"
  by (auto simp: smc_set_option_def mptcp_set_option_def bpf_skops_hdr_opt_len_def sack_set_option_def Let_def split: if_splits option.splits)

lemma syn_cookie:
  assumes "tcp_syn_options E tp key no_options = (sz, opts, tp')"
  shows "fastopen_cookie opts = None \<or> fastopen_cookie opts = os_fastopen tp"
proof -
  obtain o0 r0 tp0 where 0: "syn_fixed_options E tp key no_options = (o0, r0, tp0)" by (metis prod_cases3)
  obtain u o1 r1 where 1: "fastopen_set_option (os_fastopen tp0) o0 r0 = (u, o1, r1)" by (metis prod_cases3)
  have "fastopen_cookie opts = fastopen_cookie o1"
    using assms unfolding tcp_syn_options_def Let_def 0 prod.case 1
    by (auto split: prod.splits dest!: cookie_frames)
  moreover have "fastopen_cookie o1 = None \<or> fastopen_cookie o1 = os_fastopen tp"
    using 1 syn_fixed_cookie [OF 0] by (auto simp: fastopen_set_option_def split: option.splits if_splits)
  ultimately show ?thesis by simp
qed

lemma established_cookie:
  assumes "tcp_established_options E tp key no_options = (sz, opts)"
  shows "fastopen_cookie opts = None"
proof -
  obtain o0 s0 where 0: "est_fixed_options E tp key no_options = (o0, s0)" by fastforce
  show ?thesis
    using assms est_fixed_frame [OF 0] unfolding tcp_established_options_def Let_def 0 prod.case
    by (auto split: option.splits if_splits prod.splits dest!: cookie_frames)
qed

lemma transmit_options_cookie:
  assumes "opts_ready E n (c_opts c)" and "transmit_options E skb c = (sz, opts, s1, c1)"
  shows "\<forall>k. fastopen_cookie opts = Some k \<longrightarrow> even (foc_len k)"
  using assms
  by (auto simp: transmit_options_def opts_ready_def split: if_splits prod.splits dest: syn_cookie established_cookie)

section \<open>Every byte is written\<close>

lemma be32_written: "None \<notin> set (be32 w)"
  by (simp add: be32_def)

lemma fixed_written: "None \<notin> set (fixed_options_write opts)"
  by (simp add: fixed_options_write_def mss_options_write_def ts_options_write_def wscale_options_write_def be32_written)

lemma sack_written: "None \<notin> set (fst (sack_options_write tp opts))"
  by (auto simp: sack_options_write_def sack_blocks_write_def be32_def)

lemma tail_written: "None \<notin> set (overwrite (smc_options_write h fs) (mptcp_options_write m fs))"
proof -
  have "None \<notin> set (smc_options_write h fs)" by (simp add: smc_options_write_def be32_written)
  then show ?thesis by (auto simp: overwrite_def mptcp_options_write_def dest: in_set_dropD)
qed

lemma cookie_written:
  assumes "cookie_ok (fastopen_cookie opts)" and "\<forall>k. fastopen_cookie opts = Some k \<longrightarrow> 0 \<le> foc_len k \<and> even (foc_len k)"
  shows "None \<notin> set (cookie_options_write opts)"
proof (cases "fastopen_cookie opts")
  case None
  then show ?thesis by (simp add: cookie_options_write_def)
next
  case (Some k)
  with assms have k: "foc_len k \<le> 16" "length (foc_val k) = 16" "0 \<le> foc_len k" "even (foc_len k)" by (simp_all add: cookie_ok_def)
  define len where "len = nat (foc_len k) + unat (if foc_exp k then TCPOLEN_EXP_FASTOPEN_BASE else TCPOLEN_FASTOPEN_BASE)"
  have ev: "even len" using k(3,4) by (auto simp: len_def tcpopt_defs even_nat_iff)
  have "nat (foc_len k) \<le> 16" using k by simp
  then have "length (fastopen_body k len) = len + (if len mod 4 = 2 then 2 else 0)"
    using k by (simp add: fastopen_body_def len_def tcpopt_defs be32_def)
  then have "(len + 3) div 4 * 4 - length (fastopen_body k len) = 0" using even_fill [OF ev] by simp
  then have "fastopen_options_write k = fastopen_body k len" by (simp add: fastopen_options_write_def Let_def len_def)
  then show ?thesis using Some by (auto simp: cookie_options_write_def fastopen_body_def be32_def split: if_splits)
qed

lemma put_mac_after: "length mac \<le> length pad \<Longrightarrow> put_mac (pre @ pad @ rest) (length pre) mac = pre @ map Some mac @ drop (length mac) pad @ rest"
  by (simp add: put_mac_def)

lemma signed_written:
  assumes "opts_ready E n os" and "writable h m tp None opts (te_key E)"
    and "\<forall>k. fastopen_cookie opts = Some k \<longrightarrow> even (foc_len k)"
    and "tcp_options_write h m tp None opts (te_key E) = (bs, opts', tp')"
    and "transmit_sign E th opts' bs data c = Some (bs', c')"
  shows "None \<notin> set bs'" and "length bs' = length bs"
proof -
  note r = assms(1) [unfolded opts_ready_def] and w = assms(2) [unfolded writable_def]
  obtain mac o1 where mac: "key_options_write None opts (te_key E) = (mac, o1)" by fastforce
  define rest where "rest = fixed_options_write opts @ fst (sack_options_write tp opts) @ cookie_options_write opts @
    overwrite (smc_options_write h (options opts)) (mptcp_options_write m (options opts))"
  have bs: "bs = mac @ rest" "opts' = o1"
    using assms(4) mac by (auto simp: tcp_options_write_def rest_def Let_def split: prod.splits)
  have "None \<notin> set (cookie_options_write opts)"
    using w assms(3) by (intro cookie_written) (auto split: option.splits)
  then have rest: "None \<notin> set rest" by (simp add: rest_def fixed_written sack_written tail_written)
  have "None \<notin> set bs' \<and> length bs' = length bs"
  proof (cases "te_key E")
    case KEY_NONE
    then show ?thesis using assms(5) bs mac rest by (simp add: transmit_sign_def key_options_write_def)
  next
    case KEY_MD5
    have "length (te_md5 E th bs data) = 16" using r by blast
    with KEY_MD5 assms(5) bs mac rest show ?thesis
      by (auto simp: transmit_sign_def key_options_write_def put_mac_def be32_def)
  next
    case (KEY_AO mlen len aligned snd_id rnext)
    then obtain rcvid where rn: "rnext = Some rcvid" using r by (auto simp: ao_ready_def)
    define pad :: opt_bytes where "pad = replicate (unat mlen div 4 * 4) None @
      (if unat mlen mod 4 \<noteq> 0 then replicate 4 (Some (ucast TCPOPT_NOP)) else [])"
    have m: "mac = be32 (pack4 TCPOPT_AO len (ucast snd_id) (ucast rcvid)) @ pad" "hash_location o1 = Some 4"
      using mac KEY_AO rn by (auto simp: key_options_write_def process_tcp_ao_options_def pad_def Let_def)
    obtain sg where sg: "te_ao E th bs data = Some sg" "bs' = put_mac bs 4 sg"
      using assms(5) KEY_AO m bs by (auto simp: transmit_sign_def split: option.splits)
    have ln: "length sg = unat mlen" using r sg(1) KEY_AO by fastforce
    have "k \<le> k div 4 * 4 + (if k mod 4 \<noteq> 0 then 4 else 0)" for k :: nat by (split if_split) presburger
    moreover have "length pad = unat mlen div 4 * 4 + (if unat mlen mod 4 \<noteq> 0 then 4 else 0)" by (simp add: pad_def)
    ultimately have le: "unat mlen \<le> length pad" by metis
    have "None \<notin> set (drop (unat mlen) pad)" by (simp add: pad_def)
    moreover have "bs' = be32 (pack4 TCPOPT_AO len (ucast snd_id) (ucast rcvid)) @ map Some sg @ drop (unat mlen) pad @ rest"
      using put_mac_after [of sg pad "be32 (pack4 TCPOPT_AO len (ucast snd_id) (ucast rcvid))" rest] sg(2) bs m ln le
      by (simp add: length_be32)
    ultimately show ?thesis using rest bs m ln le be32_written by (auto simp: length_be32)
  qed
  then show "None \<notin> set bs'" and "length bs' = length bs" by blast+
qed

section \<open>The packet\<close>

lemma transmit_packet:
  assumes run: "u_tcp_transmit_skb E clone_it ack skb c = Some (err, Some pk, skb', c')" and ready: "opts_ready E n (c_opts c)"
  shows "None \<notin> set (pk_opts pk)" and "4 * unat (drop_bit 12 (th_word (pk_hdr pk))) = 20 + length (pk_opts pk)"
    and "length (pk_opts pk) \<le> 40" and "th_seq (pk_hdr pk) = skb_seq skb" and "th_ack_seq (pk_hdr pk) = ack"
    and "th_source (pk_hdr pk) = inet_sport (c_rx c)" and "th_dest (pk_hdr pk) = inet_dport (c_rx c)" and "pk_data pk = skb_data skb"
proof -
  define t where "t = max (tcp_wstamp_ns (c_tx c)) (tcp_clock_cache (c_tx c))"
  define c0 where "c0 = c\<lparr>c_tx := (c_tx c)\<lparr>tcp_wstamp_ns := t\<rparr>\<rparr>"
  define oskb where "oskb = skb\<lparr>skb_tstamp := t\<rparr>"
  obtain s1 ooo th gso opts bs c1 bs' c2 where prep: "transmit_prepare E ack oskb c0 = Some ((s1, ooo, th, gso, opts, bs), c1)"
    and sign: "transmit_sign E th opts bs (skb_data s1) c1 = Some (bs', c2)"
    and pk: "pk_opts pk = bs' @ bpf_skops_write_hdr_opt (te_bpf E) opts"
      "pk_hdr pk = th\<lparr>th_check := te_check E th (pk_opts pk) (skb_data s1)\<rparr>" "pk_data pk = skb_data s1"
    using run by (cases rule: transmitE) (auto simp: t_def c0_def oskb_def)
  from prep obtain sz opts0 c1' c2' c3 os where o: "transmit_options E oskb c0 = (sz, opts0, s1, c1')"
    and c2': "c2' = c1'\<lparr>c_wmem_alloc := c_wmem_alloc c1' + skb_truesize s1\<rparr>"
    and w: "transmit_window E s1 (build_header (c_rx c2') (c_tx c2') s1 (sz + 20) ack) c2' = Some (th, gso, c3)"
    and wr: "tcp_options_write (e_have_smc (te_opt E)) (te_mptcp E) (c_opts c3) None opts0 (te_key E) = (bs, opts, os)"
    by (rule prepareE)
  have ready0: "opts_ready E n (c_opts c0)" using ready by (simp add: c0_def)
  note r = ready [unfolded opts_ready_def]
  have s1: "skb_seq s1 = skb_seq skb" "skb_data s1 = skb_data skb" "inet_sport (c_rx c1') = inet_sport (c_rx c)"
      "inet_dport (c_rx c1') = inet_dport (c_rx c)"
    using o by (auto simp: transmit_options_def oskb_def c0_def split: if_splits prod.splits)
  have c3: "c_opts c3 = c_opts c1'" using transmit_window_header(3) [OF w] by (simp add: c2')
  note ex = transmit_options_exact [OF ready0 o, folded c3] and ck = transmit_options_cookie [OF ready0 o]
  have "\<forall>k bs. te_bpf E k = Some bs \<longrightarrow> length bs \<le> k" using r by blast
  then have bpf: "length (bpf_skops_write_hdr_opt (te_bpf E) opts) = unat (bpf_opt_len opts)" by (rule bpf_write_length)
  have keep: "bpf_opt_len opts = bpf_opt_len opts0"
    using wr by (auto simp: tcp_options_write_def key_options_write_def Let_def split: prod.splits option.splits)
  note sw = signed_written [OF ready ex(2) ck wr sign]
  have "length bs = options_len (length (te_mptcp E)) (te_key E) opts0" by (rule write_length [OF ex(2) wr])
  moreover have "unat n = length (te_mptcp E)" using r by blast
  moreover have "unat sz \<le> 40" "unat sz mod 4 = 0" using ex(1) unfolding exact_size_def by blast+
  ultimately have len: "length (pk_opts pk) = unat sz" "unat sz \<le> 40" "unat sz mod 4 = 0"
    using ex(1) sw(2) bpf keep by (simp add: pk exact_size_def, blast+)
  then show "length (pk_opts pk) \<le> 40" by simp
  show "None \<notin> set (pk_opts pk)" using sw(1) by (auto simp: pk bpf_skops_write_hdr_opt_def Let_def)
  note mf = more_flagsD [OF transmit_window_header(1) [OF w]]
  note bh = build_header_fields [OF refl, where sk = "c_rx c2'" and tp = "c_tx c2'" and s = s1 and n = "sz + 20" and ack = ack]
  have sz: "unat (sz + 20) = unat sz + 20" using len(2) by (simp add: unat_word_ariths)
  have "unat (drop_bit 12 (th_word th)) = (unat sz + 20) div 4" using bh(6) mf(8) len(2) sz by simp
  moreover have "4 * ((unat sz + 20) div 4) = 20 + unat sz" using len(3) by presburger
  ultimately show "4 * unat (drop_bit 12 (th_word (pk_hdr pk))) = 20 + length (pk_opts pk)" using len(1) pk(2) by simp
  show "th_seq (pk_hdr pk) = skb_seq skb" and "th_ack_seq (pk_hdr pk) = ack"
    and "th_source (pk_hdr pk) = inet_sport (c_rx c)" and "th_dest (pk_hdr pk) = inet_dport (c_rx c)" and "pk_data pk = skb_data skb"
    using mf bh s1 pk by (simp_all add: c2')
qed

section \<open>The controller\<close>

text \<open>The controller changes nothing of the socket but its own state.\<close>

definition only_leo :: "sock \<Rightarrow> sock \<Rightarrow> bool" where
  "only_leo sk sk' \<longleftrightarrow> (\<exists>st. sk' = sk\<lparr>leo_state := st\<rparr>)"

lemma only_leo_refl [simp]: "only_leo sk sk" and only_leo_upd [simp]: "only_leo sk (sk\<lparr>leo_state := st\<rparr>)"
  unfolding only_leo_def by (auto intro: exI [of _ "leo_state sk"])

lemma only_leo_trans: "only_leo a b \<Longrightarrow> only_leo b c \<Longrightarrow> only_leo a c"
  by (auto simp: only_leo_def)

lemma measurements_only_leo: "only_leo sk (leo_update_measurements net sk w t p)"
  by (simp add: leo_update_measurements_def Let_def)

lemma freeze_only_leo: "only_leo sk (leo_freeze_parameters net sk w t)"
  by (simp add: leo_freeze_parameters_def Let_def)

lemma maybe_freeze_only_leo: "only_leo sk (leo_maybe_freeze net sk w t)"
  unfolding leo_maybe_freeze_def Let_def
  by (auto intro: only_leo_trans [OF only_leo_upd freeze_only_leo] freeze_only_leo)

lemma phase_only_leo: "leo_phase net sk t = (p, e, sk') \<Longrightarrow> only_leo sk sk'"
  by (auto simp: leo_phase_def Let_def split: if_splits prod.splits)

lemma anchor_only_leo: "only_leo sk (leo_anchor_step w old p sk)"
  by (auto simp: leo_anchor_step_def Let_def)

lemma dynamic_target_only_leo:
  assumes "tcp_leo_dynamic_target net r m sk w = (v, sk')"
  shows "only_leo sk sk'"
proof -
  define sk1 where "sk1 = (if \<not> initialized (leo_state sk)
    then leo_update_measurements net sk w (leo_now_mono_us m) TCP_LEO_NORMAL else sk)"
  obtain p e sk2 where ph: "leo_phase net (leo_maybe_freeze net sk1 w (leo_now_real_us r)) (leo_now_real_us r) = (p, e, sk2)"
    by (metis prod_cases3)
  have "only_leo sk sk1" by (simp add: sk1_def measurements_only_leo)
  note chain = only_leo_trans [OF only_leo_trans [OF this maybe_freeze_only_leo] phase_only_leo [OF ph]]
  have "sk' = sk \<or> sk' = upd_leo (\<lambda>st. st\<lparr>current_phase := p\<rparr>) (leo_anchor_step w (current_phase (leo_state sk)) p
      (leo_update_measurements net sk2 w (leo_now_mono_us m) p))"
    using assms unfolding tcp_leo_dynamic_target_def Let_def sk1_def [symmetric] ph by (auto split: if_splits)
  then show ?thesis
    using only_leo_trans [OF only_leo_trans [OF only_leo_trans [OF chain measurements_only_leo] anchor_only_leo] only_leo_upd] by auto
qed

text \<open>A selection of the window is a call of the controller between two steps of the rest of TCP, and
  leaves the sequence numbers and the ports alone.\<close>

lemma select_window_steps:
  assumes "adjust_ok K" and "tcp_select_window K net r m sk = Some (adv, mibs, sk')"
  shows "leo_step\<^sup>*\<^sup>* sk sk'" and "rcv_nxt sk' = rcv_nxt sk" and "rcv_wscale sk' = rcv_wscale sk" and "rcv_wup sk' = rcv_nxt sk" and "advmss sk' = advmss sk"
proof -
  have "leo_step\<^sup>*\<^sup>* sk sk' \<and> rcv_nxt sk' = rcv_nxt sk \<and> rcv_wscale sk' = rcv_wscale sk \<and> rcv_wup sk' = rcv_nxt sk \<and> advmss sk' = advmss sk"
    using assms(2)
  proof (cases rule: select_windowE)
    case nomem
    then show ?thesis by (auto intro!: r_into_rtranclp leo_step.tcp)
  next
    case (select w1 sk1 w2 sk2 w3 mibs')
    note same = u_tcp_select_window_frame [OF assms(1) select(2), unfolded same_offer_def]
    have 1: "leo_step sk sk1" using same by (auto intro: leo_step.tcp)
    have 2: "leo_step sk1 sk2"
    proof (cases "sysctl_tcp_leo_rwnd_enable net \<noteq> 0 \<and> sysctl_tcp_leo_dynamic_enable net \<noteq> 0")
      case True
      with select(3) have "sk2 = snd (tcp_leo_dynamic_target net r m sk1 w1)" by (metis snd_conv)
      then show ?thesis by (simp add: leo_step.call)
    next
      case False
      with select(3) have "sk2 = sk1" by (auto split: if_splits)
      then show ?thesis by (simp add: leo_step.tcp)
    qed
    have 3: "leo_step sk2 sk'" using select(6) by (auto intro: leo_step.tcp)
    have "only_leo sk1 sk2"
      using select(3) dynamic_target_only_leo [of net r m sk1 w1 w2 sk2] by (auto split: if_splits)
    then have "rcv_nxt sk2 = rcv_nxt sk" "rcv_wscale sk2 = rcv_wscale sk" "advmss sk2 = advmss sk" using same by (auto simp: only_leo_def)
    with 1 2 3 select(6) show ?thesis by (auto intro: rtranclp.rtrancl_into_rtrancl)
  qed
  then show "leo_step\<^sup>*\<^sup>* sk sk'" and "rcv_nxt sk' = rcv_nxt sk" and "rcv_wscale sk' = rcv_wscale sk" and "rcv_wup sk' = rcv_nxt sk" and "advmss sk' = advmss sk"
    by blast+
qed

section \<open>What a transmission leaves alone\<close>

definition quiet :: "tcp_sock \<Rightarrow> tcp_sock \<Rightarrow> bool" where
  "quiet tp tp' \<longleftrightarrow> sk_write_queue tp' = sk_write_queue tp \<and> tcp_rtx_queue tp' = tcp_rtx_queue tp \<and>
     snd_nxt tp' = snd_nxt tp \<and> snd_una tp' = snd_una tp \<and> snd_wnd tp' = snd_wnd tp \<and> snd_cwnd tp' = snd_cwnd tp \<and>
     packets_out tp' = packets_out tp \<and> sacked_out tp' = sacked_out tp \<and> lost_out tp' = lost_out tp \<and>
     retrans_out tp' = retrans_out tp \<and> sack_ok tp' = sack_ok tp \<and> repairing tp' = repairing tp \<and>
     ack_rcv_nxt tp' = ack_rcv_nxt tp \<and> rx_rcv_wscale tp' = rx_rcv_wscale tp"

lemma quiet_refl [simp]: "quiet tp tp"
  by (simp add: quiet_def)

lemma quiet_trans: "quiet a b \<Longrightarrow> quiet b c \<Longrightarrow> quiet a c"
  by (simp add: quiet_def)

lemma quiet_wstamp [simp]: "quiet tp (tp\<lparr>tcp_wstamp_ns := t\<rparr>)"
  by (simp add: quiet_def)

text \<open>Documented behaviour of \<open>tcp_enter_cwr\<close>: it starts a reduction of the congestion window, but the window
  itself shrinks only as ACKs arrive.\<close>

definition cwr_ok :: "tx_env \<Rightarrow> bool" where
  "cwr_ok E \<longleftrightarrow> (\<forall>tp. quiet tp (te_enter_cwr E tp))"

lemma events_quiet: "quiet tp (tcp_event_ack_sent a tp)" "quiet tp (tcp_event_data_sent S tp)"
  by (simp_all add: quiet_def tcp_event_ack_sent_def tcp_event_data_sent_def log_call_def Let_def)

lemma count_quiet: "quiet (c_tx c) (c_tx (transmit_count E s a c))"
  using quiet_trans [OF events_quiet(1) events_quiet(2)]
  by (simp add: transmit_count_def events_quiet Let_def)

lemma queue_quiet:
  assumes "cwr_ok E" and "transmit_queue E cl pk w s c = (err, s', c')"
  shows "quiet (c_tx c) (c_tx c')" and "c_rx c' = c_rx c" and "c_opts c' = c_opts c"
    and "s' = s \<or> s' = s\<lparr>skb_tx := te_rate_sent E s\<rparr>"
proof -
  have e: "quiet tp (te_enter_cwr E tp)" for tp using assms(1) by (simp add: cwr_ok_def)
  from assms(2) e quiet_trans [OF e quiet_wstamp] show "quiet (c_tx c) (c_tx c')" and "c_rx c' = c_rx c" and "c_opts c' = c_opts c"
    and "s' = s \<or> s' = s\<lparr>skb_tx := te_rate_sent E s\<rparr>"
    by (auto simp: transmit_queue_def tcp_update_skb_after_send_def Let_def split: if_splits)
qed

lemma sign_frame: "transmit_sign E th o1 bs d c = Some (bs', c') \<Longrightarrow> c_tx c' = c_tx c \<and> c_rx c' = c_rx c \<and> c_opts c' = c_opts c"
  by (auto simp: transmit_sign_def split: tcp_key.splits option.splits)

lemma psh_syn: "(f OR TCPHDR_PSH) AND TCPHDR_SYN = f AND TCPHDR_SYN"
  by (simp add: bit.conj_disj_distrib2 TCPHDR_PSH_def TCPHDR_SYN_def)

lemma transmit_options_frame:
  assumes "transmit_options E s c = (sz, opts, s1, c1)"
  shows "c_tx c1 = c_tx c" and "c_rx c1 = (c_rx c)\<lparr>advmss := advmss (c_rx c1)\<rparr>"
    and "os_rcv_wscale (c_opts c1) = os_rcv_wscale (c_opts c)" and "skb_flags s1 AND TCPHDR_SYN = skb_flags s AND TCPHDR_SYN"
    and "os_advmss (c_opts c) = advmss (c_rx c) \<Longrightarrow> os_advmss (c_opts c1) = advmss (c_rx c1)"
    and "skb_flags s AND TCPHDR_SYN = 0 \<Longrightarrow> c1 = c"
proof -
  show "c_tx c1 = c_tx c" and "c_rx c1 = (c_rx c)\<lparr>advmss := advmss (c_rx c1)\<rparr>"
    and "skb_flags s1 AND TCPHDR_SYN = skb_flags s AND TCPHDR_SYN"
    and "os_advmss (c_opts c) = advmss (c_rx c) \<Longrightarrow> os_advmss (c_opts c1) = advmss (c_rx c1)"
    and "skb_flags s AND TCPHDR_SYN = 0 \<Longrightarrow> c1 = c"
    using assms psh_syn by (auto simp: transmit_options_def split: if_splits prod.splits)
  show "os_rcv_wscale (c_opts c1) = os_rcv_wscale (c_opts c)"
  proof (cases "skb_flags s AND TCPHDR_SYN = 0")
    case True
    with assms show ?thesis by (auto simp: transmit_options_def split: prod.splits)
  next
    case False
    with assms obtain os where syn: "tcp_syn_options (te_opt E) (c_opts c) (te_key E) no_options = (sz, opts, os)" "c_opts c1 = os"
      by (auto simp: transmit_options_def split: prod.splits)
    obtain o0 r0 tp0 where 0: "syn_fixed_options (te_opt E) (c_opts c) (te_key E) no_options = (o0, r0, tp0)" by (metis prod_cases3)
    then have "os_rcv_wscale os = os_rcv_wscale tp0"
      using syn(1) unfolding tcp_syn_options_def Let_def 0 prod.case by (auto split: prod.splits)
    with syn(2) syn_fixed_cookie [OF 0] show ?thesis by simp
  qed
qed

lemma options_write_frame:
  "tcp_options_write h m tp r opts key = (bs, opts', tp') \<Longrightarrow> os_rcv_wscale tp' = os_rcv_wscale tp \<and> os_advmss tp' = os_advmss tp"
  by (auto simp: tcp_options_write_def sack_options_write_def Let_def split: prod.splits if_splits)

text \<open>The receiving part after a transmission: that of the selection of a window, or unchanged.\<close>

definition window_taken :: "sock \<Rightarrow> sock \<Rightarrow> bool" where
  "window_taken sk sk' \<longleftrightarrow> leo_step\<^sup>*\<^sup>* sk sk' \<and> rcv_nxt sk' = rcv_nxt sk \<and> rcv_wscale sk' = rcv_wscale sk"

lemma prepare_frame:
  assumes "adjust_ok (te_kern E)" and "transmit_prepare E ack s c = Some ((s1, ooo, th, gso, opts, bs), c')"
  shows "c_tx c' = c_tx c" and "window_taken (c_rx c) (c_rx c')" and "one_sock c \<Longrightarrow> one_sock c'"
    and "skb_flags s1 AND TCPHDR_SYN = skb_flags s AND TCPHDR_SYN"
    and "skb_flags s AND TCPHDR_SYN = 0 \<Longrightarrow>
      \<exists>mibs. tcp_select_window (te_kern E) (te_net E) (te_real_ns E) (te_mono_ns E) (c_rx c) = Some (th_window th, mibs, c_rx c')"
proof -
  from assms(2) obtain sz opts0 c1 c2 c3 os where o: "transmit_options E s c = (sz, opts0, s1, c1)"
    and c2: "c2 = c1\<lparr>c_wmem_alloc := c_wmem_alloc c1 + skb_truesize s1\<rparr>"
    and w: "transmit_window E s1 (build_header (c_rx c2) (c_tx c2) s1 (sz + 20) ack) c2 = Some (th, gso, c3)"
    and wr: "tcp_options_write (e_have_smc (te_opt E)) (te_mptcp E) (c_opts c3) None opts0 (te_key E) = (bs, opts, os)"
    and c': "c' = c3\<lparr>c_opts := os\<rparr>"
    by (rule prepareE)
  note of = transmit_options_frame [OF o] and wf = transmit_window_header [OF w] and ww = options_write_frame [OF wr]
  show "c_tx c' = c_tx c" using of(1) wf(2) by (simp add: c' c2)
  show "skb_flags s1 AND TCPHDR_SYN = skb_flags s AND TCPHDR_SYN" by (rule of(4))
  have rx: "leo_step\<^sup>*\<^sup>* (c_rx c) (c_rx c3) \<and> rcv_nxt (c_rx c3) = rcv_nxt (c_rx c) \<and> rcv_wscale (c_rx c3) = rcv_wscale (c_rx c) \<and>
      advmss (c_rx c3) = advmss (c_rx c1)"
  proof (cases "skb_flags s AND TCPHDR_SYN = 0")
    case True
    with wf(4) of(4,6) obtain mibs where
      sel: "tcp_select_window (te_kern E) (te_net E) (te_real_ns E) (te_mono_ns E) (c_rx c) = Some (th_window th, mibs, c_rx c3)"
      by (auto simp: c2)
    from select_window_steps [OF assms(1) sel] of(6) [OF True] show ?thesis by simp
  next
    case False
    with wf(4) of(4) have "c_rx c3 = c_rx c1" by (simp add: c2)
    moreover have "leo_step (c_rx c) (c_rx c1)" by (rule leo_step.tcp) (metis of(2) sock.select_convs(16) sock.surjective sock.update_convs(6))
    ultimately show ?thesis using of(2) by (metis r_into_rtranclp sock.select_convs(7,10) sock.surjective sock.update_convs(6))
  qed
  then show "window_taken (c_rx c) (c_rx c')" by (simp add: window_taken_def c')
  show "one_sock c \<Longrightarrow> one_sock c'" using rx of(1,3,5) wf(2,3) ww by (simp add: one_sock_def c' c2)
  show "\<exists>mibs. tcp_select_window (te_kern E) (te_net E) (te_real_ns E) (te_mono_ns E) (c_rx c) = Some (th_window th, mibs, c_rx c')"
    if "skb_flags s AND TCPHDR_SYN = 0"
    using that wf(4) of(4,6) by (auto simp: c2 c')
qed

lemma one_sock_quiet:
  "one_sock c \<Longrightarrow> quiet (c_tx c) (c_tx c') \<Longrightarrow> c_rx c' = c_rx c \<Longrightarrow> c_opts c' = c_opts c \<Longrightarrow> one_sock c'"
  by (simp add: one_sock_def quiet_def)

lemma transmit_effect:
  assumes ok: "cwr_ok E" "adjust_ok (te_kern E)" and run: "u_tcp_transmit_skb E cl ack skb c = Some (err, pko, skb', c')"
  shows "quiet (c_tx c) (c_tx c')" and "window_taken (c_rx c) (c_rx c')" and "one_sock c \<Longrightarrow> one_sock c'"
    and "\<exists>ts x. skb' = skb\<lparr>skb_tstamp := ts, skb_tx := x\<rparr>"
proof -
  define t where "t = max (tcp_wstamp_ns (c_tx c)) (tcp_clock_cache (c_tx c))"
  define c0 where "c0 = c\<lparr>c_tx := (c_tx c)\<lparr>tcp_wstamp_ns := t\<rparr>\<rparr>"
  define oskb where "oskb = skb\<lparr>skb_tstamp := t\<rparr>"
  have c0: "quiet (c_tx c) (c_tx c0)" "c_rx c0 = c_rx c" "c_opts c0 = c_opts c" by (simp_all add: c0_def)
  have osk: "\<exists>ts x. oskb = skb\<lparr>skb_tstamp := ts, skb_tx := x\<rparr>" unfolding oskb_def by (intro exI [of _ t] exI [of _ "skb_tx skb"]) simp
  have osk': "\<exists>ts x. oskb\<lparr>skb_tx := y\<rparr> = skb\<lparr>skb_tstamp := ts, skb_tx := x\<rparr>" for y unfolding oskb_def by blast
  have "quiet (c_tx c) (c_tx c') \<and> window_taken (c_rx c) (c_rx c') \<and> (one_sock c \<longrightarrow> one_sock c') \<and>
      (\<exists>ts x. skb' = skb\<lparr>skb_tstamp := ts, skb_tx := x\<rparr>)"
    using run
  proof (cases rule: transmitE)
    case nomem
    note nomem = nomem [folded t_def, folded c0_def oskb_def]
    with c0 osk one_sock_quiet [OF _ c0] nomem show ?thesis by (simp add: window_taken_def)
  next
    case (nomac s1 ooo th gso opts bs c1)
    note nomac = nomac [folded t_def, folded c0_def oskb_def]
    from prepare_frame [OF ok(2) nomac(1)] nomac c0 osk one_sock_quiet [OF _ c0] show ?thesis
      by (simp add: one_sock_def)
  next
    case (sent s1 ooo th gso opts bs c1 bs' c2 pk)
    note sent = sent [folded t_def, folded c0_def oskb_def]
    note p = prepare_frame [OF ok(2) sent(1)] and q = queue_quiet [OF ok(1) sent(9)] and sg = sign_frame [OF sent(2)]
    have "quiet (c_tx c1) (c_tx c')" using quiet_trans [OF count_quiet q(1)] sg by simp
    moreover have "c_rx c' = c_rx c1" "c_opts c' = c_opts c1" using q sg by (simp_all add: transmit_count_def Let_def)
    ultimately show ?thesis
      using p(1-3) c0 quiet_trans [OF c0(1)] one_sock_quiet [OF _ c0] one_sock_quiet [of c1 c'] q(4) osk osk' by auto
  qed
  then show "quiet (c_tx c) (c_tx c')" and "window_taken (c_rx c) (c_rx c')" and "one_sock c \<Longrightarrow> one_sock c'"
    and "\<exists>ts x. skb' = skb\<lparr>skb_tstamp := ts, skb_tx := x\<rparr>" by blast+
qed

text \<open>The window of a segment is the one that was selected for it.\<close>

lemma transmit_window_sent:
  assumes ok: "cwr_ok E" "adjust_ok (te_kern E)" and run: "u_tcp_transmit_skb E cl ack skb c = Some (err, Some pk, skb', c')"
    and nosyn: "skb_flags skb AND TCPHDR_SYN = 0"
  shows "\<exists>mibs. tcp_select_window (te_kern E) (te_net E) (te_real_ns E) (te_mono_ns E) (c_rx c) = Some (th_window (pk_hdr pk), mibs, c_rx c')"
  using run
proof (cases rule: transmitE)
  case (sent s1 ooo th gso opts bs c1 bs' c2 pk')
  note p = prepare_frame(5) [OF ok(2) sent(1)] and q = queue_quiet [OF ok(1) sent(9)] and sg = sign_frame [OF sent(2)]
  have "c_rx c' = c_rx c1" using q sg by (simp add: transmit_count_def Let_def)
  moreover have "th_window (pk_hdr pk) = th_window th" using sent(3,5) by simp
  ultimately show ?thesis using p nosyn by simp
qed simp_all

text \<open>A transmission of a counted segment returns, and it has a packet unless memory or the signature is missing.\<close>

lemma transmit_returns:
  assumes "skb_pcount skb \<noteq> 0" and mss: "icsk_ack_rcv_mss (c_rx c) \<noteq> 0"
  shows "\<exists>err pko skb' c'. u_tcp_transmit_skb E cl ack skb c = Some (err, pko, skb', c') \<and>
    (pko = None \<longrightarrow> cl \<and> \<not> te_clone E \<and> err = - ENOBUFS \<or> is_KEY_AO (te_key E) \<and> err = - ENOMEM)"
proof -
  define t where "t = max (tcp_wstamp_ns (c_tx c)) (tcp_clock_cache (c_tx c))"
  define c0 where "c0 = c\<lparr>c_tx := (c_tx c)\<lparr>tcp_wstamp_ns := t\<rparr>\<rparr>"
  define oskb where "oskb = skb\<lparr>skb_tstamp := t\<rparr>"
  obtain sz opts s1 c1 where o: "transmit_options E oskb c0 = (sz, opts, s1, c1)" by (metis prod_cases4)
  have "icsk_ack_rcv_mss (c_rx c1) \<noteq> 0"
    using o mss by (auto simp: transmit_options_def c0_def split: if_splits prod.splits)
  then have "transmit_window E s1 th (c1\<lparr>c_wmem_alloc := a\<rparr>) \<noteq> None" for th a
    using select_window_returns [of "c_rx c1" "te_kern E" "te_net E" "te_real_ns E" "te_mono_ns E"]
    by (auto simp: transmit_window_def simp del: not_None_eq)
  then have "transmit_prepare E ack oskb c0 \<noteq> None"
    unfolding transmit_prepare_def Let_def o prod.case by (auto split: option.split prod.split)
  then obtain s2 ooo th gso opts2 bs c2 where prep: "transmit_prepare E ack oskb c0 = Some ((s2, ooo, th, gso, opts2, bs), c2)"
    by auto
  have "is_KEY_AO (te_key E)" if "transmit_sign E th opts2 bs d c2 = None" for d
    using that by (auto simp: transmit_sign_def split: tcp_key.splits)
  with prep assms(1) show ?thesis
    unfolding u_tcp_transmit_skb_def Let_def t_def [symmetric] c0_def [symmetric] oskb_def [symmetric]
    by (auto split: option.split prod.split)
qed

end
