(* ===== verification/Tcp_Push.thy ===== *)
theory Tcp_Push
  imports Tcp_Retrans
begin

text \<open>
  What makes the queue move (\<open>tcp_output.c\<close>): the MTU probe, \<open>tcp_write_xmit\<close> as a whole, the calls that
  push queued segments out, the loss probe, and the FIN.  As in the loop of \<open>tcp_write_xmit\<close>, whether a
  transmission succeeds is an answer.
\<close>

section \<open>State\<close>

text \<open>\<open>ps_closed\<close> is the state \<open>TCP_CLOSE\<close>; \<open>ps_tlp_high_seq\<close> is 0 if no loss probe is outstanding.\<close>

record push_sock =
  ps_tp :: tcp_sock
  ps_closed :: bool
  ps_write_seq :: u32
  ps_reordering :: u32
  ps_probe_start :: u32
  ps_probe_end :: u32
  ps_tlp_high_seq :: u32
  ps_tlp_retrans :: bool

text \<open>Settings, memory, whether the \<open>i\<close>-th page that is copied continues the one before, and whether a
  probe is sent.\<close>

record push_env =
  pe_hz :: u32
  pe_probe_interval :: u32
  pe_probe_threshold :: int
  pe_seg :: seg_env
  pe_can_collapse :: "sk_buff \<Rightarrow> sk_buff \<Rightarrow> bool"
  pe_zcopy_pure :: "sk_buff \<Rightarrow> bool"
  pe_alloc :: "sk_buff option"
  pe_fin_alloc :: "sk_buff option"
  pe_wmem_ok :: bool
  pe_adjacent :: "nat \<Rightarrow> bool"
  pe_max_frags :: nat
  pe_sent :: bool
  pe_pressure :: bool
  pe_page_shift :: nat

definition E2BIG :: int where "E2BIG = 7"

section \<open>The MTU probe\<close>

definition tcp_mtu_check_reprobe :: "snd_env \<Rightarrow> opt_env \<Rightarrow> opt_sock \<Rightarrow> tcp_key \<Rightarrow> push_env \<Rightarrow> tcp_sock \<Rightarrow> tcp_sock" where
  "tcp_mtu_check_reprobe S oe os key P tp =
     (let interval = pe_probe_interval P;
          delta = jiffies S - mtup_probe_timestamp tp
      in if delta \<ge> interval * pe_hz P then
           let (mss, tp) = tcp_current_mss S oe os key tp
           in tp\<lparr>mtup_probe_size := 0, mtup_search_high := mss_clamp tp + tcphdr_size + net_header_len S,
                 mtup_search_low := tcp_mss_to_mtu S tp (sint mss), mtup_probe_timestamp := jiffies S\<rparr>
         else tp)"

text \<open>The queue from its head; \<open>None\<close> if the code looks at a segment behind the last one.\<close>

fun tcp_can_coalesce_send_queue_head :: "push_env \<Rightarrow> int \<Rightarrow> sk_buff list \<Rightarrow> bool option" where
  "tcp_can_coalesce_send_queue_head P len [] = Some True"
| "tcp_can_coalesce_send_queue_head P len (skb # rest) =
     (if len \<le> int (unat (skb_len skb)) then Some True
      else if tcp_has_tx_tstamp (pe_seg P) skb then Some False
      else case rest of
          [] \<Rightarrow> None
        | nxt # _ \<Rightarrow> if \<not> pe_can_collapse P skb nxt then Some False
                     else tcp_can_coalesce_send_queue_head P (len - int (unat (skb_len skb))) rest)"

text \<open>The pages of the probe: \<open>i\<close> pages have been looked at, \<open>to\<close> are in use.  A page that continues the last
  one is joined to it.\<close>

fun clone_frags :: "push_env \<Rightarrow> nat \<Rightarrow> nat \<Rightarrow> u8 list list \<Rightarrow> u8 list list \<Rightarrow> int + u8 list list" where
  "clone_frags P i left to [] = Inr to"
| "clone_frags P i left to (f # fs) =
     (if left = 0 then Inr to
      else
        let todo = min (length f) left
        in if to \<noteq> [] \<and> pe_adjacent P i
           then clone_frags P (Suc i) (left - todo) (butlast to @ [last to @ take todo f]) fs
           else if length to = pe_max_frags P then Inl (- E2BIG)
           else clone_frags P (Suc i) (left - todo) (to @ [take todo f]) fs)"

definition tcp_clone_payload :: "push_env \<Rightarrow> sk_buff \<Rightarrow> int \<Rightarrow> sk_buff list \<Rightarrow> int + sk_buff" where
  "tcp_clone_payload P to probe_size queue =
     (if \<not> pe_wmem_ok P then Inl (- ENOMEM)
      else case clone_frags P 0 (nat probe_size) [] (concat (map skb_frags queue)) of
          Inl e \<Rightarrow> Inl e
        | Inr fs \<Rightarrow> Inr (to\<lparr>skb_frags := fs, skb_truesize := skb_truesize to + probe_size\<rparr>))"

text \<open>The segments whose data the probe takes over: whole ones are freed (the third result has them), the last
  one may be cut.\<close>

fun probe_eat :: "push_env \<Rightarrow> u32 \<Rightarrow> int \<Rightarrow> sk_buff \<Rightarrow> sk_buff list \<Rightarrow> sk_buff \<times> sk_buff list \<times> sk_buff list" where
  "probe_eat P mss_now left nskb [] = (nskb, [], [])"
| "probe_eat P mss_now left nskb (skb # rest) =
     (let copy = min (int (unat (skb_len skb))) left
      in if int (unat (skb_len skb)) \<le> copy then
           let nskb = nskb\<lparr>skb_flags := skb_flags nskb OR skb_flags skb, skb_eor := skb_eor skb\<rparr>;
               nskb = tcp_skb_collapse_tstamp (pe_seg P) nskb skb
           in if left - copy \<le> 0 then (nskb, rest, [skb])
              else let (nskb, queue, freed) = probe_eat P mss_now (left - copy) nskb rest in (nskb, queue, skb # freed)
         else
           let nskb = nskb\<lparr>skb_flags := skb_flags nskb OR (skb_flags skb AND NOT (TCPHDR_FIN OR TCPHDR_PSH))\<rparr>;
               skb = tcp_set_skb_tso_segs (pskb_trim_head skb (word_of_int copy)) mss_now;
               skb = skb\<lparr>skb_seq := skb_seq skb + word_of_int copy\<rparr>
           in if left - copy \<le> 0 then (nskb, skb # rest, [])
              else let (nskb, queue, freed) = probe_eat P mss_now (left - copy) nskb rest in (nskb, skb # queue, freed))"

definition free_skbs :: "push_env \<Rightarrow> sk_buff list \<Rightarrow> tcp_sock \<Rightarrow> tcp_sock" where
  "free_skbs P freed tp = fold (\<lambda>s tp. let tp = tp\<lparr>sk_wmem_queued := sk_wmem_queued tp - skb_truesize s\<rparr>
     in if pe_zcopy_pure P s then tp else tp\<lparr>sk_forward_alloc := sk_forward_alloc tp + skb_truesize s\<rparr>) freed tp"

text \<open>The probe is built and sent.\<close>

definition probe_build :: "snd_env \<Rightarrow> push_env \<Rightarrow> u32 \<Rightarrow> int \<Rightarrow> sk_buff \<Rightarrow> push_sock \<Rightarrow> int \<times> push_sock" where
  "probe_build S P mss_now probe_size nskb ps =
     (let tp = ps_tp ps;
          tp = tp\<lparr>sk_wmem_queued := sk_wmem_queued tp + skb_truesize nskb, sk_forward_alloc := sk_forward_alloc tp - skb_truesize nskb\<rparr>;
          skb = hd (sk_write_queue tp);
          nskb = nskb\<lparr>skb_seq := skb_seq skb, skb_end_seq := skb_seq skb + word_of_int probe_size, skb_flags := TCPHDR_ACK\<rparr>;
          (nskb, queue, freed) = probe_eat P mss_now probe_size nskb (sk_write_queue tp);
          nskb = snd (tcp_init_tso_segs nskb (skb_len nskb));
          tp = free_skbs P freed (tp\<lparr>sk_write_queue := nskb # queue\<rparr>)
      in if pe_sent P then
           let tp = tcp_event_new_data_sent (tp\<lparr>snd_cwnd := snd_cwnd tp - 1\<rparr>);
               tp = tp\<lparr>mtup_probe_size := tcp_mss_to_mtu S tp (int (unat (skb_len nskb)))\<rparr>
           in (1, ps\<lparr>ps_tp := tp, ps_probe_start := skb_seq nskb, ps_probe_end := skb_end_seq nskb\<rparr>)
         else (- 1, ps\<lparr>ps_tp := tp\<rparr>))"

text \<open>1 if a probe was sent, 0 if one has to wait, -1 otherwise.  \<open>None\<close> as above.\<close>

definition tcp_mtu_probe :: "snd_env \<Rightarrow> opt_env \<Rightarrow> opt_sock \<Rightarrow> tcp_key \<Rightarrow> push_env \<Rightarrow> push_sock \<Rightarrow> (int \<times> push_sock) option" where
  "tcp_mtu_probe S oe os key P ps =
     (let tp = ps_tp ps
      in if \<not> mtup_enabled tp \<or> mtup_probe_size tp \<noteq> 0 \<or> icsk_ca_state tp \<noteq> TCP_CA_Open \<or> snd_cwnd tp < 11 \<or>
            os_num_sacks os \<noteq> 0 \<or> os_dsack os then Some (- 1, ps)
         else
           let (mss_now, tp) = tcp_current_mss S oe os key tp;
               ps = ps\<lparr>ps_tp := tp\<rparr>;
               probe_size = tcp_mtu_to_mss S tp ((mtup_search_high tp + mtup_search_low tp) div 2);
               size_needed = word_of_int probe_size + (ps_reordering ps + 1) * mss_cache tp;
               interval = mtup_search_high tp - mtup_search_low tp
           in if probe_size > tcp_mtu_to_mss S tp (mtup_search_high tp) \<or> interval < pe_probe_threshold P
              then Some (- 1, ps\<lparr>ps_tp := tcp_mtu_check_reprobe S oe os key P tp\<rparr>)
              else if ps_write_seq ps - snd_nxt tp < size_needed then Some (- 1, ps)
              else if snd_wnd tp < size_needed then Some (- 1, ps)
              else if seq_after (snd_nxt tp + size_needed) (tcp_wnd_end tp) then Some (0, ps)
              else if tcp_packets_in_flight tp + 2 > snd_cwnd tp
              then Some (if tcp_packets_in_flight tp = 0 then - 1 else 0, ps)
              else case tcp_can_coalesce_send_queue_head P probe_size (sk_write_queue tp) of
                  None \<Rightarrow> None
                | Some False \<Rightarrow> Some (- 1, ps)
                | Some True \<Rightarrow>
                    (case pe_alloc P of
                       None \<Rightarrow> Some (- 1, ps)
                     | Some nskb \<Rightarrow>
                         (case tcp_clone_payload P nskb probe_size (sk_write_queue tp) of
                            Inl _ \<Rightarrow> Some (- 1, ps)
                          | Inr nskb \<Rightarrow> Some (probe_build S P mss_now probe_size nskb ps))))"

section \<open>\<open>tcp_write_xmit\<close>\<close>

text \<open>The result of the call, the segments put on the wire by the loop, and the socket; \<open>as\<close> has an answer for
  each round.\<close>

datatype push_result = PBug | PDone bool "sk_buff list" push_sock

definition tcp_write_xmit ::
  "snd_env \<Rightarrow> opt_env \<Rightarrow> opt_sock \<Rightarrow> tcp_key \<Rightarrow> push_env \<Rightarrow> u32 \<Rightarrow> u32 \<Rightarrow> nat \<Rightarrow> xmit_ans list \<Rightarrow> push_sock \<Rightarrow> push_result option" where
  "tcp_write_xmit S oe os key P mss_now nonagle push_one as ps =
     (let ps = ps\<lparr>ps_tp := tcp_mstamp_refresh S (ps_tp ps)\<rparr>
      in case (if push_one = 0 then tcp_mtu_probe S oe os key P ps else Some (- 1, ps)) of
           None \<Rightarrow> Some PBug
         | Some (result, ps) \<Rightarrow>
             if result = 0 then Some (PDone False [] ps)
             else
               let L = \<lparr>xs_sk = ps_tp ps, xs_sent = [], xs_sent_pkts = (if result > 0 then 1 else 0),
                        xs_cwnd_limited = False, xs_rwnd_limited = False\<rparr>
               in case xmit_loop S mss_now nonagle push_one (tcp_tso_segs S mss_now) as L of
                    None \<Rightarrow> None
                  | Some (Break L) \<Rightarrow>
                      (case xmit_end S push_one L of (stalled, tp) \<Rightarrow> Some (PDone stalled (xs_sent L) (ps\<lparr>ps_tp := tp\<rparr>)))
                  | Some _ \<Rightarrow> Some PBug)"

definition u_tcp_push_pending_frames ::
  "snd_env \<Rightarrow> opt_env \<Rightarrow> opt_sock \<Rightarrow> tcp_key \<Rightarrow> push_env \<Rightarrow> u32 \<Rightarrow> u32 \<Rightarrow> xmit_ans list \<Rightarrow> push_sock \<Rightarrow> push_result option" where
  "u_tcp_push_pending_frames S oe os key P cur_mss nonagle as ps =
     (if ps_closed ps then Some (PDone False [] ps)
      else case tcp_write_xmit S oe os key P cur_mss nonagle 0 as ps of
          Some (PDone True sent ps) \<Rightarrow> Some (PDone True sent (ps\<lparr>ps_tp := log_call Check_probe_timer (ps_tp ps)\<rparr>))
        | r \<Rightarrow> r)"

definition tcp_push_one ::
  "snd_env \<Rightarrow> opt_env \<Rightarrow> opt_sock \<Rightarrow> tcp_key \<Rightarrow> push_env \<Rightarrow> u32 \<Rightarrow> xmit_ans list \<Rightarrow> push_sock \<Rightarrow> push_result option" where
  "tcp_push_one S oe os key P mss_now as ps =
     (case sk_write_queue (ps_tp ps) of
        [] \<Rightarrow> Some PBug
      | skb # _ \<Rightarrow> if skb_len skb < mss_now then Some PBug
                   else tcp_write_xmit S oe os key P mss_now TCP_NAGLE_PUSH 1 as ps)"

section \<open>The loss probe\<close>

text \<open>The labels \<open>rearm_timer\<close> and \<open>probe_sent\<close>.\<close>

definition rearm_timer :: "push_sock \<Rightarrow> push_sock" where
  "rearm_timer ps = ps\<lparr>ps_tp := log_call Rearm_rto (ps_tp ps)\<rparr>"

definition probe_sent :: "push_sock \<Rightarrow> push_sock" where
  "probe_sent ps = rearm_timer (ps\<lparr>ps_tlp_high_seq := snd_nxt (ps_tp ps),
     ps_tp := log_call Clear_pending ((ps_tp ps)\<lparr>loss_probe_pending := False\<rparr>)\<rparr>)"

text \<open>The last segment in flight, or what is left of it after all packets but one, is sent again.\<close>

definition loss_probe_retrans ::
  "snd_env \<Rightarrow> opt_env \<Rightarrow> opt_sock \<Rightarrow> tcp_key \<Rightarrow> rtx_env \<Rightarrow> seg_env \<Rightarrow> u32 \<Rightarrow> push_sock \<Rightarrow> push_result" where
  "loss_probe_retrans S oe os key E F mss ps =
     (let tp = ps_tp ps;
          i = length (tcp_rtx_queue tp) - 1;
          skb = tcp_rtx_queue tp ! i;
          (busy, tp) = skb_still_in_host_queue E tp;
          ps = ps\<lparr>ps_tp := tp\<rparr>;
          pcount = (ucast (skb_pcount skb) :: u32)
      in if busy then PDone False [] (rearm_timer ps)
         else if pcount = 0 then PDone False [] (rearm_timer ps)
         else
           let (err, i, tp) = (if pcount > 1 \<and> skb_len skb > (pcount - 1) * mss
                 then case tcp_fragment F TCP_FRAG_IN_RTX_QUEUE i ((pcount - 1) * mss) mss tp of (err, tp) \<Rightarrow> (err, Suc i, tp)
                 else (0, i, tp));
               ps = ps\<lparr>ps_tp := tp\<rparr>
           in if err \<noteq> 0 then PDone False [] (rearm_timer ps)
              else if skb_pcount (tcp_rtx_queue tp ! i) = 0 then PDone False [] (rearm_timer ps)
              else case u_tcp_retransmit_skb S oe os key E i 1 tp of
                  None \<Rightarrow> PBug
                | Some (err, sent, tp) \<Rightarrow>
                    let ps = ps\<lparr>ps_tp := tp\<rparr>; hs = (case sent of None \<Rightarrow> [] | Some h \<Rightarrow> [h])
                    in if err \<noteq> 0 then PDone False hs (rearm_timer ps)
                       else PDone True hs (probe_sent (ps\<lparr>ps_tlp_retrans := True\<rparr>)))"

text \<open>The boolean of the result says whether a probe was sent.  \<open>E\<close> has the answers for a retransmission and \<open>F\<close>
  those for the split before it.\<close>

definition tcp_send_loss_probe ::
  "snd_env \<Rightarrow> opt_env \<Rightarrow> opt_sock \<Rightarrow> tcp_key \<Rightarrow> push_env \<Rightarrow> rtx_env \<Rightarrow> seg_env \<Rightarrow> xmit_ans list \<Rightarrow> push_sock \<Rightarrow> push_result option" where
  "tcp_send_loss_probe S oe os key P E F as ps =
     (let (mss, tp) = tcp_current_mss S oe os key (ps_tp ps);
          ps = ps\<lparr>ps_tp := tp\<rparr>
      in if ps_tlp_high_seq ps \<noteq> 0 then Some (PDone False [] (rearm_timer ps))
         else
           let ps = ps\<lparr>ps_tlp_retrans := False\<rparr>
           in if sk_write_queue tp \<noteq> [] \<and> tcp_snd_wnd_test tp (hd (sk_write_queue tp)) mss then
                (case tcp_write_xmit S oe os key P mss TCP_NAGLE_OFF 2 as ps of
                   Some (PDone _ sent ps') \<Rightarrow>
                     Some (if packets_out (ps_tp ps') > packets_out tp then PDone True sent (probe_sent ps')
                           else PDone False sent (rearm_timer ps'))
                 | r \<Rightarrow> r)
              else if tcp_rtx_queue tp = []
              then Some (PDone False [] (ps\<lparr>ps_tp := log_call Clear_pending (tp\<lparr>loss_probe_pending := False\<rparr>)\<rparr>))
              else Some (loss_probe_retrans S oe os key E F mss ps))"

section \<open>The FIN\<close>

definition sk_forced_mem_schedule :: "push_env \<Rightarrow> int \<Rightarrow> tcp_sock \<Rightarrow> tcp_sock" where
  "sk_forced_mem_schedule P sz tp =
     (let delta = sz - sk_forward_alloc tp
      in if delta \<le> 0 then tp
         else
           let page = 2 ^ pe_page_shift P;
               amt = (delta + page - 1) div page
           in tp\<lparr>sk_forward_alloc := sk_forward_alloc tp + amt * page\<rparr>)"

definition tcp_queue_skb :: "snd_env \<Rightarrow> sk_buff \<Rightarrow> push_sock \<Rightarrow> push_sock" where
  "tcp_queue_skb S skb ps =
     (let tp = ps_tp ps;
          tp = (let first = (sk_write_queue tp = []);
                    tp = tp\<lparr>sk_write_queue := sk_write_queue tp @ [skb]\<rparr>
                in if first then tcp_chrono_start S TCP_CHRONO_BUSY tp else tp);
          tp = tp\<lparr>sk_wmem_queued := sk_wmem_queued tp + skb_truesize skb, sk_forward_alloc := sk_forward_alloc tp - skb_truesize skb\<rparr>
      in ps\<lparr>ps_write_seq := skb_end_seq skb, ps_tp := tp\<rparr>)"

definition add_fin :: "sk_buff \<Rightarrow> sk_buff" where
  "add_fin skb = skb\<lparr>skb_flags := skb_flags skb OR TCPHDR_FIN, skb_end_seq := skb_end_seq skb + 1\<rparr>"

text \<open>The queue with the FIN on it, and whether something has to be pushed out.\<close>

definition fin_queue :: "snd_env \<Rightarrow> push_env \<Rightarrow> push_sock \<Rightarrow> bool \<times> push_sock" where
  "fin_queue S P ps =
     (let tp = ps_tp ps
      in if sk_write_queue tp \<noteq> [] then
           (True, ps\<lparr>ps_tp := tp\<lparr>sk_write_queue := butlast (sk_write_queue tp) @ [add_fin (last (sk_write_queue tp))]\<rparr>,
                     ps_write_seq := ps_write_seq ps + 1\<rparr>)
         else if pe_pressure P \<and> tcp_rtx_queue tp \<noteq> [] then
           (False, ps\<lparr>ps_tp := tp\<lparr>tcp_rtx_queue := butlast (tcp_rtx_queue tp) @ [add_fin (last (tcp_rtx_queue tp))],
                                  snd_nxt := snd_nxt tp + 1\<rparr>,
                      ps_write_seq := ps_write_seq ps + 1\<rparr>)
         else case pe_fin_alloc P of
             None \<Rightarrow> (False, ps)
           | Some skb \<Rightarrow>
               let ps = ps\<lparr>ps_tp := sk_forced_mem_schedule P (skb_truesize skb) tp\<rparr>
               in (True, tcp_queue_skb S (tcp_init_nondata_skb skb (ps_write_seq ps) (TCPHDR_ACK OR TCPHDR_FIN)) ps))"

definition tcp_send_fin ::
  "snd_env \<Rightarrow> opt_env \<Rightarrow> opt_sock \<Rightarrow> tcp_key \<Rightarrow> push_env \<Rightarrow> xmit_ans list \<Rightarrow> push_sock \<Rightarrow> push_result option" where
  "tcp_send_fin S oe os key P as ps =
     (let (push, ps) = fin_queue S P ps
      in if \<not> push then Some (PDone False [] ps)
         else
           let (mss, tp) = tcp_current_mss S oe os key (ps_tp ps)
           in u_tcp_push_pending_frames S oe os key P mss TCP_NAGLE_OFF as (ps\<lparr>ps_tp := tp\<rparr>))"

end
