(* ===== verification/Push_Safety.thy ===== *)
theory Push_Safety
  imports Tcp_Push Send_Safety Retrans_Walk
begin

text \<open>
  The MTU probe and the FIN keep the byte stream: a probe takes the first bytes of the queue and leaves the
  others, a FIN is added behind the last one.
\<close>

section \<open>The MTU probe\<close>

lemma clone_frags_data: "clone_frags P i left to fs = Inr r \<Longrightarrow> concat r = concat to @ take left (concat fs)"
proof (induction P i left to fs rule: clone_frags.induct)
  case (2 P i left to f fs)
  have join: "concat (butlast to) @ last to = concat to" if "to \<noteq> []"
    using that by (cases to rule: rev_cases) simp_all
  have cut: "take (min (length f) left) f @ take (left - min (length f) left) (concat fs) = take left (f @ concat fs)"
    by (simp add: min_def)
  from 2 show ?case by (auto simp: Let_def join cut split: if_splits)
qed simp

text \<open>A FIN is on the last segment only.\<close>

definition fin_last :: "sk_buff list \<Rightarrow> bool" where
  "fin_last ss \<longleftrightarrow> (\<forall>s \<in> set (butlast ss). skb_flags s AND TCPHDR_FIN = 0)"

lemma fin_last_Cons: "fin_last (s # ss) \<longleftrightarrow> (ss \<noteq> [] \<longrightarrow> skb_flags s AND TCPHDR_FIN = 0) \<and> fin_last ss"
  by (auto simp: fin_last_def)

definition bytes_of :: "sk_buff list \<Rightarrow> u8 list" where
  "bytes_of ss = concat (map skb_data ss)"

lemma bytes_of_simps [simp]: "bytes_of [] = []" "bytes_of (s # ss) = skb_data s @ bytes_of ss" "bytes_of (xs @ ys) = bytes_of xs @ bytes_of ys"
  by (simp_all add: bytes_of_def)

definition same_probe :: "sk_buff \<Rightarrow> sk_buff \<Rightarrow> bool" where
  "same_probe n n' \<longleftrightarrow> skb_seq n' = skb_seq n \<and> skb_end_seq n' = skb_end_seq n \<and> skb_frags n' = skb_frags n \<and>
     skb_pcount n' = skb_pcount n \<and> skb_gso_size n' = skb_gso_size n \<and> (skb_flags n AND TCPHDR_FIN = 0 \<longrightarrow> skb_flags n' AND TCPHDR_FIN = 0)"

lemma same_probe_trans: "same_probe a b \<Longrightarrow> same_probe b c \<Longrightarrow> same_probe a c"
  by (simp add: same_probe_def)

lemma probe_takes_whole:
  assumes "skb_flags s AND TCPHDR_FIN = 0"
  shows "same_probe n (tcp_skb_collapse_tstamp E (n\<lparr>skb_flags := skb_flags n OR skb_flags s, skb_eor := skb_eor s\<rparr>) s)"
  using assms by (simp add: same_probe_def tcp_skb_collapse_tstamp_def bit.conj_disj_distrib2)

lemma probe_takes_part:
  "same_probe n (n\<lparr>skb_flags := skb_flags n OR (skb_flags s AND NOT (TCPHDR_FIN OR TCPHDR_PSH))\<rparr>)"
  using not_fin_psh_fin [of "skb_flags s"] by (auto simp: same_probe_def bit.conj_disj_distrib2)

lemma cut_head:
  assumes "chain a (s # rest) b" and "k < length (skb_data s)" and "length (skb_data s) < 2 ^ 31" and "countable mss s" and m: "0 < mss" "mss < 2 ^ 16"
  defines "s' \<equiv> (tcp_set_skb_tso_segs (pskb_trim_head s (of_nat k)) mss)"
  defines "s'' \<equiv> s'\<lparr>skb_seq := skb_seq s' + of_nat k\<rparr>"
  shows "chain (a + of_nat k) (s'' # rest) b" and "skb_data s'' = drop k (skb_data s)" and "span s'' + k = span s"
    and "counted s''" and "countable mss s''" and "skb_flags s'' = skb_flags s"
proof -
  have uk: "unat (of_nat k :: u32) = k" using assms(2,3) by (simp add: unsigned_of_nat take_bit_nat_eq_self)
  have d: "skb_data (pskb_trim_head s (of_nat k)) = drop k (skb_data s)" by (simp add: pskb_trim_head_def eat_frags_concat uk)
  then show data: "skb_data s'' = drop k (skb_data s)" and fl: "skb_flags s'' = skb_flags s"
    by (simp_all add: s''_def s'_def pskb_trim_head_def)
  then show sp: "span s'' + k = span s" using assms(2) by (simp add: span_def)
  have c: "countable mss (pskb_trim_head s (of_nat k))" by (rule countable_shorter [OF assms(4)]) (simp add: d)
  then show "countable mss s''" by (rule countable_shorter) (simp add: data d)
  have "counted s'" unfolding s'_def by (rule tso_segs_count(2) [OF c m])
  then show "counted s''" by (simp add: s''_def counted_def)
  have "a + of_nat (span s) = a + of_nat k + of_nat (span s'')" using sp by (metis add.assoc add.commute of_nat_add)
  moreover have "skb_seq s'' = skb_seq s + of_nat k" "skb_end_seq s'' = skb_end_seq s"
    by (simp_all add: s''_def s'_def pskb_trim_head_def)
  ultimately show "chain (a + of_nat k) (s'' # rest) b" using assms(1) by auto
qed

lemma probe_eat_done:
  assumes "chain a q b" and "fin_last q" and "0 < k" and "k < length (bytes_of q)" and "sum_list (map span q) < 2 ^ 31"
    and "\<forall>s \<in> set q. counted s \<and> countable mss s" and m: "0 < mss" "mss < 2 ^ 16" and "probe_eat P mss (int k) n q = (n', q', freed)"
  shows "same_probe n n' \<and> bytes_of q' = drop k (bytes_of q) \<and> chain (a + of_nat k) q' b \<and> fin_last q' \<and>
    sum_list (map span q') + k = sum_list (map span q) \<and> (\<forall>s \<in> set q'. counted s \<and> countable mss s) \<and> length q' \<le> length q"
  using assms(1-6,9)
proof (induction q arbitrary: a k n n' q' freed)
  case Nil
  then show ?case by simp
next
  case (Cons s rest)
  have small: "length (skb_data s) < 2 ^ 31" using Cons.prems(5) by (simp add: span_def)
  note len = unat_skb_len [OF small]
  have cs: "counted s" "countable mss s" "\<forall>s \<in> set rest. counted s \<and> countable mss s" using Cons.prems(6) by simp_all
  show ?case
  proof (cases "length (skb_data s) \<le> k")
    case True
    then have ne: "rest \<noteq> []" using Cons.prems(4) by (cases rest) auto
    then have nf: "skb_flags s AND TCPHDR_FIN = 0" "fin_last rest" using Cons.prems(2) by (simp_all add: fin_last_Cons)
    define n1 where "n1 = tcp_skb_collapse_tstamp (pe_seg P) (n\<lparr>skb_flags := skb_flags n OR skb_flags s, skb_eor := skb_eor s\<rparr>) s"
    have sp1: "same_probe n n1" unfolding n1_def by (rule probe_takes_whole [OF nf(1)])
    have span: "span s = length (skb_data s)" using nf by (simp add: span_def)
    have ch: "chain (a + of_nat (length (skb_data s))) rest b" using Cons.prems(1) span by auto
    show ?thesis
    proof (cases "k = length (skb_data s)")
      case True
      then have "n' = n1" "q' = rest" using Cons.prems(7) by (simp_all add: len n1_def Let_def)
      with True sp1 ch nf Cons.prems span cs ne show ?thesis by auto
    next
      case False
      with \<open>length (skb_data s) \<le> k\<close> have k: "0 < k - length (skb_data s)" by simp
      obtain fr where "probe_eat P mss (int (k - length (skb_data s))) n1 rest = (n', q', fr)"
        using Cons.prems(7) k by (auto simp: len n1_def Let_def of_nat_diff split: prod.splits)
      moreover have "k - length (skb_data s) < length (bytes_of rest)" "sum_list (map span rest) < 2 ^ 31"
        using Cons.prems(4,5) k by simp_all
      ultimately have
        r: "same_probe n1 n'" "bytes_of q' = drop (k - length (skb_data s)) (bytes_of rest)"
          "chain (a + of_nat (length (skb_data s)) + of_nat (k - length (skb_data s))) q' b" "fin_last q'"
          "sum_list (map span q') + (k - length (skb_data s)) = sum_list (map span rest)" "\<forall>s \<in> set q'. counted s \<and> countable mss s" "length q' \<le> length rest"
        using Cons.IH [OF ch nf(2) k _ _ cs(3)] by blast+
      have "(of_nat (length (skb_data s)) + of_nat (k - length (skb_data s)) :: u32) = of_nat k"
        using \<open>length (skb_data s) \<le> k\<close> by (metis of_nat_add le_add_diff_inverse)
      with r same_probe_trans [OF sp1 r(1)] span \<open>length (skb_data s) \<le> k\<close> show ?thesis by (simp add: add.assoc)
    qed
  next
    case False
    then have k: "k < length (skb_data s)" by simp
    define s2 where "s2 = (let t = tcp_set_skb_tso_segs (pskb_trim_head s (of_nat k)) mss in t\<lparr>skb_seq := skb_seq t + of_nat k\<rparr>)"
    have run: "n' = n\<lparr>skb_flags := skb_flags n OR (skb_flags s AND NOT (TCPHDR_FIN OR TCPHDR_PSH))\<rparr>" "q' = s2 # rest"
      using Cons.prems(7) k by (auto simp: len s2_def Let_def)
    note h = cut_head [OF Cons.prems(1) k small cs(2) m]
    have h': "chain (a + of_nat k) (s2 # rest) b" "skb_data s2 = drop k (skb_data s)" "span s2 + k = span s" "counted s2" "countable mss s2"
      "skb_flags s2 = skb_flags s" unfolding s2_def Let_def by (fact h)+
    with run probe_takes_part [of n s] Cons.prems(2) cs(3) k show ?thesis by (auto simp: fin_last_Cons)
  qed
qed

lemma free_skbs_frame:
  "same_conn tp (free_skbs P fs tp)" "sk_write_queue (free_skbs P fs tp) = sk_write_queue tp"
  "snd_cwnd (free_skbs P fs tp) = snd_cwnd tp"
proof -
  have "same_conn tp (free_skbs P fs tp) \<and> sk_write_queue (free_skbs P fs tp) = sk_write_queue tp"
  proof (induction fs arbitrary: tp)
    case (Cons f fs)
    define t where "t = (let tp = tp\<lparr>sk_wmem_queued := sk_wmem_queued tp - skb_truesize f\<rparr>
      in if pe_zcopy_pure P f then tp else tp\<lparr>sk_forward_alloc := sk_forward_alloc tp + skb_truesize f\<rparr>)"
    have "free_skbs P (f # fs) tp = free_skbs P fs t" by (simp add: free_skbs_def t_def)
    moreover have "same_conn tp t" "sk_write_queue t = sk_write_queue tp" by (simp_all add: t_def same_conn_def Let_def)
    ultimately show ?case using Cons.IH [of t] same_conn_trans by metis
  qed (simp add: free_skbs_def)
  then show "same_conn tp (free_skbs P fs tp)" "sk_write_queue (free_skbs P fs tp) = sk_write_queue tp"
    "snd_cwnd (free_skbs P fs tp) = snd_cwnd tp" by (auto simp: same_conn_def)
qed

text \<open>What the steps of a push keep: the invariant of the sending loop, all bytes, and the end of the stream.\<close>

definition push_inv :: "u32 \<Rightarrow> push_sock \<Rightarrow> bool" where
  "push_inv mss ps \<longleftrightarrow> send_inv mss (ps_tp ps) \<and> chain (snd_nxt (ps_tp ps)) (sk_write_queue (ps_tp ps)) (ps_write_seq ps) \<and>
     fin_last (sk_write_queue (ps_tp ps))"

lemma push_inv_frame:
  assumes "same_conn (ps_tp ps) (ps_tp ps')" and "sk_write_queue (ps_tp ps') = sk_write_queue (ps_tp ps)" and "ps_write_seq ps' = ps_write_seq ps"
  shows "push_inv mss ps' \<longleftrightarrow> push_inv mss ps" and "queued_data (ps_tp ps') = queued_data (ps_tp ps)"
  using assms send_inv_frame [OF assms(1,2)] queued_data_frame [OF assms(1,2)] by (auto simp: push_inv_def same_conn_def)

lemma weight_eq: "weight ss = sum_list (map span ss) + length ss"
  by (induction ss) simp_all

lemma probe_counted:
  assumes "skb_pcount n = 0" and "tcp_init_tso_segs n (skb_len n) = (c, n')"
  shows "skb_pcount n' = 1" and "counted n'" and "skb_frags n' = skb_frags n" and "skb_seq n' = skb_seq n" and "skb_end_seq n' = skb_end_seq n"
    and "skb_flags n' = skb_flags n"
  using assms by (auto simp: tcp_init_tso_segs_def tcp_set_skb_tso_segs_def counted_def Let_def)

lemma countable_small: "length (skb_data s) < 2 ^ 16 \<Longrightarrow> 0 < mss \<Longrightarrow> countable mss s"
proof -
  assume l: "length (skb_data s) < 2 ^ 16" and m: "0 < mss"
  have u: "0 < unat mss" using m by (simp add: unat_gt_0)
  have "seg_count (length (skb_data s)) (unat mss) \<le> max 1 (length (skb_data s))"
    using seg_count_cap [OF u, of "length (skb_data s)" "length (skb_data s)"] u by simp
  with l show ?thesis by (simp add: countable_def)
qed

lemma probe_built:
  assumes inv: "push_inv mss ps" and m: "0 < mss" "mss < 2 ^ 16" and k: "0 < k" "k < 2 ^ 16" "k < length (bytes_of (sk_write_queue (ps_tp ps)))"
    and data: "skb_data nskb = take k (bytes_of (sk_write_queue (ps_tp ps)))" "skb_pcount nskb = 0"
    and run: "probe_build S P mss (int k) nskb ps = (r, ps')"
  shows "push_inv mss ps' \<and> queued_data (ps_tp ps') = queued_data (ps_tp ps) \<and> ps_write_seq ps' = ps_write_seq ps \<and>
    weight (sk_write_queue (ps_tp ps')) \<le> Suc (weight (sk_write_queue (ps_tp ps))) \<and>
    snd_una (ps_tp ps') = snd_una (ps_tp ps) \<and> snd_wnd (ps_tp ps') = snd_wnd (ps_tp ps) \<and>
    (if r = 1 then \<exists>h. tcp_rtx_queue (ps_tp ps') = tcp_rtx_queue (ps_tp ps) @ [h] \<and> skb_pcount h = 1 \<and>
         skb_data h = take k (bytes_of (sk_write_queue (ps_tp ps))) \<and> snd_cwnd (ps_tp ps') = snd_cwnd (ps_tp ps) - 1 \<and>
         skb_seq h = snd_nxt (ps_tp ps)
     else r = - 1 \<and> tcp_rtx_queue (ps_tp ps') = tcp_rtx_queue (ps_tp ps) \<and> snd_cwnd (ps_tp ps') = snd_cwnd (ps_tp ps))"
proof -
  let ?tp = "ps_tp ps" and ?q = "sk_write_queue (ps_tp ps)"
  have ch: "chain (snd_nxt ?tp) ?q (ps_write_seq ps)" and sinv: "send_inv mss ?tp" and fl: "fin_last ?q"
    using inv by (auto simp: push_inv_def)
  have small: "sum_list (map span ?q) < 2 ^ 31" and cs: "\<forall>s \<in> set ?q. counted s \<and> countable mss s"
    using sinv by (auto simp: send_inv_def seg_inv_def)
  have ne: "?q \<noteq> []" using k(3) by auto
  have hd: "skb_seq (hd ?q) = snd_nxt ?tp" using ch ne by (cases ?q) auto
  define t1 where "t1 = ?tp\<lparr>sk_wmem_queued := sk_wmem_queued ?tp + skb_truesize nskb, sk_forward_alloc := sk_forward_alloc ?tp - skb_truesize nskb\<rparr>"
  define n0 where "n0 = nskb\<lparr>skb_seq := snd_nxt ?tp, skb_end_seq := snd_nxt ?tp + of_nat k, skb_flags := TCPHDR_ACK\<rparr>"
  obtain n1 q' fr where eat: "probe_eat P mss (int k) n0 ?q = (n1, q', fr)" by (metis prod_cases3)
  note e = probe_eat_done [OF ch fl k(1,3) small cs m eat]
  obtain c n2 where init: "tcp_init_tso_segs n1 (skb_len n1) = (c, n2)" by fastforce
  have n1: "skb_seq n1 = snd_nxt ?tp" "skb_end_seq n1 = snd_nxt ?tp + of_nat k" "skb_data n1 = take k (bytes_of ?q)" "skb_pcount n1 = 0"
    "skb_flags n1 AND TCPHDR_FIN = 0"
    using e data by (auto simp: same_probe_def n0_def TCPHDR_ACK_def TCPHDR_FIN_def)
  note n2 = probe_counted [OF n1(4) init]
  have len: "length (skb_data n2) = k" using n2(3) n1(3) k(3) by simp
  have span: "span n2 = k" using len n2(6) n1(5) by (simp add: span_def)
  have cn: "countable mss n2" using countable_small [OF _ m(1)] len k(2) by simp
  define t2 where "t2 = free_skbs P fr (t1\<lparr>sk_write_queue := n2 # q'\<rparr>)"
  have f2: "same_conn ?tp t2" "sk_write_queue t2 = n2 # q'"
    using free_skbs_frame [where tp = "t1\<lparr>sk_write_queue := n2 # q'\<rparr>" and P = P and fs = fr] by (simp_all add: t2_def t1_def same_conn_def)
  have ch2: "chain (snd_nxt t2) (n2 # q') (ps_write_seq ps)"
    using e n2(4,5) n1(1,2) f2(1) span by (simp add: same_conn_def)
  have sum2: "sum_list (map span (n2 # q')) = sum_list (map span ?q)" using e span by simp
  have inv2: "send_inv mss t2"
    using sinv f2 ch2 sum2 e cn n2(2) by (auto simp: send_inv_def seg_inv_def same_conn_def)
  have fl2: "fin_last (n2 # q')" using e n2(6) n1(5) by (simp add: fin_last_Cons)
  have bytes2: "bytes_of (n2 # q') = bytes_of ?q" using e n2(3) n1(3) by simp
  have data2: "queued_data t2 = queued_data ?tp"
    using f2 bytes2 by (simp add: queued_data_def same_conn_def bytes_of_def)
  have w2: "weight (n2 # q') \<le> Suc (weight ?q)" using sum2 e by (simp add: weight_eq)
  show ?thesis
  proof (cases "pe_sent P")
    case False
    then have "r = - 1" "ps' = ps\<lparr>ps_tp := t2\<rparr>"
      using run unfolding probe_build_def Let_def t1_def [symmetric]
      by (auto simp: hd n0_def [symmetric] t1_def eat init t2_def)
    with inv2 f2 ch2 fl2 data2 w2 show ?thesis by (simp add: push_inv_def same_conn_def del: chain.simps)
  next
    case True
    define t3 where "t3 = tcp_event_new_data_sent (t2\<lparr>snd_cwnd := snd_cwnd t2 - 1\<rparr>)"
    have q3: "sk_write_queue (t2\<lparr>snd_cwnd := snd_cwnd t2 - 1\<rparr>) = n2 # q'" using f2(2) by simp
    have inv2': "send_inv mss (t2\<lparr>snd_cwnd := snd_cwnd t2 - 1\<rparr>)" using inv2 by (simp add: send_inv_def seg_inv_def)
    note n3 = new_data_sent_inv [OF inv2' q3, folded t3_def] and f3 = new_data_sent_fields [OF q3, folded t3_def]
    have res: "r = 1" "\<exists>p. ps_tp ps' = t3\<lparr>mtup_probe_size := p\<rparr>" "ps_write_seq ps' = ps_write_seq ps"
      using run True unfolding probe_build_def Let_def
      by (auto simp: hd n0_def [symmetric] eat init t3_def t2_def t1_def)
    then obtain p where p: "ps_tp ps' = t3\<lparr>mtup_probe_size := p\<rparr>" by blast
    have "queued_data (t2\<lparr>snd_cwnd := snd_cwnd t2 - 1\<rparr>) = queued_data t2" by (simp add: queued_data_def)
    moreover have "chain (skb_end_seq n2) q' (ps_write_seq ps)" using ch2 unfolding chain.simps by blast
    moreover have "weight q' \<le> Suc (weight ?q)" using w2 by simp
    ultimately show ?thesis
      using res(1,3) n3 f3 f2 fl2 data2 n2 n1
      by (auto simp: push_inv_def p send_inv_def seg_inv_def queued_data_def same_conn_def fin_last_Cons)
  qed
qed

section \<open>When a probe is sent\<close>

lemma chain_length: "chain a ss b \<Longrightarrow> sum_list (map span ss) < 2 ^ 31 \<Longrightarrow> unat (b - a) = sum_list (map span ss)"
  using chain_end [of a ss b] by (simp add: unsigned_of_nat take_bit_nat_eq_self)

lemma fin_last_bytes: "fin_last ss \<Longrightarrow> sum_list (map span ss) \<le> Suc (length (bytes_of ss))"
proof (induction ss)
  case (Cons s ss)
  then show ?case by (cases ss) (auto simp: fin_last_Cons span_def)
qed simp

lemma coalesce_decides:
  "k \<le> length (bytes_of q) \<Longrightarrow> \<forall>s \<in> set q. countable mss s \<Longrightarrow> \<exists>b. tcp_can_coalesce_send_queue_head P (int k) q = Some b"
proof (induction q arbitrary: k)
  case (Cons s rest)
  have len: "unat (skb_len s) = length (skb_data s)" using Cons.prems(2) by (simp add: countable_def unat_skb_len)
  show ?case
  proof (cases "k \<le> length (skb_data s)")
    case True
    then show ?thesis by (intro exI [of _ True]) (simp add: len)
  next
    case False
    then have "rest \<noteq> []" "k - length (skb_data s) \<le> length (bytes_of rest)" using Cons.prems(1) by auto
    moreover obtain b where "tcp_can_coalesce_send_queue_head P (int (k - length (skb_data s))) rest = Some b"
      using Cons.IH [OF calculation(2)] Cons.prems(2) by auto
    ultimately show ?thesis using False by (auto simp: len of_nat_diff split: list.splits)
  qed
qed auto

lemma current_mss_conn:
  assumes "tcp_current_mss S oe os key tp = (m, t)"
  shows "same_conn tp t" and "sk_write_queue t = sk_write_queue tp"
  using assms by (auto simp: tcp_current_mss_def tcp_sync_mss_def same_conn_def Let_def split: option.splits if_splits prod.splits)

text \<open>The probe and the segments that must be queued behind it are of a sane size, and a new segment has no
  packet count.\<close>

definition probe_size_of :: "snd_env \<Rightarrow> tcp_sock \<Rightarrow> int" where
  "probe_size_of S tp = tcp_mtu_to_mss S tp ((mtup_search_high tp + mtup_search_low tp) div 2)"

definition probe_sane :: "snd_env \<Rightarrow> opt_env \<Rightarrow> opt_sock \<Rightarrow> tcp_key \<Rightarrow> push_env \<Rightarrow> push_sock \<Rightarrow> bool" where
  "probe_sane S oe os key P ps \<longleftrightarrow> (let tp = snd (tcp_current_mss S oe os key (ps_tp ps))
     in 0 < probe_size_of S tp \<and> probe_size_of S tp < 2 ^ 16 \<and> 1 < mss_cache tp \<and> mss_cache tp < 2 ^ 16 \<and>
        ps_reordering ps < 2 ^ 14 \<and> (\<forall>n. pe_alloc P = Some n \<longrightarrow> skb_pcount n = 0))"

lemma size_needed_value:
  fixes r m :: u32
  assumes "k < 2 ^ 16" and "1 < m" and "m < 2 ^ 16" and "r < 2 ^ 14"
  shows "\<exists>x. (of_nat k + (r + 1) * m :: u32) = of_nat x \<and> Suc k < x \<and> x < 2 ^ 31"
proof -
  let ?x = "k + Suc (unat r) * unat m"
  have b: "unat r < 2 ^ 14" "unat m < 2 ^ 16" "1 < unat m" using assms(2-4) by (simp_all add: word_less_nat_alt)
  have "Suc (unat r) * unat m \<le> 2 ^ 14 * 2 ^ 16" using b by (intro mult_le_mono) simp_all
  then have "?x < 2 ^ 31" using assms(1) by simp
  moreover have "Suc k < ?x" using b(3) by simp
  moreover have "(of_nat k + (r + 1) * m :: u32) = of_nat ?x" by (simp add: algebra_simps)
  ultimately show ?thesis by blast
qed

text \<open>What a call for a probe may do.\<close>

definition probe_done :: "u32 \<Rightarrow> push_sock \<Rightarrow> int \<Rightarrow> push_sock \<Rightarrow> bool" where
  "probe_done mss ps r ps' \<longleftrightarrow> push_inv mss ps' \<and> queued_data (ps_tp ps') = queued_data (ps_tp ps) \<and> ps_write_seq ps' = ps_write_seq ps \<and>
     weight (sk_write_queue (ps_tp ps')) \<le> Suc (weight (sk_write_queue (ps_tp ps))) \<and>
     snd_una (ps_tp ps') = snd_una (ps_tp ps) \<and> snd_wnd (ps_tp ps') = snd_wnd (ps_tp ps) \<and>
     (if r = 1 then \<exists>h k. tcp_rtx_queue (ps_tp ps') = tcp_rtx_queue (ps_tp ps) @ [h] \<and> skb_pcount h = 1 \<and> 0 < k \<and>
         skb_data h = take k (bytes_of (sk_write_queue (ps_tp ps))) \<and> k < length (bytes_of (sk_write_queue (ps_tp ps))) \<and>
         in_window (ps_tp ps) h \<and> tcp_packets_in_flight (ps_tp ps) + 2 \<le> snd_cwnd (ps_tp ps) \<and>
         snd_cwnd (ps_tp ps') = snd_cwnd (ps_tp ps) - 1
      else r \<in> {- 1, 0} \<and> tcp_rtx_queue (ps_tp ps') = tcp_rtx_queue (ps_tp ps) \<and> snd_cwnd (ps_tp ps') = snd_cwnd (ps_tp ps))"

lemma probe_done_none:
  assumes "push_inv mss ps" and "same_conn (ps_tp ps) (ps_tp ps')" and "sk_write_queue (ps_tp ps') = sk_write_queue (ps_tp ps)"
    and "ps_write_seq ps' = ps_write_seq ps" and "r \<in> {- 1, 0}"
  shows "probe_done mss ps r ps'"
  using assms push_inv_frame [OF assms(2-4)] by (auto simp: probe_done_def same_conn_def)

lemma reprobe_frame:
  "same_conn tp (tcp_mtu_check_reprobe S oe os key P tp)" "sk_write_queue (tcp_mtu_check_reprobe S oe os key P tp) = sk_write_queue tp"
proof -
  obtain m t where t: "tcp_current_mss S oe os key tp = (m, t)" by fastforce
  note f = current_mss_conn [OF t]
  show "same_conn tp (tcp_mtu_check_reprobe S oe os key P tp)" "sk_write_queue (tcp_mtu_check_reprobe S oe os key P tp) = sk_write_queue tp"
    using f by (auto simp: tcp_mtu_check_reprobe_def t Let_def same_conn_def)
qed

lemma probe_fits:
  assumes "push_inv mss ps" and "Suc k < x" and "x < 2 ^ 31" and "\<not> ps_write_seq ps - snd_nxt (ps_tp ps) < of_nat x"
    and "\<not> snd_wnd (ps_tp ps) < of_nat x" and "\<not> seq_after (snd_nxt (ps_tp ps) + of_nat x) (tcp_wnd_end (ps_tp ps))"
  shows "k < length (bytes_of (sk_write_queue (ps_tp ps)))" and "unat (snd_nxt (ps_tp ps) - snd_una (ps_tp ps)) + k \<le> unat (snd_wnd (ps_tp ps))"
proof -
  let ?tp = "ps_tp ps" and ?q = "sk_write_queue (ps_tp ps)"
  have ux: "unat (of_nat x :: u32) = x" using assms(3) by (simp add: unsigned_of_nat take_bit_nat_eq_self)
  have i: "chain (snd_nxt ?tp) ?q (ps_write_seq ps)" "fin_last ?q"
    "unat (snd_nxt ?tp - snd_una ?tp) + sum_list (map span ?q) < 2 ^ 31" "unat (snd_wnd ?tp) < 2 ^ 31"
    using assms(1) by (auto simp: push_inv_def send_inv_def)
  have s: "unat (ps_write_seq ps - snd_nxt ?tp) = sum_list (map span ?q)" using i(3) by (intro chain_length [OF i(1)]) simp
  have "x \<le> unat (ps_write_seq ps - snd_nxt ?tp)" using assms(4) ux by (simp add: not_less word_le_nat_alt)
  then have x: "x \<le> sum_list (map span ?q)" by (simp only: s)
  with fin_last_bytes [OF i(2)] assms(2) show "k < length (bytes_of ?q)" by linarith
  have "unat (snd_nxt ?tp - snd_una ?tp) + x \<le> unat (snd_wnd ?tp)"
    using assms(6) i(3,4) x by (intro not_after_window) simp_all
  with assms(2) show "unat (snd_nxt ?tp - snd_una ?tp) + k \<le> unat (snd_wnd ?tp)" by linarith
qed

lemma clone_payload_done:
  assumes "tcp_clone_payload P n (int k) q = Inr n'"
  shows "skb_data n' = take k (bytes_of q)" and "skb_pcount n' = skb_pcount n"
proof -
  obtain fs where fs: "clone_frags P 0 k [] (concat (map skb_frags q)) = Inr fs" "n' = n\<lparr>skb_frags := fs, skb_truesize := skb_truesize n + int k\<rparr>"
    using assms by (auto simp: tcp_clone_payload_def split: if_splits sum.splits)
  have "concat (concat (map skb_frags q)) = bytes_of q" by (induction q) simp_all
  with clone_frags_data [OF fs(1)] fs(2) show "skb_data n' = take k (bytes_of q)" "skb_pcount n' = skb_pcount n" by simp_all
qed

lemma mtu_probe_returns:
  assumes inv: "push_inv mss ps" and mss: "mss = fst (tcp_current_mss S oe os key (ps_tp ps))" and m: "0 < mss" "mss < 2 ^ 16"
    and sane: "probe_sane S oe os key P ps"
  shows "\<exists>r ps'. tcp_mtu_probe S oe os key P ps = Some (r, ps') \<and> probe_done mss ps r ps'"
proof (cases "\<not> mtup_enabled (ps_tp ps) \<or> mtup_probe_size (ps_tp ps) \<noteq> 0 \<or> icsk_ca_state (ps_tp ps) \<noteq> TCP_CA_Open \<or> snd_cwnd (ps_tp ps) < 11 \<or>
            os_num_sacks os \<noteq> 0 \<or> os_dsack os")
  case True
  with probe_done_none [OF inv, of ps "- 1"] show ?thesis unfolding tcp_mtu_probe_def Let_def by simp
next
  case tried: False
  obtain tp where t: "tcp_current_mss S oe os key (ps_tp ps) = (mss, tp)" using mss by (metis prod.collapse)
  note f = current_mss_conn [OF t]
  define p where "p = ps\<lparr>ps_tp := tp\<rparr>"
  have p: "ps_tp p = tp" "ps_write_seq p = ps_write_seq ps" "ps_reordering p = ps_reordering ps" by (simp_all add: p_def)
  have pinv: "push_inv mss p" "queued_data tp = queued_data (ps_tp ps)" using push_inv_frame [of ps p] f p inv by simp_all
  define k where "k = nat (probe_size_of S tp)"
  have k: "probe_size_of S tp = int k" "0 < k" "k < 2 ^ 16" using sane by (simp_all add: probe_sane_def t k_def nat_less_iff)
  obtain x where x: "(of_nat k + (ps_reordering p + 1) * mss_cache tp :: u32) = of_nat x" "Suc k < x" "x < 2 ^ 31"
    using size_needed_value [OF k(3), of "mss_cache tp" "ps_reordering p"] sane p by (auto simp: probe_sane_def t)
  have none: "probe_done mss ps r p" "probe_done mss ps r (p\<lparr>ps_tp := tcp_mtu_check_reprobe S oe os key P tp\<rparr>)" if "r \<in> {- 1, 0}" for r
    using probe_done_none [OF inv _ _ _ that] f p reprobe_frame [where tp = tp and S = S and oe = oe and os = os and key = key and P = P] same_conn_trans [OF f(1)] by simp_all
  let ?stop = "probe_size_of S tp > tcp_mtu_to_mss S tp (mtup_search_high tp) \<or> mtup_search_high tp - mtup_search_low tp < pe_probe_threshold P"
  let ?wait = "ps_write_seq p - snd_nxt tp < of_nat x \<or> snd_wnd tp < of_nat x \<or> seq_after (snd_nxt tp + of_nat x) (tcp_wnd_end tp) \<or>
    tcp_packets_in_flight tp + 2 > snd_cwnd tp"
  have run: "tcp_mtu_probe S oe os key P ps = (if ?stop then Some (- 1, p\<lparr>ps_tp := tcp_mtu_check_reprobe S oe os key P tp\<rparr>)
      else if ps_write_seq p - snd_nxt tp < of_nat x then Some (- 1, p)
      else if snd_wnd tp < of_nat x then Some (- 1, p)
      else if seq_after (snd_nxt tp + of_nat x) (tcp_wnd_end tp) then Some (0, p)
      else if tcp_packets_in_flight tp + 2 > snd_cwnd tp then Some (if tcp_packets_in_flight tp = 0 then - 1 else 0, p)
      else case tcp_can_coalesce_send_queue_head P (int k) (sk_write_queue tp) of
          None \<Rightarrow> None
        | Some False \<Rightarrow> Some (- 1, p)
        | Some True \<Rightarrow> (case pe_alloc P of None \<Rightarrow> Some (- 1, p)
            | Some nskb \<Rightarrow> (case tcp_clone_payload P nskb (int k) (sk_write_queue tp) of
                  Inl _ \<Rightarrow> Some (- 1, p)
                | Inr nskb \<Rightarrow> Some (probe_build S P mss (int k) nskb p))))"
    using tried unfolding tcp_mtu_probe_def Let_def t prod.case probe_size_of_def [symmetric] k(1) of_int_of_nat_eq
      p_def [symmetric] p x(1) [unfolded p] by simp
  show ?thesis
  proof (cases "?stop \<or> ?wait")
    case True
    with run none show ?thesis by (auto split: if_splits)
  next
    case False
    then have fit: "k < length (bytes_of (sk_write_queue tp))" "unat (snd_nxt tp - snd_una tp) + k \<le> unat (snd_wnd tp)"
      using probe_fits [OF pinv(1) x(2,3)] p by auto
    have "\<forall>s \<in> set (sk_write_queue tp). countable mss s" using pinv(1) p by (auto simp: push_inv_def send_inv_def)
    then obtain b where b: "tcp_can_coalesce_send_queue_head P (int k) (sk_write_queue tp) = Some b"
      using coalesce_decides fit(1) less_imp_le by metis
    show ?thesis
    proof (cases "\<exists>n0 n. b \<and> pe_alloc P = Some n0 \<and> tcp_clone_payload P n0 (int k) (sk_write_queue tp) = Inr n")
      case True
      then obtain n0 n where n: "b" "pe_alloc P = Some n0" "tcp_clone_payload P n0 (int k) (sk_write_queue tp) = Inr n" by blast
      have "skb_pcount n0 = 0" using sane n(2) by (simp add: probe_sane_def Let_def)
      note nd = clone_payload_done [OF n(3), unfolded this]
      obtain r ps' where r: "probe_build S P mss (int k) n p = (r, ps')" by fastforce
      have "probe_done mss p r ps'"
        using probe_built [OF pinv(1) m k(2,3) _ _ nd(2) r] nd(1) fit False p k(2)
        by (auto simp: probe_done_def in_window_def not_less intro!: exI [of _ k])
      then have "probe_done mss ps r ps'"
        using f p pinv(2) same_conn_in_flight [OF f(1)] by (auto simp: probe_done_def same_conn_def in_window_def)
      moreover have "tcp_mtu_probe S oe os key P ps = Some (r, ps')" using run False b n r by simp
      ultimately show ?thesis by blast
    next
      case stop: False
      then have "tcp_mtu_probe S oe os key P ps = Some (- 1, p)"
        using run False b by (auto split: bool.splits option.splits sum.splits)
      with none show ?thesis by blast
    qed
  qed
qed

end
