(* ===== verification/Push_Stream.thy ===== *)
theory Push_Stream
  imports Push_Safety
begin

text \<open>
  \<open>tcp_write_xmit\<close> as a whole, and the FIN: both keep the byte stream.
\<close>

section \<open>\<open>tcp_write_xmit\<close>\<close>

lemma refresh_frame:
  "same_conn tp (tcp_mstamp_refresh S tp)" "sk_write_queue (tcp_mstamp_refresh S tp) = sk_write_queue tp"
  by (simp_all add: tcp_mstamp_refresh_def same_conn_def)

lemma refresh_mss:
  "tcp_mtu_to_mss S (tcp_mstamp_refresh E tp) pmtu = tcp_mtu_to_mss S tp pmtu"
  by (simp add: tcp_mtu_to_mss_def u_tcp_mtu_to_mss_def tcp_mstamp_refresh_def Let_def)

lemma refresh_sync: "tcp_sync_mss S pmtu (tcp_mstamp_refresh E tp) = map_prod id (tcp_mstamp_refresh E) (tcp_sync_mss S pmtu tp)"
proof -
  define t where "t = (if mtup_search_high tp > int (unat pmtu) then tp\<lparr>mtup_search_high := int (unat pmtu)\<rparr> else tp)"
  have t: "(if mtup_search_high (tcp_mstamp_refresh E tp) > int (unat pmtu) then (tcp_mstamp_refresh E tp)\<lparr>mtup_search_high := int (unat pmtu)\<rparr>
      else tcp_mstamp_refresh E tp) = tcp_mstamp_refresh E t"
    by (simp add: t_def tcp_mstamp_refresh_def)
  have "(tcp_mstamp_refresh E t)\<lparr>icsk_pmtu_cookie := c\<rparr> = tcp_mstamp_refresh E (t\<lparr>icsk_pmtu_cookie := c\<rparr>)"
    "(tcp_mstamp_refresh E u)\<lparr>mss_cache := d\<rparr> = tcp_mstamp_refresh E (u\<lparr>mss_cache := d\<rparr>)"
    "max_window (tcp_mstamp_refresh E t) = max_window t" "mtup_enabled (tcp_mstamp_refresh E u) = mtup_enabled u"
    "mtup_search_low (tcp_mstamp_refresh E u) = mtup_search_low u" for c d u
    by (simp_all add: tcp_mstamp_refresh_def)
  then show ?thesis unfolding tcp_sync_mss_def t t_def [symmetric] Let_def by (simp add: refresh_mss)
qed

lemma refresh_current:
  "tcp_current_mss S oe os key (tcp_mstamp_refresh E tp) = map_prod id (tcp_mstamp_refresh E) (tcp_current_mss S oe os key tp)"
proof -
  have f: "mss_cache (tcp_mstamp_refresh E u) = mss_cache u" "icsk_pmtu_cookie (tcp_mstamp_refresh E u) = icsk_pmtu_cookie u"
    "tcp_header_len (tcp_mstamp_refresh E u) = tcp_header_len u" for u
    by (simp_all add: tcp_mstamp_refresh_def)
  show ?thesis
    unfolding tcp_current_mss_def Let_def by (auto simp: f refresh_sync case_prod_beta split: option.split)
qed

lemma probe_sane_refresh: "probe_sane S oe os key P (ps\<lparr>ps_tp := tcp_mstamp_refresh S (ps_tp ps)\<rparr>) \<longleftrightarrow> probe_sane S oe os key P ps"
proof -
  have "probe_size_of S (tcp_mstamp_refresh S tp) = probe_size_of S tp" for tp
    unfolding probe_size_of_def refresh_mss by (simp add: tcp_mstamp_refresh_def)
  moreover have "mss_cache (tcp_mstamp_refresh S tp) = mss_cache tp" for tp by (simp add: tcp_mstamp_refresh_def)
  ultimately show ?thesis by (simp add: probe_sane_def refresh_current Let_def)
qed

text \<open>What the call sends: at most one probe, then the segments of the loop; all within the peer's window.\<close>

definition pushed :: "u32 \<Rightarrow> push_sock \<Rightarrow> sk_buff list \<Rightarrow> push_sock \<Rightarrow> bool" where
  "pushed mss ps sent ps' \<longleftrightarrow> send_inv mss (ps_tp ps') \<and> queued_data (ps_tp ps') = queued_data (ps_tp ps) \<and>
     ps_write_seq ps' = ps_write_seq ps \<and> (\<forall>s \<in> set sent. in_window (ps_tp ps) s) \<and>
     (\<not> repairing (ps_tp ps) \<longrightarrow> (\<exists>probe. length probe \<le> 1 \<and> (\<forall>s \<in> set probe. in_window (ps_tp ps) s) \<and>
        tcp_rtx_queue (ps_tp ps') = tcp_rtx_queue (ps_tp ps) @ probe @ sent))"

text \<open>A probe does not end the repair of a socket.\<close>

lemma free_skbs_repairing: "repairing (free_skbs P fs tp) = repairing tp"
  using free_skbs_frame(1) [of tp P fs] by (simp add: same_conn_def)

lemma sent_repairing: "repairing (tcp_event_new_data_sent tp) = repairing tp"
  by (simp add: tcp_event_new_data_sent_def Let_def split: list.split)

lemma probe_repairing:
  assumes "tcp_mtu_probe S oe os key P ps = Some (r, ps')"
  shows "repairing (ps_tp ps') = repairing (ps_tp ps)"
proof -
  obtain m t where t: "tcp_current_mss S oe os key (ps_tp ps) = (m, t)" by fastforce
  have rt: "repairing t = repairing (ps_tp ps)" using current_mss_conn(1) [OF t] by (simp add: same_conn_def)
  have b: "repairing (ps_tp (snd (probe_build S P m k n (ps\<lparr>ps_tp := t\<rparr>)))) = repairing t" for k n
    by (simp add: probe_build_def Let_def case_prod_beta free_skbs_repairing sent_repairing)
  have c: "repairing (tcp_mtu_check_reprobe S oe os key P t) = repairing t"
    using reprobe_frame(1) [where tp = t and S = S and oe = oe and os = os and key = key and P = P] by (simp add: same_conn_def)
  from assms show ?thesis
    unfolding tcp_mtu_probe_def Let_def t prod.case
    by (auto simp: rt c split: if_splits option.splits bool.splits sum.splits dest!: arg_cong [where f = snd] simp: b)
qed

lemma write_xmit_returns:
  assumes sp: "list_all (\<lambda>a. splits_pages (xa_seg a)) as" and inv: "push_inv mss ps" and mss: "mss = fst (tcp_current_mss S oe os key (ps_tp ps))"
    and m: "0 < mss" "mss < 2 ^ 16" and sane: "probe_sane S oe os key P ps" and cw: "snd_cwnd (ps_tp ps) < 2 ^ 31" "0 < snd_cwnd (ps_tp ps)"
    and enough: "Suc (weight (sk_write_queue (ps_tp ps))) \<le> length as"
  shows "\<exists>stalled sent ps'. tcp_write_xmit S oe os key P mss nonagle push_one as ps = Some (PDone stalled sent ps') \<and> pushed mss ps sent ps'"
proof -
  define p0 where "p0 = ps\<lparr>ps_tp := tcp_mstamp_refresh S (ps_tp ps)\<rparr>"
  have f0: "same_conn (ps_tp ps) (ps_tp p0)" "sk_write_queue (ps_tp p0) = sk_write_queue (ps_tp ps)" "ps_write_seq p0 = ps_write_seq ps"
    by (simp_all add: p0_def refresh_frame)
  have i0: "push_inv mss p0" "queued_data (ps_tp p0) = queued_data (ps_tp ps)" using push_inv_frame [OF f0] inv by simp_all
  have mss0: "mss = fst (tcp_current_mss S oe os key (ps_tp p0))" using mss by (simp add: p0_def refresh_current)
  have sane0: "probe_sane S oe os key P p0" using sane by (simp add: p0_def probe_sane_refresh)
  define R where "R = (if push_one = 0 then tcp_mtu_probe S oe os key P p0 else Some (- 1, p0))"
  obtain r p1 where R: "R = Some (r, p1)" "probe_done mss p0 r p1" "repairing (ps_tp p1) = repairing (ps_tp ps)"
  proof (cases "push_one = 0")
    case True
    obtain r p1 where "tcp_mtu_probe S oe os key P p0 = Some (r, p1)" "probe_done mss p0 r p1"
      using mtu_probe_returns [OF i0(1) mss0 m sane0] by blast
    with True probe_repairing [of S oe os key P p0 r p1] f0(1) that [of r p1] show thesis by (simp add: R_def same_conn_def)
  next
    case False
    with probe_done_none [OF i0(1), of p0 "- 1"] that [of "- 1" p0] f0(1) show thesis by (simp add: R_def same_conn_def)
  qed
  have keep: "send_inv mss (ps_tp p1)" "queued_data (ps_tp p1) = queued_data (ps_tp ps)" "ps_write_seq p1 = ps_write_seq ps"
    "snd_una (ps_tp p1) = snd_una (ps_tp ps)" "snd_wnd (ps_tp p1) = snd_wnd (ps_tp ps)"
    using R(2) f0(1,3) i0(2) by (auto simp: probe_done_def push_inv_def same_conn_def)
  have win: "in_window (ps_tp p1) s = in_window (ps_tp ps) s" "in_window (ps_tp p0) s = in_window (ps_tp ps) s" for s
    using keep(4,5) f0(1) by (simp_all add: in_window_def same_conn_def)
  obtain probe where probe: "length probe \<le> 1" "\<forall>s \<in> set probe. in_window (ps_tp ps) s"
      "tcp_rtx_queue (ps_tp p1) = tcp_rtx_queue (ps_tp ps) @ probe"
  proof (cases "r = 1")
    case True
    with R(2) obtain h where "tcp_rtx_queue (ps_tp p1) = tcp_rtx_queue (ps_tp p0) @ [h]" "in_window (ps_tp p0) h"
      by (auto simp: probe_done_def)
    with win that [of "[h]"] f0(1) show thesis by (simp add: same_conn_def)
  next
    case False
    with R(2) that [of "[]"] f0(1) show thesis by (simp add: probe_done_def same_conn_def)
  qed
  show ?thesis
  proof (cases "r = 0")
    case True
    then have "tcp_write_xmit S oe os key P mss nonagle push_one as ps = Some (PDone False [] p1)"
      using R(1) by (simp add: tcp_write_xmit_def p0_def [symmetric] R_def [symmetric])
    moreover have "pushed mss ps [] p1" using keep probe by (auto simp: pushed_def)
    ultimately show ?thesis by blast
  next
    case False
    define L where "L = \<lparr>xs_sk = ps_tp p1, xs_sent = [], xs_sent_pkts = (if r > 0 then 1 else 0), xs_cwnd_limited = False, xs_rwnd_limited = False\<rparr>"
    have L: "xs_sk L = ps_tp p1" "xs_sent L = []" by (simp_all add: L_def)
    have w: "weight (sk_write_queue (xs_sk L)) \<le> length as" using R(2) f0(2) enough by (simp add: probe_done_def L)
    obtain x where x: "xmit_loop S mss nonagle push_one (tcp_tso_segs S mss) as L = Some x"
      using xmit_loop_total [OF sp _ m w, of S nonagle push_one "tcp_tso_segs S mss"] keep(1) L(1) by auto
    obtain L' ss where L': "x = Break L'" "progress mss push_one (ps_tp p1) (xs_sk L') ss" "xs_sent L' = ss"
      using xmit_loop_progress [OF sp _ m x] keep(1) L by auto
    obtain st tp where e: "xmit_end S push_one L' = (st, tp)" by fastforce
    have "snd_cwnd (ps_tp p1) < 2 ^ 31"
    proof -
      have "snd_cwnd (ps_tp ps) - 1 \<le> snd_cwnd (ps_tp ps)" using cw(2) by (simp add: word_le_nat_alt unat_minus_one word_gt_0)
      then have "snd_cwnd (ps_tp p1) \<le> snd_cwnd (ps_tp ps)"
        using R(2) f0(1) by (auto simp: probe_done_def same_conn_def split: if_splits)
      with cw(1) show ?thesis by (rule order.strict_trans1 [rotated])
    qed
    then have q: "same_queues (xs_sk L') tp" using xmit_end_frame(1) [OF _ e] L'(2) by (simp add: progress_def)
    have "pushed mss ps ss (p1\<lparr>ps_tp := tp\<rparr>)"
      using L'(2) q keep probe win R(3)
      by (auto simp: pushed_def progress_def send_inv_def seg_inv_def same_queues_def queued_data_def intro: exI [of _ probe])
    moreover have "tcp_write_xmit S oe os key P mss nonagle push_one as ps = Some (PDone st ss (p1\<lparr>ps_tp := tp\<rparr>))"
      using R(1) False x L'(1,3) e by (simp add: tcp_write_xmit_def p0_def [symmetric] R_def [symmetric] L_def [symmetric])
    ultimately show ?thesis by blast
  qed
qed

section \<open>The FIN\<close>

lemma add_fin_fields:
  "skb_data (add_fin s) = skb_data s" "skb_seq (add_fin s) = skb_seq s" "skb_end_seq (add_fin s) = skb_end_seq s + 1"
  "skb_pcount (add_fin s) = skb_pcount s" "counted (add_fin s) = counted s" "countable mss (add_fin s) = countable mss s"
  "skb_flags (add_fin s) AND TCPHDR_FIN \<noteq> 0"
proof -
  have "(f OR TCPHDR_FIN) AND TCPHDR_FIN = TCPHDR_FIN" for f :: u8 by (simp add: bit.conj_disj_distrib2)
  then show "skb_flags (add_fin s) AND TCPHDR_FIN \<noteq> 0" by (simp add: add_fin_def TCPHDR_FIN_def)
qed (simp_all add: add_fin_def counted_def countable_def)

lemma add_fin_span: "skb_flags s AND TCPHDR_FIN = 0 \<Longrightarrow> span (add_fin s) = Suc (span s)"
  using add_fin_fields(7) [of s] by (simp add: span_def add_fin_fields)

text \<open>A FIN on the last segment of a chain.\<close>

lemma fin_on_last:
  assumes "chain a (ss @ [s]) b" and "skb_flags s AND TCPHDR_FIN = 0"
  shows "chain a (ss @ [add_fin s]) (b + 1)" and "sum_list (map span (ss @ [add_fin s])) = Suc (sum_list (map span (ss @ [s])))"
  using assms add_fin_span [OF assms(2)] by (auto simp: chain_append add_fin_fields)

lemma fin_queue_adds:
  assumes inv: "push_inv mss ps" and room: "Suc (unat (snd_nxt (ps_tp ps) - snd_una (ps_tp ps)) + sum_list (map span (sk_write_queue (ps_tp ps)))) < 2 ^ 31"
      "Suc (sum_list (map span (tcp_rtx_queue (ps_tp ps))) + sum_list (map span (sk_write_queue (ps_tp ps)))) < 2 ^ 31"
    and nofin: "\<forall>s \<in> set (tcp_rtx_queue (ps_tp ps) @ sk_write_queue (ps_tp ps)). skb_flags s AND TCPHDR_FIN = 0"
    and alloc: "pe_fin_alloc P = Some skb" "skb_frags skb = []" and m: "0 < mss"
    and run: "fin_queue S P ps = (push, ps')"
  shows "push_inv mss ps' \<and> queued_data (ps_tp ps') = queued_data (ps_tp ps) \<and> ps_write_seq ps' = ps_write_seq ps + 1 \<and>
    (push \<longleftrightarrow> sk_write_queue (ps_tp ps') \<noteq> []) \<and>
    (\<exists>xs s. tcp_rtx_queue (ps_tp ps') @ sk_write_queue (ps_tp ps') = xs @ [s] \<and> skb_flags s AND TCPHDR_FIN \<noteq> 0 \<and>
       (\<forall>x \<in> set xs. skb_flags x AND TCPHDR_FIN = 0))"
proof -
  let ?tp = "ps_tp ps" and ?w = "sk_write_queue (ps_tp ps)" and ?r = "tcp_rtx_queue (ps_tp ps)"
  have i: "send_inv mss ?tp" "chain (snd_nxt ?tp) ?w (ps_write_seq ps)" using inv by (auto simp: push_inv_def)
  obtain a where a: "chain a ?r (snd_nxt ?tp)" using i(1) by (auto simp: send_inv_def seg_inv_def)
  consider (tail) ws s where "?w = ws @ [s]" | (rtx) rs s where "?w = []" "?r = rs @ [s]" "pe_pressure P" | (new) "?w = []" "\<not> (pe_pressure P \<and> ?r \<noteq> [])"
    by (metis rev_exhaust)
  then show ?thesis
  proof cases
    case tail
    have nf: "skb_flags s AND TCPHDR_FIN = 0" using nofin tail by simp
    have res: "push" "ps' = ps\<lparr>ps_tp := ?tp\<lparr>sk_write_queue := ws @ [add_fin s]\<rparr>, ps_write_seq := ps_write_seq ps + 1\<rparr>"
      using run tail by (simp_all add: fin_queue_def Let_def)
    note c = fin_on_last [OF i(2) [unfolded tail] nf]
    have "send_inv mss (ps_tp ps')"
      using i(1) c room tail by (auto simp: res send_inv_def seg_inv_def add_fin_fields)
    moreover have "fin_last (ws @ [add_fin s])" using nofin tail by (simp add: fin_last_def)
    ultimately show ?thesis
      using c(1) res nofin tail by (auto simp: push_inv_def queued_data_def add_fin_fields intro!: exI [of _ "?r @ ws"])
  next
    case rtx
    have nf: "skb_flags s AND TCPHDR_FIN = 0" using nofin rtx by simp
    have res: "\<not> push" "ps' = ps\<lparr>ps_tp := ?tp\<lparr>tcp_rtx_queue := rs @ [add_fin s], snd_nxt := snd_nxt ?tp + 1\<rparr>, ps_write_seq := ps_write_seq ps + 1\<rparr>"
      using run rtx by (simp_all add: fin_queue_def Let_def)
    note c = fin_on_last [OF a [unfolded rtx(2)] nf]
    have "unat (snd_nxt ?tp + 1 - snd_una ?tp) \<le> Suc (unat (snd_nxt ?tp - snd_una ?tp))"
    proof -
      have "snd_nxt ?tp + 1 - snd_una ?tp = (snd_nxt ?tp - snd_una ?tp) + 1" by simp
      moreover have "unat (w + 1) \<le> Suc (unat w)" for w :: u32 by (simp add: unat_word_ariths)
      ultimately show ?thesis by (simp only:)
    qed
    then have "send_inv mss (ps_tp ps')"
      using i(1) c room rtx by (auto simp: res send_inv_def seg_inv_def add_fin_fields packets_def)
    then show ?thesis
      using res nofin rtx i(2) by (auto simp: push_inv_def queued_data_def add_fin_fields fin_last_def intro!: exI [of _ rs])
  next
    case new
    define n where "n = tcp_init_nondata_skb skb (ps_write_seq ps) (TCPHDR_ACK OR TCPHDR_FIN)"
    have n: "skb_seq n = ps_write_seq ps" "skb_end_seq n = ps_write_seq ps + 1" "skb_data n = []" "skb_pcount n = 1"
      "skb_flags n AND TCPHDR_FIN \<noteq> 0" "span n = 1"
      using alloc(2) by (simp_all add: n_def tcp_init_nondata_skb_def span_def TCPHDR_ACK_def TCPHDR_FIN_def TCPHDR_SYN_def)
    have "length (skb_data n) < 2 ^ 16" unfolding n(3) by simp
    then have cn: "counted n" "countable mss n" using countable_small [OF _ m] n(4) by (simp_all add: counted_def)
    have seq: "ps_write_seq ps = snd_nxt ?tp" using i(2) new by simp
    obtain t where t: "ps' = ps\<lparr>ps_write_seq := skb_end_seq n, ps_tp := t\<rparr>" "push" "sk_write_queue t = [n]" "same_conn ?tp t"
      using run new alloc(1)
      by (auto simp: fin_queue_def Let_def n_def [symmetric] tcp_queue_skb_def sk_forced_mem_schedule_def same_conn_def tcp_chrono_start_def tcp_chrono_set_def)
    have "send_inv mss t" using i(1) new t(3,4) n cn seq room by (auto simp: send_inv_def seg_inv_def same_conn_def)
    then show ?thesis
      using t n seq nofin new by (auto simp: push_inv_def queued_data_def same_conn_def fin_last_def intro!: exI [of _ ?r])
  qed
qed

end
