(* ===== verification/Props_Transmit.thy ===== *)
theory Props_Transmit
  imports Transmit_Safety Push_Stream Props_Retrans Leo_Example
begin

text \<open>
  The properties of transmission and of the calls that push the queue: here the sending half, the options, the
  window selection and the controller meet.
\<close>

section \<open>An example\<close>

definition tr_env :: tx_env where
  "tr_env = \<lparr>te_clone = True, te_key = KEY_MD5, te_opt = demo_env, te_mptcp = [], te_md5 = (\<lambda>th bs d. replicate 16 1),
     te_ao = (\<lambda>th bs d. None), te_bpf = demo_prog, te_check = (\<lambda>th bs d. 0), te_truesize1 = 768, te_queue_xmit = (\<lambda>pk. 0),
     te_xmit_eval = (\<lambda>e. e), te_enter_cwr = (\<lambda>tp. tp), te_rate_sent = (\<lambda>s. 0), te_needs_ecn = False, te_snd = tx_senv,
     te_kern = demo_kern, te_net = boot_netns, te_real_ns = 0, te_mono_ns = 0\<rparr>"

definition tr_conn :: conn where
  "tr_conn = \<lparr>c_tx = tx_sock\<lparr>ack_rcv_nxt := 1000\<rparr>, c_rx = demo_sock, c_opts = demo_opt_sock, c_ecn_flags = TCP_ECN_OK, c_ect = False,
     c_gso_disabled = False, c_wmem_alloc = 0, c_segs_out = 0, c_data_segs_out = 0, c_bytes_sent = 0, c_mibs = [], c_tsorted = []\<rparr>"

definition px_sock :: push_sock where
  "px_sock = \<lparr>ps_tp = tx_sock\<lparr>mtup_enabled := True, snd_cwnd := 20\<rparr>, ps_closed = False, ps_write_seq = 61, ps_reordering = 3, ps_probe_start = 0,
     ps_probe_end = 0, ps_tlp_high_seq = 0, ps_tlp_retrans = False\<rparr>"

definition px_env :: push_env where
  "px_env = \<lparr>pe_hz = 1000, pe_probe_interval = 600, pe_probe_threshold = 8, pe_seg = tx_seg, pe_can_collapse = (\<lambda>a b. True),
     pe_zcopy_pure = (\<lambda>s. False), pe_alloc = Some (fresh_skb 1280), pe_fin_alloc = Some (fresh_skb 1280), pe_wmem_ok = True,
     pe_adjacent = (\<lambda>i. False), pe_max_frags = 17, pe_sent = True, pe_pressure = False, pe_page_shift = 12\<rparr>"

lemma tr_ready: "opts_ready tr_env 0 (c_opts tr_conn)"
  using demo_ok demo_bpf_ok by (auto simp: opts_ready_def tr_env_def tr_conn_def demo_prog_def demo_opt_sock_def demo_cookie_def
      demo_env_def split: if_splits)

lemma tr_cwr: "cwr_ok tr_env"
  by (simp add: cwr_ok_def tr_env_def)

lemma tr_one: "one_sock tr_conn"
  by (simp add: one_sock_def tr_conn_def tx_sock_def demo_sock_def demo_opt_sock_def)

lemma px_mss: "tcp_current_mss tx_senv rx_oe rx_os KEY_NONE (ps_tp px_sock) = (10, ps_tp px_sock)"
  by (simp add: tcp_current_mss_def tx_senv_def px_sock_def tx_sock_def rx_oe_def rx_os_def demo_env_def demo_opt_sock_def
      tcp_established_options_def est_fixed_options_def sack_set_option_def no_options_def Let_def TCPOLEN_TSTAMP_ALIGNED_def)

lemma px_inv: "push_inv 10 px_sock"
proof -
  have "send_inv 10 (ps_tp px_sock)" using tx_send_inv by (simp add: px_sock_def send_inv_def seg_inv_def)
  then show ?thesis by (simp add: push_inv_def px_sock_def tx_sock_def tx_skb_fields tx_flags fin_last_def)
qed

lemma px_sane: "probe_sane tx_senv rx_oe rx_os KEY_NONE px_env px_sock"
  by (simp add: probe_sane_def px_mss) (simp add: probe_size_of_def tcp_mtu_to_mss_def u_tcp_mtu_to_mss_def px_sock_def px_env_def
      tx_sock_def tx_senv_def fresh_skb_def)

section \<open>Transmission\<close>

text \<open>C30: the transmission of a counted segment returns; without a packet only for want of memory or of a
  signature.  The header of the packet has the sequence and acknowledgment numbers and the ports of the
  call, its data offset is exactly the size of header and options, no option byte is left unwritten, the
  options fit, and the data is that of the segment.\<close>

theorem transmit_header_exact:
  assumes "skb_pcount skb \<noteq> 0" and "icsk_ack_rcv_mss (c_rx c) \<noteq> 0" and "opts_ready E n (c_opts c)"
  shows "\<exists>err pko skb' c'. u_tcp_transmit_skb E clone_it ack skb c = Some (err, pko, skb', c') \<and>
    (pko = None \<longrightarrow> clone_it \<and> \<not> te_clone E \<and> err = - ENOBUFS \<or> is_KEY_AO (te_key E) \<and> err = - ENOMEM) \<and>
    (\<forall>pk. pko = Some pk \<longrightarrow> th_seq (pk_hdr pk) = skb_seq skb \<and> th_ack_seq (pk_hdr pk) = ack \<and>
       th_source (pk_hdr pk) = inet_sport (c_rx c) \<and> th_dest (pk_hdr pk) = inet_dport (c_rx c) \<and>
       4 * unat (drop_bit 12 (th_word (pk_hdr pk))) = 20 + length (pk_opts pk) \<and> length (pk_opts pk) \<le> 40 \<and>
       None \<notin> set (pk_opts pk) \<and> pk_data pk = skb_data skb)"
proof -
  obtain err pko skb' c' where r: "u_tcp_transmit_skb E clone_it ack skb c = Some (err, pko, skb', c')"
    "pko = None \<longrightarrow> clone_it \<and> \<not> te_clone E \<and> err = - ENOBUFS \<or> is_KEY_AO (te_key E) \<and> err = - ENOMEM"
    using transmit_returns [OF assms(1,2)] by blast
  have "th_seq (pk_hdr pk) = skb_seq skb \<and> th_ack_seq (pk_hdr pk) = ack \<and>
       th_source (pk_hdr pk) = inet_sport (c_rx c) \<and> th_dest (pk_hdr pk) = inet_dport (c_rx c) \<and>
       4 * unat (drop_bit 12 (th_word (pk_hdr pk))) = 20 + length (pk_opts pk) \<and> length (pk_opts pk) \<le> 40 \<and>
       None \<notin> set (pk_opts pk) \<and> pk_data pk = skb_data skb" if "pko = Some pk" for pk
    using transmit_packet [OF r(1) [unfolded that] assms(3)] by (intro conjI)
  with r show ?thesis by (intro exI [of _ err] exI [of _ pko] exI [of _ skb'] exI [of _ c']) simp
qed

theorem transmit_header_exact_witness:
  "opts_ready tr_env 0 (c_opts tr_conn) \<and>
   (\<exists>err pk skb' c'. u_tcp_transmit_skb tr_env True 1000 (tx_skb 30 25 TCPHDR_ACK 3) tr_conn = Some (err, Some pk, skb', c') \<and>
      th_seq (pk_hdr pk) = 30 \<and> 4 * unat (drop_bit 12 (th_word (pk_hdr pk))) = 20 + length (pk_opts pk))"
  using transmit_header_exact [of "tx_skb 30 25 TCPHDR_ACK 3" tr_conn tr_env 0 True 1000] tr_ready
  by (auto simp: tx_skb_fields tr_conn_def demo_sock_def tr_env_def)

text \<open>C31: whatever segment is sent, the queues, the counters of the flight and both windows of the sender stay
  as they are, and the controller goes from a reachable state to a reachable state.  A packet other than a
  SYN carries the window that was selected for it: scaled, it is at most the window the receive path
  remembers from then on, measured from the byte that the packet acknowledges.\<close>

theorem transmit_window_recorded:
  assumes "cwr_ok E" and "adjust_ok (te_kern E)" and "one_sock c" and "leo_reachable (c_rx c)"
    and "tcp_transmit_skb E clone_it skb c = Some (err, pko, skb', c')"
  shows "quiet (c_tx c) (c_tx c') \<and> one_sock c' \<and> leo_reachable (c_rx c') \<and>
    (\<forall>pk. pko = Some pk \<and> skb_flags skb AND TCPHDR_SYN = 0 \<longrightarrow>
       unat (th_window (pk_hdr pk)) * 2 ^ unat (rcv_wscale (c_rx c)) \<le> unat (rcv_wnd (c_rx c')) \<and> rcv_wup (c_rx c') = rcv_nxt (c_rx c))"
proof -
  note run = assms(5) [unfolded tcp_transmit_skb_def]
  note e = transmit_effect [OF assms(1,2) run]
  have w: "leo_step\<^sup>*\<^sup>* (c_rx c) (c_rx c')" "rcv_nxt (c_rx c') = rcv_nxt (c_rx c)" "rcv_wscale (c_rx c') = rcv_wscale (c_rx c)"
    using e(2) by (simp_all add: window_taken_def)
  have "leo_reachable (c_rx c')" using w(1) assms(4) by (induction rule: rtranclp_induct) (auto intro: leo_reachable.step)
  moreover have "unat (th_window (pk_hdr pk)) * 2 ^ unat (rcv_wscale (c_rx c)) \<le> unat (rcv_wnd (c_rx c')) \<and> rcv_wup (c_rx c') = rcv_nxt (c_rx c)"
    if pk: "pko = Some pk" and syn: "skb_flags skb AND TCPHDR_SYN = 0" for pk
    using transmit_window_sent [OF assms(1,2) run [unfolded pk] syn] select_window_backed w(2,3) by metis
  ultimately show ?thesis using e(1,3) assms(3) by blast
qed

theorem transmit_window_recorded_witness:
  "\<exists>err pk skb' c'. tcp_transmit_skb tr_env True (tx_skb 30 25 TCPHDR_ACK 3) tr_conn = Some (err, Some pk, skb', c') \<and>
     leo_reachable (c_rx c') \<and> unat (th_window (pk_hdr pk)) * 2 ^ 7 \<le> unat (rcv_wnd (c_rx c')) \<and> quiet (c_tx tr_conn) (c_tx c')"
proof -
  let ?s = "tx_skb 30 25 TCPHDR_ACK 3"
  obtain err pko skb' c' where r: "tcp_transmit_skb tr_env True ?s tr_conn = Some (err, pko, skb', c')" "pko \<noteq> None"
    using transmit_returns [of ?s tr_conn tr_env True "rcv_nxt (c_rx tr_conn)"]
    by (auto simp: tcp_transmit_skb_def tx_skb_fields tr_conn_def demo_sock_def tr_env_def)
  have "adjust_ok (te_kern tr_env)" "leo_reachable (c_rx tr_conn)" "skb_flags ?s AND TCPHDR_SYN = 0" "rcv_wscale (c_rx tr_conn) = 7"
    using demo_kern_adjust demo_reachable by (simp_all add: tr_env_def tr_conn_def tx_skb_fields rx_syn demo_sock_def)
  with transmit_window_recorded [OF tr_cwr _ tr_one _ r(1)] r show ?thesis by auto
qed

section \<open>Pushing the queue\<close>

text \<open>C32: a call for an MTU probe never looks behind the end of the queue.  If it sends one, the probe is
  one packet with the first bytes of the queue, within the peer's window and the congestion window,
  which it lowers by one; in every case no queued byte is lost, repeated or reordered.\<close>

theorem mtu_probe_keeps_stream:
  assumes "push_inv mss ps" and "mss = fst (tcp_current_mss S oe os key (ps_tp ps))" and "0 < mss" and "mss < 2 ^ 16"
    and "probe_sane S oe os key P ps"
  shows "\<exists>r ps'. tcp_mtu_probe S oe os key P ps = Some (r, ps') \<and> probe_done mss ps r ps'"
  by (rule mtu_probe_returns [OF assms])

theorem mtu_probe_keeps_stream_witness:
  "push_inv 10 px_sock \<and> (\<exists>r ps'. tcp_mtu_probe tx_senv rx_oe rx_os KEY_NONE px_env px_sock = Some (r, ps') \<and> probe_done 10 px_sock r ps')"
  using mtu_probe_keeps_stream [OF px_inv _ _ _ px_sane] px_inv px_mss by simp

text \<open>C33: with an answer for every byte and segment that is queued, \<open>tcp_write_xmit\<close> as a whole returns without a
  \<open>BUG_ON\<close>.  It sends at most one MTU probe and then the segments of its loop, all within the peer's window
  and in the order of the stream, and keeps every queued byte and the invariant of the queues.\<close>

theorem write_xmit_keeps_stream:
  assumes "list_all (\<lambda>a. splits_pages (xa_seg a)) as" and "push_inv mss ps" and "mss = fst (tcp_current_mss S oe os key (ps_tp ps))"
    and "0 < mss" and "mss < 2 ^ 16" and "probe_sane S oe os key P ps" and "snd_cwnd (ps_tp ps) < 2 ^ 31" and "0 < snd_cwnd (ps_tp ps)"
    and "Suc (weight (sk_write_queue (ps_tp ps))) \<le> length as"
  shows "\<exists>stalled sent ps'. tcp_write_xmit S oe os key P mss nonagle push_one as ps = Some (PDone stalled sent ps') \<and> pushed mss ps sent ps'"
  by (rule write_xmit_returns [OF assms])

theorem write_xmit_keeps_stream_witness:
  "\<exists>stalled sent ps'. tcp_write_xmit tx_senv rx_oe rx_os KEY_NONE px_env 10 0 0 (replicate 34 tx_ans) px_sock = Some (PDone stalled sent ps') \<and>
     pushed 10 px_sock sent ps'"
proof (rule write_xmit_keeps_stream [OF tx_answers px_inv _ _ _ px_sane])
  show "Suc (weight (sk_write_queue (ps_tp px_sock))) \<le> length (replicate 34 tx_ans)" using tx_weight by (simp add: px_sock_def)
qed (simp_all add: px_mss, simp_all add: px_sock_def)



end
