(* ===== verification/Tcp_Ack.thy ===== *)
theory Tcp_Ack
  imports Tcp_Transmit
begin

text \<open>
  Segments that are not queued (\<open>tcp_output.c\<close>): ACKs and delayed ACKs, window probes and resets, and the
  probe of the window by data.  They go through \<open>__tcp_transmit_skb\<close> as a whole.  The counters for statistics
  and the trace points of these functions are left out.
\<close>

section \<open>State\<close>

datatype tcp_state = TCP_ESTABLISHED | TCP_SYN_SENT | TCP_SYN_RECV | TCP_FIN_WAIT1 | TCP_FIN_WAIT2 | TCP_TIME_WAIT
  | TCP_CLOSE | TCP_CLOSE_WAIT | TCP_LAST_ACK | TCP_LISTEN | TCP_CLOSING | TCP_NEW_SYN_RECV

definition ICSK_ACK_SCHED :: u8 where "ICSK_ACK_SCHED = 1"
definition ICSK_ACK_TIMER :: u8 where "ICSK_ACK_TIMER = 2"
definition ICSK_ACK_PUSHED :: u8 where "ICSK_ACK_PUSHED = 4"

text \<open>Timers that are set: the one of delayed ACKs, by the time it ends, and the one of window probes, by the
  duration that is passed to \<open>tcp_reset_xmit_timer\<close>.\<close>

datatype ack_timer = Delack_timer u64 | Probe0_timer u64

text \<open>\<open>a_pending\<close>, \<open>a_retry\<close> and \<open>a_timeout\<close> are fields of \<open>icsk_ack\<close>.\<close>

record ack_sock =
  a_conn :: conn
  a_state :: tcp_state
  a_pending :: u8
  a_retry :: u8
  a_timeout :: u64
  a_delack_max :: u32
  a_pingpong :: bool
  a_snd_wl1 :: u32
  a_pushed_seq :: u32
  a_probes_out :: u8
  a_backoff :: u8
  a_probes_tstamp :: u32
  a_timers :: "ack_timer list"

text \<open>The environment of one transmission: \<open>ae_alloc\<close> is the size of the buffer if there is memory, \<open>ae_rto_min\<close>
  the locked metric of the route if it has one, \<open>ae_seg\<close> the answers for a split.  \<open>ae_probe0_when\<close> and
  \<open>ae_clamp_probe0\<close> are \<open>tcp_probe0_when\<close> and \<open>tcp_clamp_probe0_to_user_timeout\<close>.\<close>

record ack_env =
  ae_tx :: tx_env
  ae_alloc :: "int option"
  ae_hz :: u32
  ae_jiffies :: u64
  ae_rto_min :: "u32 option"
  ae_seg :: seg_env
  ae_retries2 :: u8
  ae_probe0_when :: "ack_sock \<Rightarrow> u64"
  ae_clamp_probe0 :: "ack_sock \<Rightarrow> u64 \<Rightarrow> u64"

definition TCP_DELACK_MAX :: "ack_env \<Rightarrow> u32" where "TCP_DELACK_MAX E = ae_hz E div 5"
definition TCP_DELACK_MIN :: "ack_env \<Rightarrow> u32" where "TCP_DELACK_MIN E = ae_hz E div 25"
definition TCP_ATO_MIN :: "ack_env \<Rightarrow> u32" where "TCP_ATO_MIN E = ae_hz E div 25"
definition TCP_RTO_MAX :: "ack_env \<Rightarrow> u32" where "TCP_RTO_MAX E = 120 * ae_hz E"
definition TCP_RESOURCE_PROBE_INTERVAL :: "ack_env \<Rightarrow> u32" where "TCP_RESOURCE_PROBE_INTERVAL E = ae_hz E div 2"

definition time_before :: "u64 \<Rightarrow> u64 \<Rightarrow> bool" where
  "time_before a b \<longleftrightarrow> a - b <s 0"

definition time_before_eq :: "u64 \<Rightarrow> u64 \<Rightarrow> bool" where
  "time_before_eq a b \<longleftrightarrow> 0 \<le>s b - a"

text \<open>\<open>inet_csk_reset_xmit_timer\<close> for delayed ACKs.\<close>

definition reset_dack_timer :: "ack_env \<Rightarrow> u64 \<Rightarrow> u64 \<Rightarrow> ack_sock \<Rightarrow> ack_sock" where
  "reset_dack_timer E when max_when k =
     (let when = (if when > max_when then max_when else when);
          k = k\<lparr>a_pending := a_pending k OR ICSK_ACK_TIMER, a_timeout := ae_jiffies E + when\<rparr>
      in k\<lparr>a_timers := a_timers k @ [Delack_timer (a_timeout k)]\<rparr>)"

section \<open>Transmission of a segment that is not queued\<close>

text \<open>The results are those of the transmission.  An ACK for \<open>rcv_nxt\<close> clears the delayed ACK
  (\<open>inet_csk_clear_xmit_timer\<close> in \<open>tcp_event_ack_sent\<close>).\<close>

definition ack_transmit :: "ack_env \<Rightarrow> bool \<Rightarrow> u32 \<Rightarrow> sk_buff \<Rightarrow> ack_sock \<Rightarrow> (int \<times> packet option \<times> sk_buff \<times> ack_sock) option" where
  "ack_transmit E clone_it ack_seq skb k =
     (case u_tcp_transmit_skb (ae_tx E) clone_it ack_seq skb (a_conn k) of
        None \<Rightarrow> None
      | Some (err, pko, skb', c) \<Rightarrow>
          let cleared = (pko \<noteq> None \<and> skb_flags skb AND TCPHDR_ACK \<noteq> 0 \<and> ack_seq = ack_rcv_nxt (c_tx (a_conn k)));
              k = k\<lparr>a_conn := c\<rparr>
          in Some (err, pko, skb', if cleared then k\<lparr>a_pending := 0, a_retry := 0\<rparr> else k))"

definition upd_tx :: "(tcp_sock \<Rightarrow> tcp_sock) \<Rightarrow> ack_sock \<Rightarrow> ack_sock" where
  "upd_tx f k = k\<lparr>a_conn := (a_conn k)\<lparr>c_tx := f (c_tx (a_conn k))\<rparr>\<rparr>"

section \<open>Reset\<close>

text \<open>The packet, if one was handed to IP.\<close>

definition tcp_send_active_reset :: "ack_env \<Rightarrow> ack_sock \<Rightarrow> (packet option \<times> ack_sock) option" where
  "tcp_send_active_reset E k =
     (case ae_alloc E of
        None \<Rightarrow> Some (None, k)
      | Some truesize \<Rightarrow>
          let skb = tcp_init_nondata_skb (alloc_skb truesize) (tcp_acceptable_seq (c_tx (a_conn k))) (TCPHDR_ACK OR TCPHDR_RST);
              k = upd_tx (tcp_mstamp_refresh (te_snd (ae_tx E))) k
          in case ack_transmit E False (rcv_nxt (c_rx (a_conn k))) skb k of
               None \<Rightarrow> None
             | Some (_, pko, _, k) \<Rightarrow> Some (pko, k))"

section \<open>ACKs\<close>

text \<open>\<open>skb_set_tcp_pure_ack\<close> sets the size that is accounted for to 2.\<close>

definition u_tcp_send_ack :: "ack_env \<Rightarrow> u32 \<Rightarrow> ack_sock \<Rightarrow> (packet option \<times> ack_sock) option" where
  "u_tcp_send_ack E ack_seq k =
     (if a_state k = TCP_CLOSE then Some (None, k)
      else case ae_alloc E of
          None \<Rightarrow>
            let delay = (ucast (push_bit (unat (a_retry k)) (TCP_DELACK_MAX E)) :: u64);
                k = (if delay < ucast (TCP_RTO_MAX E) then k\<lparr>a_retry := a_retry k + 1\<rparr> else k);
                k = k\<lparr>a_pending := a_pending k OR ICSK_ACK_SCHED\<rparr>;
                k = upd_tx (ack_ato_update (\<lambda>_. TCP_ATO_MIN E)) k
            in Some (None, reset_dack_timer E delay (ucast (TCP_RTO_MAX E)) k)
        | Some truesize \<Rightarrow>
            let skb = tcp_init_nondata_skb (alloc_skb truesize) (tcp_acceptable_seq (c_tx (a_conn k))) TCPHDR_ACK;
                skb = skb\<lparr>skb_truesize := 2\<rparr>
            in case ack_transmit E False ack_seq skb k of
                 None \<Rightarrow> None
               | Some (_, pko, _, k) \<Rightarrow> Some (pko, k))"

definition tcp_send_ack :: "ack_env \<Rightarrow> ack_sock \<Rightarrow> (packet option \<times> ack_sock) option" where
  "tcp_send_ack E k = u_tcp_send_ack E (rcv_nxt (c_rx (a_conn k))) k"

definition tcp_delack_max :: "ack_env \<Rightarrow> ack_sock \<Rightarrow> u32" where
  "tcp_delack_max E k =
     (case ae_rto_min E of
        None \<Rightarrow> a_delack_max k
      | Some rto_min \<Rightarrow>
          let delack_from_rto_min = (if rto_min - 1 <s 1 then 1 else rto_min - 1)
          in min (a_delack_max k) delack_from_rto_min)"

text \<open>The delay, in jiffies.\<close>

definition delack_ato :: "ack_env \<Rightarrow> ack_sock \<Rightarrow> u32" where
  "delack_ato E k =
     (let tp = c_tx (a_conn k);
          ato = sint (ack_ato tp);
          ato = (if ack_ato tp > TCP_DELACK_MIN E then
                   let max_ato = sint (ae_hz E) div 2;
                       max_ato = (if a_pingpong k \<or> a_pending k AND ICSK_ACK_PUSHED \<noteq> 0 then sint (TCP_DELACK_MAX E) else max_ato);
                       max_ato = (if srtt_us tp \<noteq> 0
                         then let rtt = max (sint (usecs_to_jiffies (te_snd (ae_tx E)) (drop_bit 3 (srtt_us tp)))) (sint (TCP_DELACK_MIN E))
                              in if rtt < max_ato then rtt else max_ato
                         else max_ato)
                   in min ato max_ato
                 else ato)
      in min (word_of_int ato) (tcp_delack_max E k))"

definition tcp_send_delayed_ack :: "ack_env \<Rightarrow> ack_sock \<Rightarrow> (packet option \<times> ack_sock) option" where
  "tcp_send_delayed_ack E k =
     (let ato = sint (delack_ato E k);
          timeout = ae_jiffies E + word_of_int ato;
          due = (a_pending k AND ICSK_ACK_TIMER \<noteq> 0)
      in if due \<and> time_before_eq (a_timeout k) (ae_jiffies E + word_of_int (ato div 4)) then tcp_send_ack E k
         else
           let timeout = (if due \<and> \<not> time_before timeout (a_timeout k) then a_timeout k else timeout)
           in Some (None, k\<lparr>a_pending := a_pending k OR (ICSK_ACK_SCHED OR ICSK_ACK_TIMER), a_timeout := timeout,
                            a_timers := a_timers k @ [Delack_timer timeout]\<rparr>))"

section \<open>Window probes\<close>

text \<open>A segment without data and an old sequence number, or one with the urgent pointer.\<close>

definition tcp_xmit_probe_skb :: "ack_env \<Rightarrow> bool \<Rightarrow> ack_sock \<Rightarrow> (int \<times> packet option \<times> ack_sock) option" where
  "tcp_xmit_probe_skb E urgent k =
     (case ae_alloc E of
        None \<Rightarrow> Some (- 1, None, k)
      | Some truesize \<Rightarrow>
          let skb = tcp_init_nondata_skb (alloc_skb truesize) (snd_una (c_tx (a_conn k)) - (if urgent then 0 else 1)) TCPHDR_ACK
          in case ack_transmit E False (rcv_nxt (c_rx (a_conn k))) skb k of
               None \<Rightarrow> None
             | Some (err, pko, _, k) \<Rightarrow> Some (err, pko, k))"

definition tcp_send_window_probe :: "ack_env \<Rightarrow> ack_sock \<Rightarrow> (packet option \<times> ack_sock) option" where
  "tcp_send_window_probe E k =
     (if a_state k = TCP_ESTABLISHED then
        let k = k\<lparr>a_snd_wl1 := rcv_nxt (c_rx (a_conn k)) - 1\<rparr>;
            k = upd_tx (tcp_mstamp_refresh (te_snd (ae_tx E))) k
        in case tcp_xmit_probe_skb E False k of
             None \<Rightarrow> None
           | Some (_, pko, k) \<Rightarrow> Some (pko, k)
      else Some (None, k))"

text \<open>\<open>between (a, b, c)\<close>\<close>

definition seq_between :: "u32 \<Rightarrow> u32 \<Rightarrow> u32 \<Rightarrow> bool" where
  "seq_between s1 s2 s3 \<longleftrightarrow> s3 - s2 \<ge> s1 - s2"

text \<open>The head of the queue is made to fit: the error and the sending part.\<close>

definition wakeup_fit :: "seg_env \<Rightarrow> u32 \<Rightarrow> tcp_sock \<Rightarrow> int \<times> tcp_sock" where
  "wakeup_fit F mss tp =
     (let skb = hd (sk_write_queue tp);
          seg_size = tcp_wnd_end tp - skb_seq skb
      in if seg_size < skb_end_seq skb - skb_seq skb \<or> skb_len skb > mss then
           let seg_size = min seg_size mss;
               tp = set_head (skb\<lparr>skb_flags := skb_flags skb OR TCPHDR_PSH\<rparr>) tp
           in tcp_fragment F TCP_FRAG_IN_WRITE_QUEUE 0 seg_size mss tp
         else if skb_pcount skb = 0 then (0, set_head (tcp_set_skb_tso_segs skb mss) tp)
         else (0, tp))"

text \<open>A piece of the head that fits the window.\<close>

definition wakeup_data :: "ack_env \<Rightarrow> ack_sock \<Rightarrow> (int \<times> packet list \<times> ack_sock) option" where
  "wakeup_data E k =
     (let skb = hd (sk_write_queue (c_tx (a_conn k)));
          (mss, tp) = tcp_current_mss (te_snd (ae_tx E)) (te_opt (ae_tx E)) (c_opts (a_conn k)) (te_key (ae_tx E)) (c_tx (a_conn k));
          k = (if seq_before (a_pushed_seq k) (skb_end_seq skb) then k\<lparr>a_pushed_seq := skb_end_seq skb\<rparr> else k);
          (err, tp) = wakeup_fit (ae_seg E) mss tp
      in if err \<noteq> 0 then Some (- 1, [], upd_tx (\<lambda>_. tp) k)
         else
           let skb = hd (sk_write_queue tp);
               skb = skb\<lparr>skb_flags := skb_flags skb OR TCPHDR_PSH\<rparr>;
               k = upd_tx (\<lambda>_. set_head skb tp) k
           in case ack_transmit E True (rcv_nxt (c_rx (a_conn k))) skb k of
                None \<Rightarrow> None
              | Some (err, pko, skb, k) \<Rightarrow>
                  let k = upd_tx (set_head skb) k;
                      k = (if err = 0 then upd_tx tcp_event_new_data_sent k else k)
                  in Some (err, (case pko of None \<Rightarrow> [] | Some pk \<Rightarrow> [pk]), k))"

text \<open>\<open>E\<close> answers for the urgent probe, \<open>E'\<close> for the one that follows or for the data.\<close>

definition tcp_write_wakeup :: "ack_env \<Rightarrow> ack_env \<Rightarrow> ack_sock \<Rightarrow> (int \<times> packet list \<times> ack_sock) option" where
  "tcp_write_wakeup E E' k =
     (let tp = c_tx (a_conn k)
      in if a_state k = TCP_CLOSE then Some (- 1, [], k)
         else if sk_write_queue tp \<noteq> [] \<and> seq_before (skb_seq (hd (sk_write_queue tp))) (tcp_wnd_end tp)
         then wakeup_data E' k
         else
           case (if seq_between (snd_up tp) (snd_una tp + 1) (snd_una tp + 0xFFFF) then tcp_xmit_probe_skb E True k
                 else Some (0, None, k)) of
             None \<Rightarrow> None
           | Some (_, urg, k) \<Rightarrow>
               (case tcp_xmit_probe_skb E' False k of
                  None \<Rightarrow> None
                | Some (err, pko, k) \<Rightarrow>
                    Some (err, (case urg of None \<Rightarrow> [] | Some pk \<Rightarrow> [pk]) @ (case pko of None \<Rightarrow> [] | Some pk \<Rightarrow> [pk]), k)))"

definition tcp_send_probe0 :: "ack_env \<Rightarrow> ack_env \<Rightarrow> ack_sock \<Rightarrow> (packet list \<times> ack_sock) option" where
  "tcp_send_probe0 E E' k =
     (case tcp_write_wakeup E E' k of
        None \<Rightarrow> None
      | Some (err, pks, k) \<Rightarrow>
          if packets_out (c_tx (a_conn k)) \<noteq> 0 \<or> sk_write_queue (c_tx (a_conn k)) = []
          then Some (pks, k\<lparr>a_probes_out := 0, a_backoff := 0, a_probes_tstamp := 0\<rparr>)
          else
            let k = k\<lparr>a_probes_out := a_probes_out k + 1\<rparr>;
                (timeout, k) = (if err \<le> 0 then
                     let k = (if a_backoff k < ae_retries2 E' then k\<lparr>a_backoff := a_backoff k + 1\<rparr> else k)
                     in (ae_probe0_when E' k, k)
                   else (ucast (TCP_RESOURCE_PROBE_INTERVAL E'), k));
                timeout = ae_clamp_probe0 E' k timeout
            in Some (pks, k\<lparr>a_timers := a_timers k @ [Probe0_timer timeout]\<rparr>))"

end
