(* ===== verification/Ack_Safety.thy ===== *)
theory Ack_Safety
  imports Tcp_Ack Transmit_Safety Push_Safety
begin

text \<open>
  What the segments that are not queued guarantee: an ACK is sent or its timer is armed, a delay is bounded, and
  a probe stays within the window.
\<close>

section \<open>Segments without data\<close>

text \<open>What the transmission of a segment relies on.\<close>

definition can_transmit :: "ack_env \<Rightarrow> u32 \<Rightarrow> ack_sock \<Rightarrow> bool" where
  "can_transmit E n k \<longleftrightarrow> opts_ready (ae_tx E) n (c_opts (a_conn k)) \<and> cwr_ok (ae_tx E) \<and> adjust_ok (te_kern (ae_tx E)) \<and>
     one_sock (a_conn k) \<and> leo_reachable (c_rx (a_conn k)) \<and> icsk_ack_rcv_mss (c_rx (a_conn k)) \<noteq> 0"

text \<open>A packet for a socket: complete, with the numbers of the call and a window that is backed.\<close>

definition sound_packet :: "u32 \<Rightarrow> u32 \<Rightarrow> u8 list \<Rightarrow> ack_sock \<Rightarrow> packet \<Rightarrow> bool" where
  "sound_packet seq ack data k pk \<longleftrightarrow> th_seq (pk_hdr pk) = seq \<and> th_ack_seq (pk_hdr pk) = ack \<and> pk_data pk = data \<and>
     4 * unat (drop_bit 12 (th_word (pk_hdr pk))) = 20 + length (pk_opts pk) \<and> None \<notin> set (pk_opts pk) \<and>
     unat (th_window (pk_hdr pk)) * 2 ^ unat (rcv_wscale (c_rx (a_conn k))) \<le> unat (rcv_wnd (c_rx (a_conn k))) \<and>
     rcv_wup (c_rx (a_conn k)) = rcv_nxt (c_rx (a_conn k))"

text \<open>What a transmission leaves alone.\<close>

definition same_stream :: "ack_sock \<Rightarrow> ack_sock \<Rightarrow> bool" where
  "same_stream k k' \<longleftrightarrow> quiet (c_tx (a_conn k)) (c_tx (a_conn k')) \<and> one_sock (a_conn k') \<and> leo_reachable (c_rx (a_conn k')) \<and>
     rcv_nxt (c_rx (a_conn k')) = rcv_nxt (c_rx (a_conn k)) \<and> a_state k' = a_state k"

lemma reachable_steps: "leo_step\<^sup>*\<^sup>* sk sk' \<Longrightarrow> leo_reachable sk \<Longrightarrow> leo_reachable sk'"
  by (induction rule: rtranclp_induct) (auto intro: leo_reachable.step)

lemma ack_transmit_sound:
  assumes can: "can_transmit E n k" and skb: "skb_pcount skb \<noteq> 0" "skb_flags skb AND TCPHDR_SYN = 0"
  shows "\<exists>err pko skb' k'. ack_transmit E cl ack skb k = Some (err, pko, skb', k') \<and> same_stream k k' \<and>
    (\<exists>ts x. skb' = skb\<lparr>skb_tstamp := ts, skb_tx := x\<rparr>) \<and>
    (pko = None \<longrightarrow> (cl \<and> \<not> te_clone (ae_tx E) \<and> err = - ENOBUFS \<or> is_KEY_AO (te_key (ae_tx E)) \<and> err = - ENOMEM) \<and> a_pending k' = a_pending k) \<and>
    (\<forall>pk. pko = Some pk \<longrightarrow> sound_packet (skb_seq skb) ack (skb_data skb) k' pk) \<and>
    (pko \<noteq> None \<and> skb_flags skb AND TCPHDR_ACK \<noteq> 0 \<and> ack = rcv_nxt (c_rx (a_conn k)) \<longrightarrow> a_pending k' = 0 \<and> a_retry k' = 0)"
proof -
  let ?c = "a_conn k" and ?E = "ae_tx E"
  have c: "opts_ready ?E n (c_opts ?c)" "cwr_ok ?E" "adjust_ok (te_kern ?E)" "one_sock ?c" "leo_reachable (c_rx ?c)"
    "icsk_ack_rcv_mss (c_rx ?c) \<noteq> 0" using can by (auto simp: can_transmit_def)
  obtain err pko skb' c' where run: "u_tcp_transmit_skb ?E cl ack skb ?c = Some (err, pko, skb', c')"
    and none: "pko = None \<longrightarrow> cl \<and> \<not> te_clone ?E \<and> err = - ENOBUFS \<or> is_KEY_AO (te_key ?E) \<and> err = - ENOMEM"
    using transmit_returns [OF skb(1) c(6)] by blast
  note e = transmit_effect [OF c(2,3) run]
  have w: "leo_step\<^sup>*\<^sup>* (c_rx ?c) (c_rx c')" "rcv_nxt (c_rx c') = rcv_nxt (c_rx ?c)" "rcv_wscale (c_rx c') = rcv_wscale (c_rx ?c)"
    using e(2) by (simp_all add: window_taken_def)
  let ?cl = "pko \<noteq> None \<and> skb_flags skb AND TCPHDR_ACK \<noteq> 0 \<and> ack = ack_rcv_nxt (c_tx ?c)"
  define k' where "k' = (if ?cl then k\<lparr>a_conn := c', a_pending := 0, a_retry := 0\<rparr> else k\<lparr>a_conn := c'\<rparr>)"
  have k': "a_conn k' = c'" "a_state k' = a_state k" "pko = None \<Longrightarrow> a_pending k' = a_pending k" by (simp_all add: k'_def)
  have "ack_transmit E cl ack skb k = Some (err, pko, skb', k')" by (simp add: ack_transmit_def run k'_def Let_def)
  moreover have "same_stream k k'" using e(1,3) c(4,5) w reachable_steps k' by (auto simp: same_stream_def)
  moreover have "sound_packet (skb_seq skb) ack (skb_data skb) k' pk" if "pko = Some pk" for pk
  proof -
    note run' = run [unfolded that]
    note p = transmit_packet [OF run' c(1)]
    obtain mibs where "tcp_select_window (te_kern ?E) (te_net ?E) (te_real_ns ?E) (te_mono_ns ?E) (c_rx ?c) = Some (th_window (pk_hdr pk), mibs, c_rx c')"
      using transmit_window_sent [OF c(2,3) run' skb(2)] by blast
    from select_window_backed [OF this] p show ?thesis by (simp add: sound_packet_def k'(1))
  qed
  moreover have "ack_rcv_nxt (c_tx ?c) = rcv_nxt (c_rx ?c)" using c(4) by (simp add: one_sock_def)
  ultimately show ?thesis using none e(4) k'(3) by (intro exI [of _ err] exI [of _ pko] exI [of _ skb'] exI [of _ k']) (simp add: k'_def)
qed

lemma nondata_fields:
  "skb_pcount (tcp_init_nondata_skb s q fl) = 1" "skb_seq (tcp_init_nondata_skb s q fl) = q" "skb_flags (tcp_init_nondata_skb s q fl) = fl"
  "skb_data (tcp_init_nondata_skb (alloc_skb t) q fl) = []"
  by (simp_all add: tcp_init_nondata_skb_def alloc_skb_def)

lemma ack_flags: "TCPHDR_ACK AND TCPHDR_SYN = 0" "TCPHDR_ACK \<noteq> 0" "(TCPHDR_ACK OR TCPHDR_RST) AND TCPHDR_SYN = 0"
  by (simp_all add: TCPHDR_ACK_def TCPHDR_SYN_def TCPHDR_RST_def)

section \<open>ACKs\<close>

lemma armed_bits: "((p OR ICSK_ACK_SCHED) OR ICSK_ACK_TIMER) AND ICSK_ACK_TIMER \<noteq> 0" "((p OR ICSK_ACK_SCHED) OR ICSK_ACK_TIMER) AND ICSK_ACK_SCHED \<noteq> 0"
  "(p OR (ICSK_ACK_SCHED OR ICSK_ACK_TIMER)) AND ICSK_ACK_TIMER \<noteq> 0" "(p OR (ICSK_ACK_SCHED OR ICSK_ACK_TIMER)) AND ICSK_ACK_SCHED \<noteq> 0"
  for p :: u8
proof -
  have z: "ICSK_ACK_SCHED AND ICSK_ACK_TIMER = 0" "ICSK_ACK_TIMER AND ICSK_ACK_SCHED = 0" "ICSK_ACK_SCHED \<noteq> 0" "ICSK_ACK_TIMER \<noteq> 0"
    by (simp_all add: ICSK_ACK_SCHED_def ICSK_ACK_TIMER_def)
  have "((p OR ICSK_ACK_SCHED) OR ICSK_ACK_TIMER) AND ICSK_ACK_TIMER = ICSK_ACK_TIMER"
    "((p OR ICSK_ACK_SCHED) OR ICSK_ACK_TIMER) AND ICSK_ACK_SCHED = ICSK_ACK_SCHED"
    by (simp_all add: bit.conj_disj_distrib2 z(1,2))
  then show "((p OR ICSK_ACK_SCHED) OR ICSK_ACK_TIMER) AND ICSK_ACK_TIMER \<noteq> 0" "((p OR ICSK_ACK_SCHED) OR ICSK_ACK_TIMER) AND ICSK_ACK_SCHED \<noteq> 0"
    "(p OR (ICSK_ACK_SCHED OR ICSK_ACK_TIMER)) AND ICSK_ACK_TIMER \<noteq> 0" "(p OR (ICSK_ACK_SCHED OR ICSK_ACK_TIMER)) AND ICSK_ACK_SCHED \<noteq> 0"
    using z(3,4) by (simp_all add: or.assoc)
qed

text \<open>A delayed ACK is due: it is scheduled and its timer runs.\<close>

definition armed :: "ack_sock \<Rightarrow> bool" where
  "armed k \<longleftrightarrow> a_pending k AND ICSK_ACK_SCHED \<noteq> 0 \<and> a_pending k AND ICSK_ACK_TIMER \<noteq> 0 \<and> Delack_timer (a_timeout k) \<in> set (a_timers k)"

lemma send_ack_outcome:
  assumes can: "can_transmit E n k" and "a_state k \<noteq> TCP_CLOSE" and "\<not> is_KEY_AO (te_key (ae_tx E))"
  shows "\<exists>pko k'. tcp_send_ack E k = Some (pko, k') \<and>
    (case pko of None \<Rightarrow> armed k' \<and> unat (a_timeout k' - ae_jiffies E) \<le> unat (TCP_RTO_MAX E)
      | Some pk \<Rightarrow> same_stream k k' \<and> a_pending k' = 0 \<and> a_retry k' = 0 \<and>
          sound_packet (tcp_acceptable_seq (c_tx (a_conn k))) (rcv_nxt (c_rx (a_conn k))) [] k' pk)"
proof (cases "ae_alloc E")
  case None
  define d where "d = (ucast (push_bit (unat (a_retry k)) (TCP_DELACK_MAX E)) :: u64)"
  let ?m = "ucast (TCP_RTO_MAX E) :: u64"
  obtain k' where k': "tcp_send_ack E k = Some (None, k')" "armed k'" "a_timeout k' = ae_jiffies E + (if d > ?m then ?m else d)"
    using None assms(2) armed_bits
    by (auto simp: tcp_send_ack_def u_tcp_send_ack_def Let_def reset_dack_timer_def armed_def upd_tx_def d_def [symmetric])
  moreover have "unat (if d > ?m then ?m else d) \<le> unat ?m" by (simp add: not_less word_le_nat_alt)
  moreover have "unat (TCP_RTO_MAX E) < 2 ^ 64" by (rule less_trans [OF unat_lt32]) simp
  then have "unat ?m = unat (TCP_RTO_MAX E)" by (simp add: unsigned_ucast_eq take_bit_nat_eq_self)
  ultimately show ?thesis by (intro exI [of _ None] exI [of _ k']) simp
next
  case (Some t)
  define s where "s = (tcp_init_nondata_skb (alloc_skb t) (tcp_acceptable_seq (c_tx (a_conn k))) TCPHDR_ACK)\<lparr>skb_truesize := 2\<rparr>"
  have s: "skb_pcount s \<noteq> 0" "skb_flags s AND TCPHDR_SYN = 0" "skb_flags s AND TCPHDR_ACK \<noteq> 0" "skb_data s = []"
    "skb_seq s = tcp_acceptable_seq (c_tx (a_conn k))"
    using nondata_fields(4) by (simp_all add: s_def nondata_fields ack_flags)
  from ack_transmit_sound [OF can s(1,2), of False "rcv_nxt (c_rx (a_conn k))"] s assms(3)
  obtain err pk skb' k' where "ack_transmit E False (rcv_nxt (c_rx (a_conn k))) s k = Some (err, Some pk, skb', k')" "same_stream k k'"
    "sound_packet (tcp_acceptable_seq (c_tx (a_conn k))) (rcv_nxt (c_rx (a_conn k))) [] k' pk" "a_pending k' = 0" "a_retry k' = 0"
    by (auto split: option.splits)
  with Some assms(2) show ?thesis
    by (intro exI [of _ "Some pk"] exI [of _ k']) (simp add: tcp_send_ack_def u_tcp_send_ack_def s_def [symmetric])
qed

text \<open>A timer that is neither due nor later than the new one lies within the delay.\<close>

lemma older_timer_within:
  fixes old j :: u64 and ato :: int
  assumes "0 \<le> ato" and "ato < 2 ^ 31" and "\<not> time_before_eq old (j + word_of_int (ato div 4))" and "\<not> time_before (j + word_of_int ato) old"
  shows "uint (old - j) \<le> ato"
proof -
  define d e where "d = sint (j + word_of_int ato - old)" and "e = sint (j + word_of_int (ato div 4) - old)"
  have d: "0 \<le> d" "d < 2 ^ 63" using assms(4) sint_lt [of "j + word_of_int ato - old"] by (simp_all add: time_before_def word_sless_alt d_def)
  have e: "e < 0" "- (2 ^ 63) \<le> e" using assms(3) sint_ge [of "j + word_of_int (ato div 4) - old"] by (simp_all add: time_before_eq_def word_sle_eq e_def)
  have de: "word_of_int (d - e) = (word_of_int (ato - ato div 4) :: u64)"
    by (simp add: d_def e_def)
  have "(d - e) mod 2 ^ 64 = (ato - ato div 4) mod 2 ^ 64"
    using de unfolding word_of_int_eq_iff take_bit_eq_mod by simp
  moreover have "0 \<le> ato div 4" "ato div 4 \<le> ato" using assms(1) by linarith+
  moreover have "(2 :: int) ^ 64 = 2 ^ 63 + 2 ^ 63" by simp
  then have "0 \<le> d - e" "d - e < 2 ^ 64" using d e by linarith+
  ultimately have eq: "d - e = ato - ato div 4" using assms(2) by (simp add: mod_pos_pos_trivial)
  have "old - j = word_of_int (ato - d)" by (simp add: d_def)
  then have "uint (old - j) = (ato - d) mod 2 ^ 64" by (simp only: uint_word_of_int take_bit_eq_mod) simp
  moreover have "0 \<le> ato - d" using eq e \<open>0 \<le> ato div 4\<close> by linarith
  ultimately show ?thesis using d assms(2) by (simp add: mod_pos_pos_trivial)
qed

lemma delayed_ack_timer:
  assumes max: "tcp_delack_max E k < 2 ^ 31"
  shows "tcp_send_delayed_ack E k = tcp_send_ack E k \<or>
    (\<exists>k'. tcp_send_delayed_ack E k = Some (None, k') \<and> armed k' \<and> a_conn k' = a_conn k \<and> unat (a_timeout k' - ae_jiffies E) \<le> unat (tcp_delack_max E k))"
proof -
  let ?j = "ae_jiffies E"
  have le: "delack_ato E k \<le> tcp_delack_max E k" by (simp add: delack_ato_def Let_def)
  define ato where "ato = sint (delack_ato E k)"
  have u: "unat (delack_ato E k) \<le> unat (tcp_delack_max E k)" "unat (tcp_delack_max E k) < 2 ^ 31"
    using le max by (simp_all add: word_le_nat_alt word_less_nat_alt)
  then have v: "unat (delack_ato E k) < 2 ^ 31" by (rule order.strict_trans1)
  have ato: "ato = int (unat (delack_ato E k))" unfolding ato_def by (rule sint_unat_small [OF v])
  have "int (unat (delack_ato E k)) < int (2 ^ 31)" using v by (rule of_nat_less_iff [THEN iffD2])
  then have ato': "0 \<le> ato" "ato < 2 ^ 31" by (simp_all only: ato of_nat_power of_nat_numeral of_nat_0_le_iff)
  define due where "due \<longleftrightarrow> a_pending k AND ICSK_ACK_TIMER \<noteq> 0"
  define t where "t = (if due \<and> \<not> time_before (?j + word_of_int ato) (a_timeout k) then a_timeout k else ?j + word_of_int ato)"
  have run: "tcp_send_delayed_ack E k = (if due \<and> time_before_eq (a_timeout k) (?j + word_of_int (ato div 4)) then tcp_send_ack E k
      else Some (None, k\<lparr>a_pending := a_pending k OR (ICSK_ACK_SCHED OR ICSK_ACK_TIMER), a_timeout := t, a_timers := a_timers k @ [Delack_timer t]\<rparr>))"
    by (simp add: tcp_send_delayed_ack_def Let_def ato_def [symmetric] due_def [symmetric] t_def)
  show ?thesis
  proof (cases "due \<and> time_before_eq (a_timeout k) (?j + word_of_int (ato div 4))")
    case False
    have "uint (t - ?j) \<le> ato"
    proof (cases "due \<and> \<not> time_before (?j + word_of_int ato) (a_timeout k)")
      case True
      with False older_timer_within [OF ato'] show ?thesis by (simp add: t_def)
    next
      case False
      then have "t - ?j = word_of_int ato" by (auto simp: t_def)
      moreover have "uint (word_of_int ato :: u64) = ato" using ato' by (simp add: uint_word_of_int take_bit_eq_mod)
      ultimately show ?thesis by simp
    qed
    then have "int (unat (t - ?j)) \<le> int (unat (delack_ato E k))" using ato by simp
    then have "unat (t - ?j) \<le> unat (tcp_delack_max E k)" using u(1) by (simp only: of_nat_le_iff)
    moreover define k' where "k' = k\<lparr>a_pending := a_pending k OR (ICSK_ACK_SCHED OR ICSK_ACK_TIMER), a_timeout := t, a_timers := a_timers k @ [Delack_timer t]\<rparr>"
    moreover have "armed k'" unfolding armed_def k'_def using armed_bits(3,4) [of "a_pending k"] by simp
    moreover have "tcp_send_delayed_ack E k = Some (None, k')" using run False by (simp add: k'_def)
    ultimately show ?thesis by (intro disjI2 exI [of _ k']) simp
  qed (simp add: run)
qed

section \<open>Window probes\<close>

lemma probe_skb_outcome:
  assumes can: "can_transmit E n k" and urg: "q = snd_una (c_tx (a_conn k)) - (if urgent then 0 else 1)"
  shows "\<exists>err pko k'. tcp_xmit_probe_skb E urgent k = Some (err, pko, k') \<and>
    (case pko of None \<Rightarrow> err \<noteq> 0 \<and> (ae_alloc E = None \<or> is_KEY_AO (te_key (ae_tx E))) | Some pk \<Rightarrow> sound_packet q (rcv_nxt (c_rx (a_conn k))) [] k' pk) \<and>
    (k' = k \<or> same_stream k k')"
proof (cases "ae_alloc E")
  case None
  then show ?thesis by (simp add: tcp_xmit_probe_skb_def)
next
  case (Some t)
  define s where "s = tcp_init_nondata_skb (alloc_skb t) q TCPHDR_ACK"
  have s: "skb_pcount s \<noteq> 0" "skb_flags s AND TCPHDR_SYN = 0" "skb_data s = []" "skb_seq s = q"
    using nondata_fields(4) by (simp_all add: s_def nondata_fields ack_flags)
  from ack_transmit_sound [OF can s(1,2), of False "rcv_nxt (c_rx (a_conn k))"] s(3,4)
  obtain err pko skb' k' where "ack_transmit E False (rcv_nxt (c_rx (a_conn k))) s k = Some (err, pko, skb', k')" "same_stream k k'"
    "pko = None \<longrightarrow> is_KEY_AO (te_key (ae_tx E)) \<and> err = - ENOMEM" "\<forall>pk. pko = Some pk \<longrightarrow> sound_packet q (rcv_nxt (c_rx (a_conn k))) [] k' pk"
    by auto
  moreover have "ENOMEM \<noteq> 0" by (simp add: ENOMEM_def)
  ultimately show ?thesis using Some
    by (intro exI [of _ err] exI [of _ pko] exI [of _ k']) (simp add: tcp_xmit_probe_skb_def s_def urg split: option.split)
qed

text \<open>The head may be replaced by a segment with the same bytes and numbers.\<close>

lemma set_head_keeps:
  assumes "send_inv mss tp" and "sk_write_queue tp = s # rest" and "skb_data s' = skb_data s" and "skb_seq s' = skb_seq s"
    and "skb_end_seq s' = skb_end_seq s" and "span s' = span s" and "counted s'"
  shows "send_inv mss (set_head s' tp)" and "queued_data (set_head s' tp) = queued_data tp" and "same_conn tp (set_head s' tp)"
    and "sk_write_queue (set_head s' tp) = s' # rest"
proof -
  have "countable mss s'" using assms(1-3) by (simp add: send_inv_def countable_def)
  then show "send_inv mss (set_head s' tp)" using assms by (auto simp: send_inv_def seg_inv_def set_head_def)
  show "queued_data (set_head s' tp) = queued_data tp" using assms(2,3) by (simp add: queued_data_def set_head_def)
qed (simp_all add: assms set_head_frame)

lemma psh_span: "span (s\<lparr>skb_flags := skb_flags s OR TCPHDR_PSH\<rparr>) = span s" and psh_counted: "counted (s\<lparr>skb_flags := f\<rparr>) = counted s"
proof -
  have "TCPHDR_PSH AND TCPHDR_FIN = 0" by (simp add: TCPHDR_PSH_def TCPHDR_FIN_def)
  then show "span (s\<lparr>skb_flags := skb_flags s OR TCPHDR_PSH\<rparr>) = span s" by (simp add: span_def bit.conj_disj_distrib2)
qed (simp add: counted_def)

lemma open_window:
  assumes "send_inv mss tp" and "sk_write_queue tp = s # rest" and "seq_before (skb_seq s) (tcp_wnd_end tp)"
  shows "unat (skb_seq s - snd_una tp) \<le> unat (snd_wnd tp)"
    and "unat (tcp_wnd_end tp - skb_seq s) = unat (snd_wnd tp) - unat (skb_seq s - snd_una tp)"
proof -
  have q: "skb_seq s = snd_nxt tp" and small: "unat (skb_seq s - snd_una tp) < 2 ^ 31" "unat (snd_wnd tp) < 2 ^ 31"
    using assms(1,2) by (auto simp: send_inv_def seg_inv_def)
  let ?v = "int (unat (skb_seq s - snd_una tp)) - int (unat (snd_wnd tp)) - int 0"
  have n: "unat (snd_wnd tp) + 0 < 2147483648" "unat (skb_seq s - snd_una tp) < 2147483648" using small by simp_all
  have "skb_seq s - tcp_wnd_end tp = word_of_int ?v" by (simp add: tcp_wnd_end_def algebra_simps)
  moreover have "sint (word_of_int ?v :: u32) = ?v" by (rule sint_diff [OF n refl])
  moreover have "sint (skb_seq s - tcp_wnd_end tp) < 0" using assms(3) by (simp add: seq_before_def word_sless_alt)
  ultimately have "?v < 0" by (simp only:)
  then show le: "unat (skb_seq s - snd_una tp) \<le> unat (snd_wnd tp)" by linarith
  show "unat (tcp_wnd_end tp - skb_seq s) = unat (snd_wnd tp) - unat (skb_seq s - snd_una tp)" by (rule window_left [OF le])
qed


text \<open>A split of the head of the write queue, which has not been sent.\<close>

lemma fragment_head:
  assumes sp: "splits_pages F" and inv: "send_inv mss tp" and Q: "sk_write_queue tp = s # rest" and m: "0 < mss" "mss < 2 ^ 16"
    and pos: "0 < span s" and len: "unat l \<le> length (skb_data s)" and run: "tcp_fragment F TCP_FRAG_IN_WRITE_QUEUE 0 l mss tp = (0, tp')"
  shows "\<exists>a b. sk_write_queue tp' = a # b # rest \<and> same_conn tp tp' \<and> send_inv mss tp' \<and> queued_data tp' = queued_data tp \<and>
    skb_data a = take (unat l) (skb_data s) \<and> skb_seq a = skb_seq s \<and> skb_flags a = skb_flags s AND NOT (TCPHDR_FIN OR TCPHDR_PSH) \<and> skb_pcount a \<noteq> 0"
proof -
  let ?q = TCP_FRAG_IN_WRITE_QUEUE
  obtain new a b where new: "se_alloc F = Some new" and ab: "fragment_skb F l mss new s = (a, b)"
    and Q': "sk_write_queue tp' = a # b # rest"
    using run Q by (auto elim!: tcp_fragment_done simp: queue_of_def)
  obtain d where ch: "chain (snd_nxt tp) ([] @ s # rest) d" using inv Q by (auto simp: send_inv_def seg_inv_def)
  have "span s < 2 ^ 31" using inv Q by (simp add: send_inv_def)
  then have "seq_before (snd_nxt tp) (skb_end_seq s)" using ch pos seq_before_add(1) [of "span s" "snd_nxt tp"] by simp
  then have "seq_before (snd_nxt tp) (skb_end_seq b)" using frag_split.split_seq [OF ab] by simp
  then have sc: "same_conn tp tp'"
    using run Q new ab by (auto simp: tcp_fragment_def same_conn_def queue_of_def set_queue_def Let_def ENOMEM_def EINVAL_def split: if_splits)
  have ok: "countable mss s" using inv Q by (simp add: send_inv_def)
  obtain b0 where ab0: "split_skb F l mss new s = (a, b0)" and bb: "skb_pcount b = skb_pcount b0" "skb_frags b = skb_frags b0" "skb_gso_size b = skb_gso_size b0"
    using ab by (auto simp: fragment_skb_def split: prod.splits)
  have cn: "counted a" "countable mss a" "counted b" "countable mss b"
    using split_counted [OF sp ok m ab0] bb by (auto simp: counted_def countable_def)
  note spn = frag_split.split_span [OF sp ab len]
  have ch': "chain (snd_nxt tp) (a # b # rest) d" using frag_split.split_chain [OF sp ch ab len] by (simp del: chain.simps)
  have "send_inv mss tp'"
    using inv Q Q' sc cn spn ch' by (auto simp: send_inv_def seg_inv_def same_conn_def simp del: chain.simps)
  moreover have "queued_data tp' = queued_data tp"
    using sc Q Q' frag_split.split_data [OF sp ab] by (simp add: queued_data_def same_conn_def)
  ultimately show ?thesis
    using sc Q' frag_split.split_data [OF sp ab] frag_split.split_seq [OF ab] frag_split.split_flags [OF ab] fragment_counts(1) [OF sp ok m ab] by blast
qed

text \<open>The piece that is sent fits the window and one packet.\<close>

lemma wakeup_fit_done:
  assumes sp: "splits_pages F" and inv: "send_inv mss tp" and Q: "sk_write_queue tp = s # rest" and m: "0 < mss" "mss < 2 ^ 16"
    and open_w: "seq_before (skb_seq s) (tcp_wnd_end tp)" and run: "wakeup_fit F mss tp = (err, tp')"
  shows "send_inv mss tp' \<and> queued_data tp' = queued_data tp \<and> same_conn tp tp' \<and>
    (err = 0 \<longrightarrow> (\<exists>h q. sk_write_queue tp' = h # q \<and> skb_seq h = skb_seq s \<and> skb_pcount h \<noteq> 0 \<and> in_window tp h \<and>
       length (skb_data h) \<le> unat mss \<and> (skb_flags s AND TCPHDR_SYN = 0 \<longrightarrow> skb_flags h AND TCPHDR_SYN = 0)))"
proof -
  note w = open_window [OF inv Q open_w]
  let ?seg = "tcp_wnd_end tp - skb_seq s" and ?d = "unat (skb_seq s - snd_una tp)"
  have ok: "countable mss s" "counted s" using inv Q by (simp_all add: send_inv_def)
  have len: "unat (skb_len s) = length (skb_data s)" using ok(1) by (simp add: countable_def unat_skb_len)
  have sp31: "span s < 2 ^ 31" using inv Q by (simp add: send_inv_def)
  have "skb_end_seq s = skb_seq s + of_nat (span s)" using inv Q by (auto simp: send_inv_def seg_inv_def)
  then have esq: "unat (skb_end_seq s - skb_seq s) = span s" using sp31 by (simp add: unsigned_of_nat take_bit_nat_eq_self)
  have spd: "length (skb_data s) \<le> span s" "span s \<le> Suc (length (skb_data s))" by (simp_all add: span_def)
  show ?thesis
  proof (cases "?seg < skb_end_seq s - skb_seq s \<or> skb_len s > mss")
    case True
    define s1 where "s1 = s\<lparr>skb_flags := skb_flags s OR TCPHDR_PSH\<rparr>"
    define t where "t = set_head s1 tp"
    have s1: "skb_data s1 = skb_data s" "skb_seq s1 = skb_seq s" "skb_end_seq s1 = skb_end_seq s" "span s1 = span s" "counted s1"
      using ok(2) psh_span [of s] by (simp_all add: s1_def psh_counted)
    note t = set_head_keeps [OF inv Q s1, folded t_def]
    define l where "l = min ?seg mss"
    have frag: "tcp_fragment F TCP_FRAG_IN_WRITE_QUEUE 0 l mss t = (err, tp')"
      using run Q True by (simp add: wakeup_fit_def Let_def s1_def [symmetric] t_def [symmetric] l_def)
    have ul: "unat l = min (unat (snd_wnd tp) - ?d) (unat mss)" by (simp add: l_def min_def word_le_nat_alt w(2))
    have cut: "unat l \<le> length (skb_data s)" "0 < span s"
      using True esq spd len m(1) by (auto simp: word_less_nat_alt ul w(2))
    show ?thesis
    proof (cases "err = 0")
      case e: True
      obtain a b where ab: "sk_write_queue tp' = a # b # rest" "same_conn t tp'" "send_inv mss tp'" "queued_data tp' = queued_data t"
        "skb_data a = take (unat l) (skb_data s1)" "skb_seq a = skb_seq s1" "skb_flags a = skb_flags s1 AND NOT (TCPHDR_FIN OR TCPHDR_PSH)" "skb_pcount a \<noteq> 0"
        using fragment_head [OF sp t(1,4) m _ _ frag [unfolded e]] cut s1 by auto
      have la: "length (skb_data a) = unat l" using ab(5) s1(1) cut(1) by simp
      have fl: "skb_flags a AND TCPHDR_SYN = 0" if "skb_flags s AND TCPHDR_SYN = 0"
      proof -
        have "TCPHDR_PSH AND TCPHDR_SYN = 0" by (simp add: TCPHDR_PSH_def TCPHDR_SYN_def)
        then have "skb_flags s1 AND TCPHDR_SYN = 0" using that by (simp add: s1_def bit.conj_disj_distrib2)
        moreover have "skb_flags a AND TCPHDR_SYN = NOT (TCPHDR_FIN OR TCPHDR_PSH) AND (skb_flags s1 AND TCPHDR_SYN)"
          unfolding ab(7) by (simp only: and.assoc and.left_commute)
        ultimately show ?thesis by simp
      qed
      have "in_window tp a" using la ul w(1) ab(6) s1(2) by (simp add: in_window_def)
      with ab la ul t s1(2) same_conn_trans [OF t(3) ab(2)] fl show ?thesis by auto
    next
      case False
      with tcp_fragment_failed [OF frag] obtain n where "tp' = t\<lparr>wqueue_too_big := n\<rparr>" by blast
      with False t show ?thesis by (auto simp: send_inv_def seg_inv_def queued_data_def same_conn_def)
    qed
  next
    case False
    then have le: "span s \<le> unat (snd_wnd tp) - ?d" "length (skb_data s) \<le> unat mss"
      using esq len by (simp_all add: word_less_nat_alt not_less w(2))
    then have win: "in_window tp s" using w(1) spd(1) by (simp add: in_window_def)
    show ?thesis
    proof (cases "skb_pcount s = 0")
      case True
      define s1 where "s1 = tcp_set_skb_tso_segs s mss"
      have s1: "skb_data s1 = skb_data s" "skb_seq s1 = skb_seq s" "skb_end_seq s1 = skb_end_seq s" "span s1 = span s" "counted s1"
        "skb_flags s1 = skb_flags s"
        using tso_segs_count(2) [OF ok(1) m] by (simp_all add: s1_def span_def)
      have "unat (skb_pcount s1) = seg_count (length (skb_data s)) (unat mss)" unfolding s1_def by (rule tso_segs_count(1) [OF ok(1) m])
      then have "skb_pcount s1 \<noteq> 0" using seg_count_pos [of "length (skb_data s)" "unat mss"] by auto
      moreover have "err = 0" "tp' = set_head s1 tp" using run Q False True by (simp_all add: wakeup_fit_def Let_def s1_def)
      moreover have "in_window tp s1" using win s1 by (simp add: in_window_def)
      ultimately show ?thesis using set_head_keeps [OF inv Q s1(1-5)] s1 le(2) by auto
    next
      case p: False
      with False run Q have "err = 0" "tp' = tp" by (simp_all add: wakeup_fit_def Let_def)
      with p Q win le(2) inv show ?thesis by auto
    qed
  qed
qed

lemma current_mss_rx:
  assumes "tcp_current_mss S oe os key tp = (m, t)"
  shows "ack_rcv_nxt t = ack_rcv_nxt tp" and "rx_rcv_wscale t = rx_rcv_wscale tp"
  using assms by (auto simp: tcp_current_mss_def tcp_sync_mss_def Let_def split: option.splits if_splits prod.splits)

lemma adjust_rx:
  fixes tp :: tcp_sock
  shows "ack_rcv_nxt (tcp_adjust_pcount tp s d) = ack_rcv_nxt tp" and "rx_rcv_wscale (tcp_adjust_pcount tp s d) = rx_rcv_wscale tp"
  by (simp_all add: tcp_adjust_pcount_def Let_def split: option.split)

lemma fragment_rx:
  fixes tp :: tcp_sock
  assumes "tcp_fragment F q i l mss tp = (r, tp')"
  shows "ack_rcv_nxt tp' = ack_rcv_nxt tp" and "rx_rcv_wscale tp' = rx_rcv_wscale tp"
  using assms by (auto simp: tcp_fragment_def adjust_rx set_queue_def Let_def split: option.splits if_splits prod.splits tcp_queue.splits)

lemma wakeup_fit_rx:
  assumes "wakeup_fit F mss tp = (err, tp')"
  shows "ack_rcv_nxt tp' = ack_rcv_nxt tp" and "rx_rcv_wscale tp' = rx_rcv_wscale tp"
  using assms by (auto simp: wakeup_fit_def set_head_def Let_def dest: fragment_rx split: if_splits)

text \<open>What may be sent to probe an open window: the next bytes of the stream, within the window.\<close>

definition window_data :: "u32 \<Rightarrow> tcp_sock \<Rightarrow> packet \<Rightarrow> bool" where
  "window_data mss tp pk \<longleftrightarrow> th_seq (pk_hdr pk) = snd_nxt tp \<and> length (pk_data pk) \<le> unat mss \<and>
     unat (snd_nxt tp - snd_una tp) + length (pk_data pk) \<le> unat (snd_wnd tp) \<and>
     pk_data pk = take (length (pk_data pk)) (bytes_of (sk_write_queue tp))"

lemma wakeup_data_done:
  assumes can: "can_transmit E n k" and sp: "splits_pages (ae_seg E)" and tp: "tp = c_tx (a_conn k)" and inv: "send_inv mss tp"
    and mss: "mss = fst (tcp_current_mss (te_snd (ae_tx E)) (te_opt (ae_tx E)) (c_opts (a_conn k)) (te_key (ae_tx E)) tp)"
    and m: "0 < mss" "mss < 2 ^ 16" and Q: "sk_write_queue tp = s # rest" and op: "seq_before (skb_seq s) (tcp_wnd_end tp)"
    and syn: "skb_flags s AND TCPHDR_SYN = 0"
  shows "\<exists>err pks k'. wakeup_data E k = Some (err, pks, k') \<and> length pks \<le> 1 \<and> (\<forall>pk \<in> set pks. window_data mss tp pk) \<and>
    send_inv mss (c_tx (a_conn k')) \<and> queued_data (c_tx (a_conn k')) = queued_data tp"
proof -
  obtain t1 where t1: "tcp_current_mss (te_snd (ae_tx E)) (te_opt (ae_tx E)) (c_opts (a_conn k)) (te_key (ae_tx E)) tp = (mss, t1)"
    using mss by (metis prod.collapse)
  note f1 = current_mss_conn [OF t1]
  have i1: "send_inv mss t1" "queued_data t1 = queued_data tp" using send_inv_frame [OF f1] queued_data_frame [OF f1] inv by simp_all
  obtain e t2 where t2: "wakeup_fit (ae_seg E) mss t1 = (e, t2)" by fastforce
  have op1: "seq_before (skb_seq s) (tcp_wnd_end t1)" using op same_conn_wnd_end [OF f1(1)] by simp
  note d = wakeup_fit_done [OF sp i1(1) f1(2) [unfolded Q] m op1 t2]
  define k1 where "k1 = (if seq_before (a_pushed_seq k) (skb_end_seq s) then k\<lparr>a_pushed_seq := skb_end_seq s\<rparr> else k)"
  have k1: "a_conn k1 = a_conn k" by (simp add: k1_def)
  have run: "wakeup_data E k = (if e \<noteq> 0 then Some (- 1, [], upd_tx (\<lambda>_. t2) k1)
      else let h = (hd (sk_write_queue t2))\<lparr>skb_flags := skb_flags (hd (sk_write_queue t2)) OR TCPHDR_PSH\<rparr>; k = upd_tx (\<lambda>_. set_head h t2) k1
        in case ack_transmit E True (rcv_nxt (c_rx (a_conn k))) h k of None \<Rightarrow> None
          | Some (err, pko, skb, k) \<Rightarrow> let k = upd_tx (set_head skb) k; k = (if err = 0 then upd_tx tcp_event_new_data_sent k else k)
              in Some (err, (case pko of None \<Rightarrow> [] | Some pk \<Rightarrow> [pk]), k))"
    unfolding wakeup_data_def Let_def tp [symmetric] t1 prod.case t2 Q list.sel k1_def [symmetric] by (rule refl)
  show ?thesis
  proof (cases "e = 0")
    case False
    with d i1(2) run show ?thesis by (simp add: upd_tx_def)
  next
    case e: True
    with d obtain h q where h: "sk_write_queue t2 = h # q" "skb_seq h = skb_seq s" "skb_pcount h \<noteq> 0" "in_window t1 h"
      "length (skb_data h) \<le> unat mss" "skb_flags h AND TCPHDR_SYN = 0" using syn by auto
    have i2: "send_inv mss t2" "counted h" "same_conn tp t2" using d h(1) same_conn_trans [OF f1(1)] by (auto simp: send_inv_def)
    define h1 where "h1 = h\<lparr>skb_flags := skb_flags h OR TCPHDR_PSH\<rparr>"
    have h1: "skb_data h1 = skb_data h" "skb_seq h1 = skb_seq h" "skb_end_seq h1 = skb_end_seq h" "span h1 = span h" "counted h1" "skb_pcount h1 \<noteq> 0"
      using psh_span [of h] i2(2) h(3) by (simp_all add: h1_def psh_counted)
    have syn1: "skb_flags h1 AND TCPHDR_SYN = 0" using h(6) by (simp add: h1_def psh_syn)
    define t3 where "t3 = set_head h1 t2"
    note t3 = set_head_keeps [OF i2(1) h(1) h1(1-5), folded t3_def]
    define k2 where "k2 = upd_tx (\<lambda>_. t3) k1"
    have k2: "c_tx (a_conn k2) = t3" "c_rx (a_conn k2) = c_rx (a_conn k)" "c_opts (a_conn k2) = c_opts (a_conn k)"
      by (simp_all add: k2_def upd_tx_def k1)
    have "ack_rcv_nxt t3 = ack_rcv_nxt tp" "rx_rcv_wscale t3 = rx_rcv_wscale tp"
      using current_mss_rx [OF t1] wakeup_fit_rx [OF t2] by (simp_all add: t3_def set_head_def)
    then have can2: "can_transmit E n k2" using can k2 tp by (simp add: can_transmit_def one_sock_def)
    from ack_transmit_sound [OF can2 h1(6) syn1, of True "rcv_nxt (c_rx (a_conn k2))"]
    obtain err pko skb' k3 where tr: "ack_transmit E True (rcv_nxt (c_rx (a_conn k2))) h1 k2 = Some (err, pko, skb', k3)" "same_stream k2 k3"
      "\<exists>ts x. skb' = h1\<lparr>skb_tstamp := ts, skb_tx := x\<rparr>"
      "\<forall>pk. pko = Some pk \<longrightarrow> sound_packet (skb_seq h1) (rcv_nxt (c_rx (a_conn k2))) (skb_data h1) k3 pk" by blast
    let ?t4 = "c_tx (a_conn k3)"
    have t4: "quiet t3 ?t4" using tr(2) k2(1) by (simp add: same_stream_def)
    have i4: "send_inv mss ?t4" "queued_data ?t4 = queued_data t3" "sk_write_queue ?t4 = h1 # q"
      using t3(1,4) t4 by (auto simp: quiet_def send_inv_def seg_inv_def queued_data_def)
    have "skb_data skb' = skb_data h1" "skb_seq skb' = skb_seq h1" "skb_end_seq skb' = skb_end_seq h1" "span skb' = span h1" "counted skb'"
      using tr(3) h1(5) by (auto simp: span_def counted_def)
    note t5 = set_head_keeps [OF i4(1,3) this]
    define k4 where "k4 = (if err = 0 then upd_tx tcp_event_new_data_sent (upd_tx (set_head skb') k3) else upd_tx (set_head skb') k3)"
    have "send_inv mss (c_tx (a_conn k4)) \<and> queued_data (c_tx (a_conn k4)) = queued_data tp"
      using t5 new_data_sent_inv [OF t5(1,4)] i4(2) t3(2) d i1(2) by (simp add: k4_def upd_tx_def)
    moreover have "wakeup_data E k = Some (err, (case pko of None \<Rightarrow> [] | Some pk \<Rightarrow> [pk]), k4)"
      using run e h(1) tr(1) by (simp add: Let_def h1_def [symmetric] t3_def [symmetric] k2_def [symmetric] k4_def)
    moreover have "window_data mss tp pk" if "pko = Some pk" for pk
    proof -
      have pk: "th_seq (pk_hdr pk) = skb_seq s" "pk_data pk = skb_data h" using tr(4) that h(2) h1(1,2) by (auto simp: sound_packet_def)
      have sq: "skb_seq s = snd_nxt tp" using inv Q by (auto simp: send_inv_def seg_inv_def)
      have "tcp_rtx_queue t2 = tcp_rtx_queue tp" using i2(3) by (simp add: same_conn_def)
      then have "bytes_of (sk_write_queue t2) = bytes_of (sk_write_queue tp)" using d i1(2) by (simp add: queued_data_def bytes_of_def)
      then have "skb_data h = take (length (skb_data h)) (bytes_of (sk_write_queue tp))" by (metis append_eq_conv_conj bytes_of_simps(2) h(1))
      moreover have "in_window tp h" using h(4) in_window_frame [OF f1(1)] by simp
      ultimately show ?thesis using pk sq h(2,5) by (simp add: window_data_def in_window_def)
    qed
    ultimately show ?thesis
      by (intro exI [of _ err] exI [of _ "case pko of None \<Rightarrow> [] | Some pk \<Rightarrow> [pk]"] exI [of _ k4]) (auto split: option.split)
  qed
qed

text \<open>The probe of a window without urgent data: data if the window is open, else an old number.\<close>

definition window_open :: "tcp_sock \<Rightarrow> bool" where
  "window_open tp \<longleftrightarrow> sk_write_queue tp \<noteq> [] \<and> seq_before (skb_seq (hd (sk_write_queue tp))) (tcp_wnd_end tp)"

definition wakeup_packet :: "u32 \<Rightarrow> tcp_sock \<Rightarrow> packet \<Rightarrow> bool" where
  "wakeup_packet mss tp pk \<longleftrightarrow> (if window_open tp then window_data mss tp pk else pk_data pk = [] \<and> th_seq (pk_hdr pk) = snd_una tp - 1)"

definition wakeup_ready :: "ack_env \<Rightarrow> u32 \<Rightarrow> u32 \<Rightarrow> ack_sock \<Rightarrow> bool" where
  "wakeup_ready E n mss k \<longleftrightarrow> can_transmit E n k \<and> splits_pages (ae_seg E) \<and> send_inv mss (c_tx (a_conn k)) \<and>
     mss = fst (tcp_current_mss (te_snd (ae_tx E)) (te_opt (ae_tx E)) (c_opts (a_conn k)) (te_key (ae_tx E)) (c_tx (a_conn k))) \<and>
     0 < mss \<and> mss < 2 ^ 16 \<and> (\<forall>s \<in> set (sk_write_queue (c_tx (a_conn k))). skb_flags s AND TCPHDR_SYN = 0) \<and>
     \<not> seq_between (snd_up (c_tx (a_conn k))) (snd_una (c_tx (a_conn k)) + 1) (snd_una (c_tx (a_conn k)) + 0xFFFF)"

lemma write_wakeup_done:
  assumes r: "wakeup_ready E' n mss k" and tp: "tp = c_tx (a_conn k)"
  shows "\<exists>err pks k'. tcp_write_wakeup E E' k = Some (err, pks, k') \<and> length pks \<le> 1 \<and> (\<forall>pk \<in> set pks. wakeup_packet mss tp pk) \<and>
    send_inv mss (c_tx (a_conn k')) \<and> queued_data (c_tx (a_conn k')) = queued_data tp"
proof (cases "a_state k = TCP_CLOSE")
  case True
  have "send_inv mss tp" using r unfolding wakeup_ready_def tp by blast
  with True tp show ?thesis by (simp add: tcp_write_wakeup_def)
next
  case alive: False
  have can: "can_transmit E' n k" using r by (simp add: wakeup_ready_def)
  show ?thesis
  proof (cases "window_open tp")
    case True
    then obtain s rest where Q: "sk_write_queue tp = s # rest" "seq_before (skb_seq s) (tcp_wnd_end tp)"
      by (auto simp: window_open_def neq_Nil_conv)
    then have run: "tcp_write_wakeup E E' k = wakeup_data E' k" using alive tp by (simp add: tcp_write_wakeup_def Let_def)
    have "\<exists>err pks k'. wakeup_data E' k = Some (err, pks, k') \<and> length pks \<le> 1 \<and> (\<forall>pk \<in> set pks. window_data mss tp pk) \<and>
      send_inv mss (c_tx (a_conn k')) \<and> queued_data (c_tx (a_conn k')) = queued_data tp"
      by (rule wakeup_data_done [OF can _ tp _ _ _ _ Q]) (use r Q tp in \<open>auto simp: wakeup_ready_def\<close>)
    then show ?thesis unfolding run wakeup_packet_def using True by simp
  next
    case False
    obtain err pko k' where p: "tcp_xmit_probe_skb E' False k = Some (err, pko, k')" "k' = k \<or> same_stream k k'"
      "case pko of None \<Rightarrow> True | Some pk \<Rightarrow> sound_packet (snd_una tp - 1) (rcv_nxt (c_rx (a_conn k))) [] k' pk"
      using probe_skb_outcome [OF can, of _ False] tp by (fastforce split: option.splits)
    have "tcp_write_wakeup E E' k = Some (err, (case pko of None \<Rightarrow> [] | Some pk \<Rightarrow> [pk]), k')"
    proof -
      have "\<not> seq_between (snd_up tp) (snd_una tp + 1) (snd_una tp + 0xFFFF)" using r unfolding wakeup_ready_def tp by blast
      then show ?thesis unfolding tcp_write_wakeup_def Let_def tp [symmetric]
        using False [unfolded window_open_def] by (simp only: alive p(1) if_False prod.case option.case append_Nil)
    qed
    moreover have "send_inv mss (c_tx (a_conn k')) \<and> queued_data (c_tx (a_conn k')) = queued_data tp"
      using p(2) r tp by (auto simp: wakeup_ready_def same_stream_def quiet_def send_inv_def seg_inv_def queued_data_def)
    ultimately show ?thesis using p(3) False by (auto simp: wakeup_packet_def sound_packet_def split: option.splits)
  qed
qed

text \<open>After a probe of a closed window something is in flight, nothing waits, or the next probe has its timer.\<close>

lemma probe0_rearmed:
  assumes "tcp_write_wakeup E E' k = Some (err, pks, k1)"
  shows "\<exists>k'. tcp_send_probe0 E E' k = Some (pks, k') \<and> a_conn k' = a_conn k1 \<and>
    (if packets_out (c_tx (a_conn k1)) = 0 \<and> sk_write_queue (c_tx (a_conn k1)) \<noteq> []
     then \<exists>t. a_timers k' = a_timers k1 @ [Probe0_timer t] else a_probes_out k' = 0 \<and> a_backoff k' = 0)"
  using assms by (auto simp: tcp_send_probe0_def Let_def split: prod.split)

end
