(* ===== verification/Tcp_Tsq.thy ===== *)
theory Tcp_Tsq
  imports Tcp_Push Tcp_Ack
begin

text \<open>
  TCP small queues (\<open>tcp_output.c\<close>): a packet that leaves the device calls \<open>tcp_wfree\<close>, which may not send
  but puts the socket into the queue of a tasklet; the tasklet sends, or leaves the work to the process that
  owns the socket.  The model has the flags, the two reference counts that keep a socket alive, the queues
  of all processors, and the atomic steps of each function.
\<close>

section \<open>State\<close>

text \<open>\<open>enum tsq_enum\<close>; \<open>sk_tsq_flags\<close> is a set of them.\<close>

datatype tsq_enum = TSQ_THROTTLED | TSQ_QUEUED | TCP_TSQ_DEFERRED | TCP_WRITE_TIMER_DEFERRED | TCP_DELACK_TIMER_DEFERRED
  | TCP_MTU_REDUCED_DEFERRED | TCP_ACK_DEFERRED

definition TCP_DEFERRED_ALL :: "tsq_enum set" where
  "TCP_DEFERRED_ALL = {TCP_TSQ_DEFERRED, TCP_WRITE_TIMER_DEFERRED, TCP_DELACK_TIMER_DEFERRED, TCP_MTU_REDUCED_DEFERRED, TCP_ACK_DEFERRED}"

text \<open>The work that a socket is asked to do.\<close>

datatype tsq_work = Tsq_write | Write_timer_handler | Delack_timer_handler | Mtu_reduced | Send_ack

text \<open>A socket: \<open>sk_tsq_flags\<close>, \<open>sk_wmem_alloc\<close>, \<open>sk_refcnt\<close>, whether \<open>__sk_free\<close> has been called, whether a
  process owns it, \<open>inet_csk_ack_scheduled\<close>, and the work so far.\<close>

record tsq_sock =
  q_flags :: "tsq_enum set"
  q_wmem :: nat
  q_refcnt :: nat
  q_freed :: bool
  q_owned :: bool
  q_ack_scheduled :: bool
  q_work :: "tsq_work list"

text \<open>The kernel: sockets by number, and for each processor the queue of its tasklet, the part a running tasklet
  has taken from it, and whether it is scheduled.\<close>

record tsq_world =
  w_sock :: "nat \<Rightarrow> tsq_sock"
  w_head :: "nat list list"
  w_list :: "nat list list"
  w_scheduled :: "bool list"

definition upd_sock :: "nat \<Rightarrow> tsq_sock \<Rightarrow> tsq_world \<Rightarrow> tsq_world" where
  "upd_sock i s W = W\<lparr>w_sock := (w_sock W)(i := s)\<rparr>"

section \<open>References\<close>

text \<open>A counter that falls below zero is an error.\<close>

definition sk_free :: "tsq_sock \<Rightarrow> tsq_sock option" where
  "sk_free s = (if q_wmem s = 0 then None else Some (s\<lparr>q_wmem := q_wmem s - 1, q_freed := q_freed s \<or> q_wmem s = 1\<rparr>))"

definition sock_hold :: "tsq_sock \<Rightarrow> tsq_sock option" where
  "sock_hold s = (if q_refcnt s = 0 then None else Some (s\<lparr>q_refcnt := Suc (q_refcnt s)\<rparr>))"

definition sock_put :: "tsq_sock \<Rightarrow> tsq_sock option" where
  "sock_put s =
     (if q_refcnt s = 0 then None
      else let s = s\<lparr>q_refcnt := q_refcnt s - 1\<rparr> in if q_refcnt s = 0 then sk_free s else Some s)"

text \<open>\<open>__sock_put\<close> is for references that are not the last.\<close>

definition u_sock_put :: "tsq_sock \<Rightarrow> tsq_sock option" where
  "u_sock_put s = (if q_refcnt s \<le> 1 then None else Some (s\<lparr>q_refcnt := q_refcnt s - 1\<rparr>))"

definition do_work :: "tsq_work \<Rightarrow> tsq_sock \<Rightarrow> tsq_sock" where
  "do_work w s = s\<lparr>q_work := q_work s @ [w]\<rparr>"

section \<open>The tasklet\<close>

text \<open>What the work \<open>Tsq_write\<close> is, on the sending part of the socket: lost segments first, then new ones.  \<open>ras\<close> and
  \<open>as\<close> have the answers for both loops.\<close>

definition tcp_tsq_write ::
  "snd_env \<Rightarrow> opt_env \<Rightarrow> opt_sock \<Rightarrow> tcp_key \<Rightarrow> push_env \<Rightarrow> bool \<Rightarrow> rq_ans list \<Rightarrow> xmit_ans list \<Rightarrow> u32 \<Rightarrow> tcp_state \<Rightarrow> push_sock \<Rightarrow> push_result option" where
  "tcp_tsq_write S oe os key P reo ras as nonagle state ps =
     (if state \<notin> {TCP_ESTABLISHED, TCP_FIN_WAIT1, TCP_CLOSING, TCP_CLOSE_WAIT, TCP_LAST_ACK} then Some (PDone False [] ps)
      else
        let tp = ps_tp ps
        in case (if lost_out tp > retrans_out tp \<and> snd_cwnd tp > tcp_packets_in_flight tp
                 then tcp_xmit_retransmit_queue S oe os key reo ras (tcp_mstamp_refresh S tp)
                 else Some (RStop \<lparr>rq_sk = tp, rq_hole = False, rq_rearm = False, rq_sent = []\<rparr>)) of
             Some (RStop L) \<Rightarrow>
               let (mss, tp) = tcp_current_mss S oe os key (rq_sk L)
               in (case tcp_write_xmit S oe os key P mss nonagle 0 as (ps\<lparr>ps_tp := tp\<rparr>) of
                     Some (PDone stalled sent ps) \<Rightarrow> Some (PDone stalled (rq_sent L @ sent) ps)
                   | r \<Rightarrow> r)
           | None \<Rightarrow> None
           | _ \<Rightarrow> Some PBug)"

definition tcp_tsq_handler :: "tsq_sock \<Rightarrow> tsq_sock option" where
  "tcp_tsq_handler s =
     (if \<not> q_owned s then Some (do_work Tsq_write s)
      else if TCP_TSQ_DEFERRED \<notin> q_flags s then sock_hold (s\<lparr>q_flags := insert TCP_TSQ_DEFERRED (q_flags s)\<rparr>)
      else Some s)"

text \<open>The start of \<open>tcp_tasklet_func\<close>, and one round of its loop.\<close>

definition tasklet_take :: "nat \<Rightarrow> tsq_world \<Rightarrow> tsq_world" where
  "tasklet_take cpu W = W\<lparr>w_list := (w_list W)[cpu := w_list W ! cpu @ w_head W ! cpu], w_head := (w_head W)[cpu := []],
     w_scheduled := (w_scheduled W)[cpu := False]\<rparr>"

definition tasklet_one :: "nat \<Rightarrow> tsq_world \<Rightarrow> tsq_world option" where
  "tasklet_one cpu W =
     (case w_list W ! cpu of
        [] \<Rightarrow> Some W
      | i # q \<Rightarrow>
          let W = W\<lparr>w_list := (w_list W)[cpu := q]\<rparr>;
              s = w_sock W i;
              s = s\<lparr>q_flags := q_flags s - {TSQ_QUEUED}\<rparr>
          in case tcp_tsq_handler s of
               None \<Rightarrow> None
             | Some s \<Rightarrow> (case sk_free s of None \<Rightarrow> None | Some s \<Rightarrow> Some (upd_sock i s W)))"

fun tasklet_loop :: "nat \<Rightarrow> nat \<Rightarrow> tsq_world \<Rightarrow> tsq_world option" where
  "tasklet_loop cpu 0 W = Some W"
| "tasklet_loop cpu (Suc n) W = (case tasklet_one cpu W of None \<Rightarrow> None | Some W \<Rightarrow> tasklet_loop cpu n W)"

definition tcp_tasklet_func :: "nat \<Rightarrow> tsq_world \<Rightarrow> tsq_world option" where
  "tcp_tasklet_func cpu W = (let W = tasklet_take cpu W in tasklet_loop cpu (length (w_list W ! cpu)) W)"

definition tcp_tasklet_init :: "nat \<Rightarrow> tsq_world \<Rightarrow> tsq_world" where
  "tcp_tasklet_init cpus W = W\<lparr>w_head := replicate cpus [], w_list := replicate cpus [], w_scheduled := replicate cpus False\<rparr>"

section \<open>A packet has left\<close>

text \<open>The loop around \<open>try_cmpxchg\<close>: \<open>seen\<close> has the values that were found after each failure; the one that the
  exchange succeeds with is the value of the flags.  \<open>None\<close> if the loop is left.\<close>

fun wfree_flags :: "tsq_enum set \<Rightarrow> tsq_enum set list \<Rightarrow> tsq_enum set option" where
  "wfree_flags oval seen =
     (if TSQ_THROTTLED \<notin> oval \<or> TSQ_QUEUED \<in> oval then None
      else case seen of [] \<Rightarrow> Some (insert TSQ_QUEUED (oval - {TSQ_THROTTLED})) | v # vs \<Rightarrow> wfree_flags v vs)"

text \<open>\<open>busy\<close>: memory is still queued and this is \<open>ksoftirqd\<close>.  \<open>first\<close> and \<open>seen\<close> are the values of the flags that
  are found.\<close>

definition tcp_wfree :: "nat \<Rightarrow> nat \<Rightarrow> bool \<Rightarrow> nat \<Rightarrow> tsq_enum set list \<Rightarrow> nat \<Rightarrow> tsq_world \<Rightarrow> tsq_world option" where
  "tcp_wfree truesize truesize1 ksoftirqd cpu seen i W =
     (let s = w_sock W i
      in if q_wmem s + 1 \<le> truesize then None
         else
           let s = s\<lparr>q_wmem := q_wmem s + 1 - truesize\<rparr>;
               out = map_option (\<lambda>s. upd_sock i s W) (sk_free s)
           in if q_wmem s \<ge> truesize1 \<and> ksoftirqd then out
              else case wfree_flags (hd (seen @ [q_flags s])) (tl (seen @ [q_flags s])) of
                  None \<Rightarrow> out
                | Some nval \<Rightarrow>
                    let s = s\<lparr>q_flags := nval\<rparr>;
                        empty = (w_head W ! cpu = []);
                        W = (upd_sock i s W)\<lparr>w_head := (w_head W)[cpu := i # w_head W ! cpu]\<rparr>
                    in Some (if empty then W\<lparr>w_scheduled := (w_scheduled W)[cpu := True]\<rparr> else W))"

section \<open>The owner lets go\<close>

definition put_after :: "tsq_enum \<Rightarrow> tsq_work \<Rightarrow> tsq_enum set \<Rightarrow> tsq_sock \<Rightarrow> tsq_sock option" where
  "put_after f w flags s = (if f \<in> flags then u_sock_put (do_work w s) else Some s)"

text \<open>As above, \<open>seen\<close> has the values of the flags at failed exchanges.\<close>

fun release_flags :: "tsq_enum set \<Rightarrow> tsq_enum set list \<Rightarrow> tsq_enum set option" where
  "release_flags flags seen =
     (if flags \<inter> TCP_DEFERRED_ALL = {} then None
      else case seen of [] \<Rightarrow> Some flags | v # vs \<Rightarrow> release_flags v vs)"

definition tcp_release_cb :: "tsq_enum set list \<Rightarrow> tsq_sock \<Rightarrow> tsq_sock option" where
  "tcp_release_cb seen s =
     (case release_flags (hd (seen @ [q_flags s])) (tl (seen @ [q_flags s])) of
        None \<Rightarrow> Some s
      | Some flags \<Rightarrow>
          let s = s\<lparr>q_flags := flags - TCP_DEFERRED_ALL\<rparr>
          in Option.bind (put_after TCP_TSQ_DEFERRED Tsq_write flags s) (\<lambda>s.
             Option.bind (put_after TCP_WRITE_TIMER_DEFERRED Write_timer_handler flags s) (\<lambda>s.
             Option.bind (put_after TCP_DELACK_TIMER_DEFERRED Delack_timer_handler flags s) (\<lambda>s.
             Option.bind (put_after TCP_MTU_REDUCED_DEFERRED Mtu_reduced flags s) (\<lambda>s.
               Some (if TCP_ACK_DEFERRED \<in> flags \<and> q_ack_scheduled s then do_work Send_ack s else s))))))"

definition tcp_pace_kick :: "tsq_sock \<Rightarrow> tsq_sock option" where
  "tcp_pace_kick s = Option.bind (tcp_tsq_handler s) sock_put"

end
