(* ===== verification/Tsq_Safety.thy ===== *)
theory Tsq_Safety
  imports Tcp_Tsq
begin

text \<open>
  Small queues keep a socket alive as long as a packet or a tasklet refers to it, in every interleaving of the
  processors, of the owner and of the timers.
\<close>

section \<open>The invariant\<close>

text \<open>The flags that come with a reference.\<close>

definition holding :: "tsq_enum set" where
  "holding = {TCP_TSQ_DEFERRED, TCP_WRITE_TIMER_DEFERRED, TCP_DELACK_TIMER_DEFERRED, TCP_MTU_REDUCED_DEFERRED}"

text \<open>A socket that is in \<open>c\<close> queues of tasklets, has packets of sizes \<open>fs\<close> in the devices and \<open>u\<close> other users.\<close>

definition sock_ok :: "nat \<Rightarrow> nat list \<Rightarrow> nat \<Rightarrow> tsq_sock \<Rightarrow> bool" where
  "sock_ok c fs u s \<longleftrightarrow> c = (if TSQ_QUEUED \<in> q_flags s then 1 else 0) \<and> q_refcnt s = u + card (q_flags s \<inter> holding) \<and>
     q_wmem s = (if 0 < q_refcnt s then 1 else 0) + sum_list fs + c \<and> (q_freed s \<longleftrightarrow> q_wmem s = 0) \<and> (q_owned s \<longrightarrow> 0 < u) \<and> 0 \<notin> set fs"

definition occurs :: "nat \<Rightarrow> nat list list \<Rightarrow> nat" where
  "occurs i qs = sum_list (map (\<lambda>q. count_list q i) qs)"

lemma occurs_update: "cpu < length qs \<Longrightarrow> occurs i (qs[cpu := q]) + count_list (qs ! cpu) i = occurs i qs + count_list q i"
proof -
  assume c: "cpu < length qs"
  have "occurs i qs = occurs i (take cpu qs @ qs ! cpu # drop (Suc cpu) qs)" using arg_cong [OF id_take_nth_drop [OF c], of "occurs i"] .
  moreover have "occurs i (qs[cpu := q]) = occurs i (take cpu qs @ q # drop (Suc cpu) qs)" using upd_conv_take_nth_drop [OF c, of q] by simp
  ultimately show ?thesis by (simp add: occurs_def)
qed

definition tsq_inv :: "tsq_world \<Rightarrow> (nat \<Rightarrow> nat list) \<Rightarrow> (nat \<Rightarrow> nat) \<Rightarrow> bool" where
  "tsq_inv W F U \<longleftrightarrow> length (w_list W) = length (w_head W) \<and> length (w_scheduled W) = length (w_head W) \<and>
     (\<forall>cpu < length (w_head W). w_head W ! cpu \<noteq> [] \<longrightarrow> w_scheduled W ! cpu) \<and>
     (\<forall>i. sock_ok (occurs i (w_head W) + occurs i (w_list W)) (F i) (U i) (w_sock W i))"

lemma finite_flags [simp]: "finite (A :: tsq_enum set)"
proof (rule finite_subset)
  show "A \<subseteq> {TSQ_THROTTLED, TSQ_QUEUED, TCP_TSQ_DEFERRED, TCP_WRITE_TIMER_DEFERRED, TCP_DELACK_TIMER_DEFERRED, TCP_MTU_REDUCED_DEFERRED, TCP_ACK_DEFERRED}"
    using tsq_enum.exhaust by blast
qed simp

lemma holding_other [simp]: "TSQ_QUEUED \<notin> holding" "TSQ_THROTTLED \<notin> holding" "TCP_ACK_DEFERRED \<notin> holding" "TCP_TSQ_DEFERRED \<in> holding"
  by (simp_all add: holding_def)

lemma card_insert_holding: "f \<notin> A \<Longrightarrow> f \<in> holding \<Longrightarrow> card (insert f A \<inter> holding) = Suc (card (A \<inter> holding))"
  by (simp add: Int_insert_left)

section \<open>One socket\<close>

lemma sk_free_ok:
  assumes "sock_ok c fs u s" and "w = (if 0 < q_refcnt s then 1 else 0) + sum_list fs + c"
  shows "\<exists>s'. sk_free (s\<lparr>q_wmem := Suc w, q_freed := False\<rparr>) = Some s' \<and> sock_ok c fs u s' \<and> q_refcnt s' = q_refcnt s \<and> q_owned s' = q_owned s"
  using assms by (auto simp: sk_free_def sock_ok_def)

text \<open>The work of a tasklet or a timer, while a reference keeps the socket.\<close>

lemma handler_ok:
  assumes "q_refcnt s = u + card (q_flags s \<inter> holding)" and "q_owned s \<longrightarrow> 0 < u"
  shows "\<exists>s'. tcp_tsq_handler s = Some s' \<and> q_refcnt s' = u + card (q_flags s' \<inter> holding) \<and> (0 < q_refcnt s' \<longleftrightarrow> 0 < q_refcnt s) \<and>
    q_wmem s' = q_wmem s \<and> q_freed s' = q_freed s \<and> q_owned s' = q_owned s \<and> (TSQ_QUEUED \<in> q_flags s' \<longleftrightarrow> TSQ_QUEUED \<in> q_flags s)"
  using assms by (auto simp: tcp_tsq_handler_def do_work_def sock_hold_def card_insert_holding)

lemma sock_put_ok:
  assumes "sock_ok c fs (Suc u) s" and "q_owned s \<longrightarrow> 0 < u"
  shows "\<exists>s'. sock_put s = Some s' \<and> sock_ok c fs u s'"
  using assms by (auto simp: sock_put_def sk_free_def sock_ok_def Let_def)

lemma pace_kick_ok:
  assumes ok: "sock_ok c fs (Suc u) s" and own: "q_owned s \<longrightarrow> 0 < u"
  shows "\<exists>s'. tcp_pace_kick s = Some s' \<and> sock_ok c fs u s'"
proof -
  obtain s' where s': "tcp_tsq_handler s = Some s'" "sock_ok c fs (Suc u) s'" "q_owned s' = q_owned s"
    using handler_ok [of s "Suc u"] ok by (auto simp: sock_ok_def)
  with sock_put_ok [OF s'(2)] own show ?thesis by (simp add: tcp_pace_kick_def)
qed

lemma release_flags_last:
  "release_flags v vs = Some flags \<Longrightarrow> flags = last (v # vs)"
  by (induction v vs rule: release_flags.induct) (auto split: if_splits list.splits)

lemma hd_tl_last: "last (hd (xs @ [x]) # tl (xs @ [x])) = x"
  by (cases xs) simp_all

text \<open>The references of the flags that were set are given back, each once.\<close>

definition puts :: "tsq_enum set \<Rightarrow> tsq_enum \<Rightarrow> nat" where
  "puts flags f = (if f \<in> flags then 1 else 0)"

lemma card_holding:
  "card (flags \<inter> holding) = puts flags TCP_TSQ_DEFERRED + puts flags TCP_WRITE_TIMER_DEFERRED + puts flags TCP_DELACK_TIMER_DEFERRED +
     puts flags TCP_MTU_REDUCED_DEFERRED"
  by (simp add: holding_def puts_def Int_insert_right)

lemma put_after_ok:
  assumes "puts flags f < q_refcnt s"
  shows "\<exists>s'. put_after f w flags s = Some s' \<and> q_refcnt s = q_refcnt s' + puts flags f \<and> q_flags s' = q_flags s \<and> q_wmem s' = q_wmem s \<and>
    q_freed s' = q_freed s \<and> q_owned s' = q_owned s"
  using assms by (auto simp: put_after_def puts_def u_sock_put_def do_work_def)

lemma release_cb_ok:
  assumes ok: "sock_ok c fs u s" and own: "0 < u"
  shows "\<exists>s'. tcp_release_cb seen s = Some s' \<and> sock_ok c fs u s'"
proof (cases "release_flags (hd (seen @ [q_flags s])) (tl (seen @ [q_flags s]))")
  case None
  with ok show ?thesis by (simp add: tcp_release_cb_def)
next
  case (Some flags)
  then have fl: "flags = q_flags s" using release_flags_last hd_tl_last by metis
  let ?s0 = "s\<lparr>q_flags := flags - TCP_DEFERRED_ALL\<rparr>"
  have ref: "q_refcnt ?s0 = u + card (flags \<inter> holding)" using ok fl by (simp add: sock_ok_def)
  obtain s1 where s1: "put_after TCP_TSQ_DEFERRED Tsq_write flags ?s0 = Some s1" "q_refcnt ?s0 = q_refcnt s1 + puts flags TCP_TSQ_DEFERRED"
    "q_flags s1 = q_flags ?s0" "q_wmem s1 = q_wmem ?s0" "q_freed s1 = q_freed ?s0" "q_owned s1 = q_owned ?s0"
    using put_after_ok [of flags TCP_TSQ_DEFERRED ?s0] ref own by (auto simp: card_holding)
  obtain s2 where s2: "put_after TCP_WRITE_TIMER_DEFERRED Write_timer_handler flags s1 = Some s2" "q_refcnt s1 = q_refcnt s2 + puts flags TCP_WRITE_TIMER_DEFERRED"
    "q_flags s2 = q_flags s1" "q_wmem s2 = q_wmem s1" "q_freed s2 = q_freed s1" "q_owned s2 = q_owned s1"
    using put_after_ok [of flags TCP_WRITE_TIMER_DEFERRED s1] ref own s1(2) by (auto simp: card_holding)
  obtain s3 where s3: "put_after TCP_DELACK_TIMER_DEFERRED Delack_timer_handler flags s2 = Some s3" "q_refcnt s2 = q_refcnt s3 + puts flags TCP_DELACK_TIMER_DEFERRED"
    "q_flags s3 = q_flags s2" "q_wmem s3 = q_wmem s2" "q_freed s3 = q_freed s2" "q_owned s3 = q_owned s2"
    using put_after_ok [of flags TCP_DELACK_TIMER_DEFERRED s2] ref own s1(2) s2(2) by (auto simp: card_holding)
  obtain s4 where s4: "put_after TCP_MTU_REDUCED_DEFERRED Mtu_reduced flags s3 = Some s4" "q_refcnt s3 = q_refcnt s4 + puts flags TCP_MTU_REDUCED_DEFERRED"
    "q_flags s4 = q_flags s3" "q_wmem s4 = q_wmem s3" "q_freed s4 = q_freed s3" "q_owned s4 = q_owned s3"
    using put_after_ok [of flags TCP_MTU_REDUCED_DEFERRED s3] ref own s1(2) s2(2) s3(2) by (auto simp: card_holding)
  let ?s5 = "if TCP_ACK_DEFERRED \<in> flags \<and> q_ack_scheduled s4 then do_work Send_ack s4 else s4"
  have run: "tcp_release_cb seen s = Some ?s5" by (simp add: tcp_release_cb_def Some s1(1) s2(1) s3(1) s4(1) del: release_flags.simps)
  have u: "q_refcnt s4 = u" using ref s1(2) s2(2) s3(2) s4(2) by (simp add: card_holding)
  have none: "(flags - TCP_DEFERRED_ALL) \<inter> holding = {}" by (auto simp: TCP_DEFERRED_ALL_def holding_def)
  have "TSQ_QUEUED \<notin> TCP_DEFERRED_ALL" by (simp add: TCP_DEFERRED_ALL_def)
  moreover have "0 < q_refcnt s" using ok own by (simp add: sock_ok_def)
  ultimately have "sock_ok c fs u s4"
    using ok fl u own s1(3-) s2(3-) s3(3-) s4(3-) none by (auto simp: sock_ok_def)
  then have "sock_ok c fs u ?s5" by (simp add: do_work_def sock_ok_def)
  with run show ?thesis by blast
qed

section \<open>The queues\<close>

lemma wfree_flags_last:
  "wfree_flags v vs = Some nval \<Longrightarrow> nval = insert TSQ_QUEUED (last (v # vs) - {TSQ_THROTTLED}) \<and> TSQ_QUEUED \<notin> last (v # vs)"
  by (induction v vs rule: wfree_flags.induct) (auto split: if_splits list.splits)

lemma tsq_inv_sock:
  assumes "tsq_inv W F U" and "sock_ok (occurs i (w_head W) + occurs i (w_list W)) fs u s"
  shows "tsq_inv (upd_sock i s W) (F(i := fs)) (U(i := u))"
  using assms by (simp add: tsq_inv_def upd_sock_def)

text \<open>A packet of size \<open>t\<close> has left the device: the socket is freed, waits as before, or has been queued.\<close>

lemma wfree_ok:
  assumes inv: "tsq_inv W F U" and t: "t \<in> set (F i)" and cpu: "cpu < length (w_head W)"
  shows "\<exists>W'. tcp_wfree t truesize1 ks cpu seen i W = Some W' \<and> tsq_inv W' (F(i := remove1 t (F i))) U"
proof -
  let ?s = "w_sock W i" and ?fs = "remove1 t (F i)" and ?c = "occurs i (w_head W) + occurs i (w_list W)"
  have ok: "sock_ok ?c (F i) (U i) ?s" using inv by (simp add: tsq_inv_def)
  have sum: "sum_list (F i) = t + sum_list ?fs" using sum_list_map_remove1 [OF t, of "\<lambda>x. x"] by simp
  have z: "0 \<notin> set (F i)" using ok by (simp add: sock_ok_def)
  then have pos: "0 < t" "0 \<notin> set ?fs" using t set_remove1_subset [of t "F i"] by (cases t, auto)
  define w where "w = (if 0 < q_refcnt ?s then 1 else 0) + sum_list ?fs + ?c"
  have wm: "q_wmem ?s = t + w" "\<not> q_freed ?s" using ok sum pos by (simp_all add: sock_ok_def w_def)
  define s0 where "s0 = ?s\<lparr>q_wmem := w, q_freed := (w = 0)\<rparr>"
  have ok0: "sock_ok ?c ?fs (U i) s0" using ok pos(2) by (simp add: sock_ok_def s0_def w_def)
  define s1 where "s1 = ?s\<lparr>q_wmem := Suc w\<rparr>"
  have "s0\<lparr>q_wmem := Suc w, q_freed := False\<rparr> = s1" using wm(2) by (simp add: s0_def s1_def)
  then obtain s2 where s2: "sk_free s1 = Some s2" "sock_ok ?c ?fs (U i) s2"
    using sk_free_ok [OF ok0, of w] by (auto simp: s0_def w_def)
  define r where "r = wfree_flags (hd (seen @ [q_flags s1])) (tl (seen @ [q_flags s1]))"
  have run: "tcp_wfree t truesize1 ks cpu seen i W = (if q_wmem s1 \<ge> truesize1 \<and> ks then Some (upd_sock i s2 W)
      else case r of None \<Rightarrow> Some (upd_sock i s2 W)
        | Some nval \<Rightarrow> let W' = (upd_sock i (s1\<lparr>q_flags := nval\<rparr>) W)\<lparr>w_head := (w_head W)[cpu := i # w_head W ! cpu]\<rparr>
            in Some (if w_head W ! cpu = [] then W'\<lparr>w_scheduled := (w_scheduled W')[cpu := True]\<rparr> else W'))"
  proof -
    have "\<not> q_wmem ?s + 1 \<le> t" "q_wmem ?s + 1 - t = Suc w" using wm(1) by simp_all
    then show ?thesis unfolding tcp_wfree_def Let_def r_def
      by (simp only: s1_def [symmetric] s2(1) if_False option.map upd_sock_def tsq_world.simps)
  qed
  have left: "tsq_inv (upd_sock i s2 W) (F(i := ?fs)) U" using tsq_inv_sock [OF inv s2(2)] by simp
  show ?thesis
  proof (cases "q_wmem s1 \<ge> truesize1 \<and> ks \<or> r = None")
    case True
    with run left show ?thesis by auto
  next
    case False
    then obtain nval where nv: "r = Some nval" by auto
    then have nv': "nval = insert TSQ_QUEUED (q_flags s1 - {TSQ_THROTTLED})" "TSQ_QUEUED \<notin> q_flags s1"
      using wfree_flags_last hd_tl_last unfolding r_def by metis+
    let ?h = "(w_head W)[cpu := i # w_head W ! cpu]"
    let ?s3 = "s1\<lparr>q_flags := nval\<rparr>"
    define W' where "W' = (upd_sock i ?s3 W)\<lparr>w_head := ?h\<rparr>"
    define W'' where "W'' = (if w_head W ! cpu = [] then W'\<lparr>w_scheduled := (w_scheduled W')[cpu := True]\<rparr> else W')"
    have c0: "?c = 0" using ok nv'(2) by (simp add: sock_ok_def s1_def)
    have occ: "occurs j ?h = occurs j (w_head W) + (if j = i then 1 else 0)" for j
      using occurs_update [OF cpu, of j "i # w_head W ! cpu"] by (simp split: if_splits)
    have "nval \<inter> holding = q_flags s1 \<inter> holding" using nv'(1) by auto
    then have "sock_ok (Suc ?c) ?fs (U i) ?s3"
      using ok0 c0 nv'(1) wm(2) by (simp add: sock_ok_def s1_def s0_def w_def)
    then have socks: "sock_ok (occurs j ?h + occurs j (w_list W)) ((F(i := ?fs)) j) (U j) (w_sock W'' j)" for j
      using inv occ [of j] by (auto simp: W''_def W'_def upd_sock_def tsq_inv_def)
    have "tcp_wfree t truesize1 ks cpu seen i W = Some W''" proof -
      have "\<not> (q_wmem s1 \<ge> truesize1 \<and> ks)" using False by blast
      then show ?thesis by (simp only: run nv if_False option.case Let_def W''_def W'_def)
    qed
    moreover have fields: "w_head W'' = ?h" "w_list W'' = w_list W" "length (w_scheduled W'') = length (w_scheduled W)"
      by (simp_all add: W''_def W'_def upd_sock_def)
    have "\<forall>c < length ?h. ?h ! c \<noteq> [] \<longrightarrow> w_scheduled W'' ! c"
      using inv cpu by (auto simp: tsq_inv_def W''_def W'_def upd_sock_def nth_list_update)
    then have "tsq_inv W'' (F(i := ?fs)) U"
      unfolding tsq_inv_def fields using inv socks by (simp only: tsq_inv_def length_list_update simp_thms)
    ultimately show ?thesis by blast
  qed
qed

lemma take_ok:
  assumes inv: "tsq_inv W F U" and cpu: "cpu < length (w_head W)"
  shows "tsq_inv (tasklet_take cpu W) F U"
proof -
  have cl: "cpu < length (w_list W)" using inv cpu by (simp add: tsq_inv_def)
  have "occurs j ((w_head W)[cpu := []]) + occurs j ((w_list W)[cpu := w_list W ! cpu @ w_head W ! cpu]) = occurs j (w_head W) + occurs j (w_list W)" for j
    using occurs_update [OF cpu, of j "[]"] occurs_update [OF cl, of j "w_list W ! cpu @ w_head W ! cpu"] by simp
  moreover have "\<forall>c < length (w_head W). (w_head W)[cpu := []] ! c \<noteq> [] \<longrightarrow> (w_scheduled W)[cpu := False] ! c"
    using inv cpu by (auto simp: tsq_inv_def nth_list_update)
  ultimately show ?thesis using inv by (simp add: tsq_inv_def tasklet_take_def)
qed

text \<open>A round of the tasklet uses the socket before it gives up the reference of the queue.\<close>

lemma tasklet_one_ok:
  assumes inv: "tsq_inv W F U" and cpu: "cpu < length (w_head W)"
  shows "\<exists>W'. tasklet_one cpu W = Some W' \<and> tsq_inv W' F U \<and> length (w_list W' ! cpu) = length (w_list W ! cpu) - 1 \<and>
    length (w_head W') = length (w_head W)"
proof (cases "w_list W ! cpu")
  case Nil
  with inv show ?thesis by (simp add: tasklet_one_def)
next
  case (Cons i q)
  have cl: "cpu < length (w_list W)" using inv cpu by (simp add: tsq_inv_def)
  let ?s = "w_sock W i" and ?l = "(w_list W)[cpu := q]" and ?c = "occurs i (w_head W) + occurs i (w_list W)"
  have occ: "occurs j (w_list W) = occurs j ?l + (if j = i then 1 else 0)" for j
    using occurs_update [OF cl, of j q] Cons by (simp split: if_splits)
  have ok: "sock_ok ?c (F i) (U i) ?s" using inv by (simp add: tsq_inv_def)
  then have c: "?c = 1" "TSQ_QUEUED \<in> q_flags ?s" using occ [of i] by (auto simp: sock_ok_def split: if_splits)
  define s0 where "s0 = ?s\<lparr>q_flags := q_flags ?s - {TSQ_QUEUED}\<rparr>"
  have h: "(q_flags ?s - {TSQ_QUEUED}) \<inter> holding = q_flags ?s \<inter> holding" by auto
  obtain s1 where s1: "tcp_tsq_handler s0 = Some s1" "q_refcnt s1 = U i + card (q_flags s1 \<inter> holding)" "0 < q_refcnt s1 \<longleftrightarrow> 0 < q_refcnt ?s"
    "q_wmem s1 = q_wmem ?s" "\<not> q_freed s1" "q_owned s1 = q_owned ?s" "TSQ_QUEUED \<notin> q_flags s1"
    using handler_ok [of s0 "U i"] ok c h by (auto simp: sock_ok_def s0_def)
  define w where "w = (if 0 < q_refcnt s1 then 1 else 0) + sum_list (F i)"
  have w: "q_wmem s1 = Suc w" using ok c(1) s1(3,4) by (simp add: sock_ok_def w_def)
  have ok0: "sock_ok 0 (F i) (U i) (s1\<lparr>q_wmem := w, q_freed := (w = 0)\<rparr>)"
    using ok s1 by (auto simp: sock_ok_def w_def)
  have "(s1\<lparr>q_wmem := w, q_freed := (w = 0)\<rparr>)\<lparr>q_wmem := Suc w, q_freed := False\<rparr> = s1" using w s1(5) by simp
  then obtain s2 where s2: "sk_free s1 = Some s2" "sock_ok 0 (F i) (U i) s2"
    using sk_free_ok [OF ok0, of w] by (auto simp: w_def)
  define W' where "W' = upd_sock i s2 (W\<lparr>w_list := ?l\<rparr>)"
  have "tasklet_one cpu W = Some W'"
    using Cons s1(1) s2(1) by (simp add: tasklet_one_def Let_def W'_def s0_def)
  moreover have "sock_ok (occurs j (w_head W) + occurs j ?l) (F j) (U j) (w_sock W' j)" for j
  proof (cases "j = i")
    case True
    with s2(2) occ [of i] c(1) show ?thesis by (simp add: W'_def upd_sock_def)
  next
    case False
    have "sock_ok (occurs j (w_head W) + occurs j (w_list W)) (F j) (U j) (w_sock W j)" using inv by (simp add: tsq_inv_def)
    with False occ [of j] show ?thesis by (simp add: W'_def upd_sock_def)
  qed
  then have "tsq_inv W' F U" using inv by (simp add: tsq_inv_def W'_def upd_sock_def)
  ultimately show ?thesis using Cons cl by (auto simp: W'_def upd_sock_def)
qed

lemma tasklet_loop_ok:
  "tsq_inv W F U \<Longrightarrow> cpu < length (w_head W) \<Longrightarrow> n = length (w_list W ! cpu) \<Longrightarrow> \<exists>W'. tasklet_loop cpu n W = Some W' \<and> tsq_inv W' F U \<and> w_list W' ! cpu = []"
proof (induction n arbitrary: W)
  case (Suc n)
  obtain W1 where W1: "tasklet_one cpu W = Some W1" "tsq_inv W1 F U" "length (w_list W1 ! cpu) = length (w_list W ! cpu) - 1"
    "length (w_head W1) = length (w_head W)" using tasklet_one_ok [OF Suc.prems(1,2)] by blast
  have "cpu < length (w_head W1)" "n = length (w_list W1 ! cpu)" using W1(3,4) Suc.prems by simp_all
  from Suc.IH [OF W1(2) this] W1(1) show ?case by simp
qed simp

section \<open>Reachable states\<close>

text \<open>The steps of all parties; \<open>F\<close> has the packets in the devices and \<open>U\<close> the other users of each socket, among them
  the file, the process that owns it and the pacing timer.\<close>

inductive tsq_step :: "tsq_world \<times> (nat \<Rightarrow> nat list) \<times> (nat \<Rightarrow> nat) \<Rightarrow> tsq_world \<times> (nat \<Rightarrow> nat list) \<times> (nat \<Rightarrow> nat) \<Rightarrow> bool" where
  transmit: "0 < U i \<Longrightarrow> 0 < t \<Longrightarrow> s = w_sock W i \<Longrightarrow> tsq_step (W, F, U) (upd_sock i (s\<lparr>q_wmem := q_wmem s + t\<rparr>) W, F(i := t # F i), U)"
| throttle: "s = w_sock W i \<Longrightarrow> tsq_step (W, F, U) (upd_sock i (s\<lparr>q_flags := insert TSQ_THROTTLED (q_flags s)\<rparr>) W, F, U)"
| wfree: "t \<in> set (F i) \<Longrightarrow> cpu < length (w_head W) \<Longrightarrow> tcp_wfree t truesize1 ks cpu seen i W = Some W' \<Longrightarrow>
    tsq_step (W, F, U) (W', F(i := remove1 t (F i)), U)"
| take: "cpu < length (w_head W) \<Longrightarrow> tsq_step (W, F, U) (tasklet_take cpu W, F, U)"
| tasklet: "cpu < length (w_head W) \<Longrightarrow> tasklet_one cpu W = Some W' \<Longrightarrow> tsq_step (W, F, U) (W', F, U)"
| lock: "0 < U i \<Longrightarrow> s = w_sock W i \<Longrightarrow> \<not> q_owned s \<Longrightarrow> tsq_step (W, F, U) (upd_sock i (s\<lparr>q_owned := True\<rparr>) W, F, U)"
| release: "s = w_sock W i \<Longrightarrow> q_owned s \<Longrightarrow> tcp_release_cb seen s = Some s' \<Longrightarrow>
    tsq_step (W, F, U) (upd_sock i (s'\<lparr>q_owned := False\<rparr>) W, F, U)"
| defer_timer: "s = w_sock W i \<Longrightarrow> q_owned s \<Longrightarrow> f \<in> holding - {TCP_TSQ_DEFERRED} \<Longrightarrow> f \<notin> q_flags s \<Longrightarrow>
    tsq_step (W, F, U) (upd_sock i (s\<lparr>q_flags := insert f (q_flags s), q_refcnt := Suc (q_refcnt s)\<rparr>) W, F, U)"
| defer_ack: "s = w_sock W i \<Longrightarrow> tsq_step (W, F, U) (upd_sock i (s\<lparr>q_flags := insert TCP_ACK_DEFERRED (q_flags s), q_ack_scheduled := b\<rparr>) W, F, U)"
| get: "0 < U i \<Longrightarrow> s = w_sock W i \<Longrightarrow> tsq_step (W, F, U) (upd_sock i (s\<lparr>q_refcnt := Suc (q_refcnt s)\<rparr>) W, F, U(i := Suc (U i)))"
| put: "U i = Suc u \<Longrightarrow> s = w_sock W i \<Longrightarrow> q_owned s \<longrightarrow> 0 < u \<Longrightarrow> sock_put s = Some s' \<Longrightarrow> tsq_step (W, F, U) (upd_sock i s' W, F, U(i := u))"
| pace: "U i = Suc u \<Longrightarrow> s = w_sock W i \<Longrightarrow> q_owned s \<longrightarrow> 0 < u \<Longrightarrow> tcp_pace_kick s = Some s' \<Longrightarrow> tsq_step (W, F, U) (upd_sock i s' W, F, U(i := u))"

text \<open>At the start each socket has one user, and the queues are empty.\<close>

definition new_sock :: tsq_sock where
  "new_sock = \<lparr>q_flags = {}, q_wmem = 1, q_refcnt = 1, q_freed = False, q_owned = False, q_ack_scheduled = False, q_work = []\<rparr>"

definition tsq_start :: "nat \<Rightarrow> tsq_world" where
  "tsq_start cpus = tcp_tasklet_init cpus \<lparr>w_sock = (\<lambda>i. new_sock), w_head = [], w_list = [], w_scheduled = []\<rparr>"

definition tsq_reachable :: "nat \<Rightarrow> tsq_world \<Rightarrow> (nat \<Rightarrow> nat list) \<Rightarrow> (nat \<Rightarrow> nat) \<Rightarrow> bool" where
  "tsq_reachable cpus W F U \<longleftrightarrow> tsq_step\<^sup>*\<^sup>* (tsq_start cpus, \<lambda>i. [], \<lambda>i. 1) (W, F, U)"

lemma tsq_start_inv: "tsq_inv (tsq_start cpus) (\<lambda>i. []) (\<lambda>i. 1)"
proof -
  have "occurs i (replicate n []) = 0" for i n by (induction n) (simp_all add: occurs_def)
  then show ?thesis by (simp add: tsq_inv_def tsq_start_def tcp_tasklet_init_def sock_ok_def new_sock_def)
qed

lemma tsq_step_inv: "tsq_step (W, F, U) (W', F', U') \<Longrightarrow> tsq_inv W F U \<Longrightarrow> tsq_inv W' F' U'"
proof (induction "(W, F, U)" "(W', F', U')" arbitrary: W F U W' F' U' rule: tsq_step.induct)
  case (transmit U i t s W F)
  then have "sock_ok (occurs i (w_head W) + occurs i (w_list W)) (t # F i) (U i) (s\<lparr>q_wmem := q_wmem s + t\<rparr>)"
    by (auto simp: tsq_inv_def sock_ok_def dest: spec [of _ i])
  from tsq_inv_sock [OF transmit.prems this] show ?case by simp
next
  case (throttle s W i F U)
  then have "sock_ok (occurs i (w_head W) + occurs i (w_list W)) (F i) (U i) (s\<lparr>q_flags := insert TSQ_THROTTLED (q_flags s)\<rparr>)"
    by (simp add: tsq_inv_def sock_ok_def)
  from tsq_inv_sock [OF throttle.prems this] show ?case by simp
next
  case (wfree t F i cpu W truesize1 ks seen W' U)
  from wfree_ok [OF wfree.prems wfree(1,2), of truesize1 ks seen] wfree(3) show ?case by simp
next
  case (take cpu W F U)
  from take_ok [OF take.prems take(1)] show ?case .
next
  case (tasklet cpu W W' F U)
  from tasklet_one_ok [OF tasklet.prems tasklet(1)] tasklet(2) show ?case by simp
next
  case (lock U i s W F)
  then have "sock_ok (occurs i (w_head W) + occurs i (w_list W)) (F i) (U i) (s\<lparr>q_owned := True\<rparr>)"
    by (simp add: tsq_inv_def sock_ok_def)
  from tsq_inv_sock [OF lock.prems this] show ?case by simp
next
  case (release s W i seen s' F U)
  then have ok: "sock_ok (occurs i (w_head W) + occurs i (w_list W)) (F i) (U i) s" by (simp add: tsq_inv_def)
  then have "0 < U i" using release(2) by (simp add: sock_ok_def)
  with release_cb_ok [OF ok, of seen] release(3) have "sock_ok (occurs i (w_head W) + occurs i (w_list W)) (F i) (U i) (s'\<lparr>q_owned := False\<rparr>)"
    by (simp add: sock_ok_def)
  from tsq_inv_sock [OF release.prems this] show ?case by simp
next
  case (defer_timer s W i f F U)
  have "sock_ok (occurs i (w_head W) + occurs i (w_list W)) (F i) (U i) s" using defer_timer by (simp add: tsq_inv_def)
  moreover have "f \<noteq> TSQ_QUEUED" using defer_timer(3) by auto
  ultimately have "sock_ok (occurs i (w_head W) + occurs i (w_list W)) (F i) (U i) (s\<lparr>q_flags := insert f (q_flags s), q_refcnt := Suc (q_refcnt s)\<rparr>)"
    using defer_timer(2,3,4) card_insert_holding [of f "q_flags s"] by (auto simp: sock_ok_def)
  from tsq_inv_sock [OF defer_timer.prems this] show ?case by simp
next
  case (defer_ack s W i F U b)
  then have "sock_ok (occurs i (w_head W) + occurs i (w_list W)) (F i) (U i) (s\<lparr>q_flags := insert TCP_ACK_DEFERRED (q_flags s), q_ack_scheduled := b\<rparr>)"
    by (simp add: tsq_inv_def sock_ok_def)
  from tsq_inv_sock [OF defer_ack.prems this] show ?case by simp
next
  case (get U i s W F)
  then have "sock_ok (occurs i (w_head W) + occurs i (w_list W)) (F i) (Suc (U i)) (s\<lparr>q_refcnt := Suc (q_refcnt s)\<rparr>)"
    by (auto simp: tsq_inv_def sock_ok_def)
  from tsq_inv_sock [OF get.prems this] show ?case by simp
next
  case (put U i u s W s' F)
  then have "sock_ok (occurs i (w_head W) + occurs i (w_list W)) (F i) (Suc u) s" by (metis tsq_inv_def)
  from sock_put_ok [OF this put(3)] put(4) tsq_inv_sock [OF put.prems, of i "F i" u s'] show ?case by simp
next
  case (pace U i u s W s' F)
  then have "sock_ok (occurs i (w_head W) + occurs i (w_list W)) (F i) (Suc u) s" by (metis tsq_inv_def)
  from pace_kick_ok [OF this pace(3)] pace(4) tsq_inv_sock [OF pace.prems, of i "F i" u s'] show ?case by simp
qed

lemma tsq_reachable_inv: "tsq_reachable cpus W F U \<Longrightarrow> tsq_inv W F U"
proof -
  have "tsq_step\<^sup>*\<^sup>* a b \<Longrightarrow> tsq_inv (fst a) (fst (snd a)) (snd (snd a)) \<Longrightarrow> tsq_inv (fst b) (fst (snd b)) (snd (snd b))" for a b
    by (induction rule: rtranclp_induct) (auto intro: tsq_step_inv)
  from this [of "(tsq_start cpus, \<lambda>i. [], \<lambda>i. 1)" "(W, F, U)"] show "tsq_reachable cpus W F U \<Longrightarrow> tsq_inv W F U"
    using tsq_start_inv by (simp add: tsq_reachable_def)
qed

end
