(* ===== verification/Props_Ack.thy ===== *)
theory Props_Ack
  imports Ack_Safety Tsq_Safety Props_Transmit
begin

text \<open>
  The properties of acknowledgments, window probes and small queues.
\<close>

section \<open>An example\<close>

definition ax_env :: ack_env where
  "ax_env = \<lparr>ae_tx = tr_env\<lparr>te_key := KEY_NONE, te_opt := rx_oe\<rparr>, ae_alloc = Some 768, ae_hz = 1000, ae_jiffies = 5000, ae_rto_min = None,
     ae_seg = tx_seg, ae_retries2 = 15, ae_probe0_when = (\<lambda>k. 200), ae_clamp_probe0 = (\<lambda>k t. t)\<rparr>"

definition ax_sock :: ack_sock where
  "ax_sock = \<lparr>a_conn = tr_conn\<lparr>c_opts := rx_os\<rparr>, a_state = TCP_ESTABLISHED, a_pending = 3, a_retry = 0, a_timeout = 5010, a_delack_max = 200,
     a_pingpong = False, a_snd_wl1 = 1000, a_pushed_seq = 20, a_probes_out = 0, a_backoff = 0, a_probes_tstamp = 0, a_timers = []\<rparr>"



section \<open>Acknowledgments\<close>



text \<open>A delayed ACK is sent at once, or the timer is armed, and never for longer than \<open>tcp_delack_max\<close> from
  now, whatever the estimate, the round-trip time and a timer that was set before.\<close>

theorem delayed_ack_bounded:
  assumes "tcp_delack_max E k < 2 ^ 31"
  shows "tcp_send_delayed_ack E k = tcp_send_ack E k \<or>
    (\<exists>k'. tcp_send_delayed_ack E k = Some (None, k') \<and> armed k' \<and> a_conn k' = a_conn k \<and>
       unat (a_timeout k' - ae_jiffies E) \<le> unat (tcp_delack_max E k))"
  by (rule delayed_ack_timer [OF assms])

theorem delayed_ack_bounded_witness:
  "tcp_send_delayed_ack ax_env ax_sock = tcp_send_ack ax_env ax_sock \<or>
    (\<exists>k'. tcp_send_delayed_ack ax_env ax_sock = Some (None, k') \<and> armed k' \<and> unat (a_timeout k' - 5000) \<le> 200)"
proof -
  have m: "tcp_delack_max ax_env ax_sock = 200" "ae_jiffies ax_env = 5000" by (simp_all add: tcp_delack_max_def ax_env_def ax_sock_def)
  from delayed_ack_bounded [of ax_env ax_sock] show ?thesis unfolding m by auto
qed

section \<open>Window probes\<close>



section \<open>Small queues\<close>

text \<open>One packet of the first socket is in a device, and the sender waits for it.\<close>

definition tsq_sent :: tsq_world where
  "tsq_sent = upd_sock 0 (new_sock\<lparr>q_wmem := 769, q_flags := {TSQ_THROTTLED}\<rparr>) (tsq_start 2)"

lemma tsq_sent_reachable: "tsq_reachable 2 tsq_sent ((\<lambda>i. [])(0 := [768])) (\<lambda>i. 1)"
proof -
  let ?W = "upd_sock 0 (new_sock\<lparr>q_wmem := 769\<rparr>) (tsq_start 2)" and ?F = "(\<lambda>i. [])(0 := [768 :: nat])"
  have s: "w_sock (tsq_start 2) 0 = new_sock" "w_sock ?W 0 = new_sock\<lparr>q_wmem := 769\<rparr>"
    by (simp_all add: tsq_start_def tcp_tasklet_init_def upd_sock_def)
  have "tsq_step (tsq_start 2, \<lambda>i. [], \<lambda>i. 1) (?W, ?F, \<lambda>i. 1)"
    using tsq_step.transmit [of "\<lambda>i. 1" 0 768 new_sock "tsq_start 2" "\<lambda>i. []"] s(1) by (simp add: new_sock_def)
  moreover have "tsq_step (?W, ?F, \<lambda>i. 1) (tsq_sent, ?F, \<lambda>i. 1)"
  proof -
    have "upd_sock 0 ((new_sock\<lparr>q_wmem := 769\<rparr>)\<lparr>q_flags := insert TSQ_THROTTLED (q_flags (new_sock\<lparr>q_wmem := 769\<rparr>))\<rparr>) ?W = tsq_sent"
      by (simp add: tsq_sent_def upd_sock_def new_sock_def)
    with tsq_step.throttle [OF s(2) [symmetric], of ?F "\<lambda>i. 1"] show ?thesis by (simp only:)
  qed
  ultimately show ?thesis unfolding tsq_reachable_def by (intro rtranclp.rtrancl_into_rtrancl [OF r_into_rtranclp])
qed



text \<open>C38: in a reachable state no counter of references ever falls below zero: a completion of a packet, a run
  of a tasklet, the release by the owner and the pacing timer all return, and the run empties the list
  that it took.\<close>

theorem tsq_references_balance:
  assumes "tsq_reachable cpus W F U" and "cpu < length (w_head W)"
  shows "(t \<in> set (F i) \<longrightarrow> (\<exists>W'. tcp_wfree t truesize1 ks cpu seen i W = Some W' \<and> tsq_reachable cpus W' (F(i := remove1 t (F i))) U)) \<and>
    (\<exists>W'. tcp_tasklet_func cpu W = Some W' \<and> w_list W' ! cpu = []) \<and>
    (q_owned (w_sock W i) \<longrightarrow> tcp_release_cb seen (w_sock W i) \<noteq> None) \<and>
    (U i = Suc u \<and> (q_owned (w_sock W i) \<longrightarrow> 0 < u) \<longrightarrow> tcp_pace_kick (w_sock W i) \<noteq> None)"
proof (intro conjI impI)
  have inv: "tsq_inv W F U" by (rule tsq_reachable_inv [OF assms(1)])
  then have ok: "sock_ok (occurs i (w_head W) + occurs i (w_list W)) (F i) (U i) (w_sock W i)" by (simp add: tsq_inv_def)
  show "\<exists>W'. tcp_wfree t truesize1 ks cpu seen i W = Some W' \<and> tsq_reachable cpus W' (F(i := remove1 t (F i))) U" if sent: "t \<in> set (F i)"
  proof -
    obtain W' where "tcp_wfree t truesize1 ks cpu seen i W = Some W'" using wfree_ok [OF inv sent assms(2)] by blast
    moreover from tsq_step.wfree [where F = F and i = i, OF sent assms(2) this] have "tsq_reachable cpus W' (F(i := remove1 t (F i))) U"
      using assms(1) unfolding tsq_reachable_def by (rule rtranclp.rtrancl_into_rtrancl [rotated])
    ultimately show ?thesis by blast
  qed
  have "cpu < length (w_head (tasklet_take cpu W))" using assms(2) by (simp add: tasklet_take_def)
  from tasklet_loop_ok [OF take_ok [OF inv assms(2)] this refl] show "\<exists>W'. tcp_tasklet_func cpu W = Some W' \<and> w_list W' ! cpu = []"
    by (auto simp: tcp_tasklet_func_def Let_def)
  show "tcp_release_cb seen (w_sock W i) \<noteq> None" if "q_owned (w_sock W i)"
    using release_cb_ok [OF ok, of seen] ok that by (auto simp: sock_ok_def)
  show "tcp_pace_kick (w_sock W i) \<noteq> None" if "U i = Suc u \<and> (q_owned (w_sock W i) \<longrightarrow> 0 < u)"
    using pace_kick_ok [of _ "F i" u "w_sock W i"] ok that by fastforce
qed

theorem tsq_references_balance_witness:
  "\<exists>W' W''. tcp_wfree 768 1 False 1 [] 0 tsq_sent = Some W' \<and> tcp_tasklet_func 1 tsq_sent = Some W'' \<and> w_list W'' ! 1 = []"
proof -
  have "1 < length (w_head tsq_sent)" by (simp add: tsq_sent_def upd_sock_def tsq_start_def tcp_tasklet_init_def)
  from tsq_references_balance [OF tsq_sent_reachable this, of 768 0 1 False "[]"] show ?thesis by auto
qed

end
