(* ===== verification/Tcp_Connect.thy ===== *)
theory Tcp_Connect
  imports Tcp_Transmit Tcp_Retrans
begin

text \<open>
  Opening a connection (\<open>tcp_output.c\<close>): \<open>tcp_connect\<close> with the set-up of the socket, the SYN and the data that
  Fast Open puts on it, and the SYN-ACK of a simultaneous open and of a listener.  Trace points, the counters
  for statistics and the references of pages are left out.
\<close>

section \<open>State\<close>

definition EKEYREJECTED :: int where "EKEYREJECTED = 129"
definition ECONNREFUSED :: int where "ECONNREFUSED = 111"
definition EFAULT :: int where "EFAULT = 14"

text \<open>The request of Fast Open: how many bytes are to be sent, whether some are still to be taken from the caller,
  and how many were copied.  Its cookie is \<open>os_fastopen\<close>.\<close>

record fo_req =
  fo_size :: nat
  fo_data :: bool
  fo_copied :: int

datatype connect_call = Ao_destroy | Md5_clear | Finish_connect | Syn_timer u32

record connect_sock =
  k_conn :: conn
  k_write_seq :: u32
  k_pushed_seq :: u32
  k_user_mss :: u16
  k_ts_recent :: bool
  k_rcvbuf_locked :: bool
  k_sk_err :: int
  k_done :: bool
  k_snd_wl1 :: u32
  k_copied_seq :: u32
  k_rcv_tstamp :: u32
  k_retransmits :: u8
  k_retrans_stamp :: u64
  k_ca_ops :: nat
  k_ca_locked :: bool
  k_fo :: "fo_req option"
  k_syn_data :: bool
  k_md5_info :: bool
  k_ao_info :: "bool option"
  k_calls :: "connect_call list"

text \<open>The environment: the key lookups, routing, the metrics of the route, the congestion control of the route (its key,
  whether it was found and could be held, whether it is locked), functions of other files on the parts of the
  socket, buffers, and for Fast Open the cookie of the cache with its segment size, the page, the memory and the
  bytes that could be copied from the caller.  \<open>ce_tx\<close> is for the first transmission and \<open>ce_tx2\<close> for the SYN
  after the data could not be sent.\<close>

record connect_env =
  ce_tx :: tx_env
  ce_tx2 :: tx_env
  ce_ao_lookup :: bool
  ce_md5_lookup :: bool
  ce_rebuild :: int
  ce_mtu :: u32
  ce_window :: u32
  ce_initrwnd :: u32
  ce_advmss :: u32
  ce_ca_key :: u32
  ce_ca_found :: "nat option"
  ce_ca_locked :: bool
  ce_ao_init :: "tcp_sock \<Rightarrow> tcp_sock"
  ce_init_rcv_mss :: "sock \<Rightarrow> sock"
  ce_rwnd_bpf :: u32
  ce_rmem_max :: u32
  ce_purge :: "tcp_sock \<Rightarrow> tcp_sock"
  ce_time_stamp :: "u64 \<Rightarrow> u64"
  ce_alloc :: "sk_buff option"
  ce_sysctl_ecn :: u8
  ce_bpf_ecn :: bool
  ce_dst_ecn :: bool
  ce_cookie :: "int \<Rightarrow> tcp_fastopen_cookie \<Rightarrow> bool \<times> int \<times> tcp_fastopen_cookie"
  ce_refill :: bool
  ce_data_alloc :: "sk_buff option"
  ce_room :: int
  ce_wmem :: "int \<Rightarrow> int"
  ce_copy :: "nat \<Rightarrow> u8 list"

definition k_call :: "connect_call \<Rightarrow> connect_sock \<Rightarrow> connect_sock" where
  "k_call x k = k\<lparr>k_calls := k_calls k @ [x]\<rparr>"

definition upd_conn :: "(conn \<Rightarrow> conn) \<Rightarrow> connect_sock \<Rightarrow> connect_sock" where
  "upd_conn f k = k\<lparr>k_conn := f (k_conn k)\<rparr>"

definition upd_ktx :: "(tcp_sock \<Rightarrow> tcp_sock) \<Rightarrow> connect_sock \<Rightarrow> connect_sock" where
  "upd_ktx f = upd_conn (\<lambda>c. c\<lparr>c_tx := f (c_tx c)\<rparr>)"

text \<open>\<open>tcp_mss_clamp\<close>\<close>

definition tcp_mss_clamp :: "u16 \<Rightarrow> u16 \<Rightarrow> u16" where
  "tcp_mss_clamp user_mss mss = (if user_mss \<noteq> 0 \<and> user_mss < mss then user_mss else mss)"

text \<open>\<open>tcp_rbtree_insert\<close>: behind all segments that do not start later.\<close>

definition rbtree_insert :: "sk_buff \<Rightarrow> sk_buff list \<Rightarrow> sk_buff list" where
  "rbtree_insert skb q =
     (let left = takeWhile (\<lambda>s. \<not> seq_before (skb_seq skb) (skb_seq s)) q
      in left @ skb # drop (length left) q)"

section \<open>Set-up\<close>

definition tcp_ca_dst_init :: "connect_env \<Rightarrow> connect_sock \<Rightarrow> connect_sock" where
  "tcp_ca_dst_init E k =
     (if ce_ca_key E = 0 then k
      else case ce_ca_found E of None \<Rightarrow> k | Some ca \<Rightarrow> k\<lparr>k_ca_locked := ce_ca_locked E, k_ca_ops := ca\<rparr>)"

text \<open>The sending half up to the segment size.\<close>

definition connect_mss :: "connect_env \<Rightarrow> u16 \<Rightarrow> tcp_sock \<Rightarrow> tcp_sock" where
  "connect_mss E user_mss tp =
     (let S = te_snd (ce_tx E);
          tp = tp\<lparr>tcp_header_len := tcphdr_size\<rparr>;
          tp = (if e_timestamps (te_opt (ce_tx E)) then tp\<lparr>tcp_header_len := tcp_header_len tp + int (unat TCPOLEN_TSTAMP_ALIGNED)\<rparr> else tp);
          tp = ce_ao_init E tp;
          tp = (if user_mss \<noteq> 0 then tp\<lparr>mss_clamp := int (unat user_mss)\<rparr> else tp);
          tp = tp\<lparr>max_window := 0\<rparr>;
          tp = tcp_mtup_init S tp
      in snd (tcp_sync_mss S (ce_mtu E) tp))"

text \<open>The receiving half up to the selection of the window.\<close>

definition connect_clamp :: "connect_env \<Rightarrow> connect_sock \<Rightarrow> sock \<Rightarrow> sock" where
  "connect_clamp E k sk =
     (let sk = (if window_clamp sk = 0 then sk\<lparr>window_clamp := ce_window E\<rparr> else sk);
          sk = sk\<lparr>advmss := tcp_mss_clamp (k_user_mss k) (ucast (ce_advmss E))\<rparr>;
          sk = ce_init_rcv_mss E sk;
          full = tcp_full_space (te_kern (ce_tx E)) sk
      in if k_rcvbuf_locked k \<and> (window_clamp sk > full \<or> window_clamp sk = 0) then sk\<lparr>window_clamp := full\<rparr> else sk)"

text \<open>The sequence numbers of both halves.\<close>

definition connect_numbers :: "connect_env \<Rightarrow> connect_sock \<Rightarrow> connect_sock" where
  "connect_numbers E k =
     (let tp = (c_tx (k_conn k))\<lparr>snd_wnd := 0\<rparr>;
          tp = ce_purge E tp;
          q = k_write_seq k;
          tp = tp\<lparr>snd_una := q, snd_sml := q, snd_up := q, snd_nxt := q\<rparr>;
          sk = c_rx (k_conn k);
          (n, k) = (if \<not> repairing tp then (0, k) else (rcv_nxt sk, k\<lparr>k_rcv_tstamp := jiffies (te_snd (ce_tx E))\<rparr>));
          sk = sk\<lparr>rcv_nxt := n, rcv_wup := n\<rparr>;
          tp = tp\<lparr>ack_rcv_nxt := n, icsk_rto := timeout_init (te_snd (ce_tx E)), retrans_out := 0, lost_out := 0, sacked_out := 0\<rparr>
      in (upd_conn (\<lambda>c. c\<lparr>c_tx := tp, c_rx := sk\<rparr>) k)
           \<lparr>k_sk_err := 0, k_done := False, k_snd_wl1 := 0, k_copied_seq := n, k_retransmits := 0\<rparr>)"

text \<open>\<open>None\<close> is the division by zero in \<open>tcp_select_initial_window\<close>.\<close>

definition tcp_connect_init :: "connect_env \<Rightarrow> connect_sock \<Rightarrow> connect_sock option" where
  "tcp_connect_init E k =
     (let k = upd_ktx (connect_mss E (k_user_mss k)) k;
          k = tcp_ca_dst_init E k;
          sk = connect_clamp E k (c_rx (k_conn k));
          init = (if ce_rwnd_bpf E = 0 then ce_initrwnd E else ce_rwnd_bpf E);
          hdr = (if k_ts_recent k then tcp_header_len (c_tx (k_conn k)) - tcphdr_size else 0)
      in case tcp_select_initial_window (te_net (ce_tx E)) (ce_rmem_max E) (tcp_full_space (te_kern (ce_tx E)) sk)
                (word_of_int (int (unat (advmss sk)) - hdr)) (window_clamp sk) (e_window_scaling (te_opt (ce_tx E))) init of
           None \<Rightarrow> None
         | Some (wnd, clampw, wscale) \<Rightarrow>
             let sk = sk\<lparr>rcv_wnd := wnd, window_clamp := clampw, rcv_wscale := ucast wscale, rcv_ssthresh := wnd\<rparr>;
                 k = upd_conn (\<lambda>c. c\<lparr>c_rx := sk, c_tx := (c_tx c)\<lparr>rx_rcv_wscale := wscale\<rparr>,
                                    c_opts := (c_opts c)\<lparr>os_rcv_wscale := wscale, os_advmss := advmss sk\<rparr>\<rparr>) k
             in Some (connect_numbers E k))"

section \<open>The SYN\<close>

definition tcp_connect_queue_skb :: "sk_buff \<Rightarrow> connect_sock \<Rightarrow> sk_buff \<times> connect_sock" where
  "tcp_connect_queue_skb skb k =
     (let skb = skb\<lparr>skb_end_seq := skb_end_seq skb + skb_len skb\<rparr>;
          k = upd_ktx (\<lambda>tp. tp\<lparr>sk_wmem_queued := sk_wmem_queued tp + skb_truesize skb,
                               sk_forward_alloc := sk_forward_alloc tp - skb_truesize skb,
                               packets_out := packets_out tp + ucast (skb_pcount skb)\<rparr>) k
      in (skb, k\<lparr>k_write_seq := skb_end_seq skb\<rparr>))"

text \<open>The cookie of the request.\<close>

definition set_cookie :: "(tcp_fastopen_cookie \<Rightarrow> tcp_fastopen_cookie) \<Rightarrow> connect_sock \<Rightarrow> connect_sock" where
  "set_cookie f = upd_conn (\<lambda>c. c\<lparr>c_opts := (c_opts c)\<lparr>os_fastopen := map_option f (os_fastopen (c_opts c))\<rparr>\<rparr>)"

text \<open>The SYN is the head of the retransmission queue.\<close>

definition put_syn :: "sk_buff \<Rightarrow> connect_sock \<Rightarrow> connect_sock" where
  "put_syn syn = upd_ktx (\<lambda>tp. tp\<lparr>tcp_rtx_queue := syn # tl (tcp_rtx_queue tp)\<rparr>)"

definition connect_send :: "tx_env \<Rightarrow> sk_buff \<Rightarrow> connect_sock \<Rightarrow> (int \<times> packet list \<times> sk_buff \<times> connect_sock) option" where
  "connect_send E skb k =
     (case tcp_transmit_skb E True skb (k_conn k) of
        None \<Rightarrow> None
      | Some (err, pko, skb, c) \<Rightarrow> Some (err, case pko of None \<Rightarrow> [] | Some pk \<Rightarrow> [pk], skb, k\<lparr>k_conn := c\<rparr>))"

text \<open>The labels \<open>fallback\<close> and \<open>done\<close>.\<close>

definition syn_fallback :: "connect_env \<Rightarrow> packet list \<Rightarrow> connect_sock \<Rightarrow> (int \<times> packet list \<times> connect_sock) option" where
  "syn_fallback E sent k =
     (let k = set_cookie (\<lambda>c. if foc_len c > 0 then c\<lparr>foc_len := 0\<rparr> else c) k
      in case connect_send (ce_tx2 E) (hd (tcp_rtx_queue (c_tx (k_conn k)))) k of
           None \<Rightarrow> None
         | Some (err, pks, syn, k) \<Rightarrow>
             let k = put_syn syn k;
                 k = (if err \<noteq> 0 then upd_conn (\<lambda>c. c\<lparr>c_opts := (c_opts c)\<lparr>os_syn_fastopen := False\<rparr>\<rparr>) k else k)
             in Some (err, sent @ pks, set_cookie (\<lambda>c. c\<lparr>foc_len := -1\<rparr>) k))"

text \<open>Conversions to \<open>size_t\<close> and to \<open>int\<close>.\<close>

definition as_size :: "int \<Rightarrow> int" where "as_size x = x mod 2 ^ 64"
definition as_int :: "int \<Rightarrow> int" where "as_int x = sint (word_of_int x :: s32)"

text \<open>The segment with the data: the control block of the SYN and the bytes that were copied; \<open>None\<close> if the copy
  failed.\<close>

definition syn_data_skb :: "connect_env \<Rightarrow> int \<Rightarrow> sk_buff \<Rightarrow> sk_buff \<Rightarrow> sk_buff option" where
  "syn_data_skb E space syn d =
     (let d = d\<lparr>skb_seq := skb_seq syn, skb_end_seq := skb_end_seq syn, skb_flags := skb_flags syn, skb_sacked := skb_sacked syn,
                skb_eor := skb_eor syn, skb_pcount := skb_pcount syn, skb_gso_size := skb_gso_size syn,
                skb_txstamp_ack := skb_txstamp_ack syn, skb_tx := skb_tx syn\<rparr>;
          space = (if space \<noteq> 0 then ce_wmem E (as_int (min (as_size space) (as_size (ce_room E)))) else 0)
      in if space = 0 then Some d
         else let bs = ce_copy E (nat space)
              in if bs = [] then None else Some (d\<lparr>skb_frags := skb_frags d @ [bs], skb_truesize := skb_truesize d + int (length bs)\<rparr>))"

text \<open>The SYN with the data has been queued and is sent; what stays behind is the data alone.\<close>

definition syn_data_send :: "connect_env \<Rightarrow> sk_buff \<Rightarrow> connect_sock \<Rightarrow> (int \<times> packet list \<times> connect_sock) option" where
  "syn_data_send E d k =
     (let space = int (length (skb_data d));
          k = k\<lparr>k_fo := map_option (\<lambda>fo. fo\<lparr>fo_data := (if space = int (fo_size fo) then False else fo_data fo), fo_copied := space\<rparr>) (k_fo k)\<rparr>;
          (d, k) = tcp_connect_queue_skb d k;
          k = (if skb_len d \<noteq> 0 then upd_ktx (tcp_chrono_start (te_snd (ce_tx E)) TCP_CHRONO_BUSY) k else k)
      in case connect_send (ce_tx E) d k of
           None \<Rightarrow> None
         | Some (err, pks, d, k) \<Rightarrow>
             let syn = (hd (tcp_rtx_queue (c_tx (k_conn k))))\<lparr>skb_tstamp := skb_tstamp d\<rparr>;
                 k = put_syn syn k;
                 d = d\<lparr>skb_seq := skb_seq d + 1, skb_flags := TCPHDR_ACK OR TCPHDR_PSH\<rparr>
             in if err = 0 then
                  let k = k\<lparr>k_syn_data := (space > 0)\<rparr>;
                      k = upd_ktx (\<lambda>tp. tp\<lparr>tcp_rtx_queue := rbtree_insert d (tcp_rtx_queue tp)\<rparr>) k
                  in Some (err, pks, set_cookie (\<lambda>c. c\<lparr>foc_len := -1\<rparr>) k)
                else
                  syn_fallback E pks (upd_ktx (\<lambda>tp. tp\<lparr>sk_write_queue := sk_write_queue tp @ [d],
                                                       packets_out := packets_out tp - ucast (skb_pcount d)\<rparr>) k))"

definition tcp_send_syn_data :: "connect_env \<Rightarrow> connect_sock \<Rightarrow> (int \<times> packet list \<times> connect_sock) option" where
  "tcp_send_syn_data E k =
     (let S = te_snd (ce_tx E);
          size = (case k_fo k of None \<Rightarrow> 0 | Some fo \<Rightarrow> int (fo_size fo));
          k = upd_ktx (\<lambda>tp. tp\<lparr>mss_clamp := int (unat (advmss (c_rx (k_conn k))))\<rparr>) k
      in case os_fastopen (c_opts (k_conn k)) of
           None \<Rightarrow> syn_fallback E [] k
         | Some ck \<Rightarrow>
             let (ok, m, ck) = ce_cookie E (mss_clamp (c_tx (k_conn k))) ck;
                 k = set_cookie (\<lambda>_. ck) (upd_ktx (\<lambda>tp. tp\<lparr>mss_clamp := m\<rparr>) k)
             in if \<not> ok then syn_fallback E [] k
                else
                  let k = upd_ktx (\<lambda>tp. tp\<lparr>mss_clamp := int (unat (tcp_mss_clamp (k_user_mss k) (word_of_int (mss_clamp tp))))\<rparr>) k;
                      k = upd_ktx (\<lambda>tp. snd (tcp_sync_mss S (icsk_pmtu_cookie tp) tp)) k;
                      tp = c_tx (k_conn k);
                      space = u_tcp_mtu_to_mss S tp (int (unat (icsk_pmtu_cookie tp))) - int (unat MAX_TCP_OPTION_SPACE);
                      space = as_int (min (as_size space) size)
                  in if space \<noteq> 0 \<and> \<not> ce_refill E then syn_fallback E [] k
                     else case ce_data_alloc E of
                         None \<Rightarrow> syn_fallback E [] k
                       | Some d \<Rightarrow>
                           (case syn_data_skb E space (hd (tcp_rtx_queue tp)) d of
                              None \<Rightarrow> syn_fallback E [] k
                            | Some d \<Rightarrow> syn_data_send E d k))"

section \<open>Connecting\<close>

text \<open>MD5 and AO keys for one peer exclude each other: the error, if there is one.  \<open>k_ao_info\<close> says whether AO is
  required.\<close>

definition connect_keys :: "connect_env \<Rightarrow> connect_sock \<Rightarrow> int \<times> connect_sock" where
  "connect_keys E k =
     (let needs_ao = (ce_ao_lookup E \<or> k_ao_info k = Some True);
          needs_md5 = ce_md5_lookup E
      in if k_md5_info k \<and> needs_md5 \<and> needs_ao then (- EKEYREJECTED, k)
         else
           let k = (if k_md5_info k then
                      if needs_md5 then k_call Ao_destroy (k\<lparr>k_ao_info := None\<rparr>)
                      else if needs_ao then k_call Md5_clear (k\<lparr>k_md5_info := False\<rparr>)
                      else k
                    else k)
           in if k_ao_info k \<noteq> None \<and> \<not> ce_ao_lookup E then (- EKEYREJECTED, k) else (0, k))"

text \<open>The SYN has been sent.\<close>

definition connect_sent :: "connect_sock \<Rightarrow> connect_sock" where
  "connect_sent k =
     (let q = (case sk_write_queue (c_tx (k_conn k)) of [] \<Rightarrow> k_write_seq k | s # _ \<Rightarrow> skb_seq s);
          k = (upd_ktx (\<lambda>tp. tp\<lparr>snd_nxt := q\<rparr>) k)\<lparr>k_pushed_seq := q\<rparr>
      in k_call (Syn_timer (icsk_rto (c_tx (k_conn k)))) k)"

definition tcp_connect :: "connect_env \<Rightarrow> connect_sock \<Rightarrow> (int \<times> packet list \<times> connect_sock) option" where
  "tcp_connect E k =
     (let (err, k) = connect_keys E k
      in if err \<noteq> 0 then Some (err, [], k)
         else if ce_rebuild E \<noteq> 0 then Some (- EHOSTUNREACH, [], k)
         else case tcp_connect_init E k of
             None \<Rightarrow> None
           | Some k \<Rightarrow>
               if repairing (c_tx (k_conn k)) then Some (0, [], k_call Finish_connect k)
               else case ce_alloc E of
                   None \<Rightarrow> Some (- ENOBUFS, [], k)
                 | Some buff \<Rightarrow>
                     let buff = tcp_init_nondata_skb buff (k_write_seq k) TCPHDR_SYN;
                         k = k\<lparr>k_write_seq := k_write_seq k + 1\<rparr>;
                         k = upd_ktx (tcp_mstamp_refresh (te_snd (ce_tx E))) k;
                         k = k\<lparr>k_retrans_stamp := ce_time_stamp E (tcp_mstamp (c_tx (k_conn k)))\<rparr>;
                         (buff, k) = tcp_connect_queue_skb buff k;
                         (buff, c) = tcp_ecn_send_syn (ce_sysctl_ecn E) (te_needs_ecn (ce_tx E)) (ce_bpf_ecn E) (ce_dst_ecn E) buff (k_conn k);
                         k = k\<lparr>k_conn := c\<rparr>;
                         k = upd_ktx (\<lambda>tp. tp\<lparr>tcp_rtx_queue := rbtree_insert buff (tcp_rtx_queue tp)\<rparr>) k
                     in case (if k_fo k \<noteq> None then tcp_send_syn_data E k
                              else case connect_send (ce_tx E) buff k of
                                  None \<Rightarrow> None
                                | Some (err, pks, buff, k) \<Rightarrow> Some (err, pks, put_syn buff k)) of
                          None \<Rightarrow> None
                        | Some (err, pks, k) \<Rightarrow> Some (if err = - ECONNREFUSED then (err, pks, k) else (0, pks, connect_sent k)))"

section \<open>The SYN-ACK\<close>

text \<open>Of a simultaneous open.  \<open>copied\<close> is \<open>None\<close> if the segment is not shared, else the size of the copy if there is
  memory for one.\<close>

definition tcp_send_synack :: "tx_env \<Rightarrow> int option option \<Rightarrow> conn \<Rightarrow> (int \<times> packet option \<times> conn) option" where
  "tcp_send_synack E copied c =
     (case tcp_rtx_queue (c_tx c) of
        [] \<Rightarrow> Some (- EFAULT, None, c)
      | skb # rest \<Rightarrow>
          if skb_flags skb AND TCPHDR_SYN = 0 then Some (- EFAULT, None, c)
          else
            case (if skb_flags skb AND TCPHDR_ACK \<noteq> 0 then Some (skb, c)
                  else case (case copied of
                         None \<Rightarrow> Some (skb, c)
                       | Some None \<Rightarrow> None
                       | Some (Some truesize) \<Rightarrow>
                           let d = truesize - skb_truesize skb
                           in Some (skb\<lparr>skb_truesize := truesize\<rparr>,
                                    c\<lparr>c_tx := (c_tx c)\<lparr>sk_wmem_queued := sk_wmem_queued (c_tx c) + d,
                                                       sk_forward_alloc := sk_forward_alloc (c_tx c) - d\<rparr>,
                                      c_tsorted := filter (\<lambda>q. q \<noteq> skb_seq skb) (c_tsorted c)\<rparr>)) of
                      None \<Rightarrow> None
                    | Some (skb, c) \<Rightarrow> Some (tcp_ecn_send_synack (te_needs_ecn E) (skb\<lparr>skb_flags := skb_flags skb OR TCPHDR_ACK\<rparr>) c)) of
              None \<Rightarrow> Some (- ENOMEM, None, c)
            | Some (skb, c) \<Rightarrow>
                (case tcp_transmit_skb E True skb (c\<lparr>c_tx := (c_tx c)\<lparr>tcp_rtx_queue := skb # rest\<rparr>\<rparr>) of
                   None \<Rightarrow> None
                 | Some (err, pko, skb, c) \<Rightarrow>
                     Some (err, pko, c\<lparr>c_tx := (c_tx c)\<lparr>tcp_rtx_queue := skb # tl (tcp_rtx_queue (c_tx c))\<rparr>\<rparr>)))"

datatype tcp_synack_type = TCP_SYNACK_NORMAL | TCP_SYNACK_FASTOPEN | TCP_SYNACK_COOKIE

text \<open>The request: \<open>sr_ids\<close> are the AO key ids, if the peer used AO.\<close>

record synack_req =
  sr_opt :: opt_req
  sr_num :: u16
  sr_rmt_port :: u16
  sr_ecn_ok :: bool
  sr_snt_isn :: u32
  sr_rcv_nxt :: u32
  sr_rcv_wnd :: u32
  sr_snt_synack :: u64
  sr_ids :: "(u8 \<times> u8) option"
  sr_txhash :: u32

text \<open>\<open>sa_tx\<close> has the options, the signatures, the BPF program and the clock, \<open>sa_user_mss\<close> and \<open>sa_os\<close> are of the
  listener; \<open>sa_owner\<close> is set if the packet is charged to a socket.  \<open>sa_cookie_ts\<close> is \<open>cookie_init_timestamp\<close>.\<close>

record synack_env =
  sa_alloc :: bool
  sa_tx :: tx_env
  sa_os :: opt_sock
  sa_user_mss :: u16
  sa_advmss :: u32
  sa_now :: u64
  sa_cookie_ts :: "synack_req \<Rightarrow> u64 \<Rightarrow> u64"
  sa_ts :: "u64 \<Rightarrow> u32"
  sa_ao_key :: "tcp_key option"
  sa_md5 :: bool

definition synack_key :: "synack_env \<Rightarrow> synack_req \<Rightarrow> tcp_key option" where
  "synack_key E req =
     (if sr_ids req \<noteq> None then sa_ao_key E else Some (if sa_md5 E then KEY_MD5 else KEY_NONE))"

definition synack_sign :: "tx_env \<Rightarrow> tcp_key \<Rightarrow> tcphdr \<Rightarrow> tcp_out_options \<Rightarrow> opt_bytes \<Rightarrow> opt_bytes" where
  "synack_sign E key th opts bs =
     (case hash_location opts of
        None \<Rightarrow> bs
      | Some i \<Rightarrow>
          (case key of
             KEY_NONE \<Rightarrow> bs
           | KEY_MD5 \<Rightarrow> put_mac bs i (te_md5 E th bs [])
           | KEY_AO _ _ _ _ _ \<Rightarrow> (case te_ao E th bs [] of None \<Rightarrow> bs | Some mac \<Rightarrow> put_mac bs i mac)))"

text \<open>The packet and the request; no packet without memory or without the key of the peer.\<close>

definition tcp_make_synack ::
  "synack_env \<Rightarrow> tcp_fastopen_cookie option \<Rightarrow> tcp_synack_type \<Rightarrow> synack_req \<Rightarrow> (bool \<times> packet) option \<times> synack_req" where
  "tcp_make_synack E foc synack_type req =
     (if \<not> sa_alloc E then (None, req)
      else
        let owned = (synack_type \<noteq> TCP_SYNACK_COOKIE);
            mss = tcp_mss_clamp (sa_user_mss E) (ucast (sa_advmss E));
            now = sa_now E;
            cookie_ts = (synack_type = TCP_SYNACK_COOKIE \<and> rq_tstamp_ok (sr_opt req));
            stamp = (if cookie_ts then sa_cookie_ts E req now else now);
            req = (if \<not> cookie_ts \<and> sr_snt_synack req = 0 then req\<lparr>sr_snt_synack := stamp div 1000\<rparr> else req)
        in case synack_key E req of
             None \<Rightarrow> (None, req)
           | Some key \<Rightarrow>
               let oe = (te_opt (sa_tx E))\<lparr>e_skb_ts := Some (sa_ts E stamp)\<rparr>;
                   (sz, opts, oreq) = tcp_synack_options oe (sa_os E) (sr_opt req) (ucast mss) key foc (synack_type = TCP_SYNACK_COOKIE) no_options;
                   req = req\<lparr>sr_opt := oreq\<rparr>;
                   th = \<lparr>th_source = sr_num req, th_dest = sr_rmt_port req, th_seq = sr_snt_isn req, th_ack_seq = sr_rcv_nxt req,
                         th_word = ucast (push_bit 12 (drop_bit 2 (sz + 20))) OR ucast (TCPHDR_SYN OR TCPHDR_ACK),
                         th_window = ucast (min (sr_rcv_wnd req) 65535), th_check = 0, th_urg_ptr = 0\<rparr>;
                   th = tcp_ecn_make_synack (sr_ecn_ok req) th;
                   (bs, opts, _) = tcp_options_write (e_have_smc oe) (te_mptcp (sa_tx E)) (sa_os E) (Some (case sr_ids req of None \<Rightarrow> (0, 0) | Some i \<Rightarrow> i)) opts key;
                   bs = synack_sign (sa_tx E) key th opts bs;
                   bs = bs @ bpf_skops_write_hdr_opt (te_bpf (sa_tx E)) opts;
                   tstamp = now + (case tx_delay (te_snd (sa_tx E)) of None \<Rightarrow> 0 | Some d \<Rightarrow> ucast d * 1000)
               in (Some (owned, \<lparr>pk_hdr = th, pk_opts = bs, pk_data = [], pk_gso_segs = 0, pk_gso_size = 0, pk_gso_ecn = False,
                                pk_ect = False, pk_ooo_okay = False, pk_tstamp = tstamp\<rparr>), req))"

text \<open>The transmission of another SYN-ACK: \<open>rehash\<close> is the new hash if the socket asks for one, \<open>send\<close> is
  \<open>send_synack\<close>.  The last result is the counter of retransmissions.\<close>

definition tcp_rtx_synack :: "u32 option \<Rightarrow> (synack_req \<Rightarrow> int) \<Rightarrow> bool \<Rightarrow> synack_req \<Rightarrow> u32 \<Rightarrow> int \<times> synack_req \<times> u32" where
  "tcp_rtx_synack rehash send passive_fastopen req retrans_count =
     (let req = (case rehash of None \<Rightarrow> req | Some h \<Rightarrow> req\<lparr>sr_txhash := h\<rparr>);
          res = send req
      in (res, req, if res = 0 \<and> passive_fastopen then retrans_count + 1 else retrans_count))"

end
