(* ===== verification/Connect_Safety.thy ===== *)
theory Connect_Safety
  imports Tcp_Connect Transmit_Safety
begin

text \<open>
  What a connection starts from: the SYN at the head of the retransmission queue, the data of Fast Open behind
  it exactly once, and the numbers of the sender in agreement with the queues.
\<close>

section \<open>A SYN is sent\<close>

text \<open>No window is selected for a SYN, so its transmission returns whatever the receiver knows.\<close>

lemma transmit_syn_returns:
  assumes "skb_pcount skb \<noteq> 0" and "skb_flags skb AND TCPHDR_SYN \<noteq> 0"
  shows "\<exists>err pko skb' c'. u_tcp_transmit_skb E cl ack skb c = Some (err, pko, skb', c')"
proof -
  define t where "t = max (tcp_wstamp_ns (c_tx c)) (tcp_clock_cache (c_tx c))"
  define c0 where "c0 = c\<lparr>c_tx := (c_tx c)\<lparr>tcp_wstamp_ns := t\<rparr>\<rparr>"
  define oskb where "oskb = skb\<lparr>skb_tstamp := t\<rparr>"
  obtain sz opts s1 c1 where o: "transmit_options E oskb c0 = (sz, opts, s1, c1)" by (metis prod_cases4)
  have "skb_flags s1 AND TCPHDR_SYN \<noteq> 0"
    using o assms(2) by (auto simp: transmit_options_def oskb_def split: prod.splits)
  then have "transmit_window E s1 th c' \<noteq> None" for th c' by (simp add: transmit_window_def)
  then have "transmit_prepare E ack oskb c0 \<noteq> None"
    unfolding transmit_prepare_def Let_def o prod.case by (auto split: option.split prod.split)
  then obtain s2 ooo th gso opts2 bs c2 where "transmit_prepare E ack oskb c0 = Some ((s2, ooo, th, gso, opts2, bs), c2)"
    by auto
  with assms(1) show ?thesis
    unfolding u_tcp_transmit_skb_def Let_def t_def [symmetric] c0_def [symmetric] oskb_def [symmetric]
    by (auto split: option.split prod.split)
qed

definition tx_ok :: "tx_env \<Rightarrow> bool" where
  "tx_ok E \<longleftrightarrow> cwr_ok E \<and> adjust_ok (te_kern E)"

lemma connect_send_quiet:
  assumes "tx_ok E" and "skb_pcount skb \<noteq> 0" and "skb_flags skb AND TCPHDR_SYN \<noteq> 0"
  shows "\<exists>err pks ts x c. connect_send E skb k = Some (err, pks, skb\<lparr>skb_tstamp := ts, skb_tx := x\<rparr>, k\<lparr>k_conn := c\<rparr>) \<and>
    quiet (c_tx (k_conn k)) (c_tx c)"
proof -
  obtain err pko skb' c where run: "u_tcp_transmit_skb E True (rcv_nxt (c_rx (k_conn k))) skb (k_conn k) = Some (err, pko, skb', c)"
    using transmit_syn_returns [OF assms(2,3)] by blast
  have ok: "cwr_ok E" "adjust_ok (te_kern E)" using assms(1) by (simp_all add: tx_ok_def)
  note e = transmit_effect [OF ok run]
  then obtain ts x where "skb' = skb\<lparr>skb_tstamp := ts, skb_tx := x\<rparr>" by blast
  with run e(1) show ?thesis by (simp add: connect_send_def tcp_transmit_skb_def) blast
qed

section \<open>The queues of a new connection\<close>

text \<open>\<open>q\<close> is the number up to which the data has been sent.\<close>

definition open_at :: "u8 list set \<Rightarrow> u32 \<Rightarrow> u32 \<Rightarrow> connect_sock \<Rightarrow> bool" where
  "open_at D isn q k \<longleftrightarrow> (\<exists>syn sent. let tp = c_tx (k_conn k) in
     tcp_rtx_queue tp = syn # sent \<and> skb_seq syn = isn \<and> skb_end_seq syn = isn + 1 \<and> skb_data syn = [] \<and> skb_pcount syn = 1 \<and>
     skb_flags syn AND TCPHDR_SYN \<noteq> 0 \<and> chain (isn + 1) sent q \<and> chain q (sk_write_queue tp) (k_write_seq k) \<and>
     length (sent @ sk_write_queue tp) \<le> 1 \<and> (\<forall>s \<in> set (sent @ sk_write_queue tp). skb_flags s AND TCPHDR_SYN = 0 \<and> skb_data s \<in> D) \<and>
     snd_una tp = isn \<and> packets_out tp = packets (tcp_rtx_queue tp))"

lemma open_at_quiet:
  assumes "open_at D isn q k" and "quiet (c_tx (k_conn k)) (c_tx c)"
  shows "open_at D isn q (k\<lparr>k_conn := c\<rparr>)"
  using assms by (simp add: open_at_def quiet_def Let_def)

lemma open_at_head:
  assumes "open_at D isn q k"
  shows "skb_pcount (hd (tcp_rtx_queue (c_tx (k_conn k)))) \<noteq> 0" and "skb_flags (hd (tcp_rtx_queue (c_tx (k_conn k)))) AND TCPHDR_SYN \<noteq> 0"
  using assms by (auto simp: open_at_def Let_def)

lemma open_at_put:
  assumes "open_at D isn q k" and "syn = (hd (tcp_rtx_queue (c_tx (k_conn k))))\<lparr>skb_tstamp := ts, skb_tx := x\<rparr>"
  shows "open_at D isn q (put_syn syn k)"
  using assms by (auto simp: open_at_def Let_def put_syn_def upd_ktx_def upd_conn_def packets_def)

lemma open_at_cookie [simp]: "open_at D isn q (set_cookie f k) = open_at D isn q k"
  by (simp add: open_at_def set_cookie_def upd_conn_def)

lemma cookie_conn [simp]: "c_tx (k_conn (set_cookie f k)) = c_tx (k_conn k)" "k_write_seq (set_cookie f k) = k_write_seq k"
  by (simp_all add: set_cookie_def upd_conn_def)

lemma fallback_open:
  assumes "tx_ok (ce_tx2 E)" and "open_at D isn q k"
  shows "\<exists>err pks k'. syn_fallback E sent k = Some (err, pks, k') \<and> open_at D isn q k'"
proof -
  define k0 where "k0 = set_cookie (\<lambda>c. if foc_len c > 0 then c\<lparr>foc_len := 0\<rparr> else c) k"
  have k0: "open_at D isn q k0" using assms(2) by (simp add: k0_def)
  let ?s = "hd (tcp_rtx_queue (c_tx (k_conn k0)))"
  obtain err pks ts x c where s: "connect_send (ce_tx2 E) ?s k0 = Some (err, pks, ?s\<lparr>skb_tstamp := ts, skb_tx := x\<rparr>, k0\<lparr>k_conn := c\<rparr>)"
    and qt: "quiet (c_tx (k_conn k0)) (c_tx c)" using connect_send_quiet [OF assms(1) open_at_head [OF k0]] by blast
  define k1 where "k1 = put_syn (?s\<lparr>skb_tstamp := ts, skb_tx := x\<rparr>) (k0\<lparr>k_conn := c\<rparr>)"
  have "?s = hd (tcp_rtx_queue (c_tx (k_conn (k0\<lparr>k_conn := c\<rparr>))))" using qt by (simp add: quiet_def)
  then have k1: "open_at D isn q k1" unfolding k1_def by (intro open_at_put [OF open_at_quiet [OF k0 qt]]) simp
  define k2 where "k2 = (if err \<noteq> 0 then upd_conn (\<lambda>c. c\<lparr>c_opts := (c_opts c)\<lparr>os_syn_fastopen := False\<rparr>\<rparr>) k1 else k1)"
  have "open_at D isn q k2" using k1 by (simp add: k2_def open_at_def upd_conn_def)
  moreover have "syn_fallback E sent k = Some (err, sent @ pks, set_cookie (\<lambda>c. c\<lparr>foc_len := -1\<rparr>) k2)"
    by (simp add: syn_fallback_def Let_def k0_def [symmetric] s k1_def [symmetric] k2_def)
  ultimately show ?thesis by simp
qed

section \<open>Data on the SYN\<close>

text \<open>Only the SYN is queued.\<close>

definition syn_only :: "u32 \<Rightarrow> connect_sock \<Rightarrow> bool" where
  "syn_only isn k \<longleftrightarrow> open_at {} isn (isn + 1) k"

lemma syn_onlyE:
  assumes "syn_only isn k"
  obtains syn where "tcp_rtx_queue (c_tx (k_conn k)) = [syn]" "sk_write_queue (c_tx (k_conn k)) = []" "k_write_seq k = isn + 1"
    "skb_seq syn = isn" "skb_end_seq syn = isn + 1" "skb_data syn = []" "skb_pcount syn = 1" "skb_flags syn AND TCPHDR_SYN \<noteq> 0"
    "snd_una (c_tx (k_conn k)) = isn" "packets_out (c_tx (k_conn k)) = 1"
proof -
  let ?tp = "c_tx (k_conn k)"
  obtain syn sent where s: "tcp_rtx_queue ?tp = syn # sent" "skb_seq syn = isn" "skb_end_seq syn = isn + 1" "skb_data syn = []" "skb_pcount syn = 1"
    "skb_flags syn AND TCPHDR_SYN \<noteq> 0" "chain (isn + 1) (sk_write_queue ?tp) (k_write_seq k)"
    "\<forall>s \<in> set (sent @ sk_write_queue ?tp). skb_flags s AND TCPHDR_SYN = 0 \<and> skb_data s \<in> {}" "snd_una ?tp = isn" "packets_out ?tp = packets (tcp_rtx_queue ?tp)"
    using assms unfolding syn_only_def open_at_def Let_def by blast
  have "x \<notin> set (sent @ sk_write_queue ?tp)" for x using s(8) by auto
  then have "set (sent @ sk_write_queue ?tp) = {}" by (metis equals0I)
  then have e: "sent = []" "sk_write_queue ?tp = []" by simp_all
  show thesis by (rule that [of syn]) (use s e in \<open>simp_all add: packets_def\<close>)
qed

lemma syn_only_open: "syn_only isn k \<Longrightarrow> open_at D isn (isn + 1) k"
  by (erule syn_onlyE) (simp add: open_at_def Let_def packets_def)

lemma syn_only_frame:
  assumes "syn_only isn k" and "tcp_rtx_queue (c_tx (k_conn k')) = tcp_rtx_queue (c_tx (k_conn k))"
    and "sk_write_queue (c_tx (k_conn k')) = sk_write_queue (c_tx (k_conn k))" and "snd_una (c_tx (k_conn k')) = snd_una (c_tx (k_conn k))"
    and "packets_out (c_tx (k_conn k')) = packets_out (c_tx (k_conn k))" and "k_write_seq k' = k_write_seq k"
  shows "syn_only isn k'"
  using assms by (simp add: syn_only_def open_at_def Let_def)

lemma sync_mss_queues:
  "tcp_rtx_queue (snd (tcp_sync_mss S p tp)) = tcp_rtx_queue tp" "sk_write_queue (snd (tcp_sync_mss S p tp)) = sk_write_queue tp"
  "packets_out (snd (tcp_sync_mss S p tp)) = packets_out tp" "snd_una (snd (tcp_sync_mss S p tp)) = snd_una tp"
  by (simp_all add: tcp_sync_mss_def Let_def)

lemma psh_ack_flags: "(TCPHDR_ACK OR TCPHDR_PSH) AND TCPHDR_SYN = 0" "(TCPHDR_ACK OR TCPHDR_PSH) AND TCPHDR_FIN = 0"
  by (simp_all add: TCPHDR_ACK_def TCPHDR_PSH_def TCPHDR_SYN_def TCPHDR_FIN_def)

lemma chrono_queues:
  "tcp_rtx_queue (tcp_chrono_start S t tp) = tcp_rtx_queue tp" "sk_write_queue (tcp_chrono_start S t tp) = sk_write_queue tp"
  "packets_out (tcp_chrono_start S t tp) = packets_out tp" "snd_una (tcp_chrono_start S t tp) = snd_una tp"
  by (simp_all add: tcp_chrono_start_def tcp_chrono_set_def Let_def)

lemma insert_behind_syn: "skb_seq d = skb_seq syn + 1 \<Longrightarrow> rbtree_insert d [syn] = [syn, d]"
  by (simp add: rbtree_insert_def seq_before_def word_sless_alt)

lemma syn_data_open:
  assumes ok: "tx_ok (ce_tx E)" "tx_ok (ce_tx2 E)" and syn: "syn_only isn k"
    and d: "skb_seq d = isn" "skb_end_seq d = isn + 1" "skb_pcount d = 1" "skb_flags d AND TCPHDR_SYN \<noteq> 0" "skb_data d \<in> D"
  shows "\<exists>err pks k' q. syn_data_send E d k = Some (err, pks, k') \<and> open_at D isn q k'"
proof -
  obtain s where s: "tcp_rtx_queue (c_tx (k_conn k)) = [s]" "sk_write_queue (c_tx (k_conn k)) = []" "k_write_seq k = isn + 1"
    "skb_seq s = isn" "skb_end_seq s = isn + 1" "skb_data s = []" "skb_pcount s = 1" "skb_flags s AND TCPHDR_SYN \<noteq> 0"
    "snd_una (c_tx (k_conn k)) = isn" "packets_out (c_tx (k_conn k)) = 1" using syn by (rule syn_onlyE)
  define k1 where "k1 = k\<lparr>k_fo := map_option (\<lambda>fo. fo\<lparr>fo_data := (if int (length (skb_data d)) = int (fo_size fo) then False else fo_data fo),
    fo_copied := int (length (skb_data d))\<rparr>) (k_fo k)\<rparr>"
  obtain d1 k2 where q: "tcp_connect_queue_skb d k1 = (d1, k2)" by fastforce
  have d1: "d1 = d\<lparr>skb_end_seq := isn + 1 + skb_len d\<rparr>" and k2: "k_write_seq k2 = isn + 1 + skb_len d" "tcp_rtx_queue (c_tx (k_conn k2)) = [s]"
    "sk_write_queue (c_tx (k_conn k2)) = []" "packets_out (c_tx (k_conn k2)) = 2" "snd_una (c_tx (k_conn k2)) = isn"
    using q s d by (auto simp: tcp_connect_queue_skb_def k1_def upd_ktx_def upd_conn_def Let_def)
  define k3 where "k3 = (if skb_len d1 \<noteq> 0 then upd_ktx (tcp_chrono_start (te_snd (ce_tx E)) TCP_CHRONO_BUSY) k2 else k2)"
  have k3: "k_write_seq k3 = isn + 1 + skb_len d" "tcp_rtx_queue (c_tx (k_conn k3)) = [s]" "sk_write_queue (c_tx (k_conn k3)) = []"
    "packets_out (c_tx (k_conn k3)) = 2" "snd_una (c_tx (k_conn k3)) = isn"
    using k2 by (simp_all add: k3_def upd_ktx_def upd_conn_def chrono_queues)
  have f: "skb_pcount d1 \<noteq> 0" "skb_flags d1 AND TCPHDR_SYN \<noteq> 0" using d by (simp_all add: d1)
  obtain err pks ts x c where sd: "connect_send (ce_tx E) d1 k3 = Some (err, pks, d1\<lparr>skb_tstamp := ts, skb_tx := x\<rparr>, k3\<lparr>k_conn := c\<rparr>)"
    and qt: "quiet (c_tx (k_conn k3)) (c_tx c)" using connect_send_quiet [OF ok(1) f] by blast
  define k4 where "k4 = put_syn (s\<lparr>skb_tstamp := ts\<rparr>) (k3\<lparr>k_conn := c\<rparr>)"
  define d2 where "d2 = d1\<lparr>skb_tstamp := ts, skb_tx := x, skb_seq := isn + 1, skb_flags := TCPHDR_ACK OR TCPHDR_PSH\<rparr>"
  have k4: "tcp_rtx_queue (c_tx (k_conn k4)) = [s\<lparr>skb_tstamp := ts\<rparr>]" "sk_write_queue (c_tx (k_conn k4)) = []" "packets_out (c_tx (k_conn k4)) = 2"
    "snd_una (c_tx (k_conn k4)) = isn" "k_write_seq k4 = isn + 1 + skb_len d"
    using k3 qt by (simp_all add: k4_def put_syn_def upd_ktx_def upd_conn_def quiet_def)
  have d2: "skb_seq d2 = isn + 1" "skb_end_seq d2 = isn + 1 + skb_len d" "skb_data d2 = skb_data d" "skb_pcount d2 = 1"
    "skb_flags d2 AND TCPHDR_SYN = 0" "span d2 = length (skb_data d)"
    using d by (simp_all add: d2_def d1 psh_ack_flags span_def)
  have len: "skb_len d = of_nat (length (skb_data d))" by (simp add: skb_len_def)
  have run: "syn_data_send E d k = (if err = 0 then
        Some (err, pks, set_cookie (\<lambda>c. c\<lparr>foc_len := -1\<rparr>) (upd_ktx (\<lambda>tp. tp\<lparr>tcp_rtx_queue := rbtree_insert d2 (tcp_rtx_queue tp)\<rparr>)
          (k4\<lparr>k_syn_data := (int (length (skb_data d)) > 0)\<rparr>)))
      else syn_fallback E pks (upd_ktx (\<lambda>tp. tp\<lparr>sk_write_queue := sk_write_queue tp @ [d2], packets_out := packets_out tp - ucast (skb_pcount d2)\<rparr>) k4))"
  proof -
    have h: "hd (tcp_rtx_queue (c_tx (k_conn (k3\<lparr>k_conn := c\<rparr>)))) = s" using k3(2) qt by (simp add: quiet_def)
    have e: "skb_seq d1 = isn" using d(1) by (simp add: d1)
    show ?thesis
      unfolding syn_data_send_def Let_def k1_def [symmetric] q prod.case k3_def [symmetric] sd option.case h
      by (simp add: k4_def d2_def e)
  qed
  show ?thesis
  proof (cases "err = 0")
    case True
    have "open_at D isn (isn + 1 + skb_len d) (upd_ktx (\<lambda>tp. tp\<lparr>tcp_rtx_queue := rbtree_insert d2 (tcp_rtx_queue tp)\<rparr>)
        (k4\<lparr>k_syn_data := (int (length (skb_data d)) > 0)\<rparr>))"
      using k4 d2 s d(5) insert_behind_syn [of d2 "s\<lparr>skb_tstamp := ts\<rparr>"]
      by (simp add: open_at_def Let_def upd_ktx_def upd_conn_def packets_def len)
    with run True show ?thesis by auto
  next
    case False
    have "open_at D isn (isn + 1) (upd_ktx (\<lambda>tp. tp\<lparr>sk_write_queue := sk_write_queue tp @ [d2], packets_out := packets_out tp - ucast (skb_pcount d2)\<rparr>) k4)"
      using k4 d2 s d(5) by (simp add: open_at_def Let_def upd_ktx_def upd_conn_def packets_def len)
    from fallback_open [OF ok(2) this, of pks] run False show ?thesis by auto
  qed
qed

text \<open>The bytes that Fast Open can put on the SYN.\<close>

definition fo_bytes :: "connect_env \<Rightarrow> u8 list set" where
  "fo_bytes E = insert [] (range (ce_copy E))"

definition fo_alloc_ok :: "connect_env \<Rightarrow> bool" where
  "fo_alloc_ok E \<longleftrightarrow> (case ce_data_alloc E of None \<Rightarrow> True | Some d \<Rightarrow> skb_frags d = [])"

lemma syn_data_skb_fields:
  assumes "syn_data_skb E space syn d0 = Some d" and "skb_frags d0 = []"
  shows "skb_seq d = skb_seq syn" and "skb_end_seq d = skb_end_seq syn" and "skb_pcount d = skb_pcount syn" and "skb_flags d = skb_flags syn"
    and "skb_data d \<in> fo_bytes E"
  using assms by (auto simp: syn_data_skb_def fo_bytes_def Let_def split: if_splits)

lemma send_syn_data_open:
  assumes ok: "tx_ok (ce_tx E)" "tx_ok (ce_tx2 E)" "fo_alloc_ok E" and syn: "syn_only isn k"
  shows "\<exists>err pks k' q. tcp_send_syn_data E k = Some (err, pks, k') \<and> open_at (fo_bytes E) isn q k'"
proof -
  have fb: "\<exists>err pks k' q. syn_fallback E [] k0 = Some (err, pks, k') \<and> open_at (fo_bytes E) isn q k'" if "syn_only isn k0" for k0
    using fallback_open [OF ok(2) syn_only_open [OF that]] by blast
  define k1 where "k1 = upd_ktx (\<lambda>tp. tp\<lparr>mss_clamp := int (unat (advmss (c_rx (k_conn k))))\<rparr>) k"
  have k1: "syn_only isn k1" by (rule syn_only_frame [OF syn]) (simp_all add: k1_def upd_ktx_def upd_conn_def)
  show ?thesis
  proof (cases "os_fastopen (c_opts (k_conn k1))")
    case None
    with fb [OF k1] show ?thesis by (simp add: tcp_send_syn_data_def Let_def k1_def)
  next
    case (Some ck)
    obtain b m ck' where ck: "ce_cookie E (mss_clamp (c_tx (k_conn k1))) ck = (b, m, ck')" by (metis prod_cases3)
    define k2 where "k2 = set_cookie (\<lambda>_. ck') (upd_ktx (\<lambda>tp. tp\<lparr>mss_clamp := m\<rparr>) k1)"
    have k2: "syn_only isn k2" by (rule syn_only_frame [OF k1]) (simp_all add: k2_def upd_ktx_def upd_conn_def)
    define k3 where "k3 = upd_ktx (\<lambda>tp. tp\<lparr>mss_clamp := int (unat (tcp_mss_clamp (k_user_mss k2) (word_of_int (mss_clamp tp))))\<rparr>) k2"
    have k3: "syn_only isn k3" by (rule syn_only_frame [OF k2]) (simp_all add: k3_def upd_ktx_def upd_conn_def)
    define k4 where "k4 = upd_ktx (\<lambda>tp. snd (tcp_sync_mss (te_snd (ce_tx E)) (icsk_pmtu_cookie tp) tp)) k3"
    have k4: "syn_only isn k4" by (rule syn_only_frame [OF k3]) (simp_all add: k4_def upd_ktx_def upd_conn_def sync_mss_queues)
    define space where "space = as_int (min (as_size (u_tcp_mtu_to_mss (te_snd (ce_tx E)) (c_tx (k_conn k4)) (int (unat (icsk_pmtu_cookie (c_tx (k_conn k4))))) -
      int (unat MAX_TCP_OPTION_SPACE))) (case k_fo k of None \<Rightarrow> 0 | Some fo \<Rightarrow> int (fo_size fo)))"
    have run: "tcp_send_syn_data E k = (if \<not> b then syn_fallback E [] k2 else if space \<noteq> 0 \<and> \<not> ce_refill E then syn_fallback E [] k4
        else case ce_data_alloc E of None \<Rightarrow> syn_fallback E [] k4
          | Some d \<Rightarrow> (case syn_data_skb E space (hd (tcp_rtx_queue (c_tx (k_conn k4)))) d of None \<Rightarrow> syn_fallback E [] k4 | Some d \<Rightarrow> syn_data_send E d k4))"
      unfolding tcp_send_syn_data_def Let_def k1_def [symmetric] Some option.case ck prod.case k2_def [symmetric] k3_def [symmetric]
        k4_def [symmetric] space_def [symmetric] by (rule refl)
    have sent: "\<exists>err pks k' q. syn_data_send E d k4 = Some (err, pks, k') \<and> open_at (fo_bytes E) isn q k'"
      if "ce_data_alloc E = Some d0" "syn_data_skb E space (hd (tcp_rtx_queue (c_tx (k_conn k4)))) d0 = Some d" for d0 d
    proof -
      obtain s where s: "tcp_rtx_queue (c_tx (k_conn k4)) = [s]" "skb_seq s = isn" "skb_end_seq s = isn + 1" "skb_pcount s = 1" "skb_flags s AND TCPHDR_SYN \<noteq> 0"
        using k4 by (rule syn_onlyE)
      have "skb_frags d0 = []" using ok(3) that(1) by (simp add: fo_alloc_ok_def)
      note f = syn_data_skb_fields [OF that(2) this]
      show ?thesis by (rule syn_data_open [OF ok(1,2) k4]) (use f s in simp_all)
    qed
    show ?thesis unfolding run using fb [OF k2] fb [OF k4] sent by (auto split: option.split)
  qed
qed

section \<open>Connecting\<close>

text \<open>What \<open>tcp_connect_init\<close> relies on: \<open>tcp_write_queue_purge\<close> empties the queues and the count, other functions leave
  the mode of repair and the segment size alone, and new buffers are empty.\<close>

definition connect_ok :: "connect_env \<Rightarrow> bool" where
  "connect_ok E \<longleftrightarrow> tx_ok (ce_tx E) \<and> tx_ok (ce_tx2 E) \<and> fo_alloc_ok E \<and>
     (\<forall>tp. sk_write_queue (ce_purge E tp) = [] \<and> tcp_rtx_queue (ce_purge E tp) = [] \<and> packets_out (ce_purge E tp) = 0 \<and>
        repairing (ce_purge E tp) = repairing tp) \<and>
     (\<forall>tp. repairing (ce_ao_init E tp) = repairing tp) \<and> (\<forall>sk. advmss (ce_init_rcv_mss E sk) = advmss sk) \<and>
     (case ce_alloc E of None \<Rightarrow> True | Some s \<Rightarrow> skb_frags s = [])"

definition opened :: "u8 list set \<Rightarrow> u32 \<Rightarrow> connect_sock \<Rightarrow> bool" where
  "opened D isn k \<longleftrightarrow> open_at D isn (snd_nxt (c_tx (k_conn k))) k \<and> k_pushed_seq k = snd_nxt (c_tx (k_conn k)) \<and>
     last (k_calls k) = Syn_timer (icsk_rto (c_tx (k_conn k)))"

lemma connect_sent_opened:
  assumes "open_at D isn q k"
  shows "opened D isn (connect_sent k)"
proof -
  define q' where "q' = (case sk_write_queue (c_tx (k_conn k)) of [] \<Rightarrow> k_write_seq k | s # _ \<Rightarrow> skb_seq s)"
  have "q' = q" using assms by (cases "sk_write_queue (c_tx (k_conn k))") (auto simp: open_at_def q'_def Let_def)
  then have "connect_sent k = k_call (Syn_timer (icsk_rto (c_tx (k_conn k)))) ((upd_ktx (\<lambda>tp. tp\<lparr>snd_nxt := q\<rparr>) k)\<lparr>k_pushed_seq := q\<rparr>)"
    unfolding connect_sent_def Let_def q'_def [symmetric] by (simp add: upd_ktx_def upd_conn_def)
  with assms show ?thesis by (simp add: opened_def open_at_def k_call_def upd_ktx_def upd_conn_def Let_def)
qed

lemma initial_window_returns:
  "mss \<noteq> 0 \<Longrightarrow> \<exists>w c s. tcp_select_initial_window net m space mss clampw ok init = Some (w, c, s)"
  unfolding tcp_select_initial_window_def Let_def by (simp only: simp_thms if_False) (intro exI, rule refl)

lemma connect_init_done:
  assumes ok: "connect_ok E" and mss: "tcp_mss_clamp (k_user_mss k) (ucast (ce_advmss E)) \<noteq> 0" and ts: "\<not> k_ts_recent k"
  shows "\<exists>k1. tcp_connect_init E k = Some k1 \<and> tcp_rtx_queue (c_tx (k_conn k1)) = [] \<and> sk_write_queue (c_tx (k_conn k1)) = [] \<and>
    packets_out (c_tx (k_conn k1)) = 0 \<and> snd_una (c_tx (k_conn k1)) = k_write_seq k \<and> k_write_seq k1 = k_write_seq k \<and> k_fo k1 = k_fo k \<and>
    repairing (c_tx (k_conn k1)) = repairing (c_tx (k_conn k))"
proof -
  define ka where "ka = tcp_ca_dst_init E (upd_ktx (connect_mss E (k_user_mss k)) k)"
  have rep: "repairing (connect_mss E u tp) = repairing tp" for u tp
    using ok by (simp add: connect_mss_def connect_ok_def tcp_sync_mss_def tcp_mtup_init_def Let_def)
  have ka: "k_write_seq ka = k_write_seq k" "k_fo ka = k_fo k" "k_user_mss ka = k_user_mss k" "k_ts_recent ka = k_ts_recent k"
    "repairing (c_tx (k_conn ka)) = repairing (c_tx (k_conn k))"
    by (simp_all add: ka_def tcp_ca_dst_init_def upd_ktx_def upd_conn_def rep split: option.split)
  define sk where "sk = connect_clamp E ka (c_rx (k_conn ka))"
  have "advmss sk = tcp_mss_clamp (k_user_mss k) (ucast (ce_advmss E))" using ok ka(3) by (simp add: sk_def connect_clamp_def connect_ok_def Let_def)
  then have a: "unat (advmss sk) \<noteq> 0" "unat (advmss sk) < 2 ^ 16" using mss unsigned_less [of "advmss sk", where 'a = nat] by (simp_all add: unat_eq_0)
  have "take_bit 32 (unat (advmss sk)) = unat (advmss sk)" by (rule take_bit_nat_eq_self [OF less_trans [OF a(2)]]) simp
  with a(1) have "unat (word_of_int (int (unat (advmss sk)) - 0) :: u32) \<noteq> 0" by (simp add: unsigned_ucast_eq)
  then have "(word_of_int (int (unat (advmss sk)) - 0) :: u32) \<noteq> 0" by (metis unat_0)
  from initial_window_returns [OF this] obtain w cl s where w: "tcp_select_initial_window (te_net (ce_tx E)) (ce_rmem_max E)
      (tcp_full_space (te_kern (ce_tx E)) sk) (word_of_int (int (unat (advmss sk)) - 0)) (window_clamp sk) (e_window_scaling (te_opt (ce_tx E)))
      (if ce_rwnd_bpf E = 0 then ce_initrwnd E else ce_rwnd_bpf E) = Some (w, cl, s)" by metis
  define kb where "kb = upd_conn (\<lambda>c. c\<lparr>c_rx := sk\<lparr>rcv_wnd := w, window_clamp := cl, rcv_wscale := ucast s, rcv_ssthresh := w\<rparr>,
    c_tx := (c_tx c)\<lparr>rx_rcv_wscale := s\<rparr>, c_opts := (c_opts c)\<lparr>os_rcv_wscale := s, os_advmss := advmss sk\<rparr>\<rparr>) ka"
  have "tcp_connect_init E k = Some (connect_numbers E kb)"
    using ts ka(4) w unfolding tcp_connect_init_def Let_def ka_def [symmetric] sk_def [symmetric] by (simp add: kb_def)
  moreover have "k_write_seq kb = k_write_seq k" "k_fo kb = k_fo k" "repairing (c_tx (k_conn kb)) = repairing (c_tx (k_conn k))"
    using ka by (simp_all add: kb_def upd_conn_def)
  ultimately show ?thesis using ok by (simp add: connect_numbers_def connect_ok_def upd_conn_def Let_def split: prod.split)
qed

lemma keys_keep:
  assumes "connect_keys E k = (err, k1)"
  shows "k_conn k1 = k_conn k" "k_write_seq k1 = k_write_seq k" "k_fo k1 = k_fo k" "k_user_mss k1 = k_user_mss k" "k_ts_recent k1 = k_ts_recent k"
    "err = 0 \<or> err = - EKEYREJECTED"
  using assms by (auto simp: connect_keys_def k_call_def Let_def split: if_splits)

text \<open>The SYN goes into the empty queue.\<close>

lemma syn_queued:
  assumes q: "tcp_rtx_queue (c_tx (k_conn k)) = []" "sk_write_queue (c_tx (k_conn k)) = []" "packets_out (c_tx (k_conn k)) = 0"
      "snd_una (c_tx (k_conn k)) = k_write_seq k"
    and b: "skb_frags b = []" and buff: "tcp_connect_queue_skb (tcp_init_nondata_skb b (k_write_seq k) TCPHDR_SYN)
      ((upd_ktx (tcp_mstamp_refresh S) (k\<lparr>k_write_seq := k_write_seq k + 1\<rparr>))\<lparr>k_retrans_stamp := t\<rparr>) = (b1, k1)"
    and ecn: "tcp_ecn_send_syn a1 a2 a3 a4 b1 (k_conn k1) = (b2, c)"
  shows "syn_only (k_write_seq k) (upd_ktx (\<lambda>tp. tp\<lparr>tcp_rtx_queue := rbtree_insert b2 (tcp_rtx_queue tp)\<rparr>) (k1\<lparr>k_conn := c\<rparr>))"
    and "skb_pcount b2 \<noteq> 0" and "skb_flags b2 AND TCPHDR_SYN \<noteq> 0" and "k_fo k1 = k_fo k" and "rbtree_insert b2 (tcp_rtx_queue (c_tx c)) = [b2]"
proof -
  have S: "TCPHDR_SYN AND (TCPHDR_SYN OR TCPHDR_FIN) \<noteq> 0" "TCPHDR_SYN \<noteq> 0" "(TCPHDR_SYN OR (TCPHDR_ECE OR TCPHDR_CWR)) AND TCPHDR_SYN \<noteq> 0"
    by (simp_all add: TCPHDR_SYN_def TCPHDR_FIN_def TCPHDR_ECE_def TCPHDR_CWR_def)
  have b1: "b1 = (tcp_init_nondata_skb b (k_write_seq k) TCPHDR_SYN)" "k_write_seq k1 = k_write_seq k + 1" "tcp_rtx_queue (c_tx (k_conn k1)) = []"
    "sk_write_queue (c_tx (k_conn k1)) = []" "packets_out (c_tx (k_conn k1)) = 1" "snd_una (c_tx (k_conn k1)) = k_write_seq k" "k_fo k1 = k_fo k"
    using buff q b S by (auto simp: tcp_connect_queue_skb_def tcp_init_nondata_skb_def upd_ktx_def upd_conn_def tcp_mstamp_refresh_def skb_len_def Let_def)
  have b2: "skb_seq b2 = k_write_seq k" "skb_end_seq b2 = k_write_seq k + 1" "skb_pcount b2 = 1" "skb_flags b2 AND TCPHDR_SYN \<noteq> 0" "skb_data b2 = []" "c_tx c = c_tx (k_conn k1)"
    using ecn b S by (auto simp: tcp_ecn_send_syn_def b1(1) tcp_init_nondata_skb_def Let_def split: if_splits)
  have ins: "rbtree_insert b2 [] = [b2]" by (simp add: rbtree_insert_def)
  show "syn_only (k_write_seq k) (upd_ktx (\<lambda>tp. tp\<lparr>tcp_rtx_queue := rbtree_insert b2 (tcp_rtx_queue tp)\<rparr>) (k1\<lparr>k_conn := c\<rparr>))"
    using b1 b2 ins by (simp add: syn_only_def open_at_def upd_ktx_def upd_conn_def packets_def Let_def)
  show "skb_pcount b2 \<noteq> 0" "skb_flags b2 AND TCPHDR_SYN \<noteq> 0" "k_fo k1 = k_fo k" "rbtree_insert b2 (tcp_rtx_queue (c_tx c)) = [b2]"
    using b1 b2 ins by simp_all
qed

lemma plain_syn_open:
  assumes "tx_ok E" and "syn_only isn k" and "hd (tcp_rtx_queue (c_tx (k_conn k))) = syn" and "skb_pcount syn \<noteq> 0" and "skb_flags syn AND TCPHDR_SYN \<noteq> 0"
  shows "\<exists>err pks syn' k'. connect_send E syn k = Some (err, pks, syn', k') \<and> open_at D isn (isn + 1) (put_syn syn' k')"
proof -
  obtain err pks ts x c where s: "connect_send E syn k = Some (err, pks, syn\<lparr>skb_tstamp := ts, skb_tx := x\<rparr>, k\<lparr>k_conn := c\<rparr>)"
    and qt: "quiet (c_tx (k_conn k)) (c_tx c)" using connect_send_quiet [OF assms(1,4,5)] by blast
  have "syn = hd (tcp_rtx_queue (c_tx (k_conn (k\<lparr>k_conn := c\<rparr>))))" using qt assms(3) by (simp add: quiet_def)
  then have "open_at D isn (isn + 1) (put_syn (syn\<lparr>skb_tstamp := ts, skb_tx := x\<rparr>) (k\<lparr>k_conn := c\<rparr>))"
    by (intro open_at_put [OF open_at_quiet [OF syn_only_open [OF assms(2)] qt]]) simp
  with s show ?thesis by blast
qed

text \<open>The result of a call: a known error, or the start of the stream.\<close>

lemma connect_done:
  assumes ok: "connect_ok E" and mss: "tcp_mss_clamp (k_user_mss k) (ucast (ce_advmss E)) \<noteq> 0" and ts: "\<not> k_ts_recent k"
    and live: "\<not> repairing (c_tx (k_conn k))"
  shows "\<exists>err pks k'. tcp_connect E k = Some (err, pks, k') \<and> err \<in> {0, - EKEYREJECTED, - EHOSTUNREACH, - ENOBUFS, - ECONNREFUSED} \<and>
    (err = 0 \<longrightarrow> opened (fo_bytes E) (k_write_seq k) k')"
proof -
  obtain e0 k0 where keys: "connect_keys E k = (e0, k0)" by fastforce
  note kk = keys_keep [OF keys]
  show ?thesis
  proof (cases "e0 \<noteq> 0 \<or> ce_rebuild E \<noteq> 0")
    case True
    with kk(6) show ?thesis by (auto simp: tcp_connect_def keys EKEYREJECTED_def EHOSTUNREACH_def)
  next
    case False
    obtain k1 where i: "tcp_connect_init E k0 = Some k1" "tcp_rtx_queue (c_tx (k_conn k1)) = []" "sk_write_queue (c_tx (k_conn k1)) = []"
      "packets_out (c_tx (k_conn k1)) = 0" "snd_una (c_tx (k_conn k1)) = k_write_seq k1" "k_write_seq k1 = k_write_seq k" "\<not> repairing (c_tx (k_conn k1))"
      using connect_init_done [OF ok, of k0] mss ts live kk by auto
    show ?thesis
    proof (cases "ce_alloc E")
      case None
      with False i show ?thesis by (auto simp: tcp_connect_def keys ENOBUFS_def)
    next
      case (Some b)
      have b: "skb_frags b = []" using ok Some by (simp add: connect_ok_def)
      define kt where "kt = upd_ktx (tcp_mstamp_refresh (te_snd (ce_tx E))) (k1\<lparr>k_write_seq := k_write_seq k1 + 1\<rparr>)"
      define ku where "ku = kt\<lparr>k_retrans_stamp := ce_time_stamp E (tcp_mstamp (c_tx (k_conn kt)))\<rparr>"
      obtain b1 k2 where q: "tcp_connect_queue_skb (tcp_init_nondata_skb b (k_write_seq k1) TCPHDR_SYN) ku = (b1, k2)" by fastforce
      obtain b2 c where ecn: "tcp_ecn_send_syn (ce_sysctl_ecn E) (te_needs_ecn (ce_tx E)) (ce_bpf_ecn E) (ce_dst_ecn E) b1 (k_conn k2) = (b2, c)" by fastforce
      note sq = syn_queued [OF i(2-5) b q [unfolded ku_def kt_def] ecn]
      define k3 where "k3 = upd_ktx (\<lambda>tp. tp\<lparr>tcp_rtx_queue := rbtree_insert b2 (tcp_rtx_queue tp)\<rparr>) (k2\<lparr>k_conn := c\<rparr>)"
      have k3: "syn_only (k_write_seq k) k3" using sq(1) i(6) by (simp add: k3_def)
      have hd3: "hd (tcp_rtx_queue (c_tx (k_conn k3))) = b2" using sq(5) by (simp add: k3_def upd_ktx_def upd_conn_def)
      define r where "r = (if k_fo k3 \<noteq> None then tcp_send_syn_data E k3 else case connect_send (ce_tx E) b2 k3 of None \<Rightarrow> None
        | Some (err, pks, buff, k) \<Rightarrow> Some (err, pks, put_syn buff k))"
      have run: "tcp_connect E k = (case r of None \<Rightarrow> None
          | Some (err, pks, k) \<Rightarrow> Some (if err = - ECONNREFUSED then (err, pks, k) else (0, pks, connect_sent k)))"
        using False i(7) unfolding tcp_connect_def keys Let_def prod.case i(1) option.case Some kt_def [symmetric] ku_def [symmetric] q ecn k3_def [symmetric] r_def
        by simp
      have tx: "tx_ok (ce_tx E)" "tx_ok (ce_tx2 E)" "fo_alloc_ok E" using ok by (simp_all add: connect_ok_def)
      have "\<exists>err pks k' q. r = Some (err, pks, k') \<and> open_at (fo_bytes E) (k_write_seq k) q k'"
      proof (cases "k_fo k3 = None")
        case True
        with plain_syn_open [OF tx(1) k3 hd3 sq(2,3), of "fo_bytes E"] show ?thesis by (auto simp: r_def)
      next
        case False
        with send_syn_data_open [OF tx k3] show ?thesis by (simp add: r_def)
      qed
      then show ?thesis unfolding run by (auto simp: ECONNREFUSED_def dest: connect_sent_opened)
    qed
  qed
qed

section \<open>The SYN-ACK\<close>

text \<open>What the functions around the options of a SYN-ACK promise, for a peer that does not use AO.\<close>

definition synack_ready :: "synack_env \<Rightarrow> u32 \<Rightarrow> tcp_fastopen_cookie option \<Rightarrow> synack_req \<Rightarrow> bool" where
  "synack_ready E n foc req \<longleftrightarrow> sr_ids req = None \<and> bpf_ok (te_opt (sa_tx E)) \<and> unat n = length (te_mptcp (sa_tx E)) \<and>
     words_ok (e_mptcp_synack (te_opt (sa_tx E))) n \<and> cookie_ok foc \<and> (\<forall>k. foc = Some k \<longrightarrow> even (foc_len k)) \<and>
     tcp_mss_clamp (sa_user_mss E) (ucast (sa_advmss E)) \<noteq> 0 \<and>
     \<not> (os_syn_smc (sa_os E) \<and> e_mptcp_synack (te_opt (sa_tx E)) \<noteq> None) \<and>
     (\<forall>k bs. te_bpf (sa_tx E) k = Some bs \<longrightarrow> length bs \<le> k) \<and> (\<forall>th bs d. length (te_md5 (sa_tx E) th bs d) = 16)"

lemma synack_fixed_cookie:
  "synack_fixed_options E ireq mss key ck no_options = (opts, r, q) \<Longrightarrow> fastopen_cookie opts = None"
  by (auto simp: synack_fixed_options_def no_options_def Let_def split: tcp_key.splits if_splits option.splits)

lemma synack_cookie:
  assumes "tcp_synack_options E tp ireq mss key foc ck no_options = (sz, opts, q)"
  shows "fastopen_cookie opts = None \<or> fastopen_cookie opts = foc"
proof -
  obtain o0 r0 q0 where 0: "synack_fixed_options E ireq mss key ck no_options = (o0, r0, q0)" by (metis prod_cases3)
  obtain u o1 r1 where 1: "fastopen_set_option foc o0 r0 = (u, o1, r1)" by (metis prod_cases3)
  have "fastopen_cookie opts = fastopen_cookie o1"
    using assms unfolding tcp_synack_options_def Let_def 0 prod.case 1
    by (auto simp: mptcp_set_option_cond_def smc_set_option_cond_def split: prod.splits if_splits dest!: cookie_frames)
  moreover have "fastopen_cookie o1 = None \<or> fastopen_cookie o1 = foc"
    using 1 synack_fixed_cookie [OF 0] by (auto simp: fastopen_set_option_def split: option.splits if_splits)
  ultimately show ?thesis by simp
qed

lemma synack_written:
  assumes "writable h m tp tcprsk opts key" and "\<not> is_KEY_AO key" and "\<forall>k. fastopen_cookie opts = Some k \<longrightarrow> even (foc_len k)"
    and "tcp_options_write h m tp tcprsk opts key = (bs, opts', tp')" and "\<forall>th bs d. length (te_md5 E th bs d) = 16"
  shows "None \<notin> set (synack_sign E key th opts' bs)" and "length (synack_sign E key th opts' bs) = length bs"
proof -
  note w = assms(1) [unfolded writable_def]
  obtain mac o1 where mac: "key_options_write tcprsk opts key = (mac, o1)" by fastforce
  define rest where "rest = fixed_options_write opts @ fst (sack_options_write tp opts) @ cookie_options_write opts @
    overwrite (smc_options_write h (options opts)) (mptcp_options_write m (options opts))"
  have bs: "bs = mac @ rest" "opts' = o1"
    using assms(4) mac by (auto simp: tcp_options_write_def rest_def Let_def split: prod.splits)
  have "None \<notin> set (cookie_options_write opts)"
    using w assms(3) by (intro cookie_written) (auto split: option.splits)
  then have rest: "None \<notin> set rest" by (simp add: rest_def fixed_written sack_written tail_written)
  have "None \<notin> set (synack_sign E key th opts' bs) \<and> length (synack_sign E key th opts' bs) = length bs"
    using mac bs rest assms(2,5)
    by (cases key) (auto simp: synack_sign_def key_options_write_def put_mac_def be32_def split: option.split)
  then show "None \<notin> set (synack_sign E key th opts' bs)" and "length (synack_sign E key th opts' bs) = length bs" by blast+
qed

lemma options_write_bpf:
  assumes "tcp_options_write h m tp t opts key = (bs, opts', tp')"
  shows "bpf_opt_len opts' = bpf_opt_len opts"
  using assms by (auto simp: tcp_options_write_def key_options_write_def Let_def split: prod.splits option.splits)

text \<open>The packet of \<open>tcp_make_synack\<close>.\<close>

lemma synack_packet:
  assumes ready: "synack_ready E n foc req" and mem: "sa_alloc E"
  shows "\<exists>o' pk req'. tcp_make_synack E foc ty req = (Some (o', pk), req') \<and>
    th_source (pk_hdr pk) = sr_num req \<and> th_dest (pk_hdr pk) = sr_rmt_port req \<and> th_seq (pk_hdr pk) = sr_snt_isn req \<and>
    th_ack_seq (pk_hdr pk) = sr_rcv_nxt req \<and> unat (th_window (pk_hdr pk)) = min (unat (sr_rcv_wnd req)) 65535 \<and>
    4 * unat (drop_bit 12 (th_word (pk_hdr pk))) = 20 + length (pk_opts pk) \<and> length (pk_opts pk) \<le> 40 \<and> None \<notin> set (pk_opts pk) \<and>
    (o' \<longleftrightarrow> ty \<noteq> TCP_SYNACK_COOKIE) \<and> (sr_snt_synack req \<noteq> 0 \<longrightarrow> sr_snt_synack req' = sr_snt_synack req)"
proof -
  note r = ready [unfolded synack_ready_def]
  define mss where "mss = (ucast (tcp_mss_clamp (sa_user_mss E) (ucast (sa_advmss E))) :: u32)"
  define cts where "cts = (ty = TCP_SYNACK_COOKIE \<and> rq_tstamp_ok (sr_opt req))"
  define stamp where "stamp = (if cts then sa_cookie_ts E req (sa_now E) else sa_now E)"
  define rq where "rq = (if \<not> cts \<and> sr_snt_synack req = 0 then req\<lparr>sr_snt_synack := stamp div 1000\<rparr> else req)"
  have rq: "sr_ids rq = None" "sr_opt rq = sr_opt req" "sr_num rq = sr_num req" "sr_rmt_port rq = sr_rmt_port req" "sr_snt_isn rq = sr_snt_isn req"
    "sr_rcv_nxt rq = sr_rcv_nxt req" "sr_rcv_wnd rq = sr_rcv_wnd req" "sr_ecn_ok rq = sr_ecn_ok req" "sr_snt_synack req \<noteq> 0 \<longrightarrow> sr_snt_synack rq = sr_snt_synack req"
    using r by (simp_all add: rq_def)
  define key where "key = (if sa_md5 E then KEY_MD5 else KEY_NONE)"
  have key: "synack_key E rq = Some key" "key_ok key" "ao_ready t key" "\<not> is_KEY_AO key" for t
    by (simp_all add: synack_key_def rq(1) key_def key_ok_def ao_ready_def)
  define oe where "oe = (te_opt (sa_tx E))\<lparr>e_skb_ts := Some (sa_ts E stamp)\<rparr>"
  obtain sz opts oreq where o: "tcp_synack_options oe (sa_os E) (sr_opt req) mss key foc (ty = TCP_SYNACK_COOKIE) no_options = (sz, opts, oreq)" by (metis prod_cases3)
  obtain bs opts' os where w: "tcp_options_write (e_have_smc oe) (te_mptcp (sa_tx E)) (sa_os E) (Some (0, 0)) opts key = (bs, opts', os)" by (metis prod_cases3)
  have oe: "bpf_ok oe" "words_ok (e_mptcp_synack oe) n" "\<not> (os_syn_smc (sa_os E) \<and> e_mptcp_synack oe \<noteq> None)" using r by (simp_all add: oe_def bpf_ok_def)
  have "(ucast mss :: u16) = tcp_mss_clamp (sa_user_mss E) (ucast (sa_advmss E))" by (rule bit_word_eqI) (simp add: mss_def bit_simps)
  then have m: "(ucast mss :: u16) \<noteq> 0" using r by simp
  have foc: "cookie_ok foc" "\<forall>k. foc = Some k \<longrightarrow> even (foc_len k)" using r by blast+
  have ex: "exact_size (unat n) key sz opts" by (rule synack_options_exact [OF key(2) m foc(1) oe(2,1) o])
  have wr: "writable (e_have_smc oe) (te_mptcp (sa_tx E)) (sa_os E) (Some (0, 0)) opts key"
    by (rule well_set_writable [OF synack_well_set [OF key(2) m foc(1) o] oe(3) key(2,3)])
  have ck: "\<forall>k. fastopen_cookie opts = Some k \<longrightarrow> even (foc_len k)" using synack_cookie [OF o] foc(2) by auto
  define th0 where "th0 = \<lparr>th_source = sr_num req, th_dest = sr_rmt_port req, th_seq = sr_snt_isn req, th_ack_seq = sr_rcv_nxt req,
    th_word = ucast (push_bit 12 (drop_bit 2 (sz + 20))) OR ucast (TCPHDR_SYN OR TCPHDR_ACK),
    th_window = ucast (min (sr_rcv_wnd req) 65535), th_check = 0, th_urg_ptr = 0\<rparr>"
  define th where "th = tcp_ecn_make_synack (sr_ecn_ok req) th0"
  have mf: "more_flags th0 th" by (simp add: th_def tcp_ecn_make_synack_def)
  define bs' where "bs' = synack_sign (sa_tx E) key th opts' bs @ bpf_skops_write_hdr_opt (te_bpf (sa_tx E)) opts'"
  define pk where "pk = \<lparr>pk_hdr = th, pk_opts = bs', pk_data = [], pk_gso_segs = 0, pk_gso_size = 0, pk_gso_ecn = False,
    pk_ect = False, pk_ooo_okay = False, pk_tstamp = sa_now E + (case tx_delay (te_snd (sa_tx E)) of None \<Rightarrow> 0 | Some d \<Rightarrow> ucast d * 1000)\<rparr>"
  have run: "tcp_make_synack E foc ty req = (Some (ty \<noteq> TCP_SYNACK_COOKIE, pk), rq\<lparr>sr_opt := oreq\<rparr>)"
    unfolding tcp_make_synack_def Let_def cts_def [symmetric] stamp_def [symmetric] rq_def [symmetric] key(1) option.case mss_def [symmetric]
      rq(2) oe_def [symmetric] o prod.case
    by (simp add: mem rq(1,3-8) th0_def [symmetric] th_def [symmetric] w bs'_def [symmetric] pk_def)
  have bpf: "length (bpf_skops_write_hdr_opt (te_bpf (sa_tx E)) opts') = unat (bpf_opt_len opts)"
    using bpf_write_length [of "te_bpf (sa_tx E)" opts'] r options_write_bpf [OF w] by simp
  have md5: "\<forall>th bs d. length (te_md5 (sa_tx E) th bs d) = 16" using r by blast
  note sg = synack_written [OF wr key(4) ck w md5, of th]
  have "length bs = options_len (length (te_mptcp (sa_tx E))) key opts" by (rule write_length [OF wr w])
  moreover have "unat n = length (te_mptcp (sa_tx E))" using r by blast
  moreover have "unat sz \<le> 40" "unat sz mod 4 = 0" using ex unfolding exact_size_def by blast+
  ultimately have len: "length bs' = unat sz" "unat sz \<le> 40" "unat sz mod 4 = 0" using ex sg(2) bpf by (simp add: bs'_def exact_size_def, blast+)
  have wrt: "None \<notin> set bs'" using sg(1) by (auto simp: bs'_def bpf_skops_write_hdr_opt_def Let_def)
  have s20: "unat (sz + 20) = unat sz + 20" using len(2) by (simp add: unat_word_ariths)
  then have "unat (drop_bit 12 (th_word th)) = (unat sz + 20) div 4"
    using doff_word [of "sz + 20" "TCPHDR_SYN OR TCPHDR_ACK"] len(2) more_flagsD(8) [OF mf] by (simp add: th0_def)
  moreover have "4 * ((unat sz + 20) div 4) = 20 + unat sz" using len(3) by presburger
  ultimately have doff: "4 * unat (drop_bit 12 (th_word th)) = 20 + length bs'" using len(1) by simp
  have "unat (min (sr_rcv_wnd req) 65535) = min (unat (sr_rcv_wnd req)) 65535" by (simp add: unat_min)
  then have win: "unat (th_window th) = min (unat (sr_rcv_wnd req)) 65535"
    using more_flagsD(5) [OF mf] by (simp add: th0_def unsigned_ucast_eq take_bit_nat_eq_self)
  show ?thesis unfolding run
    using more_flagsD(1-4) [OF mf] win doff len wrt rq(9) by (simp add: pk_def th0_def)
qed

text \<open>The SYN-ACK of a simultaneous open: the SYN stays at the head of the queue and becomes a SYN-ACK.\<close>

lemma send_synack_done:
  assumes ok: "tx_ok E" and q: "tcp_rtx_queue (c_tx c) = s # rest" and s: "skb_pcount s \<noteq> 0" "skb_flags s AND TCPHDR_SYN \<noteq> 0"
    and mem: "copied \<noteq> Some None"
  shows "\<exists>err pko c' s'. tcp_send_synack E copied c = Some (err, pko, c') \<and> tcp_rtx_queue (c_tx c') = s' # rest \<and> skb_seq s' = skb_seq s \<and>
    skb_end_seq s' = skb_end_seq s \<and> skb_data s' = skb_data s \<and> skb_flags s' AND TCPHDR_SYN \<noteq> 0 \<and> skb_flags s' AND TCPHDR_ACK \<noteq> 0"
proof -
  have fl: "(((f OR TCPHDR_ACK) AND NOT TCPHDR_CWR) AND NOT TCPHDR_ECE) AND TCPHDR_ACK \<noteq> 0" "((f OR TCPHDR_ACK) AND NOT TCPHDR_CWR) AND TCPHDR_ACK \<noteq> 0"
    "(((f OR TCPHDR_ACK) AND NOT TCPHDR_CWR) AND NOT TCPHDR_ECE) AND TCPHDR_SYN = f AND TCPHDR_SYN" "((f OR TCPHDR_ACK) AND NOT TCPHDR_CWR) AND TCPHDR_SYN = f AND TCPHDR_SYN" for f
    by (simp_all add: TCPHDR_ACK_def TCPHDR_CWR_def TCPHDR_ECE_def TCPHDR_SYN_def and.assoc bit.conj_disj_distrib2)
  define r where "r = (if skb_flags s AND TCPHDR_ACK \<noteq> 0 then Some (s, c)
    else case (case copied of None \<Rightarrow> Some (s, c) | Some None \<Rightarrow> None | Some (Some truesize) \<Rightarrow>
        let d = truesize - skb_truesize s in Some (s\<lparr>skb_truesize := truesize\<rparr>, c\<lparr>c_tx := (c_tx c)\<lparr>sk_wmem_queued := sk_wmem_queued (c_tx c) + d,
          sk_forward_alloc := sk_forward_alloc (c_tx c) - d\<rparr>, c_tsorted := filter (\<lambda>q. q \<noteq> skb_seq s) (c_tsorted c)\<rparr>)) of
      None \<Rightarrow> None | Some (skb, c) \<Rightarrow> Some (tcp_ecn_send_synack (te_needs_ecn E) (skb\<lparr>skb_flags := skb_flags skb OR TCPHDR_ACK\<rparr>) c))"
  obtain s1 c1 where r: "r = Some (s1, c1)" "skb_seq s1 = skb_seq s" "skb_end_seq s1 = skb_end_seq s" "skb_data s1 = skb_data s" "skb_pcount s1 \<noteq> 0"
    "skb_flags s1 AND TCPHDR_SYN \<noteq> 0" "skb_flags s1 AND TCPHDR_ACK \<noteq> 0"
  proof (cases "skb_flags s AND TCPHDR_ACK \<noteq> 0")
    case True
    show thesis by (rule that [of s c]) (use True s in \<open>simp_all add: r_def\<close>)
  next
    case False
    obtain t where t: "copied = None \<or> copied = Some (Some t)" using mem by (cases copied) auto
    then obtain s0 c0 where s0: "r = Some (tcp_ecn_send_synack (te_needs_ecn E) (s0\<lparr>skb_flags := skb_flags s OR TCPHDR_ACK\<rparr>) c0)" "s0 = s \<or> s0 = s\<lparr>skb_truesize := t\<rparr>"
      using False by (auto simp: r_def Let_def)
    obtain s1 c1 where e: "tcp_ecn_send_synack (te_needs_ecn E) (s0\<lparr>skb_flags := skb_flags s OR TCPHDR_ACK\<rparr>) c0 = (s1, c1)" by fastforce
    have "skb_seq s1 = skb_seq s0 \<and> skb_end_seq s1 = skb_end_seq s0 \<and> skb_data s1 = skb_data s0 \<and> skb_pcount s1 = skb_pcount s0 \<and>
      skb_flags s1 AND TCPHDR_SYN \<noteq> 0 \<and> skb_flags s1 AND TCPHDR_ACK \<noteq> 0"
      using e fl [of "skb_flags s"] s(2) by (auto simp: tcp_ecn_send_synack_def Let_def split: if_splits)
    with s0 e s(1) show thesis by (intro that [of s1 c1]) auto
  qed
  have run: "tcp_send_synack E copied c = (case tcp_transmit_skb E True s1 (c1\<lparr>c_tx := (c_tx c1)\<lparr>tcp_rtx_queue := s1 # rest\<rparr>\<rparr>) of
      None \<Rightarrow> None | Some (err, pko, skb, c) \<Rightarrow> Some (err, pko, c\<lparr>c_tx := (c_tx c)\<lparr>tcp_rtx_queue := skb # tl (tcp_rtx_queue (c_tx c))\<rparr>\<rparr>))"
    using s(2) unfolding tcp_send_synack_def q list.case r_def [symmetric] r(1) by simp
  let ?c = "c1\<lparr>c_tx := (c_tx c1)\<lparr>tcp_rtx_queue := s1 # rest\<rparr>\<rparr>"
  obtain err pko s2 c2 where tr: "u_tcp_transmit_skb E True (rcv_nxt (c_rx ?c)) s1 ?c = Some (err, pko, s2, c2)"
    using transmit_syn_returns [OF r(5,6)] by blast
  have k: "cwr_ok E" "adjust_ok (te_kern E)" using ok by (simp_all add: tx_ok_def)
  from transmit_effect(1,4) [OF k tr] obtain ts x where "tcp_rtx_queue (c_tx c2) = s1 # rest" "s2 = s1\<lparr>skb_tstamp := ts, skb_tx := x\<rparr>" by (auto simp: quiet_def)
  with run tr r show ?thesis by (simp add: tcp_transmit_skb_def)
qed

end
