(* ===== verification/Props_Connect.thy ===== *)
theory Props_Connect
  imports Connect_Safety Props_Transmit
begin

text \<open>
  The properties of opening a connection.
\<close>

section \<open>An example\<close>



definition sx_env :: synack_env where
  "sx_env = \<lparr>sa_alloc = True, sa_tx = tr_env, sa_os = demo_opt_sock, sa_user_mss = 0, sa_advmss = 1400, sa_now = 5000000,
     sa_cookie_ts = (\<lambda>r t. t), sa_ts = (\<lambda>t. ucast (t div 1000000)), sa_ao_key = None, sa_md5 = True\<rparr>"

definition sx_req :: synack_req where
  "sx_req = \<lparr>sr_opt = demo_req, sr_num = 80, sr_rmt_port = 27470, sr_ecn_ok = True, sr_snt_isn = 900, sr_rcv_nxt = 11, sr_rcv_wnd = 100000,
     sr_snt_synack = 0, sr_ids = None, sr_txhash = 0\<rparr>"


section \<open>Opening\<close>



text \<open>C40: with memory, a SYN-ACK for a peer without TCP-AO is a packet with the ports and numbers of the
  request, an unscaled window of at most 65535, a data offset that is exactly the size of header and
  options, and no option byte that is unwritten; the time of the first SYN-ACK is kept.\<close>

theorem synack_header_exact:
  assumes "synack_ready E n foc req" and "sa_alloc E"
  shows "\<exists>owned pk req'. tcp_make_synack E foc ty req = (Some (owned, pk), req') \<and>
    th_source (pk_hdr pk) = sr_num req \<and> th_dest (pk_hdr pk) = sr_rmt_port req \<and> th_seq (pk_hdr pk) = sr_snt_isn req \<and>
    th_ack_seq (pk_hdr pk) = sr_rcv_nxt req \<and> unat (th_window (pk_hdr pk)) = min (unat (sr_rcv_wnd req)) 65535 \<and>
    4 * unat (drop_bit 12 (th_word (pk_hdr pk))) = 20 + length (pk_opts pk) \<and> length (pk_opts pk) \<le> 40 \<and> None \<notin> set (pk_opts pk) \<and>
    (owned \<longleftrightarrow> ty \<noteq> TCP_SYNACK_COOKIE) \<and> (sr_snt_synack req \<noteq> 0 \<longrightarrow> sr_snt_synack req' = sr_snt_synack req)"
  by (rule synack_packet [OF assms])

theorem synack_header_exact_witness:
  "\<exists>owned pk req'. tcp_make_synack sx_env None TCP_SYNACK_NORMAL sx_req = (Some (owned, pk), req') \<and> owned \<and> th_seq (pk_hdr pk) = 900 \<and>
     unat (th_window (pk_hdr pk)) = 65535 \<and> 4 * unat (drop_bit 12 (th_word (pk_hdr pk))) = 20 + length (pk_opts pk)"
proof -
  have "synack_ready sx_env 0 None sx_req"
    using demo_ok demo_bpf_ok tr_ready
    by (simp add: synack_ready_def sx_env_def sx_req_def cookie_ok_def tcp_mss_clamp_def opts_ready_def) (simp add: tr_env_def demo_opt_sock_def)
  moreover have "sa_alloc sx_env" "sr_snt_isn sx_req = 900" "sr_rcv_wnd sx_req = 100000" by (simp_all add: sx_env_def sx_req_def)
  ultimately show ?thesis using synack_header_exact [of sx_env 0 None sx_req TCP_SYNACK_NORMAL] by auto
qed

end
