(* ===== verification/Ping_Net.thy ===== *)
theory Ping_Net
  imports Leo_Prelude "HOL-Library.Sublist"
begin

text \<open>
  What the measurement tools under \<open>src/bin\<close> share: the packet, the C library functions they call on
  strings, and the two loops that receive and send a whole buffer.  The answers of the kernel to
  \<open>recv\<close> and \<open>send\<close> are a list of events; a call that finds the list empty waits.
\<close>

section \<open>The C library\<close>

text \<open>\<open>isspace\<close> in the C locale.\<close>

definition isspace :: "char \<Rightarrow> bool" where
  "isspace c \<longleftrightarrow> c = CHR '' '' \<or> of_char c \<in> {9..13 :: nat}"

definition isdigit :: "char \<Rightarrow> bool" where
  "isdigit c \<longleftrightarrow> of_char c \<in> {48..57 :: nat}"

definition digit_val :: "char \<Rightarrow> nat" where
  "digit_val c = of_char c - 48"

definition dec_val :: "string \<Rightarrow> nat" where
  "dec_val s = foldl (\<lambda>v c. 10 * v + digit_val c) 0 s"

text \<open>\<open>atoi\<close> is \<open>strtol\<close> cut down to an \<open>int\<close>: blanks, a sign, digits, with saturation at 64 bits.\<close>

definition atoi :: "string \<Rightarrow> int" where
  "atoi s =
     (let s = dropWhile isspace s;
          (neg, s) = (case s of [] \<Rightarrow> (False, s)
            | c # r \<Rightarrow> if c = CHR ''-'' then (True, r) else if c = CHR ''+'' then (False, r) else (False, s));
          v = int (dec_val (takeWhile isdigit s));
          v = max (- (2 ^ 63)) (min (2 ^ 63 - 1) (if neg then - v else v))
      in sint (word_of_int v :: 32 word))"

text \<open>\<open>snprintf\<close> into a buffer of \<open>n\<close> bytes keeps \<open>n - 1\<close> characters.\<close>

definition snprintf :: "nat \<Rightarrow> string \<Rightarrow> string" where
  "snprintf n s = take (n - 1) s"

text \<open>\<open>fgets\<close> with a buffer of \<open>n\<close> bytes: up to a newline, included; the rest stays.  It fails at the
  end of the input.\<close>

fun fgets_line :: "nat \<Rightarrow> string \<Rightarrow> string \<times> string" where
  "fgets_line 0 s = ([], s)"
| "fgets_line (Suc n) [] = ([], [])"
| "fgets_line (Suc n) (c # s) =
     (if c = CHR 0x0A then ([c], s) else let (l, r) = fgets_line n s in (c # l, r))"

definition fgets :: "nat \<Rightarrow> string \<Rightarrow> (string \<times> string) option" where
  "fgets n s = (if s = [] \<or> n < 2 then None else Some (fgets_line (n - 1) s))"

text \<open>\<open>inet_pton(AF_INET, ...)\<close>: four numbers up to 255 without leading zeros, separated by dots.\<close>

fun split_dots :: "string \<Rightarrow> string list" where
  "split_dots [] = [[]]"
| "split_dots (c # s) =
     (if c = CHR ''.'' then [] # split_dots s
      else case split_dots s of [] \<Rightarrow> [[c]] | p # ps \<Rightarrow> (c # p) # ps)"

definition octet_ok :: "string \<Rightarrow> bool" where
  "octet_ok p \<longleftrightarrow> p \<noteq> [] \<and> list_all isdigit p \<and> dec_val p \<le> 255 \<and> (hd p = CHR ''0'' \<longrightarrow> length p = 1)"

definition inet_pton :: "string \<Rightarrow> u32 option" where
  "inet_pton s = (case split_dots s of
     [a, b, c, d] \<Rightarrow>
       if list_all octet_ok [a, b, c, d]
       then Some (of_nat (((dec_val a * 256 + dec_val b) * 256 + dec_val c) * 256 + dec_val d)) else None
   | _ \<Rightarrow> None)"

section \<open>The packet\<close>

text \<open>\<open>ping_pkt_t\<close>, packed, on a little endian host: 20 bytes.\<close>

record ping_pkt =
  pkt_magic :: u32
  pkt_seq :: u64
  pkt_send_ns :: u64

definition PING_MAGIC :: u32 where "PING_MAGIC = 0x50494E47"

definition pkt_size :: nat where "pkt_size = 20"

fun le_val :: "u8 list \<Rightarrow> nat" where
  "le_val [] = 0"
| "le_val (b # bs) = unat b + 256 * le_val bs"

definition pkt_of_bytes :: "u8 list \<Rightarrow> ping_pkt" where
  "pkt_of_bytes bs = \<lparr>pkt_magic = of_nat (le_val (take 4 bs)), pkt_seq = of_nat (le_val (take 8 (drop 4 bs))),
     pkt_send_ns = of_nat (le_val (take 8 (drop 12 bs)))\<rparr>"

section \<open>Receiving and sending\<close>

text \<open>The answer to a system call: a value, an error, an interruption by a harmless signal, or SIGINT or
  SIGTERM; \<open>Signal True\<close> restarts the call afterwards, \<open>Signal False\<close> makes it return EINTR.  An empty
  value of \<open>recv\<close> is the end of the stream; \<open>recv\<close> hands out at most what was asked for and keeps the rest.\<close>

datatype 'a ev = Ret 'a | Err | Eintr | Signal bool

datatype rw = Done | Failed | Closed | Blocked | Killed

text \<open>\<open>read_all\<close> of \<open>tcp_ping_receiver.c\<close>.  No handler is installed: SIGINT ends the process.\<close>

fun read_all :: "nat \<Rightarrow> u8 list ev list \<Rightarrow> rw \<times> u8 list \<times> u8 list ev list" where
  "read_all left [] = (if left = 0 then Done else Blocked, [], [])"
| "read_all left (e # evs) =
     (if left = 0 then (Done, [], e # evs)
      else case e of
          Err \<Rightarrow> (Failed, [], evs)
        | Eintr \<Rightarrow> read_all left evs
        | Signal _ \<Rightarrow> (Killed, [], evs)
        | Ret bs \<Rightarrow>
            if bs = [] then (Closed, [], e # evs)
            else if length bs \<le> left
            then let (r, got, evs') = read_all (left - length bs) evs in (r, bs @ got, evs')
            else (Done, take left bs, Ret (drop left bs) # evs))"

text \<open>\<open>read_all\<close> of \<open>tcp_ping_receiver_pop.c\<close>: the handler sets \<open>stop_requested\<close>.\<close>

fun read_all_pop :: "bool \<Rightarrow> nat \<Rightarrow> u8 list ev list \<Rightarrow> rw \<times> u8 list \<times> bool \<times> u8 list ev list" where
  "read_all_pop stop left [] = (if left = 0 then Done else Blocked, [], stop, [])"
| "read_all_pop stop left (e # evs) =
     (if left = 0 then (Done, [], stop, e # evs)
      else case e of
          Err \<Rightarrow> (Failed, [], stop, evs)
        | Eintr \<Rightarrow> if stop then (Failed, [], stop, evs) else read_all_pop stop left evs
        | Signal restart \<Rightarrow> if restart then read_all_pop True left evs else (Failed, [], True, evs)
        | Ret bs \<Rightarrow>
            if bs = [] then (Closed, [], stop, e # evs)
            else if length bs \<le> left
            then let (r, got, stop', evs') = read_all_pop stop (left - length bs) evs in (r, bs @ got, stop', evs')
            else (Done, take left bs, stop, Ret (drop left bs) # evs))"

text \<open>\<open>write_all\<close>: the bytes that went out.  \<open>send\<close> takes at most what it is given.\<close>

fun write_all :: "u8 list \<Rightarrow> nat ev list \<Rightarrow> rw \<times> u8 list \<times> nat ev list" where
  "write_all buf [] = (if buf = [] then Done else Blocked, [], [])"
| "write_all buf (e # evs) =
     (if buf = [] then (Done, [], e # evs)
      else case e of
          Err \<Rightarrow> (Failed, [], evs)
        | Eintr \<Rightarrow> write_all buf evs
        | Signal _ \<Rightarrow> (Killed, [], evs)
        | Ret n \<Rightarrow>
            if n = 0 then (Failed, [], evs)
            else let (r, sent, evs') = write_all (drop n buf) evs in (r, take n buf @ sent, evs'))"

fun write_all_pop :: "bool \<Rightarrow> u8 list \<Rightarrow> nat ev list \<Rightarrow> rw \<times> u8 list \<times> bool \<times> nat ev list" where
  "write_all_pop stop buf [] = (if buf = [] then Done else Blocked, [], stop, [])"
| "write_all_pop stop buf (e # evs) =
     (if buf = [] then (Done, [], stop, e # evs)
      else case e of
          Err \<Rightarrow> (Failed, [], stop, evs)
        | Eintr \<Rightarrow> if stop then (Failed, [], stop, evs) else write_all_pop stop buf evs
        | Signal restart \<Rightarrow> if restart then write_all_pop True buf evs else (Failed, [], True, evs)
        | Ret n \<Rightarrow>
            if n = 0 then (Failed, [], stop, evs)
            else let (r, sent, stop', evs') = write_all_pop stop (drop n buf) evs in (r, take n buf @ sent, stop', evs'))"

section \<open>The byte stream behind the events\<close>

text \<open>What the peer sent before the stream ended or failed.\<close>

fun stream :: "u8 list ev list \<Rightarrow> u8 list" where
  "stream [] = []"
| "stream (Ret bs # evs) = (if bs = [] then [] else bs @ stream evs)"
| "stream (Eintr # evs) = stream evs"
| "stream (Err # evs) = []"
| "stream (Signal _ # evs) = []"

text \<open>The same for the program with the handler: a restarted call goes on, and once the handler has run
  an interruption ends the reading.\<close>

fun stream_pop :: "bool \<Rightarrow> u8 list ev list \<Rightarrow> u8 list" where
  "stream_pop stop [] = []"
| "stream_pop stop (Ret bs # evs) = (if bs = [] then [] else bs @ stream_pop stop evs)"
| "stream_pop stop (Eintr # evs) = (if stop then [] else stream_pop stop evs)"
| "stream_pop stop (Err # evs) = []"
| "stream_pop stop (Signal restart # evs) = (if restart then stream_pop True evs else [])"

definition ev_size :: "u8 list ev list \<Rightarrow> nat" where
  "ev_size evs = sum_list (map (\<lambda>e. case e of Ret bs \<Rightarrow> Suc (length bs) | _ \<Rightarrow> 1) evs)"

lemma ev_size_simps [simp]:
  "ev_size [] = 0" "ev_size (Ret bs # evs) = Suc (length bs + ev_size evs)"
  "ev_size (Err # evs) = Suc (ev_size evs)" "ev_size (Eintr # evs) = Suc (ev_size evs)"
  "ev_size (Signal r # evs) = Suc (ev_size evs)"
  by (simp_all add: ev_size_def)

text \<open>A whole buffer is exactly the next bytes of the stream, however they were cut into pieces.\<close>

lemma read_all_stream:
  "read_all left evs = (r, bs, evs') \<Longrightarrow>
   if r = Done then stream evs = bs @ stream evs' \<and> length bs = left \<and> ev_size evs' + left \<le> ev_size evs
   else stream evs = bs \<and> length bs < left"
proof (induction evs arbitrary: left bs evs')
  case (Cons e evs)
  then show ?case
  proof (cases e)
    case (Ret d)
    show ?thesis
    proof (cases "left = 0 \<or> d = [] \<or> left < length d")
      case True
      with Cons.prems Ret show ?thesis by (auto split: if_splits)
    next
      case False
      with Cons.prems Ret obtain got where got: "read_all (left - length d) evs = (r, got, evs')" "bs = d @ got"
        by (auto split: prod.splits if_splits)
      with Cons.IH [OF got(1)] False Ret show ?thesis by (cases "r = Done") auto
    qed
  qed (auto split: if_splits dest!: Cons.IH)
qed (auto split: if_splits)

lemma read_all_pop_stream:
  "read_all_pop stop left evs = (r, bs, stop', evs') \<Longrightarrow>
   (stop \<longrightarrow> stop') \<and>
   (if r = Done
    then stream_pop stop evs = bs @ stream_pop stop' evs' \<and> length bs = left \<and> ev_size evs' + left \<le> ev_size evs
    else stream_pop stop evs = bs \<and> length bs < left)"
proof (induction evs arbitrary: stop left bs)
  case (Cons e evs)
  then show ?case
  proof (cases e)
    case (Ret d)
    show ?thesis
    proof (cases "left = 0 \<or> d = [] \<or> left < length d")
      case True
      with Cons.prems Ret show ?thesis by (auto split: if_splits)
    next
      case False
      with Cons.prems Ret obtain got where
        got: "read_all_pop stop (left - length d) evs = (r, got, stop', evs')" "bs = d @ got"
        by (auto split: prod.splits if_splits)
      with Cons.IH [OF got(1)] False Ret show ?thesis by (cases "r = Done") auto
    qed
  qed (auto split: if_splits dest!: Cons.IH)
qed (auto split: if_splits)

lemma prefix_take_append: "prefix xs (drop n ys) \<Longrightarrow> prefix (take n ys @ xs) ys"
  by (metis append_take_drop_id same_prefix_prefix)

lemma take_append_eq_iff: "take n ys @ xs = ys \<longleftrightarrow> xs = drop n ys"
  by (metis append_take_drop_id same_append_eq)

lemma write_all_prefix:
  "write_all buf evs = (r, sent, evs') \<Longrightarrow> prefix sent buf \<and> (r = Done \<longleftrightarrow> sent = buf)"
proof (induction evs arbitrary: buf sent)
  case (Cons e evs)
  then show ?case
    by (cases e) (auto split: if_splits prod.splits simp: prefix_take_append take_append_eq_iff dest: Cons.IH)
qed (auto split: if_splits)

lemma write_all_pop_prefix:
  "write_all_pop stop buf evs = (r, sent, stop', evs') \<Longrightarrow>
   prefix sent buf \<and> (r = Done \<longleftrightarrow> sent = buf) \<and> (stop \<longrightarrow> stop')"
proof (induction evs arbitrary: stop buf sent)
  case (Cons e evs)
  then show ?case
    by (cases e) (auto split: if_splits prod.splits simp: prefix_take_append take_append_eq_iff dest: Cons.IH)
qed (auto split: if_splits)

text \<open>A peer that takes at least one byte each time gets the whole buffer.\<close>

definition takes :: "nat ev \<Rightarrow> bool" where
  "takes e = (case e of Ret n \<Rightarrow> 0 < n | _ \<Rightarrow> False)"

lemma write_all_enough:
  assumes "list_all takes evs" and "length buf \<le> length evs"
  shows "\<exists>evs'. write_all buf evs = (Done, buf, evs') \<and> list_all takes evs' \<and> length evs \<le> length evs' + length buf"
  using assms
proof (induction evs arbitrary: buf)
  case (Cons e evs)
  then obtain n where e: "e = Ret n" "0 < n" by (auto simp: takes_def split: ev.splits)
  show ?case
  proof (cases "buf = []")
    case True
    with Cons.prems show ?thesis by simp
  next
    case False
    then have len: "length (drop n buf) \<le> length buf - 1" "0 < length buf" using e(2) by auto
    have fits: "list_all takes evs" "length (drop n buf) \<le> length evs"
      using Cons.prems len by simp_all
    obtain evs' where w: "write_all (drop n buf) evs = (Done, drop n buf, evs')" "list_all takes evs'"
        "length evs \<le> length evs' + length (drop n buf)"
      using Cons.IH [OF fits] by blast
    then have "Suc (length evs) \<le> length evs' + length buf" using len by linarith
    with False e w(1,2) show ?thesis by simp
  qed
qed simp

section \<open>Addresses\<close>

lemma split_dots_set: "x \<in> set s \<Longrightarrow> x \<noteq> CHR ''.'' \<Longrightarrow> \<exists>p \<in> set (split_dots s). x \<in> set p"
proof (induction s)
  case (Cons c s)
  then show ?case by (cases "split_dots s") auto
qed simp

text \<open>A valid address consists of digits and dots: it can stand between quotes in a command.\<close>

lemma inet_pton_chars:
  assumes "inet_pton s \<noteq> None" and "c \<in> set s"
  shows "isdigit c \<or> c = CHR ''.''"
proof -
  have "list_all octet_ok (split_dots s)"
    using assms(1) by (auto simp: inet_pton_def split: list.splits if_splits)
  then show ?thesis using split_dots_set [OF assms(2)] by (auto simp: list_all_iff octet_ok_def)
qed

end
