(* ===== verification/Ping_Receiver.thy ===== *)
theory Ping_Receiver
  imports Ping_Net
begin

text \<open>
  The echo programs \<open>tcp_ping_receiver.c\<close>, \<open>tcp_ping_receiver_pop.c\<close> and \<open>udp_ping_receiver.c\<close>:
  setting up the socket with every error path, the loop that sends every ping packet back, and, for
  the second one, the child process that pings the point of presence.
\<close>

section \<open>What the programs do to the outside\<close>

datatype call = Socket | Nodelay | Bind u32 u16 | Connect u32 u16 | Sendto "u8 list" u32 u16 | Close
  | Mkdir string | System string | Popen string | Pclose
  | Fork string | Kill int nat | Usleep nat | Waitpid int

text \<open>The kernel's answers while the socket is set up.\<close>

record net_env =
  ne_socket :: bool
  ne_bind :: bool
  ne_connect :: bool

definition pkt_good :: "u8 list \<Rightarrow> bool" where
  "pkt_good bs \<longleftrightarrow> pkt_magic (pkt_of_bytes bs) = PING_MAGIC"

section \<open>The echo loop over TCP\<close>

datatype echo_end = Recv_end rw | Send_end rw | Stopped

text \<open>The bytes sent so far, and the sequence number that was printed.\<close>

record echo_out =
  eo_sent :: "u8 list"
  eo_printed :: "u64 option"

definition echo_start :: echo_out where
  "echo_start = \<lparr>eo_sent = [], eo_printed = None\<rparr>"

definition note_sent :: "u8 list \<Rightarrow> echo_out \<Rightarrow> echo_out" where
  "note_sent bs st = st\<lparr>eo_sent := eo_sent st @ bs\<rparr>"

definition note_print :: "u8 list \<Rightarrow> echo_out \<Rightarrow> echo_out" where
  "note_print pkt st =
     (if eo_printed st = None then st\<lparr>eo_printed := Some (pkt_seq (pkt_of_bytes pkt))\<rparr> else st)"

text \<open>Every whole packet uses up part of the events.\<close>

lemma read_all_less: "(Done, bs, evs') = read_all pkt_size evs \<Longrightarrow> ev_size evs' < ev_size evs"
  using read_all_stream [of pkt_size evs Done bs evs'] by (simp add: pkt_size_def)

lemma read_all_pop_less: "(Done, bs, stop', evs') = read_all_pop stop pkt_size evs \<Longrightarrow> ev_size evs' < ev_size evs"
  using read_all_pop_stream [of stop pkt_size evs Done bs stop' evs'] by (simp add: pkt_size_def)

text \<open>The loop of \<open>tcp_ping_receiver.c\<close>.\<close>

function (sequential) echo_loop :: "u8 list ev list \<Rightarrow> nat ev list \<Rightarrow> echo_out \<Rightarrow> echo_end \<times> echo_out" where
  "echo_loop evs outs st = (case read_all pkt_size evs of
     (Done, pkt, evs') \<Rightarrow>
       if \<not> pkt_good pkt then echo_loop evs' outs st
       else (case write_all pkt outs of
           (Done, sent, outs') \<Rightarrow> echo_loop evs' outs' (note_print pkt (note_sent sent st))
         | (r, sent, outs') \<Rightarrow> (Send_end r, note_sent sent st))
   | (r, pkt, evs') \<Rightarrow> (Recv_end r, st))"
  by pat_completeness auto
termination
  by (relation "measure (\<lambda>(evs, outs, st). ev_size evs)") (auto dest: read_all_less)

text \<open>The loop of \<open>tcp_ping_receiver_pop.c\<close>, which the handler can stop between packets.\<close>

function (sequential) echo_loop_pop ::
  "bool \<Rightarrow> u8 list ev list \<Rightarrow> nat ev list \<Rightarrow> echo_out \<Rightarrow> echo_end \<times> echo_out" where
  "echo_loop_pop stop evs outs st =
     (if stop then (Stopped, st)
      else case read_all_pop stop pkt_size evs of
          (Done, pkt, stop, evs') \<Rightarrow>
            if \<not> pkt_good pkt then echo_loop_pop stop evs' outs st
            else (case write_all_pop stop pkt outs of
                (Done, sent, stop, outs') \<Rightarrow> echo_loop_pop stop evs' outs' (note_print pkt (note_sent sent st))
              | (r, sent, stop, outs') \<Rightarrow> (Send_end r, note_sent sent st))
        | (r, pkt, stop, evs') \<Rightarrow> (Recv_end r, st))"
  by pat_completeness auto
termination
  by (relation "measure (\<lambda>(stop, evs, outs, st). ev_size evs)") (auto dest: read_all_pop_less)

declare echo_loop.simps [simp del] echo_loop_pop.simps [simp del]

section \<open>Setting up\<close>

text \<open>The address to bind to: \<open>any\<close> and \<open>0.0.0.0\<close> (and a dash, in the second program) stand for all.\<close>

definition local_addr :: "bool \<Rightarrow> string \<Rightarrow> u32 option" where
  "local_addr dash local_ip =
     (if local_ip = ''any'' \<or> local_ip = ''0.0.0.0'' \<or> dash \<and> local_ip = ''-'' then Some 0
      else inet_pton local_ip)"

text \<open>From \<open>socket\<close> to \<open>connect\<close>: the calls, and whether the connection stands.\<close>

definition tcp_setup :: "net_env \<Rightarrow> u32 option \<Rightarrow> u32 option \<Rightarrow> u16 \<Rightarrow> bool \<times> call list" where
  "tcp_setup E lcl server port =
     (if \<not> ne_socket E then (False, [Socket])
      else case lcl of
          None \<Rightarrow> (False, [Socket, Nodelay, Close])
        | Some a \<Rightarrow>
            if \<not> ne_bind E then (False, [Socket, Nodelay, Bind a 0, Close])
            else (case server of
                None \<Rightarrow> (False, [Socket, Nodelay, Bind a 0, Close])
              | Some s \<Rightarrow>
                  if \<not> ne_connect E then (False, [Socket, Nodelay, Bind a 0, Connect s port, Close])
                  else (True, [Socket, Nodelay, Bind a 0, Connect s port])))"

text \<open>\<open>main\<close> of \<open>tcp_ping_receiver.c\<close>: the exit status, the calls, and the bytes sent.  A killed process
  and one that still waits have no exit status.\<close>

definition exit_status :: "echo_end \<Rightarrow> int option" where
  "exit_status e = (if e \<in> {Recv_end Blocked, Recv_end Killed, Send_end Blocked, Send_end Killed} then None else Some 0)"

definition tcp_receiver_main ::
  "net_env \<Rightarrow> u8 list ev list \<Rightarrow> nat ev list \<Rightarrow> string list \<Rightarrow> int option \<times> call list \<times> echo_out" where
  "tcp_receiver_main E evs outs argv = (case argv of
     [prog, server_ip, port, local_ip] \<Rightarrow>
       (case tcp_setup E (local_addr False local_ip) (inet_pton server_ip) (word_of_int (atoi port)) of
          (False, calls) \<Rightarrow> (Some 1, calls, echo_start)
        | (True, calls) \<Rightarrow>
            let (e, st) = echo_loop evs outs echo_start
            in (exit_status e, calls @ (if exit_status e = None then [] else [Close]), st))
   | _ \<Rightarrow> (Some 1, [], echo_start))"

section \<open>The point of presence\<close>

text \<open>\<open>trim_whitespace\<close>: the blanks in front, then the blanks at the end, one by one.\<close>

function trim_end :: "string \<Rightarrow> string" where
  "trim_end s = (if s \<noteq> [] \<and> isspace (last s) then trim_end (butlast s) else s)"
  by pat_completeness auto
termination
  by (relation "measure length") auto

declare trim_end.simps [simp del]

definition trim_whitespace :: "string \<Rightarrow> string" where
  "trim_whitespace s = trim_end (dropWhile isspace s)"

definition GET_POP_IP_SCRIPT :: string where "GET_POP_IP_SCRIPT = ''./get_pop_ip.sh''"
definition POP_PING_IFACE :: string where "POP_PING_IFACE = ''enx588694fda289''"
definition POP_PING_INTERVAL_SEC :: string where "POP_PING_INTERVAL_SEC = ''0.01''"
definition POP_OUTPUT_BASE :: string where "POP_OUTPUT_BASE = ''./logs''"
definition POP_PLOT_SCRIPT :: string where
  "POP_PLOT_SCRIPT = ''/home/dlawogud/git/starlink-TCP/graph/pop_ping.py''"

definition quoted :: "string \<Rightarrow> string" where
  "quoted s = CHR 0x27 # s @ [CHR 0x27]"

text \<open>What \<open>popen\<close>, \<open>fork\<close> and \<open>system\<close> answer: the output and the status of the script, the process id.\<close>

record pop_env =
  pe_script :: "string \<Rightarrow> (string \<times> int) option"
  pe_fork :: "int"
  pe_plot :: "string \<Rightarrow> int"

text \<open>The address, or an error.\<close>

definition get_pop_ip_from_script :: "pop_env \<Rightarrow> string \<Rightarrow> nat \<Rightarrow> string option \<times> call list" where
  "get_pop_ip_from_script P server_ip buflen =
     (if buflen = 0 then (None, [])
      else
        let cmd = snprintf 1024 (quoted GET_POP_IP_SCRIPT @ '' '' @ quoted server_ip)
        in case pe_script P cmd of
             None \<Rightarrow> (None, [Popen cmd])
           | Some (out, status) \<Rightarrow>
               (case fgets buflen out of
                  None \<Rightarrow> (None, [Popen cmd, Pclose])
                | Some (buf, _) \<Rightarrow>
                    let buf = trim_whitespace buf
                    in (if status \<noteq> 0 \<or> inet_pton buf = None then None else Some buf, [Popen cmd, Pclose])))"

text \<open>The command of the child, which pings for ever and logs.\<close>

definition pop_ping_cmd :: "string \<Rightarrow> string \<Rightarrow> string" where
  "pop_ping_cmd pop_ip pop_log = snprintf 4096
     (''echo '' @ quoted (''[INFO] pop_ip='' @ pop_ip @ '' iface='' @ POP_PING_IFACE @ '' interval='' @
        POP_PING_INTERVAL_SEC) @ '' >> '' @ quoted pop_log @ ''; '' @
      ''while true; do '' @
      ''ts=$(date +%s.%N); '' @
      ''ping -I '' @ quoted POP_PING_IFACE @ '' -c 1 -W 1 '' @ quoted pop_ip @ '' 2>&1 | '' @
      ''awk -v t='' @ [CHR 0x22] @ ''$ts'' @ [CHR 0x22] @ '' '' @
      quoted (''/time=/ {print t, $0; fflush()} /100% packet loss/ {print t, '' @ [CHR 0x22] @ ''timeout'' @ [CHR 0x22] @
        ''; fflush()}'') @ ''; '' @
      ''sleep '' @ quoted POP_PING_INTERVAL_SEC @ ''; '' @
      ''done >> '' @ quoted pop_log @ '' 2>&1'')"

text \<open>\<open>pop_ping_pid\<close> is the first result; -1 stands for no child.\<close>

definition start_pop_ping_child :: "pop_env \<Rightarrow> int \<Rightarrow> string \<Rightarrow> string \<Rightarrow> int \<times> int \<times> call list" where
  "start_pop_ping_child P pop_ping_pid pop_ip pop_log =
     (if pe_fork P < 0 then (pop_ping_pid, -1, [])
      else (pe_fork P, 0, [Fork (pop_ping_cmd pop_ip pop_log)]))"

definition SIGTERM :: nat where "SIGTERM = 15"
definition SIGKILL :: nat where "SIGKILL = 9"

definition stop_pop_ping_child :: "int \<Rightarrow> int \<times> call list" where
  "stop_pop_ping_child pop_ping_pid =
     (if pop_ping_pid > 0
      then (-1, [Kill (- pop_ping_pid) SIGTERM, Usleep (200 * 1000), Kill (- pop_ping_pid) SIGKILL,
                 Waitpid pop_ping_pid])
      else (pop_ping_pid, []))"

definition run_dir :: "string \<Rightarrow> string \<Rightarrow> string" where
  "run_dir ts sfx = snprintf 1024 (POP_OUTPUT_BASE @ ''/pop_ping_'' @ ts @ ''_'' @ sfx)"

text \<open>From the connection to the end: the child, the loop, and the clean-up.  The last result is
  \<open>pop_ping_pid\<close>.\<close>

definition pop_run ::
  "pop_env \<Rightarrow> string option \<Rightarrow> string \<Rightarrow> string \<Rightarrow> u8 list ev list \<Rightarrow> nat ev list \<Rightarrow>
   int option \<times> call list \<times> echo_out \<times> int" where
  "pop_run P pop_ip pop_log dir evs outs =
     (let (pid, started) =
            (case pop_ip of
               None \<Rightarrow> (-1, [])
             | Some ip \<Rightarrow> let (pid, _, cs) = start_pop_ping_child P (-1) ip pop_log in (pid, cs));
          (e, st) = echo_loop_pop False evs outs echo_start
      in if exit_status e = None then (None, started, st, pid)
         else
           let (pid, stopped) = stop_pop_ping_child pid;
               plot = snprintf 2048 (''python3 '' @ quoted POP_PLOT_SCRIPT @ '' '' @ quoted dir)
           in (Some 0, started @ [Close] @ stopped @ [System plot], st, pid))"

text \<open>\<open>main\<close> of \<open>tcp_ping_receiver_pop.c\<close>; \<open>ts\<close> is the formatted time.\<close>

definition pop_receiver_main ::
  "net_env \<Rightarrow> pop_env \<Rightarrow> u8 list ev list \<Rightarrow> nat ev list \<Rightarrow> string \<Rightarrow> string list \<Rightarrow>
   int option \<times> call list \<times> echo_out \<times> int" where
  "pop_receiver_main E P evs outs ts argv =
     (if length argv \<noteq> 4 \<and> length argv \<noteq> 5 then (Some 1, [], echo_start, -1)
      else
        let sfx = (if length argv \<ge> 5 then argv ! 4 else ''default'');
            dir = run_dir ts sfx;
            pop_log = snprintf 1024 (dir @ ''/pop_ping.log'');
            server_ip = argv ! 1;
            (pop_ip, calls1) = get_pop_ip_from_script P server_ip 128;
            (ok, calls2) = tcp_setup E (local_addr True (argv ! 3)) (inet_pton server_ip)
              (word_of_int (atoi (argv ! 2)));
            calls = [Mkdir POP_OUTPUT_BASE, Mkdir dir] @ calls1 @ calls2
        in if \<not> ok then (Some 1, calls, echo_start, -1)
           else let (status, calls3, st, pid) = pop_run P pop_ip pop_log dir evs outs
                in (status, calls @ calls3, st, pid))"

section \<open>The echo loop over UDP\<close>

text \<open>A datagram comes with its sender; what does not fit into the packet is cut off.  The loop has no
  end: it waits when the events are used up.  The results of \<open>sendto\<close> are ignored.\<close>

fun udp_loop :: "(u8 list \<times> u32 \<times> u16) ev list \<Rightarrow> (u64 \<times> u32 \<times> u16) option \<Rightarrow>
    call list \<times> (u64 \<times> u32 \<times> u16) option" where
  "udp_loop [] flag = ([], flag)"
| "udp_loop (Ret (dgram, addr, port) # evs) flag =
     (let pkt = take pkt_size dgram
      in if length pkt \<noteq> pkt_size \<or> \<not> pkt_good pkt then udp_loop evs flag
         else
           let flag = (if flag = None then Some (pkt_seq (pkt_of_bytes pkt), addr, port) else flag);
               (calls, flag) = udp_loop evs flag
           in (Sendto pkt addr port # calls, flag))"
| "udp_loop (Err # evs) flag = udp_loop evs flag"
| "udp_loop (Eintr # evs) flag = udp_loop evs flag"
| "udp_loop (Signal _ # evs) flag = ([], flag)"

definition register_msg :: "u8 list" where
  "register_msg = map of_char ''REGISTER''"

definition udp_receiver_main ::
  "net_env \<Rightarrow> (u8 list \<times> u32 \<times> u16) ev list \<Rightarrow> string list \<Rightarrow> int option \<times> call list" where
  "udp_receiver_main E evs argv = (case argv of
     [prog, server_ip, port, local_ip] \<Rightarrow>
       if \<not> ne_socket E then (Some 1, [Socket])
       else if \<not> ne_bind E then (Some 1, [Socket, Bind 0 0, Close])
       else (case inet_pton server_ip of
           None \<Rightarrow> (Some 1, [Socket, Bind 0 0, Close])
         | Some s \<Rightarrow>
             let reg = Sendto register_msg s (word_of_int (atoi port))
             in if \<not> ne_connect E then (Some 1, [Socket, Bind 0 0, reg, Close])
                else (None, [Socket, Bind 0 0, reg] @ fst (udp_loop evs None)))
   | _ \<Rightarrow> (Some 1, []))"

section \<open>What an echo is\<close>

text \<open>The reference: cut the stream into packets of 20 bytes and send back those with the magic number.\<close>

function echo_spec :: "u8 list \<Rightarrow> u8 list" where
  "echo_spec bs =
     (if length bs < pkt_size then []
      else (if pkt_good (take pkt_size bs) then take pkt_size bs else []) @ echo_spec (drop pkt_size bs))"
  by pat_completeness auto
termination
  by (relation "measure length") (auto simp: pkt_size_def)

declare echo_spec.simps [simp del]

text \<open>The contract between the loops and the function that reads a packet: a packet is the next 20 bytes
  of the stream, and when there is none fewer than 20 bytes are left.\<close>

locale packet_source =
  fixes rd :: "'w \<Rightarrow> (u8 list \<times> 'w) option" and strm :: "'w \<Rightarrow> u8 list"
  assumes rd_packet: "rd w = Some (pkt, w') \<Longrightarrow> strm w = pkt @ strm w' \<and> length pkt = pkt_size"
    and rd_rest: "rd w = None \<Longrightarrow> length (strm w) < pkt_size"
begin

lemma spec_packet:
  "rd w = Some (pkt, w') \<Longrightarrow> echo_spec (strm w) = (if pkt_good pkt then pkt else []) @ echo_spec (strm w')"
  using rd_packet [of w pkt w'] by (subst echo_spec.simps) simp

lemma spec_rest: "rd w = None \<Longrightarrow> echo_spec (strm w) = []"
  using rd_rest [of w] by (subst echo_spec.simps) simp

end

definition next_packet :: "u8 list ev list \<Rightarrow> (u8 list \<times> u8 list ev list) option" where
  "next_packet evs = (case read_all pkt_size evs of (r, pkt, evs') \<Rightarrow> if r = Done then Some (pkt, evs') else None)"

definition next_packet_pop :: "bool \<times> u8 list ev list \<Rightarrow> (u8 list \<times> bool \<times> u8 list ev list) option" where
  "next_packet_pop w = (case read_all_pop (fst w) pkt_size (snd w) of
     (r, pkt, w') \<Rightarrow> if r = Done then Some (pkt, w') else None)"

interpretation plain: packet_source next_packet stream
proof unfold_locales
  show "stream w = pkt @ stream w' \<and> length pkt = pkt_size" if "next_packet w = Some (pkt, w')" for w pkt w'
    using that read_all_stream [of pkt_size w]
    by (auto simp: next_packet_def split: prod.splits if_splits)
  show "length (stream w) < pkt_size" if "next_packet w = None" for w
    using that read_all_stream [of pkt_size w]
    by (cases "read_all pkt_size w") (fastforce simp: next_packet_def split: if_splits)
qed

interpretation handled: packet_source next_packet_pop "\<lambda>w. stream_pop (fst w) (snd w)"
proof unfold_locales
  show "stream_pop (fst w) (snd w) = pkt @ stream_pop (fst w') (snd w') \<and> length pkt = pkt_size"
    if "next_packet_pop w = Some (pkt, w')" for w pkt w'
    using that read_all_pop_stream [of "fst w" pkt_size "snd w"]
    by (cases w') (fastforce simp: next_packet_pop_def split: prod.splits if_splits)
  show "length (stream_pop (fst w) (snd w)) < pkt_size" if "next_packet_pop w = None" for w
    using that read_all_pop_stream [of "fst w" pkt_size "snd w"]
    by (cases "read_all_pop (fst w) pkt_size (snd w)") (fastforce simp: next_packet_pop_def split: if_splits)
qed

lemma eo_sent_note [simp]: "eo_sent (note_sent bs st) = eo_sent st @ bs" "eo_sent (note_print pkt st) = eo_sent st"
  by (simp_all add: note_sent_def note_print_def)

text \<open>The loops follow the contract: case analysis on one iteration.\<close>

lemma echo_loop_step:
  "echo_loop evs outs st = (case next_packet evs of
     None \<Rightarrow> (Recv_end (fst (read_all pkt_size evs)), st)
   | Some (pkt, evs') \<Rightarrow>
       if \<not> pkt_good pkt then echo_loop evs' outs st
       else let (r, sent, outs') = write_all pkt outs
            in if r = Done then echo_loop evs' outs' (note_print pkt (note_sent sent st))
               else (Send_end r, note_sent sent st))"
  by (subst echo_loop.simps) (auto simp: next_packet_def Let_def split: prod.split rw.split)

lemma echo_loop_pop_step:
  "echo_loop_pop stop evs outs st =
     (if stop then (Stopped, st) else case next_packet_pop (stop, evs) of
        None \<Rightarrow> (Recv_end (fst (read_all_pop stop pkt_size evs)), st)
      | Some (pkt, stop, evs') \<Rightarrow>
          if \<not> pkt_good pkt then echo_loop_pop stop evs' outs st
          else let (r, sent, stop, outs') = write_all_pop stop pkt outs
               in if r = Done then echo_loop_pop stop evs' outs' (note_print pkt (note_sent sent st))
                  else (Send_end r, note_sent sent st))"
  by (subst echo_loop_pop.simps) (auto simp: next_packet_pop_def Let_def split: prod.split rw.split)

text \<open>The bytes that go out are a prefix of the reference, and all of it when the loop ended at the
  receiving side.\<close>

definition echoes :: "u8 list \<Rightarrow> echo_out \<Rightarrow> echo_end \<Rightarrow> echo_out \<Rightarrow> bool" where
  "echoes want st e st' \<longleftrightarrow> (\<exists>out. eo_sent st' = eo_sent st @ out \<and> prefix out want \<and>
     (e \<in> range Recv_end \<longrightarrow> out = want))"

lemma echoes_none: "echoes want st e st" if "e \<in> range Recv_end \<longrightarrow> want = []"
  using that unfolding echoes_def by auto

lemma echoes_send: "prefix sent pkt \<Longrightarrow> echoes (pkt @ want) st (Send_end r) (note_sent sent st)"
  unfolding echoes_def by (auto intro: prefix_prefix)

lemma echoes_packet:
  assumes "echoes want (note_print pkt (note_sent pkt st)) e st'"
  shows "echoes (pkt @ want) st e st'"
  using assms unfolding echoes_def by auto

lemma echo_loop_echoes:
  "echo_loop evs outs st = (e, st') \<Longrightarrow> echoes (echo_spec (stream evs)) st e st'"
proof (induction "ev_size evs" arbitrary: evs outs st rule: less_induct)
  case less
  show ?case
  proof (cases "next_packet evs")
    case None
    with less.prems show ?thesis by (auto simp: echo_loop_step plain.spec_rest intro: echoes_none)
  next
    case (Some p)
    then obtain pkt evs' where p: "next_packet evs = Some (pkt, evs')" by (cases p) simp
    then have size: "ev_size evs' < ev_size evs"
      by (auto simp: next_packet_def split: prod.splits if_splits intro!: read_all_less)
    obtain r sent outs' where w: "write_all pkt outs = (r, sent, outs')" by (metis prod.exhaust)
    note spec = plain.spec_packet [OF p] and IH = less.hyps [OF size]
    from less.prems p w show ?thesis
      by (subst (asm) echo_loop_step)
        (use write_all_prefix [OF w] in \<open>auto simp: spec split: if_splits intro: IH echoes_send echoes_packet\<close>)
  qed
qed

lemma echo_loop_pop_echoes:
  "echo_loop_pop stop evs outs st = (e, st') \<Longrightarrow> echoes (echo_spec (stream_pop stop evs)) st e st'"
proof (induction "ev_size evs" arbitrary: stop evs outs st rule: less_induct)
  case less
  show ?case
  proof (cases "stop \<or> next_packet_pop (stop, evs) = None")
    case True
    with less.prems handled.spec_rest [of "(stop, evs)"] show ?thesis
      by (auto simp: echo_loop_pop_step split: if_splits intro: echoes_none)
  next
    case False
    then obtain pkt stop1 evs' where p: "next_packet_pop (stop, evs) = Some (pkt, stop1, evs')" by auto
    then have size: "ev_size evs' < ev_size evs"
      by (auto simp: next_packet_pop_def split: prod.splits if_splits dest!: sym [THEN read_all_pop_less])
    obtain r sent stop2 outs' where w: "write_all_pop stop1 pkt outs = (r, sent, stop2, outs')" by (metis prod.exhaust)
    have spec: "echo_spec (stream_pop stop evs) = (if pkt_good pkt then pkt else []) @ echo_spec (stream_pop stop1 evs')"
      using handled.spec_packet [OF p] by simp
    note IH = less.hyps [OF size] and pre = write_all_pop_prefix [OF w]
    have after: "echoes (echo_spec (stream_pop stop1 evs')) st1 e st'"
      if "echo_loop_pop stop2 evs' outs' st1 = (e, st')" for st1
    proof (cases "stop2 = stop1")
      case True
      with IH [OF that] show ?thesis by simp
    next
      case False
      with pre that show ?thesis by (auto simp: echo_loop_pop_step intro: echoes_none)
    qed
    from less.prems p w False show ?thesis unfolding spec
      by (subst (asm) echo_loop_pop_step)
        (use pre in \<open>auto split: if_splits intro: IH after echoes_send echoes_packet\<close>)
  qed
qed

lemma echo_loop_sends_all:
  assumes "list_all takes outs" and "length (echo_spec (stream evs)) \<le> length outs"
  shows "fst (echo_loop evs outs st) \<in> range Recv_end"
  using assms
proof (induction "ev_size evs" arbitrary: evs outs st rule: less_induct)
  case less
  show ?case
  proof (cases "next_packet evs")
    case None
    then show ?thesis by (simp add: echo_loop_step)
  next
    case (Some p)
    then obtain pkt evs' where p: "next_packet evs = Some (pkt, evs')" by (cases p) simp
    then have size: "ev_size evs' < ev_size evs"
      by (auto simp: next_packet_def split: prod.splits if_splits intro!: read_all_less)
    note spec = plain.spec_packet [OF p]
    show ?thesis
    proof (cases "pkt_good pkt")
      case True
      with less.prems spec obtain outs' where w: "write_all pkt outs = (Done, pkt, outs')" "list_all takes outs'"
          "length outs \<le> length outs' + length pkt"
        using write_all_enough [of outs pkt] by auto
      with True less.prems spec less.hyps [OF size w(2)] p show ?thesis by (simp add: echo_loop_step)
    next
      case False
      with less.prems spec less.hyps [OF size, of outs] p show ?thesis by (simp add: echo_loop_step)
    qed
  qed
qed

section \<open>Error paths\<close>

text \<open>The five ways in which setting up fails.\<close>

definition setup_fails :: "net_env \<Rightarrow> u32 option \<Rightarrow> u32 option \<Rightarrow> bool" where
  "setup_fails E lcl server \<longleftrightarrow> \<not> ne_socket E \<or> lcl = None \<or> \<not> ne_bind E \<or> server = None \<or> \<not> ne_connect E"

lemma tcp_setup_ok: "fst (tcp_setup E lcl server port) \<longleftrightarrow> \<not> setup_fails E lcl server"
  by (auto simp: tcp_setup_def setup_fails_def split: option.split)

lemma tcp_setup_closes:
  "count_list (snd (tcp_setup E lcl server port)) Close =
     (if setup_fails E lcl server \<and> ne_socket E then 1 else 0)"
  by (auto simp: tcp_setup_def setup_fails_def split: option.split)

lemma tcp_setup_connects:
  "Connect s p \<in> set (snd (tcp_setup E lcl server port)) \<Longrightarrow> server = Some s \<and> p = port"
  by (auto simp: tcp_setup_def split: option.splits if_splits)

definition process_free :: "call list \<Rightarrow> bool" where
  "process_free cs \<longleftrightarrow> (\<forall>cmd. Fork cmd \<notin> set cs) \<and> (\<forall>g sig. Kill g sig \<notin> set cs)"

lemma tcp_setup_no_process: "tcp_setup E lcl server port = (ok, cs) \<Longrightarrow> process_free cs"
  by (auto simp: tcp_setup_def process_free_def split: option.splits if_splits)

lemma get_pop_ip_no_process: "get_pop_ip_from_script P srv n = (ip, cs) \<Longrightarrow> process_free cs"
  by (auto simp: get_pop_ip_from_script_def process_free_def Let_def split: option.splits if_splits)

lemma get_pop_ip_valid: "get_pop_ip_from_script P srv n = (Some ip, cs) \<Longrightarrow> inet_pton ip \<noteq> None"
  by (auto simp: get_pop_ip_from_script_def Let_def split: option.splits if_splits)

text \<open>The child of one run, and its end.\<close>

lemma pop_run_cases:
  assumes "pop_run P pop_ip pop_log dir evs outs = (status, calls, st, pid)" and "pe_fork P \<noteq> 0"
  obtains (child) ip plot where "pop_ip = Some ip" "0 < pe_fork P"
      "calls = [Fork (pop_ping_cmd ip pop_log)] @ (if status = None then [] else
        [Close, Kill (- pe_fork P) SIGTERM, Usleep 200000, Kill (- pe_fork P) SIGKILL, Waitpid (pe_fork P), System plot])"
      "status \<noteq> None \<longrightarrow> pid = -1"
    | (alone) "process_free calls" "pid = -1"
  using assms
  by (auto simp: pop_run_def start_pop_ping_child_def stop_pop_ping_child_def process_free_def Let_def
      split: option.splits if_splits prod.splits)

lemma pop_main_cases:
  assumes "pop_receiver_main E P evs outs ts argv = (status, calls, st, pid)" and "pe_fork P \<noteq> 0"
  obtains (child) ip log plot before where "inet_pton ip \<noteq> None" "process_free before"
      "calls = before @ [Fork (pop_ping_cmd ip log)] @ (if status = None then [] else
        [Close, Kill (- pe_fork P) SIGTERM, Usleep 200000, Kill (- pe_fork P) SIGKILL, Waitpid (pe_fork P), System plot])"
      "status \<noteq> None \<longrightarrow> pid = -1"
    | (alone) "process_free calls" "pid = -1"
proof (cases "length argv \<noteq> 4 \<and> length argv \<noteq> 5")
  case True
  with assms(1) that(2) show thesis by (auto simp: pop_receiver_main_def process_free_def)
next
  case False
  obtain ip cs1 where 1: "get_pop_ip_from_script P (argv ! 1) 128 = (ip, cs1)" by fastforce
  obtain ok cs2 where 2: "tcp_setup E (local_addr True (argv ! 3)) (inet_pton (argv ! 1))
      (word_of_int (atoi (argv ! 2))) = (ok, cs2)" by fastforce
  define dir where "dir = run_dir ts (if length argv \<ge> 5 then argv ! 4 else ''default'')"
  define log where "log = snprintf 1024 (dir @ ''/pop_ping.log'')"
  define pre where "pre = [Mkdir POP_OUTPUT_BASE, Mkdir dir] @ cs1 @ cs2"
  have pre: "process_free pre"
    using get_pop_ip_no_process [OF 1] tcp_setup_no_process [OF 2] by (auto simp: pre_def process_free_def)
  have main: "(if \<not> ok then (Some 1, pre, echo_start, -1)
      else let (status, calls3, st, pid) = pop_run P ip log dir evs outs in (status, pre @ calls3, st, pid)) =
      (status, calls, st, pid)"
    using assms(1) False 1 2 by (auto simp: pop_receiver_main_def pre_def dir_def log_def Let_def)
  show thesis
  proof (cases ok)
    case False
    with main pre that(2) show thesis by auto
  next
    case True
    with main obtain cs3 where 3: "pop_run P ip log dir evs outs = (status, cs3, st, pid)" "calls = pre @ cs3"
      by (auto split: prod.splits)
    from 3(1) assms(2) show thesis
    proof (cases rule: pop_run_cases)
      case (child a plot)
      with pre 3(2) get_pop_ip_valid [OF 1 [unfolded child(1)]] show thesis by (intro that(1)) auto
    next
      case alone
      with pre 3(2) show thesis by (intro that(2)) (auto simp: process_free_def)
    qed
  qed
qed

section \<open>Trimming\<close>

lemma trim_end_spec: "trim_end s = rev (dropWhile isspace (rev s))"
proof (induction s rule: rev_induct)
  case (snoc c s)
  then show ?case by (subst trim_end.simps) simp
qed (simp add: trim_end.simps)

end
