(* ===== verification/Ping_Monitor.thy ===== *)
theory Ping_Monitor
  imports Ping_Net "HOL-Library.Log_Nat"
begin

text \<open>
  The program \<open>monitor_ping.c\<close>: it reads the output of \<open>ping\<close>, and sends every round trip time, and
  every long gap between two lines, to the kernel over netlink.  Time stamps are pairs of seconds and
  microseconds.  The gap is compared exactly: its double precision value in milliseconds is on the same
  side of an integral threshold, as both are at least a microsecond apart or equal.
\<close>

section \<open>Text\<close>

text \<open>\<open>strstr\<close>: the rest of the text from the first occurrence.\<close>

fun strstr :: "string \<Rightarrow> string \<Rightarrow> string option" where
  "strstr [] pat = (if pat = [] then Some [] else None)"
| "strstr (c # s) pat = (if prefix pat (c # s) then Some (c # s) else strstr s pat)"

text \<open>Printing with \<open>%d\<close>.\<close>

fun show_nat :: "nat \<Rightarrow> string" where
  "show_nat n = (if n < 10 then [char_of (48 + n)] else show_nat (n div 10) @ [char_of (48 + n mod 10)])"

definition show_int :: "int \<Rightarrow> string" where
  "show_int i = (if i < 0 then CHR ''-'' # show_nat (nat (- i)) else show_nat (nat i))"

section \<open>Double precision\<close>

text \<open>The double nearest to \<open>n / d\<close>, ties to even, as significand of 53 bits and exponent.\<close>

definition scaled :: "nat \<Rightarrow> nat \<Rightarrow> int \<Rightarrow> nat \<times> nat" where
  "scaled n d e = (if 0 \<le> e then (n * 2 ^ nat e, d) else (n, d * 2 ^ nat (- e)))"

definition half_even :: "nat \<Rightarrow> nat \<Rightarrow> nat" where
  "half_even n d = (let q = n div d; r = n mod d
     in if 2 * r < d then q else if 2 * r > d then q + 1 else if even q then q else q + 1)"

definition dbl :: "nat \<Rightarrow> nat \<Rightarrow> nat \<times> int" where
  "dbl n d =
     (if n = 0 then (0, 0)
      else
        let k = int (floorlog 2 n) - int (floorlog 2 d);
            (n', d') = scaled n d (53 - k);
            s = (if n' \<ge> d' * 2 ^ 53 then 52 - k else 53 - k);
            (n', d') = scaled n d s
        in (half_even n' d', - s))"

text \<open>A decimal numeral without exponent, as \<open>ping\<close> prints it: the digits and how many of them are
  behind the point.\<close>

definition decimal :: "string \<Rightarrow> nat \<times> nat" where
  "decimal s =
     (let s = dropWhile isspace s;
          whole = takeWhile isdigit s;
          rest = drop (length whole) s;
          frac = (case rest of c # r \<Rightarrow> if c = CHR ''.'' then takeWhile isdigit r else [] | [] \<Rightarrow> [])
      in (dec_val (whole @ frac), length frac))"

text \<open>\<open>(int)(atof(s) * 1000)\<close>: both operations round, the conversion cuts off.\<close>

definition atof_1000 :: "string \<Rightarrow> int" where
  "atof_1000 s =
     (let (n, k) = decimal s;
          (m, e) = dbl n (10 ^ k);
          (n', d') = scaled (m * 1000) 1 e;
          (m, e) = dbl n' d';
          (n', d') = scaled m 1 e
      in int (n' div d'))"

section \<open>Reports\<close>

record rtt_data =
  rd_sec :: u64
  rd_usec :: u32
  rd_text :: string
  rd_is_reconfig :: u32

type_synonym timeval = "int \<times> int"

text \<open>The round trip time in a line, 0 if there is none.\<close>

definition rtt_value :: "string \<Rightarrow> int" where
  "rtt_value buffer = (case strstr buffer ''time='' of
     None \<Rightarrow> 0
   | Some s \<Rightarrow>
       let rtt_str = drop (length ''time='') s
       in case strstr rtt_str '' ms'' of
            None \<Rightarrow> 0
          | Some rest \<Rightarrow> atof_1000 (take (length rtt_str - length rest) rtt_str))"

definition gap_us :: "timeval \<Rightarrow> timeval \<Rightarrow> int" where
  "gap_us now last_time = (fst now - fst last_time) * 1000000 + (snd now - snd last_time)"

definition report :: "timeval \<Rightarrow> int \<Rightarrow> u32 \<Rightarrow> rtt_data" where
  "report now rtt flag = \<lparr>rd_sec = word_of_int (fst now), rd_usec = word_of_int (snd now),
     rd_text = snprintf 16 (show_int rtt), rd_is_reconfig = flag\<rparr>"

text \<open>One line of \<open>ping\<close>.\<close>

definition monitor_step :: "int \<Rightarrow> timeval \<Rightarrow> timeval \<Rightarrow> string \<Rightarrow> rtt_data option" where
  "monitor_step THRESHOLD last_time now buffer =
     (let rtt = rtt_value buffer
      in if gap_us now last_time > THRESHOLD * 1000 then Some (report now rtt 1)
         else if rtt > 0 then Some (report now rtt 0)
         else None)"

text \<open>The loop; \<open>clocks\<close> are the answers of \<open>gettimeofday\<close>.\<close>

fun monitor_loop :: "int \<Rightarrow> string \<Rightarrow> timeval \<Rightarrow> timeval list \<Rightarrow> rtt_data list" where
  "monitor_loop T out last_time [] = []"
| "monitor_loop T out last_time (now # clocks) = (case fgets 128 out of
     None \<Rightarrow> []
   | Some (buffer, out') \<Rightarrow>
       (case monitor_step T last_time now buffer of None \<Rightarrow> [] | Some d \<Rightarrow> [d]) @ monitor_loop T out' now clocks)"

section \<open>Netlink\<close>

text \<open>The header and the payload; the kernel has process id 0.\<close>

record nlmsg =
  nl_len :: nat
  nl_pid :: int
  nl_flags :: nat
  nl_data :: rtt_data

definition NLMSG_SPACE :: "nat \<Rightarrow> nat" where
  "NLMSG_SPACE n = (n + 16 + 3) div 4 * 4"

definition sizeof_rtt_data :: nat where "sizeof_rtt_data = 32"

text \<open>\<open>None\<close> if \<open>malloc\<close> fails.\<close>

definition send_rtt_to_kernel :: "bool \<Rightarrow> int \<Rightarrow> rtt_data \<Rightarrow> nlmsg option" where
  "send_rtt_to_kernel malloc_ok pid data =
     (if \<not> malloc_ok then None
      else Some \<lparr>nl_len = NLMSG_SPACE sizeof_rtt_data, nl_pid = pid, nl_flags = 0, nl_data = data\<rparr>)"

text \<open>\<open>main\<close>: the exit status, the messages, and whether the netlink socket was opened and closed.
  \<open>malloc_ok\<close> says whether there is memory for the n-th message, \<open>popen\<close> gives the output of the command or fails.\<close>

record monitor_out =
  mo_status :: int
  mo_sent :: "nlmsg list"
  mo_opened :: bool
  mo_closed :: bool

definition monitor_main ::
  "bool \<Rightarrow> (nat \<Rightarrow> bool) \<Rightarrow> (string \<Rightarrow> string option) \<Rightarrow> int \<Rightarrow> timeval list \<Rightarrow> string list \<Rightarrow> monitor_out" where
  "monitor_main sock_ok malloc_ok popen pid clocks argv =
     (let argc = length argv;
          THRESHOLD = (if argc = 3 then atoi (argv ! 2) else 45)
      in if argc < 2 then \<lparr>mo_status = -1, mo_sent = [], mo_opened = False, mo_closed = False\<rparr>
         else if \<not> sock_ok then \<lparr>mo_status = -1, mo_sent = [], mo_opened = False, mo_closed = False\<rparr>
         else case popen (snprintf 256 (''ping -i 0.01 '' @ argv ! 1)) of
             None \<Rightarrow> \<lparr>mo_status = -1, mo_sent = [], mo_opened = True, mo_closed = True\<rparr>
           | Some out \<Rightarrow>
               let ds = monitor_loop THRESHOLD out (hd clocks) (tl clocks)
               in \<lparr>mo_status = 0, mo_sent = List.map_filter (\<lambda>(i, d). send_rtt_to_kernel (malloc_ok i) pid d) (enumerate 0 ds),
                   mo_opened = True, mo_closed = True\<rparr>)"

section \<open>Numbers as text\<close>

lemma digit_char: "n < 10 \<Longrightarrow> isdigit (char_of (48 + n)) \<and> digit_val (char_of (48 + n)) = n"
  by (simp add: isdigit_def digit_val_def of_char_of)

declare show_nat.simps [simp del]

lemma show_nat_digits: "list_all isdigit (show_nat n) \<and> show_nat n \<noteq> [] \<and> dec_val (show_nat n) = n"
proof (induction n rule: show_nat.induct)
  case (1 n)
  then show ?case
    using digit_char [of "n mod 10"] digit_char [of n]
    by (subst (1 2 3) show_nat.simps) (auto simp: dec_val_def)
qed

lemma show_nat_length: "0 < k \<Longrightarrow> n < 10 ^ k \<Longrightarrow> length (show_nat n) \<le> k"
proof (induction k arbitrary: n)
  case (Suc k)
  show ?case
  proof (cases "n < 10")
    case True
    then show ?thesis by (simp add: show_nat.simps)
  next
    case False
    with Suc.prems have "0 < k" "n div 10 < 10 ^ k" by (cases k; simp add: less_mult_imp_div_less mult.commute)+
    with Suc.IH [of "n div 10"] False show ?thesis by (subst show_nat.simps) simp
  qed
qed simp

lemma digit_not_space: "isdigit c \<Longrightarrow> \<not> isspace c \<and> c \<noteq> CHR ''-'' \<and> c \<noteq> CHR ''+''"
  by (auto simp: isdigit_def isspace_def)

lemma atoi_show_nat:
  assumes "n < 2 ^ 31"
  shows "atoi (show_nat n) = int n"
proof -
  have d: "list_all isdigit (show_nat n)" "show_nat n \<noteq> []" "dec_val (show_nat n) = n"
    using show_nat_digits by blast+
  then obtain c s where s: "show_nat n = c # s" "isdigit c" by (cases "show_nat n") auto
  have "takeWhile isdigit (show_nat n) = show_nat n"
    using d(1) by (simp add: list_all_iff takeWhile_eq_all_conv)
  then have "takeWhile isdigit (c # s) = c # s" "dec_val (c # s) = n" using d(3) s by simp_all
  moreover have "sint (word_of_int (int n) :: 32 word) = int n"
    using assms by (simp add: signed_of_nat signed_take_bit_int_eq_self)
  ultimately show ?thesis
    using digit_not_space [OF s(2)] assms by (simp add: atoi_def s(1) Let_def)
qed

lemma rtt_value_nat: "\<exists>n. rtt_value buffer = int n"
  by (auto simp: rtt_value_def atof_1000_def Let_def split: option.split prod.split intro: exI [of _ 0])

end
