(* ===== verification/Spec2Isabelle.thy ===== *)
theory Spec2Isabelle
  imports Props_Controller Props_Window Props_Sysctl Props_Options Props_Send Props_Retrans Props_Transmit Props_Ack Props_Connect Props_Ping
begin

text \<open>
  \<^bold>\<open>The program.\<close>  The repository measures TCP over Starlink and changes the receive side of the Linux
  kernel's TCP so that the advertised window shrinks before a satellite handover and grows again after
  it.  Its parts are:

  \<^item> a dynamic receive window controller (\<open>redhat_kernel/tcp_redhat.c\<close>, \<open>tcp_redhat.h\<close>), which learns round
    trip time and rate, predicts the next handover, freezes a plan for it and computes a window per phase;
  \<^item> a fixed-schedule controller and the window selection of \<open>redhat_kernel/tcp_output.c\<close>, which call the
    controllers for every ACK (\<open>tcp_select_window\<close>);
  \<^item> the sysctl interface of \<open>redhat_kernel/sysctl_net_ipv4.c\<close>, which writes the settings both controllers
    read (\<open>struct netns_ipv4\<close> of \<open>ipv4.h\<close>, boot values in \<open>tcp_ipv4.c\<close>);
  \<^item> the sending half of \<open>tcp_output.c\<close>: TCP options, segment queues, the decisions of \<open>tcp_write_xmit\<close>,
    retransmission, probes, the FIN, ACKs, small queues, the SYN and the SYN-ACK; every packet goes through
    \<open>__tcp_transmit_skb\<close>, which takes its window from the window selection;
  \<^item> user programs under \<open>bin\<close>: echo receivers for pings over TCP and UDP and a monitor that reports round
    trip times to the kernel.

  \<^bold>\<open>Theories.\<close>  C integers are words of their width; a struct is a record with the fields the modelled code
  uses; a function that changes state takes and returns the record; errors are return values as in C, and a
  \<open>BUG_ON\<close>, a division by zero or a counter below zero is \<open>None\<close>; calls that leave the modelled code are
  logged in order.  What the sources call but do not contain is a field of an environment record (\<open>kern\<close>,
  \<open>procfs\<close>, \<open>opt_env\<close>, \<open>seg_env\<close>, \<open>snd_env\<close>, \<open>tx_env\<close>, \<open>rtx_env\<close>, \<open>push_env\<close>, \<open>ack_env\<close>, \<open>connect_env\<close>,
  \<open>synack_env\<close>, \<open>net_env\<close>, \<open>pop_env\<close>), with what the proofs need of it as a named predicate; short inline
  helpers and macros of the kernel headers (\<open>before\<close>, \<open>min_t\<close>, \<open>DIV_ROUND_UP\<close>, \<open>tcp_packets_in_flight\<close>,
  \<open>sk_free\<close>, \<open>sock_put\<close>) are written out.

  \<^item> \<open>Leo_Prelude\<close>: types, kernel arithmetic, the collection \<open>wnat\<close> for moving from words to numbers.
  \<^item> \<open>Leo_State\<close>: phases, controller state, settings, socket (\<open>tcp_redhat.h\<close>, \<open>ipv4.h\<close>, \<open>tcp_sk_init\<close>).
  \<^item> \<open>Leo_Measure\<close>, \<open>Leo_Control\<close>: every function of \<open>tcp_redhat.c\<close>, in its order.
  \<^item> \<open>Leo_Schedule\<close>: an abstract timeline over numbers that \<open>leo_phase\<close> refines.
  \<^item> \<open>Leo_Invariant\<close>: the invariant of the controller state, its preservation, and reachable states as an
    inductive predicate over controller calls interleaved with the rest of TCP.
  \<^item> \<open>Rwnd_Select\<close>: fixed controller, \<open>__tcp_select_window\<close>, \<open>tcp_select_window\<close>, initial window.
  \<^item> \<open>Leo_Example\<close>: concrete inputs.
  \<^item> \<open>Sysctl_Table\<close>, \<open>Sysctl_Settings\<close>, \<open>Sysctl_Handlers\<close>: the two tables with every entry, their bounds and
    registration, and every handler of \<open>sysctl_net_ipv4.c\<close>.
  \<^item> \<open>Tcp_Options\<close>, \<open>Option_Wire\<close>: \<open>tcp_syn_options\<close>, \<open>tcp_synack_options\<close>, \<open>tcp_established_options\<close>,
    \<open>tcp_options_write\<close>, and a reader of the wire format as the reference.
  \<^item> \<open>Tcp_Segment\<close>: segments, packet counts, \<open>tcp_fragment\<close>, \<open>tso_fragment\<close>, \<open>tcp_trim_head\<close>; the locale
    \<open>segment_split\<close> is the contract of a split, which both ways of splitting satisfy.
  \<^item> \<open>Tcp_Send\<close>, \<open>Send_Safety\<close>: segment sizes, Nagle rules, window tests, deferral, pacing, chronograph, the
    loop of \<open>tcp_write_xmit\<close> and what follows it; and their invariant.
  \<^item> \<open>Tcp_Transmit\<close>, \<open>Transmit_Safety\<close>: ECN and \<open>__tcp_transmit_skb\<close> as a whole; here the sending half, the
    options, the window selection and the controller meet in one record \<open>conn\<close>.
  \<^item> \<open>Tcp_Retrans\<close>, \<open>Retrans_Safety\<close>, \<open>Retrans_Send\<close>, \<open>Retrans_Walk\<close>: \<open>tcp_retransmit_skb\<close> with trimming,
    splitting and collapsing, and \<open>tcp_xmit_retransmit_queue\<close>; the scoreboard of lost, retransmitted and
    acknowledged packets as their invariant.
  \<^item> \<open>Tcp_Push\<close>, \<open>Push_Safety\<close>, \<open>Push_Stream\<close>: \<open>tcp_mtu_probe\<close>, \<open>tcp_write_xmit\<close> as a whole, the loss probe,
    the calls that push, and \<open>tcp_send_fin\<close>.
  \<^item> \<open>Tcp_Ack\<close>, \<open>Ack_Safety\<close>: ACKs, delayed ACKs, resets and window probes with their timers.
  \<^item> \<open>Tcp_Tsq\<close>, \<open>Tsq_Safety\<close>: small queues: \<open>tcp_wfree\<close>, the tasklets, \<open>tcp_release_cb\<close> and the pacing timer,
    and the interleavings of all of them as an inductive step relation.
  \<^item> \<open>Tcp_Connect\<close>, \<open>Connect_Safety\<close>: \<open>tcp_connect\<close> with Fast Open, \<open>tcp_send_synack\<close>, \<open>tcp_make_synack\<close>.
  \<^item> \<open>Ping_Net\<close>, \<open>Ping_Receiver\<close>, \<open>Ping_Monitor\<close>: the user programs; the locale \<open>packet_source\<close> is the contract
    of the two receive loops.
  \<^item> \<open>Props_Controller\<close>, \<open>Props_Window\<close>, \<open>Props_Sysctl\<close>, \<open>Props_Options\<close>, \<open>Props_Ping\<close>, \<open>Props_Send\<close>,
    \<open>Props_Retrans\<close>, \<open>Props_Transmit\<close>, \<open>Props_Ack\<close>, \<open>Props_Connect\<close>: the properties, each at a concrete
    input as well.

  \<^bold>\<open>What is shown.\<close>  Of the dynamic controller: the right edge of the window is held through a handover, the window is
  between the frozen floor and the ordinary window, the phases follow the abstract timeline in order
  without wrap-around, and a plan is released (C1 to C8). Of the window selection: an offered window is
  not taken back, and where the repository's changes break this (C9 to C11). Of the sysctls: entries fit
  their fields, registration does not leak, and no sequence of writes gives settings the controllers
  cannot work with (C12 to C16). Of the options: they fit, fill the header exactly and read back (C17 to
  C19). Of the programs: what they echo, how they fail, that the child is reaped (C20 to C22). Of sending:
  the loop stays within both windows and loses, repeats and reorders nothing; splitting keeps the queues
  contiguous and counted (C23 to C25). Of retransmission: segments stay within the peer's window and the
  congestion window, the scoreboard stays exact, and the walk returns (C26 to C29). Of transmission and
  pushing: the header is exact, the window is the one the receive path remembers, the controller stays in
  reachable states; probes and the FIN keep the stream (C30 to C34). Of ACKs and small queues: an ACK is
  sent or its timer is armed, a closed window is probed again, and in every interleaving a socket is
  queued at most once and alive while it is referred to (C35 to C38). Of opening: the SYN and the data of
  Fast Open start the stream, and the SYN-ACK is exact (C39 to C40).

  \<^bold>\<open>Bounds and fuel.\<close>  The loops of \<open>tcp_write_xmit\<close> and of the retransmission queue take one answer of the
  environment per round and are undefined when they run out; one per queued byte and segment suffices, and
  both are shown to return then (C28, C33).  The invariants ask that queued data and the peer's window are
  below half of the sequence space, and that the packets of a segment fit its 16 bit counter, as the
  kernel's size limits ensure.  The tasklet takes as many rounds as its list is long.  The loops of the user
  programs recurse over the events they receive and wait when there are none.  All other functions are
  total.

  Of concurrency, small queues are modelled by atomic steps: a call of \<open>tcp_wfree\<close> and a round of a tasklet
  are one step each, with the values of the flags that a failing exchange finds as parameters.  All other
  functions run under the socket lock and are sequential.

  \<^bold>\<open>Not modelled.\<close>  Of \<open>tcp_ipv4.c\<close> all but the boot values of the settings: it is connection set-up,
  demultiplexing and \<open>/proc\<close> output that the repository does not change.  \<open>tcp.h\<close> but for the flags of small
  queues: it declares the structures whose fields the records have.  Log messages, trace points, most
  counters for statistics, and the references of pages; the Python and shell scripts, which parse logs and
  draw graphs.
\<close>

end
